(* ===== verification/Prelude.thy ===== *)
theory Prelude
  imports Complex_Main "HOL-Library.AList" "HOL-Library.List_Lexorder"
    "HOL-Library.Char_ord" "HOL-Library.Product_Lexorder"
begin

text \<open>
  The shared vocabulary of the development: Python's exceptions as one datatype, JSON values,
  Python dictionaries as insertion-ordered association lists, and stateful code as state
  passing programs that return either an exception or a value together with the state they
  leave behind. An exception does not roll the state back, exactly as in the source.
  The second half holds the program logic: Hoare triples with an exceptional postcondition and
  the locale \<open>effect\<close>, which proves once that a reflexive and transitive relation between the
  state before and after is respected by every way of composing programs.
\<close>

section \<open>Exceptions and JSON values\<close>

datatype json =
    JNull
  | JBool bool
  | JInt int
  | JNum rat
  | JStr string
  | JArr "json list"
  | JObj "(string \<times> json) list"

text \<open>
  One constructor per exception class the modelled code raises or catches; the string is the
  message. \<open>ProposalError\<close> also carries the error code of the class, \<open>HTTPException\<close> the status and
  the body of the answer.
\<close>

datatype exn =
    ValueError string
  | InvalidTransition string
  | CompileError string
  | ProposalError string string
  | RuntimeError string
  | SchedulingError string
  | StoreCorruptionError string
  | WorkerProtocolError string
  | WorkerClientError string
  | DriverError string
  | DockerError string
  | DockerTimeout string
  | HarnessError string
  | GpuSamplingError string
  | OSError string
  | FileExistsError string
  | TimeoutError string
  | KeyError string
  | TypeError string
  | AttributeError string
  | AssertionError
  | StopIteration
  | ConnectionClosed
  | WebSocketDisconnect
  | TimeoutExpired
  | JSONDecodeError string
  | ValidationError string
  | HTTPException int json
  | MCPAdapterError string
  | HTTPError string
  | SystemExit string
  | FileNotFoundError string
  | PermissionError string

text \<open>The exception hierarchy: which classes an \<open>except\<close> clause for a base class catches.\<close>

fun is_ValueError :: "exn \<Rightarrow> bool" where
  "is_ValueError (ValueError _) = True"
| "is_ValueError (InvalidTransition _) = True"
| "is_ValueError (CompileError _) = True"
| "is_ValueError (ProposalError _ _) = True"
| "is_ValueError (JSONDecodeError _) = True"
| "is_ValueError (ValidationError _) = True"
| "is_ValueError _ = False"

fun is_RuntimeError :: "exn \<Rightarrow> bool" where
  "is_RuntimeError (RuntimeError _) = True"
| "is_RuntimeError (SchedulingError _) = True"
| "is_RuntimeError (StoreCorruptionError _) = True"
| "is_RuntimeError (WorkerProtocolError _) = True"
| "is_RuntimeError (WorkerClientError _) = True"
| "is_RuntimeError (DriverError _) = True"
| "is_RuntimeError (DockerError _) = True"
| "is_RuntimeError (DockerTimeout _) = True"
| "is_RuntimeError (HarnessError _) = True"
| "is_RuntimeError (GpuSamplingError _) = True"
| "is_RuntimeError (MCPAdapterError _) = True"
| "is_RuntimeError _ = False"

fun is_OSError :: "exn \<Rightarrow> bool" where
  "is_OSError (OSError _) = True"
| "is_OSError (FileExistsError _) = True"
| "is_OSError (TimeoutError _) = True"
| "is_OSError (FileNotFoundError _) = True"
| "is_OSError (PermissionError _) = True"
| "is_OSError _ = False"

fun exn_message :: "exn \<Rightarrow> string" where
  "exn_message (ValueError m) = m"
| "exn_message (InvalidTransition m) = m"
| "exn_message (CompileError m) = m"
| "exn_message (ProposalError m c) = m"
| "exn_message (RuntimeError m) = m"
| "exn_message (SchedulingError m) = m"
| "exn_message (StoreCorruptionError m) = m"
| "exn_message (WorkerProtocolError m) = m"
| "exn_message (WorkerClientError m) = m"
| "exn_message (DriverError m) = m"
| "exn_message (DockerError m) = m"
| "exn_message (DockerTimeout m) = m"
| "exn_message (HarnessError m) = m"
| "exn_message (GpuSamplingError m) = m"
| "exn_message (OSError m) = m"
| "exn_message (FileExistsError m) = m"
| "exn_message (TimeoutError m) = m"
| "exn_message (KeyError m) = m"
| "exn_message (TypeError m) = m"
| "exn_message (AttributeError m) = m"
| "exn_message AssertionError = []"
| "exn_message StopIteration = []"
| "exn_message ConnectionClosed = []"
| "exn_message WebSocketDisconnect = []"
| "exn_message TimeoutExpired = []"
| "exn_message (JSONDecodeError m) = m"
| "exn_message (ValidationError m) = m"
| "exn_message (HTTPException _ _) = []"
| "exn_message (MCPAdapterError m) = m"
| "exn_message (HTTPError m) = m"
| "exn_message (SystemExit m) = m"
| "exn_message (FileNotFoundError m) = m"
| "exn_message (PermissionError m) = m"

text \<open>\<open>value.get(name)\<close> on a decoded object: \<open>None\<close> is both a missing key and \<open>null\<close>.\<close>

definition jget :: "(string \<times> json) list \<Rightarrow> string \<Rightarrow> json" where
  "jget d k = (case map_of d k of None \<Rightarrow> JNull | Some v \<Rightarrow> v)"

section \<open>Programs: state passing with exceptions\<close>

type_synonym ('s, 'a) prog = "'s \<Rightarrow> (exn + 'a) \<times> 's"

definition returnP :: "'a \<Rightarrow> ('s, 'a) prog" where
  "returnP x = (\<lambda>s. (Inr x, s))"

definition raiseP :: "exn \<Rightarrow> ('s, 'a) prog" where
  "raiseP e = (\<lambda>s. (Inl e, s))"

definition bindP :: "('s, 'a) prog \<Rightarrow> ('a \<Rightarrow> ('s, 'b) prog) \<Rightarrow> ('s, 'b) prog" where
  "bindP m f = (\<lambda>s. case m s of (Inl e, t) \<Rightarrow> (Inl e, t) | (Inr x, t) \<Rightarrow> f x t)"

definition readP :: "('s \<Rightarrow> 'a) \<Rightarrow> ('s, 'a) prog" where
  "readP f = (\<lambda>s. (Inr (f s), s))"

definition updateP :: "('s \<Rightarrow> 's) \<Rightarrow> ('s, unit) prog" where
  "updateP f = (\<lambda>s. (Inr (), f s))"

definition whenP :: "bool \<Rightarrow> ('s, unit) prog \<Rightarrow> ('s, unit) prog" where
  "whenP b m = (if b then m else returnP ())"

definition checkP :: "bool \<Rightarrow> exn \<Rightarrow> ('s, unit) prog" where
  "checkP b e = (if b then returnP () else raiseP e)"

text \<open>\<open>try: m except <class>: h\<close>, where \<open>c\<close> says which exceptions the clause catches.\<close>

definition catchP :: "('s, 'a) prog \<Rightarrow> (exn \<Rightarrow> bool) \<Rightarrow> (exn \<Rightarrow> ('s, 'a) prog) \<Rightarrow> ('s, 'a) prog" where
  "catchP m c h = (\<lambda>s. case m s of (Inl e, t) \<Rightarrow> (if c e then h e t else (Inl e, t)) | (Inr x, t) \<Rightarrow> (Inr x, t))"

text \<open>\<open>try: m finally: c\<close>: an exception of the clean-up replaces the result of \<open>m\<close>.\<close>

definition finallyP :: "('s, 'a) prog \<Rightarrow> ('s, unit) prog \<Rightarrow> ('s, 'a) prog" where
  "finallyP m c = (\<lambda>s. case m s of (r, t) \<Rightarrow> (case c t of (Inl e, u) \<Rightarrow> (Inl e, u) | (Inr _, u) \<Rightarrow> (r, u)))"

lemma finallyP_state: "snd (finallyP m c s) = snd (c (snd (m s)))"
  by (auto simp: finallyP_def split: prod.split sum.split)

text \<open>A \<open>for\<close> loop, and the list comprehension that collects the results.\<close>

primrec forP :: "'a list \<Rightarrow> ('a \<Rightarrow> ('s, 'b) prog) \<Rightarrow> ('s, 'b list) prog" where
  "forP [] f = returnP []"
| "forP (x # xs) f = bindP (f x) (\<lambda>y. bindP (forP xs f) (\<lambda>ys. returnP (y # ys)))"

text \<open>\<open>all(f(x) for x in xs)\<close>: stops at the first \<open>False\<close>.\<close>

primrec allP :: "'a list \<Rightarrow> ('a \<Rightarrow> ('s, bool) prog) \<Rightarrow> ('s, bool) prog" where
  "allP [] f = returnP True"
| "allP (x # xs) f = bindP (f x) (\<lambda>b. if b then allP xs f else returnP False)"

lemmas prog_simps = returnP_def raiseP_def bindP_def readP_def updateP_def whenP_def checkP_def

lemma returnP_apply [simp]: "returnP x s = (Inr x, s)" by (simp add: returnP_def)
lemma raiseP_apply [simp]: "raiseP e s = (Inl e, s)" by (simp add: raiseP_def)
lemma readP_apply [simp]: "readP f s = (Inr (f s), s)" by (simp add: readP_def)
lemma updateP_apply [simp]: "updateP f s = (Inr (), f s)" by (simp add: updateP_def)

lemma bindP_apply:
  "bindP m f s = (case m s of (Inl e, t) \<Rightarrow> (Inl e, t) | (Inr x, t) \<Rightarrow> f x t)"
  by (simp add: bindP_def)

lemma bindP_assoc: "bindP (bindP m f) g = bindP m (\<lambda>x. bindP (f x) g)"
  by (auto simp: bindP_def fun_eq_iff split: prod.splits sum.splits)

lemma bindP_Inr:
  assumes "bindP m f s = (Inr y, u)"
  obtains x t where "m s = (Inr x, t)" and "f x t = (Inr y, u)"
  using assms by (auto simp: bindP_def split: prod.splits sum.splits)

lemma bindP_step: "m s = (Inr x, t) \<Longrightarrow> bindP m k s = k x t"
  by (simp add: bindP_def)

lemma length_forP: "forP xs f s = (Inr ys, t) \<Longrightarrow> length ys = length xs"
  by (induction xs arbitrary: s ys) (auto simp: bindP_def split: prod.splits sum.splits)

section \<open>Hoare triples with an exceptional postcondition\<close>

definition triple ::
  "('s \<Rightarrow> bool) \<Rightarrow> ('s, 'a) prog \<Rightarrow> ('a \<Rightarrow> 's \<Rightarrow> bool) \<Rightarrow> (exn \<Rightarrow> 's \<Rightarrow> bool) \<Rightarrow> bool" where
  "triple P m Q E \<longleftrightarrow> (\<forall>s. P s \<longrightarrow> (case m s of (Inl e, t) \<Rightarrow> E e t | (Inr x, t) \<Rightarrow> Q x t))"

lemma tripleI:
  "(\<And>s. P s \<Longrightarrow> (case m s of (Inl e, t) \<Rightarrow> E e t | (Inr x, t) \<Rightarrow> Q x t)) \<Longrightarrow> triple P m Q E"
  by (simp add: triple_def)

lemma triple_Inr: "triple P m Q E \<Longrightarrow> P s \<Longrightarrow> m s = (Inr x, t) \<Longrightarrow> Q x t"
  by (fastforce simp: triple_def)

lemma triple_Inl: "triple P m Q E \<Longrightarrow> P s \<Longrightarrow> m s = (Inl e, t) \<Longrightarrow> E e t"
  by (fastforce simp: triple_def)

lemma triple_return: "triple (Q x) (returnP x) Q E"
  by (simp add: triple_def)

lemma triple_raise: "triple (E e) (raiseP e) Q E"
  by (simp add: triple_def)

lemma triple_bind:
  "triple P m R E \<Longrightarrow> (\<And>x. triple (R x) (f x) Q E) \<Longrightarrow> triple P (bindP m f) Q E"
  by (fastforce simp: triple_def bindP_def split: prod.splits sum.splits)

lemma triple_read: "(\<And>s. P s \<Longrightarrow> Q (f s) s) \<Longrightarrow> triple P (readP f) Q E"
  by (simp add: triple_def)

lemma triple_update: "(\<And>s. P s \<Longrightarrow> Q () (f s)) \<Longrightarrow> triple P (updateP f) Q E"
  by (simp add: triple_def)

lemma triple_when:
  "(b \<Longrightarrow> triple P m Q E) \<Longrightarrow> (\<not> b \<Longrightarrow> (\<And>s. P s \<Longrightarrow> Q () s)) \<Longrightarrow> triple P (whenP b m) Q E"
  by (auto simp: triple_def whenP_def)

lemma triple_if:
  "(b \<Longrightarrow> triple P m Q E) \<Longrightarrow> (\<not> b \<Longrightarrow> triple P n Q E) \<Longrightarrow> triple P (if b then m else n) Q E"
  by simp

lemma triple_conseq:
  "triple P' m Q' E' \<Longrightarrow> (\<And>s. P s \<Longrightarrow> P' s) \<Longrightarrow> (\<And>x s. Q' x s \<Longrightarrow> Q x s) \<Longrightarrow>
   (\<And>e s. E' e s \<Longrightarrow> E e s) \<Longrightarrow> triple P m Q E"
  by (fastforce simp: triple_def split: prod.splits sum.splits)

lemma triple_catch:
  "triple P m Q E' \<Longrightarrow> (\<And>e. c e \<Longrightarrow> triple (E' e) (h e) Q E) \<Longrightarrow>
   (\<And>e s. \<not> c e \<Longrightarrow> E' e s \<Longrightarrow> E e s) \<Longrightarrow> triple P (catchP m c h) Q E"
  unfolding triple_def catchP_def by (auto split: prod.splits sum.splits if_splits) force+

text \<open>A loop with an invariant over the elements done and still to do.\<close>

lemma triple_for:
  assumes "\<And>done x rest. xs = done @ x # rest \<Longrightarrow>
      triple (I done) (f x) (\<lambda>_. I (done @ [x])) E"
  shows "triple (I []) (forP xs f) (\<lambda>_. I xs) E"
proof -
  have "triple (I done) (forP rest f) (\<lambda>_. I xs) E" if "xs = done @ rest" for "done" rest
    using that
  proof (induction rest arbitrary: "done")
    case Nil
    then show ?case by (simp add: triple_def)
  next
    case (Cons x rest)
    have 1: "triple (I done) (f x) (\<lambda>_. I (done @ [x])) E"
      using assms Cons.prems by blast
    have 2: "triple (I (done @ [x])) (forP rest f) (\<lambda>_. I xs) E"
      using Cons.IH [of "done @ [x]"] Cons.prems by simp
    show ?case
      unfolding forP.simps
      by (rule triple_bind [OF 1], rule triple_bind [OF 2]) (simp add: triple_def)
  qed
  from this [of "[]" xs] show ?thesis by simp
qed

section \<open>Effects: what a program may do to the state\<close>

definition obeys :: "('s \<Rightarrow> 's \<Rightarrow> bool) \<Rightarrow> ('s, 'a) prog \<Rightarrow> bool" where
  "obeys R m \<longleftrightarrow> (\<forall>s. R s (snd (m s)))"

lemma obeysD: "obeys R m \<Longrightarrow> m s = (r, t) \<Longrightarrow> R s t"
  by (metis obeys_def snd_conv)

lemma obeysI: "(\<And>s. R s (snd (m s))) \<Longrightarrow> obeys R m"
  by (simp add: obeys_def)

text \<open>
  Any reflexive and transitive relation between the state before and the state after is kept
  by every composition of programs that keep it.
\<close>

locale effect =
  fixes R :: "'s \<Rightarrow> 's \<Rightarrow> bool"
  assumes effect_refl: "R s s"
    and effect_trans: "R s t \<Longrightarrow> R t u \<Longrightarrow> R s u"
begin

lemma eff_return: "obeys R (returnP x)"
  by (simp add: obeys_def effect_refl)

lemma eff_raise: "obeys R (raiseP e)"
  by (simp add: obeys_def effect_refl)

lemma eff_read: "obeys R (readP f)"
  by (simp add: obeys_def effect_refl)

lemma eff_check: "obeys R (checkP b e)"
  by (simp add: obeys_def checkP_def effect_refl)

lemma eff_step: "obeys R m \<Longrightarrow> m s = (r, t) \<Longrightarrow> (\<And>u. R t u \<Longrightarrow> R s u)"
  using effect_trans by (auto dest: obeysD)

lemma eff_bind:
  assumes "obeys R m" and "\<And>x. obeys R (f x)"
  shows "obeys R (bindP m f)"
proof (rule obeysI)
  fix s
  obtain r t where m: "m s = (r, t)" by fastforce
  show "R s (snd (bindP m f s))"
    by (cases r; rule eff_step [OF assms(1) m])
       (use assms(2) m in \<open>auto simp: bindP_def obeys_def effect_refl\<close>)
qed

lemma eff_when: "(b \<Longrightarrow> obeys R m) \<Longrightarrow> obeys R (whenP b m)"
  by (simp add: whenP_def eff_return)

lemma eff_if: "(b \<Longrightarrow> obeys R m) \<Longrightarrow> (\<not> b \<Longrightarrow> obeys R n) \<Longrightarrow> obeys R (if b then m else n)"
  by simp

lemma eff_catch:
  assumes "obeys R m" and "\<And>e. obeys R (h e)"
  shows "obeys R (catchP m c h)"
proof (rule obeysI)
  fix s
  obtain r t where m: "m s = (r, t)" by fastforce
  show "R s (snd (catchP m c h s))"
    by (cases r; rule eff_step [OF assms(1) m])
       (use assms(2) m in \<open>auto simp: catchP_def obeys_def effect_refl\<close>)
qed

lemma eff_finally:
  assumes "obeys R m" and "obeys R c"
  shows "obeys R (finallyP m c)"
proof (rule obeysI)
  fix s
  obtain r t where m: "m s = (r, t)" by fastforce
  obtain q u where c: "c t = (q, u)" by fastforce
  show "R s (snd (finallyP m c s))"
    by (cases q; rule eff_step [OF assms(1) m])
       (use obeysD [OF assms(2) c] m c in \<open>auto simp: finallyP_def\<close>)
qed

lemma eff_for: "(\<And>x. x \<in> set xs \<Longrightarrow> obeys R (f x)) \<Longrightarrow> obeys R (forP xs f)"
  by (induction xs) (auto intro: eff_return eff_bind)

lemma eff_all: "(\<And>x. x \<in> set xs \<Longrightarrow> obeys R (f x)) \<Longrightarrow> obeys R (allP xs f)"
  by (induction xs) (auto intro!: eff_return eff_bind eff_if)

end

text \<open>An invariant of the state is such a relation: a program keeps it on every exit.\<close>

definition keeps :: "('s \<Rightarrow> bool) \<Rightarrow> 's \<Rightarrow> 's \<Rightarrow> bool" where
  "keeps I s t \<longleftrightarrow> (I s \<longrightarrow> I t)"

interpretation keeps: effect "keeps I" for I
  by unfold_locales (auto simp: keeps_def)

lemma keepsD: "obeys (keeps I) m \<Longrightarrow> I s \<Longrightarrow> I (snd (m s))"
  by (simp add: obeys_def keeps_def)

lemma triple_keeps: "obeys (keeps I) m \<Longrightarrow> triple I m (\<lambda>_. I) (\<lambda>_. I)"
proof (rule tripleI)
  fix s
  assume "obeys (keeps I) m" "I s"
  then have "I (snd (m s))" by (rule keepsD)
  then show "case m s of (Inl e, t) \<Rightarrow> I t | (Inr x, t) \<Rightarrow> I t"
    by (cases "m s"; cases "fst (m s)") auto
qed

lemma triple_any: "triple P m (\<lambda>_ _. True) (\<lambda>_ _. True)"
  by (auto simp: triple_def split: prod.split sum.split)

lemma triple_keeps_any: "obeys (keeps I) m \<Longrightarrow> triple I m (\<lambda>_. I) (\<lambda>_ _. True)"
  by (erule triple_conseq [OF triple_keeps]) simp_all

section \<open>Fallible functions without state\<close>

definition bindE :: "exn + 'a \<Rightarrow> ('a \<Rightarrow> exn + 'b) \<Rightarrow> exn + 'b" where
  "bindE m f = (case m of Inl e \<Rightarrow> Inl e | Inr x \<Rightarrow> f x)"

primrec mapE :: "('a \<Rightarrow> exn + 'b) \<Rightarrow> 'a list \<Rightarrow> exn + 'b list" where
  "mapE f [] = Inr []"
| "mapE f (x # xs) = bindE (f x) (\<lambda>y. bindE (mapE f xs) (\<lambda>ys. Inr (y # ys)))"

text \<open>A fallible function as a program that leaves the state alone.\<close>

definition liftE :: "exn + 'a \<Rightarrow> ('s, 'a) prog" where
  "liftE x = (\<lambda>s. (x, s))"

lemma bindE_simps [simp]: "bindE (Inl e) f = Inl e" "bindE (Inr x) f = f x"
  by (simp_all add: bindE_def)

lemma bindE_Inr: "bindE m f = Inr y \<longleftrightarrow> (\<exists>x. m = Inr x \<and> f x = Inr y)"
  by (cases m) simp_all

lemma mapE_Inr: "mapE f xs = Inr ys \<longleftrightarrow> list_all2 (\<lambda>x y. f x = Inr y) xs ys"
  by (induction xs arbitrary: ys) (auto simp: bindE_Inr list_all2_Cons1)

context effect
begin

lemma eff_lift: "obeys R (liftE x)"
  by (simp add: obeys_def liftE_def effect_refl)

end

section \<open>Python dictionaries\<close>

text \<open>
  A dictionary keeps its insertion order, so it is an association list with \<open>AList.update\<close>
  (in place, or appended when the key is new) and \<open>AList.delete\<close>. \<open>ddistinct\<close> is the
  representation invariant: no key occurs twice.
\<close>

type_synonym ('k, 'v) dict = "('k \<times> 'v) list"

definition ddistinct :: "('k, 'v) dict \<Rightarrow> bool" where
  "ddistinct d \<longleftrightarrow> distinct (map fst d)"

definition dvalues :: "('k, 'v) dict \<Rightarrow> 'v list" where
  "dvalues d = map snd d"

lemma ddistinct_update [simp]: "ddistinct d \<Longrightarrow> ddistinct (AList.update k v d)"
  by (simp add: ddistinct_def distinct_update)

lemma ddistinct_delete [simp]: "ddistinct d \<Longrightarrow> ddistinct (AList.delete k d)"
  by (simp add: ddistinct_def distinct_delete)

lemma ddistinct_Nil [simp]: "ddistinct []"
  by (simp add: ddistinct_def)

lemma dupdate_lookup: "map_of (AList.update k v d) j = (if j = k then Some v else map_of d j)"
  by (simp add: update_conv)

lemma ddelete_lookup: "map_of (AList.delete k d) j = (if j = k then None else map_of d j)"
  by (simp add: delete_conv)

lemma dupdate_fresh: "k \<notin> fst ` set d \<Longrightarrow> AList.update k v d = d @ [(k, v)]"
  by (induction d) auto

lemma ddelete_fresh: "k \<notin> fst ` set d \<Longrightarrow> AList.delete k d = d"
  by (induction d) (auto simp: AList.delete_eq)

lemma ddelete_append: "AList.delete k (d @ e) = AList.delete k d @ AList.delete k e"
  by (simp add: AList.delete_eq)

lemma dupdate_append:
  "k \<notin> fst ` set d \<Longrightarrow> AList.update k v (d @ e) = d @ AList.update k v e"
  by (induction d) auto

lemma dvalues_mem: "ddistinct d \<Longrightarrow> v \<in> set (dvalues d) \<longleftrightarrow> (\<exists>k. map_of d k = Some v)"
  unfolding ddistinct_def dvalues_def by (force simp: image_iff)

section \<open>Text\<close>

text \<open>
  A Python string is the list of the bytes of its UTF-8 encoding; comparing those lists
  lexicographically is comparing code points, so \<open>sorted\<close> on strings is \<open>sort\<close> here.
\<close>

definition starts_with :: "string \<Rightarrow> string \<Rightarrow> bool" where
  "starts_with p s \<longleftrightarrow> take (length p) s = p"

definition ends_with :: "string \<Rightarrow> string \<Rightarrow> bool" where
  "ends_with p s \<longleftrightarrow> length p \<le> length s \<and> drop (length s - length p) s = p"

primrec contains :: "string \<Rightarrow> string \<Rightarrow> bool" where
  "contains p [] \<longleftrightarrow> p = []"
| "contains p (c # s) \<longleftrightarrow> starts_with p (c # s) \<or> contains p s"

lemma starts_with_append: "starts_with p s \<longleftrightarrow> (\<exists>t. s = p @ t)"
  unfolding starts_with_def by (metis append_eq_conv_conj append_take_drop_id)

lemma ends_with_append: "ends_with p s \<longleftrightarrow> (\<exists>t. s = t @ p)"
  unfolding ends_with_def
  by (metis add_diff_cancel_right' append_eq_conv_conj append_take_drop_id le_add2 length_append)

lemma contains_iff: "contains p s \<longleftrightarrow> (\<exists>a b. s = a @ p @ b)"
proof (induction s)
  case Nil
  then show ?case by auto
next
  case (Cons c s)
  show ?case
  proof
    assume "contains p (c # s)"
    then consider "starts_with p (c # s)" | "contains p s" by auto
    then show "\<exists>a b. c # s = a @ p @ b"
    proof cases
      case 1
      then show ?thesis by (auto simp: starts_with_append intro: exI [of _ "[]"])
    next
      case 2
      with Cons.IH obtain a b where "s = a @ p @ b" by blast
      then have "c # s = (c # a) @ p @ b" by simp
      then show ?thesis by blast
    qed
  next
    assume "\<exists>a b. c # s = a @ p @ b"
    then obtain a b where ab: "c # s = a @ p @ b" by blast
    show "contains p (c # s)"
    proof (cases a)
      case Nil
      with ab have "starts_with p (c # s)" by (auto simp: starts_with_append)
      then show ?thesis by simp
    next
      case (Cons x a')
      with ab have "s = a' @ p @ b" by simp
      with Cons.IH show ?thesis by auto
    qed
  qed
qed

definition is_digit :: "char \<Rightarrow> bool" where
  "is_digit c \<longleftrightarrow> CHR ''0'' \<le> c \<and> c \<le> CHR ''9''"

definition is_lower :: "char \<Rightarrow> bool" where
  "is_lower c \<longleftrightarrow> CHR ''a'' \<le> c \<and> c \<le> CHR ''z''"

definition is_upper :: "char \<Rightarrow> bool" where
  "is_upper c \<longleftrightarrow> CHR ''A'' \<le> c \<and> c \<le> CHR ''Z''"

definition is_alnum :: "char \<Rightarrow> bool" where
  "is_alnum c \<longleftrightarrow> is_lower c \<or> is_upper c \<or> is_digit c"

definition is_hex :: "char \<Rightarrow> bool" where
  "is_hex c \<longleftrightarrow> is_digit c \<or> (CHR ''a'' \<le> c \<and> c \<le> CHR ''f'')"

text \<open>The character classes by the bits of the character, for evaluation.\<close>

lemma is_digit_code [code]:
  "is_digit (Char b0 b1 b2 b3 b4 b5 b6 b7) \<longleftrightarrow>
     \<not> b7 \<and> \<not> b6 \<and> b5 \<and> b4 \<and> (\<not> b3 \<or> (\<not> b2 \<and> \<not> b1))"
  by (cases b7; cases b6; cases b5; cases b4; cases b3; cases b2; cases b1; cases b0;
      simp add: is_digit_def less_eq_char_def)

lemma is_lower_code [code]:
  "is_lower (Char b0 b1 b2 b3 b4 b5 b6 b7) \<longleftrightarrow>
     \<not> b7 \<and> b6 \<and> b5 \<and> (b4 \<or> b3 \<or> b2 \<or> b1 \<or> b0) \<and> \<not> (b4 \<and> b3 \<and> (b2 \<or> (b1 \<and> b0)))"
  by (cases b7; cases b6; cases b5; cases b4; cases b3; cases b2; cases b1; cases b0;
      simp add: is_lower_def less_eq_char_def)

lemma is_upper_code [code]:
  "is_upper (Char b0 b1 b2 b3 b4 b5 b6 b7) \<longleftrightarrow>
     \<not> b7 \<and> b6 \<and> \<not> b5 \<and> (b4 \<or> b3 \<or> b2 \<or> b1 \<or> b0) \<and> \<not> (b4 \<and> b3 \<and> (b2 \<or> (b1 \<and> b0)))"
  by (cases b7; cases b6; cases b5; cases b4; cases b3; cases b2; cases b1; cases b0;
      simp add: is_upper_def less_eq_char_def)

lemma is_hex_code [code]:
  "is_hex (Char b0 b1 b2 b3 b4 b5 b6 b7) \<longleftrightarrow>
     \<not> b7 \<and> b5 \<and> (if b6 then \<not> b4 \<and> \<not> b3 \<and> (b2 \<or> b1 \<or> b0) \<and> \<not> (b2 \<and> b1 \<and> b0)
        else b4 \<and> (\<not> b3 \<or> (\<not> b2 \<and> \<not> b1)))"
  by (cases b7; cases b6; cases b5; cases b4; cases b3; cases b2; cases b1; cases b0;
      simp add: is_hex_def is_digit_def less_eq_char_def)

text \<open>ASCII white space, as \<open>str.isspace\<close> and \<open>\<s>\<close> see it.\<close>

definition is_space :: "char \<Rightarrow> bool" where
  "is_space c \<longleftrightarrow> c \<in> {CHR '' '', CHR 0x09, CHR 0x0A, CHR 0x0B, CHR 0x0C, CHR 0x0D,
     CHR 0x1C, CHR 0x1D, CHR 0x1E, CHR 0x1F}"

definition py_strip :: "string \<Rightarrow> string" where
  "py_strip s = rev (dropWhile is_space (rev (dropWhile is_space s)))"

text \<open>Decimal rendering of a natural number and of an integer, as \<open>str\<close> does.\<close>

fun show_nat :: "nat \<Rightarrow> string" where
  "show_nat n = (if n < 10 then [char_of (48 + n)] else show_nat (n div 10) @ [char_of (48 + n mod 10)])"

declare show_nat.simps [simp del]

definition show_int :: "int \<Rightarrow> string" where
  "show_int i = (if i < 0 then CHR ''-'' # show_nat (nat (- i)) else show_nat (nat i))"

primrec join :: "string \<Rightarrow> string list \<Rightarrow> string" where
  "join sep [] = []"
| "join sep (x # xs) = (if xs = [] then x else x @ sep @ join sep xs)"

end
