(* ===== verification/Domain_Models.thy ===== *)
theory Domain_Models
  imports Prelude "HOL-Library.Word"
begin

unbundle bit_operations_syntax

text \<open>
  The strict domain objects of \<open>src/agent_scheduler/domain/models.py\<close>: the enums as datatypes,
  the frozen models as records (a field's name carries the model's prefix, since several models
  share field names; the constant \<open>schema_version\<close> and \<open>gpu_type\<close> literals are left out), and
  each model's field constraints and validators as a predicate \<open>valid_<model>\<close>. Times are
  microseconds since the epoch.
\<close>

section \<open>Annotated string types\<close>

text \<open>\<open>ID\<close>: \<^verbatim>\<open>^[a-z][a-z0-9_]*_[0-9a-f]{32}$\<close>. The tail has a fixed length, so it is split off first.\<close>

definition valid_id :: "string \<Rightarrow> bool" where
  "valid_id s \<longleftrightarrow> length s \<ge> 34 \<and>
     (let n = length s - 33; p = take n s; r = drop n s
      in is_lower (hd p) \<and> list_all (\<lambda>c. is_lower c \<or> is_digit c \<or> c = CHR ''_'') p
         \<and> hd r = CHR ''_'' \<and> list_all is_hex (tl r))"

definition valid_sha256 :: "string \<Rightarrow> bool" where
  "valid_sha256 s \<longleftrightarrow> length s = 64 \<and> list_all is_hex s"

definition valid_signature :: "string \<Rightarrow> bool" where
  "valid_signature s \<longleftrightarrow> length s = 88 \<and> drop 86 s = ''=='' \<and>
     list_all (\<lambda>c. is_alnum c \<or> c = CHR ''+'' \<or> c = CHR ''/'') (take 86 s)"

text \<open>
  \<open>AbsolutePath\<close>: \<^verbatim>\<open>^/(?:[A-Za-z0-9_.-]+/?)+$\<close>, that is a leading slash followed by a non-empty
  run of allowed characters and single slashes that does not start with a slash.
\<close>

definition is_path_char :: "char \<Rightarrow> bool" where
  "is_path_char c \<longleftrightarrow> is_alnum c \<or> c = CHR ''_'' \<or> c = CHR ''.'' \<or> c = CHR ''-''"

fun single_slashes :: "string \<Rightarrow> bool" where
  "single_slashes (a # b # s) \<longleftrightarrow> \<not> (a = CHR ''/'' \<and> b = CHR ''/'') \<and> single_slashes (b # s)"
| "single_slashes _ \<longleftrightarrow> True"

fun valid_abs_path :: "string \<Rightarrow> bool" where
  "valid_abs_path (c # s) \<longleftrightarrow> c = CHR ''/'' \<and> s \<noteq> [] \<and> single_slashes (c # s) \<and>
     list_all (\<lambda>c. is_path_char c \<or> c = CHR ''/'') s"
| "valid_abs_path [] \<longleftrightarrow> False"

definition valid_image_digest :: "string \<Rightarrow> bool" where
  "valid_image_digest s \<longleftrightarrow> length s > 72 \<and>
     (let n = length s - 72
      in list_all (\<lambda>c. is_alnum c \<or> c \<in> set ''./:_-'') (take n s)
         \<and> take 8 (drop n s) = ''@sha256:'' \<and> list_all is_hex (drop 8 (drop n s)))"

text \<open>\<open>username\<close> and \<open>submitter_username\<close>: \<^verbatim>\<open>^[A-Za-z0-9_.-]{1,64}$\<close>.\<close>

definition valid_username :: "string \<Rightarrow> bool" where
  "valid_username s \<longleftrightarrow> 1 \<le> length s \<and> length s \<le> 64 \<and> list_all is_path_char s"

text \<open>
  \<open>max_length\<close> counts code points, and \<open>string\<close> holds UTF-8 bytes: every byte that is not a
  continuation byte (10xxxxxx) starts one code point.
\<close>

definition py_len :: "string \<Rightarrow> nat" where
  "py_len s = length (filter (\<lambda>c. \<not> (of_char c div 64 = (2 :: nat))) s)"

section \<open>Enums\<close>

datatype proposal_state =
    P_CLARIFYING | P_AWAITING_CONFIRMATION | P_IN_REVIEW | P_CHANGES_REQUESTED | P_APPROVED
  | P_REJECTED | P_COMPILING | P_COMPILED | P_COMPILE_FAILED | P_PROCESSING_ERROR
  | P_CANCELLED | P_EXPIRED

datatype task_state =
    T_CREATED | T_QUEUED | T_BLOCKED | T_PREPARING | T_RESERVED | T_DISPATCHED | T_STARTING
  | T_RUNNING | T_FINALIZING | T_COMPLETED | T_FAILED | T_CANCELLED | T_CLEANUP_FAILED
  | T_RECONCILIATION_REQUIRED

datatype review_decision = APPROVE | REQUEST_CHANGES | REJECT

datatype command_kind = INLINE_BASH | CONTAINER_PATH_BASH

datatype gpu_state = G_AVAILABLE | G_LEASED | G_DRIFTED | G_UNKNOWN

text \<open>The \<open>value\<close> of an enum member, which events and status records carry.\<close>

fun proposal_value :: "proposal_state \<Rightarrow> string" where
  "proposal_value P_CLARIFYING = ''CLARIFYING''"
| "proposal_value P_AWAITING_CONFIRMATION = ''AWAITING_CONFIRMATION''"
| "proposal_value P_IN_REVIEW = ''IN_REVIEW''"
| "proposal_value P_CHANGES_REQUESTED = ''CHANGES_REQUESTED''"
| "proposal_value P_APPROVED = ''APPROVED''"
| "proposal_value P_REJECTED = ''REJECTED''"
| "proposal_value P_COMPILING = ''COMPILING''"
| "proposal_value P_COMPILED = ''COMPILED''"
| "proposal_value P_COMPILE_FAILED = ''COMPILE_FAILED''"
| "proposal_value P_PROCESSING_ERROR = ''PROCESSING_ERROR''"
| "proposal_value P_CANCELLED = ''CANCELLED''"
| "proposal_value P_EXPIRED = ''EXPIRED''"

fun task_value :: "task_state \<Rightarrow> string" where
  "task_value T_CREATED = ''CREATED''"
| "task_value T_QUEUED = ''QUEUED''"
| "task_value T_BLOCKED = ''BLOCKED''"
| "task_value T_PREPARING = ''PREPARING''"
| "task_value T_RESERVED = ''RESERVED''"
| "task_value T_DISPATCHED = ''DISPATCHED''"
| "task_value T_STARTING = ''STARTING''"
| "task_value T_RUNNING = ''RUNNING''"
| "task_value T_FINALIZING = ''FINALIZING''"
| "task_value T_COMPLETED = ''COMPLETED''"
| "task_value T_FAILED = ''FAILED''"
| "task_value T_CANCELLED = ''CANCELLED''"
| "task_value T_CLEANUP_FAILED = ''CLEANUP_FAILED''"
| "task_value T_RECONCILIATION_REQUIRED = ''RECONCILIATION_REQUIRED''"

section \<open>Commands\<close>

record command =
  cmd_kind :: command_kind
  cmd_script :: "string option"
  cmd_container_path :: "string option"
  cmd_sha256 :: "string option"
  cmd_argv :: "string list"

text \<open>
  The validator's search for background commands: an ampersand with none beside it, or one of
  the words \<open>nohup\<close>, \<open>disown\<close>, \<open>daemonize\<close> between word boundaries. Word characters are the
  ASCII ones (and every byte of a longer code point).
\<close>

fun lone_ampersand :: "bool \<Rightarrow> string \<Rightarrow> bool" where
  "lone_ampersand prev [] \<longleftrightarrow> False"
| "lone_ampersand prev (c # s) \<longleftrightarrow>
     (c = CHR ''&'' \<and> \<not> prev \<and> (case s of [] \<Rightarrow> True | d # _ \<Rightarrow> d \<noteq> CHR ''&''))
     \<or> lone_ampersand (c = CHR ''&'') s"

definition is_word_char :: "char \<Rightarrow> bool" where
  "is_word_char c \<longleftrightarrow> is_alnum c \<or> c = CHR ''_'' \<or> of_char c \<ge> (128 :: nat)"

fun has_word :: "string \<Rightarrow> bool \<Rightarrow> string \<Rightarrow> bool" where
  "has_word w prev [] \<longleftrightarrow> False"
| "has_word w prev (c # s) \<longleftrightarrow>
     (\<not> prev \<and> starts_with w (c # s) \<and>
        (case drop (length w) (c # s) of [] \<Rightarrow> True | d # _ \<Rightarrow> \<not> is_word_char d))
     \<or> has_word w (is_word_char c) s"

definition background_command :: "string \<Rightarrow> bool" where
  "background_command s \<longleftrightarrow> lone_ampersand False s \<or>
     has_word ''nohup'' False s \<or> has_word ''disown'' False s \<or> has_word ''daemonize'' False s"

definition validate_variant :: "command \<Rightarrow> exn + command" where
  "validate_variant c =
     (if cmd_kind c = INLINE_BASH \<and>
         (cmd_script c = None \<or> cmd_container_path c \<noteq> None \<or> cmd_sha256 c \<noteq> None)
      then Inl (ValueError ''inline_bash requires script and forbids container_path/sha256'')
      else if cmd_kind c = CONTAINER_PATH_BASH \<and>
         (cmd_container_path c = None \<or> cmd_sha256 c = None \<or> cmd_script c \<noteq> None)
      then Inl (ValueError ''container_path_bash requires path and sha256'')
      else if background_command (case cmd_script c of None \<Rightarrow> [] | Some t \<Rightarrow> t)
      then Inl (ValueError ''background or daemonized commands are not allowed'')
      else if list_ex (\<lambda>a. CHR 0x00 \<in> set a) (cmd_argv c)
      then Inl (ValueError ''command argv must not contain NUL'')
      else Inr c)"

definition valid_command :: "command \<Rightarrow> bool" where
  "valid_command c \<longleftrightarrow>
     (case cmd_script c of None \<Rightarrow> True | Some t \<Rightarrow> py_len t \<le> 256 * 1024) \<and>
     (case cmd_container_path c of None \<Rightarrow> True | Some p \<Rightarrow> valid_abs_path p) \<and>
     (case cmd_sha256 c of None \<Rightarrow> True | Some h \<Rightarrow> valid_sha256 h) \<and>
     validate_variant c = Inr c"

section \<open>Proposal objects\<close>

record revision =
  rev_revision_id :: string
  rev_proposal_id :: string
  rev_number :: int
  rev_markdown :: string
  rev_created_at :: int

definition valid_revision :: "revision \<Rightarrow> bool" where
  "valid_revision r \<longleftrightarrow> valid_id (rev_revision_id r) \<and> valid_id (rev_proposal_id r) \<and>
     1 \<le> rev_number r \<and> rev_number r \<le> 8 \<and>
     1 \<le> py_len (rev_markdown r) \<and> py_len (rev_markdown r) \<le> 256 * 1024"

record facts =
  fct_facts_id :: string
  fct_revision_id :: string
  fct_worker_count :: int
  fct_gpu_count :: int
  fct_required_gpu_count :: int
  fct_required_worker_id :: string
  fct_container_name :: string
  fct_submitter_username :: string
  fct_container_user :: string
  fct_image_digest :: string
  fct_setup :: "command list"
  fct_run :: "command list"
  fct_teardown :: "command list"
  fct_required_logs :: "string list"
  fct_required_outputs :: "string list"
  fct_timeout_seconds :: int

definition valid_facts :: "facts \<Rightarrow> bool" where
  "valid_facts f \<longleftrightarrow> valid_id (fct_facts_id f) \<and> valid_id (fct_revision_id f) \<and>
     1 \<le> fct_worker_count f \<and> fct_worker_count f \<le> 64 \<and>
     1 \<le> fct_gpu_count f \<and> fct_gpu_count f \<le> 8 \<and>
     1 \<le> fct_required_gpu_count f \<and> fct_required_gpu_count f \<le> 8 \<and>
     1 \<le> py_len (fct_container_name f) \<and> py_len (fct_container_name f) \<le> 128 \<and>
     valid_username (fct_submitter_username f) \<and>
     1 \<le> py_len (fct_container_user f) \<and> py_len (fct_container_user f) \<le> 128 \<and>
     valid_image_digest (fct_image_digest f) \<and>
     list_all valid_command (fct_setup f) \<and> list_all valid_command (fct_run f) \<and>
     fct_run f \<noteq> [] \<and> list_all valid_command (fct_teardown f) \<and>
     list_all valid_abs_path (fct_required_logs f) \<and>
     list_all valid_abs_path (fct_required_outputs f) \<and>
     1 \<le> fct_timeout_seconds f \<and> fct_timeout_seconds f \<le> 7 * 24 * 3600"

record review =
  rvw_review_id :: string
  rvw_proposal_id :: string
  rvw_revision_id :: string
  rvw_decision :: review_decision
  rvw_rationale :: string
  rvw_created_at :: int

definition valid_review :: "review \<Rightarrow> bool" where
  "valid_review r \<longleftrightarrow> valid_id (rvw_review_id r) \<and> valid_id (rvw_proposal_id r) \<and>
     valid_id (rvw_revision_id r) \<and>
     1 \<le> py_len (rvw_rationale r) \<and> py_len (rvw_rationale r) \<le> 256 * 1024"

record proposal =
  prp_proposal_id :: string
  prp_username :: string
  prp_state :: proposal_state
  prp_current_revision_id :: "string option"
  prp_current_facts_id :: "string option"
  prp_processor_rounds :: int
  prp_review_count :: int
  prp_created_at :: int
  prp_updated_at :: int
  prp_expires_at :: int
  prp_submitter_deadline :: "int option"

definition valid_proposal :: "proposal \<Rightarrow> bool" where
  "valid_proposal p \<longleftrightarrow> valid_id (prp_proposal_id p) \<and> valid_username (prp_username p) \<and>
     (case prp_current_revision_id p of None \<Rightarrow> True | Some i \<Rightarrow> valid_id i) \<and>
     (case prp_current_facts_id p of None \<Rightarrow> True | Some i \<Rightarrow> valid_id i) \<and>
     0 \<le> prp_processor_rounds p \<and> prp_processor_rounds p \<le> 8 \<and>
     0 \<le> prp_review_count p \<and> prp_review_count p \<le> 4"

record idempotency_record =
  idm_username :: string
  idm_operation :: string
  idm_key :: string
  idm_request_hash :: string
  idm_object_id :: string
  idm_response :: "(string \<times> json) list"

section \<open>Tasks and their status\<close>

record task_unit =
  unt_unit_id :: string
  unt_required_gpu_count :: int
  unt_worker_id :: string
  unt_container_name :: string
  unt_submitter_username :: string
  unt_container_user :: string
  unt_image_digest :: string
  unt_setup :: "command list"
  unt_run :: "command list"
  unt_teardown :: "command list"
  unt_required_logs :: "string list"
  unt_required_outputs :: "string list"
  unt_timeout_seconds :: int

record task =
  tsk_key_id :: string
  tsk_policy_version :: string
  tsk_task_id :: string
  tsk_execution_id :: string
  tsk_proposal_id :: string
  tsk_revision_id :: string
  tsk_facts_id :: string
  tsk_review_id :: string
  tsk_units :: "task_unit list"
  tsk_created_at :: int
  tsk_content_hash :: "string option"
  tsk_signature :: "string option"

definition validate_task :: "task \<Rightarrow> exn + task" where
  "validate_task t =
     (if \<not> distinct (map unt_worker_id (tsk_units t))
      then Inl (ValueError ''each task unit must bind a distinct worker'')
      else if (tsk_content_hash t = None) \<noteq> (tsk_signature t = None)
      then Inl (ValueError ''content_hash and signature must both be present or absent'')
      else Inr t)"

definition valid_unit :: "task_unit \<Rightarrow> bool" where
  "valid_unit u \<longleftrightarrow> valid_id (unt_unit_id u) \<and>
     1 \<le> unt_required_gpu_count u \<and> unt_required_gpu_count u \<le> 8 \<and>
     valid_image_digest (unt_image_digest u) \<and>
     list_all valid_command (unt_setup u) \<and> list_all valid_command (unt_run u) \<and>
     unt_run u \<noteq> [] \<and> list_all valid_command (unt_teardown u) \<and>
     list_all valid_abs_path (unt_required_logs u) \<and>
     list_all valid_abs_path (unt_required_outputs u) \<and>
     1 \<le> unt_timeout_seconds u \<and> unt_timeout_seconds u \<le> 7 * 24 * 3600"

definition opt_ok :: "('a \<Rightarrow> bool) \<Rightarrow> 'a option \<Rightarrow> bool" where
  "opt_ok P x = (case x of None \<Rightarrow> True | Some y \<Rightarrow> P y)"

definition valid_task :: "task \<Rightarrow> bool" where
  "valid_task t \<longleftrightarrow>
     1 \<le> py_len (tsk_key_id t) \<and> py_len (tsk_key_id t) \<le> 128 \<and>
     1 \<le> py_len (tsk_policy_version t) \<and> py_len (tsk_policy_version t) \<le> 128 \<and>
     valid_id (tsk_task_id t) \<and> valid_id (tsk_execution_id t) \<and> valid_id (tsk_proposal_id t) \<and>
     valid_id (tsk_revision_id t) \<and> valid_id (tsk_facts_id t) \<and> valid_id (tsk_review_id t) \<and>
     1 \<le> length (tsk_units t) \<and> length (tsk_units t) \<le> 64 \<and> list_all valid_unit (tsk_units t) \<and>
     opt_ok valid_sha256 (tsk_content_hash t) \<and> opt_ok valid_signature (tsk_signature t) \<and>
     validate_task t = Inr t"

record task_status =
  sts_task_id :: string
  sts_execution_id :: string
  sts_state :: task_state
  sts_updated_at :: int
  sts_underlying_outcome :: "task_state option"
  sts_failure_reason :: "string option"

section \<open>Workers, leases, manifests and plans\<close>

record gpu_snapshot =
  gpu_gpu_id :: int
  gpu_vram_percent :: rat
  gpu_sampled_at :: int
  gpu_state_of :: gpu_state
  gpu_raw_line :: string

record worker_snapshot =
  wkr_worker_id :: string
  wkr_online :: bool
  wkr_last_heartbeat_at :: int
  wkr_gpus :: "gpu_snapshot list"

record lease =
  lse_lease_id :: string
  lse_execution_id :: string
  lse_worker_id :: string
  lse_gpu_ids :: "int list"
  lse_container_name :: string
  lse_lease_epoch :: int
  lse_committed :: bool

definition valid_gpu_ids :: "int list \<Rightarrow> bool" where
  "valid_gpu_ids ids \<longleftrightarrow> 1 \<le> length ids \<and> length ids \<le> 8"

definition valid_gpu_snapshot :: "gpu_snapshot \<Rightarrow> bool" where
  "valid_gpu_snapshot g \<longleftrightarrow> 0 \<le> gpu_gpu_id g \<and> gpu_gpu_id g \<le> 7 \<and>
     0 \<le> gpu_vram_percent g \<and> gpu_vram_percent g \<le> 100"

definition valid_lease :: "lease \<Rightarrow> bool" where
  "valid_lease l \<longleftrightarrow> valid_id (lse_lease_id l) \<and> valid_id (lse_execution_id l) \<and>
     valid_gpu_ids (lse_gpu_ids l) \<and> 1 \<le> lse_lease_epoch l"

record manifest =
  man_key_id :: string
  man_manifest_id :: string
  man_task_id :: string
  man_execution_id :: string
  man_assignment_id :: string
  man_dispatch_generation :: int
  man_worker_id :: string
  man_gpu_ids :: "int list"
  man_lease_epoch :: int
  man_container_name :: string
  man_created_at :: int
  man_content_hash :: "string option"
  man_signature :: "string option"

definition valid_manifest :: "manifest \<Rightarrow> bool" where
  "valid_manifest m \<longleftrightarrow> valid_id (man_manifest_id m) \<and> valid_id (man_task_id m) \<and>
     valid_id (man_execution_id m) \<and> valid_id (man_assignment_id m) \<and>
     1 \<le> man_dispatch_generation m \<and> valid_gpu_ids (man_gpu_ids m) \<and> 1 \<le> man_lease_epoch m \<and>
     opt_ok valid_sha256 (man_content_hash m) \<and> opt_ok valid_signature (man_signature m)"

record plan =
  pln_key_id :: string
  pln_plan_id :: string
  pln_assignment_id :: string
  pln_execution_id :: string
  pln_task_id :: string
  pln_task_content_hash :: string
  pln_dispatch_generation :: int
  pln_worker_id :: string
  pln_unit_id :: string
  pln_gpu_ids :: "int list"
  pln_lease_epoch :: int
  pln_container_name :: string
  pln_submitter_username :: string
  pln_container_user :: string
  pln_image_digest :: string
  pln_environment :: "(string \<times> string) list"
  pln_created_at :: int
  pln_content_hash :: "string option"
  pln_signature :: "string option"

definition valid_plan :: "plan \<Rightarrow> bool" where
  "valid_plan p \<longleftrightarrow> valid_id (pln_plan_id p) \<and> valid_id (pln_assignment_id p) \<and>
     valid_id (pln_execution_id p) \<and> valid_id (pln_task_id p) \<and>
     valid_sha256 (pln_task_content_hash p) \<and> 1 \<le> pln_dispatch_generation p \<and>
     valid_id (pln_unit_id p) \<and> valid_gpu_ids (pln_gpu_ids p) \<and> 1 \<le> pln_lease_epoch p \<and>
     valid_image_digest (pln_image_digest p) \<and>
     opt_ok valid_sha256 (pln_content_hash p) \<and> opt_ok valid_signature (pln_signature p)"

section \<open>Events and protocol messages\<close>

record event =
  evt_event_id :: string
  evt_object_type :: string
  evt_object_id :: string
  evt_sequence :: int
  evt_event_type :: string
  evt_actor :: string
  evt_request_id :: string
  evt_timestamp :: int
  evt_payload :: "(string \<times> json) list"

record envelope =
  env_message_id :: string
  env_sequence :: int
  env_message_type :: string
  env_assignment_id :: "string option"
  env_dispatch_generation :: "int option"
  env_lease_epoch :: "int option"
  env_payload :: "(string \<times> json) list"

definition valid_event :: "event \<Rightarrow> bool" where
  "valid_event e \<longleftrightarrow> valid_id (evt_event_id e) \<and> valid_id (evt_object_id e) \<and> 1 \<le> evt_sequence e"

definition valid_envelope :: "envelope \<Rightarrow> bool" where
  "valid_envelope m \<longleftrightarrow> valid_id (env_message_id m) \<and> 1 \<le> env_sequence m \<and>
     opt_ok valid_id (env_assignment_id m) \<and>
     opt_ok (\<lambda>g. 1 \<le> g) (env_dispatch_generation m) \<and> opt_ok (\<lambda>e. 1 \<le> e) (env_lease_epoch m)"

end
