(* ===== verification/Identifiers.thy ===== *)
theory Identifiers
  imports Domain_Models
begin

unbundle bit_operations_syntax

text \<open>
  The identifier generator \<open>new_id\<close> of \<open>domain/models.py\<close>: an RFC 9562 UUIDv7 in hexadecimal
  behind a type prefix. The wall clock in milliseconds and the two results of
  \<open>secrets.randbits\<close> are arguments. Proved: the layout of the 128 bits, that every identifier
  satisfies the \<open>ID\<close> pattern, that distinct inputs give distinct identifiers, and that
  identifiers sort by their millisecond (and, inside one millisecond, by the random bits).
\<close>

section \<open>The generator\<close>

definition uuid7 :: "int \<Rightarrow> int \<Rightarrow> int \<Rightarrow> int" where
  "uuid7 ms ra rb =
     push_bit 80 (ms AND (push_bit 48 1 - 1)) OR push_bit 76 7 OR push_bit 64 ra
       OR push_bit 62 2 OR rb"

definition hex_digit :: "int \<Rightarrow> char" where
  "hex_digit d = (if d < 10 then char_of (48 + d) else char_of (87 + d))"

primrec hex_pad :: "nat \<Rightarrow> int \<Rightarrow> string" where
  "hex_pad 0 n = []"
| "hex_pad (Suc k) n = hex_pad k (n div 16) @ [hex_digit (n mod 16)]"

definition uuid_hex :: "int \<Rightarrow> int \<Rightarrow> int \<Rightarrow> string" where
  "uuid_hex ms ra rb = hex_pad 32 (uuid7 ms ra rb)"

definition new_id :: "string \<Rightarrow> int \<Rightarrow> int \<Rightarrow> int \<Rightarrow> exn + string" where
  "new_id prefix ms ra rb =
     (if prefix = [] \<or> list_ex (\<lambda>c. \<not> (is_lower c \<or> c = CHR ''_'')) prefix
      then Inl (ValueError ''ID prefix must contain lowercase ASCII letters or underscores'')
      else Inr (prefix @ ''_'' @ uuid_hex ms ra rb))"

section \<open>The layout of the 128 bits\<close>

lemma push_or_plus:
  fixes a b :: int
  assumes "0 \<le> b" and "b < 2 ^ n"
  shows "push_bit n a OR b = push_bit n a + b"
proof -
  have "\<not> bit (push_bit n a) k \<or> \<not> bit b k" for k
  proof (cases "k < n")
    case True
    then show ?thesis by (simp add: bit_push_bit_iff)
  next
    case False
    have "b = take_bit n b"
      using assms by (simp add: take_bit_eq_mod)
    then have "\<not> bit b k" using False by (metis bit_take_bit_iff)
    then show ?thesis ..
  qed
  then have "push_bit n a AND b = 0"
    by (auto intro!: bit_eqI simp: bit_and_iff)
  then show ?thesis by (simp add: disjunctive_add_eq_or)
qed

lemma uuid7_sum:
  assumes "0 \<le> ra" "ra < 2 ^ 12" "0 \<le> rb" "rb < 2 ^ 62"
  shows "uuid7 ms ra rb =
    (ms mod 2 ^ 48) * 2 ^ 80 + 7 * 2 ^ 76 + ra * 2 ^ 64 + 2 * 2 ^ 62 + rb"
proof -
  have m: "ms AND (push_bit 48 1 - 1) = ms mod 2 ^ 48"
    using take_bit_eq_mask [of 48 ms] by (simp add: mask_eq_exp_minus_1 take_bit_eq_mod)
  have r: "push_bit 62 2 OR rb = push_bit 62 2 + rb"
    using assms by (intro push_or_plus) auto
  have s: "push_bit 64 ra OR (push_bit 62 2 + rb) = push_bit 64 ra + (push_bit 62 2 + rb)"
    using assms by (intro push_or_plus) (auto simp: push_bit_eq_mult)
  have t: "push_bit 76 7 OR (push_bit 64 ra + (push_bit 62 2 + rb))
      = push_bit 76 7 + (push_bit 64 ra + (push_bit 62 2 + rb))"
    using assms by (intro push_or_plus) (auto simp: push_bit_eq_mult)
  have u: "push_bit 80 (ms mod 2 ^ 48) OR (push_bit 76 7 + (push_bit 64 ra + (push_bit 62 2 + rb)))
      = push_bit 80 (ms mod 2 ^ 48) + (push_bit 76 7 + (push_bit 64 ra + (push_bit 62 2 + rb)))"
    using assms by (intro push_or_plus) (auto simp: push_bit_eq_mult)
  show ?thesis
    unfolding uuid7_def m or.assoc r s t u by (simp add: push_bit_eq_mult)
qed

lemma uuid7_range:
  assumes "0 \<le> ra" "ra < 2 ^ 12" "0 \<le> rb" "rb < 2 ^ 62"
  shows "0 \<le> uuid7 ms ra rb" and "uuid7 ms ra rb < 2 ^ 128"
  using assms pos_mod_bound [of "2 ^ 48" ms] pos_mod_sign [of "2 ^ 48" ms]
  by (simp_all add: uuid7_sum)

section \<open>Hexadecimal rendering\<close>

lemma length_hex_pad [simp]: "length (hex_pad k n) = k"
  by (induction k arbitrary: n) auto

lemma digit_cases:
  fixes d :: int
  assumes "0 \<le> d" "d < 16"
  shows "d \<in> {0, 1, 2, 3, 4, 5, 6, 7, 8, 9, 10, 11, 12, 13, 14, 15}"
  using assms by (simp; presburger)

lemma hex_digit_table:
  assumes "0 \<le> d" "d < 16"
  shows "hex_digit d = ''0123456789abcdef'' ! nat d"
proof -
  have "hex_digit 0 = CHR ''0''" "hex_digit 1 = CHR ''1''" "hex_digit 2 = CHR ''2''"
    "hex_digit 3 = CHR ''3''" "hex_digit 4 = CHR ''4''" "hex_digit 5 = CHR ''5''"
    "hex_digit 6 = CHR ''6''" "hex_digit 7 = CHR ''7''" "hex_digit 8 = CHR ''8''"
    "hex_digit 9 = CHR ''9''" "hex_digit 10 = CHR ''a''" "hex_digit 11 = CHR ''b''"
    "hex_digit 12 = CHR ''c''" "hex_digit 13 = CHR ''d''" "hex_digit 14 = CHR ''e''"
    "hex_digit 15 = CHR ''f''"
    by (simp_all add: hex_digit_def) code_simp+
  then show ?thesis
    using digit_cases [OF assms] by (elim insertE emptyE) simp_all
qed

lemma hex_digit_code:
  assumes "0 \<le> d" "d < 16"
  shows "(of_char (hex_digit d) :: nat) = nat (if d < 10 then 48 + d else 87 + d)"
  using digit_cases [OF assms] by (elim insertE emptyE) (simp_all add: hex_digit_table)

lemma is_hex_digit: "0 \<le> d \<Longrightarrow> d < 16 \<Longrightarrow> is_hex (hex_digit d)"
  by (frule (1) digit_cases)
     (elim insertE emptyE; simp add: hex_digit_table is_hex_def is_digit_def less_eq_char_def)

lemma hex_digit_mono:
  assumes "0 \<le> d" "d < e" "e < 16"
  shows "hex_digit d < hex_digit e"
  using assms by (simp add: less_char_def hex_digit_code)

lemma hex_pad_all_hex: "list_all is_hex (hex_pad k n)"
  by (induction k arbitrary: n) (auto simp: is_hex_digit)

lemma append_less:
  fixes xs ys :: "'a::order list"
  assumes "length xs = length ys"
  shows "xs @ us < ys @ vs \<longleftrightarrow> xs < ys \<or> (xs = ys \<and> us < vs)"
  using assms by (induction xs ys rule: list_induct2) auto

lemma div_bound: "(b :: int) < 16 * m \<Longrightarrow> b div 16 < m"
  by presburger

lemma hex_pad_mono:
  "0 \<le> a \<Longrightarrow> a < b \<Longrightarrow> b < 16 ^ k \<Longrightarrow> hex_pad k a < hex_pad k b"
proof (induction k arbitrary: a b)
  case 0
  then show ?case by simp
next
  case (Suc k)
  have le: "a div 16 \<le> b div 16" using Suc.prems by (intro zdiv_mono1) auto
  show ?case
  proof (cases "a div 16 = b div 16")
    case True
    then have "a mod 16 < b mod 16"
      using Suc.prems by (metis add_less_cancel_left mult_div_mod_eq)
    then show ?thesis using True by (simp add: append_less hex_digit_mono)
  next
    case False
    then have "hex_pad k (a div 16) < hex_pad k (b div 16)"
      using le Suc.prems by (intro Suc.IH) (auto simp: pos_imp_zdiv_nonneg_iff div_bound)
    then show ?thesis by (simp add: append_less)
  qed
qed


text \<open>Rendering field by field, for evaluation.\<close>

lemma hex_pad_split:
  "hex_pad (a + b) n = hex_pad a (n div 16 ^ b) @ hex_pad b (n mod 16 ^ b)"
proof (induction b arbitrary: n)
  case (Suc b)
  have "n div 16 div 16 ^ b = n div 16 ^ Suc b" by (simp add: zdiv_zmult2_eq)
  moreover have "n div 16 mod 16 ^ b = n mod 16 ^ Suc b div 16"
    by (simp add: zmod_zmult2_eq)
  moreover have "n mod 16 ^ Suc b mod 16 = n mod 16" by (simp add: mod_mod_cancel)
  ultimately show ?case using Suc.IH [of "n div 16"] by simp
qed simp

lemma div_mult_add:
  assumes "0 \<le> y" "y < m"
  shows "(x * m + y) div m = (x :: int)" "(x * m + y) mod m = y"
  using assms by simp_all

lemma hex_pad_zero: "hex_pad k 0 = replicate k (CHR ''0'')"
  by (induction k) (simp_all add: hex_digit_table replicate_append_same)

lemma uuid_hex_code [code]:
  "uuid_hex ms ra rb =
     (if 0 \<le> ra \<and> ra < 2 ^ 12 \<and> 0 \<le> rb \<and> rb < 2 ^ 60
      then hex_pad 12 (ms mod 2 ^ 48) @ CHR ''7'' # hex_pad 3 ra @ CHR ''8'' #
        (if rb = 0 then replicate 15 (CHR ''0'') else hex_pad 15 rb)
      else hex_pad 32 (uuid7 ms ra rb))"
proof (cases "0 \<le> ra \<and> ra < 2 ^ 12 \<and> 0 \<le> rb \<and> rb < 2 ^ 60")
  case True
  let ?m = "ms mod 2 ^ 48"
  have u: "uuid7 ms ra rb = ((?m * 2 ^ 4 + 7) * 2 ^ 12 + ra) * 2 ^ 64 + (8 * 2 ^ 60 + rb)"
    using True by (subst uuid7_sum) auto
  have 1: "uuid7 ms ra rb div 16 ^ 16 = (?m * 2 ^ 4 + 7) * 2 ^ 12 + ra"
      "uuid7 ms ra rb mod 16 ^ 16 = 8 * 2 ^ 60 + rb"
  proof -
    have b: "0 \<le> 8 * 2 ^ 60 + rb" "8 * 2 ^ 60 + rb < 2 ^ 64" using True by simp_all
    have m: "(16 :: int) ^ 16 = 2 ^ 64" by simp
    show "uuid7 ms ra rb div 16 ^ 16 = (?m * 2 ^ 4 + 7) * 2 ^ 12 + ra"
      and "uuid7 ms ra rb mod 16 ^ 16 = 8 * 2 ^ 60 + rb"
      unfolding u m by (rule div_mult_add [OF b])+
  qed
  have 2: "(8 * 2 ^ 60 + rb) div 16 ^ 15 = 8" "(8 * 2 ^ 60 + rb) mod 16 ^ 15 = rb"
  proof -
    have b: "0 \<le> rb" "rb < 2 ^ 60" using True by simp_all
    have m: "(16 :: int) ^ 15 = 2 ^ 60" by simp
    show "(8 * 2 ^ 60 + rb) div 16 ^ 15 = 8" and "(8 * 2 ^ 60 + rb) mod 16 ^ 15 = rb"
      unfolding m by (rule div_mult_add [OF b])+
  qed
  have 3: "((?m * 2 ^ 4 + 7) * 2 ^ 12 + ra) div 16 ^ 3 = ?m * 2 ^ 4 + 7"
      "((?m * 2 ^ 4 + 7) * 2 ^ 12 + ra) mod 16 ^ 3 = ra"
  proof -
    have b: "0 \<le> ra" "ra < 2 ^ 12" using True by simp_all
    have m: "(16 :: int) ^ 3 = 2 ^ 12" by simp
    show "((?m * 2 ^ 4 + 7) * 2 ^ 12 + ra) div 16 ^ 3 = ?m * 2 ^ 4 + 7"
      and "((?m * 2 ^ 4 + 7) * 2 ^ 12 + ra) mod 16 ^ 3 = ra"
      unfolding m by (rule div_mult_add [OF b])+
  qed
  have 4: "(?m * 2 ^ 4 + 7) div 16 = ?m" "(?m * 2 ^ 4 + 7) mod 16 = 7" by simp_all
  have "hex_pad 32 (uuid7 ms ra rb) = hex_pad (16 + 16) (uuid7 ms ra rb)" by simp
  also have "\<dots> = hex_pad (13 + 3) ((?m * 2 ^ 4 + 7) * 2 ^ 12 + ra) @ hex_pad (1 + 15) (8 * 2 ^ 60 + rb)"
    unfolding hex_pad_split [of 16 16] 1 by simp
  also have "\<dots> = hex_pad (Suc 12) (?m * 2 ^ 4 + 7) @ hex_pad 3 ra @ hex_pad 1 8 @ hex_pad 15 rb"
    unfolding hex_pad_split [of 13 3] hex_pad_split [of 1 15] 2 3 by simp
  also have "\<dots> = hex_pad 12 ?m @ CHR ''7'' # hex_pad 3 ra @ CHR ''8'' # hex_pad 15 rb"
    unfolding hex_pad.simps(2) [of 12] 4 by (simp add: hex_digit_table)
  finally show ?thesis using True by (simp add: uuid_hex_def hex_pad_zero del: hex_pad.simps)
next
  case False
  then show ?thesis by (simp only: uuid_hex_def if_False)
qed

section \<open>Validity and order of the identifiers\<close>

lemma new_id_Inr:
  "new_id p ms ra rb = Inr i \<longleftrightarrow>
     p \<noteq> [] \<and> list_all (\<lambda>c. is_lower c \<or> c = CHR ''_'') p \<and>
     i = p @ ''_'' @ hex_pad 32 (uuid7 ms ra rb)"
  by (auto simp: new_id_def uuid_hex_def list_ex_iff list_all_iff)

lemma new_id_Inr_valid:
  assumes "new_id p ms ra rb = Inr i" and "is_lower (hd p)"
  shows "valid_id i"
proof -
  from assms(1) have i: "i = p @ ''_'' @ hex_pad 32 (uuid7 ms ra rb)" "p \<noteq> []"
    and low: "list_all (\<lambda>c. is_lower c \<or> c = CHR ''_'') p"
    by (auto simp: new_id_Inr)
  have "1 \<le> length p" using i by (cases p) auto
  moreover have "list_all (\<lambda>c. is_lower c \<or> is_digit c \<or> c = CHR ''_'') p"
    using low by (auto simp: list_all_iff)
  ultimately show ?thesis
    using i assms(2) by (simp add: valid_id_def hex_pad_all_hex del: hex_pad.simps)
qed

text \<open>
  Every identifier \<open>new_id\<close> returns for a prefix that begins with a letter satisfies the
  pattern of the \<open>ID\<close> type, whatever the clock and the random bits are.
\<close>

theorem new_id_valid:
  assumes "new_id p ms ra rb = Inr i" and "is_lower (hd p)"
  shows "valid_id i"
  using assms by (rule new_id_Inr_valid)

theorem new_id_valid_witness:
  "\<exists>i. new_id ''task'' 1700000000000 5 9 = Inr i \<and> valid_id i"
proof -
  have "is_lower (hd ''task'')" by (simp add: is_lower_def less_eq_char_def)
  moreover have "\<exists>i. new_id ''task'' 1700000000000 5 9 = Inr i"
    by (simp add: new_id_Inr is_lower_def less_eq_char_def)
  ultimately show ?thesis using new_id_valid by blast
qed

lemma new_id_mono:
  assumes "new_id p ms ra rb = Inr i" and "new_id p ms' ra' rb' = Inr j"
    and "0 \<le> uuid7 ms ra rb" and "uuid7 ms ra rb < uuid7 ms' ra' rb'" and "uuid7 ms' ra' rb' < 2 ^ 128"
  shows "i < j"
proof -
  have "hex_pad 32 (uuid7 ms ra rb) < hex_pad 32 (uuid7 ms' ra' rb')"
    using assms(3-5) by (intro hex_pad_mono) simp_all
  with assms(1,2) show ?thesis by (simp add: new_id_Inr append_less del: hex_pad.simps)
qed

text \<open>The value as one weighted sum: the clock outweighs all random bits.\<close>

lemma uuid7_less:
  assumes r: "0 \<le> ra" "ra < 2 ^ 12" "0 \<le> rb" "rb < 2 ^ 62"
      and r': "0 \<le> ra'" "ra' < 2 ^ 12" "0 \<le> rb'" "rb' < 2 ^ 62"
      and m: "0 \<le> ms" "ms < 2 ^ 48" "0 \<le> ms'" "ms' < 2 ^ 48"
  shows "uuid7 ms ra rb < uuid7 ms' ra' rb' \<longleftrightarrow> (ms, ra, rb) < (ms', ra', rb')"
  using assms by (auto simp: uuid7_sum less_prod_def)

text \<open>
  Identifiers of one type sort as strings exactly by the millisecond they were made in and,
  inside one millisecond, by the random bits: string order is creation order between
  milliseconds, and says nothing about creation order inside one.
\<close>

theorem new_id_order:
  assumes "new_id p ms ra rb = Inr i" and "new_id p ms' ra' rb' = Inr j"
    and "0 \<le> ra" "ra < 2 ^ 12" "0 \<le> rb" "rb < 2 ^ 62"
    and "0 \<le> ra'" "ra' < 2 ^ 12" "0 \<le> rb'" "rb' < 2 ^ 62"
    and "0 \<le> ms" "ms < 2 ^ 48" "0 \<le> ms'" "ms' < 2 ^ 48"
  shows "i < j \<longleftrightarrow> (ms, ra, rb) < (ms', ra', rb')"
proof -
  have u: "uuid7 ms ra rb < uuid7 ms' ra' rb' \<longleftrightarrow> (ms, ra, rb) < (ms', ra', rb')"
    and v: "uuid7 ms' ra' rb' < uuid7 ms ra rb \<longleftrightarrow> (ms', ra', rb') < (ms, ra, rb)"
    using assms(3-) by (intro uuid7_less; simp)+
  consider "(ms, ra, rb) < (ms', ra', rb')" | "(ms, ra, rb) = (ms', ra', rb')"
    | "(ms', ra', rb') < (ms, ra, rb)" using less_linear by blast
  then show ?thesis
  proof cases
    case 1
    with u assms have "i < j" by (intro new_id_mono [OF assms(1,2)] uuid7_range) auto
    with 1 show ?thesis by simp
  next
    case 2
    with assms(1,2) show ?thesis by auto
  next
    case 3
    with v assms have "j < i" by (intro new_id_mono [OF assms(2,1)] uuid7_range) auto
    with 3 show ?thesis by auto
  qed
qed

theorem new_id_order_witness:
  "\<exists>i j. new_id ''stat'' 1700000000000 0 1 = Inr i \<and> new_id ''stat'' 1700000000000 0 0 = Inr j
     \<and> j < i \<and> \<not> i < j"
proof -
  have "\<exists>i. new_id ''stat'' 1700000000000 0 b = Inr i" for b
    by (simp add: new_id_Inr is_lower_def less_eq_char_def)
  then obtain i j where ij: "new_id ''stat'' 1700000000000 0 1 = Inr i"
      "new_id ''stat'' 1700000000000 0 0 = Inr j" by blast
  have "j < i" using new_id_order [OF ij(2) ij(1)] by simp
  moreover have "\<not> i < j" using new_id_order [OF ij(1) ij(2)] by simp
  ultimately show ?thesis using ij by blast
qed

text \<open>
  The prefix test is weaker than the \<open>ID\<close> pattern: it admits a prefix that begins with an
  underscore, and the identifier \<open>new_id\<close> returns for it is not a valid \<open>ID\<close>.
\<close>

theorem new_id_underscore_prefix:
  "\<exists>i. new_id ''_x'' 0 0 0 = Inr i \<and> \<not> valid_id i"
  by (simp add: new_id_Inr valid_id_def is_lower_def less_eq_char_def del: hex_pad.simps)

end
