(* ===== verification/Domain_State.thy ===== *)
theory Domain_State
  imports Domain_Models
begin

text \<open>
  The transition tables of \<open>src/agent_scheduler/domain/state.py\<close>. The tables are total functions
  to edge lists, the three operations are functions with the exception as a value, and the step
  relations \<open>pstep\<close> and \<open>tstep\<close> are what a caller that always asks the table can do. Proved:
  which states are final, that only \<open>FINALIZING\<close> leads to completion, that no task runs without
  passing preparation, and how long a task can still move.
\<close>

section \<open>The tables\<close>

fun proposal_edges :: "proposal_state \<Rightarrow> proposal_state list" where
  "proposal_edges P_CLARIFYING = [P_AWAITING_CONFIRMATION, P_CANCELLED, P_EXPIRED]"
| "proposal_edges P_AWAITING_CONFIRMATION = [P_IN_REVIEW, P_CLARIFYING, P_CANCELLED, P_EXPIRED]"
| "proposal_edges P_IN_REVIEW =
     [P_APPROVED, P_CHANGES_REQUESTED, P_REJECTED, P_PROCESSING_ERROR, P_CANCELLED, P_EXPIRED]"
| "proposal_edges P_CHANGES_REQUESTED = [P_CLARIFYING, P_CANCELLED, P_EXPIRED]"
| "proposal_edges P_APPROVED = [P_COMPILING, P_CANCELLED]"
| "proposal_edges P_COMPILING = [P_COMPILED, P_COMPILE_FAILED, P_CANCELLED]"
| "proposal_edges P_COMPILE_FAILED = [P_COMPILING, P_CANCELLED]"
| "proposal_edges P_PROCESSING_ERROR = [P_CLARIFYING, P_CANCELLED]"
| "proposal_edges P_COMPILED = []"
| "proposal_edges P_REJECTED = []"
| "proposal_edges P_CANCELLED = []"
| "proposal_edges P_EXPIRED = []"

fun task_edges :: "task_state \<Rightarrow> task_state list" where
  "task_edges T_CREATED = [T_QUEUED, T_BLOCKED, T_FAILED]"
| "task_edges T_QUEUED = [T_PREPARING, T_CANCELLED, T_BLOCKED]"
| "task_edges T_BLOCKED = [T_QUEUED, T_CANCELLED, T_FAILED]"
| "task_edges T_PREPARING = [T_QUEUED, T_RESERVED, T_FINALIZING, T_RECONCILIATION_REQUIRED]"
| "task_edges T_RESERVED = [T_DISPATCHED, T_FINALIZING, T_RECONCILIATION_REQUIRED]"
| "task_edges T_DISPATCHED = [T_STARTING, T_FINALIZING, T_RECONCILIATION_REQUIRED]"
| "task_edges T_STARTING = [T_RUNNING, T_FINALIZING, T_RECONCILIATION_REQUIRED]"
| "task_edges T_RUNNING = [T_FINALIZING, T_RECONCILIATION_REQUIRED]"
| "task_edges T_FINALIZING =
     [T_COMPLETED, T_FAILED, T_CANCELLED, T_CLEANUP_FAILED, T_RECONCILIATION_REQUIRED]"
| "task_edges T_COMPLETED = []"
| "task_edges T_FAILED = []"
| "task_edges T_CANCELLED = []"
| "task_edges T_CLEANUP_FAILED = [T_RECONCILIATION_REQUIRED, T_FAILED, T_CANCELLED]"
| "task_edges T_RECONCILIATION_REQUIRED = [T_FAILED, T_CANCELLED]"

definition transition_proposal :: "proposal_state \<Rightarrow> proposal_state \<Rightarrow> exn + proposal_state" where
  "transition_proposal current target =
     (if target \<notin> set (proposal_edges current)
      then Inl (InvalidTransition (''proposal '' @ proposal_value current @ '' -> ''
                  @ proposal_value target @ '' is not allowed''))
      else Inr target)"

definition transition_task :: "task_state \<Rightarrow> task_state \<Rightarrow> exn + task_state" where
  "transition_task current target =
     (if target \<notin> set (task_edges current)
      then Inl (InvalidTransition (''task '' @ task_value current @ '' -> ''
                  @ task_value target @ '' is not allowed''))
      else Inr target)"

definition task_targets :: "task_state \<Rightarrow> task_state set" where
  "task_targets current = set (task_edges current)"

section \<open>What the operations return\<close>

lemma transition_task_Inr:
  "transition_task s t = Inr u \<longleftrightarrow> u = t \<and> t \<in> task_targets s"
  by (auto simp: transition_task_def task_targets_def)

lemma transition_task_Inl:
  "transition_task s t = Inl e \<longleftrightarrow> t \<notin> task_targets s \<and>
     e = InvalidTransition (''task '' @ task_value s @ '' -> '' @ task_value t @ '' is not allowed'')"
  by (auto simp: transition_task_def task_targets_def)

lemma transition_proposal_Inr:
  "transition_proposal s t = Inr u \<longleftrightarrow> u = t \<and> t \<in> set (proposal_edges s)"
  by (auto simp: transition_proposal_def)

section \<open>The step relations\<close>

inductive pstep :: "proposal_state \<Rightarrow> proposal_state \<Rightarrow> bool" where
  pstep: "transition_proposal s t = Inr u \<Longrightarrow> pstep s u"

inductive tstep :: "task_state \<Rightarrow> task_state \<Rightarrow> bool" where
  tstep: "transition_task s t = Inr u \<Longrightarrow> tstep s u"

inductive_simps tstep_iff: "tstep s t"
inductive_simps pstep_iff: "pstep s t"

lemma tstep_targets [simp]: "tstep s t \<longleftrightarrow> t \<in> task_targets s"
  by (auto simp: tstep_iff transition_task_Inr)

lemma pstep_edges [simp]: "pstep s t \<longleftrightarrow> t \<in> set (proposal_edges s)"
  by (auto simp: pstep_iff transition_proposal_Inr)

definition task_terminal :: "task_state \<Rightarrow> bool" where
  "task_terminal s \<longleftrightarrow> s \<in> {T_COMPLETED, T_FAILED, T_CANCELLED}"

definition proposal_terminal :: "proposal_state \<Rightarrow> bool" where
  "proposal_terminal s \<longleftrightarrow> s \<in> {P_COMPILED, P_REJECTED, P_CANCELLED, P_EXPIRED}"

text \<open>The states in which hardware can be in use: from reservation until the run is finalized.\<close>

definition task_active :: "task_state \<Rightarrow> bool" where
  "task_active s \<longleftrightarrow> s \<in> {T_PREPARING, T_RESERVED, T_DISPATCHED, T_STARTING, T_RUNNING, T_FINALIZING}"

text \<open>
  The final task states are exactly the ones without a successor, and the table never
  leads from a state to itself; every transition out of a final state raises.
\<close>

theorem task_terminal_iff:
  "task_terminal s \<longleftrightarrow> (\<forall>t. \<exists>m. transition_task s t = Inl (InvalidTransition m))"
  by (cases s) (auto simp: task_terminal_def transition_task_def)

lemma tstep_irrefl: "\<not> tstep s s"
  by (cases s) (auto simp: task_targets_def)

text \<open>
  The proposal table: the four final states are exactly the ones every transition out of
  which raises.
\<close>

theorem proposal_terminal_iff:
  "proposal_terminal s \<longleftrightarrow> (\<forall>t. \<exists>m. transition_proposal s t = Inl (InvalidTransition m))"
  by (cases s) (auto simp: proposal_terminal_def transition_proposal_def)

section \<open>Histories\<close>

text \<open>
  A history is the list of states one object went through, oldest first: a list whose
  neighbours are related by the step relation.
\<close>

abbreviation task_history :: "task_state list \<Rightarrow> bool" where
  "task_history \<equiv> successively tstep"

abbreviation proposal_history :: "proposal_state list \<Rightarrow> bool" where
  "proposal_history \<equiv> successively pstep"

lemma all_task_states:
  "(\<forall>s. Q s) \<longleftrightarrow> Q T_CREATED \<and> Q T_QUEUED \<and> Q T_BLOCKED \<and> Q T_PREPARING \<and> Q T_RESERVED \<and>
     Q T_DISPATCHED \<and> Q T_STARTING \<and> Q T_RUNNING \<and> Q T_FINALIZING \<and> Q T_COMPLETED \<and> Q T_FAILED \<and>
     Q T_CANCELLED \<and> Q T_CLEANUP_FAILED \<and> Q T_RECONCILIATION_REQUIRED"
proof (intro iffI allI)
  fix s
  assume "Q T_CREATED \<and> Q T_QUEUED \<and> Q T_BLOCKED \<and> Q T_PREPARING \<and> Q T_RESERVED \<and>
     Q T_DISPATCHED \<and> Q T_STARTING \<and> Q T_RUNNING \<and> Q T_FINALIZING \<and> Q T_COMPLETED \<and> Q T_FAILED \<and>
     Q T_CANCELLED \<and> Q T_CLEANUP_FAILED \<and> Q T_RECONCILIATION_REQUIRED"
  then show "Q s" by (cases s) simp_all
qed simp

lemma all_proposal_states:
  "(\<forall>s. Q s) \<longleftrightarrow> Q P_CLARIFYING \<and> Q P_AWAITING_CONFIRMATION \<and> Q P_IN_REVIEW \<and>
     Q P_CHANGES_REQUESTED \<and> Q P_APPROVED \<and> Q P_REJECTED \<and> Q P_COMPILING \<and> Q P_COMPILED \<and>
     Q P_COMPILE_FAILED \<and> Q P_PROCESSING_ERROR \<and> Q P_CANCELLED \<and> Q P_EXPIRED"
proof (intro iffI allI)
  fix s
  assume "Q P_CLARIFYING \<and> Q P_AWAITING_CONFIRMATION \<and> Q P_IN_REVIEW \<and>
     Q P_CHANGES_REQUESTED \<and> Q P_APPROVED \<and> Q P_REJECTED \<and> Q P_COMPILING \<and> Q P_COMPILED \<and>
     Q P_COMPILE_FAILED \<and> Q P_PROCESSING_ERROR \<and> Q P_CANCELLED \<and> Q P_EXPIRED"
  then show "Q s" by (cases s) simp_all
qed simp

text \<open>
  If every edge into the set \<open>P\<close> starts in \<open>P\<close> or ends in \<open>r\<close>, then a history that starts
  outside \<open>P\<close> and ends inside visits \<open>r\<close>: \<open>r\<close> is the only door.
\<close>

lemma history_visits:
  assumes "successively R (s # h)" and "last (s # h) \<in> P" and "s \<notin> P"
    and door: "\<forall>a b. R a b \<longrightarrow> b \<in> P \<longrightarrow> a \<in> P \<or> b = r"
  shows "r \<in> set h"
  using assms(1-3)
proof (induction h arbitrary: s)
  case Nil
  then show ?case by simp
next
  case (Cons t h)
  then show ?case using door by (cases "t \<in> P") auto
qed

text \<open>
  A task that starts as \<open>CREATED\<close> and follows the table can only be \<open>COMPLETED\<close> after it
  was \<open>PREPARING\<close> and then \<open>FINALIZING\<close>: no path skips the release of what it held.
\<close>

theorem completed_needs_finalizing:
  assumes "task_history (T_CREATED # h)" and "last (T_CREATED # h) = T_COMPLETED"
  shows "T_PREPARING \<in> set h \<and> T_FINALIZING \<in> set h"
proof
  show "T_FINALIZING \<in> set h"
    by (rule history_visits [OF assms(1), of "{T_COMPLETED, T_FINALIZING}"])
       (use assms(2) in \<open>auto simp: all_task_states task_targets_def\<close>)
  show "T_PREPARING \<in> set h"
    by (rule history_visits [OF assms(1), of "{T_COMPLETED, T_FINALIZING, T_PREPARING, T_RESERVED,
          T_DISPATCHED, T_STARTING, T_RUNNING}"])
       (use assms(2) in \<open>auto simp: all_task_states task_targets_def\<close>)
qed

theorem completed_needs_finalizing_witness:
  "T_PREPARING \<in> set [T_QUEUED, T_PREPARING, T_FINALIZING, T_COMPLETED] \<and>
   T_FINALIZING \<in> set [T_QUEUED, T_PREPARING, T_FINALIZING, T_COMPLETED]"
  by (rule completed_needs_finalizing) (simp_all add: task_targets_def)

text \<open>
  A proposal that starts as \<open>CLARIFYING\<close> and follows the table is \<open>COMPILED\<close> only after the
  submitter was asked to confirm it, the reviewer saw it and approved it.
\<close>

theorem compiled_needs_approval:
  assumes "proposal_history (P_CLARIFYING # h)" and "last (P_CLARIFYING # h) = P_COMPILED"
  shows "P_AWAITING_CONFIRMATION \<in> set h \<and> P_IN_REVIEW \<in> set h \<and> P_APPROVED \<in> set h"
proof (intro conjI)
  let ?late = "{P_COMPILED, P_COMPILING, P_COMPILE_FAILED, P_APPROVED}"
  show "P_APPROVED \<in> set h"
    by (rule history_visits [OF assms(1), of ?late])
       (use assms(2) in \<open>auto simp: all_proposal_states\<close>)
  show "P_IN_REVIEW \<in> set h"
    by (rule history_visits [OF assms(1), of "insert P_IN_REVIEW ?late"])
       (use assms(2) in \<open>auto simp: all_proposal_states\<close>)
  show "P_AWAITING_CONFIRMATION \<in> set h"
    by (rule history_visits [OF assms(1), of "insert P_AWAITING_CONFIRMATION (insert P_IN_REVIEW ?late)"])
       (use assms(2) in \<open>auto simp: all_proposal_states\<close>)
qed

theorem compiled_needs_approval_witness:
  "P_AWAITING_CONFIRMATION \<in> set [P_AWAITING_CONFIRMATION, P_IN_REVIEW, P_APPROVED, P_COMPILING,
     P_COMPILED] \<and>
   P_IN_REVIEW \<in> set [P_AWAITING_CONFIRMATION, P_IN_REVIEW, P_APPROVED, P_COMPILING, P_COMPILED] \<and>
   P_APPROVED \<in> set [P_AWAITING_CONFIRMATION, P_IN_REVIEW, P_APPROVED, P_COMPILING, P_COMPILED]"
  by (rule compiled_needs_approval) simp_all

section \<open>Progress\<close>

text \<open>
  Once a task has left \<open>CREATED\<close>, \<open>QUEUED\<close>, \<open>BLOCKED\<close> and \<open>PREPARING\<close> (between which it can go
  back and forth), \<open>task_rank\<close> falls with every transition.
\<close>

fun task_rank :: "task_state \<Rightarrow> nat" where
  "task_rank T_RESERVED = 7"
| "task_rank T_DISPATCHED = 6"
| "task_rank T_STARTING = 5"
| "task_rank T_RUNNING = 4"
| "task_rank T_FINALIZING = 3"
| "task_rank T_CLEANUP_FAILED = 2"
| "task_rank T_RECONCILIATION_REQUIRED = 1"
| "task_rank T_CREATED = 8"
| "task_rank T_QUEUED = 8"
| "task_rank T_BLOCKED = 8"
| "task_rank T_PREPARING = 8"
| "task_rank _ = 0"

text \<open>A task that holds a reservation makes at most seven more transitions.\<close>

theorem reserved_task_stops:
  assumes "task_history (T_RESERVED # h)"
  shows "length h \<le> 7"
proof -
  have falls: "\<forall>s t. tstep s t \<longrightarrow> task_rank s < 8 \<longrightarrow> task_rank t < task_rank s"
    by (simp add: all_task_states task_targets_def)
  have "length h \<le> task_rank s" if "task_history (s # h)" "task_rank s < 8" for s h
    using that
  proof (induction h arbitrary: s)
    case Nil
    then show ?case by simp
  next
    case (Cons t h)
    then have "task_rank t < task_rank s" using falls by auto
    with Cons show ?case by fastforce
  qed
  from this [OF assms] show ?thesis by simp
qed

theorem reserved_task_stops_witness:
  "length [T_DISPATCHED, T_STARTING, T_RUNNING, T_FINALIZING, T_CLEANUP_FAILED,
     T_RECONCILIATION_REQUIRED, T_FAILED] \<le> 7"
  by (rule reserved_task_stops) (simp add: task_targets_def)

end
