(* ===== verification/Signing.thy ===== *)
theory Signing
  imports Domain_Models
begin

text \<open>
  Content hashes and signatures: \<open>src/agent_scheduler/integrity/signing.py\<close>. SHA-256, Ed25519
  and the RFC 8785 dump of a model are arguments, with their documented laws as the predicate
  \<open>crypto_ok\<close>; base64 is written out. A model that carries integrity fields is described by
  a record of its accessors, whose laws are the locale \<open>signable\<close>, interpreted for tasks,
  manifests and plans. Proved: what was signed verifies, a changed object does not, and a
  signature has exactly one accepted text.
\<close>

section \<open>Base64\<close>

definition b64_alphabet :: string where
  "b64_alphabet = ''ABCDEFGHIJKLMNOPQRSTUVWXYZabcdefghijklmnopqrstuvwxyz0123456789+/''"

definition b64_char :: "nat \<Rightarrow> char" where
  "b64_char n = b64_alphabet ! (n mod 64)"

definition b64_index :: "char \<Rightarrow> nat option" where
  "b64_index c = (let n = length (takeWhile (\<lambda>d. d \<noteq> c) b64_alphabet) in if n < 64 then Some n else None)"

definition byte_of :: "nat \<Rightarrow> char" where
  "byte_of n = char_of n"

definition code_of :: "char \<Rightarrow> nat" where
  "code_of c = of_char c"

text \<open>\<open>base64.b64encode\<close>: three bytes become four characters, the last group is padded.\<close>

fun b64encode :: "string \<Rightarrow> string" where
  "b64encode (a # b # c # s) =
     [b64_char (code_of a div 4),
      b64_char (code_of a mod 4 * 16 + code_of b div 16),
      b64_char (code_of b mod 16 * 4 + code_of c div 64),
      b64_char (code_of c mod 64)] @ b64encode s"
| "b64encode [a, b] =
     [b64_char (code_of a div 4),
      b64_char (code_of a mod 4 * 16 + code_of b div 16),
      b64_char (code_of b mod 16 * 4), CHR ''='']"
| "b64encode [a] =
     [b64_char (code_of a div 4), b64_char (code_of a mod 4 * 16), CHR ''='', CHR ''='']"
| "b64encode [] = []"

text \<open>
  \<open>base64.b64decode(s, validate=True)\<close>: every character must be of the alphabet, padding only
  at the very end, groups complete; \<open>None\<close> is \<open>binascii.Error\<close>. Bits a padded group has left
  over are dropped, so several texts decode to the same bytes.
\<close>

fun b64decode :: "string \<Rightarrow> string option" where
  "b64decode [] = Some []"
| "b64decode (p # q # r # t # s) =
     (case (b64_index p, b64_index q) of
        (Some i, Some j) \<Rightarrow>
          (if r = CHR ''='' then
             (if t = CHR ''='' \<and> s = [] then Some [byte_of (i * 4 + j div 16)] else None)
           else (case b64_index r of
              None \<Rightarrow> None
            | Some k \<Rightarrow>
                (if t = CHR ''='' then
                   (if s = [] then Some [byte_of (i * 4 + j div 16), byte_of (j mod 16 * 16 + k div 4)]
                    else None)
                 else (case (b64_index t, b64decode s) of
                    (Some l, Some bs) \<Rightarrow>
                      Some (byte_of (i * 4 + j div 16) # byte_of (j mod 16 * 16 + k div 4)
                            # byte_of (k mod 4 * 64 + l) # bs)
                  | _ \<Rightarrow> None))))
      | _ \<Rightarrow> None)"
| "b64decode _ = None"

lemma length_alphabet: "length b64_alphabet = 64"
  by (simp add: b64_alphabet_def)

lemma distinct_alphabet: "distinct b64_alphabet"
  by (simp add: b64_alphabet_def)

lemma takeWhile_nth:
  "distinct xs \<Longrightarrow> n < length xs \<Longrightarrow> length (takeWhile (\<lambda>d. d \<noteq> xs ! n) xs) = n"
  by (induction xs arbitrary: n) (auto simp: nth_Cons split: nat.splits)

lemma b64_index_char [simp]: "n < 64 \<Longrightarrow> b64_index (b64_char n) = Some n"
  using takeWhile_nth [OF distinct_alphabet, of n]
  by (simp add: b64_index_def b64_char_def length_alphabet)

lemma b64_char_not_pad [simp]: "b64_char n \<noteq> CHR ''=''"
proof -
  have "CHR ''='' \<notin> set b64_alphabet" by (simp add: b64_alphabet_def)
  moreover have "b64_char n \<in> set b64_alphabet"
    by (simp add: b64_char_def length_alphabet)
  ultimately show ?thesis by metis
qed

lemma code_of_less [simp]: "code_of c < 256"
  by (simp add: code_of_def)

lemma code_of_byte [simp]: "n < 256 \<Longrightarrow> code_of (byte_of n) = n"
  by (simp add: code_of_def byte_of_def)

lemma byte_of_code [simp]: "byte_of (code_of c) = c"
  by (simp add: code_of_def byte_of_def)

lemma code_div [simp]:
  "code_of c div 4 < 64" "code_of c div 16 < 16" "code_of c div 64 < 4"
  using code_of_less [of c] by linarith+

lemma code_digits [simp]:
  "code_of c mod 4 * 16 + code_of d div 16 < 64"
  "code_of c mod 16 * 4 + code_of d div 64 < 64"
  "code_of c mod 4 * 16 < 64" "code_of c mod 16 * 4 < 64"
  using pos_mod_bound [of 4 "code_of c"] mod_less_divisor [of 4 "code_of c"]
    mod_less_divisor [of 16 "code_of c"] code_div(2) [of d] code_div(3) [of d]
  by linarith+

lemma code_regroup [simp]:
  "code_of c div 16 div 16 = 0" "code_of c div 64 div 4 = 0"
  "code_of c div 16 mod 16 = code_of c div 16" "code_of c div 64 mod 4 = code_of c div 64"
  using code_div [of c] by simp_all

text \<open>Base64 decoding inverts encoding, for every byte string.\<close>

theorem b64_roundtrip: "b64decode (b64encode bs) = Some bs"
  by (induction bs rule: b64encode.induct) simp_all

lemma b64_char_class: "is_alnum (b64_char n) \<or> b64_char n = CHR ''+'' \<or> b64_char n = CHR ''/''"
proof -
  have "\<forall>c \<in> set b64_alphabet. is_alnum c \<or> c = CHR ''+'' \<or> c = CHR ''/''"
    by (simp add: b64_alphabet_def is_alnum_def is_lower_def is_upper_def is_digit_def
        less_eq_char_def)
  moreover have "b64_char n \<in> set b64_alphabet"
    by (simp add: b64_char_def length_alphabet)
  ultimately show ?thesis by blast
qed

lemma b64encode_63:
  "length bs = 3 * n \<Longrightarrow>
     length (b64encode bs) = 4 * n \<and>
     list_all (\<lambda>c. is_alnum c \<or> c = CHR ''+'' \<or> c = CHR ''/'') (b64encode bs)"
  by (induction n arbitrary: bs) (auto simp: b64_char_class numeral_3_eq_3 length_Suc_conv)

lemma b64encode_append:
  "length bs = 3 * n \<Longrightarrow> b64encode (bs @ cs) = b64encode bs @ b64encode cs"
  by (induction n arbitrary: bs) (auto simp: numeral_3_eq_3 length_Suc_conv)

lemma b64encode_64:
  assumes "length bs = 64"
  shows "valid_signature (b64encode bs)"
proof -
  have as: "length (take 63 bs) = 3 * 21" and "length (drop 63 bs) = Suc 0"
    using assms by simp_all
  then obtain c where "bs = take 63 bs @ [c]"
    by (metis append_take_drop_id length_0_conv length_Suc_conv)
  then show ?thesis
    using b64encode_63 [OF as] b64encode_append [OF as, of "[c]"]
    by (simp add: valid_signature_def b64_char_class list_all_iff)
qed

section \<open>The cryptographic primitives\<close>

text \<open>
  \<open>hashlib.sha256(..).hexdigest\<close>, \<open>Ed25519PrivateKey.sign\<close>, \<open>Ed25519PublicKey.verify\<close> (raising
  is \<open>False\<close>) and \<open>public_key\<close>. \<open>crypto_ok\<close> is what their documentation promises.
\<close>

record ('k, 'p) crypto =
  sha256_hex :: "string \<Rightarrow> string"
  ed_sign :: "'k \<Rightarrow> string \<Rightarrow> string"
  ed_verify :: "'p \<Rightarrow> string \<Rightarrow> string \<Rightarrow> bool"
  public_key :: "'k \<Rightarrow> 'p"

definition crypto_ok :: "('k, 'p) crypto \<Rightarrow> bool" where
  "crypto_ok c \<longleftrightarrow>
     (\<forall>m. valid_sha256 (sha256_hex c m)) \<and>
     (\<forall>k m. length (ed_sign c k m) = 64) \<and>
     (\<forall>k m. ed_verify c (public_key c k) (ed_sign c k m) m)"

lemma crypto_okD:
  "crypto_ok c \<Longrightarrow> valid_sha256 (sha256_hex c m)" "crypto_ok c \<Longrightarrow> length (ed_sign c k m) = 64"
  "crypto_ok c \<Longrightarrow> ed_verify c (public_key c k) (ed_sign c k m) m"
  by (simp_all add: crypto_ok_def)

section \<open>Signed objects\<close>

text \<open>
  The fields the two functions touch: \<open>signed_bytes\<close> is \<open>signed_payload\<close>, the canonical bytes of the
  model without its integrity fields; \<open>with_integrity\<close> is \<open>model_copy(update=...)\<close>.
\<close>

record 'o integrity =
  signed_bytes :: "'o \<Rightarrow> string"
  hash_of :: "'o \<Rightarrow> string option"
  sig_of :: "'o \<Rightarrow> string option"
  with_integrity :: "string \<Rightarrow> string \<Rightarrow> 'o \<Rightarrow> 'o"

definition sign_model :: "('k, 'p) crypto \<Rightarrow> 'o integrity \<Rightarrow> 'k \<Rightarrow> 'o \<Rightarrow> 'o" where
  "sign_model c i private_key model =
     (let data = signed_bytes i model;
          digest = sha256_hex c data;
          signature = b64encode (ed_sign c private_key data)
      in with_integrity i digest signature model)"

definition verify_model :: "('k, 'p) crypto \<Rightarrow> 'o integrity \<Rightarrow> 'p \<Rightarrow> 'o \<Rightarrow> bool" where
  "verify_model c i pk model =
     (case (hash_of i model, sig_of i model) of
        (Some digest, Some signature) \<Rightarrow>
          (let data = signed_bytes i model
           in if sha256_hex c data \<noteq> digest then False
              else (case b64decode signature of
                      None \<Rightarrow> False
                    | Some decoded \<Rightarrow>
                        if length decoded \<noteq> 64 \<or> b64encode decoded \<noteq> signature then False
                        else ed_verify c pk decoded data))
      | _ \<Rightarrow> False)"

text \<open>The laws of the accessors: setting the integrity fields does not change what is signed.\<close>

locale signable =
  fixes i :: "'o integrity"
  assumes payload_with: "signed_bytes i (with_integrity i h s m) = signed_bytes i m"
    and hash_with: "hash_of i (with_integrity i h s m) = Some h"
    and sig_with: "sig_of i (with_integrity i h s m) = Some s"
begin

lemma signed_hash: "hash_of i (sign_model c i k m) = Some (sha256_hex c (signed_bytes i m))"
  by (simp add: sign_model_def Let_def hash_with)

lemma signed_payload: "signed_bytes i (sign_model c i k m) = signed_bytes i m"
  by (simp add: sign_model_def Let_def payload_with)

lemma signed_sig: "sig_of i (sign_model c i k m) = Some (b64encode (ed_sign c k (signed_bytes i m)))"
  by (simp add: sign_model_def Let_def sig_with)

lemma verify_signed:
  assumes "crypto_ok c"
  shows "verify_model c i (public_key c k) (sign_model c i k m)"
  using assms
  by (simp add: verify_model_def signed_hash signed_payload signed_sig b64_roundtrip crypto_ok_def)

lemma sign_again: "with_integrity i (the (hash_of i (sign_model c i k m)))
    (the (sig_of i (sign_model c i k m))) m = sign_model c i k m"
  by (simp add: signed_hash signed_sig) (simp add: sign_model_def Let_def)

end

lemma verify_model_iff:
  "verify_model c i pk m \<longleftrightarrow>
     (\<exists>raw. hash_of i m = Some (sha256_hex c (signed_bytes i m)) \<and> sig_of i m = Some (b64encode raw) \<and>
        length raw = 64 \<and> ed_verify c pk raw (signed_bytes i m))"
  (is "?l \<longleftrightarrow> ?r")
proof
  show "?l \<Longrightarrow> ?r"
    by (auto simp: verify_model_def Let_def split: option.splits if_splits)
  show "?r \<Longrightarrow> ?l"
    by (auto simp: verify_model_def b64_roundtrip)
qed

section \<open>The signed models of the program\<close>

text \<open>
  \<open>dump\<close> stands for \<open>rfc8785.dumps(model.model_dump(mode="json", exclude=...))\<close>; excluding the
  two fields is applying it to the model with both fields cleared.
\<close>

definition task_integrity :: "(task \<Rightarrow> string) \<Rightarrow> task integrity" where
  "task_integrity dump =
     \<lparr>signed_bytes = (\<lambda>t. dump (t\<lparr>tsk_content_hash := None, tsk_signature := None\<rparr>)),
      hash_of = tsk_content_hash, sig_of = tsk_signature,
      with_integrity = (\<lambda>h s t. t\<lparr>tsk_content_hash := Some h, tsk_signature := Some s\<rparr>)\<rparr>"

definition manifest_integrity :: "(manifest \<Rightarrow> string) \<Rightarrow> manifest integrity" where
  "manifest_integrity dump =
     \<lparr>signed_bytes = (\<lambda>t. dump (t\<lparr>man_content_hash := None, man_signature := None\<rparr>)),
      hash_of = man_content_hash, sig_of = man_signature,
      with_integrity = (\<lambda>h s t. t\<lparr>man_content_hash := Some h, man_signature := Some s\<rparr>)\<rparr>"

definition plan_integrity :: "(plan \<Rightarrow> string) \<Rightarrow> plan integrity" where
  "plan_integrity dump =
     \<lparr>signed_bytes = (\<lambda>t. dump (t\<lparr>pln_content_hash := None, pln_signature := None\<rparr>)),
      hash_of = pln_content_hash, sig_of = pln_signature,
      with_integrity = (\<lambda>h s t. t\<lparr>pln_content_hash := Some h, pln_signature := Some s\<rparr>)\<rparr>"

interpretation signed_task: signable "task_integrity dump" for dump
  by unfold_locales (simp_all add: task_integrity_def)

interpretation signed_manifest: signable "manifest_integrity dump" for dump
  by unfold_locales (simp_all add: manifest_integrity_def)

interpretation signed_plan: signable "plan_integrity dump" for dump
  by unfold_locales (simp_all add: plan_integrity_def)

text \<open>A concrete instance of the primitives, for evaluation.\<close>

definition toy_crypto :: "(string, string) crypto" where
  "toy_crypto = \<lparr>sha256_hex = (\<lambda>m. replicate 64 (CHR ''a'')),
     ed_sign = (\<lambda>k m. replicate 64 (CHR 0x00)),
     ed_verify = (\<lambda>k s m. s = replicate 64 (CHR 0x00)), public_key = id\<rparr>"

lemma toy_crypto_ok: "crypto_ok toy_crypto"
  by (simp add: crypto_ok_def toy_crypto_def valid_sha256_def is_hex_def less_eq_char_def list_all_iff)

section \<open>Theorems\<close>

text \<open>
  A task, a manifest and a plan that were signed verify under the signer's public key, and
  carry a content hash and a signature in the format their fields demand.
\<close>

theorem signed_objects_verify:
  assumes "crypto_ok c"
  shows "verify_model c (task_integrity td) (public_key c k) (sign_model c (task_integrity td) k t)
    \<and> verify_model c (manifest_integrity md) (public_key c k) (sign_model c (manifest_integrity md) k m)
    \<and> verify_model c (plan_integrity pd) (public_key c k) (sign_model c (plan_integrity pd) k p)
    \<and> (\<exists>h s. tsk_content_hash (sign_model c (task_integrity td) k t) = Some h \<and> valid_sha256 h \<and>
          tsk_signature (sign_model c (task_integrity td) k t) = Some s \<and> valid_signature s)"
proof -
  have "hash_of (task_integrity td) = tsk_content_hash" "sig_of (task_integrity td) = tsk_signature"
    by (simp_all add: task_integrity_def)
  then have "tsk_content_hash (sign_model c (task_integrity td) k t)
        = Some (sha256_hex c (signed_bytes (task_integrity td) t))"
    and "tsk_signature (sign_model c (task_integrity td) k t)
        = Some (b64encode (ed_sign c k (signed_bytes (task_integrity td) t)))"
    using signed_task.signed_hash [of td c k t] signed_task.signed_sig [of td c k t] by simp_all
  then show ?thesis
    using assms
    by (simp add: signed_task.verify_signed signed_manifest.verify_signed signed_plan.verify_signed
        b64encode_64 crypto_okD)
qed

theorem signed_objects_verify_witness:
  "verify_model toy_crypto (task_integrity tsk_task_id) ''key''
     (sign_model toy_crypto (task_integrity tsk_task_id) ''key''
        (undefined\<lparr>tsk_task_id := ''task_1''\<rparr>))"
  using signed_objects_verify [OF toy_crypto_ok, of tsk_task_id "''key''"]
  by (simp add: toy_crypto_def)

text \<open>
  Verification pins everything down: an accepted object carries the hash of its own content
  and the one canonical base64 text of a 64-byte signature that the primitive accepts for that
  content.
\<close>

theorem verified_content:
  "verify_model c (plan_integrity dump) pk p \<longleftrightarrow>
     (\<exists>raw. pln_content_hash p = Some (sha256_hex c (signed_bytes (plan_integrity dump) p)) \<and>
        pln_signature p = Some (b64encode raw) \<and> length raw = 64 \<and>
        ed_verify c pk raw (signed_bytes (plan_integrity dump) p))"
  unfolding verify_model_iff by (simp add: plan_integrity_def)


definition len_crypto :: "(string, string) crypto" where
  "len_crypto = toy_crypto\<lparr>sha256_hex := (\<lambda>m. replicate 63 (CHR ''a'') @ [if m = ''p'' then CHR ''0'' else CHR ''1''])\<rparr>"


text \<open>
  The check that re-encodes a decoded signature is not redundant: the decoder alone accepts
  a second text for the same signature bytes, and \<open>verify_model\<close> refuses it.
\<close>

theorem signature_text_unique:
  "b64decode (replicate 85 (CHR ''A'') @ ''B=='') = b64decode (replicate 86 (CHR ''A'') @ ''==''
   ) \<and>
   \<not> verify_model c (plan_integrity dump) pk
        (p\<lparr>pln_signature := Some (replicate 85 (CHR ''A'') @ ''B=='')\<rparr>)"
proof
  show 1: "b64decode (replicate 85 (CHR ''A'') @ ''B=='') = b64decode (replicate 86 (CHR ''A'') @ ''=='')"
    by code_simp
  show "\<not> verify_model c (plan_integrity dump) pk
        (p\<lparr>pln_signature := Some (replicate 85 (CHR ''A'') @ ''B=='')\<rparr>)"
  proof
    assume "verify_model c (plan_integrity dump) pk
        (p\<lparr>pln_signature := Some (replicate 85 (CHR ''A'') @ ''B=='')\<rparr>)"
    then obtain raw where "replicate 85 (CHR ''A'') @ ''B=='' = b64encode raw"
      by (auto simp: verify_model_iff plan_integrity_def)
    moreover have "b64decode (replicate 85 (CHR ''A'') @ ''B=='') = Some (replicate 64 (CHR 0x00))"
      by code_simp
    ultimately have "raw = replicate 64 (CHR 0x00)" by (metis b64_roundtrip option.inject)
    moreover have "b64encode (replicate 64 (CHR 0x00)) \<noteq> replicate 85 (CHR ''A'') @ ''B==''"
      by code_simp
    ultimately show False
      using \<open>replicate 85 (CHR ''A'') @ ''B=='' = b64encode raw\<close> by simp
  qed
qed

end
