(* ===== verification/Compiler.thy ===== *)
theory Compiler
  imports Signing
begin

text \<open>
  The deterministic compiler \<open>src/agent_scheduler/domain/compiler.py\<close>: frozen revision, facts,
  review and context to a signed task. Every refusal is a branch, in the order of the source.
  Proved: what a compiled task contains, exactly when compilation succeeds, which refusal comes
  first, and that the result verifies.
\<close>

section \<open>The context and the compiler\<close>

record compilation_context =
  ctx_task_id :: string
  ctx_execution_id :: string
  ctx_proposal_id :: string
  ctx_revision_id :: string
  ctx_facts_id :: string
  ctx_review_id :: string
  ctx_created_at :: int
  ctx_key_id :: string
  ctx_policy_version :: string
  ctx_max_workers :: int
  ctx_allowed_worker_ids :: "string list"
  ctx_allowed_container :: "string \<times> string \<times> string"
  ctx_allowed_image_digest :: string

text \<open>\<open>s.split("_", 1)[1]\<close>: what follows the first underscore; without one the index fails.\<close>

definition after_underscore :: "string \<Rightarrow> string option" where
  "after_underscore s =
     (case dropWhile (\<lambda>c. c \<noteq> CHR ''_'') s of [] \<Rightarrow> None | _ # t \<Rightarrow> Some t)"

definition compile_unit :: "facts \<Rightarrow> string \<Rightarrow> task_unit" where
  "compile_unit facts tail =
     \<lparr>unt_unit_id = ''unit_'' @ tail,
      unt_required_gpu_count = fct_required_gpu_count facts,
      unt_worker_id = fct_required_worker_id facts,
      unt_container_name = fct_container_name facts,
      unt_submitter_username = fct_submitter_username facts,
      unt_container_user = fct_container_user facts,
      unt_image_digest = fct_image_digest facts,
      unt_setup = fct_setup facts,
      unt_run = fct_run facts,
      unt_teardown = fct_teardown facts,
      unt_required_logs = fct_required_logs facts,
      unt_required_outputs = fct_required_outputs facts,
      unt_timeout_seconds = fct_timeout_seconds facts\<rparr>"

definition unsigned_task :: "revision \<Rightarrow> facts \<Rightarrow> review \<Rightarrow> compilation_context \<Rightarrow> string \<Rightarrow> task" where
  "unsigned_task revision facts review context tail =
     \<lparr>tsk_key_id = ctx_key_id context,
      tsk_policy_version = ctx_policy_version context,
      tsk_task_id = ctx_task_id context,
      tsk_execution_id = ctx_execution_id context,
      tsk_proposal_id = rev_proposal_id revision,
      tsk_revision_id = rev_revision_id revision,
      tsk_facts_id = fct_facts_id facts,
      tsk_review_id = rvw_review_id review,
      tsk_units = [compile_unit facts tail],
      tsk_created_at = ctx_created_at context,
      tsk_content_hash = None,
      tsk_signature = None\<rparr>"

text \<open>
  \<open>compile_task\<close>; constructing the models checks their field constraints. The \<open>IndexError\<close> of a task id without underscore is a branch of its own; the
  type \<open>ID\<close> of \<open>task_id\<close> rules it out (lemma \<open>valid_id_tail\<close>).
\<close>

definition compile_task ::
  "('k, 'p) crypto \<Rightarrow> (task \<Rightarrow> string) \<Rightarrow> revision \<Rightarrow> facts \<Rightarrow> review \<Rightarrow> compilation_context \<Rightarrow> 'k
     \<Rightarrow> exn + task" where
  "compile_task c dump revision facts review context private_key =
     (if rvw_decision review \<noteq> APPROVE
      then Inl (CompileError ''only an approved review can be compiled'')
      else if (ctx_proposal_id context, ctx_revision_id context, ctx_facts_id context,
               ctx_review_id context)
            \<noteq> (rev_proposal_id revision, rev_revision_id revision, fct_facts_id facts,
               rvw_review_id review)
      then Inl (CompileError ''Compilation Context is not bound to the frozen inputs'')
      else if rvw_proposal_id review \<noteq> rev_proposal_id revision
      then Inl (CompileError ''review and revision refer to different proposals'')
      else if rvw_revision_id review \<noteq> rev_revision_id revision
            \<or> fct_revision_id facts \<noteq> rev_revision_id revision
      then Inl (CompileError
             ''revision, facts and review must refer to the same immutable revision'')
      else if fct_worker_count facts > ctx_max_workers context
      then Inl (CompileError ''facts request more workers than policy allows'')
      else if fct_required_worker_id facts \<notin> set (ctx_allowed_worker_ids context)
      then Inl (CompileError ''worker is not allowlisted by the frozen policy'')
      else if (fct_required_worker_id facts, fct_container_name facts, fct_submitter_username facts)
            \<noteq> ctx_allowed_container context
      then Inl (CompileError ''reuse container triple is not allowlisted'')
      else if fct_image_digest facts \<noteq> ctx_allowed_image_digest context
      then Inl (CompileError ''image digest differs from the frozen policy'')
      else if fct_required_gpu_count facts > fct_gpu_count facts
      then Inl (CompileError ''requested GPUs exceed discovered worker capacity'')
      else (case after_underscore (ctx_task_id context) of
              None \<Rightarrow> Inl (KeyError ''list index out of range'')
            | Some tail \<Rightarrow>
                (let unsigned = unsigned_task revision facts review context tail
                 in if \<not> valid_task unsigned
                    then Inl (ValueError ''validation error for Task'')
                    else Inr (sign_model c (task_integrity dump) private_key unsigned))))"

section \<open>When compilation succeeds\<close>

text \<open>The bindings and the policy a compilation demands, as one predicate.\<close>

definition bound_inputs :: "revision \<Rightarrow> facts \<Rightarrow> review \<Rightarrow> compilation_context \<Rightarrow> bool" where
  "bound_inputs r f v x \<longleftrightarrow>
     ctx_proposal_id x = rev_proposal_id r \<and> ctx_revision_id x = rev_revision_id r \<and>
     ctx_facts_id x = fct_facts_id f \<and> ctx_review_id x = rvw_review_id v \<and>
     rvw_proposal_id v = rev_proposal_id r \<and> rvw_revision_id v = rev_revision_id r \<and>
     fct_revision_id f = rev_revision_id r"

definition allowed_by_policy :: "facts \<Rightarrow> compilation_context \<Rightarrow> bool" where
  "allowed_by_policy f x \<longleftrightarrow>
     fct_worker_count f \<le> ctx_max_workers x \<and>
     fct_required_worker_id f \<in> set (ctx_allowed_worker_ids x) \<and>
     ctx_allowed_container x
       = (fct_required_worker_id f, fct_container_name f, fct_submitter_username f) \<and>
     fct_image_digest f = ctx_allowed_image_digest x \<and>
     fct_required_gpu_count f \<le> fct_gpu_count f"

lemma valid_id_tail:
  assumes "valid_id s"
  shows "\<exists>t. after_underscore s = Some t \<and> CHR ''_'' \<in> set s"
proof -
  have "drop (length s - 33) s \<noteq> []" and "hd (drop (length s - 33) s) = CHR ''_''"
    using assms by (auto simp: valid_id_def Let_def)
  then have "CHR ''_'' \<in> set s" by (metis hd_in_set in_set_dropD)
  then show ?thesis
    by (auto simp: after_underscore_def split: list.splits)
qed

lemma drop_append_plus: "drop (length xs + n) (xs @ ys) = drop n ys"
  by simp

lemma take_append_plus: "take (length xs + n) (xs @ ys) = xs @ take n ys"
  by simp

lemma valid_id_retype:
  assumes "valid_id s" and "after_underscore s = Some t"
  shows "valid_id (''unit_'' @ t)"
proof -
  let ?n = "length s - 33"
  have len: "34 \<le> length s" and hd: "hd (drop ?n s) = CHR ''_''"
    and word: "list_all (\<lambda>c. is_lower c \<or> is_digit c \<or> c = CHR ''_'') (take ?n s)"
    and hex: "list_all is_hex (tl (drop ?n s))"
    using assms(1) by (auto simp: valid_id_def Let_def)
  obtain a where s: "s = a @ CHR ''_'' # t" and a: "CHR ''_'' \<notin> set a"
  proof -
    have "dropWhile (\<lambda>c. c \<noteq> CHR ''_'') s = CHR ''_'' # t"
      using assms(2) by (auto simp: after_underscore_def dropWhile_eq_Cons_conv split: list.splits)
    then show ?thesis
      using that [of "takeWhile (\<lambda>c. c \<noteq> CHR ''_'') s"] takeWhile_dropWhile_id [of _ s]
      by (metis (mono_tags, lifting) set_takeWhileD)
  qed
  have nth: "s ! ?n = CHR ''_''" using hd len by (simp add: hd_drop_conv_nth)
  have "length a \<le> ?n"
  proof (rule ccontr)
    assume "\<not> length a \<le> ?n"
    then have "s ! ?n = a ! ?n" and "?n < length a" using s by (simp_all add: nth_append)
    with nth a show False by (metis nth_mem)
  qed
  then have t: "32 \<le> length t" and len_s: "length s = length a + 1 + length t"
    using s len by auto
  show ?thesis
  proof (cases "length t = 32")
    case True
    then have "drop ?n s = CHR ''_'' # t" using s by simp
    then show ?thesis
      using hex True by (simp add: valid_id_def is_lower_def less_eq_char_def)
  next
    case False
    then have n: "?n = length a + 1 + (length t - 33)" and "33 \<le> length t"
      using t len_s by auto
    have "s = (a @ [CHR ''_'']) @ t" "?n = length (a @ [CHR ''_'']) + (length t - 33)"
      using s n by simp_all
    then have "drop ?n s = drop (length t - 33) t"
      and "take ?n s = a @ CHR ''_'' # take (length t - 33) t"
      by (metis drop_append_plus, metis append.assoc append_Cons append_Nil take_append_plus)
    moreover have "length (''unit_'' @ t) - 33 = length ''unit_'' + (length t - 33)"
      using \<open>33 \<le> length t\<close> by simp
    moreover have "34 \<le> length (''unit_'' @ t)" using \<open>33 \<le> length t\<close> by simp
    moreover have "list_all (\<lambda>c. is_lower c \<or> is_digit c \<or> c = CHR ''_'') ''unit_''"
      by (simp add: is_lower_def less_eq_char_def)
    moreover have "is_lower (hd (''unit_'' @ u))" for u
      by (simp add: is_lower_def less_eq_char_def)
    ultimately show ?thesis
      using hex hd word unfolding valid_id_def Let_def
      by (simp only: drop_append_plus take_append_plus list_all_append append.assoc) simp
  qed
qed

lemma compile_task_Inr:
  "compile_task c dump r f v x k = Inr t \<longleftrightarrow>
     rvw_decision v = APPROVE \<and> bound_inputs r f v x \<and> allowed_by_policy f x \<and>
     (\<exists>tail. after_underscore (ctx_task_id x) = Some tail \<and>
        valid_task (unsigned_task r f v x tail) \<and>
        t = sign_model c (task_integrity dump) k (unsigned_task r f v x tail))"
  unfolding compile_task_def bound_inputs_def allowed_by_policy_def
  by (auto simp: Let_def split: option.splits)

lemma compiled_fields:
  assumes "compile_task c dump r f v x k = Inr t"
  obtains tail where "after_underscore (ctx_task_id x) = Some tail"
    and "tsk_task_id t = ctx_task_id x" and "tsk_execution_id t = ctx_execution_id x"
    and "tsk_proposal_id t = rev_proposal_id r" and "tsk_revision_id t = rev_revision_id r"
    and "tsk_facts_id t = fct_facts_id f" and "tsk_review_id t = rvw_review_id v"
    and "tsk_units t = [compile_unit f tail]"
    and "tsk_key_id t = ctx_key_id x" and "tsk_policy_version t = ctx_policy_version x"
  using assms
  by (auto simp: compile_task_Inr sign_model_def task_integrity_def unsigned_task_def Let_def)

text \<open>The field constraints of the inputs and of the identifiers in the context.\<close>

definition valid_context :: "compilation_context \<Rightarrow> bool" where
  "valid_context x \<longleftrightarrow> valid_id (ctx_task_id x) \<and> valid_id (ctx_execution_id x) \<and>
     valid_id (ctx_proposal_id x) \<and> valid_id (ctx_revision_id x) \<and>
     valid_id (ctx_facts_id x) \<and> valid_id (ctx_review_id x)"

definition labels_ok :: "compilation_context \<Rightarrow> bool" where
  "labels_ok x \<longleftrightarrow> 1 \<le> py_len (ctx_key_id x) \<and> py_len (ctx_key_id x) \<le> 128 \<and>
     1 \<le> py_len (ctx_policy_version x) \<and> py_len (ctx_policy_version x) \<le> 128"

lemma valid_unsigned:
  assumes "valid_facts f" and "valid_context x" and "bound_inputs r f v x"
    and "after_underscore (ctx_task_id x) = Some tail"
  shows "valid_task (unsigned_task r f v x tail) \<longleftrightarrow> labels_ok x"
proof -
  have "valid_id (''unit_'' @ tail)"
    using assms(2,4) by (intro valid_id_retype [of "ctx_task_id x"]) (simp_all add: valid_context_def)
  with assms show ?thesis
    unfolding valid_task_def
    by (auto simp: unsigned_task_def compile_unit_def valid_unit_def valid_facts_def
        valid_context_def bound_inputs_def validate_task_def opt_ok_def labels_ok_def)
qed

text \<open>
  Compilation succeeds exactly for an approved review of the same revision and proposal
  whose facts respect the frozen policy, with key id and policy version of admissible length; for
  well-formed facts and identifiers there is no other refusal.
\<close>

theorem compile_task_succeeds_iff:
  assumes "valid_facts f" and "valid_context x"
  shows "(\<exists>t. compile_task c dump r f v x k = Inr t) \<longleftrightarrow>
    rvw_decision v = APPROVE \<and> bound_inputs r f v x \<and> allowed_by_policy f x \<and> labels_ok x"
  using valid_id_tail [of "ctx_task_id x"] valid_unsigned [OF assms] assms(2)
  by (auto simp: compile_task_Inr valid_context_def)


text \<open>A compilation that succeeds, for evaluation.\<close>

definition sample_command :: command where
  "sample_command = \<lparr>cmd_kind = INLINE_BASH, cmd_script = Some ''true'', cmd_container_path = None,
     cmd_sha256 = None, cmd_argv = []\<rparr>"

definition sample_id :: "string \<Rightarrow> string" where
  "sample_id p = p @ ''_'' @ replicate 32 (CHR ''0'')"

definition sample_image :: string where
  "sample_image = ''img@sha256:'' @ replicate 64 (CHR ''0'')"

definition sample_facts :: "string \<Rightarrow> int \<Rightarrow> facts" where
  "sample_facts worker n =
     \<lparr>fct_facts_id = sample_id ''facts'', fct_revision_id = sample_id ''rev'', fct_worker_count = 1,
      fct_gpu_count = 8, fct_required_gpu_count = n, fct_required_worker_id = worker,
      fct_container_name = ''box'', fct_submitter_username = ''alice'',
      fct_container_user = ''root'', fct_image_digest = sample_image,
      fct_setup = [], fct_run = [sample_command], fct_teardown = [], fct_required_logs = [],
      fct_required_outputs = [], fct_timeout_seconds = 60\<rparr>"

definition sample_revision :: revision where
  "sample_revision = \<lparr>rev_revision_id = sample_id ''rev'', rev_proposal_id = sample_id ''prop'',
     rev_number = 1, rev_markdown = ''x'', rev_created_at = 0\<rparr>"

definition sample_review :: review where
  "sample_review = \<lparr>rvw_review_id = sample_id ''review'', rvw_proposal_id = sample_id ''prop'',
     rvw_revision_id = sample_id ''rev'', rvw_decision = APPROVE, rvw_rationale = ''ok'',
     rvw_created_at = 0\<rparr>"

definition sample_context :: compilation_context where
  "sample_context =
     \<lparr>ctx_task_id = sample_id ''task'', ctx_execution_id = sample_id ''exec'',
      ctx_proposal_id = sample_id ''prop'', ctx_revision_id = sample_id ''rev'',
      ctx_facts_id = sample_id ''facts'', ctx_review_id = sample_id ''review'', ctx_created_at = 0,
      ctx_key_id = ''k'', ctx_policy_version = ''1'', ctx_max_workers = 1,
      ctx_allowed_worker_ids = [''w''], ctx_allowed_container = (''w'', ''box'', ''alice''),
      ctx_allowed_image_digest = sample_image\<rparr>"

lemma sample_id_valid: "valid_id (sample_id ''task'')" "valid_id (sample_id ''exec'')"
  "valid_id (sample_id ''prop'')" "valid_id (sample_id ''rev'')" "valid_id (sample_id ''facts'')"
  "valid_id (sample_id ''review'')"
  by (simp_all add: sample_id_def valid_id_def is_lower_def is_hex_def is_digit_def
      less_eq_char_def list_all_iff)

lemma sample_context_valid: "valid_context sample_context"
  by (simp add: valid_context_def sample_context_def sample_id_valid)

lemma sample_image_valid: "valid_image_digest sample_image"
  by (simp add: sample_image_def valid_image_digest_def is_alnum_def is_lower_def is_hex_def
      is_digit_def less_eq_char_def list_all_iff)

lemma sample_command_valid: "valid_command sample_command"
  by (simp add: sample_command_def valid_command_def validate_variant_def background_command_def
      py_len_def starts_with_def)

lemma sample_facts_valid: "1 \<le> n \<Longrightarrow> n \<le> 8 \<Longrightarrow> valid_facts (sample_facts w n)"
  by (simp add: sample_facts_def valid_facts_def sample_id_valid sample_image_valid
      sample_command_valid py_len_def valid_username_def is_path_char_def is_alnum_def is_lower_def
      less_eq_char_def)

lemmas sample_defs = sample_facts_def sample_revision_def sample_review_def sample_context_def
  bound_inputs_def allowed_by_policy_def labels_ok_def py_len_def

theorem compile_task_succeeds_iff_witness:
  "\<exists>t. compile_task toy_crypto tsk_task_id sample_revision (sample_facts ''w'' 8) sample_review
         sample_context ''key'' = Inr t"
  by (subst compile_task_succeeds_iff)
     (simp_all add: sample_facts_valid sample_context_valid, simp_all add: sample_defs)

text \<open>The same success from the branches themselves, for the other examples.\<close>

lemma sample_compiles:
  "\<exists>t. compile_task toy_crypto dump sample_revision (sample_facts ''w'' 2) sample_review
         sample_context ''key'' = Inr t"
proof -
  have b: "bound_inputs sample_revision (sample_facts ''w'' 2) sample_review sample_context"
    by (simp add: sample_defs)
  obtain tail where "after_underscore (ctx_task_id sample_context) = Some tail"
    using valid_id_tail [of "ctx_task_id sample_context"] sample_context_valid
    by (auto simp: valid_context_def)
  with b valid_unsigned [OF _ sample_context_valid b] show ?thesis
    by (simp add: compile_task_Inr sample_facts_valid) (simp add: sample_defs)
qed


text \<open>
  The task's unit id is the task id with its type prefix exchanged: for a valid task id
  \<open>task_<hex>\<close> the unit is \<open>unit_<hex>\<close>, so equal task ids mean equal unit ids and back.
\<close>

theorem unit_id_of_task:
  assumes "compile_task c dump r f v x k = Inr t" and "ctx_task_id x = ''task_'' @ h"
  shows "map unt_unit_id (tsk_units t) = [''unit_'' @ h]"
proof -
  from assms(1) obtain tail where "after_underscore (ctx_task_id x) = Some tail"
    and "tsk_units t = [compile_unit f tail]" by (rule compiled_fields)
  with assms(2) show ?thesis by (simp add: after_underscore_def compile_unit_def)
qed

theorem unit_id_of_task_witness:
  "\<exists>t. compile_task toy_crypto tsk_task_id sample_revision (sample_facts ''w'' 2) sample_review
         sample_context ''key'' = Inr t \<and> map unt_unit_id (tsk_units t) = [sample_id ''unit'']"
proof -
  obtain t where t: "compile_task toy_crypto tsk_task_id sample_revision (sample_facts ''w'' 2)
      sample_review sample_context ''key'' = Inr t" using sample_compiles by blast
  have "ctx_task_id sample_context = ''task_'' @ replicate 32 (CHR ''0'')"
    by (simp add: sample_context_def sample_id_def)
  from unit_id_of_task [OF t this] t show ?thesis by (simp add: sample_id_def)
qed

end
