(* ===== verification/Event_Store.thy ===== *)
theory Event_Store
  imports Identifiers Domain_State Compiler
begin

text \<open>
  The event store of \<open>src/agent_scheduler/storage/events.py\<close> and the log pruning of
  \<open>storage/retention.py\<close>. The state \<open>world\<close> holds what every component shares: the clock, the
  source of identifiers, the files of the store and the faults of its disk. Every read of the
  clock, every identifier and every file operation consumes one element of a stream, so that a
  program is a function of its state. Proved: immutable files never change, event streams stay
  gap-free, a fault leaves the log readable or detectably torn, and the laws of snapshots.
\<close>

section \<open>Files\<close>

text \<open>
  What the JSON files contain, typed by the model that was dumped. \<open>strict_from_json_value\<close> on a
  dumped model gives the model back (the documented behaviour of the serialiser), so reading is
  the projection \<open>as_<model>\<close>, which fails on a file of another shape.
\<close>

datatype obj =
    O_worker worker_snapshot
  | O_task task
  | O_status task_status
  | O_manifest manifest
  | O_plan plan
  | O_lease lease
  | O_lease_event string int lease
  | O_proposal proposal
  | O_revision revision
  | O_facts facts
  | O_review review
  | O_context compilation_context
  | O_idempotency idempotency_record
  | O_envelope envelope
  | O_json "(string \<times> json) list"
  | O_bytes string

text \<open>A line of an event file: an event, text that is no event, or a line without its newline.\<close>

datatype log_line = Event_line event | Bad_line | Partial_line

text \<open>
  How one file operation ends: well, with an \<open>OSError\<close> before or after it took effect, or, for
  an append, with only a part of the line written.
\<close>

datatype io_fault = IO_ok | IO_before | IO_after | IO_partial

type_synonym file_key = "string \<times> string"

record world =
  clock :: "nat \<Rightarrow> int"
  clock_no :: nat
  draws :: "nat \<Rightarrow> int \<times> int \<times> int"
  draw_no :: nat
  faults :: "nat \<Rightarrow> io_fault"
  fault_no :: nat
  store_root :: string
  immutable :: "(file_key, obj) dict"
  snapshots :: "(file_key, obj) dict"
  logs :: "(file_key, log_line list) dict"

section \<open>Clock, identifiers and faults\<close>

definition utc_now :: "('z world_scheme, int) prog" where
  "utc_now = (\<lambda>s. (Inr (clock s (clock_no s)), s\<lparr>clock_no := Suc (clock_no s)\<rparr>))"

definition fresh_id :: "string \<Rightarrow> ('z world_scheme, string) prog" where
  "fresh_id prefix = (\<lambda>s. case draws s (draw_no s) of (ms, ra, rb) \<Rightarrow>
     (new_id prefix ms ra rb, s\<lparr>draw_no := Suc (draw_no s)\<rparr>))"

definition next_fault :: "('z world_scheme, io_fault) prog" where
  "next_fault = (\<lambda>s. (Inr (faults s (fault_no s)), s\<lparr>fault_no := Suc (fault_no s)\<rparr>))"

text \<open>A file operation with effect \<open>f\<close>, atomic because the source replaces files atomically.\<close>

definition file_op :: "('z world_scheme \<Rightarrow> 'z world_scheme) \<Rightarrow> ('z world_scheme, unit) prog" where
  "file_op f = bindP next_fault (\<lambda>x. case x of
      IO_ok \<Rightarrow> updateP f
    | IO_after \<Rightarrow> bindP (updateP f) (\<lambda>_. raiseP (OSError ''fsync failed''))
    | _ \<Rightarrow> raiseP (OSError ''write failed''))"

section \<open>Immutable objects and snapshots\<close>

definition json_name :: "string \<Rightarrow> string" where
  "json_name object_id = object_id @ ''.json''"

definition immutable_exists :: "string \<Rightarrow> string \<Rightarrow> ('z world_scheme, bool) prog" where
  "immutable_exists object_type object_id =
     readP (\<lambda>s. map_of (immutable s) (object_type, json_name object_id) \<noteq> None)"

definition write_immutable_file :: "string \<Rightarrow> string \<Rightarrow> obj \<Rightarrow> ('z world_scheme, unit) prog" where
  "write_immutable_file object_type name data =
     bindP (readP (\<lambda>s. map_of (immutable s) (object_type, name) \<noteq> None)) (\<lambda>exists.
       if exists then raiseP (FileExistsError (object_type @ ''/'' @ name))
       else file_op (\<lambda>s. s\<lparr>immutable := AList.update (object_type, name) data (immutable s)\<rparr>))"

definition write_immutable :: "string \<Rightarrow> string \<Rightarrow> obj \<Rightarrow> ('z world_scheme, unit) prog" where
  "write_immutable object_type object_id data =
     write_immutable_file object_type (json_name object_id) data"

definition write_immutable_bytes :: "string \<Rightarrow> string \<Rightarrow> string \<Rightarrow> ('z world_scheme, unit) prog" where
  "write_immutable_bytes object_type name data =
     write_immutable_file object_type name (O_bytes data)"

text \<open>\<open>_read_object\<close>: raw bytes are only written under names the readers below skip.\<close>

definition read_object :: "file_key \<Rightarrow> obj option \<Rightarrow> exn + obj" where
  "read_object k x = (case x of
      None \<Rightarrow> Inl (StoreCorruptionError (''invalid JSON object: '' @ fst k @ ''/'' @ snd k))
    | Some (O_bytes _) \<Rightarrow> Inl (StoreCorruptionError (''JSON value is not an object: '' @ fst k @ ''/'' @ snd k))
    | Some d \<Rightarrow> Inr d)"

definition read_immutable :: "string \<Rightarrow> string \<Rightarrow> ('z world_scheme, obj) prog" where
  "read_immutable object_type object_id =
     (\<lambda>s. let k = (object_type, json_name object_id) in (read_object k (map_of (immutable s) k), s))"

text \<open>The names of one directory that end in \<open>.json\<close>, in the order of \<open>sorted\<close>.\<close>

definition json_files :: "string \<Rightarrow> (file_key, obj) dict \<Rightarrow> string list" where
  "json_files object_type d =
     sort (map snd (filter (\<lambda>k. fst k = object_type \<and> ends_with ''.json'' (snd k)) (map fst d)))"

definition iter_immutable :: "string \<Rightarrow> ('z world_scheme, obj list) prog" where
  "iter_immutable object_type =
     bindP (readP (\<lambda>s. json_files object_type (immutable s))) (\<lambda>names.
       forP (filter (\<lambda>n. \<not> ends_with ''.canonical.json'' n) names) (\<lambda>n s.
         (read_object (object_type, n) (map_of (immutable s) (object_type, n)), s)))"

definition write_snapshot :: "string \<Rightarrow> string \<Rightarrow> obj \<Rightarrow> ('z world_scheme, unit) prog" where
  "write_snapshot object_type object_id data =
     file_op (\<lambda>s. s\<lparr>snapshots := AList.update (object_type, json_name object_id) data (snapshots s)\<rparr>)"

definition read_snapshot :: "string \<Rightarrow> string \<Rightarrow> ('z world_scheme, obj option) prog" where
  "read_snapshot object_type object_id =
     (\<lambda>s. let k = (object_type, json_name object_id)
          in case map_of (snapshots s) k of
               None \<Rightarrow> (Inr None, s)
             | Some d \<Rightarrow> (case read_object k (Some d) of Inl e \<Rightarrow> (Inl e, s) | Inr x \<Rightarrow> (Inr (Some x), s)))"

definition delete_snapshot :: "string \<Rightarrow> string \<Rightarrow> ('z world_scheme, unit) prog" where
  "delete_snapshot object_type object_id =
     bindP (readP (\<lambda>s. map_of (snapshots s) (object_type, json_name object_id) \<noteq> None)) (\<lambda>exists.
       whenP exists
         (file_op (\<lambda>s. s\<lparr>snapshots := AList.delete (object_type, json_name object_id) (snapshots s)\<rparr>)))"

definition iter_snapshots :: "string \<Rightarrow> ('z world_scheme, obj list) prog" where
  "iter_snapshots object_type =
     bindP (readP (\<lambda>s. json_files object_type (snapshots s))) (\<lambda>names.
       forP names (\<lambda>n s.
         (read_object (object_type, n) (map_of (snapshots s) (object_type, n)), s)))"

section \<open>Event streams\<close>

definition log_path :: "string \<Rightarrow> string \<Rightarrow> string \<Rightarrow> string" where
  "log_path r object_type object_id =
     r @ ''/events/'' @ object_type @ ''/'' @ object_id @ ''.jsonl''"

text \<open>The loop of \<open>list_events\<close> over the lines, with its line number and expected sequence.\<close>

fun scan_events ::
  "string \<Rightarrow> string \<Rightarrow> string \<Rightarrow> int \<Rightarrow> nat \<Rightarrow> int \<Rightarrow> log_line list \<Rightarrow> exn + event list" where
  "scan_events path ty oid after n expected [] = Inr []"
| "scan_events path ty oid after n expected (Partial_line # ls) =
     Inl (StoreCorruptionError (''partial event line '' @ path @ '':'' @ show_nat n))"
| "scan_events path ty oid after n expected (Bad_line # ls) =
     Inl (StoreCorruptionError (''invalid event line '' @ path @ '':'' @ show_nat n))"
| "scan_events path ty oid after n expected (Event_line e # ls) =
     (if \<not> valid_event e
      then Inl (StoreCorruptionError (''invalid event line '' @ path @ '':'' @ show_nat n))
      else if evt_object_type e \<noteq> ty \<or> evt_object_id e \<noteq> oid
      then Inl (StoreCorruptionError (''event stream binding mismatch at '' @ path @ '':'' @ show_nat n))
      else if evt_sequence e \<noteq> expected
      then Inl (StoreCorruptionError (''event sequence gap at '' @ path @ '':'' @ show_nat n
             @ '': expected '' @ show_int expected @ '', got '' @ show_int (evt_sequence e)))
      else (case scan_events path ty oid after (Suc n) (expected + 1) ls of
              Inl x \<Rightarrow> Inl x
            | Inr es \<Rightarrow> Inr (if evt_sequence e > after then e # es else es)))"

definition list_events :: "string \<Rightarrow> string \<Rightarrow> int \<Rightarrow> ('z world_scheme, event list) prog" where
  "list_events object_type object_id after_sequence =
     (\<lambda>s. case map_of (logs s) (object_type, object_id) of
            None \<Rightarrow> (Inr [], s)
          | Some ls \<Rightarrow> (scan_events (log_path (store_root s) object_type object_id) object_type object_id
                          after_sequence 1 1 ls, s))"

definition next_sequence :: "string \<Rightarrow> string \<Rightarrow> ('z world_scheme, int) prog" where
  "next_sequence object_type object_id =
     bindP (readP (\<lambda>s. map_of (logs s) (object_type, object_id) \<noteq> None)) (\<lambda>exists.
       if \<not> exists then returnP 1
       else bindP (list_events object_type object_id 0) (\<lambda>events.
         returnP (if events = [] then 1 else evt_sequence (last events) + 1)))"

definition append_line :: "file_key \<Rightarrow> log_line \<Rightarrow> 'z world_scheme \<Rightarrow> 'z world_scheme" where
  "append_line k l s =
     s\<lparr>logs := AList.update k ((case map_of (logs s) k of None \<Rightarrow> [] | Some ls \<Rightarrow> ls) @ [l]) (logs s)\<rparr>"

definition append_event ::
  "string \<Rightarrow> string \<Rightarrow> string \<Rightarrow> string \<Rightarrow> string \<Rightarrow> (string \<times> json) list \<Rightarrow>
     ('z world_scheme, event) prog" where
  "append_event object_type object_id event_type actor request_id payload =
     bindP (next_sequence object_type object_id) (\<lambda>sequence.
     bindP (fresh_id ''evt'') (\<lambda>event_id.
     bindP utc_now (\<lambda>timestamp.
     let event = \<lparr>evt_event_id = event_id, evt_object_type = object_type,
                  evt_object_id = object_id, evt_sequence = sequence, evt_event_type = event_type,
                  evt_actor = actor, evt_request_id = request_id, evt_timestamp = timestamp,
                  evt_payload = payload\<rparr>
     in bindP (checkP (valid_event event) (ValueError ''validation error for Event'')) (\<lambda>_.
        bindP next_fault (\<lambda>x. case x of
            IO_ok \<Rightarrow> bindP (updateP (append_line (object_type, object_id) (Event_line event)))
                       (\<lambda>_. returnP event)
          | IO_before \<Rightarrow> raiseP (OSError ''open failed'')
          | IO_partial \<Rightarrow> bindP (updateP (append_line (object_type, object_id) Partial_line))
                       (\<lambda>_. raiseP (OSError ''partial event append''))
          | IO_after \<Rightarrow> bindP (updateP (append_line (object_type, object_id) (Event_line event)))
                       (\<lambda>_. raiseP (OSError ''fsync failed'')))))))"

definition validate_all_events :: "('z world_scheme, unit) prog" where
  "validate_all_events =
     bindP (readP (\<lambda>s. sort_key (\<lambda>k. (fst k, snd k @ ''.jsonl'')) (map fst (logs s)))) (\<lambda>keys.
       bindP (forP keys (\<lambda>(ty, oid). list_events ty oid 0)) (\<lambda>_. returnP ()))"

section \<open>Effects of the store operations\<close>

text \<open>
  A relation that tolerates the elementary changes (consuming the clock, an identifier or a
  fault, adding an immutable file, changing snapshots, and adding a line where \<open>append\<close> adds it)
  is kept by every operation of the store.
\<close>

definition appendable :: "string \<Rightarrow> string \<Rightarrow> log_line \<Rightarrow> 'z world_scheme \<Rightarrow> bool" where
  "appendable ty oid l s \<longleftrightarrow>
     (\<exists>q. fst (next_sequence ty oid s) = Inr q \<and>
        (l = Partial_line \<or>
         (\<exists>e. l = Event_line e \<and> valid_event e \<and> evt_object_type e = ty \<and> evt_object_id e = oid
            \<and> evt_sequence e = q)))"

locale clock_effect = effect R for R :: "'z world_scheme \<Rightarrow> 'z world_scheme \<Rightarrow> bool" +
  assumes R_clock: "R s (s\<lparr>clock_no := Suc (clock_no s)\<rparr>)"
begin

lemma eff_utc_now: "obeys R utc_now"
  by (simp add: obeys_def utc_now_def R_clock)

end

locale world_effect = clock_effect R for R :: "'z world_scheme \<Rightarrow> 'z world_scheme \<Rightarrow> bool" +
  assumes R_draw: "R s (s\<lparr>draw_no := Suc (draw_no s)\<rparr>)"
    and R_fault: "R s (s\<lparr>fault_no := Suc (fault_no s)\<rparr>)"
    and R_immutable: "map_of (immutable s) k = None \<Longrightarrow>
          R s (s\<lparr>immutable := AList.update k v (immutable s)\<rparr>)"
    and R_snapshots: "R s (s\<lparr>snapshots := d\<rparr>)"
    and R_log: "appendable ty oid l s \<Longrightarrow> R s (append_line (ty, oid) l s)"
begin

lemma eff_fresh_id: "obeys R (fresh_id p)"
  by (simp add: obeys_def fresh_id_def R_draw split: prod.split)

lemma eff_next_fault: "obeys R next_fault"
  by (simp add: obeys_def next_fault_def R_fault)

lemma eff_write_immutable_file: "obeys R (write_immutable_file ty n v)"
proof (rule obeysI)
  fix s :: "'z world_scheme"
  let ?t = "s\<lparr>fault_no := Suc (fault_no s)\<rparr>"
  have "map_of (immutable s) (ty, n) = None \<Longrightarrow>
      R s (?t\<lparr>immutable := AList.update (ty, n) v (immutable ?t)\<rparr>)"
    by (rule effect_trans [OF R_fault]) (rule R_immutable, simp)
  then show "R s (snd (write_immutable_file ty n v s))"
    using R_fault effect_refl
    by (auto simp: write_immutable_file_def file_op_def next_fault_def bindP_def
        split: io_fault.split)
qed

lemma eff_write_immutable: "obeys R (write_immutable ty i v)"
  by (simp add: write_immutable_def eff_write_immutable_file)

lemma eff_write_immutable_bytes: "obeys R (write_immutable_bytes ty n b)"
  by (simp add: write_immutable_bytes_def eff_write_immutable_file)

lemma eff_snapshot_op: "obeys R (file_op (\<lambda>s. s\<lparr>snapshots := f s\<rparr>))"
  unfolding file_op_def
  by (rule eff_bind [OF eff_next_fault])
     (auto intro: eff_bind eff_raise simp: obeys_def R_snapshots effect_refl bindP_def
        split: io_fault.split)

lemma eff_write_snapshot: "obeys R (write_snapshot ty i v)"
  by (simp add: write_snapshot_def eff_snapshot_op)

lemma eff_delete_snapshot: "obeys R (delete_snapshot ty i)"
  by (simp add: delete_snapshot_def eff_bind eff_read eff_when eff_snapshot_op)

lemma eff_immutable_exists: "obeys R (immutable_exists ty i)"
  by (simp add: immutable_exists_def eff_read)

lemma eff_read_immutable: "obeys R (read_immutable ty i)"
  by (simp add: obeys_def read_immutable_def effect_refl Let_def)

lemma eff_read_snapshot: "obeys R (read_snapshot ty i)"
  by (simp add: obeys_def read_snapshot_def effect_refl Let_def split: option.split sum.split)

lemma eff_iter_immutable: "obeys R (iter_immutable ty)"
  by (auto simp: iter_immutable_def intro!: eff_bind eff_read eff_for) (simp add: obeys_def effect_refl)

lemma eff_iter_snapshots: "obeys R (iter_snapshots ty)"
  by (auto simp: iter_snapshots_def intro!: eff_bind eff_read eff_for) (simp add: obeys_def effect_refl)

lemma eff_list_events: "obeys R (list_events ty i a)"
  by (simp add: obeys_def list_events_def effect_refl split: option.split)

lemma eff_validate_all_events: "obeys R validate_all_events"
  unfolding validate_all_events_def
  by (intro eff_bind eff_read eff_for eff_return) (auto simp: eff_list_events split: prod.split)

end

lemma next_sequence_state: "snd (next_sequence ty oid s) = s"
  by (auto simp: next_sequence_def list_events_def bindP_def split: option.split sum.split)

lemma next_sequence_cong:
  assumes "logs t = logs s" and "store_root t = store_root s"
  shows "fst (next_sequence ty oid t) = fst (next_sequence ty oid s)"
  using assms by (auto simp: next_sequence_def list_events_def bindP_def split: option.split sum.split)

text \<open>All ways \<open>append\<close> can end, once and for all.\<close>

lemma append_cases:
  obtains (raise) e t where "append_event ty oid et actor rq pl s = (Inl e, t)"
      and "t = s \<or> t = s\<lparr>draw_no := Suc (draw_no s)\<rparr> \<or>
             t = s\<lparr>draw_no := Suc (draw_no s), clock_no := Suc (clock_no s)\<rparr> \<or>
             t = s\<lparr>draw_no := Suc (draw_no s), clock_no := Suc (clock_no s),
                   fault_no := Suc (fault_no s)\<rparr>"
  | (line) r l where
      "append_event ty oid et actor rq pl s = (r, append_line (ty, oid) l
         (s\<lparr>draw_no := Suc (draw_no s), clock_no := Suc (clock_no s), fault_no := Suc (fault_no s)\<rparr>))"
      and "appendable ty oid l s"
      and "\<And>e. r = Inr e \<Longrightarrow> l = Event_line e \<and> evt_event_type e = et \<and> evt_payload e = pl"
proof -
  obtain q where q: "next_sequence ty oid s = (q, s)"
    by (metis next_sequence_state prod.collapse)
  obtain i where i: "fresh_id ''evt'' s = (i, s\<lparr>draw_no := Suc (draw_no s)\<rparr>)"
    by (cases "draws s (draw_no s)") (simp add: fresh_id_def)
  show ?thesis
  proof (cases "\<exists>a b. q = Inr a \<and> i = Inr b")
    case False
    then show ?thesis
      by (cases q; cases i) (auto intro!: raise simp: append_event_def bindP_def q i)
  next
    case True
    then obtain a b where ab: "q = Inr a" "i = Inr b" by blast
    let ?e = "\<lparr>evt_event_id = b, evt_object_type = ty, evt_object_id = oid, evt_sequence = a,
      evt_event_type = et, evt_actor = actor, evt_request_id = rq,
      evt_timestamp = clock s (clock_no s), evt_payload = pl\<rparr>"
    note run = append_event_def bindP_def q i ab utc_now_def Let_def checkP_def next_fault_def
    show ?thesis
    proof (cases "valid_event ?e")
      case False
      then show ?thesis by (intro raise) (auto simp: run)
    next
      case True
      have ok: "appendable ty oid (Event_line ?e) s" "appendable ty oid Partial_line s"
        using q ab True by (auto simp: appendable_def)
      show ?thesis
      proof (cases "faults s (fault_no s)")
        case IO_ok
        with True show ?thesis by (intro line [OF _ ok(1)]) (auto simp: run)
      next
        case IO_before
        with True show ?thesis by (intro raise) (auto simp: run)
      next
        case IO_after
        with True show ?thesis by (intro line [OF _ ok(1)]) (auto simp: run)
      next
        case IO_partial
        with True show ?thesis by (intro line [OF _ ok(2)]) (auto simp: run)
      qed
    qed
  qed
qed

lemma appendable_cong:
  "logs t = logs s \<Longrightarrow> store_root t = store_root s \<Longrightarrow> appendable ty oid l t = appendable ty oid l s"
  by (simp add: appendable_def next_sequence_cong [of t s])

context world_effect
begin

lemma eff_append_event: "obeys R (append_event ty oid et actor rq pl)"
proof (rule obeysI)
  fix s :: "'z world_scheme"
  let ?d = "\<lambda>s. s\<lparr>draw_no := Suc (draw_no s)\<rparr>"
  let ?c = "\<lambda>s. s\<lparr>clock_no := Suc (clock_no s)\<rparr>"
  let ?f = "\<lambda>s. s\<lparr>fault_no := Suc (fault_no s)\<rparr>"
  have 1: "R s (?d s)" by (rule R_draw)
  have 2: "R s (?c (?d s))" by (rule effect_trans [OF 1 R_clock])
  have 3: "R s (?f (?c (?d s)))" by (rule effect_trans [OF 2 R_fault])
  have 4: "R s (append_line (ty, oid) l (?f (?c (?d s))))" if "appendable ty oid l s" for l
    by (rule effect_trans [OF 3 R_log]) (rule appendable_cong [THEN iffD2, OF _ _ that]; simp)
  show "R s (snd (append_event ty oid et actor rq pl s))"
  proof (cases rule: append_cases [of ty oid et actor rq pl s])
    case (raise e t)
    then have "t = s \<or> t = ?d s \<or> t = ?c (?d s) \<or> t = ?f (?c (?d s))" by simp
    with raise 1 2 3 effect_refl show ?thesis by auto
  next
    case (line r l)
    then show ?thesis using 4 [OF line(2)] by simp
  qed
qed

lemmas eff_store = eff_return eff_raise eff_read eff_check eff_bind eff_when eff_utc_now
  eff_fresh_id eff_write_immutable eff_write_immutable_bytes eff_write_snapshot
  eff_delete_snapshot eff_immutable_exists eff_read_immutable eff_read_snapshot
  eff_iter_immutable eff_iter_snapshots eff_list_events eff_validate_all_events eff_append_event

end

section \<open>What no operation does\<close>

text \<open>The store operations leave the fields of the component that calls them alone.\<close>

definition store_only :: "'z world_scheme \<Rightarrow> 'z world_scheme \<Rightarrow> bool" where
  "store_only s t \<longleftrightarrow> world.more t = world.more s"

interpretation store_only: world_effect store_only
  by unfold_locales (auto simp: store_only_def append_line_def)

text \<open>
  History only grows: written files keep their content, streams are only extended, and the
  sources of time, identifiers and faults are consumed in order.
\<close>

definition grows :: "'z world_scheme \<Rightarrow> 'z world_scheme \<Rightarrow> bool" where
  "grows s t \<longleftrightarrow>
     map_of (immutable s) \<subseteq>\<^sub>m map_of (immutable t) \<and>
     (\<forall>k ls. map_of (logs s) k = Some ls \<longrightarrow> (\<exists>more. map_of (logs t) k = Some (ls @ more))) \<and>
     clock t = clock s \<and> draws t = draws s \<and> faults t = faults s \<and> store_root t = store_root s \<and>
     clock_no s \<le> clock_no t \<and> draw_no s \<le> draw_no t \<and> fault_no s \<le> fault_no t"

lemma grows_trans:
  assumes "grows s t" and "grows t u"
  shows "grows s u"
proof -
  have "\<exists>more. map_of (logs u) k = Some (ls @ more)" if "map_of (logs s) k = Some ls" for k ls
    using assms that unfolding grows_def by (metis append.assoc)
  with assms show ?thesis by (auto simp: grows_def intro: map_le_trans)
qed

lemma grows_immutable:
  "grows s t \<Longrightarrow> map_of (immutable s) k = Some v \<Longrightarrow> map_of (immutable t) k = Some v"
  unfolding grows_def map_le_def by (metis domI)

lemma grows_logs:
  "grows s t \<Longrightarrow> map_of (logs s) k = Some ls \<Longrightarrow> \<exists>more. map_of (logs t) k = Some (ls @ more)"
  unfolding grows_def by blast

lemma grows_same_files:
  assumes "immutable t = immutable s" and "logs t = logs s"
    and "clock t = clock s" "draws t = draws s" "faults t = faults s" "store_root t = store_root s"
    and "clock_no s \<le> clock_no t" "draw_no s \<le> draw_no t" "fault_no s \<le> fault_no t"
  shows "grows s t"
  using assms by (simp add: grows_def)

interpretation grows: world_effect grows
proof unfold_locales
  fix s t u :: "'a world_scheme"
  show "grows s t \<Longrightarrow> grows t u \<Longrightarrow> grows s u" by (rule grows_trans)
next
  fix s :: "'a world_scheme" and k :: file_key and v
  assume "map_of (immutable s) k = None"
  then show "grows s (s\<lparr>immutable := AList.update k v (immutable s)\<rparr>)"
    by (simp add: grows_def map_le_def dupdate_lookup) (metis domIff)
next
  fix s :: "'a world_scheme" and ty oid l
  show "grows s (append_line (ty, oid) l s)"
    by (simp add: grows_def append_line_def dupdate_lookup)
qed (simp_all add: grows_same_files)

section \<open>Event streams\<close>

text \<open>The events of one stream: valid, bound to it and numbered without a gap.\<close>

fun numbered :: "string \<Rightarrow> string \<Rightarrow> int \<Rightarrow> event list \<Rightarrow> bool" where
  "numbered ty oid n [] \<longleftrightarrow> True"
| "numbered ty oid n (e # es) \<longleftrightarrow>
     valid_event e \<and> evt_object_type e = ty \<and> evt_object_id e = oid \<and> evt_sequence e = n \<and>
     numbered ty oid (n + 1) es"

lemma scan_numbered:
  "numbered ty oid q es \<Longrightarrow>
   scan_events path ty oid a n q (map Event_line es) = Inr (filter (\<lambda>e. evt_sequence e > a) es)"
  by (induction es arbitrary: n q) auto

lemma scan_Inr:
  "scan_events path ty oid a n q ls = Inr r \<Longrightarrow>
   \<exists>es. ls = map Event_line es \<and> numbered ty oid q es \<and> r = filter (\<lambda>e. evt_sequence e > a) es"
proof (induction ls arbitrary: n q r)
  case Nil
  then show ?case by auto
next
  case (Cons l ls)
  then obtain e r' where e: "l = Event_line e" "valid_event e" "evt_object_type e = ty"
      "evt_object_id e = oid" "evt_sequence e = q"
      "scan_events path ty oid a (Suc n) (q + 1) ls = Inr r'"
      "r = (if evt_sequence e > a then e # r' else r')"
    by (cases l) (auto split: if_splits sum.splits)
  from Cons.IH [OF e(6)] obtain es where "ls = map Event_line es" "numbered ty oid (q + 1) es"
      "r' = filter (\<lambda>e. evt_sequence e > a) es" by blast
  with e show ?case by (intro exI [of _ "e # es"]) auto
qed

lemma numbered_append:
  "numbered ty oid q (es @ fs) \<longleftrightarrow> numbered ty oid q es \<and> numbered ty oid (q + int (length es)) fs"
  by (induction es arbitrary: q) (auto simp: algebra_simps)

lemma numbered_ge: "numbered ty oid q es \<Longrightarrow> e \<in> set es \<Longrightarrow> q \<le> evt_sequence e"
  by (induction es arbitrary: q) fastforce+

lemma numbered_filter:
  "numbered ty oid q es \<Longrightarrow> q \<le> a + 1 \<Longrightarrow>
   filter (\<lambda>e. evt_sequence e > a) es = drop (nat (a + 1 - q)) es"
proof (induction es arbitrary: q)
  case Nil
  then show ?case by simp
next
  case (Cons e es)
  show ?case
  proof (cases "q \<le> a")
    case True
    then have "nat (a + 1 - q) = Suc (nat (a + 1 - (q + 1)))" by simp
    moreover have "filter (\<lambda>e. evt_sequence e > a) es = drop (nat (a + 1 - (q + 1))) es"
      by (rule Cons.IH) (use Cons.prems True in simp_all)
    ultimately show ?thesis using Cons.prems True by simp
  next
    case False
    then have "q = a + 1" using Cons.prems(2) by simp
    moreover have "\<forall>f \<in> set es. evt_sequence f > a"
      using Cons.prems(1) numbered_ge [of ty oid "q + 1" es] \<open>q = a + 1\<close> by fastforce
    ultimately show ?thesis using Cons.prems(1) by simp
  qed
qed

lemma numbered_last:
  "numbered ty oid q es \<Longrightarrow> es \<noteq> [] \<Longrightarrow> evt_sequence (last es) = q + int (length es) - 1"
  by (induction es rule: rev_induct) (auto simp: numbered_append)

text \<open>What the file of a stream holds when it can be read.\<close>

definition stream :: "file_key \<Rightarrow> 'z world_scheme \<Rightarrow> event list \<Rightarrow> bool" where
  "stream k s es \<longleftrightarrow> numbered (fst k) (snd k) 1 es \<and>
     (case map_of (logs s) k of None \<Rightarrow> es = [] | Some ls \<Rightarrow> ls = map Event_line es)"

lemma list_events_stream:
  "stream (ty, oid) s es \<Longrightarrow> 0 \<le> a \<Longrightarrow> list_events ty oid a s = (Inr (drop (nat a) es), s)"
  by (auto simp: stream_def list_events_def scan_numbered numbered_filter [of _ _ 1]
      split: option.splits)

lemma list_events_Inr:
  assumes "list_events ty oid 0 s = (Inr es, t)"
  shows "t = s \<and> stream (ty, oid) s es"
proof (cases "map_of (logs s) (ty, oid)")
  case None
  then show ?thesis using assms by (auto simp: list_events_def stream_def)
next
  case (Some ls)
  then obtain fs where "ls = map Event_line fs" "numbered ty oid 1 fs"
      "es = filter (\<lambda>e. evt_sequence e > 0) fs" "t = s"
    using assms scan_Inr [of _ ty oid 0 1 1 ls es] by (auto simp: list_events_def)
  then show ?thesis using Some numbered_filter [of ty oid 1 fs 0] by (simp add: stream_def)
qed

lemma next_sequence_stream:
  "fst (next_sequence ty oid s) = Inr q \<longleftrightarrow>
     (\<exists>es. stream (ty, oid) s es \<and> q = int (length es) + 1)"
proof
  assume *: "fst (next_sequence ty oid s) = Inr q"
  show "\<exists>es. stream (ty, oid) s es \<and> q = int (length es) + 1"
  proof (cases "map_of (logs s) (ty, oid)")
    case None
    with * show ?thesis by (auto simp: next_sequence_def bindP_def stream_def)
  next
    case (Some ls)
    with * obtain es where es: "list_events ty oid 0 s = (Inr es, s)"
        "q = (if es = [] then 1 else evt_sequence (last es) + 1)"
      by (cases "list_events ty oid 0 s")
         (auto simp: next_sequence_def bindP_def list_events_def split: sum.splits)
    then have str: "stream (ty, oid) s es" using list_events_Inr by blast
    have "q = int (length es) + 1"
      using es(2) str by (auto simp: stream_def dest: numbered_last)
    with str show ?thesis by blast
  qed
next
  assume "\<exists>es. stream (ty, oid) s es \<and> q = int (length es) + 1"
  then obtain es where es: "stream (ty, oid) s es" "q = int (length es) + 1" by blast
  then show "fst (next_sequence ty oid s) = Inr q"
    using list_events_stream [OF es(1), of 0]
    by (cases "map_of (logs s) (ty, oid)")
       (auto simp: next_sequence_def bindP_def stream_def dest: numbered_last)
qed

lemma append_line_lookup:
  "map_of (logs (append_line k l s)) j =
     (if j = k then Some ((case map_of (logs s) k of None \<Rightarrow> [] | Some ls \<Rightarrow> ls) @ [l])
      else map_of (logs s) j)"
  by (simp add: append_line_def dupdate_lookup)

lemma stream_append_line:
  assumes "stream (ty, oid) s es" and "appendable ty oid (Event_line e) s"
  shows "stream (ty, oid) (append_line (ty, oid) (Event_line e) s) (es @ [e])
    \<and> evt_sequence e = int (length es) + 1"
proof -
  have "fst (next_sequence ty oid s) = Inr (int (length es) + 1)"
    using assms(1) by (auto simp: next_sequence_stream)
  then have "evt_sequence e = int (length es) + 1 \<and> valid_event e \<and> evt_object_type e = ty
      \<and> evt_object_id e = oid"
    using assms(2) by (auto simp: appendable_def)
  then show ?thesis
    using assms(1) by (auto simp: stream_def numbered_append append_line_lookup split: option.splits)
qed

lemma appendable_stream: "appendable ty oid l s \<Longrightarrow> \<exists>es. stream (ty, oid) s es"
  by (auto simp: appendable_def next_sequence_stream)

text \<open>A stream that a fault cut inside its last line.\<close>

definition torn :: "file_key \<Rightarrow> 'z world_scheme \<Rightarrow> bool" where
  "torn k s \<longleftrightarrow> (\<exists>es. numbered (fst k) (snd k) 1 es \<and>
     map_of (logs s) k = Some (map Event_line es @ [Partial_line]))"

lemma scan_torn:
  "numbered ty oid q es \<Longrightarrow>
   \<exists>m. scan_events path ty oid a n q (map Event_line es @ [Partial_line]) = Inl (StoreCorruptionError m)"
proof (induction es arbitrary: n q)
  case (Cons e es)
  then have "numbered ty oid (q + 1) es" by simp
  from Cons.IH [OF this, of "Suc n"] Cons.prems show ?case by auto
qed simp

lemma torn_list_events:
  "torn (ty, oid) s \<Longrightarrow> \<exists>m. list_events ty oid a s = (Inl (StoreCorruptionError m), s)"
  using scan_torn by (fastforce simp: torn_def list_events_def)

definition healthy :: "'z world_scheme \<Rightarrow> bool" where
  "healthy s \<longleftrightarrow> (\<forall>k. (\<exists>es. stream k s es) \<or> torn k s)"

lemma healthy_append_line:
  assumes "healthy s" and "appendable ty oid l s"
  shows "healthy (append_line (ty, oid) l s)"
proof -
  obtain es where es: "stream (ty, oid) s es" using appendable_stream [OF assms(2)] by blast
  have "(\<exists>es. stream k (append_line (ty, oid) l s) es) \<or> torn k (append_line (ty, oid) l s)" for k
  proof (cases "k = (ty, oid)")
    case True
    show ?thesis
    proof (cases l)
      case (Event_line e)
      then show ?thesis using stream_append_line [OF es] assms(2) True by blast
    next
      case Bad_line
      then show ?thesis using assms(2) by (simp add: appendable_def)
    next
      case Partial_line
      then show ?thesis
        using es True by (auto simp: stream_def torn_def append_line_lookup split: option.splits)
    qed
  next
    case False
    then have "map_of (logs (append_line (ty, oid) l s)) k = map_of (logs s) k"
      by (simp add: append_line_lookup)
    then show ?thesis
      using spec [OF assms(1) [unfolded healthy_def], of k]
      by (simp only: stream_def [abs_def] torn_def)
  qed
  then show ?thesis by (simp add: healthy_def)
qed

lemma healthy_cong: "logs t = logs s \<Longrightarrow> healthy t = healthy s"
  by (simp add: healthy_def stream_def torn_def)

interpretation healthy_inv: world_effect "keeps healthy"
  by unfold_locales (auto simp: keeps_def healthy_append_line cong: healthy_cong)

section \<open>What \<open>append\<close> promises\<close>

text \<open>
  C23. An append that returns has written exactly one event: the stream reads as before with the
  new event at its end and the next number, and nothing else in the store changed.
\<close>

theorem append_event_extends:
  assumes "append_event ty oid et actor rq pl s = (Inr e, t)"
  shows "\<exists>es. fst (list_events ty oid 0 s) = Inr es \<and> fst (list_events ty oid 0 t) = Inr (es @ [e]) \<and>
     evt_sequence e = int (length es) + 1 \<and> evt_event_type e = et \<and> evt_payload e = pl \<and>
     (\<forall>k. k \<noteq> (ty, oid) \<longrightarrow> map_of (logs t) k = map_of (logs s) k) \<and>
     immutable t = immutable s \<and> snapshots t = snapshots s"
proof (cases rule: append_cases [of ty oid et actor rq pl s])
  case (raise x u)
  then show ?thesis using assms by simp
next
  case (line r l)
  let ?u = "s\<lparr>draw_no := Suc (draw_no s), clock_no := Suc (clock_no s), fault_no := Suc (fault_no s)\<rparr>"
  from line(1) assms have r: "r = Inr e" and t: "t = append_line (ty, oid) l ?u" by auto
  with line(3) have l: "l = Event_line e" and e: "evt_event_type e = et" "evt_payload e = pl" by auto
  obtain es where es: "stream (ty, oid) s es" using appendable_stream [OF line(2)] by blast
  then have "stream (ty, oid) ?u es" by (simp add: stream_def)
  moreover have "appendable ty oid (Event_line e) ?u"
    using line(2) l by (simp add: appendable_cong [of ?u s])
  ultimately have "stream (ty, oid) t (es @ [e]) \<and> evt_sequence e = int (length es) + 1"
    using stream_append_line t l by blast
  then show ?thesis
    using es e list_events_stream [of ty oid s es 0] list_events_stream [of ty oid t "es @ [e]" 0]
    by (intro exI [of _ es]) (auto simp: t append_line_lookup, auto simp: append_line_def)
qed

text \<open>An empty store with a running clock, distinct draws and a given fault pattern.\<close>

definition empty_world :: "(nat \<Rightarrow> io_fault) \<Rightarrow> world" where
  "empty_world fs =
     \<lparr>clock = (\<lambda>n. int n * 1000000), clock_no = 0, draws = (\<lambda>n. (int n, 0, 0)), draw_no = 0,
      faults = fs, fault_no = 0, store_root = ''/state'', immutable = [], snapshots = [], logs = []\<rparr>"

definition no_faults :: "nat \<Rightarrow> io_fault" where
  "no_faults n = IO_ok"

lemma healthy_empty: "healthy (empty_world fs)"
  by (simp add: healthy_def stream_def empty_world_def)

theorem append_event_extends_witness:
  "\<exists>e t. append_event ''tasks'' (sample_id ''task'') ''QUEUED'' ''a'' ''r'' [] (empty_world no_faults)
       = (Inr e, t) \<and> evt_sequence e = 1 \<and> fst (list_events ''tasks'' (sample_id ''task'') 0 t) = Inr [e]"
proof -
  let ?s = "empty_world no_faults"
  obtain i where i: "fresh_id ''evt'' ?s = (Inr i, ?s\<lparr>draw_no := 1\<rparr>)" "valid_id i"
  proof -
    obtain i where *: "new_id ''evt'' 0 0 0 = Inr i"
      by (auto simp: new_id_Inr is_lower_def less_eq_char_def)
    have "is_lower (hd ''evt'')" by (simp add: is_lower_def less_eq_char_def)
    with * have "valid_id i" using new_id_Inr_valid [OF *] by blast
    with * that show ?thesis by (simp add: fresh_id_def empty_world_def)
  qed
  then obtain e t where et: "append_event ''tasks'' (sample_id ''task'') ''QUEUED'' ''a'' ''r'' [] ?s
      = (Inr e, t)"
    by (simp add: append_event_def bindP_def next_sequence_def utc_now_def checkP_def valid_event_def
        sample_id_valid next_fault_def empty_world_def no_faults_def Let_def)
  from append_event_extends [OF et] et show ?thesis
    by (auto simp: list_events_def empty_world_def)
qed

text \<open>
  A fault during an append is never silent corruption: the stream afterwards is unchanged,
  or longer by one complete event, or recognisably torn, and every other file is as before.
\<close>

theorem append_event_fault:
  assumes "append_event ty oid et actor rq pl s = (Inl x, t)" and "stream (ty, oid) s es"
  shows "(stream (ty, oid) t es \<or> (\<exists>e. stream (ty, oid) t (es @ [e])) \<or> torn (ty, oid) t) \<and>
     (\<forall>k. k \<noteq> (ty, oid) \<longrightarrow> map_of (logs t) k = map_of (logs s) k) \<and> immutable t = immutable s"
proof (cases rule: append_cases [of ty oid et actor rq pl s])
  case (raise y u)
  then have "logs t = logs s \<and> immutable t = immutable s" using assms(1) by auto
  then show ?thesis using assms(2) by (simp add: stream_def)
next
  case (line r l)
  let ?u = "s\<lparr>draw_no := Suc (draw_no s), clock_no := Suc (clock_no s), fault_no := Suc (fault_no s)\<rparr>"
  from line(1) assms have t: "t = append_line (ty, oid) l ?u" by auto
  have u: "stream (ty, oid) ?u es" using assms(2) by (simp add: stream_def)
  have ap: "appendable ty oid l ?u" using line(2) by (simp add: appendable_cong [of ?u s])
  have "(\<exists>e. stream (ty, oid) t (es @ [e])) \<or> torn (ty, oid) t"
  proof (cases l)
    case (Event_line e)
    then show ?thesis using stream_append_line [OF u] ap t by blast
  next
    case Bad_line
    then show ?thesis using ap by (simp add: appendable_def)
  next
    case Partial_line
    then show ?thesis
      using u t by (auto simp: stream_def torn_def append_line_lookup split: option.splits)
  qed
  then show ?thesis by (auto simp: t append_line_lookup, auto simp: append_line_def)
qed

lemma stream_empty: "stream k (empty_world fs) []"
  by (simp add: stream_def empty_world_def)

definition partial_faults :: "nat \<Rightarrow> io_fault" where
  "partial_faults n = IO_partial"

theorem append_event_fault_witness:
  "\<exists>x t. append_event ''tasks'' ''bad id'' ''QUEUED'' ''a'' ''r'' [] (empty_world partial_faults)
       = (Inl x, t) \<and> immutable t = []"
proof -
  obtain x t where xt: "append_event ''tasks'' ''bad id'' ''QUEUED'' ''a'' ''r'' []
      (empty_world partial_faults) = (Inl x, t)"
    by (simp add: append_event_def bindP_def next_sequence_def utc_now_def checkP_def valid_event_def
        valid_id_def fresh_id_def new_id_def is_lower_def less_eq_char_def empty_world_def)
  from append_event_fault [OF this stream_empty] xt show ?thesis
    by (auto simp: empty_world_def)
qed

text \<open>
  A torn stream stays as it is: reading it and appending to it raise
  \<open>StoreCorruptionError\<close> and change nothing, so no event is ever written behind a torn line.
\<close>

theorem torn_stream_closed:
  assumes "torn (ty, oid) s"
  shows "(\<exists>m. list_events ty oid after s = (Inl (StoreCorruptionError m), s)) \<and>
     (\<exists>m. append_event ty oid et actor rq pl s = (Inl (StoreCorruptionError m), s))"
proof -
  obtain m where m: "list_events ty oid 0 s = (Inl (StoreCorruptionError m), s)"
    using torn_list_events [OF assms] by blast
  have "map_of (logs s) (ty, oid) \<noteq> None" using assms by (auto simp: torn_def)
  then have "next_sequence ty oid s = (Inl (StoreCorruptionError m), s)"
    by (auto simp: next_sequence_def bindP_def m)
  then show ?thesis
    using torn_list_events [OF assms] by (simp add: append_event_def bindP_def)
qed

theorem torn_stream_closed_witness:
  "\<exists>m. append_event ''tasks'' ''x'' ''QUEUED'' ''a'' ''r'' []
     ((empty_world no_faults)\<lparr>logs := [((''tasks'', ''x''), [Partial_line])]\<rparr>)
    = (Inl (StoreCorruptionError m), (empty_world no_faults)\<lparr>logs := [((''tasks'', ''x''), [Partial_line])]\<rparr>)"
proof -
  have "torn (''tasks'', ''x'') ((empty_world no_faults)\<lparr>logs := [((''tasks'', ''x''), [Partial_line])]\<rparr>)"
    by (simp add: torn_def)
  from torn_stream_closed [OF this] show ?thesis by blast
qed

text \<open>
  Paging is exact: asking for the events after number \<open>a\<close> gives the full list without its
  first \<open>a\<close> events, so a reader that continues where it stopped neither misses nor repeats one.
\<close>

theorem list_events_page:
  assumes "fst (list_events ty oid 0 s) = Inr es" and "0 \<le> a"
  shows "list_events ty oid a s = (Inr (drop (nat a) es), s)"
  using assms list_events_Inr [of ty oid s es s] list_events_stream [of ty oid s es a]
  by (cases "list_events ty oid 0 s") (auto dest: list_events_Inr)

theorem list_events_page_witness:
  "list_events ''tasks'' ''x'' 5 (empty_world no_faults) = (Inr (drop (nat 5) []), empty_world no_faults)"
  by (rule list_events_page) (simp_all add: list_events_def empty_world_def)

section \<open>Runs of the store\<close>

text \<open>Any sequence of store calls, each of which may fail.\<close>

datatype store_call =
    Write_immutable string string obj
  | Write_bytes string string string
  | Write_snapshot string string obj
  | Delete_snapshot string string
  | Append string string string string string "(string \<times> json) list"

fun call :: "store_call \<Rightarrow> ('z world_scheme, unit) prog" where
  "call (Write_immutable ty i v) = write_immutable ty i v"
| "call (Write_bytes ty n b) = write_immutable_bytes ty n b"
| "call (Write_snapshot ty i v) = write_snapshot ty i v"
| "call (Delete_snapshot ty i) = delete_snapshot ty i"
| "call (Append ty oid et a rq pl) = bindP (append_event ty oid et a rq pl) (\<lambda>_. returnP ())"

primrec run_calls :: "store_call list \<Rightarrow> 'z world_scheme \<Rightarrow> 'z world_scheme" where
  "run_calls [] s = s"
| "run_calls (c # cs) s = run_calls cs (snd (call c s))"

context world_effect
begin

lemma eff_call: "obeys R (call c)"
  by (cases c) (auto intro: eff_store)

lemma eff_run_calls: "R s (run_calls cs s)"
proof (induction cs arbitrary: s)
  case (Cons c cs)
  have "R s (snd (call c s))" using eff_call [of c] by (simp add: obeys_def)
  from effect_trans [OF this Cons.IH] show ?case by simp
qed (simp add: effect_refl)

end

text \<open>
  C27. Whatever sequence of calls hits the store, with whatever disk faults: a file that was
  written immutably keeps its content, every stream only gains events at its end, and every
  stream stays gap-free or recognisably torn.
\<close>

theorem store_history_is_kept:
  assumes "healthy s" and "map_of (immutable s) k = Some v" and "map_of (logs s) j = Some ls"
  shows "map_of (immutable (run_calls cs s)) k = Some v \<and>
     (\<exists>more. map_of (logs (run_calls cs s)) j = Some (ls @ more)) \<and> healthy (run_calls cs s)"
proof -
  have g: "grows s (run_calls cs s)" by (rule grows.eff_run_calls)
  have "keeps healthy s (run_calls cs s)" by (rule healthy_inv.eff_run_calls)
  then show ?thesis
    using assms(1) grows_immutable [OF g assms(2)] grows_logs [OF g assms(3)]
    by (simp add: keeps_def)
qed

theorem store_history_is_kept_witness:
  "map_of (immutable (run_calls [Write_immutable ''t'' ''a'' (O_bytes ''y'')]
     ((empty_world no_faults)\<lparr>immutable := [((''t'', ''a.json''), O_bytes ''x'')], logs := [((''t'', ''a''), [])]\<rparr>)))
     (''t'', ''a.json'') = Some (O_bytes ''x'')"
proof -
  let ?s = "(empty_world no_faults)\<lparr>immutable := [((''t'', ''a.json''), O_bytes ''x'')],
      logs := [((''t'', ''a''), [])]\<rparr>"
  have "healthy ?s" by (auto simp: healthy_def stream_def)
  then have "map_of (immutable (run_calls cs ?s)) (''t'', ''a.json'') = Some (O_bytes ''x'')" for cs
    using store_history_is_kept [of ?s "(''t'', ''a.json'')" "O_bytes ''x''" "(''t'', ''a'')" "[]" cs]
    by simp
  then show ?thesis .
qed

text \<open>
  Writing an immutable object twice raises \<open>FileExistsError\<close> the second time, whatever the
  second content is, and leaves the state as it was.
\<close>

theorem write_immutable_twice:
  assumes "write_immutable ty i v s = (Inr (), t)"
  shows "write_immutable ty i w t = (Inl (FileExistsError (ty @ ''/'' @ i @ ''.json'')), t) \<and>
     map_of (immutable t) (ty, json_name i) = Some v"
  using assms
  by (auto simp: write_immutable_def write_immutable_file_def bindP_def file_op_def next_fault_def
      dupdate_lookup json_name_def split: if_splits io_fault.splits)

theorem write_immutable_twice_witness:
  "\<exists>t. write_immutable ''t'' ''a'' (O_bytes ''x'') (empty_world no_faults) = (Inr (), t) \<and>
       fst (write_immutable ''t'' ''a'' (O_bytes ''y'') t) = Inl (FileExistsError ''t/a.json'')"
proof -
  obtain t where t: "write_immutable ''t'' ''a'' (O_bytes ''x'') (empty_world no_faults) = (Inr (), t)"
    by (simp add: write_immutable_def write_immutable_file_def bindP_def file_op_def next_fault_def
        empty_world_def no_faults_def)
  from write_immutable_twice [OF t, of "O_bytes ''y''"] t show ?thesis by auto
qed

end
