(* ===== verification/Scheduler_Core.thy ===== *)
theory Scheduler_Core
  imports Event_Store
begin

text \<open>
  The scheduler of \<open>src/agent_scheduler/scheduler/core.py\<close>: its state extends the \<open>world\<close> of the
  store, and each method is a program over that state. The worker driver, an interface of the
  source (\<open>class WorkerDriver(Protocol)\<close>), is a record of programs and an argument of the methods
  that call it; what other threads do to the scheduler happens inside its calls. The local
  variables of \<open>_dispatch\<close> that its exception handler reads are the record \<open>frame\<close>. This theory
  holds the definitions; the theories \<open>Scheduler_*\<close> that follow prove them correct.
\<close>

section \<open>State\<close>

record exec_result =
  res_exit_code :: int
  res_logs_present :: bool
  res_outputs_present :: bool
  res_cleanup_ok :: bool
  res_warning :: "string option"
  res_failure_reason :: "string option"

record 's driver =
  drv_prepare :: "manifest \<Rightarrow> task \<Rightarrow> ('s, bool) prog"
  drv_acknowledge_plan :: "plan \<Rightarrow> task \<Rightarrow> ('s, bool) prog"
  drv_execute :: "plan \<Rightarrow> task \<Rightarrow> ('s, exec_result) prog"
  drv_cancel :: "plan \<Rightarrow> task \<Rightarrow> ('s, bool) prog"
  drv_query_status :: "string \<Rightarrow> int \<Rightarrow> int \<Rightarrow> task \<Rightarrow> ('s, string) prog"
  drv_reconcile :: "plan \<Rightarrow> task \<Rightarrow> ('s, bool) prog"

record queued =
  qd_task :: task
  qd_status :: task_status
  qd_enqueued_at :: int
  qd_aging_started_at :: int

type_synonym resource = "string \<times> string"

type_synonym selection = "string \<times> int list"

record sched = world +
  sc_key_id :: string
  sc_vram_threshold :: rat
  sc_authorized_gpu_ids :: "int set"
  sc_qualification_profile :: bool
  sc_workers :: "(string, worker_snapshot) dict"
  sc_queue :: "(string, queued) dict"
  sc_leases :: "(string, lease) dict"
  sc_holds :: "resource set"
  sc_epochs :: "resource \<rightharpoonup> int"
  sc_tasks :: "(string, task) dict"
  sc_statuses :: "(string, task_status) dict"
  sc_initial_statuses :: "(string, task_status) dict"
  sc_plans :: "(string, plan) dict"
  sc_cancel_requested :: "string set"

text \<open>
  Keys and serialisers: \<open>sg_*_dump\<close> is \<open>rfc8785.dumps(model.model_dump(mode="json"))\<close> of the
  model as it is, the bytes the canonical files hold and, without the integrity fields, the
  bytes that are signed.
\<close>

record ('k, 'p) signer =
  sg_crypto :: "('k, 'p) crypto"
  sg_signing_key :: 'k
  sg_verification_key :: 'p
  sg_task_dump :: "task \<Rightarrow> string"
  sg_manifest_dump :: "manifest \<Rightarrow> string"
  sg_plan_dump :: "plan \<Rightarrow> string"

definition seconds :: "int \<Rightarrow> int" where
  "seconds n = n * 1000000"

text \<open>\<open>d[k]\<close>, which raises when the key is missing.\<close>

definition getP :: "('s \<Rightarrow> (string, 'v) dict) \<Rightarrow> string \<Rightarrow> ('s, 'v) prog" where
  "getP f k = (\<lambda>s. (case map_of (f s) k of None \<Rightarrow> Inl (KeyError k) | Some v \<Rightarrow> Inr v, s))"

section \<open>Persistence\<close>

definition persist_status :: "task_status \<Rightarrow> ('z sched_scheme, unit) prog" where
  "persist_status status =
     bindP (fresh_id ''status'') (\<lambda>i.
     bindP (write_immutable ''task-status-history'' i (O_status status)) (\<lambda>_.
     write_snapshot ''task-status'' (sts_task_id status) (O_status status)))"

definition persist_lease :: "lease \<Rightarrow> ('z sched_scheme, unit) prog" where
  "persist_lease l =
     bindP (fresh_id ''lease_evt'') (\<lambda>i.
     bindP utc_now (\<lambda>now.
     bindP (write_immutable ''lease-history'' i
              (O_lease_event (if lse_committed l then ''COMMITTED'' else ''HELD'') now l)) (\<lambda>_.
     bindP (updateP (\<lambda>s. s\<lparr>sc_leases := AList.update (lse_lease_id l) l (sc_leases s)\<rparr>)) (\<lambda>_.
     write_snapshot ''leases'' (lse_lease_id l) (O_lease l)))))"

definition delete_lease :: "lease \<Rightarrow> ('z sched_scheme, unit) prog" where
  "delete_lease l =
     bindP (fresh_id ''lease_evt'') (\<lambda>i.
     bindP utc_now (\<lambda>now.
     bindP (write_immutable ''lease-history'' i (O_lease_event ''RELEASED'' now l)) (\<lambda>_.
     bindP (updateP (\<lambda>s. s\<lparr>sc_leases := AList.delete (lse_lease_id l) (sc_leases s)\<rparr>)) (\<lambda>_.
     delete_snapshot ''leases'' (lse_lease_id l)))))"

definition verify_task :: "('k, 'p) signer \<Rightarrow> task \<Rightarrow> ('z sched_scheme, unit) prog" where
  "verify_task g t =
     bindP (readP sc_key_id) (\<lambda>key.
     checkP (tsk_key_id t = key \<and>
             verify_model (sg_crypto g) (task_integrity (sg_task_dump g)) (sg_verification_key g) t)
       (SchedulingError ''Task signature or key_id is invalid''))"

definition persist_task_if_needed :: "task \<Rightarrow> ('z sched_scheme, unit) prog" where
  "persist_task_if_needed t =
     bindP (immutable_exists ''tasks'' (tsk_task_id t)) (\<lambda>exists.
     if \<not> exists then write_immutable ''tasks'' (tsk_task_id t) (O_task t)
     else bindP (read_immutable ''tasks'' (tsk_task_id t)) (\<lambda>existing.
       case existing of
         O_task u \<Rightarrow> checkP (u = t) (SchedulingError ''Task ID already exists with different content'')
       | _ \<Rightarrow> raiseP (ValueError ''validation error for Task'')))"

section \<open>Transitions\<close>

definition task_event :: "task \<Rightarrow> string \<Rightarrow> string \<Rightarrow> string \<Rightarrow> (string \<times> json) list
    \<Rightarrow> ('z sched_scheme, event) prog" where
  "task_event t et actor rq pl = append_event ''tasks'' (tsk_task_id t) et actor rq pl"

definition transition ::
  "task \<Rightarrow> task_state \<Rightarrow> string \<Rightarrow> task_state option \<Rightarrow> string option \<Rightarrow> ('z sched_scheme, task_status) prog"
  where
  "transition t target rq underlying reason =
     bindP (getP sc_statuses (tsk_task_id t)) (\<lambda>current.
     case transition_task (sts_state current) target of
       Inl e \<Rightarrow> raiseP e
     | Inr _ \<Rightarrow>
         bindP utc_now (\<lambda>now.
         let updated = current\<lparr>sts_state := target, sts_updated_at := now,
               sts_underlying_outcome := underlying, sts_failure_reason := reason\<rparr>
         in bindP (updateP (\<lambda>s. s\<lparr>sc_statuses :=
                     AList.update (tsk_task_id t) updated (sc_statuses s)\<rparr>)) (\<lambda>_.
            bindP (persist_status updated) (\<lambda>_.
            bindP (task_event t (task_value target) ''scheduler'' rq
                     (case reason of None \<Rightarrow> [] | Some r \<Rightarrow>
                        if r = [] then [] else [(''failure_reason'', JStr r)])) (\<lambda>_.
            returnP updated)))))"

definition force_failure ::
  "task \<Rightarrow> task_state \<Rightarrow> string \<Rightarrow> string \<Rightarrow> ('z sched_scheme, task_status) prog" where
  "force_failure t target rq reason =
     bindP (getP sc_statuses (tsk_task_id t)) (\<lambda>first.
     bindP (if sts_state first \<notin> {T_FINALIZING, T_FAILED} \<and>
               T_FINALIZING \<in> task_targets (sts_state first)
            then transition t T_FINALIZING rq None None else returnP first) (\<lambda>current.
     if sts_state current = T_FINALIZING
     then transition t target rq (Some T_FAILED) (Some reason)
     else
       bindP utc_now (\<lambda>now.
       let updated = current\<lparr>sts_state := target, sts_updated_at := now,
             sts_failure_reason := Some reason\<rparr>
       in bindP (updateP (\<lambda>s. s\<lparr>sc_statuses :=
                   AList.update (tsk_task_id t) updated (sc_statuses s)\<rparr>)) (\<lambda>_.
          bindP (persist_status updated) (\<lambda>_.
          bindP (task_event t (task_value target) ''scheduler'' rq [(''error'', JStr reason)]) (\<lambda>_.
          returnP updated))))))"

text \<open>\<open>_outcome\<close>: a non-zero exit outranks missing logs, which outrank missing outputs.\<close>

definition outcome :: "exec_result list \<Rightarrow> task_state \<times> string option" where
  "outcome results =
     (if list_ex (\<lambda>r. res_exit_code r \<noteq> 0) results
      then (T_FAILED,
            case filter (\<lambda>r. res_exit_code r \<noteq> 0) results of
              r # _ \<Rightarrow> res_failure_reason r | [] \<Rightarrow> Some ''RUN_NONZERO'')
      else if list_ex (\<lambda>r. \<not> res_logs_present r) results then (T_FAILED, Some ''EXPECTED_LOG_MISSING'')
      else if list_ex (\<lambda>r. \<not> res_outputs_present r) results
      then (T_FAILED, Some ''EXPECTED_OUTPUT_MISSING'')
      else (T_COMPLETED, None))"

section \<open>Selection\<close>

definition gpu_resource :: "int \<Rightarrow> string" where
  "gpu_resource g = ''gpu:'' @ show_int g"

definition container_resource :: "string \<Rightarrow> string" where
  "container_resource c = ''container:'' @ c"

definition heartbeat_fresh :: "worker_snapshot \<Rightarrow> ('z sched_scheme, bool) prog" where
  "heartbeat_fresh w =
     bindP utc_now (\<lambda>now. returnP (now - wkr_last_heartbeat_at w \<le> seconds 30))"

definition sample_fresh :: "gpu_snapshot \<Rightarrow> ('z sched_scheme, bool) prog" where
  "sample_fresh g = bindP utc_now (\<lambda>now. returnP (now - gpu_sampled_at g \<le> seconds 30))"

definition leased_gpus :: "'z sched_scheme \<Rightarrow> (string \<times> int) set" where
  "leased_gpus s = set (concat
     (map (\<lambda>l. map (Pair (lse_worker_id l)) (lse_gpu_ids l)) (dvalues (sc_leases s))))"

text \<open>The filter of the list comprehension, evaluated from left to right.\<close>

definition gpu_usable :: "worker_snapshot \<Rightarrow> gpu_snapshot \<Rightarrow> ('z sched_scheme, bool) prog" where
  "gpu_usable w g =
     bindP (readP (\<lambda>s. gpu_gpu_id g \<in> sc_authorized_gpu_ids s \<and> gpu_state_of g = G_AVAILABLE \<and>
                       gpu_vram_percent g < sc_vram_threshold s)) (\<lambda>suitable.
     if \<not> suitable then returnP False
     else bindP (sample_fresh g) (\<lambda>fresh.
       if \<not> fresh then returnP False
       else readP (\<lambda>s. (wkr_worker_id w, gpu_gpu_id g) \<notin> leased_gpus s \<and>
                       (wkr_worker_id w, gpu_resource (gpu_gpu_id g)) \<notin> sc_holds s)))"

definition select_gpus :: "int \<Rightarrow> string \<Rightarrow> ('z sched_scheme, selection option) prog" where
  "select_gpus count required =
     bindP (readP (\<lambda>s. map_of (sc_workers s) required)) (\<lambda>found.
     case found of
       None \<Rightarrow> returnP None
     | Some w \<Rightarrow>
         if \<not> wkr_online w then returnP None
         else bindP (heartbeat_fresh w) (\<lambda>fresh.
           if \<not> fresh then returnP None
           else bindP (forP (sort_key gpu_gpu_id (wkr_gpus w)) (\<lambda>g.
                    bindP (gpu_usable w g) (\<lambda>ok. returnP (if ok then [gpu_gpu_id g] else []))))
                (\<lambda>found. let available = concat found
                  in returnP (if int (length available) < count then None
                              else Some (wkr_worker_id w, take (nat count) available)))))"

definition container_leased :: "task_unit \<Rightarrow> 'z sched_scheme \<Rightarrow> bool" where
  "container_leased u s \<longleftrightarrow>
     list_ex (\<lambda>l. lse_worker_id l = unt_worker_id u \<and> lse_container_name l = unt_container_name u)
       (dvalues (sc_leases s))"

fun select_units ::
  "task_unit list \<Rightarrow> string list \<Rightarrow> selection list \<Rightarrow> ('z sched_scheme, selection list option) prog"
  where
  "select_units [] used selections = returnP (Some selections)"
| "select_units (u # us) used selections =
     (if unt_worker_id u \<in> set used then returnP None
      else bindP (readP (container_leased u)) (\<lambda>busy.
        if busy then returnP None
        else bindP (select_gpus (unt_required_gpu_count u) (unt_worker_id u)) (\<lambda>sel.
          case sel of
            None \<Rightarrow> returnP None
          | Some x \<Rightarrow> select_units us (fst x # used) (selections @ [x]))))"

definition select_for_task :: "task \<Rightarrow> ('z sched_scheme, selection list option) prog" where
  "select_for_task t =
     bindP (readP (\<lambda>s. length (sc_workers s))) (\<lambda>n.
     if length (tsk_units t) > n then returnP None else select_units (tsk_units t) [] [])"

text \<open>The sort key of the queue: aged tasks first, then by time of arrival and task id.\<close>

definition queue_key :: "queued \<Rightarrow> ('z sched_scheme, nat \<times> int \<times> string) prog" where
  "queue_key q =
     bindP utc_now (\<lambda>now. returnP
       (if now - qd_aging_started_at q \<ge> seconds 3600 then 0 else 1,
        qd_enqueued_at q, tsk_task_id (qd_task q)))"

definition ordered_queue :: "('z sched_scheme, queued list) prog" where
  "ordered_queue =
     bindP (readP (\<lambda>s. dvalues (sc_queue s))) (\<lambda>qs.
     bindP (forP qs queue_key) (\<lambda>keys.
     returnP (map snd (sort_key fst (zip keys qs)))))"

section \<open>Dispatch\<close>

text \<open>The locals of \<open>_dispatch\<close> that outlive an exception.\<close>

record frame =
  fr_leases :: "lease list"
  fr_committed :: "lease list"
  fr_plans :: "plan list"
  fr_manifests :: "manifest list"
  fr_side_effect_possible :: bool
  fr_reply_uncertain :: bool
  fr_prepare_rejected :: bool

definition empty_frame :: frame where
  "empty_frame = \<lparr>fr_leases = [], fr_committed = [], fr_plans = [], fr_manifests = [],
     fr_side_effect_possible = False, fr_reply_uncertain = False, fr_prepare_rejected = False\<rparr>"

text \<open>A method of the scheduler, and an assignment to a local, inside the body of \<open>_dispatch\<close>.\<close>

definition onS :: "('s, 'a) prog \<Rightarrow> ('s \<times> frame, 'a) prog" where
  "onS m = (\<lambda>(s, f). case m s of (r, t) \<Rightarrow> (r, (t, f)))"

definition local :: "(frame \<Rightarrow> frame) \<Rightarrow> ('s \<times> frame, unit) prog" where
  "local u = updateP (\<lambda>(s, f). (s, u f))"

definition the_local :: "(frame \<Rightarrow> 'a) \<Rightarrow> ('s \<times> frame, 'a) prog" where
  "the_local g = readP (\<lambda>(s, f). g f)"

text \<open>\<open>for x, y in zip(xs, ys, strict=True)\<close>.\<close>

definition for_zip :: "'a list \<Rightarrow> 'b list \<Rightarrow> ('a \<times> 'b \<Rightarrow> ('s, 'c) prog) \<Rightarrow> ('s, unit) prog" where
  "for_zip xs ys f =
     bindP (forP (zip xs ys) f) (\<lambda>_.
     checkP (length xs = length ys) (ValueError ''zip() arguments have different lengths''))"

definition unit_resources :: "task_unit \<Rightarrow> int list \<Rightarrow> string list" where
  "unit_resources u gpu_ids = map gpu_resource gpu_ids @ [container_resource (unt_container_name u)]"

definition next_epoch :: "(resource \<rightharpoonup> int) \<Rightarrow> string \<Rightarrow> string list \<Rightarrow> int" where
  "next_epoch epochs w resources =
     Max (set (map (\<lambda>r. case epochs (w, r) of None \<Rightarrow> 0 | Some e \<Rightarrow> e) resources)) + 1"

definition hold_unit :: "string \<Rightarrow> string list \<Rightarrow> ('z sched_scheme, int) prog" where
  "hold_unit w resources =
     bindP (readP (\<lambda>s. list_ex (\<lambda>r. (w, r) \<in> sc_holds s) resources)) (\<lambda>conflict.
     bindP (checkP (\<not> conflict) (SchedulingError ''resource hold conflict'')) (\<lambda>_.
     bindP (updateP (\<lambda>s. s\<lparr>sc_holds := sc_holds s \<union> set (map (Pair w) resources)\<rparr>)) (\<lambda>_.
     bindP (readP (\<lambda>s. next_epoch (sc_epochs s) w resources)) (\<lambda>epoch.
     bindP (updateP (\<lambda>s. s\<lparr>sc_epochs := foldl (\<lambda>m r. m((w, r) \<mapsto> epoch)) (sc_epochs s) resources\<rparr>))
       (\<lambda>_. returnP epoch)))))"

definition build_manifest ::
  "('k, 'p) signer \<Rightarrow> task \<Rightarrow> task_unit \<Rightarrow> selection \<Rightarrow> int \<Rightarrow> ('z sched_scheme, manifest) prog" where
  "build_manifest g t u sel epoch =
     bindP (fresh_id ''assign'') (\<lambda>assignment_id.
     bindP (readP sc_key_id) (\<lambda>key.
     bindP (fresh_id ''manifest'') (\<lambda>manifest_id.
     bindP utc_now (\<lambda>now.
     let m = \<lparr>man_key_id = key, man_manifest_id = manifest_id, man_task_id = tsk_task_id t,
              man_execution_id = tsk_execution_id t, man_assignment_id = assignment_id,
              man_dispatch_generation = 1, man_worker_id = fst sel, man_gpu_ids = snd sel,
              man_lease_epoch = epoch, man_container_name = unt_container_name u,
              man_created_at = now, man_content_hash = None, man_signature = None\<rparr>
     in bindP (checkP (valid_manifest m) (ValueError ''validation error for PrepareManifest'')) (\<lambda>_.
        returnP (sign_model (sg_crypto g) (manifest_integrity (sg_manifest_dump g))
                   (sg_signing_key g) m))))))"

definition build_lease :: "task \<Rightarrow> task_unit \<Rightarrow> selection \<Rightarrow> int \<Rightarrow> ('z sched_scheme, lease) prog" where
  "build_lease t u sel epoch =
     bindP (fresh_id ''lease'') (\<lambda>lease_id.
     let l = \<lparr>lse_lease_id = lease_id, lse_execution_id = tsk_execution_id t, lse_worker_id = fst sel,
              lse_gpu_ids = snd sel, lse_container_name = unt_container_name u,
              lse_lease_epoch = epoch, lse_committed = False\<rparr>
     in bindP (checkP (valid_lease l) (ValueError ''validation error for ResourceLease'')) (\<lambda>_.
        returnP l))"

definition prepare_unit ::
  "('k, 'p) signer \<Rightarrow> 'z sched_scheme driver \<Rightarrow> task \<Rightarrow> task_unit \<times> selection
     \<Rightarrow> ('z sched_scheme \<times> frame, unit) prog" where
  "prepare_unit g d t us = (case us of (u, sel) \<Rightarrow>
     bindP (onS (hold_unit (fst sel) (unit_resources u (snd sel)))) (\<lambda>epoch.
     bindP (onS (build_manifest g t u sel epoch)) (\<lambda>m.
     bindP (onS (write_immutable ''manifests'' (man_manifest_id m) (O_manifest m))) (\<lambda>_.
     bindP (onS (write_immutable_bytes ''manifests'' (man_manifest_id m @ ''.canonical.json'')
                   (sg_manifest_dump g m))) (\<lambda>_.
     bindP (onS (build_lease t u sel epoch)) (\<lambda>l.
     bindP (local (\<lambda>f. f\<lparr>fr_leases := fr_leases f @ [l]\<rparr>)) (\<lambda>_.
     bindP (onS (persist_lease l)) (\<lambda>_.
     bindP (local (\<lambda>f. f\<lparr>fr_manifests := fr_manifests f @ [m]\<rparr>)) (\<lambda>_.
     bindP (local (\<lambda>f. f\<lparr>fr_reply_uncertain := True\<rparr>)) (\<lambda>_.
     bindP (onS (drv_prepare d m t)) (\<lambda>accepted.
     bindP (local (\<lambda>f. f\<lparr>fr_reply_uncertain := False\<rparr>)) (\<lambda>_.
     whenP (\<not> accepted)
       (bindP (local (\<lambda>f. f\<lparr>fr_prepare_rejected := True\<rparr>)) (\<lambda>_.
        raiseP (SchedulingError ''Worker rejected PrepareManifest'')))))))))))))))"

text \<open>The frozen library path of the approved container image.\<close>

definition container_ld_library_path :: string where
  "container_ld_library_path =
     ''/opt/dtk/.hyhal/rocm_smi/lib:/opt/dtk/dcc/gcvm/lib:/opt/dtk/hip/lib:'' @
     ''/opt/dtk/llvm/lib:/opt/dtk/lib:/opt/dtk/lib64:/opt/hyhal/lib:/opt/hyhal/lib64:'' @
     ''/opt/dtk/dushmem/lib:/opt/dtk/opencl/lib:/opt/ucx/lib:/opt/mpi/lib:/opt/hwloc/lib''"

definition plan_environment :: "task \<Rightarrow> task_unit \<Rightarrow> manifest \<Rightarrow> string \<Rightarrow> (string \<times> string) list" where
  "plan_environment t u m plan_id =
     [(''HIP_VISIBLE_DEVICES'', join '','' (map show_int (man_gpu_ids m))),
      (''ROCR_VISIBLE_DEVICES'', join '','' (map show_int (man_gpu_ids m))),
      (''LD_LIBRARY_PATH'', container_ld_library_path),
      (''TASK_ID'', tsk_task_id t),
      (''UNIT_ID'', unt_unit_id u),
      (''EXECUTION_ID'', tsk_execution_id t),
      (''PLAN_ID'', plan_id),
      (''ASSIGNMENT_ID'', man_assignment_id m),
      (''LEASE_EPOCH'', show_int (man_lease_epoch m))]"

definition build_plan ::
  "('k, 'p) signer \<Rightarrow> task \<Rightarrow> task_unit \<Rightarrow> manifest \<Rightarrow> ('z sched_scheme, plan) prog" where
  "build_plan g t u m =
     (case tsk_content_hash t of
        None \<Rightarrow> raiseP (SchedulingError ''signed Task has no content hash'')
      | Some h \<Rightarrow>
          bindP (fresh_id ''plan'') (\<lambda>plan_id.
          bindP (readP sc_key_id) (\<lambda>key.
          bindP utc_now (\<lambda>now.
          let p = \<lparr>pln_key_id = key, pln_plan_id = plan_id, pln_assignment_id = man_assignment_id m,
                   pln_execution_id = tsk_execution_id t, pln_task_id = tsk_task_id t,
                   pln_task_content_hash = h,
                   pln_dispatch_generation = man_dispatch_generation m,
                   pln_worker_id = man_worker_id m, pln_unit_id = unt_unit_id u,
                   pln_gpu_ids = man_gpu_ids m, pln_lease_epoch = man_lease_epoch m,
                   pln_container_name = unt_container_name u,
                   pln_submitter_username = unt_submitter_username u,
                   pln_container_user = unt_container_user u,
                   pln_image_digest = unt_image_digest u,
                   pln_environment = plan_environment t u m plan_id,
                   pln_created_at = now, pln_content_hash = None, pln_signature = None\<rparr>
          in bindP (checkP (valid_plan p) (ValueError ''validation error for ExecutionPlan'')) (\<lambda>_.
             returnP (sign_model (sg_crypto g) (plan_integrity (sg_plan_dump g))
                        (sg_signing_key g) p))))))"

definition issue_plan ::
  "('k, 'p) signer \<Rightarrow> 'z sched_scheme driver \<Rightarrow> task \<Rightarrow> task_unit \<times> manifest
     \<Rightarrow> ('z sched_scheme \<times> frame, unit) prog" where
  "issue_plan g d t um = (case um of (u, m) \<Rightarrow>
     bindP (onS (build_plan g t u m)) (\<lambda>p.
     bindP (onS (write_immutable ''plans'' (pln_plan_id p) (O_plan p))) (\<lambda>_.
     bindP (onS (write_immutable_bytes ''plans'' (pln_plan_id p @ ''.canonical.json'')
                   (sg_plan_dump g p))) (\<lambda>_.
     bindP (onS (updateP (\<lambda>s. s\<lparr>sc_plans := AList.update (pln_plan_id p) p (sc_plans s)\<rparr>))) (\<lambda>_.
     bindP (local (\<lambda>f. f\<lparr>fr_reply_uncertain := True\<rparr>)) (\<lambda>_.
     bindP (onS (drv_acknowledge_plan d p t)) (\<lambda>acknowledged.
     bindP (local (\<lambda>f. f\<lparr>fr_reply_uncertain := False\<rparr>)) (\<lambda>_.
     bindP (checkP acknowledged (SchedulingError ''Worker rejected ExecutionPlan'')) (\<lambda>_.
     local (\<lambda>f. f\<lparr>fr_plans := fr_plans f @ [p]\<rparr>))))))))))"

text \<open>Reading and clearing the cancel request of a task, under the lock.\<close>

definition take_cancel :: "task \<Rightarrow> ('z sched_scheme, bool) prog" where
  "take_cancel t =
     bindP (readP (\<lambda>s. tsk_task_id t \<in> sc_cancel_requested s)) (\<lambda>b.
     bindP (updateP (\<lambda>s. s\<lparr>sc_cancel_requested := sc_cancel_requested s - {tsk_task_id t}\<rparr>)) (\<lambda>_.
     returnP b))"

definition delete_leases :: "lease list \<Rightarrow> ('z sched_scheme, unit) prog" where
  "delete_leases ls = bindP (forP ls delete_lease) (\<lambda>_. returnP ())"

text \<open>The first barrier: every worker prepares, then all leases are committed together.\<close>

definition reserve ::
  "('k, 'p) signer \<Rightarrow> 'z sched_scheme driver \<Rightarrow> task \<Rightarrow> selection list \<Rightarrow> string
     \<Rightarrow> ('z sched_scheme \<times> frame, task_status) prog" where
  "reserve g d t selections rq =
     bindP (for_zip (tsk_units t) selections (prepare_unit g d t)) (\<lambda>_.
     bindP (onS (task_event t ''PREPARED'' ''scheduler'' rq [])) (\<lambda>_.
     bindP (local (\<lambda>f. f\<lparr>fr_committed := map (\<lambda>l. l\<lparr>lse_committed := True\<rparr>) (fr_leases f)\<rparr>)) (\<lambda>_.
     bindP (the_local fr_committed) (\<lambda>committed.
     bindP (onS (forP committed persist_lease)) (\<lambda>_.
     onS (transition t T_RESERVED rq None None))))))"

text \<open>The end of a run: release everything, or keep it when a container may still be alive.\<close>

definition finish_run ::
  "task \<Rightarrow> exec_result list \<Rightarrow> string \<Rightarrow> ('z sched_scheme \<times> frame, task_status) prog" where
  "finish_run t results rq =
     bindP (onS (take_cancel t)) (\<lambda>cancelled.
     let out = (if cancelled then (T_CANCELLED, Some ''CANCELLED_DURING_RUN'') else outcome results)
     in bindP (onS (transition t T_FINALIZING rq None None)) (\<lambda>_.
        if list_ex (\<lambda>r. \<not> res_cleanup_ok r) results
        then onS (transition t T_CLEANUP_FAILED rq (Some (fst out))
                    (Some ''CONTAINER_NOT_CONFIRMED_STOPPED''))
        else bindP (the_local fr_committed) (\<lambda>committed.
             bindP (onS (delete_leases committed)) (\<lambda>_.
             onS (transition t (fst out) rq None (snd out))))))"

text \<open>The second barrier and the run.\<close>

definition run_units ::
  "'z sched_scheme driver \<Rightarrow> task \<Rightarrow> string \<Rightarrow> ('z sched_scheme \<times> frame, task_status) prog" where
  "run_units d t rq =
     bindP (onS (task_event t ''PLAN_ACK'' ''scheduler'' rq [])) (\<lambda>_.
     bindP (onS (take_cancel t)) (\<lambda>cancelled.
     if cancelled then
       bindP (onS (transition t T_FINALIZING rq None None)) (\<lambda>_.
       bindP (the_local fr_committed) (\<lambda>committed.
       bindP (onS (delete_leases committed)) (\<lambda>_.
       onS (transition t T_CANCELLED rq None (Some ''CANCELLED_BEFORE_START'')))))
     else
       bindP (onS (transition t T_DISPATCHED rq None None)) (\<lambda>_.
       bindP (onS (transition t T_STARTING rq None None)) (\<lambda>_.
       bindP (local (\<lambda>f. f\<lparr>fr_side_effect_possible := True\<rparr>)) (\<lambda>_.
       bindP (onS (transition t T_RUNNING rq None None)) (\<lambda>_.
       bindP (local (\<lambda>f. f\<lparr>fr_reply_uncertain := True\<rparr>)) (\<lambda>_.
       bindP (the_local fr_plans) (\<lambda>plans.
       bindP (onS (forP plans (\<lambda>p. drv_execute d p t))) (\<lambda>results.
       bindP (local (\<lambda>f. f\<lparr>fr_reply_uncertain := False\<rparr>)) (\<lambda>_.
       finish_run t results rq))))))))))"

definition dispatch_body ::
  "('k, 'p) signer \<Rightarrow> 'z sched_scheme driver \<Rightarrow> task \<Rightarrow> selection list \<Rightarrow> string
     \<Rightarrow> ('z sched_scheme \<times> frame, task_status) prog" where
  "dispatch_body g d t selections rq =
     bindP (reserve g d t selections rq) (\<lambda>_.
     bindP (the_local fr_manifests) (\<lambda>manifests.
     bindP (for_zip (tsk_units t) manifests (issue_plan g d t)) (\<lambda>_.
     run_units d t rq)))"

text \<open>The classes the \<open>except\<close> clauses of the scheduler name.\<close>

definition caught :: "exn \<Rightarrow> bool" where
  "caught e \<longleftrightarrow> is_OSError e \<or> is_RuntimeError e \<or> is_ValueError e"

definition query_workers ::
  "'z sched_scheme driver \<Rightarrow> task \<Rightarrow> manifest list \<Rightarrow> ('z sched_scheme, string list) prog" where
  "query_workers d t manifests =
     forP manifests (\<lambda>m.
       catchP (drv_query_status d (man_assignment_id m) (man_dispatch_generation m)
                 (man_lease_epoch m) t)
         caught (\<lambda>_. returnP ''UNKNOWN''))"

text \<open>Whether, after an exception, some worker may have acted on what it was sent.\<close>

definition uncertain_after :: "string list \<Rightarrow> frame \<Rightarrow> bool" where
  "uncertain_after query_results f =
     (let maybe = fr_reply_uncertain f \<or> fr_side_effect_possible f \<or> fr_committed f \<noteq> [];
          known = (if query_results \<noteq> [] \<and> set query_results = {''NOT_REGISTERED''} \<and>
                      fr_committed f = [] \<and> \<not> fr_side_effect_possible f
                   then False else maybe)
      in if fr_prepare_rejected f \<and> fr_committed f = [] then False else known)"

definition dispatch_handler ::
  "'z sched_scheme driver \<Rightarrow> task \<Rightarrow> string \<Rightarrow> exn \<Rightarrow> ('z sched_scheme \<times> frame, task_status) prog" where
  "dispatch_handler d t rq e =
     bindP (the_local id) (\<lambda>f.
     bindP (if fr_reply_uncertain f
            then bindP (onS (query_workers d t (fr_manifests f))) (\<lambda>qs.
                 bindP (onS (task_event t ''STATUS_QUERIED_AFTER_TIMEOUT'' ''scheduler'' rq
                               [(''results'', JArr (map JStr qs))])) (\<lambda>_. returnP qs))
            else returnP []) (\<lambda>query_results.
     let uncertain = uncertain_after query_results f;
         target = (if uncertain then T_RECONCILIATION_REQUIRED else T_FAILED)
     in bindP (whenP (\<not> uncertain) (onS (delete_leases (fr_leases f)))) (\<lambda>_.
        onS (force_failure t target rq (exn_message e)))))"

definition release_holds :: "task \<Rightarrow> selection list \<Rightarrow> ('z sched_scheme, unit) prog" where
  "release_holds t selections =
     bindP (forP selections (\<lambda>(w, gpu_ids). updateP (\<lambda>s. s\<lparr>sc_holds :=
              sc_holds s - set (map (\<lambda>g. (w, gpu_resource g)) gpu_ids)\<rparr>))) (\<lambda>_.
     for_zip (tsk_units t) selections (\<lambda>(u, (w, _)). updateP (\<lambda>s. s\<lparr>sc_holds :=
              sc_holds s - {(w, container_resource (unt_container_name u))}\<rparr>)))"

definition dispatch ::
  "('k, 'p) signer \<Rightarrow> 'z sched_scheme driver \<Rightarrow> task \<Rightarrow> selection list \<Rightarrow> string
     \<Rightarrow> ('z sched_scheme, task_status) prog" where
  "dispatch g d t selections rq =
     bindP (transition t T_PREPARING rq None None) (\<lambda>_ s.
       case finallyP
              (catchP (dispatch_body g d t selections rq) caught (dispatch_handler d t rq))
              (onS (release_holds t selections)) (s, empty_frame) of
         (r, (s', f')) \<Rightarrow> (r, s'))"

section \<open>The operations of the scheduler\<close>

definition worker_object_id :: "('k, 'p) signer \<Rightarrow> string \<Rightarrow> string" where
  "worker_object_id g w = ''worker_'' @ take 32 (sha256_hex (sg_crypto g) w)"

definition register_worker ::
  "('k, 'p) signer \<Rightarrow> worker_snapshot \<Rightarrow> string \<Rightarrow> ('z sched_scheme, unit) prog" where
  "register_worker g w rq =
     bindP (updateP (\<lambda>s. s\<lparr>sc_workers := AList.update (wkr_worker_id w) w (sc_workers s)\<rparr>)) (\<lambda>_.
     bindP (fresh_id ''sample'') (\<lambda>i.
     bindP (write_immutable ''worker-samples'' i (O_worker w)) (\<lambda>_.
     bindP (write_snapshot ''workers'' (wkr_worker_id w) (O_worker w)) (\<lambda>_.
     bindP (append_event ''workers'' (worker_object_id g (wkr_worker_id w)) ''HEARTBEAT''
              (wkr_worker_id w) rq [(''online'', JBool (wkr_online w))]) (\<lambda>_.
     returnP ())))))"

definition enqueue :: "('k, 'p) signer \<Rightarrow> task \<Rightarrow> string \<Rightarrow> ('z sched_scheme, task_status) prog" where
  "enqueue g t rq =
     bindP (readP (\<lambda>s. map_of (sc_statuses s) (tsk_task_id t) \<noteq> None)) (\<lambda>known.
     if known then getP sc_initial_statuses (tsk_task_id t)
     else
       bindP (verify_task g t) (\<lambda>_.
       bindP (persist_task_if_needed t) (\<lambda>_.
       bindP utc_now (\<lambda>now.
       let st = \<lparr>sts_task_id = tsk_task_id t, sts_execution_id = tsk_execution_id t,
                 sts_state = T_QUEUED, sts_updated_at = now, sts_underlying_outcome = None,
                 sts_failure_reason = None\<rparr>;
           q = \<lparr>qd_task = t, qd_status = st, qd_enqueued_at = now, qd_aging_started_at = now\<rparr>
       in bindP (updateP (\<lambda>s. s\<lparr>sc_tasks := AList.update (tsk_task_id t) t (sc_tasks s),
                    sc_statuses := AList.update (tsk_task_id t) st (sc_statuses s),
                    sc_initial_statuses := AList.update (tsk_task_id t) st (sc_initial_statuses s),
                    sc_queue := AList.update (tsk_task_id t) q (sc_queue s)\<rparr>)) (\<lambda>_.
          bindP (persist_status st) (\<lambda>_.
          bindP (task_event t ''QUEUED'' ''scheduler'' rq []) (\<lambda>_.
          bindP (readP id) (\<lambda>s.
          bindP (whenP (sc_qualification_profile s)
                   (bindP (task_event t ''QUALIFICATION_PROFILE_APPLIED'' ''scheduler'' rq
                      [(''vram_threshold'', JNum (sc_vram_threshold s)),
                       (''authorized_gpu_ids'', JArr (map JInt (sorted_list_of_set (sc_authorized_gpu_ids s))))])
                      (\<lambda>_. returnP ()))) (\<lambda>_.
          returnP st)))))))))"

definition pop_queue :: "string \<Rightarrow> ('z sched_scheme, unit) prog" where
  "pop_queue i =
     bindP (getP sc_queue i) (\<lambda>_. updateP (\<lambda>s. s\<lparr>sc_queue := AList.delete i (sc_queue s)\<rparr>))"

text \<open>A qualification run does not wait for devices longer than half an hour.\<close>

definition expire_waiting :: "queued \<Rightarrow> string \<Rightarrow> ('z sched_scheme, unit) prog" where
  "expire_waiting q rq =
     bindP (readP sc_qualification_profile) (\<lambda>profile.
     whenP profile
       (bindP utc_now (\<lambda>now.
        whenP (now - qd_enqueued_at q \<ge> seconds (30 * 60))
          (bindP (pop_queue (tsk_task_id (qd_task q))) (\<lambda>_.
           bindP (getP sc_statuses (tsk_task_id (qd_task q))) (\<lambda>st.
           whenP (sts_state st = T_QUEUED)
             (bindP (transition (qd_task q) T_BLOCKED rq None (Some ''QUALIFICATION_GPU_WAIT_EXPIRED''))
                (\<lambda>_. returnP ()))))))))"

fun claim :: "queued list \<Rightarrow> string \<Rightarrow> ('z sched_scheme, (task \<times> selection list) option) prog" where
  "claim [] rq = returnP None"
| "claim (q # qs) rq =
     bindP (select_for_task (qd_task q)) (\<lambda>found.
     case found of
       None \<Rightarrow> bindP (expire_waiting q rq) (\<lambda>_. claim qs rq)
     | Some selections \<Rightarrow>
         bindP (pop_queue (tsk_task_id (qd_task q))) (\<lambda>_. returnP (Some (qd_task q, selections))))"

definition tick ::
  "('k, 'p) signer \<Rightarrow> 'z sched_scheme driver \<Rightarrow> string \<Rightarrow> ('z sched_scheme, task_status list) prog" where
  "tick g d rq =
     bindP ordered_queue (\<lambda>qs.
     bindP (claim qs rq) (\<lambda>claimed.
     case claimed of
       None \<Rightarrow> returnP []
     | Some (t, selections) \<Rightarrow> bindP (dispatch g d t selections rq) (\<lambda>st. returnP [st])))"

text \<open>\<open>get_task\<close> and \<open>get_status\<close>.\<close>

definition get_task :: "string \<Rightarrow> ('z sched_scheme, task) prog" where
  "get_task i = (\<lambda>s. (case map_of (sc_tasks s) i of
     None \<Rightarrow> Inl (SchedulingError ''task not found'') | Some t \<Rightarrow> Inr t, s))"

definition get_status :: "string \<Rightarrow> ('z sched_scheme, task_status) prog" where
  "get_status i = (\<lambda>s. (case map_of (sc_statuses s) i of
     None \<Rightarrow> Inl (SchedulingError ''task status not found'') | Some t \<Rightarrow> Inr t, s))"

definition cancel_task ::
  "'z sched_scheme driver \<Rightarrow> string \<Rightarrow> string \<Rightarrow> string \<Rightarrow> ('z sched_scheme, task_status) prog" where
  "cancel_task d i actor rq =
     bindP (get_task i) (\<lambda>t.
     bindP (get_status i) (\<lambda>st.
     if sts_state st \<in> {T_COMPLETED, T_FAILED, T_CANCELLED, T_CLEANUP_FAILED} then returnP st
     else if sts_state st \<in> {T_QUEUED, T_BLOCKED} then
       bindP (updateP (\<lambda>s. s\<lparr>sc_queue := AList.delete i (sc_queue s)\<rparr>)) (\<lambda>_.
       transition t T_CANCELLED rq None None)
     else
       bindP (updateP (\<lambda>s. s\<lparr>sc_cancel_requested := insert i (sc_cancel_requested s)\<rparr>)) (\<lambda>_.
       bindP (readP (\<lambda>s. filter (\<lambda>p. pln_task_id p = i) (dvalues (sc_plans s)))) (\<lambda>plans.
       bindP (allP plans (\<lambda>p. drv_cancel d p t)) (\<lambda>stopped.
       if plans \<noteq> [] \<and> \<not> stopped then
         bindP (updateP (\<lambda>s. s\<lparr>sc_cancel_requested := sc_cancel_requested s - {i}\<rparr>)) (\<lambda>_.
         bindP (append_event ''tasks'' i ''CANCEL_UNCONFIRMED'' actor rq []) (\<lambda>_.
         raiseP (SchedulingError ''cancel could not confirm container stopped'')))
       else
         bindP (append_event ''tasks'' i ''CANCEL_REQUESTED'' actor rq []) (\<lambda>_.
         get_status i))))))"

definition reconcile_execution ::
  "'z sched_scheme driver \<Rightarrow> string \<Rightarrow> string \<Rightarrow> string \<Rightarrow> string \<Rightarrow> ('z sched_scheme, bool) prog" where
  "reconcile_execution d x actor reason rq =
     bindP (checkP (py_strip reason \<noteq> []) (SchedulingError ''reconcile reason is required'')) (\<lambda>_.
     bindP (readP (\<lambda>s. filter (\<lambda>l. lse_execution_id l = x) (dvalues (sc_leases s)))) (\<lambda>leases.
     bindP (readP (\<lambda>s. filter (\<lambda>t. tsk_execution_id t = x) (dvalues (sc_tasks s)))) (\<lambda>found.
     case found of
       [] \<Rightarrow> raiseP (SchedulingError ''execution not found'')
     | t # _ \<Rightarrow>
         bindP (readP (\<lambda>s. filter (\<lambda>p. pln_execution_id p = x) (dvalues (sc_plans s)))) (\<lambda>plans.
         if leases = [] then returnP True
         else
           bindP (if length plans \<noteq> length (tsk_units t) then returnP False
                  else allP plans (\<lambda>p. drv_reconcile d p t)) (\<lambda>confirmed.
           if \<not> confirmed then
             bindP (task_event t ''RECONCILE_REFUSED'' actor rq [(''reason'', JStr reason)]) (\<lambda>_.
             returnP False)
           else
             bindP (delete_leases leases) (\<lambda>_.
             bindP (getP sc_statuses (tsk_task_id t)) (\<lambda>st.
             bindP (whenP (sts_state st = T_CLEANUP_FAILED)
                (bindP utc_now (\<lambda>now.
                 let st' = st\<lparr>sts_state := (case sts_underlying_outcome st of None \<Rightarrow> T_FAILED | Some u \<Rightarrow> u),
                       sts_updated_at := now, sts_failure_reason := Some ''ADMIN_RECONCILED''\<rparr>
                 in bindP (updateP (\<lambda>s. s\<lparr>sc_statuses :=
                             AList.update (tsk_task_id t) st' (sc_statuses s)\<rparr>)) (\<lambda>_.
                    persist_status st')))) (\<lambda>_.
             bindP (task_event t ''RECONCILED'' actor rq
                      [(''reason'', JStr reason),
                       (''released_lease_ids'', JArr (map (\<lambda>l. JStr (lse_lease_id l)) leases))]) (\<lambda>_.
             returnP True)))))))))"

text \<open>The listings.\<close>

definition statuses :: "'z sched_scheme \<Rightarrow> task_status list" where
  "statuses s = sort_key sts_task_id (dvalues (sc_statuses s))"

definition queued_task_ids :: "('z sched_scheme, string list) prog" where
  "queued_task_ids = bindP ordered_queue (\<lambda>qs. returnP (map (\<lambda>q. tsk_task_id (qd_task q)) qs))"

end
