(* ===== verification/Scheduler_Safety.thy ===== *)
theory Scheduler_Safety
  imports Scheduler_Core
begin

text \<open>
  Mutual exclusion of the scheduler's leases, the fencing epochs and the holds. The first part
  gives each elementary operation its effect on the resource tables; the second proves the
  invariant of \<open>_dispatch\<close>; the third closes it over every operation and every reachable state.
  Disk faults and exceptions of the driver are covered: the invariant holds on every exit.
\<close>

section \<open>Effects on the resource tables\<close>

text \<open>The resource tables are the leases, the holds and the epochs.\<close>

definition same_res :: "'z sched_scheme \<Rightarrow> 'z sched_scheme \<Rightarrow> bool" where
  "same_res s t \<longleftrightarrow> sc_leases t = sc_leases s \<and> sc_holds t = sc_holds s \<and> sc_epochs t = sc_epochs s"

interpretation same_res: world_effect same_res
  by unfold_locales (auto simp: same_res_def append_line_def)

text \<open>What the driver, and the threads that run meanwhile, may do.\<close>

definition driver_obeys ::
  "('s \<Rightarrow> 's \<Rightarrow> bool) \<Rightarrow> 's driver \<Rightarrow> bool" where
  "driver_obeys R d \<longleftrightarrow>
     (\<forall>m t. obeys R (drv_prepare d m t)) \<and> (\<forall>p t. obeys R (drv_acknowledge_plan d p t)) \<and>
     (\<forall>p t. obeys R (drv_execute d p t)) \<and> (\<forall>p t. obeys R (drv_cancel d p t)) \<and>
     (\<forall>a g e t. obeys R (drv_query_status d a g e t)) \<and> (\<forall>p t. obeys R (drv_reconcile d p t))"

lemma driver_obeysD:
  assumes "driver_obeys R d"
  shows "obeys R (drv_prepare d m t)" "obeys R (drv_acknowledge_plan d p t)"
    "obeys R (drv_execute d p t)" "obeys R (drv_cancel d p t)"
    "obeys R (drv_query_status d a g e t)" "obeys R (drv_reconcile d p t)"
  using assms by (auto simp: driver_obeys_def)

lemma driver_obeys_mono:
  "driver_obeys R d \<Longrightarrow> (\<And>s t. R s t \<Longrightarrow> Q s t) \<Longrightarrow> driver_obeys Q d"
  unfolding driver_obeys_def obeys_def by (elim conjE) (intro conjI allI; simp)

text \<open>Selecting and ordering only read the state and the clock.\<close>

locale sched_clock = clock_effect R for R :: "'z sched_scheme \<Rightarrow> 'z sched_scheme \<Rightarrow> bool"
begin

lemmas eff_clock = eff_return eff_read eff_bind eff_utc_now

lemma eff_heartbeat_fresh: "obeys R (heartbeat_fresh w)"
  unfolding heartbeat_fresh_def by (intro eff_clock)

lemma eff_gpu_usable: "obeys R (gpu_usable w g)"
  unfolding gpu_usable_def sample_fresh_def by (intro eff_bind eff_if eff_clock)

lemma eff_select_gpus: "obeys R (select_gpus n w)"
  unfolding select_gpus_def Let_def
  by (intro eff_bind eff_clock)
     (auto split: option.split intro!: eff_clock eff_if eff_heartbeat_fresh eff_for eff_gpu_usable)

lemma eff_select_units: "obeys R (select_units us used sels)"
proof (induction us arbitrary: used sels)
  case (Cons u us)
  show ?case
    unfolding select_units.simps
    by (intro eff_if eff_clock eff_select_gpus)
       (auto split: option.split intro!: eff_clock eff_select_gpus Cons)
qed (simp add: eff_return)

lemma eff_select_for_task: "obeys R (select_for_task t)"
  unfolding select_for_task_def by (intro eff_bind eff_if eff_clock eff_select_units)

lemma eff_ordered_queue: "obeys R ordered_queue"
  unfolding ordered_queue_def queue_key_def by (intro eff_bind eff_for eff_clock)

end

text \<open>
  A relation that also tolerates changes of the statuses, the queue, the cancel requests, the
  plans and the workers is kept by every operation that touches neither resources nor the table of
  tasks; when it tolerates new tasks as well (\<open>sched_effect\<close>), by enqueueing too.
\<close>

locale steady_effect = world_effect R + sched_clock R for R :: "'z sched_scheme \<Rightarrow> 'z sched_scheme \<Rightarrow> bool" +
  assumes R_statuses: "R s (s\<lparr>sc_statuses := x\<rparr>)"
    and R_initial: "R s (s\<lparr>sc_initial_statuses := i\<rparr>)"
    and R_queue: "R s (s\<lparr>sc_queue := q\<rparr>)"
    and R_cancel: "R s (s\<lparr>sc_cancel_requested := c\<rparr>)"
    and R_plans: "R s (s\<lparr>sc_plans := p\<rparr>)"
    and R_workers: "R s (s\<lparr>sc_workers := AList.update (wkr_worker_id w) w (sc_workers s)\<rparr>)"
begin

lemma eff_getP: "obeys R (getP f k)"
  by (simp add: getP_def obeys_def effect_refl)

lemma eff_status_update: "obeys R (updateP (\<lambda>s. s\<lparr>sc_statuses := f s\<rparr>))"
  by (simp add: obeys_def R_statuses)

lemma eff_queue_update: "obeys R (updateP (\<lambda>s. s\<lparr>sc_queue := f s\<rparr>))"
  by (simp add: obeys_def R_queue)

lemma eff_cancel_update: "obeys R (updateP (\<lambda>s. s\<lparr>sc_cancel_requested := f s\<rparr>))"
  by (simp add: obeys_def R_cancel)

lemma eff_plans_update: "obeys R (updateP (\<lambda>s. s\<lparr>sc_plans := f s\<rparr>))"
  by (simp add: obeys_def R_plans)

lemma eff_workers_update:
  "obeys R (updateP (\<lambda>s. s\<lparr>sc_workers := AList.update (wkr_worker_id w) w (sc_workers s)\<rparr>))"
  by (simp add: obeys_def R_workers)

lemmas eff_sched = eff_store eff_getP eff_status_update eff_queue_update eff_cancel_update
  eff_plans_update eff_workers_update

lemma eff_persist_status: "obeys R (persist_status st)"
  unfolding persist_status_def by (intro eff_sched)

lemma eff_task_event: "obeys R (task_event t et a rq pl)"
  unfolding task_event_def by (intro eff_sched)

lemma eff_transition: "obeys R (transition t target rq u reason)"
  unfolding transition_def Let_def
  by (intro eff_bind eff_getP)
     (auto split: sum.split intro!: eff_sched eff_persist_status eff_task_event)

lemma eff_force_failure: "obeys R (force_failure t target rq reason)"
  unfolding force_failure_def Let_def
  by (intro eff_bind eff_getP eff_if eff_transition eff_sched eff_persist_status eff_task_event)

lemma eff_verify_task: "obeys R (verify_task g t)"
  unfolding verify_task_def by (intro eff_sched)

lemma eff_persist_task: "obeys R (persist_task_if_needed t)"
  unfolding persist_task_if_needed_def
  by (intro eff_bind eff_if eff_sched) (auto split: obj.split intro!: eff_sched)

lemma eff_build_manifest: "obeys R (build_manifest g t u sel e)"
  unfolding build_manifest_def Let_def by (intro eff_sched)

lemma eff_build_lease: "obeys R (build_lease t u sel e)"
  unfolding build_lease_def Let_def by (intro eff_sched)

lemma eff_build_plan: "obeys R (build_plan g t u m)"
  unfolding build_plan_def Let_def by (auto split: option.split intro!: eff_sched)

lemma eff_take_cancel: "obeys R (take_cancel t)"
  unfolding take_cancel_def by (intro eff_sched)

lemma eff_pop_queue: "obeys R (pop_queue i)"
  unfolding pop_queue_def by (intro eff_sched)

lemma eff_expire_waiting: "obeys R (expire_waiting q rq)"
  unfolding expire_waiting_def by (intro eff_sched eff_pop_queue eff_transition)

lemma eff_claim: "obeys R (claim qs rq)"
proof (induction qs)
  case Nil
  show ?case unfolding claim.simps by (rule eff_return)
next
  case (Cons q qs)
  show ?case
    unfolding claim.simps
    by (intro eff_bind eff_select_for_task)
       (auto split: option.split intro!: eff_sched eff_expire_waiting eff_pop_queue Cons)
qed

lemma eff_get_task: "obeys R (get_task i)"
  by (simp add: get_task_def obeys_def effect_refl)

lemma eff_get_status: "obeys R (get_status i)"
  by (simp add: get_status_def obeys_def effect_refl)

lemma eff_register_worker: "obeys R (register_worker g w rq)"
  unfolding register_worker_def by (intro eff_sched)

lemma eff_enqueue_if:
  assumes "\<And>s. R s (s\<lparr>sc_tasks := AList.update (tsk_task_id t) t (sc_tasks s)\<rparr>)"
  shows "obeys R (enqueue g t rq)"
proof -
  have "obeys R (updateP (\<lambda>s. s\<lparr>sc_tasks := AList.update (tsk_task_id t) t (sc_tasks s), sc_statuses := b s,
      sc_initial_statuses := c s, sc_queue := e s\<rparr>))" for b c e
  proof (rule obeysI)
    fix s :: "'z sched_scheme"
    let ?ts = "AList.update (tsk_task_id t) t (sc_tasks s)"
    have 2: "R s (s\<lparr>sc_tasks := ?ts, sc_statuses := b s\<rparr>)"
      by (rule effect_trans [OF assms]) (rule R_statuses)
    have 3: "R s (s\<lparr>sc_tasks := ?ts, sc_statuses := b s, sc_initial_statuses := c s\<rparr>)"
      by (rule effect_trans [OF 2]) (rule R_initial)
    show "R s (snd (updateP (\<lambda>s. s\<lparr>sc_tasks := AList.update (tsk_task_id t) t (sc_tasks s), sc_statuses := b s,
      sc_initial_statuses := c s, sc_queue := e s\<rparr>) s))"
      by (simp, rule effect_trans [OF 3 R_queue])
  qed
  then show ?thesis
    unfolding enqueue_def Let_def
    by (intro eff_bind eff_if eff_when eff_sched eff_verify_task eff_persist_task eff_persist_status eff_task_event)
qed

lemma eff_cancel_task: "driver_obeys R d \<Longrightarrow> obeys R (cancel_task d i a rq)"
  unfolding cancel_task_def
  by (intro eff_bind eff_if eff_get_task eff_get_status eff_sched eff_transition eff_all driver_obeysD)

end

locale sched_effect = steady_effect R for R :: "'z sched_scheme \<Rightarrow> 'z sched_scheme \<Rightarrow> bool" +
  assumes R_tasks: "R s (s\<lparr>sc_tasks := ts\<rparr>)"
begin

lemma eff_enqueue: "obeys R (enqueue g t rq)"
  by (rule eff_enqueue_if) (rule R_tasks)

end

interpretation same_res: sched_effect same_res
  by unfold_locales (auto simp: same_res_def)

section \<open>Mutual exclusion of leases\<close>

definition conflict :: "lease \<Rightarrow> lease \<Rightarrow> bool" where
  "conflict a b \<longleftrightarrow> lse_worker_id a = lse_worker_id b \<and>
     (set (lse_gpu_ids a) \<inter> set (lse_gpu_ids b) \<noteq> {} \<or> lse_container_name a = lse_container_name b)"

text \<open>Every lease is filed under its id, and no id twice.\<close>

definition keyed :: "(string, lease) dict \<Rightarrow> bool" where
  "keyed d \<longleftrightarrow> ddistinct d \<and> (\<forall>(k, l) \<in> set d. lse_lease_id l = k)"

text \<open>The epoch table has seen the epoch of the lease on each of its resources.\<close>

definition lease_resources :: "lease \<Rightarrow> resource list" where
  "lease_resources l = map (Pair (lse_worker_id l))
     (map gpu_resource (lse_gpu_ids l) @ [container_resource (lse_container_name l)])"

definition covered :: "'z sched_scheme \<Rightarrow> lease \<Rightarrow> bool" where
  "covered s l \<longleftrightarrow> (\<forall>r \<in> set (lease_resources l). \<exists>e. sc_epochs s r = Some e \<and> lse_lease_epoch l \<le> e)"

definition leases_ok :: "'z sched_scheme \<Rightarrow> bool" where
  "leases_ok s \<longleftrightarrow> keyed (sc_leases s) \<and>
     (\<forall>a \<in> set (dvalues (sc_leases s)). covered s a \<and>
        (\<forall>b \<in> set (dvalues (sc_leases s)). lse_lease_id a \<noteq> lse_lease_id b \<longrightarrow> \<not> conflict a b))"

lemma keyed_update: "keyed d \<Longrightarrow> keyed (AList.update (lse_lease_id l) l d)"
proof -
  assume k: "keyed d"
  have "lse_lease_id m = i" if "(i, m) \<in> set (AList.update (lse_lease_id l) l d)" for i m
  proof -
    have "map_of (AList.update (lse_lease_id l) l d) i = Some m"
      using that k by (simp add: keyed_def ddistinct_def distinct_update)
    then show ?thesis
      using k by (auto simp: dupdate_lookup keyed_def split: if_splits dest: map_of_SomeD)
  qed
  then show ?thesis using k by (auto simp: keyed_def)
qed

lemma keyed_delete: "keyed d \<Longrightarrow> keyed (AList.delete k d)"
  by (auto simp: keyed_def AList.delete_eq ddistinct_def distinct_map_filter)

lemma values_update: "set (dvalues (AList.update k v d)) \<subseteq> insert v (set (dvalues d))"
  by (induction d) (auto simp: dvalues_def)

lemma values_delete: "set (dvalues (AList.delete k d)) \<subseteq> set (dvalues d)"
  by (auto simp: dvalues_def AList.delete_eq)

lemma covered_cong: "sc_epochs t = sc_epochs s \<Longrightarrow> covered t = covered s"
  by (simp add: covered_def [abs_def])

text \<open>Shrinking the table of leases keeps it correct.\<close>

lemma leases_ok_shrink:
  assumes "leases_ok s" and "keyed (sc_leases t)"
    and "set (dvalues (sc_leases t)) \<subseteq> set (dvalues (sc_leases s))" and "sc_epochs t = sc_epochs s"
  shows "leases_ok t"
  using assms covered_cong [OF assms(4)] by (auto simp: leases_ok_def subset_iff)

section \<open>The invariant of a dispatch\<close>

text \<open>
  \<open>us\<close> is the list of units with their selections, \<open>L\<close> the table of leases when the dispatch
  began. Every lease then in the table is an old one or one of the frame's, provisional or
  committed; the frame's leases lie on the selections and on different workers, all of them in \<open>W\<close>.
\<close>

definition owned :: "frame \<Rightarrow> lease \<Rightarrow> bool" where
  "owned f l \<longleftrightarrow> (\<exists>l0 \<in> set (fr_leases f). l = l0 \<or> l = l0\<lparr>lse_committed := True\<rparr>)"

definition on_selection :: "(task_unit \<times> selection) list \<Rightarrow> lease \<Rightarrow> bool" where
  "on_selection us l \<longleftrightarrow> (\<exists>(u, w, g) \<in> set us. lse_worker_id l = w \<and> lse_gpu_ids l = g \<and>
     lse_container_name l = unt_container_name u)"

definition dispatch_inv ::
  "(string, lease) dict \<Rightarrow> (task_unit \<times> selection) list \<Rightarrow> string set \<Rightarrow>
     'z sched_scheme \<times> frame \<Rightarrow> bool" where
  "dispatch_inv L us W sf = (case sf of (s, f) \<Rightarrow>
     keyed (sc_leases s) \<and>
     (\<forall>l \<in> set (dvalues (sc_leases s)). (l \<in> set (dvalues L) \<or> owned f l) \<and> covered s l) \<and>
     (\<forall>l \<in> set (fr_leases f). covered s l \<and> on_selection us l) \<and>
     distinct (map lse_worker_id (fr_leases f)) \<and> lse_worker_id ` set (fr_leases f) \<subseteq> W \<and>
     (\<forall>l \<in> set (fr_committed f). owned f l))"

text \<open>What the selection guarantees when the dispatch begins.\<close>

definition selection_free ::
  "(string, lease) dict \<Rightarrow> (task_unit \<times> selection) list \<Rightarrow> bool" where
  "selection_free L us \<longleftrightarrow> distinct (map (\<lambda>(u, w, g). w) us) \<and>
     (\<forall>(u, w, g) \<in> set us. \<forall>l \<in> set (dvalues L). lse_worker_id l = w \<longrightarrow>
        set g \<inter> set (lse_gpu_ids l) = {} \<and> lse_container_name l \<noteq> unt_container_name u)"

lemma conflict_sym: "conflict a b = conflict b a"
  by (auto simp: conflict_def)

lemma conflict_commit [simp]:
  "conflict (a\<lparr>lse_committed := x\<rparr>) b = conflict a b"
  "conflict a (b\<lparr>lse_committed := x\<rparr>) = conflict a b"
  by (simp_all add: conflict_def)

lemma covered_commit [simp]: "covered s (l\<lparr>lse_committed := x\<rparr>) = covered s l"
  by (simp add: covered_def lease_resources_def)

lemma owned_no_conflict:
  assumes "distinct (map lse_worker_id (fr_leases f))" and "owned f a" and "owned f b"
    and "lse_lease_id a \<noteq> lse_lease_id b"
  shows "\<not> conflict a b"
proof -
  from assms(2,3) obtain p q where "p \<in> set (fr_leases f)" "q \<in> set (fr_leases f)"
      and a: "a = p \<or> a = p\<lparr>lse_committed := True\<rparr>" and b: "b = q \<or> b = q\<lparr>lse_committed := True\<rparr>"
    by (auto simp: owned_def)
  moreover have "p \<noteq> q" using assms(4) a b by auto
  ultimately have "lse_worker_id p \<noteq> lse_worker_id q"
    using assms(1) by (auto simp: distinct_map inj_on_def)
  with a b show ?thesis by (auto simp: conflict_def)
qed

lemma owned_old_no_conflict:
  assumes "selection_free L us" and "\<forall>l \<in> set (fr_leases f). on_selection us l"
    and "owned f a" and "b \<in> set (dvalues L)"
  shows "\<not> conflict a b"
proof -
  from assms(3) obtain p where "p \<in> set (fr_leases f)" and a: "a = p \<or> a = p\<lparr>lse_committed := True\<rparr>"
    by (auto simp: owned_def)
  with assms(2) obtain u w g where "(u, w, g) \<in> set us" "lse_worker_id p = w" "lse_gpu_ids p = g"
      "lse_container_name p = unt_container_name u"
    by (fastforce simp: on_selection_def)
  with assms(1,4) have "\<not> conflict p b" by (fastforce simp: selection_free_def conflict_def)
  with a show ?thesis by auto
qed

text \<open>The invariant gives mutual exclusion on every exit of the dispatch.\<close>

lemma dispatch_inv_leases_ok:
  assumes "dispatch_inv (sc_leases s0) us W (s, f)" and "leases_ok s0" and "selection_free (sc_leases s0) us"
  shows "leases_ok s"
proof -
  have "\<not> conflict a b"
    if "a \<in> set (dvalues (sc_leases s))" "b \<in> set (dvalues (sc_leases s))"
      "lse_lease_id a \<noteq> lse_lease_id b" for a b
  proof -
    have d: "distinct (map lse_worker_id (fr_leases f))" "\<forall>l \<in> set (fr_leases f). on_selection us l"
      using assms(1) by (simp_all add: dispatch_inv_def)
    have "(a \<in> set (dvalues (sc_leases s0)) \<or> owned f a) \<and> (b \<in> set (dvalues (sc_leases s0)) \<or> owned f b)"
      using assms(1) that by (simp add: dispatch_inv_def)
    then consider "a \<in> set (dvalues (sc_leases s0))" "b \<in> set (dvalues (sc_leases s0))"
      | "owned f a" "owned f b" | "owned f a" "b \<in> set (dvalues (sc_leases s0))"
      | "owned f b" "a \<in> set (dvalues (sc_leases s0))" by blast
    then show ?thesis
    proof cases
      case 1
      then show ?thesis using assms(2) that(3) by (simp add: leases_ok_def)
    next
      case 2
      then show ?thesis using owned_no_conflict [OF d(1)] that(3) by blast
    next
      case 3
      then show ?thesis using owned_old_no_conflict [OF assms(3) d(2)] by blast
    next
      case 4
      then show ?thesis using owned_old_no_conflict [OF assms(3) d(2)] conflict_sym by blast
    qed
  qed
  then show ?thesis using assms(1) by (simp add: leases_ok_def dispatch_inv_def)
qed

section \<open>The steps of a dispatch\<close>

lemma onS_apply [simp]: "onS m (s, f) = (case m s of (r, t) \<Rightarrow> (r, (t, f)))"
  by (simp add: onS_def)

lemma local_apply [simp]: "local u (s, f) = (Inr (), (s, u f))"
  by (simp add: local_def)

lemma the_local_apply [simp]: "the_local g (s, f) = (Inr (g f), (s, f))"
  by (simp add: the_local_def)

lemma keeps_onS:
  fixes m :: "('s, 'a) prog"
  assumes "obeys R m" and "\<And>s t f. R s t \<Longrightarrow> I (s, f) \<Longrightarrow> I (t, f)"
  shows "obeys (keeps I) (onS m)"
proof (rule obeysI)
  fix sf :: "'s \<times> frame"
  obtain s f where sf: "sf = (s, f)" by fastforce
  obtain r t where m: "m s = (r, t)" by fastforce
  show "keeps I sf (snd (onS m sf))"
    using obeysD [OF assms(1) m] assms(2) by (auto simp: keeps_def sf m)
qed

lemma keeps_local: "(\<And>s f. I (s, f) \<Longrightarrow> I (s, u f)) \<Longrightarrow> obeys (keeps I) (local u)"
  by (auto simp: obeys_def keeps_def)

lemma keeps_the_local: "obeys (keeps I) (the_local g)"
  by (auto simp: obeys_def keeps_def the_local_def)

lemma dispatch_inv_same_res:
  "same_res s t \<Longrightarrow> dispatch_inv L us W (s, f) \<Longrightarrow> dispatch_inv L us W (t, f)"
  using covered_cong [of t s] by (simp add: same_res_def dispatch_inv_def)

lemma keeps_quiet: "obeys same_res m \<Longrightarrow> obeys (keeps (dispatch_inv L us W)) (onS m)"
  by (erule keeps_onS) (rule dispatch_inv_same_res)

text \<open>Assignments to the flags and lists the invariant does not mention.\<close>

lemma keeps_flags:
  "obeys (keeps (dispatch_inv L us W)) (local (\<lambda>f. f\<lparr>fr_reply_uncertain := b\<rparr>))"
  "obeys (keeps (dispatch_inv L us W)) (local (\<lambda>f. f\<lparr>fr_side_effect_possible := b\<rparr>))"
  "obeys (keeps (dispatch_inv L us W)) (local (\<lambda>f. f\<lparr>fr_prepare_rejected := b\<rparr>))"
  "obeys (keeps (dispatch_inv L us W)) (local (\<lambda>f. f\<lparr>fr_manifests := ms f\<rparr>))"
  "obeys (keeps (dispatch_inv L us W)) (local (\<lambda>f. f\<lparr>fr_plans := ps f\<rparr>))"
  by (rule keeps_local, simp add: dispatch_inv_def owned_def)+

lemma keeps_commit:
  "obeys (keeps (dispatch_inv L us W))
     (local (\<lambda>f. f\<lparr>fr_committed := map (\<lambda>l. l\<lparr>lse_committed := True\<rparr>) (fr_leases f)\<rparr>))"
  by (rule keeps_local) (auto simp: dispatch_inv_def owned_def)

text \<open>A lease operation either leaves the table alone or changes exactly its own entry.\<close>

definition lease_effect ::
  "((string, lease) dict \<Rightarrow> (string, lease) dict) \<Rightarrow> 'z sched_scheme \<Rightarrow> 'z sched_scheme \<Rightarrow> bool" where
  "lease_effect u s t \<longleftrightarrow> sc_holds t = sc_holds s \<and> sc_epochs t = sc_epochs s \<and>
     (sc_leases t = sc_leases s \<or> sc_leases t = u (sc_leases s))"

lemma lease_effect_seq:
  assumes "obeys same_res m" and "\<And>x. obeys (lease_effect u) (f x)"
  shows "obeys (lease_effect u) (bindP m f)"
proof (rule obeysI)
  fix s
  obtain r t where m: "m s = (r, t)" by fastforce
  have st: "same_res s t" by (rule obeysD [OF assms(1) m])
  show "lease_effect u s (snd (bindP m f s))"
  proof (cases r)
    case (Inl e)
    then show ?thesis using st m by (simp add: bindP_def lease_effect_def same_res_def)
  next
    case (Inr x)
    have "lease_effect u t (snd (f x t))" using assms(2) by (simp add: obeys_def)
    then show ?thesis using st m Inr by (simp add: bindP_def lease_effect_def same_res_def)
  qed
qed

lemma lease_effect_last:
  assumes "obeys same_res m"
  shows "obeys (lease_effect u) (bindP (updateP (\<lambda>s. s\<lparr>sc_leases := u (sc_leases s)\<rparr>)) (\<lambda>_. m))"
proof (rule obeysI)
  fix s
  have "same_res (s\<lparr>sc_leases := u (sc_leases s)\<rparr>) (snd (m (s\<lparr>sc_leases := u (sc_leases s)\<rparr>)))"
    using assms by (simp add: obeys_def)
  then show "lease_effect u s
      (snd (bindP (updateP (\<lambda>s. s\<lparr>sc_leases := u (sc_leases s)\<rparr>)) (\<lambda>_. m) s))"
    by (simp add: bindP_def lease_effect_def same_res_def)
qed

lemma persist_lease_effect: "obeys (lease_effect (AList.update (lse_lease_id l) l)) (persist_lease l)"
  unfolding persist_lease_def
  by (intro lease_effect_seq lease_effect_last same_res.eff_store)

lemma delete_lease_effect: "obeys (lease_effect (AList.delete (lse_lease_id l))) (delete_lease l)"
  unfolding delete_lease_def
  by (intro lease_effect_seq lease_effect_last same_res.eff_store)

lemma keeps_delete: "obeys (keeps (dispatch_inv L us W)) (onS (delete_lease l))"
proof (rule keeps_onS [OF delete_lease_effect])
  fix s t f
  assume e: "lease_effect (AList.delete (lse_lease_id l)) s t" and "dispatch_inv L us W (s, f)"
  then show "dispatch_inv L us W (t, f)"
    using keyed_delete [of "sc_leases s"] values_delete [of "lse_lease_id l" "sc_leases s"]
      covered_cong [of t s]
    by (auto simp: lease_effect_def dispatch_inv_def)
qed

lemma keeps_persist:
  "obeys (keeps (\<lambda>x. dispatch_inv L us W x \<and> owned (snd x) l \<and> covered (fst x) l)) (onS (persist_lease l))"
proof (rule keeps_onS [OF persist_lease_effect], elim conjE, intro conjI)
  fix s t f
  assume e: "lease_effect (AList.update (lse_lease_id l) l) s t" and i: "dispatch_inv L us W (s, f)"
    and o: "owned (snd (s, f)) l" and c: "covered (fst (s, f)) l"
  have cov: "covered t = covered s" using e by (intro covered_cong) (simp add: lease_effect_def)
  show "dispatch_inv L us W (t, f)"
    using e i o c cov keyed_update [of "sc_leases s" l] values_update [of "lse_lease_id l" l "sc_leases s"]
    by (auto simp: lease_effect_def dispatch_inv_def)
  show "owned (snd (t, f)) l" "covered (fst (t, f)) l" using o c cov by simp_all
qed

lemma onS_return: "onS (returnP x) = returnP x"
  by (simp add: fun_eq_iff)

lemma onS_bind: "onS (bindP m f) = bindP (onS m) (\<lambda>x. onS (f x))"
  by (auto simp: fun_eq_iff bindP_def split: prod.split sum.split)

lemma onS_for: "onS (forP xs f) = forP xs (\<lambda>x. onS (f x))"
  by (induction xs) (simp_all only: forP.simps onS_return onS_bind)

lemma keeps_delete_leases: "obeys (keeps (dispatch_inv L us W)) (onS (delete_leases ls))"
  unfolding delete_leases_def onS_bind onS_for onS_return
  by (intro keeps.eff_bind keeps.eff_for keeps.eff_return keeps_delete)

lemma keeps_persist_owned:
  assumes "\<forall>l \<in> set ls. owned f l"
  shows "dispatch_inv L us W (s, f) \<Longrightarrow> dispatch_inv L us W (snd (onS (forP ls persist_lease) (s, f)))"
  using assms
proof (induction ls arbitrary: s)
  case (Cons l ls)
  have "owned f l" using Cons.prems(2) by simp
  then have "covered s l" using Cons.prems(1) by (auto simp: dispatch_inv_def owned_def)
  obtain r t where m: "persist_lease l s = (r, t)" by fastforce
  have "dispatch_inv L us W (t, f)"
    using keepsD [OF keeps_persist, of L us W "(s, f)" l] Cons.prems(1) \<open>owned f l\<close> \<open>covered s l\<close> m
    by simp
  then have "dispatch_inv L us W (snd (onS (forP ls persist_lease) (t, f)))"
    using Cons.IH Cons.prems(2) by simp
  with m \<open>dispatch_inv L us W (t, f)\<close> show ?case
    by (cases r) (auto simp: bindP_def split: prod.splits sum.splits)
qed simp

text \<open>Holding a unit's resources raises the epochs of exactly those resources.\<close>

lemma foldl_map_upd:
  "foldl (\<lambda>m r. m((w, r) \<mapsto> e)) m rs x =
     (if x \<in> Pair w ` set rs then Some e else m x)"
  by (induction rs arbitrary: m) auto

lemma next_epoch_above:
  assumes "r \<in> set rs" and "ep (w, r) = Some e"
  shows "e < next_epoch ep w rs"
proof -
  have "e \<in> set (map (\<lambda>r. case ep (w, r) of None \<Rightarrow> 0 | Some e \<Rightarrow> e) rs)"
    using assms by (force simp: image_iff)
  then have "e \<le> Max (set (map (\<lambda>r. case ep (w, r) of None \<Rightarrow> 0 | Some e \<Rightarrow> e) rs))"
    by (intro Max_ge) simp_all
  then show ?thesis by (simp add: next_epoch_def)
qed

lemma hold_unit_cases:
  obtains "hold_unit w rs s = (Inl (SchedulingError ''resource hold conflict''), s)"
      and "\<exists>r \<in> set rs. (w, r) \<in> sc_holds s"
  | e where "e = next_epoch (sc_epochs s) w rs" and "\<forall>r \<in> set rs. (w, r) \<notin> sc_holds s"
      and "hold_unit w rs s = (Inr e, s\<lparr>sc_holds := sc_holds s \<union> set (map (Pair w) rs),
             sc_epochs := foldl (\<lambda>m r. m((w, r) \<mapsto> e)) (sc_epochs s) rs\<rparr>)"
proof (cases "list_ex (\<lambda>r. (w, r) \<in> sc_holds s) rs")
  case True
  show ?thesis
    by (rule that(1)) (use True in \<open>auto simp: hold_unit_def bindP_def checkP_def list_ex_iff\<close>)
next
  case False
  show ?thesis
    by (rule that(2) [OF refl])
       (use False in \<open>auto simp: hold_unit_def bindP_def checkP_def list_ex_iff\<close>)
qed

lemma covered_raise:
  assumes "covered s l" and "e = next_epoch (sc_epochs s) w rs"
    and "sc_epochs t = foldl (\<lambda>m r. m((w, r) \<mapsto> e)) (sc_epochs s) rs"
  shows "covered t l"
  unfolding covered_def
proof
  fix r
  assume r: "r \<in> set (lease_resources l)"
  then obtain e0 where e0: "sc_epochs s r = Some e0" "lse_lease_epoch l \<le> e0"
    using assms(1) by (auto simp: covered_def)
  show "\<exists>e. sc_epochs t r = Some e \<and> lse_lease_epoch l \<le> e"
  proof (cases "r \<in> Pair w ` set rs")
    case True
    then have "e0 < e" using next_epoch_above [of _ rs "sc_epochs s" w e0] e0(1) assms(2) by auto
    then show ?thesis using True e0 assms(3) by (simp add: foldl_map_upd)
  next
    case False
    then show ?thesis using e0 assms(3) by (simp add: foldl_map_upd)
  qed
qed

lemma dispatch_inv_hold:
  assumes "dispatch_inv L us W (s, f)" and "hold_unit w rs s = (r, t)"
  shows "dispatch_inv L us W (t, f)"
proof (cases rule: hold_unit_cases [of w rs s])
  case 1
  then show ?thesis using assms by simp
next
  case (2 e)
  then have t: "t = s\<lparr>sc_holds := sc_holds s \<union> set (map (Pair w) rs),
      sc_epochs := foldl (\<lambda>m r. m((w, r) \<mapsto> e)) (sc_epochs s) rs\<rparr>" using assms(2) by simp
  have "covered t l" if "covered s l" for l
    by (rule covered_raise [OF that 2(1)]) (simp add: t)
  then show ?thesis using assms(1) by (simp add: dispatch_inv_def t)
qed

text \<open>One unit of the first barrier.\<close>

lemma build_lease_Inr:
  "build_lease t u sel e s = (Inr l, s') \<Longrightarrow> lse_worker_id l = fst sel \<and> lse_gpu_ids l = snd sel \<and>
     lse_container_name l = unt_container_name u \<and> lse_lease_epoch l = e \<and> \<not> lse_committed l \<and>
     lse_execution_id l = tsk_execution_id t"
  by (auto simp: build_lease_def bindP_def checkP_def Let_def split: prod.splits sum.splits if_splits)

definition held_at :: "string \<Rightarrow> string list \<Rightarrow> int \<Rightarrow> 'z sched_scheme \<Rightarrow> bool" where
  "held_at w rs e s \<longleftrightarrow> (\<forall>r \<in> set rs. sc_epochs s (w, r) = Some e)"

lemma triple_hold_unit:
  "triple (dispatch_inv L us W) (onS (hold_unit w rs))
     (\<lambda>e sf. dispatch_inv L us W sf \<and> held_at w rs e (fst sf)) (\<lambda>_. dispatch_inv L us W)"
proof (rule tripleI)
  fix sf :: "'a sched_scheme \<times> frame"
  assume i: "dispatch_inv L us W sf"
  obtain s f where sf: "sf = (s, f)" by fastforce
  show "case onS (hold_unit w rs) sf of
      (Inl e, t) \<Rightarrow> dispatch_inv L us W t
    | (Inr e, t) \<Rightarrow> dispatch_inv L us W t \<and> held_at w rs e (fst t)"
  proof (cases rule: hold_unit_cases [of w rs s])
    case 1
    then show ?thesis using i sf by simp
  next
    case (2 e)
    then show ?thesis
      using dispatch_inv_hold [OF i [unfolded sf] 2(3)] sf
      by (simp add: held_at_def foldl_map_upd)
  qed
qed

lemma keeps_quiet_held:
  "obeys same_res m \<Longrightarrow>
   obeys (keeps (\<lambda>sf. dispatch_inv L us W sf \<and> held_at w rs e (fst sf))) (onS m)"
  by (erule keeps_onS) (auto simp: held_at_def same_res_def intro: dispatch_inv_same_res)

lemma triple_build_lease:
  "triple (\<lambda>sf. dispatch_inv L us W sf \<and> held_at (fst sel) (unit_resources u (snd sel)) e (fst sf))
     (onS (build_lease t u sel e))
     (\<lambda>l sf. dispatch_inv L us W sf \<and> covered (fst sf) l \<and> lse_worker_id l = fst sel \<and>
        lse_gpu_ids l = snd sel \<and> lse_container_name l = unt_container_name u)
     (\<lambda>_. dispatch_inv L us W)"
  (is "triple ?P _ _ _")
proof (rule tripleI)
  fix sf :: "'a sched_scheme \<times> frame"
  assume p: "?P sf"
  obtain s f where sf: "sf = (s, f)" by fastforce
  obtain r s' where m: "build_lease t u sel e s = (r, s')" by fastforce
  have q: "?P (s', f)"
    using keepsD [OF keeps_quiet_held [OF same_res.eff_build_lease], OF p, of t u sel e] m sf by simp
  have "covered s' l" if "r = Inr l" for l
  proof -
    have "lse_worker_id l = fst sel \<and> lse_gpu_ids l = snd sel \<and> lse_lease_epoch l = e \<and>
        lse_container_name l = unt_container_name u"
      using build_lease_Inr m that by blast
    then have "set (lease_resources l) = Pair (fst sel) ` set (unit_resources u (snd sel))"
      and "lse_lease_epoch l = e"
      by (auto simp: lease_resources_def unit_resources_def)
    then show ?thesis using q by (auto simp: covered_def held_at_def)
  qed
  then show "case onS (build_lease t u sel e) sf of
      (Inl x, t) \<Rightarrow> dispatch_inv L us W t
    | (Inr l, sf) \<Rightarrow> dispatch_inv L us W sf \<and> covered (fst sf) l \<and> lse_worker_id l = fst sel \<and>
        lse_gpu_ids l = snd sel \<and> lse_container_name l = unt_container_name u"
    using q m sf build_lease_Inr [of t u sel e s _ s'] by (cases r) auto
qed

lemma triple_add_lease:
  assumes "(u, sel) \<in> set us" and "fst sel \<notin> W"
  shows "triple (\<lambda>sf. dispatch_inv L us W sf \<and> covered (fst sf) l \<and> lse_worker_id l = fst sel \<and>
        lse_gpu_ids l = snd sel \<and> lse_container_name l = unt_container_name u)
     (local (\<lambda>f. f\<lparr>fr_leases := fr_leases f @ [l]\<rparr>))
     (\<lambda>_ sf. dispatch_inv L us (insert (fst sel) W) sf \<and> owned (snd sf) l \<and> covered (fst sf) l) E"
proof (rule tripleI, clarsimp)
  fix s :: "'a sched_scheme" and f :: frame
  assume i: "dispatch_inv L us W (s, f)" "covered s l" "lse_worker_id l = fst sel"
    "lse_gpu_ids l = snd sel" "lse_container_name l = unt_container_name u"
  then have "on_selection us l" using assms(1) by (cases sel) (force simp: on_selection_def)
  moreover have "lse_worker_id l \<notin> lse_worker_id ` set (fr_leases f)"
    using i assms(2) by (auto simp: dispatch_inv_def)
  ultimately show "dispatch_inv L us (insert (fst sel) W) (s, f\<lparr>fr_leases := fr_leases f @ [l]\<rparr>) \<and>
      owned (f\<lparr>fr_leases := fr_leases f @ [l]\<rparr>) l"
    using i by (auto simp: dispatch_inv_def owned_def)
qed

lemma dispatch_inv_mono: "dispatch_inv L us V sf \<Longrightarrow> V \<subseteq> W \<Longrightarrow> dispatch_inv L us W sf"
  by (auto simp: dispatch_inv_def)

lemma triple_weaken_exn:
  "triple P m Q E' \<Longrightarrow> (\<And>e s. E' e s \<Longrightarrow> E e s) \<Longrightarrow> triple P m Q E"
  by (erule triple_conseq) auto

text \<open>The tail of a unit's preparation keeps the invariant whatever happens.\<close>

lemma keeps_prepare_tail:
  assumes "driver_obeys same_res d"
  shows "obeys (keeps (dispatch_inv L us W))
     (bindP (local (\<lambda>f. f\<lparr>fr_manifests := fr_manifests f @ [m]\<rparr>)) (\<lambda>_.
      bindP (local (\<lambda>f. f\<lparr>fr_reply_uncertain := True\<rparr>)) (\<lambda>_.
      bindP (onS (drv_prepare d m t)) (\<lambda>accepted.
      bindP (local (\<lambda>f. f\<lparr>fr_reply_uncertain := False\<rparr>)) (\<lambda>_.
      whenP (\<not> accepted)
        (bindP (local (\<lambda>f. f\<lparr>fr_prepare_rejected := True\<rparr>)) (\<lambda>_.
         raiseP (SchedulingError ''Worker rejected PrepareManifest''))))))))"
  by (intro keeps.eff_bind keeps.eff_when keeps.eff_raise keeps_flags keeps_quiet
      driver_obeysD [OF assms])

lemma triple_prepare_unit:
  assumes d: "driver_obeys same_res d" and us: "(u, sel) \<in> set us" and w: "fst sel \<notin> W"
  shows "triple (dispatch_inv L us W) (prepare_unit g d t (u, sel))
     (\<lambda>_. dispatch_inv L us (insert (fst sel) W)) (\<lambda>_. dispatch_inv L us (insert (fst sel) W))"
proof -
  let ?rs = "unit_resources u (snd sel)"
  let ?I = "dispatch_inv L us W" and ?J = "dispatch_inv L us (insert (fst sel) W)"
  let ?H = "\<lambda>e sf. ?I sf \<and> held_at (fst sel) ?rs e (fst sf)"
  have up: "\<And>sf. ?I sf \<Longrightarrow> ?J sf" by (rule dispatch_inv_mono) auto
  have quiet: "triple (?H e) (onS m) (\<lambda>_. ?H e) (\<lambda>_. ?J)" if "obeys same_res m"
    for e and m :: "('a sched_scheme, 'x) prog"
    by (rule triple_weaken_exn [OF triple_keeps [OF keeps_quiet_held [OF that]]]) (use up in auto)
  have persist: "triple (\<lambda>sf. ?J sf \<and> owned (snd sf) l \<and> covered (fst sf) l) (onS (persist_lease l))
      (\<lambda>_. ?J) (\<lambda>_. ?J)" for l
    by (rule triple_conseq [OF triple_keeps [OF keeps_persist]]) auto
  show ?thesis
    unfolding prepare_unit_def prod.case
    apply (rule triple_bind [OF triple_weaken_exn [OF triple_hold_unit]])
     apply (erule up)
    apply (rule triple_bind [OF quiet [OF same_res.eff_build_manifest]])
    apply (rule triple_bind [OF quiet [OF same_res.eff_write_immutable]])
    apply (rule triple_bind [OF quiet [OF same_res.eff_write_immutable_bytes]])
    apply (rule triple_bind [OF triple_weaken_exn [OF triple_build_lease]])
     apply (erule up)
    apply (rule triple_bind [OF triple_add_lease [OF us w]])
    apply (rule triple_bind [OF persist])
    apply (rule triple_keeps [OF keeps_prepare_tail [OF d]])
    done
qed

text \<open>The loop over all units, in the order of the selections.\<close>

lemma triple_prepare_all:
  assumes d: "driver_obeys same_res d" and len: "distinct (map (\<lambda>(u, w, g). w) us)"
  shows "triple (dispatch_inv L us {}) (forP us (prepare_unit g d t))
     (\<lambda>_. dispatch_inv L us UNIV) (\<lambda>_. dispatch_inv L us UNIV)"
proof -
  let ?W = "\<lambda>done :: (task_unit \<times> selection) list. (\<lambda>(u, w, g). w) ` set done"
  have "triple (dispatch_inv L us (?W [])) (forP us (prepare_unit g d t))
      (\<lambda>_. dispatch_inv L us (?W us)) (\<lambda>_. dispatch_inv L us UNIV)"
  proof (rule triple_for)
    fix "done" x rest
    assume us: "us = done @ x # rest"
    obtain u w gs where x: "x = (u, w, gs)" by (cases x) auto
    have "(u, (w, gs)) \<in> set us" and "w \<notin> ?W done" using len us x by auto
    from triple_prepare_unit [OF d this(1), of "?W done" L g t] this(2)
    have "triple (dispatch_inv L us (?W done)) (prepare_unit g d t x)
        (\<lambda>_. dispatch_inv L us (?W (done @ [x]))) (\<lambda>_. dispatch_inv L us (?W (done @ [x])))"
      by (simp add: x)
    then show "triple (dispatch_inv L us (?W done)) (prepare_unit g d t x)
        (\<lambda>_. dispatch_inv L us (?W (done @ [x]))) (\<lambda>_. dispatch_inv L us UNIV)"
      by (rule triple_weaken_exn) (auto intro: dispatch_inv_mono)
  qed
  then show ?thesis
    by (rule triple_conseq) (auto intro: dispatch_inv_mono)
qed

text \<open>Committing: the frame's leases are owned, so persisting their committed copies is fine.\<close>

lemma keeps_commit_all:
  "obeys (keeps (dispatch_inv L us W))
     (bindP (the_local fr_committed) (\<lambda>committed. onS (forP committed persist_lease)))"
proof (rule obeysI)
  fix sf :: "'a sched_scheme \<times> frame"
  obtain s f where sf: "sf = (s, f)" by fastforce
  show "keeps (dispatch_inv L us W) sf
      (snd (bindP (the_local fr_committed) (\<lambda>committed. onS (forP committed persist_lease)) sf))"
    unfolding keeps_def sf
  proof
    assume i: "dispatch_inv L us W (s, f)"
    then have "\<forall>l \<in> set (fr_committed f). owned f l" by (simp add: dispatch_inv_def)
    from keeps_persist_owned [OF this i]
    show "dispatch_inv L us W (snd (bindP (the_local fr_committed)
        (\<lambda>committed. onS (forP committed persist_lease)) (s, f)))"
      by (simp add: bindP_def)
  qed
qed

lemma keeps_after_prepare:
  "obeys (keeps (dispatch_inv L us W))
     (bindP (onS (task_event t ''PREPARED'' ''scheduler'' rq [])) (\<lambda>_.
      bindP (local (\<lambda>f. f\<lparr>fr_committed := map (\<lambda>l. l\<lparr>lse_committed := True\<rparr>) (fr_leases f)\<rparr>)) (\<lambda>_.
      bindP (bindP (the_local fr_committed) (\<lambda>committed. onS (forP committed persist_lease))) (\<lambda>_.
      onS (transition t T_RESERVED rq None None)))))"
  by (intro keeps.eff_bind keeps_quiet same_res.eff_task_event same_res.eff_transition keeps_commit
      keeps_commit_all [unfolded bindP_assoc] keeps_commit_all)

lemma triple_reserve:
  assumes d: "driver_obeys same_res d" and us: "us = zip (tsk_units t) selections"
    and dist: "distinct (map (\<lambda>(u, w, g). w) us)"
  shows "triple (dispatch_inv L us {}) (reserve g d t selections rq)
     (\<lambda>_. dispatch_inv L us UNIV) (\<lambda>_. dispatch_inv L us UNIV)"
proof -
  have "triple (dispatch_inv L us UNIV) (checkP b e) (\<lambda>_. dispatch_inv L us UNIV)
      (\<lambda>_. dispatch_inv L us UNIV)" for b e
    by (rule triple_keeps [OF keeps.eff_check])
  then have loop: "triple (dispatch_inv L us {}) (for_zip (tsk_units t) selections (prepare_unit g d t))
      (\<lambda>_. dispatch_inv L us UNIV) (\<lambda>_. dispatch_inv L us UNIV)"
    unfolding for_zip_def us [symmetric]
    by (intro triple_bind [OF triple_prepare_all [OF d dist]])
  show ?thesis
    unfolding reserve_def
    by (rule triple_bind [OF loop triple_keeps [OF keeps_after_prepare [unfolded bindP_assoc]]])
qed

section \<open>The whole dispatch\<close>

lemma keeps_issue_plan:
  assumes "driver_obeys same_res d"
  shows "obeys (keeps (dispatch_inv L us W)) (issue_plan g d t um)"
  unfolding issue_plan_def
  by (auto split: prod.split intro!: keeps.eff_bind keeps.eff_check keeps_flags keeps_quiet
      same_res.eff_build_plan same_res.eff_sched driver_obeysD [OF assms])

lemma keeps_finish_run: "obeys (keeps (dispatch_inv L us W)) (finish_run t results rq)"
  unfolding finish_run_def Let_def
  by (intro keeps.eff_bind keeps.eff_if keeps_quiet same_res.eff_take_cancel same_res.eff_transition
      keeps_the_local keeps_delete_leases)

lemma keeps_run_units:
  assumes "driver_obeys same_res d"
  shows "obeys (keeps (dispatch_inv L us W)) (run_units d t rq)"
  unfolding run_units_def
  by (intro keeps.eff_bind keeps.eff_if keeps_quiet same_res.eff_take_cancel same_res.eff_transition
      same_res.eff_task_event keeps_the_local keeps_delete_leases keeps_flags keeps_finish_run
      same_res.eff_for driver_obeysD [OF assms])

lemma keeps_handler:
  assumes "driver_obeys same_res d"
  shows "obeys (keeps (dispatch_inv L us W)) (dispatch_handler d t rq e)"
  unfolding dispatch_handler_def query_workers_def Let_def
  by (intro keeps.eff_bind keeps.eff_if keeps.eff_when keeps.eff_return keeps_quiet keeps_the_local
      keeps_delete_leases same_res.eff_task_event same_res.eff_force_failure same_res.eff_for
      same_res.eff_catch same_res.eff_return driver_obeysD [OF assms])

lemma triple_dispatch_body:
  assumes d: "driver_obeys same_res d" and us: "us = zip (tsk_units t) selections"
    and dist: "distinct (map (\<lambda>(u, w, g). w) us)"
  shows "triple (dispatch_inv L us {}) (dispatch_body g d t selections rq)
     (\<lambda>_. dispatch_inv L us UNIV) (\<lambda>_. dispatch_inv L us UNIV)"
proof -
  have "obeys (keeps (dispatch_inv L us UNIV))
      (bindP (the_local fr_manifests) (\<lambda>manifests.
       bindP (for_zip (tsk_units t) manifests (issue_plan g d t)) (\<lambda>_. run_units d t rq)))"
    unfolding for_zip_def
    by (intro keeps.eff_bind keeps.eff_for keeps.eff_check keeps_the_local keeps_issue_plan
        keeps_run_units d)
  then show ?thesis
    unfolding dispatch_body_def by (rule triple_bind [OF triple_reserve [OF assms] triple_keeps])
qed

definition holds_only :: "'z sched_scheme \<Rightarrow> 'z sched_scheme \<Rightarrow> bool" where
  "holds_only s t \<longleftrightarrow> sc_leases t = sc_leases s \<and> sc_epochs t = sc_epochs s \<and> sc_holds t \<subseteq> sc_holds s"

interpretation holds_only: effect holds_only
  by unfold_locales (auto simp: holds_only_def)

lemma release_holds_only: "obeys holds_only (release_holds t selections)"
  unfolding release_holds_def for_zip_def
  by (intro holds_only.eff_bind holds_only.eff_for holds_only.eff_check)
     (auto simp: obeys_def holds_only_def split: prod.split)

lemma keeps_release: "obeys (keeps (dispatch_inv L us W)) (onS (release_holds t selections))"
proof (rule keeps_onS [OF release_holds_only])
  fix s t f
  assume "holds_only s t" "dispatch_inv L us W (s, f)"
  then show "dispatch_inv L us W (t, f)"
    using covered_cong [of t s] by (simp add: holds_only_def dispatch_inv_def)
qed

lemma dispatch_inv_initial:
  "leases_ok s \<Longrightarrow> dispatch_inv (sc_leases s) us {} (s, empty_frame)"
  by (simp add: leases_ok_def dispatch_inv_def empty_frame_def owned_def)

lemma dispatch_keeps_leases:
  assumes d: "driver_obeys same_res d" and ok: "leases_ok s"
    and free: "selection_free (sc_leases s) (zip (tsk_units t) selections)"
  shows "leases_ok (snd (dispatch g d t selections rq s))"
proof -
  let ?us = "zip (tsk_units t) selections"
  obtain r s1 where m: "transition t T_PREPARING rq None None s = (r, s1)" by fastforce
  have same: "same_res s s1" by (rule obeysD [OF same_res.eff_transition m])
  then have ok1: "leases_ok s1"
    using ok covered_cong [of s1 s] by (simp add: leases_ok_def same_res_def)
  show ?thesis
  proof (cases r)
    case (Inl e)
    then show ?thesis using ok1 m by (simp add: dispatch_def bindP_def)
  next
    case (Inr st)
    let ?prog = "finallyP (catchP (dispatch_body g d t selections rq) caught (dispatch_handler d t rq))
        (onS (release_holds t selections))"
    let ?inv = "dispatch_inv (sc_leases s1) ?us UNIV"
    have init: "dispatch_inv (sc_leases s1) ?us {} (s1, empty_frame)"
      using ok1 by (rule dispatch_inv_initial)
    have dist: "distinct (map (\<lambda>(u, w, g). w) ?us)"
      using free by (simp add: selection_free_def)
    obtain r2 sf2 where body: "dispatch_body g d t selections rq (s1, empty_frame) = (r2, sf2)"
      by (metis prod.exhaust)
    have i2: "?inv sf2"
      using triple_dispatch_body [OF d refl dist, of "sc_leases s1" g rq] init body
      by (cases r2) (auto dest: triple_Inl triple_Inr)
    have i3: "?inv (snd (catchP (dispatch_body g d t selections rq) caught
        (dispatch_handler d t rq) (s1, empty_frame)))"
      using keepsD [OF keeps_handler [OF d] i2] i2 body by (cases r2) (auto simp: catchP_def)
    then have i4: "?inv (snd (?prog (s1, empty_frame)))"
      using keepsD [OF keeps_release i3] by (simp add: finallyP_state)
    obtain r5 s5 f5 where p: "?prog (s1, empty_frame) = (r5, (s5, f5))"
      by (metis prod.exhaust)
    have "leases_ok s5"
      using dispatch_inv_leases_ok [of s1 ?us UNIV s5 f5] i4 p ok1 free same
      by (simp add: same_res_def)
    moreover have "snd (dispatch g d t selections rq s) = s5"
      using m Inr p by (simp add: dispatch_def bindP_def)
    ultimately show ?thesis by simp
  qed
qed

end
