(* ===== verification/Fake_Driver.thy ===== *)
theory Fake_Driver
  imports Scheduler_Core
begin

text \<open>
  The in-memory driver \<open>FakeWorkerDriver\<close> of \<open>src/agent_scheduler/worker/driver.py\<close>, the worker
  the master runs against in its fake mode: its state extends the scheduler's, its answers are
  configured. The runs in it are the concrete inputs of the witnesses.
\<close>

record fake_config =
  fk_exit_code :: int
  fk_logs_present :: bool
  fk_outputs_present :: bool
  fk_cleanup_ok :: bool
  fk_prepare_ok :: bool
  fk_plan_ack_ok :: bool

record fake_sched = sched +
  fk_prepared :: "string list"
  fk_executed :: "string list"

definition fake_prepare :: "fake_config \<Rightarrow> manifest \<Rightarrow> task \<Rightarrow> ('z fake_sched_scheme, bool) prog" where
  "fake_prepare c m t =
     bindP (updateP (\<lambda>s. s\<lparr>fk_prepared := fk_prepared s @ [man_manifest_id m]\<rparr>)) (\<lambda>_.
     returnP (fk_prepare_ok c))"

definition fake_execute :: "fake_config \<Rightarrow> plan \<Rightarrow> task \<Rightarrow> ('z fake_sched_scheme, exec_result) prog" where
  "fake_execute c p t =
     bindP (updateP (\<lambda>s. s\<lparr>fk_executed := fk_executed s @ [pln_plan_id p]\<rparr>)) (\<lambda>_.
     returnP \<lparr>res_exit_code = fk_exit_code c, res_logs_present = fk_logs_present c,
              res_outputs_present = fk_outputs_present c, res_cleanup_ok = fk_cleanup_ok c,
              res_warning = None,
              res_failure_reason = (if fk_exit_code c \<noteq> 0 then Some ''FAKE_RUN_NONZERO'' else None)\<rparr>)"

definition fake_query_status ::
  "string \<Rightarrow> int \<Rightarrow> int \<Rightarrow> task \<Rightarrow> ('z fake_sched_scheme, string) prog" where
  "fake_query_status a g e t =
     readP (\<lambda>s. if fk_prepared s \<noteq> [] then ''PREPARED'' else ''NOT_REGISTERED'')"

definition fake_driver :: "fake_config \<Rightarrow> 'z fake_sched_scheme driver" where
  "fake_driver c =
     \<lparr>drv_prepare = fake_prepare c,
      drv_acknowledge_plan = (\<lambda>p t. returnP (fk_plan_ack_ok c)),
      drv_execute = fake_execute c,
      drv_cancel = (\<lambda>p t. returnP (fk_cleanup_ok c)),
      drv_query_status = fake_query_status,
      drv_reconcile = (\<lambda>p t. returnP (fk_cleanup_ok c))\<rparr>"

definition fake_ok :: fake_config where
  "fake_ok = \<lparr>fk_exit_code = 0, fk_logs_present = True, fk_outputs_present = True,
     fk_cleanup_ok = True, fk_prepare_ok = True, fk_plan_ack_ok = True\<rparr>"

text \<open>A worker with eight idle devices, a task for it and an empty scheduler.\<close>

definition sample_worker :: "string \<Rightarrow> worker_snapshot" where
  "sample_worker w = \<lparr>wkr_worker_id = w, wkr_online = True, wkr_last_heartbeat_at = 0,
     wkr_gpus = map (\<lambda>i. \<lparr>gpu_gpu_id = i, gpu_vram_percent = 0, gpu_sampled_at = 0,
                        gpu_state_of = G_AVAILABLE, gpu_raw_line = ''''\<rparr>) [0, 1, 2, 3]\<rparr>"

definition sample_unit :: "string \<Rightarrow> string \<Rightarrow> int \<Rightarrow> task_unit" where
  "sample_unit w box n =
     \<lparr>unt_unit_id = sample_id ''unit'', unt_required_gpu_count = n, unt_worker_id = w,
      unt_container_name = box, unt_submitter_username = ''alice'', unt_container_user = ''root'',
      unt_image_digest = sample_image, unt_setup = [], unt_run = [sample_command],
      unt_teardown = [], unt_required_logs = [], unt_required_outputs = [], unt_timeout_seconds = 60\<rparr>"

definition toy_signer :: "(string, string) signer" where
  "toy_signer = \<lparr>sg_crypto = toy_crypto, sg_signing_key = ''key'', sg_verification_key = ''key'',
     sg_task_dump = tsk_task_id, sg_manifest_dump = man_manifest_id, sg_plan_dump = pln_plan_id\<rparr>"

definition sample_task :: "string \<Rightarrow> task_unit list \<Rightarrow> task" where
  "sample_task p us =
     sign_model toy_crypto (task_integrity tsk_task_id) ''key''
       \<lparr>tsk_key_id = ''k'', tsk_policy_version = ''1'', tsk_task_id = sample_id p,
        tsk_execution_id = sample_id ''exec'', tsk_proposal_id = sample_id ''prop'',
        tsk_revision_id = sample_id ''rev'', tsk_facts_id = sample_id ''facts'',
        tsk_review_id = sample_id ''review'', tsk_units = us, tsk_created_at = 0,
        tsk_content_hash = None, tsk_signature = None\<rparr>"

definition empty_sched :: "(nat \<Rightarrow> io_fault) \<Rightarrow> fake_sched" where
  "empty_sched fs =
     \<lparr>clock = (\<lambda>n. 0), clock_no = 0, draws = (\<lambda>n. (int n, 0, 0)), draw_no = 0,
      faults = fs, fault_no = 0, store_root = ''/state'', immutable = [], snapshots = [], logs = [],
      sc_key_id = ''k'', sc_vram_threshold = 2, sc_authorized_gpu_ids = {0, 1, 2, 3},
      sc_qualification_profile = False, sc_workers = [], sc_queue = [], sc_leases = [],
      sc_holds = {}, sc_epochs = (\<lambda>_. None), sc_tasks = [], sc_statuses = [],
      sc_initial_statuses = [], sc_plans = [], sc_cancel_requested = {},
      fk_prepared = [], fk_executed = []\<rparr>"

definition sample_run :: "fake_config \<Rightarrow> string list \<Rightarrow> fake_sched" where
  "sample_run c boxes =
     fold (\<lambda>box s. snd (tick toy_signer (fake_driver c) ''r''
             (snd (enqueue toy_signer (sample_task box [sample_unit ''w'' box 1]) ''r'' s))))
       boxes (snd (register_worker toy_signer (sample_worker ''w'') ''r'' (empty_sched no_faults)))"

text \<open>A scheduler that is about to dispatch the task, on a disk whose fourth write fails.\<close>

definition sample_status :: "task_state \<Rightarrow> task_status" where
  "sample_status x = \<lparr>sts_task_id = sample_id ''task'', sts_execution_id = sample_id ''exec'',
     sts_state = x, sts_updated_at = 0, sts_underlying_outcome = None, sts_failure_reason = None\<rparr>"

definition fourth_write_fails :: "nat \<Rightarrow> io_fault" where
  "fourth_write_fails n = (if n = 3 then IO_before else IO_ok)"

definition ready_sched :: "task_state \<Rightarrow> (nat \<Rightarrow> io_fault) \<Rightarrow> fake_sched" where
  "ready_sched x fs = (empty_sched fs)\<lparr>sc_statuses := [(sample_id ''task'', sample_status x)],
     sc_workers := [(''w'', sample_worker ''w'')]\<rparr>"

abbreviation small_task :: task where
  "small_task \<equiv> sample_task ''task'' [sample_unit ''w'' ''box'' 1]"

lemma sample_task_fields [simp]:
  "tsk_units (sample_task p us) = us"
  "tsk_task_id (sample_task p us) = sample_id p"
  by (simp_all add: sample_task_def sign_model_def task_integrity_def Let_def)

end
