(* ===== verification/Scheduler_Selection.thy ===== *)
theory Scheduler_Selection
  imports Scheduler_Safety Fake_Driver "HOL-Library.Multiset"
begin

text \<open>
  Selection of devices and order of the queue: \<open>_select_for_task\<close>, \<open>_select_gpus\<close>, \<open>_queue_key\<close> of
  \<open>src/agent_scheduler/scheduler/core.py\<close>. Proved: a selection consists of fresh, authorised,
  available devices below the memory threshold that no lease and no hold covers, in ascending
  order and of the requested number; the queue is served by age class, arrival and task id.
\<close>

section \<open>Programs that only read the clock\<close>

definition clock_only :: "'z world_scheme \<Rightarrow> 'z world_scheme \<Rightarrow> bool" where
  "clock_only s t \<longleftrightarrow> (\<exists>n \<ge> clock_no s. t = s\<lparr>clock_no := n\<rparr>)"

lemma clock_only_step: "clock_no s \<le> n \<Longrightarrow> clock_only s (s\<lparr>clock_no := n\<rparr>)"
  unfolding clock_only_def by blast

lemma clock_only_trans:
  assumes "clock_only s t" and "clock_only t u"
  shows "clock_only s u"
proof -
  obtain n m where "clock_no s \<le> n" "t = s\<lparr>clock_no := n\<rparr>" "clock_no t \<le> m" "u = t\<lparr>clock_no := m\<rparr>"
    using assms unfolding clock_only_def by blast
  then show ?thesis using clock_only_step [of s m] by simp
qed

lemma clock_only_refl: "clock_only s s"
  using clock_only_step [of s "clock_no s"] by simp

interpretation clock_only: sched_clock clock_only
  by unfold_locales (auto intro: clock_only_refl clock_only_step clock_only_trans)

lemma clock_only_fields:
  assumes "clock_only s (t :: 'z sched_scheme)"
  shows "sc_leases t = sc_leases s" "sc_holds t = sc_holds s" "sc_epochs t = sc_epochs s"
    "sc_workers t = sc_workers s" "sc_queue t = sc_queue s" "sc_statuses t = sc_statuses s"
    "sc_authorized_gpu_ids t = sc_authorized_gpu_ids s" "sc_vram_threshold t = sc_vram_threshold s"
    "sc_tasks t = sc_tasks s" "sc_plans t = sc_plans s" "clock t = clock s" "clock_no s \<le> clock_no t"
    "sc_cancel_requested t = sc_cancel_requested s" "sc_initial_statuses t = sc_initial_statuses s"
  using assms by (auto simp: clock_only_def)

lemma clock_only_leased: "clock_only s t \<Longrightarrow> leased_gpus t = leased_gpus s"
  by (simp add: leased_gpus_def clock_only_fields)

text \<open>Collecting results in a loop whose body only reads the clock.\<close>

lemma forP_collect:
  assumes "\<And>x s r t. x \<in> set xs \<Longrightarrow> clock_only s0 s \<Longrightarrow> f x s = (r, t) \<Longrightarrow>
      clock_only s0 t \<and> (\<forall>y. r = Inr y \<longrightarrow> Q x y)"
    and "clock_only s0 s" and "forP xs f s = (r, t)"
  shows "clock_only s0 t \<and> (\<forall>ys. r = Inr ys \<longrightarrow> list_all2 Q xs ys)"
  using assms
proof (induction xs arbitrary: s r t)
  case Nil
  then show ?case by auto
next
  case (Cons x xs)
  obtain r1 s1 where 1: "f x s = (r1, s1)" by fastforce
  have s1: "clock_only s0 s1 \<and> (\<forall>y. r1 = Inr y \<longrightarrow> Q x y)"
    by (rule Cons.prems(1) [OF _ Cons.prems(2) 1]) simp
  show ?case
  proof (cases r1)
    case (Inl e)
    then show ?thesis using Cons.prems(3) 1 s1 by (auto simp: bindP_def)
  next
    case (Inr y)
    obtain r2 s2 where 2: "forP xs f s1 = (r2, s2)" by fastforce
    have "clock_only s0 s2 \<and> (\<forall>ys. r2 = Inr ys \<longrightarrow> list_all2 Q xs ys)"
      by (rule Cons.IH [OF _ _ 2]) (use Cons.prems(1) s1 in auto)
    then show ?thesis using Cons.prems(3) 1 2 s1 Inr by (cases r2) (auto simp: bindP_def)
  qed
qed

section \<open>Selection of devices\<close>

text \<open>Why a device may be chosen in state \<open>s\<close>; the clock is read between \<open>s\<close> and the choice.\<close>

definition eligible :: "'z sched_scheme \<Rightarrow> worker_snapshot \<Rightarrow> gpu_snapshot \<Rightarrow> bool" where
  "eligible s w g \<longleftrightarrow>
     gpu_gpu_id g \<in> sc_authorized_gpu_ids s \<and> gpu_state_of g = G_AVAILABLE \<and>
     gpu_vram_percent g < sc_vram_threshold s \<and>
     (\<exists>n \<ge> clock_no s. clock s n - gpu_sampled_at g \<le> seconds 30) \<and>
     (wkr_worker_id w, gpu_gpu_id g) \<notin> leased_gpus s \<and>
     (wkr_worker_id w, gpu_resource (gpu_gpu_id g)) \<notin> sc_holds s"

lemma gpu_usable_result:
  assumes "clock_only s0 s" and "gpu_usable w g s = (r, t)"
  shows "clock_only s0 t \<and> (r = Inr True \<longrightarrow> eligible s0 w g) \<and> (\<exists>b. r = Inr b)"
proof -
  have "clock_only s t" by (rule obeysD [OF clock_only.eff_gpu_usable assms(2)])
  then have "clock_only s0 t" using assms(1) clock_only_trans by blast
  moreover have "r = Inr True \<longrightarrow> eligible s0 w g"
    using assms(2) clock_only_fields [OF assms(1)] clock_only_leased [OF assms(1)]
    by (auto simp: gpu_usable_def bindP_def sample_fresh_def utc_now_def eligible_def leased_gpus_def
        split: if_splits)
  moreover have "\<exists>b. r = Inr b"
    using assms(2)
    by (auto simp: gpu_usable_def bindP_def sample_fresh_def utc_now_def split: if_splits)
  ultimately show ?thesis by blast
qed

definition picks :: "'z sched_scheme \<Rightarrow> worker_snapshot \<Rightarrow> gpu_snapshot \<Rightarrow> int list \<Rightarrow> bool" where
  "picks s w g ids \<longleftrightarrow> ids = [] \<or> (ids = [gpu_gpu_id g] \<and> eligible s w g)"

lemma picks_concat:
  "list_all2 (picks s w) gs ids \<Longrightarrow>
     \<forall>i \<in> set (concat ids). \<exists>g \<in> set gs. gpu_gpu_id g = i \<and> eligible s w g"
  by (induction gs ids rule: list_all2_induct) (auto simp: picks_def)

lemma picks_sorted:
  "list_all2 (picks s w) gs ids \<Longrightarrow> sorted (map gpu_gpu_id gs) \<Longrightarrow> sorted (concat ids)"
proof (induction gs ids rule: list_all2_induct)
  case (Cons g gs i ids)
  have "\<forall>j \<in> set (concat ids). \<exists>h \<in> set gs. gpu_gpu_id h = j"
    using picks_concat [OF Cons.hyps(2)] by blast
  then have "\<forall>j \<in> set (concat ids). gpu_gpu_id g \<le> j" using Cons.prems by fastforce
  with Cons show ?case by (auto simp: picks_def)
qed simp

text \<open>What a selection for one unit guarantees.\<close>

definition good_selection :: "'z sched_scheme \<Rightarrow> int \<Rightarrow> string \<Rightarrow> selection \<Rightarrow> bool" where
  "good_selection s n required sel \<longleftrightarrow>
     (\<exists>w. map_of (sc_workers s) required = Some w \<and> fst sel = wkr_worker_id w \<and> wkr_online w \<and>
        (\<exists>k \<ge> clock_no s. clock s k - wkr_last_heartbeat_at w \<le> seconds 30) \<and>
        (\<forall>i \<in> set (snd sel). \<exists>g \<in> set (wkr_gpus w). gpu_gpu_id g = i \<and> eligible s w g)) \<and>
     int (length (snd sel)) = max 0 n \<and> sorted (snd sel)"

lemma select_gpus_result:
  assumes "clock_only s0 s" and "select_gpus n required s = (r, t)"
  shows "clock_only s0 t \<and> (\<forall>sel. r = Inr (Some sel) \<longrightarrow> good_selection s0 n required sel)"
proof
  have "clock_only s t" by (rule obeysD [OF clock_only.eff_select_gpus assms(2)])
  then show t: "clock_only s0 t" using assms(1) clock_only_trans by blast
  show "\<forall>sel. r = Inr (Some sel) \<longrightarrow> good_selection s0 n required sel"
  proof (intro allI impI)
    fix sel
    assume r: "r = Inr (Some sel)"
    note f = clock_only_fields [OF assms(1)]
    obtain w where w: "map_of (sc_workers s0) required = Some w" and online: "wkr_online w"
      using assms(2) r f by (auto simp: select_gpus_def bindP_def split: option.splits if_splits)
    let ?s1 = "s\<lparr>clock_no := Suc (clock_no s)\<rparr>"
    have s1: "clock_only s0 ?s1"
      using clock_only_trans [OF assms(1) clock_only.R_clock] .
    have fresh: "clock s0 (clock_no s) - wkr_last_heartbeat_at w \<le> seconds 30"
      using assms(2) r f w online
      by (auto simp: select_gpus_def bindP_def heartbeat_fresh_def utc_now_def split: if_splits)
    let ?gs = "sort_key gpu_gpu_id (wkr_gpus w)"
    let ?body = "\<lambda>g. bindP (gpu_usable w g) (\<lambda>ok. returnP (if ok then [gpu_gpu_id g] else []))"
    obtain r2 s2 where loop: "forP ?gs ?body ?s1 = (r2, s2)" by fastforce
    obtain ids where ids: "r2 = Inr ids" and len: "\<not> int (length (concat ids)) < n"
      and sel: "sel = (wkr_worker_id w, take (nat n) (concat ids))"
      using assms(2) r f w online fresh loop
      by (auto simp: select_gpus_def bindP_def heartbeat_fresh_def utc_now_def Let_def
          split: if_splits sum.splits)
    have "list_all2 (picks s0 w) ?gs ids"
    proof -
      have "clock_only s0 u \<and> (\<forall>y. q = Inr y \<longrightarrow> picks s0 w g y)"
        if "clock_only s0 v" "?body g v = (q, u)" for g v q u
      proof -
        obtain q1 u1 where "gpu_usable w g v = (q1, u1)" by fastforce
        then show ?thesis
          using that gpu_usable_result [OF that(1), of w g q1 u1]
          by (auto simp: bindP_def picks_def split: sum.splits if_splits)
      qed
      then show ?thesis using forP_collect [of ?gs s0 ?body "picks s0 w", OF _ s1 loop] ids by blast
    qed
    then have all: "\<forall>i \<in> set (concat ids). \<exists>g \<in> set ?gs. gpu_gpu_id g = i \<and> eligible s0 w g"
      and "sorted (concat ids)"
      using picks_concat [of s0 w ?gs ids] picks_sorted [of s0 w ?gs ids] by auto
    then show "good_selection s0 n required sel"
      using w online fresh f(12) len sel
      by (auto simp: good_selection_def dest!: in_set_takeD)
  qed
qed

text \<open>The units of a task: distinct workers and no container that is leased already.\<close>

lemma select_units_result:
  assumes "clock_only s0 s" and "select_units us used sels s = (Inr (Some out), t)"
    and "\<forall>(k, w) \<in> set (sc_workers s0). wkr_worker_id w = k"
  shows "\<exists>new. out = sels @ new \<and>
     list_all2 (\<lambda>u sel. good_selection s0 (unt_required_gpu_count u) (unt_worker_id u) sel \<and>
        fst sel = unt_worker_id u \<and> \<not> container_leased u s0) us new \<and>
     distinct (map fst new) \<and> set (map fst new) \<inter> set used = {} \<and> clock_only s0 t"
  using assms(1,2)
proof (induction us arbitrary: used sels s)
  case Nil
  then show ?case by auto
next
  case (Cons u us)
  note f = clock_only_fields [OF Cons.prems(1)]
  obtain r s1 where sel: "select_gpus (unt_required_gpu_count u) (unt_worker_id u) s = (r, s1)"
    by fastforce
  from Cons.prems(2) obtain x where used: "unt_worker_id u \<notin> set used"
    and free: "\<not> container_leased u s" and r: "r = Inr (Some x)"
    and rest: "select_units us (fst x # used) (sels @ [x]) s1 = (Inr (Some out), t)"
    using sel by (auto simp: bindP_def split: if_splits sum.splits option.splits)
  have g: "good_selection s0 (unt_required_gpu_count u) (unt_worker_id u) x" and s1: "clock_only s0 s1"
    using select_gpus_result [OF Cons.prems(1) sel] r by auto
  then have x: "fst x = unt_worker_id u"
    using assms(3) unfolding good_selection_def by (fastforce dest: map_of_SomeD)
  from Cons.IH [OF s1 rest] obtain new where new: "out = (sels @ [x]) @ new"
      "list_all2 (\<lambda>u sel. good_selection s0 (unt_required_gpu_count u) (unt_worker_id u) sel \<and>
        fst sel = unt_worker_id u \<and> \<not> container_leased u s0) us new"
      "distinct (map fst new)" "set (map fst new) \<inter> set (fst x # used) = {}" "clock_only s0 t"
    by blast
  have "\<not> container_leased u s0" using free f by (simp add: container_leased_def)
  then show ?case
    using new g x used by (intro exI [of _ "x # new"]) auto
qed

lemma select_for_task_result:
  assumes "select_for_task t s = (Inr (Some sels), s')"
    and "\<forall>(k, w) \<in> set (sc_workers s). wkr_worker_id w = k"
  shows "list_all2 (\<lambda>u sel. good_selection s (unt_required_gpu_count u) (unt_worker_id u) sel \<and>
        fst sel = unt_worker_id u \<and> \<not> container_leased u s) (tsk_units t) sels \<and>
     distinct (map fst sels) \<and> clock_only s s'"
  using assms select_units_result [where s = s and us = "tsk_units t" and used = "[]" and sels = "[]"
    and out = sels and t = s', OF clock_only_refl]
  by (auto simp: select_for_task_def bindP_def split: if_splits)

lemma zip_fst_selection:
  "length us = length sels \<Longrightarrow> map (\<lambda>(u, w, g). w) (zip us sels) = map fst sels"
  by (induction us sels rule: list_induct2) auto

text \<open>The selection is free of conflicts with every lease, as the dispatch needs it.\<close>

lemma selection_is_free:
  assumes "select_for_task t s = (Inr (Some sels), s')"
    and "\<forall>(k, w) \<in> set (sc_workers s). wkr_worker_id w = k"
  shows "selection_free (sc_leases s) (zip (tsk_units t) sels) \<and> length (tsk_units t) = length sels"
proof -
  note r = select_for_task_result [OF assms]
  then have len: "length (tsk_units t) = length sels" by (auto dest: list_all2_lengthD)
  have "set g \<inter> set (lse_gpu_ids l) = {} \<and> lse_container_name l \<noteq> unt_container_name u"
    if "(u, w, g) \<in> set (zip (tsk_units t) sels)" "l \<in> set (dvalues (sc_leases s))"
      "lse_worker_id l = w" for u w g l
  proof -
    have u: "good_selection s (unt_required_gpu_count u) (unt_worker_id u) (w, g)"
      "w = unt_worker_id u" "\<not> container_leased u s"
      using r that(1) by (auto simp: list_all2_iff)
    then have "lse_container_name l \<noteq> unt_container_name u"
      using that(2,3) by (auto simp: container_leased_def list_ex_iff)
    moreover have "(w, i) \<notin> leased_gpus s" if "i \<in> set g" for i
      using u(1) that by (auto simp: good_selection_def eligible_def)
    then have "set g \<inter> set (lse_gpu_ids l) = {}"
      using that(2,3) by (force simp: leased_gpus_def)
    ultimately show ?thesis by blast
  qed
  moreover have "distinct (map (\<lambda>(u, w, g). w) (zip (tsk_units t) sels))"
    using r len by (simp add: zip_fst_selection)
  ultimately show ?thesis using len unfolding selection_free_def by blast
qed

section \<open>The order of the queue\<close>

lemma queue_key_state: "clock_only s (snd (queue_key q s))"
  using clock_only.eff_utc_now by (simp add: queue_key_def bindP_def utc_now_def clock_only.R_clock)

text \<open>The age class of a queued task at some reading of the clock.\<close>

definition key_at :: "int \<Rightarrow> queued \<Rightarrow> nat \<times> int \<times> string" where
  "key_at now q = (if now - qd_aging_started_at q \<ge> seconds 3600 then 0 else 1,
     qd_enqueued_at q, tsk_task_id (qd_task q))"

primrec keys_from :: "(nat \<Rightarrow> int) \<Rightarrow> nat \<Rightarrow> queued list \<Rightarrow> (nat \<times> int \<times> string) list" where
  "keys_from c n [] = []"
| "keys_from c n (q # qs) = key_at (c n) q # keys_from c (Suc n) qs"

lemma queue_key_apply:
  "queue_key q s = (Inr (key_at (clock s (clock_no s)) q), s\<lparr>clock_no := Suc (clock_no s)\<rparr>)"
  by (simp add: queue_key_def bindP_def utc_now_def key_at_def)

lemma forP_queue_key:
  "forP qs queue_key s =
     (Inr (keys_from (clock s) (clock_no s) qs), s\<lparr>clock_no := clock_no s + length qs\<rparr>)"
  by (induction qs arbitrary: s) (simp_all add: bindP_def queue_key_apply)

lemma length_keys_from [simp]: "length (keys_from c n qs) = length qs"
  by (induction qs arbitrary: n) auto

lemma zip_keys_from:
  "(k, q) \<in> set (zip (keys_from c n qs) qs) \<Longrightarrow> \<exists>m \<ge> n. m < n + length qs \<and> k = key_at (c m) q"
proof (induction qs arbitrary: n)
  case (Cons p qs)
  show ?case
  proof (cases "(k, q) = (key_at (c n) p, p)")
    case True
    then show ?thesis by auto
  next
    case False
    then have "(k, q) \<in> set (zip (keys_from c (Suc n) qs) qs)" using Cons.prems by auto
    from Cons.IH [OF this] obtain m where "Suc n \<le> m" "m < Suc n + length qs" "k = key_at (c m) q"
      by blast
    then show ?thesis by (intro exI [of _ m]) simp
  qed
qed simp

lemma ordered_queue_apply:
  "ordered_queue s =
     (Inr (map snd (sort_key fst (zip (keys_from (clock s) (clock_no s) (dvalues (sc_queue s)))
             (dvalues (sc_queue s))))),
      s\<lparr>clock_no := clock_no s + length (dvalues (sc_queue s))\<rparr>)"
  by (simp add: ordered_queue_def bindP_def forP_queue_key)

text \<open>The ages of \<open>a\<close> and \<open>b\<close> as read while the queue is sorted.\<close>

definition before :: "'z sched_scheme \<Rightarrow> queued \<Rightarrow> queued \<Rightarrow> bool" where
  "before s a b \<longleftrightarrow> (\<exists>m n. m \<in> {clock_no s..<clock_no s + length (sc_queue s)} \<and>
     n \<in> {clock_no s..<clock_no s + length (sc_queue s)} \<and>
     key_at (clock s m) a \<le> key_at (clock s n) b)"

text \<open>
  Serving order: sorting the queue neither loses nor duplicates a task, and of two tasks the
  one served first has the smaller key (aged for an hour first, then earlier arrival, then
  smaller task id) at the readings of the clock made while sorting.
\<close>

theorem queue_order:
  assumes "ordered_queue s = (Inr out, t)"
  shows "mset out = mset (dvalues (sc_queue s)) \<and> sorted_wrt (before s) out \<and> clock_only s t"
proof -
  let ?qs = "dvalues (sc_queue s)"
  let ?z = "zip (keys_from (clock s) (clock_no s) ?qs) ?qs"
  from assms have out: "out = map snd (sort_key fst ?z)" and t: "t = s\<lparr>clock_no := clock_no s + length ?qs\<rparr>"
    by (simp_all add: ordered_queue_apply)
  have "mset out = image_mset snd (mset (sort_key fst ?z))" unfolding out by (rule mset_map)
  also have "\<dots> = mset (map snd ?z)" by (simp only: mset_sort mset_map)
  also have "map snd ?z = ?qs" by (rule map_snd_zip) simp
  finally have "mset out = mset ?qs" .
  moreover have "before s (snd x) (snd y)" if xy: "x \<in> set ?z" "y \<in> set ?z" "fst x \<le> fst y" for x y
  proof -
    obtain m n where "m \<ge> clock_no s" "m < clock_no s + length ?qs" "fst x = key_at (clock s m) (snd x)"
        "n \<ge> clock_no s" "n < clock_no s + length ?qs" "fst y = key_at (clock s n) (snd y)"
      using zip_keys_from [of "fst x" "snd x"] zip_keys_from [of "fst y" "snd y"] xy(1,2)
      by (metis prod.collapse)
    then show ?thesis
      using xy(3) unfolding before_def
      by (intro exI [of _ m] exI [of _ n]) (simp add: dvalues_def)
  qed
  then have "sorted_wrt (\<lambda>x y. before s (snd x) (snd y)) (sort_key fst ?z)"
    using sorted_sort_key [of fst ?z] unfolding sorted_map
    by (elim sorted_wrt_mono_rel [rotated]) (simp only: set_sort)
  ultimately show ?thesis
    by (simp add: out t sorted_wrt_map clock_only_step)
qed

definition sample_queued :: "string \<Rightarrow> int \<Rightarrow> queued" where
  "sample_queued p arrived = \<lparr>qd_task = sample_task p [], qd_status = sample_status T_QUEUED,
     qd_enqueued_at = arrived, qd_aging_started_at = arrived\<rparr>"

definition two_queued :: fake_sched where
  "two_queued = (empty_sched no_faults)\<lparr>sc_queue :=
     [(''a'', sample_queued ''a'' 5), (''b'', sample_queued ''b'' 3)]\<rparr>"

theorem queue_order_witness:
  "\<exists>out t. ordered_queue two_queued = (Inr out, t) \<and>
     mset out = {#sample_queued ''a'' 5, sample_queued ''b'' 3#} \<and> sorted_wrt (before two_queued) out"
proof -
  obtain out t where *: "ordered_queue two_queued = (Inr out, t)" by (simp add: ordered_queue_apply)
  from queue_order [OF *] * show ?thesis by (simp add: dvalues_def two_queued_def)
qed

text \<open>Workers are filed under their own ids.\<close>

definition workers_by_id :: "'z sched_scheme \<Rightarrow> bool" where
  "workers_by_id s \<longleftrightarrow> (\<forall>(k, w) \<in> set (sc_workers s). wkr_worker_id w = k)"


lemma small_selection:
  "fst (select_for_task small_task (ready_sched T_QUEUED no_faults)) = Inr (Some [(''w'', [0])])"
  by code_simp


end
