(* ===== verification/Scheduler_System.thy ===== *)
theory Scheduler_System
  imports Scheduler_Selection Fake_Driver
begin

text \<open>
  The scheduler as a system: every public operation of \<open>scheduler/core.py\<close> as a step, the states
  reachable from an empty one, and the invariants of all of them. The steps include runs that end
  in an exception and any interference inside a driver call that leaves the resource tables
  alone, which is what the concurrent operations (registering, enqueueing, cancelling) do.
\<close>

section \<open>Effects of a whole dispatch\<close>

definition lift :: "('s \<Rightarrow> 's \<Rightarrow> bool) \<Rightarrow> 's \<times> frame \<Rightarrow> 's \<times> frame \<Rightarrow> bool" where
  "lift R x y \<longleftrightarrow> R (fst x) (fst y)"

text \<open>
  A relation that also tolerates changes of the lease table, released holds and the holds of
  resources in \<open>H\<close> is kept by a dispatch whose units use resources in \<open>H\<close>.
\<close>

locale dispatch_effect = steady_effect R for R :: "'z sched_scheme \<Rightarrow> 'z sched_scheme \<Rightarrow> bool" +
  fixes H :: "resource set"
  assumes R_leases: "R s (s\<lparr>sc_leases := l\<rparr>)"
    and R_release: "h \<subseteq> sc_holds s \<Longrightarrow> R s (s\<lparr>sc_holds := h\<rparr>)"
    and R_hold: "Pair w ` set rs \<subseteq> H \<Longrightarrow> obeys R (hold_unit w rs)"
begin

lemma lift_onS: "obeys R m \<Longrightarrow> obeys (lift R) (onS m)"
  by (auto simp: obeys_def lift_def split: prod.split) (metis snd_conv)

lemma lift_local: "obeys (lift R) (local u)"
  by (auto simp: obeys_def lift_def effect_refl)

lemma lift_the_local: "obeys (lift R) (the_local g)"
  by (auto simp: obeys_def lift_def the_local_def effect_refl)

lemma eff_leases_update: "obeys R (updateP (\<lambda>s. s\<lparr>sc_leases := f s\<rparr>))"
  by (simp add: obeys_def R_leases)

lemma eff_persist_lease: "obeys R (persist_lease l)"
  unfolding persist_lease_def by (intro eff_sched eff_leases_update)

lemma eff_delete_lease: "obeys R (delete_lease l)"
  unfolding delete_lease_def by (intro eff_sched eff_leases_update)

lemma eff_delete_leases: "obeys R (delete_leases ls)"
  unfolding delete_leases_def by (intro eff_bind eff_for eff_delete_lease eff_return)

lemma eff_release_holds: "obeys R (release_holds t sels)"
  unfolding release_holds_def for_zip_def
  by (intro eff_bind eff_for eff_check) (auto simp: obeys_def intro!: R_release split: prod.split)

end

sublocale dispatch_effect \<subseteq> lifted: effect "lift R"
  by unfold_locales (auto simp: lift_def effect_refl intro: effect_trans)

definition task_resources :: "task \<Rightarrow> selection list \<Rightarrow> resource set" where
  "task_resources t sels =
     (\<Union>(u, sel) \<in> set (zip (tsk_units t) sels). Pair (fst sel) ` set (unit_resources u (snd sel)))"

context dispatch_effect
begin

lemma lift_prepare_unit:
  assumes "driver_obeys R d" and "Pair (fst sel) ` set (unit_resources u (snd sel)) \<subseteq> H"
  shows "obeys (lift R) (prepare_unit g d t (u, sel))"
  unfolding prepare_unit_def prod.case
  by (intro lifted.eff_bind lifted.eff_when lifted.eff_raise lift_onS lift_local eff_build_manifest
      eff_build_lease eff_persist_lease R_hold assms(2) driver_obeysD [OF assms(1)] eff_sched)

lemma lift_issue_plan:
  assumes "driver_obeys R d"
  shows "obeys (lift R) (issue_plan g d t um)"
  unfolding issue_plan_def
  by (auto split: prod.split intro!: lifted.eff_bind lifted.eff_check lift_onS lift_local
      eff_build_plan eff_sched driver_obeysD [OF assms])

lemma lift_finish_run: "obeys (lift R) (finish_run t results rq)"
  unfolding finish_run_def Let_def
  by (intro lifted.eff_bind lifted.eff_if lift_onS lift_the_local eff_take_cancel eff_transition
      eff_delete_leases)

lemma lift_run_units:
  assumes "driver_obeys R d"
  shows "obeys (lift R) (run_units d t rq)"
  unfolding run_units_def
  by (intro lifted.eff_bind lifted.eff_if lift_onS lift_local lift_the_local eff_take_cancel
      eff_transition eff_task_event eff_delete_leases lift_finish_run eff_for driver_obeysD [OF assms])

lemma lift_dispatch_body:
  assumes "driver_obeys R d" and "task_resources t sels \<subseteq> H"
  shows "obeys (lift R) (dispatch_body g d t sels rq)"
proof -
  have "obeys (lift R) (prepare_unit g d t us)" if us: "us \<in> set (zip (tsk_units t) sels)" for us
  proof -
    obtain u sel where "us = (u, sel)" by (cases us)
    then show ?thesis
      using us assms(2) by (auto simp: task_resources_def intro!: lift_prepare_unit assms(1))
  qed
  then show ?thesis
    unfolding dispatch_body_def reserve_def for_zip_def
    by (intro lifted.eff_bind lifted.eff_for lifted.eff_check lift_onS lift_local lift_the_local
        eff_task_event eff_transition eff_for eff_persist_lease lift_issue_plan lift_run_units assms(1))
qed

lemma lift_handler:
  assumes "driver_obeys R d"
  shows "obeys (lift R) (dispatch_handler d t rq e)"
  unfolding dispatch_handler_def query_workers_def Let_def
  by (intro lifted.eff_bind lifted.eff_if lifted.eff_when lifted.eff_return lift_onS lift_the_local
      eff_delete_leases eff_task_event eff_force_failure eff_for eff_catch eff_return
      driver_obeysD [OF assms])

lemma eff_dispatch:
  assumes "driver_obeys R d" and "task_resources t sels \<subseteq> H"
  shows "obeys R (dispatch g d t sels rq)"
  unfolding dispatch_def
proof (rule eff_bind [OF eff_transition], rule obeysI)
  fix s
  let ?p = "finallyP (catchP (dispatch_body g d t sels rq) caught (dispatch_handler d t rq))
      (onS (release_holds t sels))"
  have "obeys (lift R) ?p"
    by (intro lifted.eff_finally lifted.eff_catch lift_dispatch_body lift_handler lift_onS
        eff_release_holds assms)
  then have "lift R (s, empty_frame) (snd (?p (s, empty_frame)))" by (simp add: obeys_def)
  then show "R s (snd (case ?p (s, empty_frame) of (r, s', f') \<Rightarrow> (r, s')))"
    by (auto simp: lift_def split: prod.splits)
qed

lemma eff_reconcile:
  assumes "driver_obeys R d"
  shows "obeys R (reconcile_execution d x a reason rq)"
  unfolding reconcile_execution_def Let_def
  by (auto split: list.split intro!: eff_if eff_sched eff_all eff_delete_leases
      eff_persist_status eff_task_event driver_obeysD [OF assms])

end

text \<open>With no restriction on the resources, a whole tick keeps the relation.\<close>

locale free_dispatch_effect = dispatch_effect R UNIV for R :: "'z sched_scheme \<Rightarrow> 'z sched_scheme \<Rightarrow> bool"
begin

lemma eff_tick: "driver_obeys R d \<Longrightarrow> obeys R (tick g d rq)"
  unfolding tick_def
  by (intro eff_bind eff_ordered_queue eff_claim)
     (auto split: option.split intro!: eff_sched eff_dispatch)

end

section \<open>The effects used below\<close>

definition holds_within :: "resource set \<Rightarrow> 'z sched_scheme \<Rightarrow> 'z sched_scheme \<Rightarrow> bool" where
  "holds_within H s t \<longleftrightarrow> sc_holds t \<subseteq> sc_holds s \<union> H"

definition epochs_grow :: "'z sched_scheme \<Rightarrow> 'z sched_scheme \<Rightarrow> bool" where
  "epochs_grow s t \<longleftrightarrow> (\<forall>r e. sc_epochs s r = Some e \<longrightarrow> (\<exists>e' \<ge> e. sc_epochs t r = Some e'))"

lemma hold_unit_fields:
  "sc_workers (snd (hold_unit w rs s)) = sc_workers s"
  "grows s (snd (hold_unit w rs s))"
  "logs (snd (hold_unit w rs s)) = logs s"
  "sc_holds (snd (hold_unit w rs s)) \<subseteq> sc_holds s \<union> Pair w ` set rs"
  by (cases rule: hold_unit_cases [of w rs s]; simp add: grows_same_files; blast?)+

lemma hold_unit_epochs: "epochs_grow s (snd (hold_unit w rs s))"
proof (cases rule: hold_unit_cases [of w rs s])
  case 1
  then show ?thesis by (auto simp: epochs_grow_def)
next
  case (2 e)
  have "\<exists>e' \<ge> e0. sc_epochs (snd (hold_unit w rs s)) r = Some e'" if "sc_epochs s r = Some e0" for r e0
  proof (cases "r \<in> Pair w ` set rs")
    case True
    then have "e0 < e" using next_epoch_above [of _ rs "sc_epochs s" w e0] that 2(1) by auto
    then show ?thesis using True 2(3) by (simp add: foldl_map_upd)
  next
    case False
    then show ?thesis using that 2(3) by (simp add: foldl_map_upd)
  qed
  then show ?thesis by (simp add: epochs_grow_def)
qed

lemma epochs_grow_trans: "epochs_grow s t \<Longrightarrow> epochs_grow t u \<Longrightarrow> epochs_grow s u"
  unfolding epochs_grow_def by (meson order_trans)

interpretation holds_within: dispatch_effect "holds_within H" H for H
proof unfold_locales
  fix w rs
  assume "Pair w ` set rs \<subseteq> H"
  then show "obeys (holds_within H) (hold_unit w rs)"
    using hold_unit_fields(4) [of w rs] unfolding obeys_def holds_within_def by blast
qed (auto simp: holds_within_def append_line_def)

interpretation epochs_grow: free_dispatch_effect epochs_grow
proof unfold_locales
  fix s t u :: "'a sched_scheme"
  show "epochs_grow s t \<Longrightarrow> epochs_grow t u \<Longrightarrow> epochs_grow s u" by (rule epochs_grow_trans)
next
  show "obeys epochs_grow (hold_unit w rs)" for w rs by (simp add: obeys_def hold_unit_epochs)
qed (auto simp: epochs_grow_def append_line_def)

interpretation history: free_dispatch_effect "grows :: 'z sched_scheme \<Rightarrow> 'z sched_scheme \<Rightarrow> bool"
  by unfold_locales (simp_all add: grows_same_files obeys_def hold_unit_fields)

interpretation stream_health: free_dispatch_effect "keeps healthy :: 'z sched_scheme \<Rightarrow> 'z sched_scheme \<Rightarrow> bool"
  by unfold_locales (auto simp: keeps_def obeys_def hold_unit_fields cong: healthy_cong)

lemma set_dict_update: "set (AList.update k v d) \<subseteq> insert (k, v) (set d)"
  by (induction d) auto

interpretation workers_kept: free_dispatch_effect "keeps workers_by_id"
proof unfold_locales
  fix s :: "'a sched_scheme" and w
  show "keeps workers_by_id s (s\<lparr>sc_workers := AList.update (wkr_worker_id w) w (sc_workers s)\<rparr>)"
    using set_dict_update [of "wkr_worker_id w" w "sc_workers s"]
    by (fastforce simp: keeps_def workers_by_id_def)
qed (auto simp: keeps_def workers_by_id_def append_line_def obeys_def hold_unit_fields)

section \<open>Operations and the resource tables\<close>

text \<open>
  What the theorems allow inside a driver call: the resource tables stay as they are and workers
  stay filed under their ids. Registering, enqueueing and cancelling in other threads, and
  anything the driver does to the store, satisfy it.
\<close>

definition calm :: "'z sched_scheme \<Rightarrow> 'z sched_scheme \<Rightarrow> bool" where
  "calm s t \<longleftrightarrow> same_res s t \<and> keeps workers_by_id s t"

lemma calm_refl: "calm s s"
  by (simp add: calm_def same_res_def keeps_def)

lemma calm_trans: "calm s t \<Longrightarrow> calm t u \<Longrightarrow> calm s u"
  by (simp add: calm_def same_res_def keeps_def)

lemma calm_same:
  "same_res s t \<Longrightarrow> sc_workers t = sc_workers s \<Longrightarrow> calm s t"
  by (simp add: calm_def keeps_def workers_by_id_def)

interpretation calm: sched_effect calm
proof unfold_locales
  fix s :: "'a sched_scheme" and w
  show "calm s (s\<lparr>sc_workers := AList.update (wkr_worker_id w) w (sc_workers s)\<rparr>)"
    using workers_kept.R_workers by (simp add: calm_def same_res_def)
next
  fix s t u :: "'a sched_scheme"
  show "calm s t \<Longrightarrow> calm t u \<Longrightarrow> calm s u" by (rule calm_trans)
qed (simp_all add: calm_refl calm_same same_res_def append_line_def)

lemma calm_driver:
  "driver_obeys calm d \<Longrightarrow> driver_obeys same_res d"
  "driver_obeys calm d \<Longrightarrow> driver_obeys (keeps workers_by_id) d"
  by (erule driver_obeys_mono, simp add: calm_def)+

text \<open>The invariant between two operations.\<close>

definition rest_inv :: "'z sched_scheme \<Rightarrow> bool" where
  "rest_inv s \<longleftrightarrow> leases_ok s \<and> workers_by_id s \<and> sc_holds s = {}"

lemma leases_ok_same: "same_res s t \<Longrightarrow> leases_ok s \<Longrightarrow> leases_ok t"
  using covered_cong [of t s] by (simp add: leases_ok_def same_res_def)

lemma rest_inv_calm: "calm s t \<Longrightarrow> rest_inv s \<Longrightarrow> rest_inv t"
  using leases_ok_same by (auto simp: rest_inv_def calm_def same_res_def keeps_def)

text \<open>After a dispatch nothing of its selection is held, whoever held it.\<close>

lemma diff_diff_union: "A - B - C = A - (B \<union> C)"
  by blast

lemma release_loop:
  "forP xs (\<lambda>x. updateP (\<lambda>s. s\<lparr>sc_holds := sc_holds s - F x\<rparr>)) s
   = (Inr (map (\<lambda>_. ()) xs), s\<lparr>sc_holds := sc_holds s - (\<Union>x \<in> set xs. F x)\<rparr>)"
  by (induction xs arbitrary: s) (auto simp: bindP_def diff_diff_union)

lemma release_gpus_loop:
  "forP sels (\<lambda>(w, gs). updateP (\<lambda>s. s\<lparr>sc_holds :=
      sc_holds s - set (map (\<lambda>g. (w, gpu_resource g)) gs)\<rparr>)) s
   = (Inr (map (\<lambda>_. ()) sels),
      s\<lparr>sc_holds := sc_holds s - (\<Union>(w, gs) \<in> set sels. (\<lambda>g. (w, gpu_resource g)) ` set gs)\<rparr>)"
  using release_loop [of sels "\<lambda>x. set (map (\<lambda>g. (fst x, gpu_resource g)) (snd x))" s]
  by (simp add: case_prod_unfold)

lemma release_containers_loop:
  "forP us (\<lambda>(u, w, _). updateP (\<lambda>s. s\<lparr>sc_holds :=
      sc_holds s - {(w, container_resource (unt_container_name u))}\<rparr>)) s
   = (Inr (map (\<lambda>_. ()) us),
      s\<lparr>sc_holds := sc_holds s - (\<Union>(u, w, _) \<in> set us. {(w, container_resource (unt_container_name u))})\<rparr>)"
  using release_loop [of us "\<lambda>x. {(fst (snd x), container_resource (unt_container_name (fst x)))}" s]
  by (simp add: case_prod_unfold)

lemma release_holds_result:
  assumes "length (tsk_units t) = length sels"
  shows "sc_holds (snd (release_holds t sels s)) = sc_holds s - task_resources t sels"
proof -
  let ?us = "zip (tsk_units t) sels"
  have sels: "set sels = snd ` set ?us" using assms by (metis map_snd_zip set_map)
  have "task_resources t sels = (\<Union>(w, gs) \<in> set sels. (\<lambda>g. (w, gpu_resource g)) ` set gs)
      \<union> (\<Union>(u, w, _) \<in> set ?us. {(w, container_resource (unt_container_name u))})"
    unfolding task_resources_def unit_resources_def sels by force
  then show ?thesis
    using assms
    by (simp add: release_holds_def for_zip_def bindP_def checkP_def release_gpus_loop [unfolded set_map]
        release_containers_loop diff_diff_union)
qed

lemma dispatch_cases:
  obtains (refused) e s1 where "transition t T_PREPARING rq None None s = (Inl e, s1)"
      and "dispatch g d t sels rq s = (Inl e, s1)"
  | (ran) st s1 s2 f2 where "transition t T_PREPARING rq None None s = (Inr st, s1)"
      and "snd (catchP (dispatch_body g d t sels rq) caught (dispatch_handler d t rq)
             (s1, empty_frame)) = (s2, f2)"
      and "snd (dispatch g d t sels rq s) = snd (release_holds t sels s2)"
proof -
  obtain r s1 where m: "transition t T_PREPARING rq None None s = (r, s1)" by fastforce
  show ?thesis
  proof (cases r)
    case (Inl e)
    then show ?thesis using refused m by (simp add: dispatch_def bindP_def)
  next
    case (Inr st)
    let ?c = "catchP (dispatch_body g d t sels rq) caught (dispatch_handler d t rq)"
    obtain s2 f2 where c: "snd (?c (s1, empty_frame)) = (s2, f2)" by (metis prod.exhaust)
    have "snd (dispatch g d t sels rq s)
        = fst (snd (finallyP ?c (onS (release_holds t sels)) (s1, empty_frame)))"
      using m Inr by (simp add: dispatch_def bindP_def split: prod.split)
    also have "\<dots> = snd (release_holds t sels s2)"
      by (simp add: finallyP_state c split: prod.split)
    finally show ?thesis using ran m Inr c by blast
  qed
qed

lemma dispatch_clears_holds:
  assumes "length (tsk_units t) = length sels" and "fst (transition t T_PREPARING rq None None s) = Inr st"
  shows "sc_holds (snd (dispatch g d t sels rq s)) \<inter> task_resources t sels = {}"
proof (cases rule: dispatch_cases [of t rq s g d sels])
  case (refused e s1)
  then show ?thesis using assms(2) by simp
next
  case (ran st s1 s2 f2)
  then show ?thesis using release_holds_result [OF assms(1), of s2] by auto
qed

lemma dispatch_rest_inv:
  assumes d: "driver_obeys calm d" and inv: "rest_inv s"
    and free: "selection_free (sc_leases s) (zip (tsk_units t) sels)"
    and len: "length (tsk_units t) = length sels"
  shows "rest_inv (snd (dispatch g d t sels rq s))"
proof -
  have "leases_ok (snd (dispatch g d t sels rq s))"
    using dispatch_keeps_leases [OF calm_driver(1) [OF d] _ free] inv by (simp add: rest_inv_def)
  moreover have "workers_by_id (snd (dispatch g d t sels rq s))"
    by (rule keepsD [OF workers_kept.eff_dispatch [OF calm_driver(2) [OF d]]])
       (use inv in \<open>simp_all add: rest_inv_def\<close>)
  moreover have "sc_holds (snd (dispatch g d t sels rq s)) = {}"
  proof (cases rule: dispatch_cases [of t rq s g d sels])
    case (refused e s1)
    then show ?thesis
      using obeysD [OF same_res.eff_transition refused(1)] inv by (simp add: rest_inv_def same_res_def)
  next
    case (ran st s1 s2 f2)
    let ?H = "task_resources t sels"
    have dr: "driver_obeys (holds_within ?H) d"
      using d by (rule driver_obeys_mono) (simp add: calm_def same_res_def holds_within_def)
    have "obeys (lift (holds_within ?H))
        (catchP (dispatch_body g d t sels rq) caught (dispatch_handler d t rq))"
      by (intro holds_within.lifted.eff_catch holds_within.lift_dispatch_body
          holds_within.lift_handler dr) simp
    from obeysD [OF this, of "(s1, empty_frame)"] ran(2)
    have "holds_within ?H s1 s2" by (metis lift_def fst_conv prod.collapse)
    moreover have "sc_holds s1 = {}"
      using obeysD [OF same_res.eff_transition ran(1)] inv by (simp add: rest_inv_def same_res_def)
    ultimately show ?thesis
      using release_holds_result [OF len, of s2] ran(3) by (auto simp: holds_within_def)
  qed
  ultimately show ?thesis by (simp add: rest_inv_def)
qed

section \<open>Every operation keeps the invariant\<close>

lemma calm_op: "obeys calm m \<Longrightarrow> rest_inv s \<Longrightarrow> rest_inv (snd (m s))"
  using rest_inv_calm by (auto simp: obeys_def)

lemma tick_rest_inv:
  assumes d: "driver_obeys calm d" and inv: "rest_inv s"
  shows "rest_inv (snd (tick g d rq s))"
proof -
  obtain qs s1 where q: "ordered_queue s = (Inr qs, s1)" by (simp add: ordered_queue_apply)
  have i1: "rest_inv s1" using calm_op [OF calm.eff_ordered_queue inv] q by simp
  have claim: "rest_inv s' \<and> (\<forall>t sels. r = Inr (Some (t, sels)) \<longrightarrow>
      selection_free (sc_leases s') (zip (tsk_units t) sels) \<and> length (tsk_units t) = length sels)"
    if "claim qs rq s = (r, s')" "rest_inv s" for qs r s s'
    using that
  proof (induction qs arbitrary: s)
    case Nil
    then show ?case by auto
  next
    case (Cons p qs)
    obtain r1 t1 where 1: "select_for_task (qd_task p) s = (r1, t1)" by fastforce
    have t1: "rest_inv t1" using calm_op [OF calm.eff_select_for_task Cons.prems(2), of "qd_task p"] 1 by simp
    show ?case
    proof (cases r1)
      case (Inl e)
      then show ?thesis using Cons.prems(1) 1 t1 by (auto simp: bindP_def)
    next
      case (Inr found)
      show ?thesis
      proof (cases found)
        case None
        obtain r2 t2 where 2: "expire_waiting p rq t1 = (r2, t2)" by fastforce
        have t2: "rest_inv t2" using calm_op [OF calm.eff_expire_waiting t1, of p rq] 2 by simp
        show ?thesis
        proof (cases r2)
          case (Inl e)
          then show ?thesis using Cons.prems(1) 1 2 t2 \<open>r1 = _\<close> None by (auto simp: bindP_def)
        next
          case (Inr u)
          then have "claim qs rq t2 = (r, s')"
            using Cons.prems(1) 1 2 \<open>r1 = _\<close> None by (auto simp: bindP_def)
          from Cons.IH [OF this t2] show ?thesis .
        qed
      next
        case (Some sels)
        have free: "selection_free (sc_leases s) (zip (tsk_units (qd_task p)) sels) \<and>
            length (tsk_units (qd_task p)) = length sels"
          using selection_is_free [of "qd_task p" s sels t1] 1 Inr Some Cons.prems(2)
          by (simp add: rest_inv_def workers_by_id_def)
        have "sc_leases t1 = sc_leases s"
          using obeysD [OF same_res.eff_select_for_task 1] by (simp add: same_res_def)
        moreover obtain r2 t2 where 2: "pop_queue (tsk_task_id (qd_task p)) t1 = (r2, t2)" by fastforce
        have "sc_leases t2 = sc_leases t1"
          using obeysD [OF same_res.eff_pop_queue 2] by (simp add: same_res_def)
        moreover have "rest_inv t2" using calm_op [OF calm.eff_pop_queue t1, of "tsk_task_id (qd_task p)"] 2 by simp
        ultimately show ?thesis
          using Cons.prems(1) 1 2 Inr Some free by (cases r2) (auto simp: bindP_def)
      qed
    qed
  qed
  obtain r2 s2 where c: "claim qs rq s1 = (r2, s2)" by fastforce
  note c' = claim [OF c i1]
  show ?thesis
  proof (cases "\<exists>t sels. r2 = Inr (Some (t, sels))")
    case True
    then obtain t sels where r2: "r2 = Inr (Some (t, sels))" by blast
    have "rest_inv (snd (dispatch g d t sels rq s2))"
      using dispatch_rest_inv [OF d] c' r2 by blast
    then show ?thesis
      using q c r2 by (cases "dispatch g d t sels rq s2") (auto simp: tick_def bindP_def split: sum.split)
  next
    case False
    then show ?thesis
      using q c c' by (cases r2) (auto simp: tick_def bindP_def split: option.split)
  qed
qed

lemma lease_effect_rest_inv:
  assumes "lease_effect (AList.delete i) s t" and "rest_inv s" and "workers_by_id t"
  shows "rest_inv t"
proof -
  have ok: "leases_ok s" and k: "keyed (sc_leases s)"
    using assms(2) by (simp_all add: rest_inv_def leases_ok_def)
  have t: "sc_epochs t = sc_epochs s" "sc_leases t = sc_leases s \<or> sc_leases t = AList.delete i (sc_leases s)"
    using assms(1) by (simp_all add: lease_effect_def)
  have "leases_ok t"
  proof (rule leases_ok_shrink [OF ok _ _ t(1)])
    show "keyed (sc_leases t)" using t(2) k keyed_delete [OF k, of i] by auto
    show "set (dvalues (sc_leases t)) \<subseteq> set (dvalues (sc_leases s))"
      using t(2) values_delete [of i "sc_leases s"] by auto
  qed
  then show ?thesis using assms by (auto simp: rest_inv_def lease_effect_def)
qed

lemma delete_lease_rest_inv: "obeys (keeps rest_inv) (delete_lease l)"
proof (rule obeysI)
  fix s :: "'a sched_scheme"
  show "keeps rest_inv s (snd (delete_lease l s))"
    unfolding keeps_def
  proof
    assume i: "rest_inv s"
    have w: "workers_by_id (snd (delete_lease l s))"
      by (rule keepsD [OF workers_kept.eff_delete_lease]) (use i in \<open>simp add: rest_inv_def\<close>)
    have "lease_effect (AList.delete (lse_lease_id l)) s (snd (delete_lease l s))"
      using delete_lease_effect [of l] unfolding obeys_def by (rule spec)
    then show "rest_inv (snd (delete_lease l s))" using i w by (rule lease_effect_rest_inv)
  qed
qed

lemma keeps_calm: "obeys calm m \<Longrightarrow> obeys (keeps rest_inv) m"
  unfolding obeys_def keeps_def using rest_inv_calm by blast

lemmas keeps_calm_ops = calm.eff_getP [THEN keeps_calm] calm.eff_status_update [THEN keeps_calm]
  calm.eff_persist_status [THEN keeps_calm] calm.eff_task_event [THEN keeps_calm]
  calm.eff_utc_now [THEN keeps_calm]

lemma reconcile_rest_inv:
  assumes "driver_obeys calm d"
  shows "obeys (keeps rest_inv) (reconcile_execution d x a reason rq)"
  unfolding reconcile_execution_def delete_leases_def Let_def
  by (auto split: list.split intro!: keeps.eff_bind keeps.eff_if keeps.eff_when keeps.eff_check
      keeps.eff_read keeps.eff_return keeps.eff_raise keeps.eff_for keeps.eff_all
      delete_lease_rest_inv keeps_calm_ops driver_obeysD [OF assms, THEN keeps_calm])

section \<open>Reachable states\<close>

text \<open>A scheduler that was just created on an empty store.\<close>

definition starting :: "'z sched_scheme \<Rightarrow> bool" where
  "starting s \<longleftrightarrow> sc_leases s = [] \<and> sc_holds s = {} \<and> sc_workers s = []"

inductive reachable ::
  "('k, 'p) signer \<Rightarrow> 'z sched_scheme driver \<Rightarrow> 'z sched_scheme \<Rightarrow> bool"
  for g d where
  start: "starting s \<Longrightarrow> reachable g d s"
| register: "reachable g d s \<Longrightarrow> reachable g d (snd (register_worker g w rq s))"
| enqueue: "reachable g d s \<Longrightarrow> reachable g d (snd (enqueue g t rq s))"
| tick: "reachable g d s \<Longrightarrow> reachable g d (snd (tick g d rq s))"
| cancel: "reachable g d s \<Longrightarrow> reachable g d (snd (cancel_task d i a rq s))"
| reconcile: "reachable g d s \<Longrightarrow> reachable g d (snd (reconcile_execution d x a reason rq s))"

inductive_cases reachableE: "reachable g d s"

lemma reachable_rest_inv:
  assumes "driver_obeys calm d" and "reachable g d s"
  shows "rest_inv s"
  using assms(2)
proof induction
  case (start s)
  then show ?case
    by (simp add: starting_def rest_inv_def leases_ok_def keyed_def dvalues_def workers_by_id_def)
next
  case (register s w rq)
  then show ?case using calm_op [OF calm.eff_register_worker] by blast
next
  case (enqueue s t rq)
  then show ?case using calm_op [OF calm.eff_enqueue] by blast
next
  case (tick s rq)
  then show ?case using tick_rest_inv [OF assms(1)] by blast
next
  case (cancel s i a rq)
  then show ?case using calm_op [OF calm.eff_cancel_task [OF assms(1)]] by blast
next
  case (reconcile s x a reason rq)
  then show ?case using keepsD [OF reconcile_rest_inv [OF assms(1)]] by blast
qed

text \<open>The runs with the in-memory driver are reachable.\<close>

lemma fake_driver_calm: "driver_obeys calm (fake_driver c)"
  by (auto simp: driver_obeys_def fake_driver_def fake_prepare_def fake_execute_def
      fake_query_status_def obeys_def bindP_def calm_def same_res_def keeps_def workers_by_id_def)

lemma sample_run_reachable: "reachable toy_signer (fake_driver c) (sample_run c boxes)"
proof -
  have "reachable toy_signer (fake_driver c) (fold (\<lambda>box s. snd (tick toy_signer (fake_driver c) ''r''
      (snd (enqueue toy_signer (sample_task box [sample_unit ''w'' box 1]) ''r'' s)))) boxes s)"
    if "reachable toy_signer (fake_driver c) s" for s
    using that by (induction boxes arbitrary: s) (simp_all add: reachable.tick reachable.enqueue)
  moreover have "starting (empty_sched no_faults)" by (simp add: starting_def empty_sched_def)
  ultimately show ?thesis
    unfolding sample_run_def by (blast intro: reachable.register reachable.start)
qed

text \<open>
  C1. Mutual exclusion: in every reachable state two different leases of one worker share
  neither a device nor a container, after any mix of operations, disk faults, driver exceptions
  and interference that leaves the resource tables alone.
\<close>

theorem leases_exclusive:
  assumes "driver_obeys calm d" and "reachable g d s"
  shows "\<forall>i j a b. map_of (sc_leases s) i = Some a \<longrightarrow> map_of (sc_leases s) j = Some b \<longrightarrow> i \<noteq> j \<longrightarrow>
    lse_worker_id a = lse_worker_id b \<longrightarrow>
    set (lse_gpu_ids a) \<inter> set (lse_gpu_ids b) = {} \<and> lse_container_name a \<noteq> lse_container_name b"
proof (intro allI impI)
  fix i j a b
  assume ab: "map_of (sc_leases s) i = Some a" "map_of (sc_leases s) j = Some b" "i \<noteq> j"
    "lse_worker_id a = lse_worker_id b"
  have ok: "leases_ok s" using reachable_rest_inv [OF assms] by (simp add: rest_inv_def)
  then have k: "keyed (sc_leases s)" by (simp add: leases_ok_def)
  have "a \<in> set (dvalues (sc_leases s))" "b \<in> set (dvalues (sc_leases s))"
    using k ab(1,2) dvalues_mem by (metis keyed_def)+
  moreover have "lse_lease_id a = i" "lse_lease_id b = j"
    using k ab(1,2) by (auto simp: keyed_def dest!: map_of_SomeD)
  ultimately show "set (lse_gpu_ids a) \<inter> set (lse_gpu_ids b) = {} \<and>
      lse_container_name a \<noteq> lse_container_name b"
    using ok ab(3,4) by (auto simp: leases_ok_def conflict_def)
qed

theorem leases_exclusive_witness:
  "driver_obeys calm (fake_driver fake_ok :: fake_sched driver) \<and>
   reachable toy_signer (fake_driver fake_ok) (sample_run fake_ok [''a'', ''b'']) \<and>
   {(a, b). \<exists>i j. i \<noteq> j \<and> map_of (sc_leases (sample_run fake_ok [''a'', ''b''])) i = Some a \<and>
      map_of (sc_leases (sample_run fake_ok [''a'', ''b''])) j = Some b \<and>
      lse_worker_id a = lse_worker_id b \<and> lse_container_name a = lse_container_name b} = {}"
  using leases_exclusive [OF fake_driver_calm sample_run_reachable] fake_driver_calm sample_run_reachable
  by blast

text \<open>
  C29. Holds are transient: between two operations nothing is held, so a failed dispatch never
  blocks a device or a container for the next one.
\<close>

theorem nothing_held_at_rest:
  assumes "driver_obeys calm d" and "reachable g d s"
  shows "sc_holds s = {}"
  using reachable_rest_inv [OF assms] by (simp add: rest_inv_def)

theorem nothing_held_at_rest_witness:
  "driver_obeys calm (fake_driver fake_ok :: fake_sched driver) \<and>
   reachable toy_signer (fake_driver fake_ok) (sample_run fake_ok [''a'']) \<and>
   sc_holds (sample_run fake_ok [''a'']) = {}"
  using nothing_held_at_rest [OF fake_driver_calm sample_run_reachable] fake_driver_calm
    sample_run_reachable by blast



text \<open>
  Epochs never go back and history is never rewritten: a whole tick, however it ends, only
  raises epochs, leaves every immutable file as it was and only appends to event streams.
\<close>

theorem tick_monotone:
  assumes "driver_obeys (\<lambda>s t. epochs_grow s t \<and> grows s t) d"
  shows "epochs_grow s (snd (tick g d rq s)) \<and> grows s (snd (tick g d rq s))"
proof -
  have "driver_obeys epochs_grow d" "driver_obeys grows d"
    using assms by (auto elim: driver_obeys_mono)
  then show ?thesis
    using epochs_grow.eff_tick [of d g rq] history.eff_tick [of d g rq] by (simp add: obeys_def)
qed

theorem tick_monotone_witness:
  "epochs_grow (sample_run fake_ok [''a'']) (snd (tick toy_signer (fake_driver fake_ok) ''r'' (sample_run fake_ok [''a'']))) \<and>
   grows (sample_run fake_ok [''a'']) (snd (tick toy_signer (fake_driver fake_ok) ''r'' (sample_run fake_ok [''a''])))"
  by (rule tick_monotone)
     (auto simp: driver_obeys_def fake_driver_def fake_prepare_def fake_execute_def
      fake_query_status_def obeys_def bindP_def epochs_grow_def grows_same_files)



end
