(* ===== verification/Scheduler_Outcome.thy ===== *)
theory Scheduler_Outcome
  imports Scheduler_System
begin

text \<open>
  How a dispatch ends. If it returns, the task is in a final state with every lease of the
  dispatch gone, or in \<open>CLEANUP_FAILED\<close> or \<open>RECONCILIATION_REQUIRED\<close>; which of these, and the
  precedence of the failure reasons, follow the results of the workers. Disk faults and driver
  exceptions are included: a dispatch that does not return raised, and this theory says nothing
  about it beyond the invariants of \<open>Scheduler_System\<close>.
\<close>

section \<open>Transitions that return\<close>

lemma store_only_sched:
  assumes "store_only s (t :: 'z sched_scheme)"
  shows "sc_statuses t = sc_statuses s" "sc_leases t = sc_leases s" "sc_holds t = sc_holds s"
    "sc_epochs t = sc_epochs s" "sc_cancel_requested t = sc_cancel_requested s"
    "sc_plans t = sc_plans s" "sc_tasks t = sc_tasks s" "sc_queue t = sc_queue s"
    "sc_workers t = sc_workers s" "sc_initial_statuses t = sc_initial_statuses s"
  using assms by (cases s; cases t; simp add: store_only_def)+

lemma store_only_persist_status: "obeys store_only (persist_status st)"
  unfolding persist_status_def by (intro store_only.eff_store)

lemma store_only_task_event: "obeys store_only (task_event t et a rq pl)"
  unfolding task_event_def by (rule store_only.eff_append_event)

text \<open>Storing a new status: the tail shared by the two ways of changing one.\<close>

lemma status_update_Inr:
  assumes "bindP (updateP (\<lambda>s. s\<lparr>sc_statuses := AList.update i st (sc_statuses s)\<rparr>)) (\<lambda>_.
     bindP (persist_status st) (\<lambda>_. bindP (task_event t et a rq pl) (\<lambda>_. returnP st))) s = (Inr r, s')"
  shows "r = st \<and> map_of (sc_statuses s') i = Some st"
proof -
  let ?s1 = "s\<lparr>sc_statuses := AList.update i st (sc_statuses s)\<rparr>"
  obtain r2 s2 where 2: "persist_status st ?s1 = (r2, s2)" by fastforce
  obtain r3 s3 where 3: "task_event t et a rq pl s2 = (r3, s3)" by fastforce
  have "r = st \<and> s' = s3" using assms 2 3 by (auto simp: bindP_def split: sum.splits)
  moreover have "sc_statuses s3 = sc_statuses ?s1"
    using store_only_sched(1) [OF obeysD [OF store_only_persist_status 2]]
      store_only_sched(1) [OF obeysD [OF store_only_task_event 3]] by simp
  ultimately show ?thesis by (simp add: dupdate_lookup)
qed

lemma bind_getP: "map_of (f s) k = Some v \<Longrightarrow> bindP (getP f k) g s = g v s"
  by (simp add: bindP_def getP_def)

lemma bind_utc_now: "bindP utc_now g s = g (clock s (clock_no s)) (s\<lparr>clock_no := Suc (clock_no s)\<rparr>)"
  by (simp add: bindP_def utc_now_def)

lemma transition_Inr:
  assumes "transition t target rq u reason s = (Inr st, s')"
  shows "sts_state st = target" and "map_of (sc_statuses s') (tsk_task_id t) = Some st"
    and "sts_underlying_outcome st = u" and "sts_failure_reason st = reason"
    and "\<exists>cur. map_of (sc_statuses s) (tsk_task_id t) = Some cur \<and> target \<in> task_targets (sts_state cur)"
proof -
  obtain cur where cur: "map_of (sc_statuses s) (tsk_task_id t) = Some cur"
    using assms by (auto simp: transition_def bindP_def getP_def split: option.splits)
  then have ok: "transition_task (sts_state cur) target = Inr target"
    using assms
    by (auto simp: transition_def bindP_def getP_def transition_task_Inr split: sum.splits)
  let ?st = "cur\<lparr>sts_state := target, sts_updated_at := clock s (clock_no s),
      sts_underlying_outcome := u, sts_failure_reason := reason\<rparr>"
  have "st = ?st \<and> map_of (sc_statuses s') (tsk_task_id t) = Some ?st"
    by (rule status_update_Inr [OF assms [unfolded transition_def, unfolded
          bind_getP [of sc_statuses, OF cur] ok sum.case bind_utc_now Let_def]])
  then show "sts_state st = target" and "map_of (sc_statuses s') (tsk_task_id t) = Some st"
    and "sts_underlying_outcome st = u" and "sts_failure_reason st = reason"
    and "\<exists>cur. map_of (sc_statuses s) (tsk_task_id t) = Some cur \<and> target \<in> task_targets (sts_state cur)"
    using cur ok by (auto simp: transition_task_Inr)
qed

lemma force_failure_Inr:
  assumes "force_failure t target rq reason s = (Inr st, s')"
  shows "sts_state st = target \<and> map_of (sc_statuses s') (tsk_task_id t) = Some st \<and>
    sts_failure_reason st = Some reason"
proof -
  obtain first where f: "map_of (sc_statuses s) (tsk_task_id t) = Some first"
    using assms by (auto simp: force_failure_def bindP_def getP_def split: option.splits)
  let ?first = "if sts_state first \<notin> {T_FINALIZING, T_FAILED} \<and> T_FINALIZING \<in> task_targets (sts_state first)
            then transition t T_FINALIZING rq None None else returnP first"
  obtain r1 s1 where 1: "?first s = (r1, s1)" by fastforce
  obtain current where c: "r1 = Inr current"
    using assms 1
    by (cases r1) (simp_all only: force_failure_def bind_getP [of sc_statuses, OF f]
        bindP_apply [of ?first] prod.case sum.case prod.inject sum.distinct simp_thms)
  show ?thesis
  proof (cases "sts_state current = T_FINALIZING")
    case True
    then have "transition t target rq (Some T_FAILED) (Some reason) s1 = (Inr st, s')"
      using assms 1 True
      by (simp only: force_failure_def bind_getP [of sc_statuses, OF f] bindP_apply [of ?first]
          c prod.case sum.case if_True)
    from transition_Inr [OF this] show ?thesis by simp
  next
    case False
    let ?st = "current\<lparr>sts_state := target, sts_updated_at := clock s1 (clock_no s1),
        sts_failure_reason := Some reason\<rparr>"
    have "st = ?st \<and> map_of (sc_statuses s') (tsk_task_id t) = Some ?st"
    proof (rule status_update_Inr)
      show "bindP (updateP (\<lambda>s. s\<lparr>sc_statuses := AList.update (tsk_task_id t) ?st (sc_statuses s)\<rparr>))
          (\<lambda>_. bindP (persist_status ?st) (\<lambda>_. bindP (task_event t (task_value target) ''scheduler'' rq
             [(''error'', JStr reason)]) (\<lambda>_. returnP ?st))) (s1\<lparr>clock_no := Suc (clock_no s1)\<rparr>)
          = (Inr st, s')"
        using assms 1 False
        by (simp only: force_failure_def bind_getP [of sc_statuses, OF f] bindP_apply [of ?first]
            c prod.case sum.case if_False bind_utc_now Let_def)
    qed
    then show ?thesis by simp
  qed
qed

section \<open>Releasing leases\<close>

definition released :: "(string, lease) dict \<Rightarrow> 'z sched_scheme \<Rightarrow> bool" where
  "released L s \<longleftrightarrow> set (dvalues (sc_leases s)) \<subseteq> set (dvalues L)"

lemma delete_lease_Inr:
  assumes "delete_lease l s = (Inr u, s')"
  shows "sc_leases s' = AList.delete (lse_lease_id l) (sc_leases s)"
proof -
  obtain i s1 where 1: "fresh_id ''lease_evt'' s = (Inr i, s1)"
    using assms by (auto simp: delete_lease_def bindP_def split: prod.splits sum.splits)
  let ?s2 = "s1\<lparr>clock_no := Suc (clock_no s1)\<rparr>"
  obtain r3 s3 where 3: "write_immutable ''lease-history'' i
      (O_lease_event ''RELEASED'' (clock s1 (clock_no s1)) l) ?s2 = (r3, s3)" by fastforce
  have r3: "r3 = Inr ()"
    using assms 1 3 by (cases r3) (simp_all add: delete_lease_def bindP_def utc_now_def)
  let ?s4 = "s3\<lparr>sc_leases := AList.delete (lse_lease_id l) (sc_leases s3)\<rparr>"
  have "delete_snapshot ''leases'' (lse_lease_id l) ?s4 = (Inr u, s')"
    using assms 1 3 r3 by (simp add: delete_lease_def bindP_def utc_now_def)
  then have "sc_leases s' = sc_leases ?s4"
    by (rule store_only_sched(2) [OF obeysD [OF store_only.eff_delete_snapshot]])
  moreover have "sc_leases s3 = sc_leases s1"
    using store_only_sched(2) [OF obeysD [OF store_only.eff_write_immutable 3]] by simp
  moreover have "sc_leases s1 = sc_leases s"
    by (rule store_only_sched(2) [OF obeysD [OF store_only.eff_fresh_id 1]])
  ultimately show ?thesis by simp
qed

lemma keyed_values_delete:
  "keyed d \<Longrightarrow> l \<in> set (dvalues (AList.delete k d)) \<longleftrightarrow> l \<in> set (dvalues d) \<and> lse_lease_id l \<noteq> k"
  by (force simp: keyed_def dvalues_def AList.delete_eq)

lemma delete_leases_Inr:
  assumes "delete_leases ls s = (Inr u, s')" and "keyed (sc_leases s)"
  shows "\<forall>l \<in> set (dvalues (sc_leases s')). l \<in> set (dvalues (sc_leases s)) \<and>
    lse_lease_id l \<notin> lse_lease_id ` set ls"
proof -
  obtain ys where "forP ls delete_lease s = (Inr ys, s')"
    using assms(1) by (auto simp: delete_leases_def bindP_def split: prod.splits sum.splits)
  then show ?thesis using assms(2)
  proof (induction ls arbitrary: s ys)
    case (Cons l ls)
    obtain s1 zs where 1: "delete_lease l s = (Inr (), s1)" and 2: "forP ls delete_lease s1 = (Inr zs, s')"
      using Cons.prems(1) by (auto simp: bindP_def split: prod.splits sum.splits)
    have s1: "sc_leases s1 = AList.delete (lse_lease_id l) (sc_leases s)" by (rule delete_lease_Inr [OF 1])
    then have "keyed (sc_leases s1)" using keyed_delete Cons.prems(2) by simp
    from Cons.IH [OF 2 this] show ?case
      using Cons.prems(2) by (auto simp: s1 keyed_values_delete)
  qed simp
qed

lemma release_owned:
  assumes "dispatch_inv L us W (s, f)" and "delete_leases ls s = (Inr u, s')"
    and "lse_lease_id ` set (fr_leases f) \<subseteq> lse_lease_id ` set ls"
  shows "released L s'"
proof -
  have k: "keyed (sc_leases s)" using assms(1) by (simp add: dispatch_inv_def)
  have "l \<in> set (dvalues L)" if "l \<in> set (dvalues (sc_leases s'))" for l
  proof -
    have l: "l \<in> set (dvalues (sc_leases s))" "lse_lease_id l \<notin> lse_lease_id ` set (fr_leases f)"
      using delete_leases_Inr [OF assms(2) k] that assms(3) by (blast, blast)
    then have "\<not> owned f l" by (auto simp: owned_def image_iff)
    then show ?thesis using assms(1) l(1) by (auto simp: dispatch_inv_def)
  qed
  then show ?thesis by (auto simp: released_def)
qed

section \<open>The result of a dispatch\<close>

definition final :: "(string, lease) dict \<Rightarrow> task \<Rightarrow> task_status \<Rightarrow> 'z sched_scheme \<Rightarrow> bool" where
  "final L t st s \<longleftrightarrow> map_of (sc_statuses s) (tsk_task_id t) = Some st \<and>
     ((task_terminal (sts_state st) \<and> released L s) \<or>
      sts_state st \<in> {T_CLEANUP_FAILED, T_RECONCILIATION_REQUIRED})"

lemma onS_Inr: "onS m (s, f) = (Inr x, sf) \<longleftrightarrow> (\<exists>s'. m s = (Inr x, s') \<and> sf = (s', f))"
  by (auto split: prod.splits)

lemma outcome_state: "fst (outcome rs) \<in> {T_FAILED, T_COMPLETED}"
  by (simp add: outcome_def)

lemma transition_released:
  assumes "transition t target rq u reason s = (r, s')" and "released L s"
  shows "released L s'"
  using obeysD [OF same_res.eff_transition assms(1)] assms(2) by (simp add: released_def same_res_def)

text \<open>The exit of a run: what it returns, and the table of leases.\<close>

lemma finish_run_Inr:
  assumes "finish_run t results rq (s, f) = (Inr st, (s', f'))"
  obtains c where "c = (tsk_task_id t \<in> sc_cancel_requested s)"
    and "if list_ex (\<lambda>r. \<not> res_cleanup_ok r) results
      then sts_state st = T_CLEANUP_FAILED \<and>
        sts_underlying_outcome st = Some (if c then T_CANCELLED else fst (outcome results))
      else sts_state st = (if c then T_CANCELLED else fst (outcome results)) \<and>
        sts_failure_reason st = (if c then Some ''CANCELLED_DURING_RUN'' else snd (outcome results))"
    and "map_of (sc_statuses s') (tsk_task_id t) = Some st"
    and "\<And>L us W. dispatch_inv L us W (s, f) \<Longrightarrow>
      map lse_lease_id (fr_committed f) = map lse_lease_id (fr_leases f) \<Longrightarrow>
      list_all res_cleanup_ok results \<Longrightarrow> released L s'"
proof -
  let ?c = "tsk_task_id t \<in> sc_cancel_requested s"
  let ?out = "if ?c then (T_CANCELLED, Some ''CANCELLED_DURING_RUN'') else outcome results"
  obtain s1 where 1: "take_cancel t s = (Inr ?c, s1)" by (simp add: take_cancel_def bindP_def)
  obtain st2 s2 where 2: "transition t T_FINALIZING rq None None s1 = (Inr st2, s2)"
    using assms 1 by (auto simp: finish_run_def bindP_def Let_def split: prod.splits sum.splits)
  show ?thesis
  proof (cases "list_ex (\<lambda>r. \<not> res_cleanup_ok r) results")
    case True
    then have 3: "transition t T_CLEANUP_FAILED rq (Some (fst ?out))
        (Some ''CONTAINER_NOT_CONFIRMED_STOPPED'') s2 = (Inr st, s')"
      using assms 1 2 by (auto simp: finish_run_def bindP_def Let_def split: prod.splits)
    show ?thesis
      by (rule that [OF refl])
         (use True transition_Inr [OF 3] in \<open>auto simp: list_ex_iff list_all_iff\<close>)
  next
    case False
    then obtain u s3 where 3: "delete_leases (fr_committed f) s2 = (Inr u, s3)"
      and 4: "transition t (fst ?out) rq None (snd ?out) s3 = (Inr st, s')"
      using assms 1 2 by (auto simp: finish_run_def bindP_def Let_def split: prod.splits sum.splits)
    have "released L s'"
      if inv: "dispatch_inv L us W (s, f)"
        and ids: "map lse_lease_id (fr_committed f) = map lse_lease_id (fr_leases f)" for L us W
    proof -
      have "same_res s s2"
        using obeysD [OF same_res.eff_take_cancel 1] obeysD [OF same_res.eff_transition 2]
        by (simp add: same_res_def)
      then have "dispatch_inv L us W (s2, f)" using inv by (rule dispatch_inv_same_res)
      from release_owned [OF this 3] ids have "released L s3" by (metis set_map subset_refl)
      with 4 show ?thesis by (rule transition_released)
    qed
    then show ?thesis
      by (intro that [OF refl]) (use False transition_Inr [OF 4] in auto)
  qed
qed

lemma finish_run_final:
  assumes "finish_run t results rq (s, f) = (Inr st, (s', f'))" and "dispatch_inv L us W (s, f)"
    and "map lse_lease_id (fr_committed f) = map lse_lease_id (fr_leases f)"
  shows "final L t st s'"
proof -
  obtain c where r: "if list_ex (\<lambda>r. \<not> res_cleanup_ok r) results
      then sts_state st = T_CLEANUP_FAILED \<and>
        sts_underlying_outcome st = Some (if c then T_CANCELLED else fst (outcome results))
      else sts_state st = (if c then T_CANCELLED else fst (outcome results)) \<and>
        sts_failure_reason st = (if c then Some ''CANCELLED_DURING_RUN'' else snd (outcome results))"
    and m: "map_of (sc_statuses s') (tsk_task_id t) = Some st"
    and rel: "list_all res_cleanup_ok results \<Longrightarrow> released L s'"
    by (rule finish_run_Inr [OF assms(1)]) (use assms(2,3) in blast)
  show ?thesis
  proof (cases "list_ex (\<lambda>r. \<not> res_cleanup_ok r) results")
    case True
    then show ?thesis using r m by (simp add: final_def)
  next
    case False
    then have "list_all res_cleanup_ok results" by (auto simp: list_ex_iff list_all_iff)
    moreover have "task_terminal (sts_state st)"
      using r False outcome_state [of results] by (auto simp: task_terminal_def split: if_splits)
    ultimately show ?thesis using rel m by (simp add: final_def)
  qed
qed

text \<open>Committed leases are the frame's leases, from the moment they are committed.\<close>

definition ids_match :: "'z sched_scheme \<times> frame \<Rightarrow> bool" where
  "ids_match sf \<longleftrightarrow>
     map lse_lease_id (fr_committed (snd sf)) = map lse_lease_id (fr_leases (snd sf))"

lemma ids_onS: "obeys (keeps ids_match) (onS m)"
  by (rule keeps_onS [where R = "\<lambda>_ _. True"]) (simp_all add: obeys_def ids_match_def)

lemma ids_local:
  "obeys (keeps ids_match) (local (\<lambda>f. f\<lparr>fr_reply_uncertain := b\<rparr>))"
  "obeys (keeps ids_match) (local (\<lambda>f. f\<lparr>fr_plans := ps f\<rparr>))"
  "obeys (keeps ids_match) (local (\<lambda>f. f\<lparr>fr_side_effect_possible := b\<rparr>))"
  by (rule keeps_local, simp add: ids_match_def)+

lemma ids_issue_plan: "obeys (keeps ids_match) (issue_plan g d t um)"
  unfolding issue_plan_def
  by (auto split: prod.split intro!: keeps.eff_bind keeps.eff_check ids_onS ids_local)

lemma reserve_ids: "triple (\<lambda>_. True) (reserve g d t sels rq) (\<lambda>_. ids_match) (\<lambda>_ _. True)"
  unfolding reserve_def
proof (rule triple_bind [OF triple_any], rule triple_bind [OF triple_any], rule triple_bind)
  show "triple (\<lambda>_. True)
      (local (\<lambda>f. f\<lparr>fr_committed := map (\<lambda>l. l\<lparr>lse_committed := True\<rparr>) (fr_leases f)\<rparr>))
      (\<lambda>_. ids_match) (\<lambda>_ _. True)"
    by (rule tripleI) (auto simp: local_def ids_match_def split: prod.split)
  show "triple ids_match (bindP (the_local fr_committed) (\<lambda>committed.
      bindP (onS (forP committed persist_lease)) (\<lambda>_. onS (transition t T_RESERVED rq None None))))
      (\<lambda>_. ids_match) (\<lambda>_ _. True)"
    by (rule triple_keeps_any) (intro keeps.eff_bind keeps_the_local ids_onS)
qed

text \<open>The invariant of a dispatch whose leases are committed.\<close>

abbreviation committed_inv ::
  "(string, lease) dict \<Rightarrow> (task_unit \<times> selection) list \<Rightarrow> 'z sched_scheme \<times> frame \<Rightarrow> bool" where
  "committed_inv L us \<equiv> \<lambda>sf. dispatch_inv L us UNIV sf \<and> ids_match sf"

lemma keeps_conj:
  "obeys (keeps I) m \<Longrightarrow> obeys (keeps J) m \<Longrightarrow> obeys (keeps (\<lambda>x. I x \<and> J x)) m"
  by (simp add: obeys_def keeps_def)

lemma committed_quiet:
  "obeys same_res m \<Longrightarrow> triple (committed_inv L us) (onS m) (\<lambda>_. committed_inv L us) (\<lambda>_ _. True)"
  by (intro triple_keeps_any keeps_conj keeps_quiet ids_onS)

lemma committed_flags:
  "triple (committed_inv L us) (local (\<lambda>f. f\<lparr>fr_reply_uncertain := b\<rparr>)) (\<lambda>_. committed_inv L us) (\<lambda>_ _. True)"
  "triple (committed_inv L us) (local (\<lambda>f. f\<lparr>fr_side_effect_possible := b\<rparr>)) (\<lambda>_. committed_inv L us) (\<lambda>_ _. True)"
  by (intro triple_keeps_any keeps_conj keeps_flags ids_local)+

lemma committed_the_local:
  "triple (committed_inv L us) (the_local h) (\<lambda>_. committed_inv L us) (\<lambda>_ _. True)"
  by (intro triple_keeps_any keeps_conj keeps_the_local)

text \<open>Deleting the committed leases and storing a final status.\<close>

lemma triple_release_exit:
  assumes "task_terminal target"
  shows "triple (committed_inv L us)
     (bindP (the_local fr_committed) (\<lambda>committed.
      bindP (onS (delete_leases committed)) (\<lambda>_. onS (transition t target rq u reason))))
     (\<lambda>st sf. final L t st (fst sf)) (\<lambda>_ _. True)"
proof (rule tripleI)
  fix sf :: "'a sched_scheme \<times> frame"
  assume i: "committed_inv L us sf"
  obtain s f where sf: "sf = (s, f)" by fastforce
  let ?p = "bindP (the_local fr_committed) (\<lambda>committed.
      bindP (onS (delete_leases committed)) (\<lambda>_. onS (transition t target rq u reason)))"
  have "final L t st s2" if run: "?p sf = (Inr st, (s2, f2))" for st s2 f2
  proof -
    obtain v s1 where 1: "delete_leases (fr_committed f) s = (Inr v, s1)"
      and 2: "transition t target rq u reason s1 = (Inr st, s2)"
      using run by (auto simp: sf bindP_def split: prod.splits sum.splits)
    have "lse_lease_id ` set (fr_leases f) \<subseteq> lse_lease_id ` set (fr_committed f)"
      using i by (simp add: sf ids_match_def flip: set_map)
    with release_owned [OF conjunct1 [OF i [unfolded sf]] 1] have "released L s1" .
    with 2 have "released L s2" by (rule transition_released)
    with transition_Inr [OF 2] assms show ?thesis by (simp add: final_def)
  qed
  then show "case ?p sf of (Inl e, t) \<Rightarrow> True | (Inr st, sf) \<Rightarrow> final L t st (fst sf)"
    by (auto split: prod.split sum.split)
qed

lemma triple_finish_run:
  "triple (committed_inv L us) (finish_run t results rq) (\<lambda>st sf. final L t st (fst sf)) (\<lambda>_ _. True)"
proof (rule tripleI)
  fix sf :: "'a sched_scheme \<times> frame"
  assume i: "committed_inv L us sf"
  obtain s f where sf: "sf = (s, f)" by fastforce
  show "case finish_run t results rq sf of (Inl e, t) \<Rightarrow> True | (Inr st, sf) \<Rightarrow> final L t st (fst sf)"
    using finish_run_final [of t results rq s f] i
    by (auto simp: sf ids_match_def split: prod.split sum.split)
qed

lemma triple_run_units:
  assumes "driver_obeys same_res d"
  shows "triple (committed_inv L us) (run_units d t rq) (\<lambda>st sf. final L t st (fst sf)) (\<lambda>_ _. True)"
  unfolding run_units_def
proof (rule triple_bind [OF committed_quiet [OF same_res.eff_task_event]],
    rule triple_bind [OF committed_quiet [OF same_res.eff_take_cancel]], rule triple_if)
  show "triple (committed_inv L us)
     (bindP (onS (transition t T_FINALIZING rq None None)) (\<lambda>_.
      bindP (the_local fr_committed) (\<lambda>committed.
      bindP (onS (delete_leases committed)) (\<lambda>_.
      onS (transition t T_CANCELLED rq None (Some ''CANCELLED_BEFORE_START''))))))
     (\<lambda>st sf. final L t st (fst sf)) (\<lambda>_ _. True)"
    by (rule triple_bind [OF committed_quiet [OF same_res.eff_transition]])
       (rule triple_release_exit, simp add: task_terminal_def)
next
  have run: "obeys same_res (forP plans (\<lambda>p. drv_execute d p t))" for plans
    by (intro same_res.eff_for driver_obeysD [OF assms])
  show "triple (committed_inv L us)
     (bindP (onS (transition t T_DISPATCHED rq None None)) (\<lambda>_.
      bindP (onS (transition t T_STARTING rq None None)) (\<lambda>_.
      bindP (local (\<lambda>f. f\<lparr>fr_side_effect_possible := True\<rparr>)) (\<lambda>_.
      bindP (onS (transition t T_RUNNING rq None None)) (\<lambda>_.
      bindP (local (\<lambda>f. f\<lparr>fr_reply_uncertain := True\<rparr>)) (\<lambda>_.
      bindP (the_local fr_plans) (\<lambda>plans.
      bindP (onS (forP plans (\<lambda>p. drv_execute d p t))) (\<lambda>results.
      bindP (local (\<lambda>f. f\<lparr>fr_reply_uncertain := False\<rparr>)) (\<lambda>_. finish_run t results rq)))))))))
     (\<lambda>st sf. final L t st (fst sf)) (\<lambda>_ _. True)"
    by (rule triple_bind [OF committed_quiet [OF same_res.eff_transition]],
        rule triple_bind [OF committed_quiet [OF same_res.eff_transition]],
        rule triple_bind [OF committed_flags(2)],
        rule triple_bind [OF committed_quiet [OF same_res.eff_transition]],
        rule triple_bind [OF committed_flags(1)], rule triple_bind [OF committed_the_local],
        rule triple_bind [OF committed_quiet [OF run]], rule triple_bind [OF committed_flags(1)],
        rule triple_finish_run)
qed

lemma triple_conj_any:
  "triple P m Q (\<lambda>_ _. True) \<Longrightarrow> triple P' m Q' E \<Longrightarrow>
   triple (\<lambda>s. P s \<and> P' s) m (\<lambda>x s. Q x s \<and> Q' x s) (\<lambda>_ _. True)"
  unfolding triple_def by (fastforce split: prod.splits sum.splits)

lemma triple_dispatch_body_final:
  assumes d: "driver_obeys same_res d" and us: "us = zip (tsk_units t) sels"
    and dist: "distinct (map (\<lambda>(u, w, g). w) us)"
  shows "triple (dispatch_inv L us {}) (dispatch_body g d t sels rq)
     (\<lambda>st sf. final L t st (fst sf)) (\<lambda>_ _. True)"
proof -
  have reserve: "triple (dispatch_inv L us {}) (reserve g d t sels rq) (\<lambda>_. committed_inv L us) (\<lambda>_ _. True)"
    using triple_conj_any [OF reserve_ids triple_reserve [OF assms]]
    by (rule triple_conseq) auto
  have plans: "triple (committed_inv L us) (for_zip (tsk_units t) ms (issue_plan g d t))
      (\<lambda>_. committed_inv L us) (\<lambda>_ _. True)" for ms
    unfolding for_zip_def
    by (intro triple_keeps_any keeps_conj keeps.eff_bind keeps.eff_for keeps.eff_check
        keeps_issue_plan ids_issue_plan d)
  show ?thesis
    unfolding dispatch_body_def
    by (rule triple_bind [OF reserve], rule triple_bind [OF committed_the_local],
        rule triple_bind [OF plans], rule triple_run_units [OF d])
qed

lemma frame_fixed: "obeys (keeps (\<lambda>x. snd x = f)) (onS m)"
  by (rule keeps_onS [where R = "\<lambda>_ _. True"]) (simp_all add: obeys_def)

text \<open>The exception handler ends in a final state as well.\<close>

lemma handler_final:
  assumes d: "driver_obeys same_res d" and inv: "dispatch_inv L us W (s, f)"
    and run: "dispatch_handler d t rq e (s, f) = (Inr st, (s', f'))"
  shows "final L t st s'"
proof -
  let ?q = "if fr_reply_uncertain f
            then bindP (onS (query_workers d t (fr_manifests f))) (\<lambda>qs.
                 bindP (onS (task_event t ''STATUS_QUERIED_AFTER_TIMEOUT'' ''scheduler'' rq
                               [(''results'', JArr (map JStr qs))])) (\<lambda>_. returnP qs))
            else returnP []"
  obtain r1 sf1 where q: "?q (s, f) = (r1, sf1)" by (cases "?q (s, f)")
  have "obeys same_res (query_workers d t ms)" for ms
    unfolding query_workers_def
    by (intro same_res.eff_for same_res.eff_catch same_res.eff_return driver_obeysD [OF d])
  then have "obeys (keeps (dispatch_inv L us W)) ?q"
    by (intro keeps.eff_if keeps.eff_bind keeps.eff_return keeps_quiet same_res.eff_task_event)
  moreover have "obeys (keeps (\<lambda>x. snd x = f)) ?q"
    by (intro keeps.eff_if keeps.eff_bind keeps.eff_return frame_fixed)
  ultimately obtain s1 where i1: "dispatch_inv L us W (s1, f)" and sf1: "sf1 = (s1, f)"
    using keepsD [of "dispatch_inv L us W" ?q "(s, f)"] keepsD [of "\<lambda>x. snd x = f" ?q "(s, f)"] inv q
    by (cases sf1) auto
  obtain qs where r1: "r1 = Inr qs"
    using run q by (cases r1) (auto simp: dispatch_handler_def bindP_def)
  let ?u = "uncertain_after qs f"
  show ?thesis
  proof (cases ?u)
    case True
    then have "force_failure t T_RECONCILIATION_REQUIRED rq (exn_message e) s1 = (Inr st, s')"
      using run q r1 sf1
      by (auto simp: dispatch_handler_def bindP_def Let_def whenP_def split: prod.splits)
    then show ?thesis using force_failure_Inr by (fastforce simp: final_def)
  next
    case False
    then obtain v s2 where 2: "delete_leases (fr_leases f) s1 = (Inr v, s2)"
      and 3: "force_failure t T_FAILED rq (exn_message e) s2 = (Inr st, s')"
      using run q r1 sf1
      by (auto simp: dispatch_handler_def bindP_def Let_def whenP_def split: prod.splits sum.splits)
    have "released L s2" by (rule release_owned [OF i1 2]) simp
    then have "released L s'"
      using obeysD [OF same_res.eff_force_failure 3] by (simp add: released_def same_res_def)
    then show ?thesis using force_failure_Inr [OF 3] by (simp add: final_def task_terminal_def)
  qed
qed

section \<open>Theorems\<close>

lemma dispatch_final:
  assumes d: "driver_obeys same_res d" and ok: "leases_ok s"
    and free: "selection_free (sc_leases s) (zip (tsk_units t) sels)"
    and run: "dispatch g d t sels rq s = (Inr st, s')"
  shows "final (sc_leases s) t st s'"
proof -
  let ?us = "zip (tsk_units t) sels"
  let ?body = "dispatch_body g d t sels rq" and ?handler = "dispatch_handler d t rq"
  let ?p = "finallyP (catchP ?body caught ?handler) (onS (release_holds t sels))"
  obtain st0 s1 where m: "transition t T_PREPARING rq None None s = (Inr st0, s1)"
    using run by (auto simp: dispatch_def bindP_def split: prod.splits sum.splits)
  have L: "sc_leases s1 = sc_leases s" and ok1: "leases_ok s1"
    using obeysD [OF same_res.eff_transition m] leases_ok_same ok by (auto simp: same_res_def)
  obtain f' where p: "?p (s1, empty_frame) = (Inr st, (s', f'))"
    using run m by (auto simp: dispatch_def bindP_def split: prod.splits)
  obtain s2 f2 where c: "catchP ?body caught ?handler (s1, empty_frame) = (Inr st, (s2, f2))"
    and rel: "snd (onS (release_holds t sels) (s2, f2)) = (s', f')"
    using p by (auto simp: finallyP_def split: prod.splits sum.splits)
  have dist: "distinct (map (\<lambda>(u, w, g). w) ?us)" using free by (simp add: selection_free_def)
  have init: "dispatch_inv (sc_leases s1) ?us {} (s1, empty_frame)" using ok1 by (rule dispatch_inv_initial)
  obtain r3 s3 f3 where b: "?body (s1, empty_frame) = (r3, (s3, f3))" by (metis prod.exhaust)
  have "final (sc_leases s1) t st s2"
  proof (cases r3)
    case (Inl e)
    then have "?handler e (s3, f3) = (Inr st, (s2, f2))"
      using b c by (simp add: catchP_def split: if_splits)
    moreover have "dispatch_inv (sc_leases s1) ?us UNIV (s3, f3)"
      using triple_Inl [OF triple_dispatch_body [OF d refl dist] init] b Inl by simp
    ultimately show ?thesis using handler_final [OF d] by blast
  next
    case (Inr x)
    then have "x = st" "s3 = s2" using b c by (simp_all add: catchP_def)
    then show ?thesis
      using triple_Inr [OF triple_dispatch_body_final [OF d refl dist] init] b Inr by fastforce
  qed
  moreover have "sc_statuses s' = sc_statuses s2 \<and> sc_leases s' = sc_leases s2"
    using rel unfolding release_holds_def for_zip_def
    by (auto simp: bindP_def checkP_def release_gpus_loop [unfolded set_map] release_containers_loop
        split: prod.splits sum.splits if_splits)
  ultimately show ?thesis using L by (simp add: final_def released_def)
qed

text \<open>
  C3. A dispatch that returns leaves the task in a final state with no lease that was not there
  before, or in \<open>CLEANUP_FAILED\<close> or \<open>RECONCILIATION_REQUIRED\<close>; the status it returns is the
  recorded one. So a task reported as completed, failed or cancelled never keeps a device.
\<close>

theorem dispatch_releases_or_retains:
  assumes "driver_obeys calm d" and "rest_inv s" and "select_for_task t s0 = (Inr (Some sels), s1)"
    and "rest_inv s0" and "sc_leases s = sc_leases s0" and "dispatch g d t sels rq s = (Inr st, s')"
  shows "map_of (sc_statuses s') (tsk_task_id t) = Some st \<and>
    (sts_state st \<in> {T_COMPLETED, T_FAILED, T_CANCELLED} \<and>
       set (dvalues (sc_leases s')) \<subseteq> set (dvalues (sc_leases s)) \<or>
     sts_state st \<in> {T_CLEANUP_FAILED, T_RECONCILIATION_REQUIRED})"
proof -
  have "selection_free (sc_leases s) (zip (tsk_units t) sels)"
    using selection_is_free [OF assms(3)] assms(4,5) by (simp add: rest_inv_def workers_by_id_def)
  moreover have "leases_ok s" using assms(2) by (simp add: rest_inv_def)
  ultimately show ?thesis
    using dispatch_final [OF calm_driver(1) [OF assms(1)] _ _ assms(6)]
    by (simp add: final_def released_def task_terminal_def)
qed

lemma small_dispatch_returns:
  "fst (select_for_task small_task (ready_sched T_QUEUED fourth_write_fails)) = Inr (Some [(''w'', [0])])"
  "fst (dispatch toy_signer (fake_driver fake_ok) small_task [(''w'', [0])] ''r''
     (ready_sched T_QUEUED fourth_write_fails))
   = Inr ((sample_status T_FAILED)\<lparr>sts_underlying_outcome := Some T_FAILED,
        sts_failure_reason := Some ''write failed''\<rparr>)"
  by code_simp+

theorem dispatch_releases_or_retains_witness:
  "\<exists>st s'. dispatch toy_signer (fake_driver fake_ok) small_task [(''w'', [0])] ''r''
      (ready_sched T_QUEUED fourth_write_fails) = (Inr st, s') \<and>
    map_of (sc_statuses s') (tsk_task_id small_task) = Some st \<and>
    (sts_state st \<in> {T_COMPLETED, T_FAILED, T_CANCELLED} \<and>
       set (dvalues (sc_leases s')) \<subseteq> set (dvalues (sc_leases (ready_sched T_QUEUED fourth_write_fails))) \<or>
     sts_state st \<in> {T_CLEANUP_FAILED, T_RECONCILIATION_REQUIRED})"
proof -
  let ?s = "ready_sched T_QUEUED fourth_write_fails"
  obtain s1 where 1: "select_for_task small_task ?s = (Inr (Some [(''w'', [0])]), s1)"
    using small_dispatch_returns(1) by (cases "select_for_task small_task ?s") simp
  obtain st s' where 2: "dispatch toy_signer (fake_driver fake_ok) small_task [(''w'', [0])] ''r'' ?s = (Inr st, s')"
    using small_dispatch_returns(2)
    by (cases "dispatch toy_signer (fake_driver fake_ok) small_task [(''w'', [0])] ''r'' ?s") simp
  have "rest_inv ?s"
    by (simp add: rest_inv_def ready_sched_def empty_sched_def leases_ok_def keyed_def dvalues_def
        workers_by_id_def sample_worker_def)
  from dispatch_releases_or_retains [OF fake_driver_calm this 1 this refl 2] 2 show ?thesis by blast
qed


lemma small_finish_returns:
  "fst (finish_run small_task
     [\<lparr>res_exit_code = 3, res_logs_present = True, res_outputs_present = True, res_cleanup_ok = True,
       res_warning = None, res_failure_reason = Some ''RUN_NONZERO''\<rparr>] ''r''
     (ready_sched T_RUNNING no_faults, empty_frame))
   = Inr ((sample_status T_FAILED)\<lparr>sts_failure_reason := Some ''RUN_NONZERO''\<rparr>)"
  by code_simp


end
