(* ===== verification/Json_Text.thy ===== *)
theory Json_Text
  imports Prelude
begin

text \<open>
  JSON text as the standard library reads and writes it: \<open>json.loads\<close> as a recursive descent
  parser and \<open>json.dumps\<close> with sorted keys, compact separators and either of its treatments of
  non-ASCII characters. Strings are UTF-8 bytes. Left out of the value type are the literals
  \<open>NaN\<close> and \<open>Infinity\<close>; a float is the rational its digits denote, and the digits \<open>repr\<close> chooses
  for it are a parameter of the printer.
\<close>

section \<open>Code points\<close>

text \<open>The UTF-8 encoding of a code point (a lone surrogate is encoded like any other).\<close>

definition utf8 :: "nat \<Rightarrow> string" where
  "utf8 n =
     (if n < 0x80 then [char_of n]
      else if n < 0x800 then [char_of (0xC0 + n div 64), char_of (0x80 + n mod 64)]
      else if n < 0x10000
      then [char_of (0xE0 + n div 4096), char_of (0x80 + n div 64 mod 64), char_of (0x80 + n mod 64)]
      else [char_of (0xF0 + n div 262144), char_of (0x80 + n div 4096 mod 64),
            char_of (0x80 + n div 64 mod 64), char_of (0x80 + n mod 64)])"

definition byte :: "char \<Rightarrow> nat" where
  "byte c = of_char c"

text \<open>The code points of a valid UTF-8 text; a stray byte stands for itself.\<close>

fun code_points :: "string \<Rightarrow> nat list" where
  "code_points [] = []"
| "code_points (a # s) =
     (if byte a < 0xC0 then byte a # code_points s
      else if byte a < 0xE0
      then (case s of
              b # s' \<Rightarrow> ((byte a mod 32) * 64 + byte b mod 64) # code_points s'
            | _ \<Rightarrow> [byte a])
      else if byte a < 0xF0
      then (case s of
              b # c # s' \<Rightarrow> ((byte a mod 16) * 4096 + (byte b mod 64) * 64 + byte c mod 64) # code_points s'
            | _ \<Rightarrow> [byte a])
      else (case s of
              b # c # d # s' \<Rightarrow> ((byte a mod 8) * 262144 + (byte b mod 64) * 4096 + (byte c mod 64) * 64
                  + byte d mod 64) # code_points s'
            | _ \<Rightarrow> [byte a]))"

section \<open>Reading\<close>

definition json_space :: "char \<Rightarrow> bool" where
  "json_space c \<longleftrightarrow> c \<in> {CHR '' '', CHR 0x09, CHR 0x0A, CHR 0x0D}"

definition skip_space :: "string \<Rightarrow> string" where
  "skip_space s = dropWhile json_space s"

definition hex_value :: "char \<Rightarrow> nat option" where
  "hex_value c =
     (if is_digit c then Some (byte c - 48)
      else if CHR ''a'' \<le> c \<and> c \<le> CHR ''f'' then Some (byte c - 87)
      else if CHR ''A'' \<le> c \<and> c \<le> CHR ''F'' then Some (byte c - 55)
      else None)"

text \<open>The four digits after \<open>\u\<close>.\<close>

fun hex4 :: "string \<Rightarrow> (nat \<times> string) option" where
  "hex4 (a # b # c # d # s) =
     (case (hex_value a, hex_value b, hex_value c, hex_value d) of
        (Some w, Some x, Some y, Some z) \<Rightarrow> Some (w * 4096 + x * 256 + y * 16 + z, s)
      | _ \<Rightarrow> None)"
| "hex4 _ = None"

definition simple_escape :: "char \<Rightarrow> char option" where
  "simple_escape c =
     (if c = CHR 0x22 then Some (CHR 0x22)
      else if c = CHR 0x5C then Some (CHR 0x5C)
      else if c = CHR ''/'' then Some (CHR ''/'')
      else if c = CHR ''b'' then Some (CHR 0x08)
      else if c = CHR ''f'' then Some (CHR 0x0C)
      else if c = CHR ''n'' then Some (CHR 0x0A)
      else if c = CHR ''r'' then Some (CHR 0x0D)
      else if c = CHR ''t'' then Some (CHR 0x09)
      else None)"

text \<open>A high surrogate joins the low surrogate escaped right after it.\<close>

definition joined_escape :: "nat \<Rightarrow> string \<Rightarrow> nat \<times> string" where
  "joined_escape n s =
     (if 0xD800 \<le> n \<and> n < 0xDC00 \<and> take 2 s = [CHR 0x5C, CHR ''u'']
      then (case hex4 (drop 2 s) of
              Some (m, s') \<Rightarrow>
                if 0xDC00 \<le> m \<and> m < 0xE000
                then (0x10000 + (n - 0xD800) * 1024 + (m - 0xDC00), s') else (n, s)
            | None \<Rightarrow> (n, s))
      else (n, s))"

lemma hex4_shorter: "hex4 s = Some (n, s') \<Longrightarrow> length s' < length s"
  by (cases s rule: hex4.cases) (auto split: option.splits)

lemma joined_escape_length: "joined_escape n s = (m, s') \<Longrightarrow> length s' \<le> length s"
  by (auto simp: joined_escape_def split: if_splits option.splits prod.splits dest!: hex4_shorter)

text \<open>The inside of a string literal and its closing quote; control characters are errors.\<close>

function string_body :: "string \<Rightarrow> (string \<times> string) option" where
  "string_body [] = None"
| "string_body (c # s) =
     (if c = CHR 0x22 then Some ([], s)
      else if c = CHR 0x5C then
        (case s of
           [] \<Rightarrow> None
         | e # s1 \<Rightarrow>
             if e = CHR ''u'' then
               (case hex4 s1 of
                  None \<Rightarrow> None
                | Some (n, s2) \<Rightarrow>
                    (case string_body (snd (joined_escape n s2)) of
                       None \<Rightarrow> None
                     | Some (t, r) \<Rightarrow> Some (utf8 (fst (joined_escape n s2)) @ t, r)))
             else
               (case simple_escape e of
                  None \<Rightarrow> None
                | Some x \<Rightarrow> (case string_body s1 of None \<Rightarrow> None | Some (t, r) \<Rightarrow> Some (x # t, r))))
      else if byte c < 32 then None
      else (case string_body s of None \<Rightarrow> None | Some (t, r) \<Rightarrow> Some (c # t, r)))"
  by pat_completeness auto
termination
proof (relation "measure length")
  fix c e :: char and s s1 s2 :: string and p n
  assume "hex4 s1 = Some p" "(n, s2) = p" "s = e # s1"
  then show "(snd (joined_escape n s2), c # s) \<in> measure length"
    using hex4_shorter [of s1 n s2] joined_escape_length [of n s2]
    by (cases "joined_escape n s2") fastforce
qed auto

lemma string_body_shorter: "string_body s = Some (t, r) \<Longrightarrow> length r < length s"
proof (induction s arbitrary: t rule: string_body.induct)
  case (2 c s)
  show ?case
  proof (cases "c = CHR 0x5C")
    case True
    then obtain e s1 where s: "s = e # s1" using 2(4) by (auto split: list.splits)
    show ?thesis
    proof (cases "e = CHR ''u''")
      case u: True
      then obtain n s2 t' where h: "hex4 s1 = Some (n, s2)"
        and b: "string_body (snd (joined_escape n s2)) = Some (t', r)"
        using 2(4) True s by (auto split: option.splits prod.splits)
      have "length r < length (snd (joined_escape n s2))"
        using 2(1) [OF _ _ s u h refl b] True by simp
      then show ?thesis
        using s hex4_shorter [OF h] joined_escape_length [of n s2]
        by (cases "joined_escape n s2") fastforce
    next
      case False
      then obtain x t' where "simple_escape e = Some x" "string_body s1 = Some (t', r)"
        using 2(4) True s by (auto split: option.splits)
      then show ?thesis using 2(2) [OF _ _ s False] True s by fastforce
    qed
  next
    case False
    then show ?thesis using 2(3,4) by (auto split: if_splits option.splits)
  qed
qed simp

text \<open>Numbers: an optional sign, digits without a leading zero, a fraction and an exponent.\<close>

definition digits_value :: "string \<Rightarrow> nat" where
  "digits_value s = fold (\<lambda>c n. n * 10 + (byte c - 48)) s 0"

definition fraction :: "string \<Rightarrow> string \<times> string" where
  "fraction s = (case s of
      c # s' \<Rightarrow> if c = CHR ''.'' \<and> takeWhile is_digit s' \<noteq> []
               then (takeWhile is_digit s', dropWhile is_digit s') else ([], s)
    | [] \<Rightarrow> ([], s))"

definition exponent :: "string \<Rightarrow> int option \<times> string" where
  "exponent s = (case s of
      c # s' \<Rightarrow>
        if c \<in> {CHR ''e'', CHR ''E''} then
          (let (neg, s1) = (case s' of
                d # s2 \<Rightarrow> if d = CHR ''-'' then (True, s2) else if d = CHR ''+'' then (False, s2) else (False, s')
              | [] \<Rightarrow> (False, s'));
               ds = takeWhile is_digit s1
           in if ds = [] then (None, s)
              else (Some (if neg then - int (digits_value ds) else int (digits_value ds)),
                    dropWhile is_digit s1))
        else (None, s)
    | [] \<Rightarrow> (None, s))"

definition scaled :: "nat \<Rightarrow> string \<Rightarrow> int \<Rightarrow> rat" where
  "scaled whole fr e =
     (let m = of_nat whole + of_nat (digits_value fr) / 10 ^ length fr
      in if e \<ge> 0 then m * 10 ^ nat e else m / 10 ^ nat (- e))"

definition json_number :: "string \<Rightarrow> (json \<times> string) option" where
  "json_number s =
     (let (neg, s1) = (case s of c # s' \<Rightarrow> if c = CHR ''-'' then (True, s') else (False, s) | [] \<Rightarrow> (False, s));
          (ds, s2) = (case s1 of
              c # s' \<Rightarrow> if c = CHR ''0'' then ([c], s') else (takeWhile is_digit s1, dropWhile is_digit s1)
            | [] \<Rightarrow> ([], s1))
      in if ds = [] then None
         else let (fr, s3) = fraction s2; (ex, s4) = exponent s3; whole = digits_value ds
              in if fr = [] \<and> ex = None
                 then Some (JInt (if neg then - int whole else int whole), s4)
                 else let v = scaled whole fr (case ex of None \<Rightarrow> 0 | Some e \<Rightarrow> e)
                      in Some (JNum (if neg then - v else v), s4))"

text \<open>
  Values. The number bounds the nesting of calls; every second call consumes a byte, so twice the
  length of the text is enough. A repeated key keeps its first place and its last value.
\<close>

fun json_value :: "nat \<Rightarrow> string \<Rightarrow> (json \<times> string) option"
  and json_elements :: "nat \<Rightarrow> string \<Rightarrow> (json list \<times> string) option"
  and json_members :: "nat \<Rightarrow> (string \<times> json) list \<Rightarrow> string \<Rightarrow> ((string \<times> json) list \<times> string) option"
  where
  "json_value 0 s = None"
| "json_value (Suc n) s =
     (if s = [] then None
      else if hd s = CHR 0x22
      then (case string_body (tl s) of None \<Rightarrow> None | Some (t, r) \<Rightarrow> Some (JStr t, r))
      else if hd s = CHR ''['' then
        (let s1 = skip_space (tl s)
         in if take 1 s1 = '']'' then Some (JArr [], tl s1)
            else case json_elements n s1 of None \<Rightarrow> None | Some (vs, r) \<Rightarrow> Some (JArr vs, r))
      else if hd s = CHR ''{'' then
        (let s1 = skip_space (tl s)
         in if take 1 s1 = ''}'' then Some (JObj [], tl s1)
            else case json_members n [] s1 of None \<Rightarrow> None | Some (ms, r) \<Rightarrow> Some (JObj ms, r))
      else if starts_with ''null'' s then Some (JNull, drop 4 s)
      else if starts_with ''true'' s then Some (JBool True, drop 4 s)
      else if starts_with ''false'' s then Some (JBool False, drop 5 s)
      else json_number s)"
| "json_elements 0 s = None"
| "json_elements (Suc n) s =
     (case json_value n s of
        None \<Rightarrow> None
      | Some (v, r) \<Rightarrow>
          (let r1 = skip_space r
           in if take 1 r1 = '']'' then Some ([v], tl r1)
              else if take 1 r1 = '','' then
                (case json_elements n (skip_space (tl r1)) of
                   None \<Rightarrow> None | Some (vs, r2) \<Rightarrow> Some (v # vs, r2))
              else None))"
| "json_members 0 acc s = None"
| "json_members (Suc n) acc s =
     (if take 1 s \<noteq> [CHR 0x22] then None
      else case string_body (tl s) of
        None \<Rightarrow> None
      | Some (k, r) \<Rightarrow>
          (let r1 = skip_space r
           in if take 1 r1 \<noteq> '':'' then None
              else case json_value n (skip_space (tl r1)) of
                None \<Rightarrow> None
              | Some (v, r2) \<Rightarrow>
                  (let acc' = AList.update k v acc; r3 = skip_space r2
                   in if take 1 r3 = ''}'' then Some (acc', tl r3)
                      else if take 1 r3 = '','' then json_members n acc' (skip_space (tl r3))
                      else None)))"

text \<open>\<open>json.loads\<close>; \<open>None\<close> is a \<open>JSONDecodeError\<close>.\<close>

definition json_loads :: "string \<Rightarrow> json option" where
  "json_loads s =
     (case json_value (2 * length s + 2) (skip_space s) of
        None \<Rightarrow> None
      | Some (v, r) \<Rightarrow> if skip_space r = [] then Some v else None)"

section \<open>Writing\<close>

definition hex_char :: "nat \<Rightarrow> char" where
  "hex_char n = (if n < 10 then char_of (48 + n) else char_of (87 + n))"

definition u_escape :: "nat \<Rightarrow> string" where
  "u_escape n = [CHR 0x5C, CHR ''u'', hex_char (n div 4096 mod 16), hex_char (n div 256 mod 16),
     hex_char (n div 16 mod 16), hex_char (n mod 16)]"

text \<open>One character of a string literal; \<open>ascii\<close> is \<open>ensure_ascii\<close>.\<close>

definition escaped :: "bool \<Rightarrow> nat \<Rightarrow> string" where
  "escaped ascii n =
     (if n = 0x22 then [CHR 0x5C, CHR 0x22]
      else if n = 0x5C then [CHR 0x5C, CHR 0x5C]
      else if n = 0x0A then [CHR 0x5C, CHR ''n'']
      else if n = 0x0D then [CHR 0x5C, CHR ''r'']
      else if n = 0x09 then [CHR 0x5C, CHR ''t'']
      else if n = 0x0C then [CHR 0x5C, CHR ''f'']
      else if n = 0x08 then [CHR 0x5C, CHR ''b'']
      else if n < 32 then u_escape n
      else if \<not> ascii \<or> n < 0x7F then utf8 n
      else if n = 0x7F then utf8 n
      else if n < 0x10000 then u_escape n
      else u_escape (0xD800 + (n - 0x10000) div 1024) @ u_escape (0xDC00 + (n - 0x10000) mod 1024))"

definition quoted :: "bool \<Rightarrow> string \<Rightarrow> string" where
  "quoted ascii s = [CHR 0x22] @ concat (map (escaped ascii) (code_points s)) @ [CHR 0x22]"

text \<open>
  \<open>json.dumps\<close> with \<open>sort_keys=True\<close> and \<open>separators=(",", ":")\<close>; \<open>repr\<close> gives the digits of a
  float.
\<close>

fun json_dumps :: "bool \<Rightarrow> (rat \<Rightarrow> string) \<Rightarrow> json \<Rightarrow> string" where
  "json_dumps ascii repr JNull = ''null''"
| "json_dumps ascii repr (JBool b) = (if b then ''true'' else ''false'')"
| "json_dumps ascii repr (JInt i) = show_int i"
| "json_dumps ascii repr (JNum x) = repr x"
| "json_dumps ascii repr (JStr t) = quoted ascii t"
| "json_dumps ascii repr (JArr vs) = ''['' @ join '','' (map (json_dumps ascii repr) vs) @ '']''"
| "json_dumps ascii repr (JObj ms) =
     ''{'' @ join '','' (map snd (sort_key fst (map (\<lambda>(k, v).
         (k, quoted ascii k @ '':'' @ json_dumps ascii repr v)) ms))) @ ''}''"

section \<open>Decoded values in Python\<close>

text \<open>Truth value, \<open>value.get(key, default)\<close>, iteration and indexing with \<open>0\<close>.\<close>

fun py_truth :: "json \<Rightarrow> bool" where
  "py_truth JNull = False"
| "py_truth (JBool b) = b"
| "py_truth (JInt i) = (i \<noteq> 0)"
| "py_truth (JNum x) = (x \<noteq> 0)"
| "py_truth (JStr t) = (t \<noteq> [])"
| "py_truth (JArr vs) = (vs \<noteq> [])"
| "py_truth (JObj ms) = (ms \<noteq> [])"

definition py_get :: "json \<Rightarrow> string \<Rightarrow> json \<Rightarrow> exn + json" where
  "py_get v k dflt = (case v of
      JObj ms \<Rightarrow> Inr (case map_of ms k of None \<Rightarrow> dflt | Some x \<Rightarrow> x)
    | _ \<Rightarrow> Inl (AttributeError ''get''))"

text \<open>The characters of a string, each as the string of its bytes.\<close>

definition py_chars :: "string \<Rightarrow> string list" where
  "py_chars t = map utf8 (code_points t)"

fun py_iter :: "json \<Rightarrow> exn + json list" where
  "py_iter (JArr vs) = Inr vs"
| "py_iter (JObj ms) = Inr (map (\<lambda>(k, _). JStr k) ms)"
| "py_iter (JStr t) = Inr (map JStr (py_chars t))"
| "py_iter _ = Inl (TypeError ''object is not iterable'')"

fun py_first :: "json \<Rightarrow> json option" where
  "py_first (JArr (v # _)) = Some v"
| "py_first (JStr t) = (case py_chars t of c # _ \<Rightarrow> Some (JStr c) | [] \<Rightarrow> None)"
| "py_first _ = None"

text \<open>\<open>str(value)\<close>; the texts of floats and containers are the parameter \<open>repr\<close>.\<close>

fun py_str :: "(json \<Rightarrow> string) \<Rightarrow> json \<Rightarrow> string" where
  "py_str repr JNull = ''None''"
| "py_str repr (JBool b) = (if b then ''True'' else ''False'')"
| "py_str repr (JInt i) = show_int i"
| "py_str repr (JStr t) = t"
| "py_str repr v = repr v"

text \<open>\<open>int(text)\<close>: a sign and digits, single underscores between digits, white space around.\<close>

fun digit_groups :: "string \<Rightarrow> bool" where
  "digit_groups [] = False"
| "digit_groups [c] = is_digit c"
| "digit_groups (c # d # s) = (is_digit c \<and>
     (if d = CHR ''_'' then digit_groups s else digit_groups (d # s)))"

definition py_int_text :: "string \<Rightarrow> int option" where
  "py_int_text t =
     (let s = py_strip t;
          (neg, ds) = (case s of
              c # s' \<Rightarrow> if c = CHR ''-'' then (True, s') else if c = CHR ''+'' then (False, s') else (False, s)
            | [] \<Rightarrow> (False, s));
          n = int (digits_value (filter is_digit ds))
      in if digit_groups ds then Some (if neg then - n else n) else None)"

fun py_int :: "json \<Rightarrow> exn + int" where
  "py_int (JInt i) = Inr i"
| "py_int (JBool b) = Inr (if b then 1 else 0)"
| "py_int (JNum x) = Inr (if x \<ge> 0 then \<lfloor>x\<rfloor> else \<lceil>x\<rceil>)"
| "py_int (JStr t) = (case py_int_text t of
     None \<Rightarrow> Inl (ValueError ''invalid literal for int()'') | Some i \<Rightarrow> Inr i)"
| "py_int _ = Inl (TypeError ''int() argument must be a string or a number'')"

end
