(* ===== verification/Json_Roundtrip.thy ===== *)
theory Json_Roundtrip
  imports Json_Text
begin

text \<open>
  Reading back what was written: \<open>json.loads (json.dumps v)\<close> is \<open>v\<close> with its keys sorted, for every
  value without floats whose texts are valid UTF-8 and whose objects repeat no key. This is the
  fact behind every file and message the program writes and reads again.
\<close>

section \<open>UTF-8\<close>

definition scalar :: "nat \<Rightarrow> bool" where
  "scalar n \<longleftrightarrow> n < 0xD800 \<or> (0xE000 \<le> n \<and> n < 0x110000)"

definition text_of :: "nat list \<Rightarrow> string" where
  "text_of ns = concat (map utf8 ns)"

lemma byte_char_of [simp]: "n < 256 \<Longrightarrow> byte (char_of n) = n"
  by (simp add: byte_def)

lemma mod_add_small: "(k::nat) mod m = 0 \<Longrightarrow> x < m \<Longrightarrow> (k + x) mod m = x"
  using mod_add_left_eq [of k m x] by simp

text \<open>Splitting a number into its digits of six and of four bits.\<close>

lemma sextets:
  "(n::nat) div 64 * 64 + n mod 64 = n"
  "n div 4096 * 4096 + n div 64 mod 64 * 64 + n mod 64 = n"
  "n div 262144 * 262144 + n div 4096 mod 64 * 4096 + n div 64 mod 64 * 64 + n mod 64 = n"
proof -
  show 1: "n div 64 * 64 + n mod 64 = n" by simp
  have d: "n div 64 div 64 = n div 4096" "n div 4096 div 64 = n div 262144"
    by (simp_all add: div_mult2_eq [symmetric])
  have 2: "n div 4096 * 64 + n div 64 mod 64 = n div 64" using div_mult_mod_eq [of "n div 64" 64] d by simp
  have 3: "n div 262144 * 64 + n div 4096 mod 64 = n div 4096" using div_mult_mod_eq [of "n div 4096" 64] d by simp
  show "n div 4096 * 4096 + n div 64 mod 64 * 64 + n mod 64 = n" using 1 2 by linarith
  show "n div 262144 * 262144 + n div 4096 mod 64 * 4096 + n div 64 mod 64 * 64 + n mod 64 = n"
    using 1 2 3 by linarith
qed

lemma nibbles:
  assumes "(n::nat) < 0x10000"
  shows "n div 4096 mod 16 * 4096 + n div 256 mod 16 * 256 + n div 16 mod 16 * 16 + n mod 16 = n"
proof -
  have d: "n div 16 div 16 = n div 256" "n div 256 div 16 = n div 4096"
    by (simp_all add: div_mult2_eq [symmetric])
  have "n div 4096 < 16" using assms by (simp add: less_mult_imp_div_less)
  then have "n div 4096 mod 16 = n div 4096" by simp
  moreover have "n div 16 * 16 + n mod 16 = n" by simp
  moreover have "n div 256 * 16 + n div 16 mod 16 = n div 16" using div_mult_mod_eq [of "n div 16" 16] d by simp
  moreover have "n div 4096 * 16 + n div 256 mod 16 = n div 256" using div_mult_mod_eq [of "n div 256" 16] d by simp
  ultimately show ?thesis by linarith
qed

lemma code_points_utf8:
  assumes "n < 0x110000"
  shows "code_points (utf8 n @ s) = n # code_points s"
proof -
  have low: "(0x80 + x mod 64) mod 64 = x mod 64" for x :: nat by (rule mod_add_small) simp_all
  consider "n < 0x80" | "0x80 \<le> n" "n < 0x800" | "0x800 \<le> n" "n < 0x10000" | "0x10000 \<le> n" by linarith
  then show ?thesis
  proof cases
    case 1
    then show ?thesis by (simp add: utf8_def)
  next
    case 2
    then have h: "n div 64 < 32" by (simp add: less_mult_imp_div_less)
    then have "(0xC0 + n div 64) mod 32 = n div 64" by (intro mod_add_small) simp_all
    with 2 h low sextets(1) show ?thesis by (simp add: utf8_def)
  next
    case 3
    then have h: "n div 4096 < 16" by (simp add: less_mult_imp_div_less)
    then have "(0xE0 + n div 4096) mod 16 = n div 4096" by (intro mod_add_small) simp_all
    with 3 h low sextets(2) show ?thesis by (simp add: utf8_def)
  next
    case 4
    then have h: "n div 262144 < 8" using assms by (simp add: less_mult_imp_div_less)
    then have "(0xF0 + n div 262144) mod 8 = n div 262144" by (intro mod_add_small) simp_all
    with 4 h low sextets(3) show ?thesis by (simp add: utf8_def)
  qed
qed

lemma code_points_text: "\<forall>n \<in> set ns. n < 0x110000 \<Longrightarrow> code_points (text_of ns) = ns"
  by (induction ns) (simp_all add: text_of_def code_points_utf8)

section \<open>String literals\<close>

lemma hex_value_char: "d < 16 \<Longrightarrow> hex_value (hex_char d) = Some d"
proof -
  have "\<forall>d \<in> set [0..<16]. hex_value (hex_char d) = Some d" by code_simp
  then show "d < 16 \<Longrightarrow> hex_value (hex_char d) = Some d" by simp
qed

lemma hex4_digits:
  "n < 0x10000 \<Longrightarrow> hex4 ([hex_char (n div 4096 mod 16), hex_char (n div 256 mod 16), hex_char (n div 16 mod 16),
      hex_char (n mod 16)] @ s) = Some (n, s)"
  using nibbles [of n] by (simp add: hex_value_char)

text \<open>One written character is read as its UTF-8 bytes.\<close>

definition then_read :: "string \<Rightarrow> (string \<times> string) option \<Rightarrow> (string \<times> string) option" where
  "then_read x res = (case res of None \<Rightarrow> None | Some (t, r) \<Rightarrow> Some (x @ t, r))"

lemma string_body_plain:
  "byte c \<ge> 32 \<Longrightarrow> c \<noteq> CHR 0x22 \<Longrightarrow> c \<noteq> CHR 0x5C \<Longrightarrow> string_body (c # s) = then_read [c] (string_body s)"
  by (auto simp: then_read_def split: option.split)

lemma string_body_escape:
  "simple_escape e = Some x \<Longrightarrow> string_body (CHR 0x5C # e # s) = then_read [x] (string_body s)"
  by (auto simp: then_read_def simple_escape_def split: option.split if_splits)

lemma escaped_chars:
  "char_of (34::nat) = CHR 0x22" "char_of (92::nat) = CHR 0x5C" "char_of (10::nat) = CHR 0x0A"
  "char_of (13::nat) = CHR 0x0D" "char_of (9::nat) = CHR 0x09" "char_of (12::nat) = CHR 0x0C"
  "char_of (8::nat) = CHR 0x08"
  by code_simp+

lemma read_escapes:
  "string_body (CHR 0x5C # CHR 0x22 # s) = then_read [CHR 0x22] (string_body s)"
  "string_body (CHR 0x5C # CHR 0x5C # s) = then_read [CHR 0x5C] (string_body s)"
  "string_body (CHR 0x5C # CHR ''n'' # s) = then_read [CHR 0x0A] (string_body s)"
  "string_body (CHR 0x5C # CHR ''r'' # s) = then_read [CHR 0x0D] (string_body s)"
  "string_body (CHR 0x5C # CHR ''t'' # s) = then_read [CHR 0x09] (string_body s)"
  "string_body (CHR 0x5C # CHR ''f'' # s) = then_read [CHR 0x0C] (string_body s)"
  "string_body (CHR 0x5C # CHR ''b'' # s) = then_read [CHR 0x08] (string_body s)"
  by (rule string_body_escape, simp add: simple_escape_def)+

lemma string_body_u:
  assumes "n < 0x10000"
  shows "string_body (u_escape n @ s) =
    then_read (utf8 (fst (joined_escape n s))) (string_body (snd (joined_escape n s)))"
  using hex4_digits [OF assms, of s]
  by (auto simp: u_escape_def then_read_def simp del: hex4.simps split: option.split)

lemma then_read_append: "then_read x (then_read y res) = then_read (x @ y) res"
  by (auto simp: then_read_def split: option.split)

lemma char_of_neq: "n < 256 \<Longrightarrow> n \<noteq> byte c \<Longrightarrow> char_of n \<noteq> c"
  by (auto simp: byte_def)

lemma string_body_high_byte:
  "128 \<le> (n::nat) \<Longrightarrow> n < 256 \<Longrightarrow> string_body (char_of n # s) = then_read [char_of n] (string_body s)"
  by (rule string_body_plain) (simp, (rule char_of_neq, simp, simp add: byte_def)+)

lemma string_body_utf8:
  assumes "128 \<le> n" and "n < 0x110000"
  shows "string_body (utf8 n @ s) = then_read (utf8 n) (string_body s)"
proof -
  have m: "x mod 64 < 64" for x :: nat by simp
  consider "n < 0x800" | "0x800 \<le> n" "n < 0x10000" | "0x10000 \<le> n" by linarith
  then show ?thesis
  proof cases
    case 1
    then have "n div 64 < 32" by (simp add: less_mult_imp_div_less)
    with 1 m assms show ?thesis
      by (simp add: utf8_def string_body_high_byte then_read_append trans_less_add1 del: string_body.simps)
  next
    case 2
    then have "n div 4096 < 16" by (simp add: less_mult_imp_div_less)
    with 2 m assms show ?thesis
      by (simp add: utf8_def string_body_high_byte then_read_append trans_less_add1 del: string_body.simps)
  next
    case 3
    then have "n div 262144 < 8" using assms by (simp add: less_mult_imp_div_less)
    with 3 m assms show ?thesis
      by (simp add: utf8_def string_body_high_byte then_read_append trans_less_add1 del: string_body.simps)
  qed
qed

lemma string_body_escaped:
  assumes "scalar n"
  shows "string_body (escaped a n @ s) = then_read (utf8 n) (string_body s)"
proof -
  consider "n \<in> {0x22, 0x5C, 0x0A, 0x0D, 0x09, 0x0C, 0x08}" | "n < 32" "n \<notin> {0x0A, 0x0D, 0x09, 0x0C, 0x08}"
    | "32 \<le> n" "n < 128" "n \<notin> {0x22, 0x5C}" | "128 \<le> n" "\<not> a" | "128 \<le> n" "n < 0x10000" a
    | "0x10000 \<le> n" a by fastforce
  then show ?thesis
  proof cases
    case 1
    then show ?thesis
      by (elim insertE emptyE)
         (simp_all add: escaped_def utf8_def read_escapes escaped_chars del: string_body.simps)
  next
    case 2
    then show ?thesis by (simp add: escaped_def string_body_u joined_escape_def del: string_body.simps)
  next
    case 3
    then have "string_body (char_of n # s) = then_read [char_of n] (string_body s)"
      by (intro string_body_plain) (simp, (rule char_of_neq, simp, simp add: byte_def)+)
    with 3 show ?thesis by (auto simp: escaped_def utf8_def simp del: string_body.simps)
  next
    case 4
    have "n < 0x110000" using assms by (auto simp: scalar_def)
    then show ?thesis
      using 4 string_body_utf8 [of n s] by (simp add: escaped_def del: string_body.simps)
  next
    case 5
    then show ?thesis
      using assms
      by (auto simp: escaped_def scalar_def string_body_u joined_escape_def simp del: string_body.simps)
  next
    case 6
    let ?hi = "0xD800 + (n - 0x10000) div 1024" and ?lo = "0xDC00 + (n - 0x10000) mod 1024"
    have n: "n < 0x110000" using assms 6 by (auto simp: scalar_def)
    then have "(n - 0x10000) div 1024 < 1024" by (simp add: less_mult_imp_div_less)
    then have hi: "0xD800 \<le> ?hi" "?hi < 0xDC00" by simp_all
    have "(n - 0x10000) mod 1024 < 1024" by simp
    then have lo: "0xDC00 \<le> ?lo" "?lo < 0xE000" by simp_all
    have "0x10000 + (?hi - 0xD800) * 1024 + (?lo - 0xDC00) = n" using 6 by simp
    moreover have "hex4 (drop 2 (u_escape ?lo @ s)) = Some (?lo, s)"
      using hex4_digits [of ?lo s] lo by (simp add: u_escape_def del: hex4.simps)
    moreover have "take 2 (u_escape ?lo @ s) = [CHR 0x5C, CHR ''u'']" by (simp add: u_escape_def)
    ultimately have "joined_escape ?hi (u_escape ?lo @ s) = (n, s)"
      using hi lo by (simp add: joined_escape_def)
    then show ?thesis
      using 6 string_body_u [of ?hi "u_escape ?lo @ s"] hi
      by (simp add: escaped_def del: string_body.simps)
  qed
qed

lemma string_body_quoted:
  "\<forall>n \<in> set ns. scalar n \<Longrightarrow>
     string_body (concat (map (escaped a) ns) @ CHR 0x22 # s) = Some (text_of ns, s)"
proof (induction ns)
  case Nil
  then show ?case by (simp add: text_of_def)
next
  case (Cons n ns)
  then show ?case
    by (simp add: string_body_escaped text_of_def then_read_def del: string_body.simps)
qed

text \<open>Valid UTF-8 texts, and the string literal as a whole.\<close>

definition clean_text :: "string \<Rightarrow> bool" where
  "clean_text t \<longleftrightarrow> list_all scalar (code_points t) \<and> text_of (code_points t) = t"

lemma read_quoted: "clean_text t \<Longrightarrow> string_body (tl (quoted a t) @ s) = Some (t, s)"
  using string_body_quoted [of "code_points t" a s]
  by (simp add: quoted_def clean_text_def list_all_iff del: string_body.simps)

section \<open>Numbers\<close>

text \<open>What may follow a value inside a text that \<open>json.dumps\<close> wrote.\<close>

definition stops :: "string \<Rightarrow> bool" where
  "stops r \<longleftrightarrow> (case r of [] \<Rightarrow> True | c # _ \<Rightarrow> c \<in> {CHR '','', CHR '']'', CHR ''}''})"

lemma digit_chars:
  assumes "d < 10"
  shows "is_digit (char_of (48 + d))" "byte (char_of (48 + d)) = 48 + d" "char_of (48 + d) = CHR ''0'' \<longleftrightarrow> d = 0"
proof -
  have "\<forall>d \<in> set [0..<10]. is_digit (char_of (48 + d)) \<and> (char_of (48 + d) = CHR ''0'' \<longleftrightarrow> d = 0)"
    by code_simp
  then show "is_digit (char_of (48 + d))" "char_of (48 + d) = CHR ''0'' \<longleftrightarrow> d = 0" using assms by simp_all
  show "byte (char_of (48 + d)) = 48 + d" using assms by simp
qed

lemma digits_value_snoc: "digits_value (s @ [c]) = digits_value s * 10 + (byte c - 48)"
  by (simp add: digits_value_def)

lemma show_nat_facts:
  "list_all is_digit (show_nat n) \<and> show_nat n \<noteq> [] \<and> digits_value (show_nat n) = n \<and>
   (hd (show_nat n) = CHR ''0'' \<longrightarrow> n = 0)"
proof (induction n rule: show_nat.induct)
  case (1 n)
  show ?case
  proof (cases "n < 10")
    case True
    then show ?thesis
      using digit_chars [OF True] by (simp add: show_nat.simps [of n] digits_value_def)
  next
    case False
    note IH = 1 [OF False]
    have d: "n mod 10 < 10" by simp
    have "n div 10 \<noteq> 0" using False by simp
    then show ?thesis
      using False IH digit_chars [OF d] by (simp add: show_nat.simps [of n] digits_value_snoc)
  qed
qed

lemma not_digit:
  "\<not> is_digit (CHR '','')" "\<not> is_digit (CHR '']'')" "\<not> is_digit (CHR ''}'')" "\<not> is_digit (CHR ''-'')"
  by (simp_all add: is_digit_code)

lemma takeWhile_number:
  assumes "list_all P ds" and "case r of [] \<Rightarrow> True | c # _ \<Rightarrow> \<not> P c"
  shows "takeWhile P (ds @ r) = ds" "dropWhile P (ds @ r) = r"
  using assms by (induction ds) (auto split: list.splits)

lemma stops_number: "stops r \<Longrightarrow> fraction r = ([], r) \<and> exponent r = (None, r)"
  by (auto simp: stops_def fraction_def exponent_def split: list.splits)

lemma read_nat:
  assumes "stops r"
  shows "json_number (show_nat n @ r) = Some (JInt (int n), r)"
    and "json_number (CHR ''-'' # show_nat n @ r) = Some (JInt (- int n), r)"
proof -
  obtain c ds where c: "show_nat n = c # ds" using show_nat_facts [of n] by (cases "show_nat n") auto
  have digits: "list_all is_digit (c # ds)" and v: "digits_value (c # ds) = n"
    and z: "c = CHR ''0'' \<Longrightarrow> n = 0"
    using show_nat_facts [of n] c by auto
  have r: "case r of [] \<Rightarrow> True | c # _ \<Rightarrow> \<not> is_digit c"
    using assms by (auto simp: stops_def not_digit split: list.splits)
  note tw = takeWhile_number [OF digits r]
  have minus: "c \<noteq> CHR ''-''" using digits not_digit(4) by auto
  have parts: "(if c = CHR ''0'' then ([c], ds @ r) else (takeWhile is_digit (c # ds @ r), dropWhile is_digit (c # ds @ r)))
      = (c # ds, r)"
  proof (cases "c = CHR ''0''")
    case True
    then have "n = 0" by (rule z)
    then have "ds = []" using c by (simp add: show_nat.simps)
    with True show ?thesis by simp
  qed (use tw in simp)
  show "json_number (show_nat n @ r) = Some (JInt (int n), r)"
    using minus parts v stops_number [OF assms]
    by (simp add: json_number_def c Let_def split: if_splits)
  show "json_number (CHR ''-'' # show_nat n @ r) = Some (JInt (- int n), r)"
    using parts v stops_number [OF assms]
    by (simp add: json_number_def c Let_def split: if_splits)
qed

lemma read_int:
  assumes "stops r"
  shows "json_number (show_int i @ r) = Some (JInt i, r)"
  using read_nat [OF assms, of "nat i"] read_nat [OF assms, of "nat (- i)"]
  by (auto simp: show_int_def)

section \<open>Values\<close>

fun sorted_json :: "json \<Rightarrow> json" where
  "sorted_json (JArr vs) = JArr (map sorted_json vs)"
| "sorted_json (JObj ms) = JObj (sort_key fst (map (\<lambda>(k, v). (k, sorted_json v)) ms))"
| "sorted_json v = v"

fun clean :: "json \<Rightarrow> bool" where
  "clean (JNum x) = False"
| "clean (JStr t) = clean_text t"
| "clean (JArr vs) = list_all clean vs"
| "clean (JObj ms) = (distinct (map fst ms) \<and> list_all (\<lambda>(k, v). clean_text k \<and> clean v) ms)"
| "clean _ = True"

lemma sort_key_map:
  "(\<And>x. fst (f x) = fst x) \<Longrightarrow> sort_key fst (map f xs) = map f (sort_key fst xs)"
proof -
  assume f: "\<And>x. fst (f x) = fst x"
  have "insort_key fst (f x) (map f ys) = map f (insort_key fst x ys)" for x ys
    by (induction ys) (auto simp: f)
  then show ?thesis by (induction xs) simp_all
qed

definition member_text :: "bool \<Rightarrow> (rat \<Rightarrow> string) \<Rightarrow> string \<times> json \<Rightarrow> string" where
  "member_text a repr m = quoted a (fst m) @ '':'' @ json_dumps a repr (snd m)"

lemma dumps_object:
  "json_dumps a repr (JObj ms) = ''{'' @ join '','' (map (member_text a repr) (sort_key fst ms)) @ ''}''"
proof -
  let ?f = "\<lambda>(k, v). (k, quoted a k @ '':'' @ json_dumps a repr v)"
  have "sort_key fst (map ?f ms) = map ?f (sort_key fst ms)" by (rule sort_key_map) auto
  moreover have "member_text a repr = (\<lambda>x. quoted a (fst x) @ '':'' @ json_dumps a repr (snd x))"
    by (simp add: fun_eq_iff member_text_def)
  ultimately show ?thesis by (simp add: case_prod_unfold comp_def)
qed

lemma sorted_object:
  "sorted_json (JObj ms) = JObj (map (\<lambda>(k, v). (k, sorted_json v)) (sort_key fst ms))"
  using sort_key_map [of "\<lambda>(k, v). (k, sorted_json v)" ms] by auto

lemma show_int_first: "\<exists>c cs. show_int i = c # cs \<and> (is_digit c \<or> c = CHR ''-'')"
  using show_nat_facts [of "nat i"] show_nat_facts [of "nat (- i)"]
  by (cases "show_nat (nat i)") (auto simp: show_int_def)

lemma first_char:
  assumes "clean v"
  obtains c cs where "json_dumps a repr v = c # cs" and "\<not> json_space c" and "c \<noteq> CHR '']''"
proof (cases v)
  case (JInt i)
  obtain c cs where c: "show_int i = c # cs" "is_digit c \<or> c = CHR ''-''" using show_int_first by blast
  then have "\<not> json_space c \<and> c \<noteq> CHR '']''" by (auto simp: json_space_def is_digit_code)
  then show ?thesis using that c JInt by simp
next
  case (JBool b)
  then show ?thesis using that by (cases b) (auto simp: json_space_def)
qed (use assms that in \<open>auto simp: json_space_def quoted_def\<close>)

lemma skip_first: "\<not> json_space c \<Longrightarrow> skip_space (c # s) = c # s"
  by (simp add: skip_space_def)

lemma json_space_marks:
  "\<not> json_space (CHR '','')" "\<not> json_space (CHR '':'')" "\<not> json_space (CHR '']'')" "\<not> json_space (CHR ''}'')"
  "\<not> json_space (CHR 0x22)"
  by (simp_all add: json_space_def)

lemma join_Cons: "join sep (x # y # ys) = x @ sep @ join sep (y # ys)"
  by simp

definition reads :: "bool \<Rightarrow> (rat \<Rightarrow> string) \<Rightarrow> json \<Rightarrow> bool" where
  "reads a repr v \<longleftrightarrow> (\<forall>n r. 2 * length (json_dumps a repr v) \<le> Suc n \<longrightarrow> stops r \<longrightarrow>
     json_value n (json_dumps a repr v @ r) = Some (sorted_json v, r))"

lemma read_elements:
  assumes "vs \<noteq> []" and "\<And>v. v \<in> set vs \<Longrightarrow> reads a repr v \<and> clean v"
    and "2 * length (join '','' (map (json_dumps a repr) vs)) \<le> n"
  shows "json_elements n (join '','' (map (json_dumps a repr) vs) @ CHR '']'' # r) = Some (map sorted_json vs, r)"
  using assms
proof (induction vs arbitrary: n)
  case (Cons v vs)
  have v: "reads a repr v" and cl: "clean v" using Cons.prems(2) by auto
  obtain c cs where c: "json_dumps a repr v = c # cs" using first_char [OF cl] by blast
  show ?case
  proof (cases vs)
    case Nil
    then obtain m where n: "n = Suc m" using Cons.prems(3) c by (cases n) auto
    have "json_value m (json_dumps a repr v @ CHR '']'' # r) = Some (sorted_json v, CHR '']'' # r)"
      using v Cons.prems(3) Nil n by (simp add: reads_def stops_def)
    then show ?thesis using Nil n by (simp add: skip_first json_space_marks)
  next
    case (Cons w ws)
    let ?rest = "join '','' (map (json_dumps a repr) vs)"
    have j: "join '','' (map (json_dumps a repr) (v # vs)) = json_dumps a repr v @ '','' @ ?rest"
      using Cons by simp
    obtain m where n: "n = Suc m" using Cons.prems(3) c unfolding j by (cases n) auto
    have "clean w" using Cons.prems(2) Cons by simp
    then obtain d ds where d: "json_dumps a repr w = d # ds" "\<not> json_space d" using first_char by blast
    have rest: "?rest = d # (case ws of [] \<Rightarrow> ds | _ \<Rightarrow> ds @ '','' @ join '','' (map (json_dumps a repr) ws))"
      using Cons d by (cases ws) simp_all
    have "json_value m (json_dumps a repr v @ CHR '','' # ?rest @ CHR '']'' # r)
        = Some (sorted_json v, CHR '','' # ?rest @ CHR '']'' # r)"
      using v Cons.prems(3) n unfolding j by (simp add: reads_def stops_def)
    moreover have "json_elements m (?rest @ CHR '']'' # r) = Some (map sorted_json vs, r)"
    proof (rule Cons.IH)
      show "2 * length ?rest \<le> m" using Cons.prems(3) n unfolding j by simp
    qed (use Cons.prems(2) Cons in auto)
    moreover have "skip_space (?rest @ CHR '']'' # r) = ?rest @ CHR '']'' # r"
      using rest d(2) by (simp add: skip_first)
    ultimately show ?thesis unfolding j n by (simp add: skip_first json_space_marks)
  qed
qed simp

lemma quoted_first: "quoted a k = CHR 0x22 # tl (quoted a k)"
  by (simp add: quoted_def)

lemma member_first: "\<exists>s. member_text a repr m = CHR 0x22 # s"
  by (simp add: member_text_def quoted_def)

lemma member_length: "length (json_dumps a repr (snd m)) < length (member_text a repr m)"
  by (simp add: member_text_def quoted_def)

text \<open>One member, up to the value's end.\<close>

lemma read_member:
  assumes "clean_text (fst m)" and "reads a repr (snd m)" and "clean (snd m)"
    and "2 * length (member_text a repr m) \<le> Suc n" and "stops r"
  shows "json_members (Suc n) acc (member_text a repr m @ r) =
    (let acc' = AList.update (fst m) (sorted_json (snd m)) acc; r3 = skip_space r
     in if take 1 r3 = ''}'' then Some (acc', tl r3)
        else if take 1 r3 = '','' then json_members n acc' (skip_space (tl r3)) else None)"
proof -
  obtain c cs where c: "json_dumps a repr (snd m) = c # cs" "\<not> json_space c"
    using first_char [OF assms(3)] by blast
  have "string_body (tl (quoted a (fst m)) @ CHR '':'' # json_dumps a repr (snd m) @ r)
      = Some (fst m, CHR '':'' # json_dumps a repr (snd m) @ r)"
    using read_quoted [OF assms(1)] by blast
  moreover have "json_value n (json_dumps a repr (snd m) @ r) = Some (sorted_json (snd m), r)"
    using assms(2,4,5) member_length [of a repr m] by (simp add: reads_def)
  moreover have "member_text a repr m @ r = CHR 0x22 # tl (quoted a (fst m)) @ CHR '':'' # json_dumps a repr (snd m) @ r"
    using quoted_first [of a "fst m"] by (simp add: member_text_def)
  ultimately show ?thesis
    using c by (simp add: skip_first json_space_marks del: string_body.simps)
qed

lemma read_members:
  assumes "ms \<noteq> []" and "\<And>m. m \<in> set ms \<Longrightarrow> reads a repr (snd m) \<and> clean (snd m) \<and> clean_text (fst m)"
    and "distinct (map fst (acc @ ms))" and "2 * length (join '','' (map (member_text a repr) ms)) \<le> n"
  shows "json_members n acc (join '','' (map (member_text a repr) ms) @ CHR ''}'' # r) =
    Some (acc @ map (\<lambda>(k, v). (k, sorted_json v)) ms, r)"
  using assms
proof (induction ms arbitrary: n acc)
  case (Cons m ms)
  have m: "reads a repr (snd m)" "clean (snd m)" "clean_text (fst m)" using Cons.prems(2) by auto
  have new: "AList.update (fst m) (sorted_json (snd m)) acc = acc @ [(fst m, sorted_json (snd m))]"
    using Cons.prems(3) by (intro dupdate_fresh) auto
  obtain q where q: "member_text a repr m = CHR 0x22 # q" using member_first by blast
  show ?case
  proof (cases ms)
    case Nil
    then obtain k where n: "n = Suc k" using Cons.prems(4) q by (cases n) auto
    have "2 * length (member_text a repr m) \<le> Suc k" using Cons.prems(4) Nil n by simp
    from read_member [OF m(3,1,2) this, of "CHR ''}'' # r" acc]
    show ?thesis using Nil n new by (simp add: stops_def skip_first json_space_marks case_prod_unfold)
  next
    case (Cons m' ms')
    let ?rest = "join '','' (map (member_text a repr) ms)"
    have j: "join '','' (map (member_text a repr) (m # ms)) = member_text a repr m @ '','' @ ?rest"
      using Cons by simp
    obtain k where n: "n = Suc k" using Cons.prems(4) q unfolding j by (cases n) auto
    obtain q' where q': "?rest = CHR 0x22 # q'"
      using member_first [of a repr m'] Cons by (cases ms') auto
    have l: "2 * length (member_text a repr m) \<le> Suc k" "2 * length ?rest \<le> k"
      using Cons.prems(4) n unfolding j by auto
    have "json_members k (acc @ [(fst m, sorted_json (snd m))]) (?rest @ CHR ''}'' # r)
        = Some ((acc @ [(fst m, sorted_json (snd m))]) @ map (\<lambda>(k, v). (k, sorted_json v)) ms, r)"
      by (rule Cons.IH) (use Cons.prems Cons l(2) in auto)
    moreover have "skip_space (?rest @ CHR ''}'' # r) = ?rest @ CHR ''}'' # r"
      by (simp add: q' skip_first json_space_marks)
    ultimately show ?thesis
      using read_member [OF m(3,1,2) l(1), of "CHR '','' # ?rest @ CHR ''}'' # r" acc] n new
      unfolding j by (simp add: stops_def skip_first json_space_marks case_prod_unfold)
  qed
qed simp

text \<open>The leaves.\<close>

lemma read_leaf:
  "reads a repr JNull" "reads a repr (JBool b)" "clean_text t \<Longrightarrow> reads a repr (JStr t)" "reads a repr (JInt i)"
proof -
  have n: "\<exists>m. n = Suc m" if "2 * length (json_dumps a repr v) \<le> Suc n" "json_dumps a repr v \<noteq> []" for n v
    using that by (cases n; cases "json_dumps a repr v") auto
  show "reads a repr JNull"
    unfolding reads_def
  proof (intro allI impI)
    fix k r
    assume "2 * length (json_dumps a repr JNull) \<le> Suc k" "stops r"
    then obtain m where "k = Suc m" using n [of JNull k] by auto
    then show "json_value k (json_dumps a repr JNull @ r) = Some (sorted_json JNull, r)"
      by (simp add: starts_with_def)
  qed
  show "reads a repr (JBool b)"
    unfolding reads_def
  proof (intro allI impI)
    fix k r
    assume "2 * length (json_dumps a repr (JBool b)) \<le> Suc k" "stops r"
    then obtain m where "k = Suc m" using n [of "JBool b" k] by (cases b) auto
    then show "json_value k (json_dumps a repr (JBool b) @ r) = Some (sorted_json (JBool b), r)"
      by (cases b) (simp_all add: starts_with_def)
  qed
  show "reads a repr (JStr t)" if "clean_text t"
    unfolding reads_def
  proof (intro allI impI)
    fix k r
    assume "2 * length (json_dumps a repr (JStr t)) \<le> Suc k" "stops r"
    then obtain m where "k = Suc m" using n [of "JStr t" k] by (auto simp: quoted_def)
    then show "json_value k (json_dumps a repr (JStr t) @ r) = Some (sorted_json (JStr t), r)"
      using read_quoted [OF that, of a r] quoted_first [of a t]
      by (cases "quoted a t") (simp_all del: string_body.simps)
  qed
  show "reads a repr (JInt i)"
    unfolding reads_def
  proof (intro allI impI)
    fix k r
    assume l: "2 * length (json_dumps a repr (JInt i)) \<le> Suc k" and r: "stops r"
    obtain c cs where c: "show_int i = c # cs" "is_digit c \<or> c = CHR ''-''" using show_int_first by blast
    then obtain m where k: "k = Suc m" using n [of "JInt i" k] l by auto
    have "c \<noteq> CHR 0x22 \<and> c \<noteq> CHR ''['' \<and> c \<noteq> CHR ''{'' \<and> c \<noteq> CHR ''n'' \<and> c \<noteq> CHR ''t'' \<and> c \<noteq> CHR ''f''"
      using c(2) by (auto simp: is_digit_code)
    then show "json_value k (json_dumps a repr (JInt i) @ r) = Some (sorted_json (JInt i), r)"
      using read_int [OF r, of i] c(1) k by (auto simp: starts_with_def)
  qed
qed

lemma reads_clean: "clean v \<Longrightarrow> reads a repr v"
proof (induction v)
  case (JArr vs)
  have all: "\<And>v. v \<in> set vs \<Longrightarrow> reads a repr v \<and> clean v" using JArr by (auto simp: list_all_iff)
  show ?case
    unfolding reads_def
  proof (intro allI impI)
    fix n r
    assume l: "2 * length (json_dumps a repr (JArr vs)) \<le> Suc n"
    then obtain m where n: "n = Suc m" by (cases n) auto
    show "json_value n (json_dumps a repr (JArr vs) @ r) = Some (sorted_json (JArr vs), r)"
    proof (cases vs)
      case Nil
      then show ?thesis using n by (simp add: skip_first json_space_marks)
    next
      case (Cons w ws)
      have "clean w" using all Cons by simp
      then obtain c cs where c: "json_dumps a repr w = c # cs" "\<not> json_space c" "c \<noteq> CHR '']''"
        using first_char by blast
      let ?t = "join '','' (map (json_dumps a repr) vs)"
      obtain q where q: "?t = c # q" using c Cons by (cases ws) auto
      have "json_elements m (?t @ CHR '']'' # r) = Some (map sorted_json vs, r)"
        using l n Cons by (intro read_elements all) auto
      moreover have "skip_space (?t @ CHR '']'' # r) = ?t @ CHR '']'' # r"
        using q c by (simp add: skip_first)
      ultimately show ?thesis using q c n by simp
    qed
  qed
next
  case (JObj ms)
  let ?ms = "sort_key fst ms"
  have all: "\<And>m. m \<in> set ?ms \<Longrightarrow> reads a repr (snd m) \<and> clean (snd m) \<and> clean_text (fst m)"
    using JObj by (auto simp: list_all_iff)
  have d: "distinct (map fst ?ms)"
    using JObj.prems by (simp add: distinct_map inj_on_def)
  show ?case
    unfolding reads_def
  proof (intro allI impI)
    fix n r
    assume l: "2 * length (json_dumps a repr (JObj ms)) \<le> Suc n"
    then obtain m where n: "n = Suc m" by (cases n) auto
    let ?t = "join '','' (map (member_text a repr) ?ms)"
    show "json_value n (json_dumps a repr (JObj ms) @ r) = Some (sorted_json (JObj ms), r)"
    proof (cases ?ms)
      case Nil
      then have "ms = []" by (metis length_0_conv length_sort)
      then show ?thesis using n by (simp add: skip_first json_space_marks)
    next
      case (Cons w ws)
      obtain q where q: "?t = CHR 0x22 # q" using member_first [of a repr w] Cons by (cases ws) auto
      have "json_members m [] (?t @ CHR ''}'' # r) = Some ([] @ map (\<lambda>(k, v). (k, sorted_json v)) ?ms, r)"
        using l n Cons d unfolding dumps_object by (intro read_members all) auto
      moreover have "skip_space (?t @ CHR ''}'' # r) = ?t @ CHR ''}'' # r"
        by (simp add: q skip_first json_space_marks)
      ultimately show ?thesis
        using q n unfolding dumps_object sorted_object by simp
    qed
  qed
qed (simp_all add: read_leaf)

lemma loads_dumps:
  assumes "clean v"
  shows "json_loads (json_dumps a repr v) = Some (sorted_json v)"
proof -
  obtain c cs where c: "json_dumps a repr v = c # cs" "\<not> json_space c" using first_char [OF assms] by blast
  have "json_value (2 * length (json_dumps a repr v) + 2) (json_dumps a repr v @ []) = Some (sorted_json v, [])"
    using reads_clean [OF assms, of a repr, unfolded reads_def, rule_format,
        of "2 * length (json_dumps a repr v) + 2" "[]"]
    by (simp add: stops_def del: json_value.simps)
  then show ?thesis using c by (simp add: json_loads_def skip_first del: json_value.simps, simp add: skip_space_def)
qed

text \<open>ASCII texts are valid.\<close>

lemma byte_Char [simp]: "byte (Char a b c d e f g h) < 128 \<longleftrightarrow> \<not> h"
  by (cases a; cases b; cases c; cases d; cases e; cases f; cases g; cases h; simp add: byte_def of_char_def)

lemma code_points_ascii: "list_all (\<lambda>c. byte c < 128) t \<Longrightarrow> code_points t = map byte t"
  by (induction t) simp_all

lemma utf8_byte: "byte c < 128 \<Longrightarrow> utf8 (byte c) = [c]"
  by (simp add: utf8_def byte_def)

lemma clean_ascii: "list_all (\<lambda>c. byte c < 128) t \<Longrightarrow> clean_text t"
proof -
  assume t: "list_all (\<lambda>c. byte c < 128) t"
  then have "text_of (map byte t) = t" by (induction t) (simp_all add: text_of_def utf8_byte)
  moreover have "list_all scalar (map byte t)" using t by (auto simp: list_all_iff scalar_def)
  ultimately show ?thesis using t by (simp add: clean_text_def code_points_ascii)
qed

text \<open>
  JSON round trip: reading what \<open>json.dumps\<close> wrote gives the value back, with the keys of its
  objects in sorted order, for every value without floats whose texts are valid UTF-8 and whose
  objects repeat no key, with and without escaping of non-ASCII characters.
\<close>

theorem json_roundtrip:
  "clean v \<Longrightarrow> json_loads (json_dumps a repr v) = Some (sorted_json v)"
  by (rule loads_dumps)

theorem json_roundtrip_witness:
  "json_loads (json_dumps True (\<lambda>_. []) (JObj [(''b'', JInt (- 3)), (''a'', JArr [JStr ''x'', JNull])]))
   = Some (JObj [(''a'', JArr [JStr ''x'', JNull]), (''b'', JInt (- 3))])"
proof -
  have "clean (JObj [(''b'', JInt (- 3)), (''a'', JArr [JStr ''x'', JNull])])"
    by (simp add: clean_ascii)
  from json_roundtrip [OF this, of True "\<lambda>_. []"] show ?thesis by (simp add: less_char_def)
qed

end
