(* ===== verification/Docker_Cli.thy ===== *)
theory Docker_Cli
  imports Event_Store Json_Text
begin

text \<open>
  The adapter of the Docker command line, \<open>src/agent_scheduler/worker/docker.py\<close>. The daemon is
  outside the source: its reply to a command is an arbitrary function of all commands so far
  (\<open>dk_daemon\<close>), and the commands issued are recorded in the state. Proved: what the adapter
  reports about a container is what the last inspection said, whatever the daemon replies.
\<close>

section \<open>State\<close>

record docker_call =
  dc_args :: "string list"
  dc_stdin :: "string option"
  dc_timeout :: int

record proc_result =
  pr_returncode :: int
  pr_stdout :: string
  pr_stderr :: string

text \<open>How \<open>subprocess.run\<close> ends: with a result, or with the exceptions it documents.\<close>

datatype docker_reply = Completed proc_result | Expired | Not_started | Not_text

record docker_world = world +
  dk_calls :: "docker_call list"
  dk_daemon :: "docker_call list \<Rightarrow> docker_reply"
  dk_repr :: "json \<Rightarrow> string"

record mount =
  mnt_source :: string
  mnt_destination :: string
  mnt_read_write :: bool

record inspection =
  ins_exists :: bool
  ins_running :: bool
  ins_image_id :: "string option"
  ins_config_image :: "string option"
  ins_user :: "string option"
  ins_working_dir :: "string option"
  ins_privileged :: bool
  ins_network_mode :: "string option"
  ins_ipc_mode :: "string option"
  ins_shm_size :: "int option"
  ins_devices :: "(string \<times> string) list"
  ins_mounts :: "mount list"

definition absent :: inspection where
  "absent = \<lparr>ins_exists = False, ins_running = False, ins_image_id = None, ins_config_image = None,
     ins_user = None, ins_working_dir = None, ins_privileged = False, ins_network_mode = None,
     ins_ipc_mode = None, ins_shm_size = None, ins_devices = [], ins_mounts = []\<rparr>"

fun is_DockerError :: "exn \<Rightarrow> bool" where
  "is_DockerError (DockerError _) = True"
| "is_DockerError (DockerTimeout _) = True"
| "is_DockerError _ = False"

text \<open>\<open>try: x = m except DockerError as e\<close>, as the value it leaves behind.\<close>

definition attempt_docker :: "('s, 'a) prog \<Rightarrow> ('s, exn + 'a) prog" where
  "attempt_docker m =
     catchP (bindP m (\<lambda>x. returnP (Inr x))) is_DockerError (\<lambda>e. returnP (Inl e))"

section \<open>Commands\<close>

definition docker_run ::
  "string list \<Rightarrow> string option \<Rightarrow> int \<Rightarrow> ('z docker_world_scheme, proc_result) prog" where
  "docker_run args stdin timeout = (\<lambda>s.
     let calls = dk_calls s @ [\<lparr>dc_args = args, dc_stdin = stdin, dc_timeout = timeout\<rparr>]
     in (case dk_daemon s calls of
           Completed r \<Rightarrow> Inr r
         | Expired \<Rightarrow> Inl (DockerTimeout (''docker command timed out: '' @ (case args of [] \<Rightarrow> '''' | a # _ \<Rightarrow> a)))
         | Not_started \<Rightarrow> Inl (DockerError ''docker invocation failed'')
         | Not_text \<Rightarrow> Inl (ValueError ''invalid start byte''),
         s\<lparr>dk_calls := calls\<rparr>))"

definition device_of :: "(json \<Rightarrow> string) \<Rightarrow> json \<Rightarrow> exn + string \<times> string" where
  "device_of repr item =
     bindE (py_get item ''PathOnHost'' (JStr [])) (\<lambda>a.
     bindE (py_get item ''PathInContainer'' (JStr [])) (\<lambda>b. Inr (py_str repr a, py_str repr b)))"

definition mount_of :: "(json \<Rightarrow> string) \<Rightarrow> json \<Rightarrow> exn + mount" where
  "mount_of repr item =
     bindE (py_get item ''Source'' (JStr [])) (\<lambda>a.
     bindE (py_get item ''Destination'' (JStr [])) (\<lambda>b.
     bindE (py_get item ''RW'' (JBool False)) (\<lambda>c.
     Inr \<lparr>mnt_source = py_str repr a, mnt_destination = py_str repr b, mnt_read_write = py_truth c\<rparr>)))"

text \<open>The fields of \<open>docker inspect\<close>, read in the order of the source.\<close>

definition inspection_of :: "(json \<Rightarrow> string) \<Rightarrow> json \<Rightarrow> exn + inspection" where
  "inspection_of repr v =
     (let text = (\<lambda>x k. bindE (py_get x k (JStr [])) (\<lambda>y. Inr (Some (py_str repr y))))
      in bindE (py_get v ''HostConfig'' (JObj [])) (\<lambda>h.
         bindE (py_get h ''Devices'' (JArr [])) (\<lambda>ds.
         bindE (py_iter ds) (\<lambda>ditems.
         bindE (mapE (device_of repr) ditems) (\<lambda>devices.
         bindE (py_get v ''Mounts'' (JArr [])) (\<lambda>ms.
         bindE (py_iter ms) (\<lambda>mitems.
         bindE (mapE (mount_of repr) mitems) (\<lambda>mounts.
         bindE (py_get v ''Config'' (JObj [])) (\<lambda>config.
         bindE (py_get v ''State'' (JObj [])) (\<lambda>state.
         bindE (py_get state ''Running'' (JBool False)) (\<lambda>running.
         bindE (text v ''Image'') (\<lambda>image_id.
         bindE (text config ''Image'') (\<lambda>config_image.
         bindE (text config ''User'') (\<lambda>user.
         bindE (text config ''WorkingDir'') (\<lambda>working_dir.
         bindE (py_get h ''Privileged'' (JBool False)) (\<lambda>privileged.
         bindE (text h ''NetworkMode'') (\<lambda>network_mode.
         bindE (text h ''IpcMode'') (\<lambda>ipc_mode.
         bindE (py_get h ''ShmSize'' (JInt 0)) (\<lambda>shm.
         bindE (py_int shm) (\<lambda>shm_size.
         Inr \<lparr>ins_exists = True, ins_running = py_truth running, ins_image_id = image_id,
              ins_config_image = config_image, ins_user = user, ins_working_dir = working_dir,
              ins_privileged = py_truth privileged, ins_network_mode = network_mode,
              ins_ipc_mode = ipc_mode, ins_shm_size = Some shm_size, ins_devices = sort devices,
              ins_mounts = sort_key mnt_destination mounts\<rparr>))))))))))))))))))))"

definition message_or :: "string \<Rightarrow> string \<Rightarrow> string" where
  "message_or stderr dflt = (if py_strip stderr \<noteq> [] then py_strip stderr else dflt)"

text \<open>What one \<open>docker inspect\<close> that ended with \<open>r\<close> says.\<close>

definition inspect_result :: "(json \<Rightarrow> string) \<Rightarrow> proc_result \<Rightarrow> exn + inspection" where
  "inspect_result repr r =
     (if pr_returncode r \<noteq> 0
      then (if contains ''No such object'' (pr_stderr r) then Inr absent
            else Inl (DockerError (message_or (pr_stderr r) ''docker inspect failed'')))
      else (case Option.bind (json_loads (pr_stdout r)) py_first of
              None \<Rightarrow> Inl (DockerError ''docker inspect returned invalid JSON'')
            | Some v \<Rightarrow> inspection_of repr v))"

definition docker_inspect :: "string \<Rightarrow> ('z docker_world_scheme, inspection) prog" where
  "docker_inspect name =
     bindP (docker_run [''inspect'', name] None 30) (\<lambda>r.
     bindP (readP dk_repr) (\<lambda>repr. liftE (inspect_result repr r)))"

definition docker_image_repo_digests :: "string \<Rightarrow> ('z docker_world_scheme, string list) prog" where
  "docker_image_repo_digests img =
     bindP (docker_run [''image'', ''inspect'', ''--format'', ''{{json .RepoDigests}}'', img] None 30) (\<lambda>r.
     if pr_returncode r \<noteq> 0
     then raiseP (DockerError (message_or (pr_stderr r) ''docker image inspect failed''))
     else (case json_loads (pr_stdout r) of
             None \<Rightarrow> raiseP (DockerError ''docker image inspect returned invalid JSON'')
           | Some (JArr vs) \<Rightarrow>
               if list_all (\<lambda>v. case v of JStr _ \<Rightarrow> True | _ \<Rightarrow> False) vs
               then returnP (map (\<lambda>v. case v of JStr t \<Rightarrow> t | _ \<Rightarrow> []) vs)
               else raiseP (DockerError ''docker RepoDigests is not a string list'')
           | Some _ \<Rightarrow> raiseP (DockerError ''docker RepoDigests is not a string list'')))"

definition docker_start :: "string \<Rightarrow> ('z docker_world_scheme, unit) prog" where
  "docker_start name =
     bindP (docker_run [''start'', name] None 30) (\<lambda>r.
     if pr_returncode r \<noteq> 0
     then raiseP (DockerError (message_or (pr_stderr r) ''docker start failed''))
     else bindP (docker_inspect name) (\<lambda>i.
       checkP (ins_running i) (DockerError ''container is not running after docker start'')))"

text \<open>The kill after a stop that left the container running.\<close>

definition docker_kill :: "string \<Rightarrow> ('z docker_world_scheme, inspection) prog" where
  "docker_kill name =
     bindP (attempt_docker (docker_run [''kill'', name] None 30)) (\<lambda>kill.
     bindP (docker_inspect name) (\<lambda>status.
     if ins_running status
     then raiseP (DockerError (case kill of
            Inl _ \<Rightarrow> ''container remains running after kill error''
          | Inr r \<Rightarrow> message_or (pr_stderr r) ''container remains running''))
     else returnP status))"

definition docker_stop :: "string \<Rightarrow> int \<Rightarrow> ('z docker_world_scheme, inspection \<times> string option) prog" where
  "docker_stop name grace =
     bindP (attempt_docker (docker_run [''stop'', ''--time'', show_int grace, name] None (grace + 15))) (\<lambda>stopped.
     bindP (docker_inspect name) (\<lambda>status.
     bindP (if ins_running status
            then bindP (docker_kill name) (\<lambda>status'. returnP (status', Some ''DOCKER_STOP_REQUIRED_KILL''))
            else returnP (status, None)) (\<lambda>(status', warning).
     returnP (status',
       if (case stopped of Inl _ \<Rightarrow> True | Inr r \<Rightarrow> pr_returncode r \<noteq> 0)
       then Some (case warning of Some w \<Rightarrow> w | None \<Rightarrow> ''DOCKER_STOP_NONZERO_POSTCONDITION_MET'')
       else warning))))"

definition env_args :: "(string \<times> string) list \<Rightarrow> string list" where
  "env_args environment = concat (map (\<lambda>(k, v). [''-e'', k @ ''='' @ v]) (sort environment))"

definition docker_exec ::
  "string \<Rightarrow> string list \<Rightarrow> (string, string) dict \<Rightarrow> string option \<Rightarrow> int
     \<Rightarrow> ('z docker_world_scheme, proc_result) prog" where
  "docker_exec name argv environment stdin timeout =
     docker_run ([''exec'', ''-i''] @ env_args environment @ [name] @ argv) stdin timeout"

section \<open>Effects\<close>

text \<open>A relation that tolerates the issue of a command is kept by the whole adapter.\<close>

locale docker_effect = effect R for R :: "'z docker_world_scheme \<Rightarrow> 'z docker_world_scheme \<Rightarrow> bool" +
  assumes R_call: "R s (s\<lparr>dk_calls := dk_calls s @ [c]\<rparr>)"
begin

lemma eff_docker_run: "obeys R (docker_run args stdin timeout)"
  by (simp add: obeys_def docker_run_def Let_def R_call)

lemma eff_attempt: "obeys R m \<Longrightarrow> obeys R (attempt_docker m)"
  unfolding attempt_docker_def by (intro eff_catch eff_bind eff_return)

lemma eff_docker_inspect: "obeys R (docker_inspect name)"
  unfolding docker_inspect_def by (intro eff_bind eff_docker_run eff_read eff_lift)

lemma eff_docker_digests: "obeys R (docker_image_repo_digests i)"
  unfolding docker_image_repo_digests_def
  by (rule eff_bind [OF eff_docker_run])
     (auto split: option.split json.split intro!: eff_raise eff_return)

lemma eff_docker_start: "obeys R (docker_start name)"
  unfolding docker_start_def
  by (intro eff_bind eff_docker_run eff_if eff_raise eff_docker_inspect eff_check)

lemma eff_docker_kill: "obeys R (docker_kill name)"
  unfolding docker_kill_def
  by (intro eff_bind eff_docker_run eff_attempt eff_if eff_raise eff_return eff_docker_inspect)

lemma eff_docker_stop: "obeys R (docker_stop name g)"
  unfolding docker_stop_def
  by (intro eff_bind eff_docker_run eff_attempt eff_docker_inspect eff_if eff_docker_kill eff_return)
     (auto split: prod.split intro!: eff_return)

lemma eff_docker_exec: "obeys R (docker_exec name argv env stdin timeout)"
  unfolding docker_exec_def by (rule eff_docker_run)

lemmas eff_docker = eff_docker_run eff_docker_inspect eff_docker_digests eff_docker_start
  eff_docker_stop eff_docker_exec

end

text \<open>The adapter changes nothing but the record of commands, and only appends to it.\<close>

definition only_calls :: "'z docker_world_scheme \<Rightarrow> 'z docker_world_scheme \<Rightarrow> bool" where
  "only_calls s t \<longleftrightarrow> (\<exists>cs. t = s\<lparr>dk_calls := dk_calls s @ cs\<rparr>)"

interpretation only_calls: docker_effect only_calls
proof unfold_locales
  fix s t u :: "'a docker_world_scheme"
  show "only_calls s s" unfolding only_calls_def by (rule exI [of _ "[]"]) simp
  assume "only_calls s t" "only_calls t u"
  then obtain a b where "t = s\<lparr>dk_calls := dk_calls s @ a\<rparr>" "u = t\<lparr>dk_calls := dk_calls t @ b\<rparr>"
    unfolding only_calls_def by blast
  then have "u = s\<lparr>dk_calls := dk_calls s @ (a @ b)\<rparr>" by simp
  then show "only_calls s u" unfolding only_calls_def by blast
qed (auto simp: only_calls_def)

section \<open>What a successful command means\<close>

text \<open>The last command was an inspection of \<open>name\<close>, and this is what it said.\<close>

definition last_inspection :: "'z docker_world_scheme \<Rightarrow> string \<Rightarrow> inspection \<Rightarrow> bool" where
  "last_inspection s name i \<longleftrightarrow>
     (\<exists>cs r. dk_calls s = cs @ [\<lparr>dc_args = [''inspect'', name], dc_stdin = None, dc_timeout = 30\<rparr>] \<and>
        dk_daemon s (dk_calls s) = Completed r \<and> inspect_result (dk_repr s) r = Inr i)"

lemma docker_run_Inr:
  assumes "docker_run args stdin timeout s = (Inr r, t)"
  shows "t = s\<lparr>dk_calls := dk_calls s @ [\<lparr>dc_args = args, dc_stdin = stdin, dc_timeout = timeout\<rparr>]\<rparr> \<and>
    dk_daemon s (dk_calls t) = Completed r"
  using assms by (auto simp: docker_run_def Let_def split: docker_reply.splits)

lemma docker_inspect_Inr:
  assumes "docker_inspect name s = (Inr i, t)"
  shows "last_inspection t name i \<and>
    t = s\<lparr>dk_calls := dk_calls s @ [\<lparr>dc_args = [''inspect'', name], dc_stdin = None, dc_timeout = 30\<rparr>]\<rparr>"
proof -
  obtain r where r: "docker_run [''inspect'', name] None 30 s = (Inr r, t)"
    and i: "inspect_result (dk_repr t) r = Inr i"
    using assms by (auto simp: docker_inspect_def bindP_def liftE_def split: prod.splits sum.splits)
  from docker_run_Inr [OF r] have t: "t = s\<lparr>dk_calls := dk_calls s @
      [\<lparr>dc_args = [''inspect'', name], dc_stdin = None, dc_timeout = 30\<rparr>]\<rparr>"
    and d: "dk_daemon s (dk_calls t) = Completed r" by blast+
  have "last_inspection t name i"
    unfolding last_inspection_def
    by (rule exI [of _ "dk_calls s"], rule exI [of _ r]) (use i d t in auto)
  with t show ?thesis by blast
qed

lemma docker_kill_Inr:
  assumes "docker_kill name s = (Inr i, t)"
  shows "last_inspection t name i \<and> \<not> ins_running i"
proof -
  obtain k s1 i1 s2 where "attempt_docker (docker_run [''kill'', name] None 30) s = (Inr k, s1)"
    and i: "docker_inspect name s1 = (Inr i1, s2)" and "\<not> ins_running i1" "i1 = i" "s2 = t"
    using assms by (auto simp: docker_kill_def bindP_def split: prod.splits sum.splits if_splits)
  then show ?thesis using docker_inspect_Inr [OF i] by blast
qed

lemma docker_stop_Inr:
  assumes "docker_stop name g s = (Inr (i, w), t)"
  shows "last_inspection t name i \<and> \<not> ins_running i"
proof -
  obtain k s1 i1 s2 where "attempt_docker (docker_run [''stop'', ''--time'', show_int g, name] None (g + 15)) s = (Inr k, s1)"
    and i: "docker_inspect name s1 = (Inr i1, s2)"
    and rest: "if ins_running i1 then docker_kill name s2 = (Inr i, t) else i = i1 \<and> t = s2"
    using assms by (auto simp: docker_stop_def bindP_def split: prod.splits sum.splits if_splits)
  then show ?thesis
    using docker_inspect_Inr [OF i] docker_kill_Inr [of name s2 i t] by (auto split: if_splits)
qed

lemma docker_start_Inr:
  assumes "docker_start name s = (Inr u, t)"
  shows "\<exists>i. last_inspection t name i \<and> ins_running i"
proof -
  obtain r s1 i where "docker_run [''start'', name] None 30 s = (Inr r, s1)"
    and i: "docker_inspect name s1 = (Inr i, t)" and "ins_running i"
    using assms
    by (auto simp: docker_start_def bindP_def checkP_def split: prod.splits sum.splits if_splits)
  then show ?thesis using docker_inspect_Inr [OF i] by blast
qed

end
