(* ===== verification/Worker_Driver.thy ===== *)
theory Worker_Driver
  imports Docker_Cli Scheduler_Core
begin

text \<open>
  The worker's driver, \<open>DockerWorkerDriver\<close> of \<open>src/agent_scheduler/worker/driver.py\<close>: epoch fencing
  of prepare manifests and plans, validation of the reused container, the run of a task's commands
  and the confirmed stop afterwards. Its state extends the one of the Docker adapter. Definitions
  only; theory \<open>Worker_Fencing\<close> proves them correct.
\<close>

section \<open>State\<close>

text \<open>The contents of \<open>driver-state.json\<close>, written with sorted keys.\<close>

record driver_file =
  df_epochs :: "(string, int) dict"
  df_owner :: "(string, string) dict"
  df_prepared :: "(string, manifest) dict"
  df_plans :: "(string, plan) dict"

text \<open>
  \<open>wd_inbox\<close> holds the bytes of \<open>driver-events.jsonl\<close> by execution, \<open>wd_evidence\<close> the files under
  \<open>framework-logs\<close>. The environment: \<open>wd_files\<close> are the paths that exist after the commands so far,
  \<open>wd_mono\<close> the readings of the monotonic clock, \<open>wd_short\<close> how many bytes an interrupted write
  leaves, \<open>wd_iso\<close> the text of a time stamp.
\<close>

record worker = docker_world +
  wd_key_id :: string
  wd_worker_id :: string
  wd_prepared :: "(string, manifest) dict"
  wd_plans :: "(string, plan) dict"
  wd_epochs :: "(string, int) dict"
  wd_owner :: "(string, string) dict"
  wd_state_file :: "driver_file option"
  wd_inbox :: "(string, string) dict"
  wd_evidence :: "(string, string) dict"
  wd_files :: "docker_call list \<Rightarrow> string set"
  wd_mono :: "nat \<Rightarrow> int"
  wd_mono_no :: nat
  wd_short :: "nat \<Rightarrow> nat"
  wd_iso :: "int \<Rightarrow> string"

definition expected_image_id :: string where
  "expected_image_id = ''sha256:601d5316da88819c0729b33767b4efad7eb6b50a0e006fffc08624bc647bcbed''"

definition expected_mounts :: "(string \<times> string \<times> bool) set" where
  "expected_mounts =
     {(''/public/share'', ''/data'', True), (''/public/home/zz_chentian'', ''/home'', True),
      (''/mnt/nvme1/models'', ''/models'', False), (''/opt/hyhal'', ''/opt/hyhal'', False)}"

definition expected_devices :: "(string \<times> string) set" where
  "expected_devices =
     {(''/dev/kfd'', ''/dev/kfd''), (''/dev/mkfd'', ''/dev/mkfd''), (''/dev/dri'', ''/dev/dri'')}"

fun is_DriverError :: "exn \<Rightarrow> bool" where
  "is_DriverError (DriverError _) = True"
| "is_DriverError _ = False"

section \<open>The state file\<close>

definition state_file_of :: "'z worker_scheme \<Rightarrow> driver_file" where
  "state_file_of s = \<lparr>df_epochs = sort_key fst (wd_epochs s), df_owner = sort_key fst (wd_owner s),
     df_prepared = sort_key fst (wd_prepared s), df_plans = sort_key fst (wd_plans s)\<rparr>"

text \<open>\<open>_persist_state\<close>: a temporary file that replaces the old one as a whole, or an \<open>OSError\<close>.\<close>

definition persist_state :: "('z worker_scheme, unit) prog" where
  "persist_state =
     bindP next_fault (\<lambda>x.
     if x = IO_ok then updateP (\<lambda>s. s\<lparr>wd_state_file := Some (state_file_of s)\<rparr>)
     else raiseP (OSError ''driver state not written''))"

text \<open>\<open>__post_init__\<close>: what a new process finds on disk.\<close>

definition driver_init :: "'z worker_scheme \<Rightarrow> 'z worker_scheme" where
  "driver_init s = (case wd_state_file s of
      None \<Rightarrow> s\<lparr>wd_epochs := [], wd_owner := [], wd_prepared := [], wd_plans := []\<rparr>
    | Some f \<Rightarrow> s\<lparr>wd_epochs := df_epochs f, wd_owner := df_owner f, wd_prepared := df_prepared f,
                  wd_plans := df_plans f\<rparr>)"

section \<open>Audit\<close>

definition dump_ascii :: "json \<Rightarrow> string" where
  "dump_ascii v = json_dumps True (\<lambda>_. []) v"

definition audit_record :: "string \<Rightarrow> string \<Rightarrow> string \<Rightarrow> string \<Rightarrow> (string \<times> json) list \<Rightarrow> string" where
  "audit_record event_id event_type timestamp task_id payload =
     dump_ascii (JObj [(''event_id'', JStr event_id), (''event_type'', JStr event_type),
       (''timestamp'', JStr timestamp), (''task_id'', JStr task_id), (''payload'', JObj payload)]) @ [CHR 0x0A]"

definition append_inbox :: "string \<Rightarrow> string \<Rightarrow> 'z worker_scheme \<Rightarrow> 'z worker_scheme" where
  "append_inbox x data s =
     s\<lparr>wd_inbox := AList.update x ((case map_of (wd_inbox s) x of None \<Rightarrow> [] | Some b \<Rightarrow> b) @ data) (wd_inbox s)\<rparr>"

definition audit :: "task \<Rightarrow> string \<Rightarrow> (string \<times> json) list \<Rightarrow> ('z worker_scheme, unit) prog" where
  "audit t event_type payload =
     bindP (fresh_id ''worker_evt'') (\<lambda>event_id.
     bindP utc_now (\<lambda>now.
     bindP (readP id) (\<lambda>s.
     let data = audit_record event_id event_type (wd_iso s now) (tsk_task_id t) payload;
         x = tsk_execution_id t
     in bindP next_fault (\<lambda>fault. case fault of
          IO_ok \<Rightarrow> updateP (append_inbox x data)
        | IO_before \<Rightarrow> raiseP (OSError ''open failed'')
        | IO_partial \<Rightarrow> bindP (updateP (append_inbox x (take (wd_short s (fault_no s) mod length data) data)))
                        (\<lambda>_. raiseP (OSError ''partial Worker inbox append''))
        | IO_after \<Rightarrow> bindP (updateP (append_inbox x data)) (\<lambda>_. raiseP (OSError ''fsync failed''))))))"

section \<open>Checks\<close>

definition verify_signed ::
  "('k, 'p) signer \<Rightarrow> 'o integrity \<Rightarrow> ('o \<Rightarrow> string) \<Rightarrow> 'o \<Rightarrow> ('z worker_scheme, unit) prog" where
  "verify_signed g i key v =
     bindP (readP wd_key_id) (\<lambda>key_id.
     checkP (key v = key_id \<and> verify_model (sg_crypto g) i (sg_verification_key g) v)
       (DriverError ''signature or key_id is invalid''))"

definition signed_by_master :: "('k, 'p) signer \<Rightarrow> task \<Rightarrow> ('z worker_scheme, unit) prog" where
  "signed_by_master g t = verify_signed g (task_integrity (sg_task_dump g)) tsk_key_id t"

definition plan_by_master :: "('k, 'p) signer \<Rightarrow> plan \<Rightarrow> ('z worker_scheme, unit) prog" where
  "plan_by_master g p = verify_signed g (plan_integrity (sg_plan_dump g)) pln_key_id p"

definition manifest_by_master :: "('k, 'p) signer \<Rightarrow> manifest \<Rightarrow> ('z worker_scheme, unit) prog" where
  "manifest_by_master g m = verify_signed g (manifest_integrity (sg_manifest_dump g)) man_key_id m"

definition unit_for_container :: "task \<Rightarrow> string \<Rightarrow> exn + task_unit" where
  "unit_for_container t name = (case filter (\<lambda>u. unt_container_name u = name) (tsk_units t) of
      [u] \<Rightarrow> Inr u
    | _ \<Rightarrow> Inl (DriverError ''PrepareManifest container does not map to one TaskUnit''))"

definition baseline_namespace :: "inspection \<Rightarrow> bool" where
  "baseline_namespace i \<longleftrightarrow>
     ins_user i \<in> {Some ''root'', Some ''0'', Some ''''} \<and> ins_working_dir i = Some ''/workspace'' \<and>
     ins_privileged i \<and> ins_network_mode i = Some ''host'' \<and> ins_ipc_mode i = Some ''host'' \<and>
     ins_shm_size i = Some (16 * 1024 ^ 3)"

definition validate_container :: "task_unit \<Rightarrow> bool \<Rightarrow> ('z worker_scheme, unit) prog" where
  "validate_container u require_stopped =
     bindP (readP wd_worker_id) (\<lambda>me.
     bindP (checkP ((unt_worker_id u, unt_container_name u, unt_submitter_username u)
              = (me, ''fh-sglang-deepseek-v4-flash'', ''zz_chentian''))
              (DriverError ''container allowlist triple mismatch'')) (\<lambda>_.
     bindP (docker_inspect (unt_container_name u)) (\<lambda>i.
     bindP (checkP (ins_exists i) (DriverError ''reuse container does not exist'')) (\<lambda>_.
     bindP (checkP (\<not> (require_stopped \<and> ins_running i))
              (DriverError ''reuse container must be stopped before assignment'')) (\<lambda>_.
     bindP (checkP (ins_image_id i = Some expected_image_id)
              (DriverError ''container image ID differs from frozen baseline'')) (\<lambda>_.
     bindP (docker_image_repo_digests (case ins_image_id i of None \<Rightarrow> [] | Some x \<Rightarrow> x)) (\<lambda>digests.
     bindP (checkP (unt_image_digest u \<in> set digests)
              (DriverError ''container repository digest differs from Task'')) (\<lambda>_.
     bindP (checkP (baseline_namespace i)
              (DriverError ''container privilege/namespace baseline mismatch'')) (\<lambda>_.
     bindP (checkP (set (map (\<lambda>m. (mnt_source m, mnt_destination m, mnt_read_write m)) (ins_mounts i))
              = expected_mounts) (DriverError ''container mount baseline mismatch'')) (\<lambda>_.
     bindP (checkP (expected_devices \<subseteq> set (ins_devices i))
              (DriverError ''container device baseline mismatch'')) (\<lambda>_.
     checkP (\<not> list_ex (\<lambda>m. mnt_destination m = ''/var/run/docker.sock'') (ins_mounts i))
       (DriverError ''Docker socket mount is forbidden''))))))))))))"

section \<open>The two barriers\<close>

definition manifest_resources :: "int list \<Rightarrow> string \<Rightarrow> string list" where
  "manifest_resources gpu_ids name = map gpu_resource gpu_ids @ [container_resource name]"

definition high_water :: "'z worker_scheme \<Rightarrow> string \<Rightarrow> int" where
  "high_water s r = (case map_of (wd_epochs s) r of None \<Rightarrow> 0 | Some e \<Rightarrow> e)"

text \<open>The loop that takes the resources over.\<close>

definition own_resources :: "manifest \<Rightarrow> 'z worker_scheme \<Rightarrow> 'z worker_scheme" where
  "own_resources m s =
     fold (\<lambda>r s. s\<lparr>wd_epochs := AList.update r (man_lease_epoch m) (wd_epochs s),
                  wd_owner := AList.update r (man_assignment_id m) (wd_owner s)\<rparr>)
       (manifest_resources (man_gpu_ids m) (man_container_name m)) s"

text \<open>The end of \<open>prepare\<close>: refuse an old epoch, or take the resources over and record it.\<close>

definition take_over :: "manifest \<Rightarrow> task \<Rightarrow> ('z worker_scheme, bool) prog" where
  "take_over m t =
     bindP (readP (\<lambda>s. list_ex (\<lambda>r. man_lease_epoch m < high_water s r)
              (manifest_resources (man_gpu_ids m) (man_container_name m)))) (\<lambda>stale.
     bindP (checkP (\<not> stale) (DriverError ''STALE_LEASE_EPOCH'')) (\<lambda>_.
     bindP (updateP (own_resources m)) (\<lambda>_.
     bindP (updateP (\<lambda>s. s\<lparr>wd_prepared := AList.update (man_assignment_id m) m (wd_prepared s)\<rparr>)) (\<lambda>_.
     bindP persist_state (\<lambda>_.
     bindP (audit t ''PREPARED'' [(''manifest_id'', JStr (man_manifest_id m)),
              (''gpu_ids'', JArr (map JInt (man_gpu_ids m)))]) (\<lambda>_.
     returnP True))))))"

definition prepare_body :: "('k, 'p) signer \<Rightarrow> manifest \<Rightarrow> task \<Rightarrow> ('z worker_scheme, bool) prog" where
  "prepare_body g m t =
     bindP (manifest_by_master g m) (\<lambda>_.
     bindP (signed_by_master g t) (\<lambda>_.
     bindP (readP wd_worker_id) (\<lambda>me.
     bindP (checkP (man_worker_id m = me \<and> man_task_id m = tsk_task_id t)
              (DriverError ''PrepareManifest is not bound to this Worker/Task'')) (\<lambda>_.
     bindP (liftE (unit_for_container t (man_container_name m))) (\<lambda>u.
     bindP (validate_container u True) (\<lambda>_.
     take_over m t))))))"

definition worker_prepare :: "('k, 'p) signer \<Rightarrow> manifest \<Rightarrow> task \<Rightarrow> ('z worker_scheme, bool) prog" where
  "worker_prepare g m t =
     catchP (prepare_body g m t) (\<lambda>e. is_DriverError e \<or> is_DockerError e) (\<lambda>_. returnP False)"

text \<open>Whether a plan is the one its manifest announced, for this task.\<close>

definition plan_matches :: "plan \<Rightarrow> manifest \<Rightarrow> task \<Rightarrow> bool" where
  "plan_matches p m t \<longleftrightarrow>
     pln_task_id p = tsk_task_id t \<and> Some (pln_task_content_hash p) = tsk_content_hash t \<and>
     pln_execution_id p = man_execution_id m \<and>
     pln_dispatch_generation p = man_dispatch_generation m \<and>
     pln_lease_epoch p = man_lease_epoch m \<and> pln_worker_id p = man_worker_id m \<and>
     pln_gpu_ids p = man_gpu_ids m \<and> pln_container_name p = man_container_name m"

definition acknowledge_body :: "('k, 'p) signer \<Rightarrow> plan \<Rightarrow> task \<Rightarrow> ('z worker_scheme, bool) prog" where
  "acknowledge_body g p t =
     bindP (signed_by_master g t) (\<lambda>_.
     bindP (plan_by_master g p) (\<lambda>_.
     bindP (getP wd_prepared (pln_assignment_id p)) (\<lambda>m.
     bindP (checkP (plan_matches p m t)
              (DriverError ''ExecutionPlan does not match PrepareManifest/Task'')) (\<lambda>_.
     bindP (updateP (\<lambda>s. s\<lparr>wd_plans := AList.update (pln_assignment_id p) p (wd_plans s)\<rparr>)) (\<lambda>_.
     bindP persist_state (\<lambda>_.
     bindP (audit t ''PLAN_ACK'' [(''plan_id'', JStr (pln_plan_id p))]) (\<lambda>_.
     returnP True)))))))"

fun is_KeyError :: "exn \<Rightarrow> bool" where
  "is_KeyError (KeyError _) = True"
| "is_KeyError _ = False"

definition worker_acknowledge :: "('k, 'p) signer \<Rightarrow> plan \<Rightarrow> task \<Rightarrow> ('z worker_scheme, bool) prog" where
  "worker_acknowledge g p t =
     catchP (acknowledge_body g p t) (\<lambda>e. is_DriverError e \<or> is_KeyError e) (\<lambda>_. returnP False)"

definition is_current_plan :: "plan \<Rightarrow> 'z worker_scheme \<Rightarrow> bool" where
  "is_current_plan p s \<longleftrightarrow>
     list_all (\<lambda>r. map_of (wd_epochs s) r = Some (pln_lease_epoch p) \<and>
                  map_of (wd_owner s) r = Some (pln_assignment_id p))
       (manifest_resources (pln_gpu_ids p) (pln_container_name p))"

definition registered :: "plan \<Rightarrow> 'z worker_scheme \<Rightarrow> bool" where
  "registered p s \<longleftrightarrow> map_of (wd_plans s) (pln_assignment_id p) = Some p \<and> is_current_plan p s"

section \<open>Running commands\<close>

text \<open>The first word of \<open>text.split(maxsplit=1)\<close>; an empty text has none.\<close>

definition first_word :: "string \<Rightarrow> string option" where
  "first_word s = (let w = takeWhile (\<lambda>c. \<not> is_space c) (dropWhile is_space s)
     in if w = [] then None else Some w)"

definition is_ascii :: "string \<Rightarrow> bool" where
  "is_ascii s \<longleftrightarrow> list_all (\<lambda>c. byte c < 128) s"

text \<open>\<open>secrets.compare_digest\<close> on strings, which refuses non-ASCII arguments.\<close>

definition secrets_compare :: "string \<Rightarrow> string \<Rightarrow> exn + bool" where
  "secrets_compare actual expected =
     (if is_ascii actual \<and> is_ascii expected then Inr (actual = expected)
      else Inl (TypeError ''comparing strings with non-ASCII characters is not supported''))"

definition redacted_argv :: "command \<Rightarrow> string list" where
  "redacted_argv c = (case cmd_kind c of
      INLINE_BASH \<Rightarrow> [''/bin/bash'', ''-s'', ''--''] @ cmd_argv c
    | CONTAINER_PATH_BASH \<Rightarrow>
        [''/bin/bash'', case cmd_container_path c of None \<Rightarrow> [] | Some p \<Rightarrow> p] @ cmd_argv c)"

definition environment_dict :: "plan \<Rightarrow> (string, string) dict" where
  "environment_dict p = fold (\<lambda>(k, v) d. AList.update k v d) (pln_environment p) []"

text \<open>One command: run as it is, or checked against its hash first.\<close>

definition run_command :: "plan \<Rightarrow> command \<Rightarrow> int \<Rightarrow> ('z worker_scheme, proc_result) prog" where
  "run_command p c timeout =
     (case cmd_kind c of
        INLINE_BASH \<Rightarrow>
          docker_exec (pln_container_name p) ([''/bin/bash'', ''-s'', ''--''] @ cmd_argv c)
            (environment_dict p) (cmd_script c) timeout
      | CONTAINER_PATH_BASH \<Rightarrow>
          (case (cmd_container_path c, cmd_sha256 c) of
             (Some path, Some sha) \<Rightarrow>
               bindP (checkP (path \<noteq> [] \<and> sha \<noteq> []) AssertionError) (\<lambda>_.
               bindP (docker_exec (pln_container_name p) [''sha256sum'', path] (environment_dict p) None 30) (\<lambda>r.
               bindP (if pr_returncode r = 0
                      then (case first_word (pr_stdout r) of
                              None \<Rightarrow> raiseP (KeyError ''list index out of range'')
                            | Some w \<Rightarrow> returnP w)
                      else returnP []) (\<lambda>actual.
               bindP (liftE (secrets_compare actual sha)) (\<lambda>same.
               bindP (checkP same (DriverError ''SCRIPT_HASH_MISMATCH'')) (\<lambda>_.
               docker_exec (pln_container_name p) ([''/bin/bash'', path] @ cmd_argv c)
                 (environment_dict p) None timeout)))))
           | _ \<Rightarrow> raiseP AssertionError))"

definition pad3 :: "nat \<Rightarrow> string" where
  "pad3 n = replicate (3 - length (show_nat n)) (CHR ''0'') @ show_nat n"

definition evidence_path :: "string \<Rightarrow> plan \<Rightarrow> task \<Rightarrow> string \<Rightarrow> nat \<Rightarrow> string" where
  "evidence_path r p t phase n =
     r @ ''/framework-logs/'' @ tsk_task_id t @ ''/'' @ pln_unit_id p @ ''/'' @ tsk_execution_id t @
     ''/'' @ phase @ ''-'' @ pad3 n @ ''.json''"

text \<open>\<open>write_text\<close> is not atomic: an interrupted write leaves a prefix.\<close>

definition write_evidence :: "string \<Rightarrow> string \<Rightarrow> ('z worker_scheme, unit) prog" where
  "write_evidence path data =
     bindP (readP id) (\<lambda>s.
     bindP next_fault (\<lambda>fault. case fault of
         IO_ok \<Rightarrow> updateP (\<lambda>s. s\<lparr>wd_evidence := AList.update path data (wd_evidence s)\<rparr>)
       | IO_before \<Rightarrow> raiseP (OSError ''open failed'')
       | _ \<Rightarrow> bindP (updateP (\<lambda>s. s\<lparr>wd_evidence :=
                 AList.update path (take (wd_short s (fault_no s)) data) (wd_evidence s)\<rparr>))
                (\<lambda>_. raiseP (OSError ''write failed''))))"

fun run_commands ::
  "plan \<Rightarrow> task \<Rightarrow> string \<Rightarrow> nat \<Rightarrow> command list \<Rightarrow> int \<Rightarrow> ('z worker_scheme, int) prog" where
  "run_commands p t phase n [] timeout = returnP 0"
| "run_commands p t phase n (c # cs) timeout =
     bindP (run_command p c timeout) (\<lambda>r.
     bindP utc_now (\<lambda>now.
     bindP (readP id) (\<lambda>s.
     bindP (write_evidence (evidence_path (store_root s) p t phase n)
              (dump_ascii (JObj [(''schema_version'', JStr ''v1''), (''phase'', JStr phase),
                 (''index'', JInt (int n)), (''argv'', JArr (map JStr (redacted_argv c))),
                 (''exit_code'', JInt (pr_returncode r)), (''stdout'', JStr (pr_stdout r)),
                 (''stderr'', JStr (pr_stderr r)), (''timestamp'', JStr (wd_iso s now))]) @ [CHR 0x0A])) (\<lambda>_.
     if pr_returncode r \<noteq> 0 then returnP (pr_returncode r)
     else run_commands p t phase (Suc n) cs timeout))))"

section \<open>A run\<close>

text \<open>The locals of \<open>execute\<close> that its exception clauses and its end read.\<close>

record run_frame =
  rf_start_attempted :: bool
  rf_forced :: bool
  rf_failure_reason :: "string option"
  rf_run_exit :: int

definition run_start :: run_frame where
  "run_start = \<lparr>rf_start_attempted = False, rf_forced = False, rf_failure_reason = None, rf_run_exit = 1\<rparr>"

definition onW :: "('s, 'a) prog \<Rightarrow> ('s \<times> run_frame, 'a) prog" where
  "onW m = (\<lambda>(s, f). case m s of (r, t) \<Rightarrow> (r, (t, f)))"

definition assign :: "(run_frame \<Rightarrow> run_frame) \<Rightarrow> ('s \<times> run_frame, unit) prog" where
  "assign u = updateP (\<lambda>(s, f). (s, u f))"

definition monotonic :: "('z worker_scheme, int) prog" where
  "monotonic = (\<lambda>s. (Inr (wd_mono s (wd_mono_no s)), s\<lparr>wd_mono_no := Suc (wd_mono_no s)\<rparr>))"

text \<open>The seconds left until the deadline, at most \<open>limit\<close>.\<close>

definition remaining :: "int \<Rightarrow> int \<Rightarrow> ('z worker_scheme, int) prog" where
  "remaining deadline limit =
     bindP monotonic (\<lambda>now.
     let secs = (deadline - now) div 1000000
     in if secs \<le> 0 then raiseP (DockerTimeout ''Task total deadline expired'')
        else returnP (min limit secs))"

definition phase_run ::
  "plan \<Rightarrow> task \<Rightarrow> int \<Rightarrow> string \<Rightarrow> command list \<Rightarrow> int \<Rightarrow> ('z worker_scheme, int) prog" where
  "phase_run p t deadline phase cs limit =
     bindP (remaining deadline limit) (\<lambda>timeout. run_commands p t phase 1 cs timeout)"

text \<open>From the start of the container to the end of its commands.\<close>

definition run_phases ::
  "plan \<Rightarrow> task \<Rightarrow> task_unit \<Rightarrow> int \<Rightarrow> ('z worker_scheme \<times> run_frame, unit) prog" where
  "run_phases p t u deadline =
     bindP (onW (docker_start (pln_container_name p))) (\<lambda>_.
     bindP (onW (audit t ''DOCKER_START_CONFIRMED'' [(''plan_id'', JStr (pln_plan_id p)),
        (''argv'', JArr (map JStr [''docker'', ''start'', pln_container_name p])),
        (''postcondition'', JStr ''running=true'')])) (\<lambda>_.
     bindP (onW (phase_run p t deadline ''setup'' (unt_setup u) 120)) (\<lambda>setup_exit.
     if setup_exit \<noteq> 0 then
       bindP (assign (\<lambda>f. f\<lparr>rf_failure_reason := Some ''SETUP_NONZERO''\<rparr>)) (\<lambda>_.
       bindP (onW (phase_run p t deadline ''teardown'' (unt_teardown u) 120)) (\<lambda>_. returnP ()))
     else
       bindP (onW (phase_run p t deadline ''run'' (unt_run u) 300)) (\<lambda>run_exit.
       bindP (assign (\<lambda>f. f\<lparr>rf_run_exit := run_exit\<rparr>)) (\<lambda>_.
       bindP (if run_exit \<noteq> 0 then assign (\<lambda>f. f\<lparr>rf_failure_reason := Some ''RUN_NONZERO''\<rparr>)
              else returnP ()) (\<lambda>_.
       bindP (onW (phase_run p t deadline ''teardown'' (unt_teardown u) 120)) (\<lambda>_. returnP ())))))))"

definition execute_body ::
  "('k, 'p) signer \<Rightarrow> plan \<Rightarrow> task \<Rightarrow> task_unit \<Rightarrow> int \<Rightarrow> ('z worker_scheme \<times> run_frame, unit) prog" where
  "execute_body g p t u deadline =
     bindP (onW (signed_by_master g t)) (\<lambda>_.
     bindP (onW (plan_by_master g p)) (\<lambda>_.
     bindP (onW (validate_container u True)) (\<lambda>_.
     bindP (onW (audit t ''DOCKER_INSPECT_PRE'' [(''plan_id'', JStr (pln_plan_id p)),
        (''argv'', JArr (map JStr [''docker'', ''inspect'', pln_container_name p])),
        (''postcondition'', JStr ''exists=true,running=false,baseline=matched'')])) (\<lambda>_.
     bindP (onW (audit t ''TASK_VERIFIED_PRE_DOCKER'' [(''plan_id'', JStr (pln_plan_id p)),
        (''task_content_hash'', JStr (case tsk_content_hash t of None \<Rightarrow> [] | Some h \<Rightarrow> h)),
        (''lease_epoch'', JInt (pln_lease_epoch p)),
        (''dispatch_generation'', JInt (pln_dispatch_generation p))])) (\<lambda>_.
     bindP (assign (\<lambda>f. f\<lparr>rf_start_attempted := True\<rparr>)) (\<lambda>_.
     run_phases p t u deadline))))))"

definition execute_handler :: "exn \<Rightarrow> ('s \<times> run_frame, unit) prog" where
  "execute_handler e =
     (case e of
        DockerTimeout _ \<Rightarrow> assign (\<lambda>f. f\<lparr>rf_forced := True, rf_failure_reason := Some ''RUN_TIMEOUT'',
                                     rf_run_exit := 124\<rparr>)
      | _ \<Rightarrow> assign (\<lambda>f. f\<lparr>rf_forced := True, rf_failure_reason := Some (exn_message e),
                          rf_run_exit := 1\<rparr>))"

definition cleanup :: "string \<Rightarrow> ('z docker_world_scheme, bool \<times> string option) prog" where
  "cleanup name =
     catchP (bindP (docker_stop name 30) (\<lambda>(i, warning).
               returnP (ins_exists i \<and> \<not> ins_running i, warning)))
       is_DockerError
       (\<lambda>_. catchP (bindP (docker_inspect name) (\<lambda>i. returnP (ins_exists i \<and> \<not> ins_running i, None)))
              is_DockerError (\<lambda>_. returnP (False, None)))"

definition json_option :: "string option \<Rightarrow> json" where
  "json_option x = (case x of None \<Rightarrow> JNull | Some t \<Rightarrow> JStr t)"

definition finish_execute ::
  "plan \<Rightarrow> task \<Rightarrow> task_unit \<Rightarrow> run_frame \<Rightarrow> ('z worker_scheme, exec_result) prog" where
  "finish_execute p t u f =
     bindP (if rf_start_attempted f then cleanup (pln_container_name p) else returnP (True, None))
       (\<lambda>(cleanup_ok, warning).
     bindP (whenP (rf_start_attempted f)
        (audit t ''DOCKER_CLEANUP_INSPECTED'' [(''plan_id'', JStr (pln_plan_id p)),
           (''argv'', JArr (map (\<lambda>a. JArr (map JStr a))
              [[''docker'', ''stop'', ''--time'', ''30'', pln_container_name p],
               [''docker'', ''kill'', pln_container_name p], [''docker'', ''inspect'', pln_container_name p]])),
           (''cleanup_ok'', JBool cleanup_ok), (''warning'', json_option warning)])) (\<lambda>_.
     bindP (readP (\<lambda>s. list_all (\<lambda>x. x \<in> wd_files s (dk_calls s)) (unt_required_logs u))) (\<lambda>logs_present.
     bindP (readP (\<lambda>s. list_all (\<lambda>x. x \<in> wd_files s (dk_calls s)) (unt_required_outputs u))) (\<lambda>outputs_present.
     bindP (audit t ''EXECUTION_FINISHED'' [(''plan_id'', JStr (pln_plan_id p)),
        (''exit_code'', JInt (rf_run_exit f)), (''forced'', JBool (rf_forced f)),
        (''logs_present'', JBool logs_present), (''outputs_present'', JBool outputs_present),
        (''cleanup_ok'', JBool cleanup_ok), (''warning'', json_option warning),
        (''failure_reason'', json_option (rf_failure_reason f))]) (\<lambda>_.
     returnP \<lparr>res_exit_code = rf_run_exit f, res_logs_present = logs_present,
              res_outputs_present = outputs_present, res_cleanup_ok = cleanup_ok,
              res_warning = warning, res_failure_reason = rf_failure_reason f\<rparr>)))))"

definition worker_execute :: "('k, 'p) signer \<Rightarrow> plan \<Rightarrow> task \<Rightarrow> ('z worker_scheme, exec_result) prog" where
  "worker_execute g p t =
     (case filter (\<lambda>u. unt_unit_id u = pln_unit_id p) (tsk_units t) of
        [] \<Rightarrow> raiseP StopIteration
      | u # _ \<Rightarrow>
          bindP (readP (registered p)) (\<lambda>ok.
          if \<not> ok then
            returnP \<lparr>res_exit_code = 1, res_logs_present = False, res_outputs_present = False,
                     res_cleanup_ok = True, res_warning = None, res_failure_reason = Some ''PLAN_NOT_CURRENT''\<rparr>
          else
            bindP monotonic (\<lambda>now. \<lambda>s.
              case catchP (execute_body g p t u (now + unt_timeout_seconds u * 1000000))
                     (\<lambda>e. is_DockerError e \<or> is_DriverError e) execute_handler (s, run_start) of
                (Inl e, (s', f)) \<Rightarrow> (Inl e, s')
              | (Inr _, (s', f)) \<Rightarrow> finish_execute p t u f s')))"

section \<open>Queries, cancellation and reconciliation\<close>

definition finished_mark :: string where
  "finished_mark = [CHR 0x22] @ ''event_type'' @ [CHR 0x22] @ '':'' @ [CHR 0x22] @ ''EXECUTION_FINISHED'' @ [CHR 0x22]"

definition worker_query ::
  "string \<Rightarrow> int \<Rightarrow> int \<Rightarrow> task \<Rightarrow> ('z worker_scheme, string) prog" where
  "worker_query a generation epoch t =
     bindP (readP id) (\<lambda>s.
     case map_of (wd_plans s) a of
       Some p \<Rightarrow>
         if pln_dispatch_generation p \<noteq> generation \<or> pln_lease_epoch p \<noteq> epoch \<or> \<not> is_current_plan p s
         then returnP ''STALE''
         else if (case map_of (wd_inbox s) (tsk_execution_id t) of
                    None \<Rightarrow> False | Some b \<Rightarrow> contains finished_mark b)
         then returnP ''FINISHED''
         else bindP (attempt_docker (docker_inspect (pln_container_name p))) (\<lambda>r.
           returnP (case r of
             Inl _ \<Rightarrow> ''UNKNOWN''
           | Inr i \<Rightarrow> if ins_running i then ''RUNNING'' else ''PLAN_ACK''))
     | None \<Rightarrow>
         (case map_of (wd_prepared s) a of
            Some m \<Rightarrow> returnP (if man_dispatch_generation m \<noteq> generation \<or> man_lease_epoch m \<noteq> epoch
                               then ''STALE'' else ''PREPARED'')
          | None \<Rightarrow> returnP ''NOT_REGISTERED''))"

definition worker_cancel :: "('k, 'p) signer \<Rightarrow> plan \<Rightarrow> task \<Rightarrow> ('z worker_scheme, bool) prog" where
  "worker_cancel g p t =
     catchP
       (bindP (signed_by_master g t) (\<lambda>_.
        bindP (plan_by_master g p) (\<lambda>_.
        bindP (readP (registered p)) (\<lambda>ok.
        bindP (checkP ok (DriverError ''cancel references a stale assignment'')) (\<lambda>_.
        bindP (cleanup (pln_container_name p)) (\<lambda>(cleanup_ok, _).
        bindP (audit t ''CANCELLED_BY_MASTER'' [(''plan_id'', JStr (pln_plan_id p))]) (\<lambda>_.
        returnP cleanup_ok)))))))
       is_DriverError (\<lambda>_. returnP False)"

definition worker_reconcile :: "('k, 'p) signer \<Rightarrow> plan \<Rightarrow> task \<Rightarrow> ('z worker_scheme, bool) prog" where
  "worker_reconcile g p t =
     catchP
       (bindP (signed_by_master g t) (\<lambda>_.
        bindP (plan_by_master g p) (\<lambda>_.
        bindP (readP (registered p)) (\<lambda>ok.
        bindP (checkP ok (DriverError ''reconcile references a stale assignment'')) (\<lambda>_.
        bindP (docker_inspect (pln_container_name p)) (\<lambda>i.
        returnP (ins_exists i \<and> \<not> ins_running i)))))))
       (\<lambda>e. is_DriverError e \<or> is_DockerError e) (\<lambda>_. returnP False)"

definition docker_driver :: "('k, 'p) signer \<Rightarrow> 'z worker_scheme driver" where
  "docker_driver g =
     \<lparr>drv_prepare = worker_prepare g, drv_acknowledge_plan = worker_acknowledge g,
      drv_execute = worker_execute g, drv_cancel = worker_cancel g, drv_query_status = worker_query,
      drv_reconcile = worker_reconcile g\<rparr>"

end
