(* ===== verification/Worker_Fencing.thy ===== *)
theory Worker_Fencing
  imports Worker_Driver Scheduler_Safety
begin

text \<open>
  Correctness of the worker's driver. Fencing: once a manifest of a later epoch was accepted, no
  plan of an earlier epoch runs on a resource they share, through any further calls and restarts
  of the worker. Execution: a container is only started after it was validated, and a run reported
  as cleaned up has left a container that the last inspection saw stopped.
\<close>

section \<open>Effects of the driver's operations\<close>

locale audit_effect = world_effect R for R :: "'z worker_scheme \<Rightarrow> 'z worker_scheme \<Rightarrow> bool" +
  assumes R_inbox: "R s (s\<lparr>wd_inbox := i\<rparr>)"
begin

lemma eff_update: "(\<And>s. R s (f s)) \<Longrightarrow> obeys R (updateP f)"
  by (simp add: obeys_def)

lemma eff_append_inbox: "R s (append_inbox x d s)"
  by (simp add: append_inbox_def R_inbox)

lemma eff_audit: "obeys R (audit t et pl)"
  unfolding audit_def Let_def
  by (intro eff_bind eff_fresh_id eff_utc_now eff_read eff_next_fault)
     (auto split: io_fault.split intro!: eff_bind eff_raise eff_update eff_append_inbox)

end

locale worker_effect = audit_effect R + docker_effect R
  for R :: "'z worker_scheme \<Rightarrow> 'z worker_scheme \<Rightarrow> bool" +
  assumes R_prepared: "R s (s\<lparr>wd_prepared := pm\<rparr>)"
    and R_plans: "R s (s\<lparr>wd_plans := pp\<rparr>)"
    and R_file: "R s (s\<lparr>wd_state_file := Some (state_file_of s)\<rparr>)"
    and R_evidence: "R s (s\<lparr>wd_evidence := e\<rparr>)"
    and R_mono: "R s (s\<lparr>wd_mono_no := n\<rparr>)"
    and R_own: "\<not> list_ex (\<lambda>r. man_lease_epoch m < high_water s r)
                   (manifest_resources (man_gpu_ids m) (man_container_name m)) \<Longrightarrow> R s (own_resources m s)"
begin

lemma eff_persist_state: "obeys R persist_state"
  unfolding persist_state_def by (intro eff_bind eff_next_fault eff_if eff_raise eff_update R_file)

lemma eff_verify_signed: "obeys R (verify_signed g i key v)"
  unfolding verify_signed_def by (intro eff_bind eff_read eff_check)

lemma eff_signed: "obeys R (signed_by_master g t)" "obeys R (plan_by_master g p)"
  "obeys R (manifest_by_master g m)"
  by (simp_all add: signed_by_master_def plan_by_master_def manifest_by_master_def eff_verify_signed)

lemma eff_validate: "obeys R (validate_container u b)"
  unfolding validate_container_def by (intro eff_bind eff_read eff_check eff_docker)

lemma eff_guarded_update:
  assumes "\<And>s. \<not> P s \<Longrightarrow> R s (f s)" and "obeys R k"
  shows "obeys R (bindP (readP P) (\<lambda>b. bindP (checkP (\<not> b) e) (\<lambda>_. bindP (updateP f) (\<lambda>_. k))))"
proof (rule obeysI)
  fix s
  have "R (f s) (snd (k (f s)))" using assms(2) by (simp add: obeys_def)
  then show "R s (snd (bindP (readP P) (\<lambda>b. bindP (checkP (\<not> b) e) (\<lambda>_. bindP (updateP f) (\<lambda>_. k))) s))"
    using assms(1) [of s] effect_trans [of s "f s"] effect_refl [of s]
    by (cases "P s") (auto simp: bindP_def checkP_def)
qed

lemma eff_take_over: "obeys R (take_over m t)"
  unfolding take_over_def
  by (rule eff_guarded_update, erule R_own)
     (intro eff_bind eff_update R_prepared eff_persist_state eff_audit eff_return)

lemma eff_prepare: "obeys R (worker_prepare g m t)"
  unfolding worker_prepare_def prepare_body_def
  by (intro eff_catch eff_return eff_bind eff_signed eff_read eff_check eff_lift eff_validate eff_take_over)

lemma eff_getP_worker: "obeys R (getP f k)"
  by (simp add: getP_def obeys_def effect_refl)

lemma eff_acknowledge: "obeys R (worker_acknowledge g p t)"
  unfolding worker_acknowledge_def acknowledge_body_def
  by (intro eff_catch eff_return eff_bind eff_signed eff_getP_worker eff_check eff_update R_plans
      eff_persist_state eff_audit)

lemma eff_write_evidence: "obeys R (write_evidence path d)"
  unfolding write_evidence_def
  by (intro eff_bind eff_read eff_next_fault)
     (auto split: io_fault.split intro!: eff_bind eff_raise eff_update R_evidence)

lemma eff_run_command: "obeys R (run_command p c timeout)"
  unfolding run_command_def
  by (auto split: command_kind.split option.split
      intro!: eff_bind eff_docker_exec eff_check eff_lift eff_raise eff_return eff_if)

lemma eff_run_commands: "obeys R (run_commands p t phase n cs timeout)"
  by (induction cs arbitrary: n)
     (auto intro!: eff_bind eff_return eff_run_command eff_utc_now eff_read eff_write_evidence eff_if)

lemma eff_monotonic: "obeys R monotonic"
  by (simp add: obeys_def monotonic_def R_mono)

lemma eff_phase_run: "obeys R (phase_run p t d phase cs l)"
  unfolding phase_run_def remaining_def Let_def
  by (intro eff_bind eff_monotonic eff_if eff_raise eff_return eff_run_commands)

lemma eff_cleanup: "obeys R (cleanup name)"
  unfolding cleanup_def
  by (intro eff_catch eff_bind eff_docker) (auto split: prod.split intro!: eff_return)

lemma eff_finish: "obeys R (finish_execute p t u f)"
  unfolding finish_execute_def
  by (intro eff_bind)
     (auto split: prod.split intro!: eff_bind eff_if eff_when eff_cleanup eff_return eff_audit eff_read)

end

text \<open>The same for the body of \<open>execute\<close>, whose state includes its locals.\<close>

definition lift_run :: "('s \<Rightarrow> 's \<Rightarrow> bool) \<Rightarrow> 's \<times> run_frame \<Rightarrow> 's \<times> run_frame \<Rightarrow> bool" where
  "lift_run R x y \<longleftrightarrow> R (fst x) (fst y)"

sublocale worker_effect \<subseteq> running: effect "lift_run R"
  by unfold_locales (auto simp: lift_run_def effect_refl intro: effect_trans)

context worker_effect
begin

lemma lift_onW: "obeys R m \<Longrightarrow> obeys (lift_run R) (onW m)"
  by (auto simp: obeys_def lift_run_def onW_def split: prod.split) (metis snd_conv)

lemma lift_assign: "obeys (lift_run R) (assign u)"
  by (auto simp: obeys_def lift_run_def assign_def effect_refl)

lemma lift_execute_body: "obeys (lift_run R) (execute_body g p t u d)"
  unfolding execute_body_def run_phases_def
  by (intro running.eff_bind running.eff_if running.eff_return lift_onW lift_assign eff_signed
      eff_validate eff_audit eff_docker eff_phase_run)

lemma lift_execute_handler: "obeys (lift_run R) (execute_handler e)"
  by (auto simp: execute_handler_def lift_assign split: exn.split)

lemma eff_execute: "obeys R (worker_execute g p t)"
proof -
  have run: "obeys R (\<lambda>s. case catchP (execute_body g p t u d) c execute_handler (s, run_start) of
      (Inl e, (s', f)) \<Rightarrow> (Inl e, s') | (Inr _, (s', f)) \<Rightarrow> finish_execute p t u f s')" for u d c
  proof (rule obeysI)
    fix s :: "'z worker_scheme"
    let ?m = "catchP (execute_body g p t u d) c execute_handler"
    obtain r s' f where m: "?m (s, run_start) = (r, (s', f))" by (metis prod.exhaust)
    have "obeys (lift_run R) ?m" by (intro running.eff_catch lift_execute_body lift_execute_handler)
    then have "lift_run R (s, run_start) (snd (?m (s, run_start)))" by (simp add: obeys_def)
    then have "R s s'" using m by (simp add: lift_run_def)
    then show "R s (snd (case ?m (s, run_start) of
      (Inl e, (s', f)) \<Rightarrow> (Inl e, s') | (Inr _, (s', f)) \<Rightarrow> finish_execute p t u f s'))"
      using effect_trans [of s s'] eff_finish [of p t u f] m
      by (cases r) (auto simp: obeys_def)
  qed
  show ?thesis
    unfolding worker_execute_def
    by (auto split: list.split intro!: eff_raise eff_bind eff_read eff_if eff_return eff_monotonic run)
qed

lemma eff_query: "obeys R (worker_query a gen e t)"
  unfolding worker_query_def
  by (rule eff_bind [OF eff_read])
     (auto split: option.split intro!: eff_if eff_return eff_bind eff_attempt eff_docker)

lemma eff_cancel_worker: "obeys R (worker_cancel g p t)"
  unfolding worker_cancel_def
  by (intro eff_catch eff_return eff_bind eff_signed eff_read eff_check eff_cleanup)
     (auto split: prod.split intro!: eff_bind eff_audit eff_return)

lemma eff_reconcile_worker: "obeys R (worker_reconcile g p t)"
  unfolding worker_reconcile_def
  by (intro eff_catch eff_return eff_bind eff_signed eff_read eff_check eff_docker)

text \<open>So the whole driver keeps the relation, in the sense of the scheduler's driver interface.\<close>

lemma docker_driver_obeys: "driver_obeys R (docker_driver g)"
  by (simp add: driver_obeys_def docker_driver_def eff_prepare eff_acknowledge eff_execute eff_query
      eff_cancel_worker eff_reconcile_worker)

end

section \<open>Fencing\<close>

text \<open>Sorting a dictionary by its keys changes no lookup.\<close>

lemma map_of_insort: "map_of (insort_key fst p d) k = (if k = fst p then Some (snd p) else map_of d k)"
  by (induction d) auto

lemma map_of_sorted: "map_of (sort_key fst d) k = map_of d k"
  by (induction d) (auto simp: map_of_insort)

definition file_high_water :: "driver_file \<Rightarrow> string \<Rightarrow> int" where
  "file_high_water f r = (case map_of (df_epochs f) r of None \<Rightarrow> 0 | Some e \<Rightarrow> e)"

lemma file_high_water_saved: "file_high_water (state_file_of s) r = high_water s r"
  by (simp add: file_high_water_def state_file_of_def high_water_def map_of_sorted)

lemma own_resources_fields:
  "own_resources m s = s\<lparr>
     wd_epochs := fold (\<lambda>r. AList.update r (man_lease_epoch m))
        (manifest_resources (man_gpu_ids m) (man_container_name m)) (wd_epochs s),
     wd_owner := fold (\<lambda>r. AList.update r (man_assignment_id m))
        (manifest_resources (man_gpu_ids m) (man_container_name m)) (wd_owner s)\<rparr>"
proof -
  have "fold (\<lambda>r s. s\<lparr>wd_epochs := AList.update r e (wd_epochs s),
            wd_owner := AList.update r a (wd_owner s)\<rparr>) rs s
     = s\<lparr>wd_epochs := fold (\<lambda>r. AList.update r e) rs (wd_epochs s),
         wd_owner := fold (\<lambda>r. AList.update r a) rs (wd_owner s)\<rparr>" for rs e a
    by (induction rs arbitrary: s) simp_all
  then show ?thesis by (simp add: own_resources_def)
qed

lemma map_of_fold_update:
  "map_of (fold (\<lambda>r. AList.update r v) rs d) k = (if k \<in> set rs then Some v else map_of d k)"
  by (induction rs arbitrary: d) (auto simp: update_conv)

lemma high_water_own:
  "high_water (own_resources m s) r =
     (if r \<in> set (manifest_resources (man_gpu_ids m) (man_container_name m)) then man_lease_epoch m
      else high_water s r)"
  by (simp add: high_water_def own_resources_fields map_of_fold_update)

text \<open>The mark of resource \<open>r\<close> is at least \<open>e\<close>, in memory and on disk.\<close>

definition fenced :: "string \<Rightarrow> int \<Rightarrow> 'z worker_scheme \<Rightarrow> bool" where
  "fenced r e s \<longleftrightarrow> e \<le> high_water s r \<and> (\<exists>f. wd_state_file s = Some f \<and> e \<le> file_high_water f r)"

lemma fenced_own:
  assumes "\<not> list_ex (\<lambda>r. man_lease_epoch m < high_water s r)
      (manifest_resources (man_gpu_ids m) (man_container_name m))" and "fenced r e s"
  shows "fenced r e (own_resources m s)"
proof -
  have "e \<le> high_water (own_resources m s) r"
    using assms by (force simp: fenced_def high_water_own list_ex_iff)
  moreover have "wd_state_file (own_resources m s) = wd_state_file s" by (simp add: own_resources_fields)
  ultimately show ?thesis using assms(2) by (simp add: fenced_def)
qed

lemma high_water_updates [simp]:
  "high_water (s\<lparr>clock_no := n\<rparr>) = high_water s" "high_water (s\<lparr>draw_no := n\<rparr>) = high_water s"
  "high_water (s\<lparr>fault_no := n\<rparr>) = high_water s" "high_water (s\<lparr>immutable := im\<rparr>) = high_water s"
  "high_water (s\<lparr>snapshots := sn\<rparr>) = high_water s" "high_water (append_line k l s) = high_water s"
  "high_water (s\<lparr>dk_calls := cs\<rparr>) = high_water s" "high_water (s\<lparr>wd_prepared := pm\<rparr>) = high_water s"
  "high_water (s\<lparr>wd_plans := pp\<rparr>) = high_water s" "high_water (s\<lparr>wd_state_file := sf\<rparr>) = high_water s"
  "high_water (s\<lparr>wd_inbox := i\<rparr>) = high_water s" "high_water (s\<lparr>wd_evidence := ev\<rparr>) = high_water s"
  "high_water (s\<lparr>wd_mono_no := n\<rparr>) = high_water s" "high_water (s\<lparr>logs := lg\<rparr>) = high_water s"
  by (simp_all add: high_water_def append_line_def fun_eq_iff)

interpretation fenced: worker_effect "keeps (fenced r e)" for r e
  by unfold_locales
     (auto simp: keeps_def fenced_own, auto simp: fenced_def file_high_water_saved append_line_def)

text \<open>An accepted manifest fences every resource it names.\<close>

lemma take_over_Inr:
  assumes "take_over m t s = (Inr b, s1)"
  obtains s2 where "audit t ''PREPARED'' [(''manifest_id'', JStr (man_manifest_id m)),
              (''gpu_ids'', JArr (map JInt (man_gpu_ids m)))] s2 = (Inr (), s1)"
    and "wd_state_file s2 = Some (state_file_of s2)"
    and "s2 = (own_resources m s)\<lparr>wd_prepared := AList.update (man_assignment_id m) m (wd_prepared s),
           fault_no := Suc (fault_no s), wd_state_file := wd_state_file s2\<rparr>"
proof -
  let ?s = "(own_resources m s)\<lparr>wd_prepared := AList.update (man_assignment_id m) m (wd_prepared s)\<rparr>"
  have f: "wd_prepared (own_resources m s) = wd_prepared s" "fault_no (own_resources m s) = fault_no s"
    "faults (own_resources m s) = faults s"
    by (simp_all add: own_resources_fields)
  have ok: "faults s (fault_no s) = IO_ok"
    using assms f
    by (auto simp: take_over_def bindP_def checkP_def persist_state_def next_fault_def split: if_splits)
  let ?s2 = "?s\<lparr>fault_no := Suc (fault_no s), wd_state_file := Some (state_file_of ?s)\<rparr>"
  have "audit t ''PREPARED'' [(''manifest_id'', JStr (man_manifest_id m)),
              (''gpu_ids'', JArr (map JInt (man_gpu_ids m)))] ?s2 = (Inr (), s1)"
    using assms f ok
    by (auto simp: take_over_def bindP_def checkP_def persist_state_def next_fault_def
        state_file_of_def split: if_splits prod.splits sum.splits)
  then show ?thesis by (rule that) (simp_all add: state_file_of_def)
qed

lemma prepare_Inr:
  assumes "worker_prepare g m t s = (Inr True, s1)"
  obtains s2 where "take_over m t s2 = (Inr True, s1)"
  using assms
  by (auto simp: worker_prepare_def catchP_def prepare_body_def bindP_def
      split: prod.splits sum.splits if_splits)

lemma prepare_fences:
  assumes "worker_prepare g m t s = (Inr True, s1)"
    and "r \<in> set (manifest_resources (man_gpu_ids m) (man_container_name m))"
  shows "fenced r (man_lease_epoch m) s1"
proof -
  obtain s2 where "take_over m t s2 = (Inr True, s1)" using prepare_Inr [OF assms(1)] .
  then obtain s3 where a: "audit t ''PREPARED'' [(''manifest_id'', JStr (man_manifest_id m)),
              (''gpu_ids'', JArr (map JInt (man_gpu_ids m)))] s3 = (Inr (), s1)"
    and f: "wd_state_file s3 = Some (state_file_of s3)"
    and s3: "s3 = (own_resources m s2)\<lparr>wd_prepared := AList.update (man_assignment_id m) m (wd_prepared s2),
           fault_no := Suc (fault_no s2), wd_state_file := wd_state_file s3\<rparr>"
    by (rule take_over_Inr)
  have "high_water s3 r = man_lease_epoch m"
    by (subst s3) (simp add: high_water_own assms(2))
  then have "fenced r (man_lease_epoch m) s3"
    using f by (simp add: fenced_def file_high_water_saved)
  then show ?thesis using keepsD [OF fenced.eff_audit, of r _ s3] a by (metis snd_conv)
qed

text \<open>Everything that may happen to a worker: calls of the master, and restarts.\<close>

inductive worker_reaches :: "('k, 'p) signer \<Rightarrow> 'z worker_scheme \<Rightarrow> 'z worker_scheme \<Rightarrow> bool"
  for g s where
  here: "worker_reaches g s s"
| prepare: "worker_reaches g s u \<Longrightarrow> worker_reaches g s (snd (worker_prepare g m t u))"
| acknowledge: "worker_reaches g s u \<Longrightarrow> worker_reaches g s (snd (worker_acknowledge g p t u))"
| execute: "worker_reaches g s u \<Longrightarrow> worker_reaches g s (snd (worker_execute g p t u))"
| query: "worker_reaches g s u \<Longrightarrow> worker_reaches g s (snd (worker_query a i e t u))"
| cancel: "worker_reaches g s u \<Longrightarrow> worker_reaches g s (snd (worker_cancel g p t u))"
| reconcile: "worker_reaches g s u \<Longrightarrow> worker_reaches g s (snd (worker_reconcile g p t u))"
| restart: "worker_reaches g s u \<Longrightarrow> worker_reaches g s (driver_init u)"

lemma fenced_restart: "fenced r e s \<Longrightarrow> fenced r e (driver_init s)"
  by (auto simp: fenced_def driver_init_def high_water_def file_high_water_def)

lemma fenced_forever: "worker_reaches g s u \<Longrightarrow> fenced r e s \<Longrightarrow> fenced r e u"
proof (induction rule: worker_reaches.induct)
  case (restart u)
  then show ?case by (simp add: fenced_restart)
qed (blast intro: keepsD fenced.eff_prepare fenced.eff_acknowledge fenced.eff_execute fenced.eff_query
      fenced.eff_cancel_worker fenced.eff_reconcile_worker)+

lemma fenced_not_current:
  assumes "fenced r e s" and "r \<in> set (manifest_resources (pln_gpu_ids p) (pln_container_name p))"
    and "pln_lease_epoch p < e"
  shows "\<not> is_current_plan p s"
  using assms by (force simp: fenced_def is_current_plan_def high_water_def list_all_iff)

lemma execute_not_current:
  "\<not> registered p s \<Longrightarrow> dk_calls (snd (worker_execute g p t s)) = dk_calls s"
  by (auto simp: worker_execute_def bindP_def split: list.split)

text \<open>
  C5. Fencing across time: once a worker accepted a manifest, no plan of an earlier epoch that
  shares a device or the container with it is current again, whatever calls and restarts follow,
  and executing it issues no container command.
\<close>

theorem stale_plan_never_runs:
  assumes "worker_prepare g m t s = (Inr True, s1)" and "worker_reaches g s1 s2"
    and "r \<in> set (manifest_resources (man_gpu_ids m) (man_container_name m))"
    and "r \<in> set (manifest_resources (pln_gpu_ids p) (pln_container_name p))"
    and "pln_lease_epoch p < man_lease_epoch m"
  shows "\<not> is_current_plan p s2 \<and> dk_calls (snd (worker_execute g p t' s2)) = dk_calls s2"
proof -
  have "fenced r (man_lease_epoch m) s2"
    using fenced_forever [OF assms(2) prepare_fences [OF assms(1,3)]] .
  then have "\<not> is_current_plan p s2" using fenced_not_current assms(4,5) by blast
  then show ?thesis using execute_not_current [of p s2 g t'] by (simp add: registered_def)
qed

section \<open>Restarts\<close>

text \<open>An audit record changes neither the tables of the driver nor anything of Docker.\<close>

definition same_driver :: "'z worker_scheme \<Rightarrow> 'z worker_scheme \<Rightarrow> bool" where
  "same_driver s t \<longleftrightarrow> wd_prepared t = wd_prepared s \<and> wd_plans t = wd_plans s \<and>
     wd_epochs t = wd_epochs s \<and> wd_owner t = wd_owner s \<and> wd_state_file t = wd_state_file s \<and>
     dk_calls t = dk_calls s \<and> dk_daemon t = dk_daemon s \<and> dk_repr t = dk_repr s"

interpretation same_driver: audit_effect same_driver
  by unfold_locales (auto simp: same_driver_def append_line_def)

text \<open>Memory and disk agree on every lookup.\<close>

definition synced :: "'z worker_scheme \<Rightarrow> bool" where
  "synced s \<longleftrightarrow> wd_state_file s = Some (state_file_of s)"

lemma synced_same: "same_driver s t \<Longrightarrow> synced s \<Longrightarrow> synced t"
  by (simp add: same_driver_def synced_def state_file_of_def)

lemma synced_audit: "audit t et pl s = (r, s') \<Longrightarrow> synced s \<Longrightarrow> synced s'"
  using obeysD [OF same_driver.eff_audit] synced_same by blast

lemma prepare_synced:
  assumes "worker_prepare g m t s = (Inr True, s1)"
  shows "synced s1"
proof -
  obtain s2 where "take_over m t s2 = (Inr True, s1)" using prepare_Inr [OF assms] .
  then show ?thesis
    by (rule take_over_Inr) (erule synced_audit, simp add: synced_def)
qed

lemma acknowledge_synced:
  assumes "worker_acknowledge g p t s = (Inr True, s1)"
  shows "synced s1"
proof -
  obtain s2 s3 where a: "audit t ''PLAN_ACK'' [(''plan_id'', JStr (pln_plan_id p))] s3 = (Inr (), s1)"
    and p: "persist_state s2 = (Inr (), s3)"
    using assms
    by (auto simp: worker_acknowledge_def catchP_def acknowledge_body_def bindP_def
        split: prod.splits sum.splits if_splits)
  have "synced s3"
    using p by (auto simp: persist_state_def bindP_def next_fault_def synced_def state_file_of_def
        split: if_splits)
  then show ?thesis using synced_audit [OF a] by blast
qed

lemma synced_restart:
  assumes "synced s"
  shows "map_of (wd_plans (driver_init s)) = map_of (wd_plans s)"
    and "map_of (wd_prepared (driver_init s)) = map_of (wd_prepared s)"
    and "map_of (wd_epochs (driver_init s)) = map_of (wd_epochs s)"
    and "map_of (wd_owner (driver_init s)) = map_of (wd_owner s)"
  using assms by (simp_all add: synced_def driver_init_def state_file_of_def fun_eq_iff map_of_sorted)


section \<open>Starting and stopping the container\<close>

text \<open>Commands are only added, and the daemon behind them stays the same.\<close>

definition asks :: "'z docker_world_scheme \<Rightarrow> 'z docker_world_scheme \<Rightarrow> bool" where
  "asks s t \<longleftrightarrow> (\<exists>cs. dk_calls t = dk_calls s @ cs) \<and> dk_daemon t = dk_daemon s \<and> dk_repr t = dk_repr s"

lemma own_resources_docker [simp]:
  "dk_calls (own_resources m s) = dk_calls s" "dk_daemon (own_resources m s) = dk_daemon s"
  "dk_repr (own_resources m s) = dk_repr s"
  by (simp_all add: own_resources_fields)

interpretation asks: worker_effect asks
  by unfold_locales (auto simp: asks_def append_line_def)

definition start_call :: "docker_call \<Rightarrow> bool" where
  "start_call c \<longleftrightarrow> (\<exists>name. dc_args c = [''start'', name])"

definition new_calls :: "'z docker_world_scheme \<Rightarrow> 'z docker_world_scheme \<Rightarrow> docker_call list" where
  "new_calls s t = drop (length (dk_calls s)) (dk_calls t)"

text \<open>A stopped container of the frozen baseline, as an inspection shows it.\<close>

definition stopped_baseline :: "inspection \<Rightarrow> bool" where
  "stopped_baseline i \<longleftrightarrow> ins_exists i \<and> \<not> ins_running i \<and> ins_image_id i = Some expected_image_id \<and>
     baseline_namespace i \<and>
     set (map (\<lambda>m. (mnt_source m, mnt_destination m, mnt_read_write m)) (ins_mounts i)) = expected_mounts \<and>
     expected_devices \<subseteq> set (ins_devices i)"

text \<open>The daemon's answer to an inspection asked in state \<open>s\<close>.\<close>

definition inspection_answer :: "'z docker_world_scheme \<Rightarrow> string \<Rightarrow> inspection \<Rightarrow> bool" where
  "inspection_answer s name i \<longleftrightarrow> last_inspection
     (s\<lparr>dk_calls := dk_calls s @ [\<lparr>dc_args = [''inspect'', name], dc_stdin = None, dc_timeout = 30\<rparr>]\<rparr>) name i"

lemma digests_calls:
  "dk_calls (snd (docker_image_repo_digests i s)) =
     dk_calls s @ [\<lparr>dc_args = [''image'', ''inspect'', ''--format'', ''{{json .RepoDigests}}'', i],
                    dc_stdin = None, dc_timeout = 30\<rparr>]"
  by (auto simp: docker_image_repo_digests_def docker_run_def bindP_def Let_def
      split: docker_reply.splits option.splits json.splits)

lemma inspect_calls:
  "dk_calls (snd (docker_inspect name s)) =
     dk_calls s @ [\<lparr>dc_args = [''inspect'', name], dc_stdin = None, dc_timeout = 30\<rparr>]"
  by (auto simp: docker_inspect_def docker_run_def bindP_def Let_def liftE_def split: docker_reply.splits)

text \<open>The checks before the start only inspect.\<close>

definition no_start :: "'z docker_world_scheme \<Rightarrow> 'z docker_world_scheme \<Rightarrow> bool" where
  "no_start s t \<longleftrightarrow> (\<exists>cs. dk_calls t = dk_calls s @ cs \<and> (\<forall>c \<in> set cs. \<not> start_call c))"

interpretation no_start: effect no_start
proof unfold_locales
  fix s t u :: "'a docker_world_scheme"
  show "no_start s s" by (simp add: no_start_def)
  assume "no_start s t" "no_start t u"
  then obtain a b where "dk_calls t = dk_calls s @ a" "dk_calls u = dk_calls t @ b"
    "\<forall>c \<in> set a \<union> set b. \<not> start_call c"
    unfolding no_start_def by blast
  then have "dk_calls u = dk_calls s @ (a @ b) \<and> (\<forall>c \<in> set (a @ b). \<not> start_call c)" by auto
  then show "no_start s u" unfolding no_start_def by blast
qed

lemma no_start_validate: "obeys no_start (validate_container u b)"
proof -
  have "obeys no_start (docker_inspect n)" "obeys no_start (docker_image_repo_digests i)" for n i
    by (auto simp: obeys_def no_start_def inspect_calls digests_calls start_call_def)
  then show ?thesis
    unfolding validate_container_def
    by (intro no_start.eff_bind no_start.eff_read no_start.eff_check)
qed

lemma validate_Inr:
  assumes "validate_container u True s = (Inr x, t)"
  shows "\<exists>i. inspection_answer s (unt_container_name u) i \<and> stopped_baseline i"
proof -
  obtain i s1 where i: "docker_inspect (unt_container_name u) s = (Inr i, s1)"
    and ok: "ins_exists i" "\<not> ins_running i" "ins_image_id i = Some expected_image_id"
      "baseline_namespace i" "expected_devices \<subseteq> set (ins_devices i)"
      "set (map (\<lambda>m. (mnt_source m, mnt_destination m, mnt_read_write m)) (ins_mounts i)) = expected_mounts"
    using assms
    by (auto simp: validate_container_def bindP_def checkP_def simp del: set_map
        split: if_splits sum.splits prod.splits)
  from docker_inspect_Inr [OF i] ok show ?thesis
    unfolding inspection_answer_def stopped_baseline_def by blast
qed

text \<open>What a start presupposes, as it was when \<open>execute\<close> began in state \<open>s\<close>.\<close>

definition may_start :: "('k, 'p) signer \<Rightarrow> plan \<Rightarrow> task \<Rightarrow> task_unit \<Rightarrow> 'z worker_scheme \<Rightarrow> bool" where
  "may_start g p t u s \<longleftrightarrow>
     tsk_key_id t = wd_key_id s \<and> verify_model (sg_crypto g) (task_integrity (sg_task_dump g)) (sg_verification_key g) t \<and>
     pln_key_id p = wd_key_id s \<and> verify_model (sg_crypto g) (plan_integrity (sg_plan_dump g)) (sg_verification_key g) p \<and>
     (\<exists>i. inspection_answer s (unt_container_name u) i \<and> stopped_baseline i)"

definition run_progress ::
  "('k, 'p) signer \<Rightarrow> plan \<Rightarrow> task \<Rightarrow> task_unit \<Rightarrow> 'z worker_scheme \<Rightarrow> 'z worker_scheme \<times> run_frame \<Rightarrow> bool" where
  "run_progress g p t u s x \<longleftrightarrow> asks s (fst x) \<and>
     (if rf_start_attempted (snd x) then may_start g p t u s
      else \<forall>c \<in> set (new_calls s (fst x)). \<not> start_call c)"

lemma asks_trans: "asks s t \<Longrightarrow> asks t u \<Longrightarrow> asks s u"
  by (auto simp: asks_def)

text \<open>Once a start may have been attempted, the rest of the run keeps the record true.\<close>

definition under_way ::
  "('k, 'p) signer \<Rightarrow> plan \<Rightarrow> task \<Rightarrow> task_unit \<Rightarrow> 'z worker_scheme \<Rightarrow> 'z worker_scheme \<times> run_frame \<Rightarrow> bool" where
  "under_way g p t u s x \<longleftrightarrow> asks s (fst x) \<and> rf_start_attempted (snd x) \<and> may_start g p t u s"

lemma under_way_progress: "under_way g p t u s x \<Longrightarrow> run_progress g p t u s x"
  by (simp add: under_way_def run_progress_def)

lemma under_way_onW:
  assumes "obeys asks m"
  shows "obeys (keeps (under_way g p t u s)) (onW m)"
proof (rule obeysI)
  fix x :: "'a worker_scheme \<times> run_frame"
  obtain y f where x: "x = (y, f)" by (cases x)
  obtain r z where m: "m y = (r, z)" by fastforce
  have "asks y z" using obeysD [OF assms m] .
  then show "keeps (under_way g p t u s) x (snd (onW m x))"
    using asks_trans by (auto simp: x m onW_def keeps_def under_way_def)
qed

lemma under_way_assign:
  "(\<And>f. rf_start_attempted (h f) = rf_start_attempted f) \<Longrightarrow>
     obeys (keeps (under_way g p t u s)) (assign h)"
  by (auto simp: obeys_def assign_def keeps_def under_way_def)

lemma under_way_phases: "obeys (keeps (under_way g p t u s)) (run_phases p t u d)"
  unfolding run_phases_def
  by (intro keeps.eff_bind keeps.eff_if keeps.eff_return under_way_onW under_way_assign
      asks.eff_docker asks.eff_audit asks.eff_phase_run) simp_all

lemma no_start_new: "no_start s t \<Longrightarrow> \<forall>c \<in> set (new_calls s t). \<not> start_call c"
  by (auto simp: no_start_def new_calls_def)

text \<open>Before the start: the signatures hold, nothing was started, the inspection was good.\<close>

definition checked ::
  "('k, 'p) signer \<Rightarrow> plan \<Rightarrow> task \<Rightarrow> task_unit \<Rightarrow> 'z worker_scheme \<Rightarrow> 'z worker_scheme \<times> run_frame \<Rightarrow> bool" where
  "checked g p t u s x \<longleftrightarrow> asks s (fst x) \<and> no_start s (fst x) \<and> snd x = run_start \<and> may_start g p t u s"

lemma checked_progress: "checked g p t u s x \<Longrightarrow> run_progress g p t u s x"
  using no_start_new [of s "fst x"] by (simp add: checked_def run_progress_def run_start_def)

lemma checked_audit: "obeys (keeps (checked g p t u s)) (onW (audit t' et pl))"
proof (rule obeysI)
  fix x :: "'a worker_scheme \<times> run_frame"
  obtain y f where x: "x = (y, f)" by (cases x)
  obtain r z where m: "audit t' et pl y = (r, z)" by fastforce
  have "same_driver y z" using obeysD [OF same_driver.eff_audit m] .
  then show "keeps (checked g p t u s) x (snd (onW (audit t' et pl) x))"
    by (simp add: x m onW_def keeps_def checked_def asks_def no_start_def same_driver_def)
qed

lemma checks_before_start:
  fixes s :: "'z worker_scheme"
  assumes "\<And>x. triple (checked g p t u s) (k x) Q (\<lambda>_. run_progress g p t u s)"
  shows "triple (\<lambda>x. x = (s, run_start))
     (bindP (onW (signed_by_master g t)) (\<lambda>_. bindP (onW (plan_by_master g p)) (\<lambda>_.
      bindP (onW (validate_container u True)) k))) Q (\<lambda>_. run_progress g p t u s)"
proof (rule tripleI)
  fix x :: "'z worker_scheme \<times> run_frame"
  assume x: "x = (s, run_start)"
  let ?m = "bindP (onW (signed_by_master g t)) (\<lambda>_. bindP (onW (plan_by_master g p)) (\<lambda>_.
      bindP (onW (validate_container u True)) k))"
  have now: "run_progress g p t u s (s, run_start)"
    by (simp add: run_progress_def asks_def run_start_def new_calls_def)
  let ?st = "tsk_key_id t = wd_key_id s \<and> verify_model (sg_crypto g) (task_integrity (sg_task_dump g)) (sg_verification_key g) t"
  let ?sp = "pln_key_id p = wd_key_id s \<and> verify_model (sg_crypto g) (plan_integrity (sg_plan_dump g)) (sg_verification_key g) p"
  show "case ?m x of (Inl e, y) \<Rightarrow> run_progress g p t u s y | (Inr v, y) \<Rightarrow> Q v y"
  proof (cases "?st \<and> ?sp")
    case False
    then show ?thesis
      using now
      by (auto simp: x signed_by_master_def plan_by_master_def verify_signed_def bindP_def onW_def checkP_def)
  next
    case True
    obtain r s1 where v: "validate_container u True s = (r, s1)" by fastforce
    have m: "?m x = bindP (onW (validate_container u True)) k (s, run_start)"
      using True
      by (simp add: x signed_by_master_def plan_by_master_def verify_signed_def bindP_def onW_def checkP_def)
    have ns: "no_start s s1" and a: "asks s s1"
      using obeysD [OF no_start_validate v] obeysD [OF asks.eff_validate v] by auto
    show ?thesis
    proof (cases r)
      case (Inl e)
      then show ?thesis
        using ns a unfolding m by (simp add: bindP_def onW_def v run_progress_def run_start_def no_start_new)
    next
      case (Inr w)
      then have "checked g p t u s (s1, run_start)"
        using ns a validate_Inr [of u s w s1] v True by (simp add: checked_def may_start_def)
      then show ?thesis
        using assms [of w] Inr unfolding m by (auto simp: bindP_def onW_def v triple_def)
    qed
  qed
qed

lemma execute_body_progress:
  "triple (\<lambda>x. x = (s, run_start)) (execute_body g p t u d)
     (\<lambda>_. run_progress g p t u s) (\<lambda>_. run_progress g p t u s)"
  unfolding execute_body_def
proof (rule checks_before_start)
  let ?C = "checked g p t u s" and ?U = "under_way g p t u s" and ?P = "run_progress g p t u s"
  have audit: "triple ?C (onW (audit t et pl)) (\<lambda>_. ?C) (\<lambda>_. ?P)" for et pl
    by (rule triple_conseq [OF triple_keeps [OF checked_audit [of g p t u s t et pl]]])
       (auto intro: checked_progress)
  have start: "triple ?C (assign (\<lambda>f. f\<lparr>rf_start_attempted := True\<rparr>)) (\<lambda>_. ?U) (\<lambda>_. ?P)"
    by (auto simp: triple_def assign_def checked_def under_way_def)
  have rest: "triple ?U (run_phases p t u d) (\<lambda>_. ?P) (\<lambda>_. ?P)"
    by (rule triple_conseq [OF triple_keeps [OF under_way_phases [of g p t u s d]]])
       (auto intro: under_way_progress)
  show "triple ?C (bindP (onW (audit t ''DOCKER_INSPECT_PRE'' [(''plan_id'', JStr (pln_plan_id p)),
        (''argv'', JArr (map JStr [''docker'', ''inspect'', pln_container_name p])),
        (''postcondition'', JStr ''exists=true,running=false,baseline=matched'')])) (\<lambda>_.
     bindP (onW (audit t ''TASK_VERIFIED_PRE_DOCKER'' [(''plan_id'', JStr (pln_plan_id p)),
        (''task_content_hash'', JStr (case tsk_content_hash t of None \<Rightarrow> [] | Some h \<Rightarrow> h)),
        (''lease_epoch'', JInt (pln_lease_epoch p)),
        (''dispatch_generation'', JInt (pln_dispatch_generation p))])) (\<lambda>_.
     bindP (assign (\<lambda>f. f\<lparr>rf_start_attempted := True\<rparr>)) (\<lambda>_.
     run_phases p t u d)))) (\<lambda>_. ?P) (\<lambda>_. ?P)" for x :: unit
    by (rule triple_bind [OF audit], rule triple_bind [OF audit], rule triple_bind [OF start], rule rest)
qed

lemma progress_handler:
  "triple (run_progress g p t u s) (execute_handler e) (\<lambda>_. run_progress g p t u s) E"
  by (auto simp: triple_def execute_handler_def assign_def run_progress_def split: exn.split)

text \<open>The ways a run can go.\<close>

lemma execute_cases:
  assumes "worker_execute g p t s = (r, s')"
  obtains (idle) "s' = s"
  | (ran) u s2 f where "registered p s" and "u \<in> set (tsk_units t)" and "unt_unit_id u = pln_unit_id p"
      and "run_progress g p t u (s\<lparr>wd_mono_no := Suc (wd_mono_no s)\<rparr>) (s2, f)"
      and "(\<exists>e. r = Inl e \<and> s' = s2) \<or> finish_execute p t u f s2 = (r, s')"
proof (cases "filter (\<lambda>u. unt_unit_id u = pln_unit_id p) (tsk_units t)")
  case Nil
  then show ?thesis using assms idle by (simp add: worker_execute_def)
next
  case (Cons u us)
  then have u: "u \<in> set (tsk_units t)" "unt_unit_id u = pln_unit_id p"
    by (auto dest: filter_eq_ConsD)
  show ?thesis
  proof (cases "registered p s")
    case False
    then show ?thesis using assms idle Cons by (simp add: worker_execute_def bindP_def)
  next
    case True
    let ?s1 = "s\<lparr>wd_mono_no := Suc (wd_mono_no s)\<rparr>"
    let ?m = "catchP (execute_body g p t u (wd_mono s (wd_mono_no s) + unt_timeout_seconds u * 1000000))
      (\<lambda>e. is_DockerError e \<or> is_DriverError e) execute_handler"
    obtain q x where x: "?m (?s1, run_start) = (q, x)" by (rule prod.exhaust)
    obtain s2 f where "x = (s2, f)" by (rule prod.exhaust)
    with x have m: "?m (?s1, run_start) = (q, (s2, f))" by simp
    have t: "triple (\<lambda>x. x = (?s1, run_start)) ?m (\<lambda>_. run_progress g p t u ?s1) (\<lambda>_. run_progress g p t u ?s1)"
      by (rule triple_catch [OF execute_body_progress]) (rule progress_handler, assumption)
    have "run_progress g p t u ?s1 (s2, f)"
      using triple_Inl [OF t refl] triple_Inr [OF t refl] m by (cases q) auto
    moreover have "(\<exists>e. r = Inl e \<and> s' = s2) \<or> finish_execute p t u f s2 = (r, s')"
      using assms m Cons True
      by (cases q) (auto simp: worker_execute_def bindP_def monotonic_def)
    ultimately show ?thesis using ran True u by blast
  qed
qed

lemma finish_idle_calls:
  assumes "finish_execute p t u f s = (r, s')" and "\<not> rf_start_attempted f"
  shows "dk_calls s' = dk_calls s"
proof -
  obtain et pl q where "audit t et pl s = (q, s')"
    using assms by (auto simp: finish_execute_def bindP_def whenP_def split: prod.splits sum.splits)
  then show ?thesis using obeysD [OF same_driver.eff_audit] by (metis same_driver_def)
qed

lemma may_start_clock [simp]: "may_start g p t u (s\<lparr>wd_mono_no := n\<rparr>) = may_start g p t u s"
  by (simp add: may_start_def inspection_answer_def last_inspection_def)

lemma unstarted_run:
  assumes "worker_execute g p t s = (r, s')"
    and "\<not> (registered p s \<and> (\<exists>u \<in> set (tsk_units t). unt_unit_id u = pln_unit_id p \<and> may_start g p t u s))"
  shows "\<forall>c \<in> set (new_calls s s'). \<not> start_call c"
  using assms(1)
proof (cases rule: execute_cases)
  case idle
  then show ?thesis by (simp add: new_calls_def)
next
  case (ran u s2 f)
  then have "\<not> may_start g p t u s" using assms(2) by blast
  then have f: "\<not> rf_start_attempted f" and c: "\<forall>c \<in> set (new_calls s s2). \<not> start_call c"
    using ran(4) by (auto simp: run_progress_def new_calls_def split: if_splits)
  have "dk_calls s' = dk_calls s2" using ran(5) finish_idle_calls f by blast
  then show ?thesis using c by (simp add: new_calls_def)
qed


lemma cleanup_Inr:
  assumes "cleanup name s = (Inr (True, w), t)"
  shows "\<exists>i. last_inspection t name i \<and> ins_exists i \<and> \<not> ins_running i"
proof -
  have "(\<exists>i. docker_stop name 30 s = (Inr (i, w), t) \<and> ins_exists i \<and> \<not> ins_running i) \<or>
    (\<exists>i s1. docker_inspect name s1 = (Inr i, t) \<and> ins_exists i \<and> \<not> ins_running i)"
    using assms by (auto simp: cleanup_def catchP_def bindP_def split: prod.splits sum.splits if_splits)
  then show ?thesis using docker_stop_Inr docker_inspect_Inr by blast
qed

lemma last_inspection_same:
  "same_driver s t \<Longrightarrow> last_inspection t name i = last_inspection s name i"
  by (simp add: last_inspection_def same_driver_def)

text \<open>
  C20. A clean-up is only reported when it was observed: if a run returns with \<open>cleanup_ok\<close>, it
  either started nothing or the daemon's last answer, to an inspection of the plan's container,
  showed that it exists and is not running.
\<close>

theorem reported_cleanup_was_observed:
  assumes "worker_execute g p t s = (Inr res, s')" and "res_cleanup_ok res"
  shows "(\<forall>c \<in> set (new_calls s s'). \<not> start_call c) \<or>
    (\<exists>i. last_inspection s' (pln_container_name p) i \<and> ins_exists i \<and> \<not> ins_running i)"
  using assms(1)
proof (cases rule: execute_cases)
  case idle
  then show ?thesis by (simp add: new_calls_def)
next
  case (ran u s2 f)
  then have fin: "finish_execute p t u f s2 = (Inr res, s')" by simp
  show ?thesis
  proof (cases "rf_start_attempted f")
    case False
    then have "\<forall>c \<in> set (new_calls s s2). \<not> start_call c"
      using ran(4) by (simp add: run_progress_def new_calls_def)
    then show ?thesis using finish_idle_calls [OF fin False] by (simp add: new_calls_def)
  next
    case True
    obtain w s3 s4 et1 pl1 et2 pl2 where c: "cleanup (pln_container_name p) s2 = (Inr (True, w), s3)"
      and a: "audit t et1 pl1 s3 = (Inr (), s4)" "audit t et2 pl2 s4 = (Inr (), s')"
      using fin True assms(2)
      by (auto simp: finish_execute_def bindP_def whenP_def split: prod.splits sum.splits)
    have "same_driver s3 s4" "same_driver s4 s'"
      using obeysD [OF same_driver.eff_audit a(1)] obeysD [OF same_driver.eff_audit a(2)] by auto
    then show ?thesis using cleanup_Inr [OF c] last_inspection_same by blast
  qed
qed

end
