(* ===== verification/Worker_Samples.thy ===== *)
theory Worker_Samples
  imports Worker_Fencing Json_Roundtrip Fake_Driver
begin

text \<open>
  A worker with a Docker daemon that behaves: one container of the frozen baseline, which runs
  between a start and the next stop or kill. On it the theorems about the worker's driver are
  applied to concrete runs.
\<close>

section \<open>A daemon\<close>

definition the_container :: string where
  "the_container = ''fh-sglang-deepseek-v4-flash''"

definition device_json :: "string \<Rightarrow> json" where
  "device_json d = JObj [(''PathInContainer'', JStr d), (''PathOnHost'', JStr d)]"

definition mount_json :: "string \<Rightarrow> string \<Rightarrow> bool \<Rightarrow> json" where
  "mount_json a b w = JObj [(''Destination'', JStr b), (''RW'', JBool w), (''Source'', JStr a)]"

definition container_json :: "bool \<Rightarrow> json" where
  "container_json run = JArr [JObj [
     (''Config'', JObj [(''User'', JStr ''root''), (''WorkingDir'', JStr ''/workspace'')]),
     (''HostConfig'', JObj [
        (''Devices'', JArr (map device_json [''/dev/kfd'', ''/dev/mkfd'', ''/dev/dri''])),
        (''IpcMode'', JStr ''host''), (''NetworkMode'', JStr ''host''), (''Privileged'', JBool True),
        (''ShmSize'', JInt 17179869184)]),
     (''Image'', JStr expected_image_id),
     (''Mounts'', JArr [mount_json ''/public/share'' ''/data'' True,
        mount_json ''/public/home/zz_chentian'' ''/home'' True, mount_json ''/mnt/nvme1/models'' ''/models'' False,
        mount_json ''/opt/hyhal'' ''/opt/hyhal'' False]),
     (''State'', JObj [(''Running'', JBool run)])]]"

definition container_view :: "bool \<Rightarrow> inspection" where
  "container_view run = \<lparr>ins_exists = True, ins_running = run, ins_image_id = Some expected_image_id,
     ins_config_image = Some [], ins_user = Some ''root'', ins_working_dir = Some ''/workspace'',
     ins_privileged = True, ins_network_mode = Some ''host'', ins_ipc_mode = Some ''host'',
     ins_shm_size = Some 17179869184,
     ins_devices = [(''/dev/dri'', ''/dev/dri''), (''/dev/kfd'', ''/dev/kfd''), (''/dev/mkfd'', ''/dev/mkfd'')],
     ins_mounts = [\<lparr>mnt_source = ''/public/share'', mnt_destination = ''/data'', mnt_read_write = True\<rparr>,
       \<lparr>mnt_source = ''/public/home/zz_chentian'', mnt_destination = ''/home'', mnt_read_write = True\<rparr>,
       \<lparr>mnt_source = ''/mnt/nvme1/models'', mnt_destination = ''/models'', mnt_read_write = False\<rparr>,
       \<lparr>mnt_source = ''/opt/hyhal'', mnt_destination = ''/opt/hyhal'', mnt_read_write = False\<rparr>]\<rparr>"

lemma container_json_clean: "clean (container_json run)"
  by (simp add: container_json_def device_json_def mount_json_def expected_image_id_def clean_ascii)

lemma container_json_sorted: "sorted_json (container_json run) = container_json run"
  by (simp add: container_json_def device_json_def mount_json_def less_char_def)

lemma container_inspection: "inspection_of repr (hd (case container_json run of JArr vs \<Rightarrow> vs)) = Inr (container_view run)"
  by (simp add: container_json_def device_json_def mount_json_def inspection_of_def device_of_def mount_of_def
      py_get_def container_view_def Let_def less_char_def less_eq_char_def)

text \<open>The daemon: running is what the last start, stop or kill says.\<close>

definition running_after :: "docker_call list \<Rightarrow> bool" where
  "running_after cs = fold (\<lambda>c run. if take 1 (dc_args c) = [''start''] then True
     else if take 1 (dc_args c) \<in> {[''stop''], [''kill'']} then False else run) cs False"

definition sample_daemon :: "docker_call list \<Rightarrow> docker_reply" where
  "sample_daemon cs = Completed \<lparr>pr_returncode = 0,
     pr_stdout = (if take 1 (dc_args (last cs)) = [''inspect'']
        then json_dumps True (\<lambda>_. []) (container_json (running_after cs))
        else if take 1 (dc_args (last cs)) = [''image'']
        then json_dumps True (\<lambda>_. []) (JArr [JStr sample_image]) else []),
     pr_stderr = []\<rparr>"

definition worker_unit :: task_unit where
  "worker_unit = (sample_unit ''w'' the_container 1)\<lparr>unt_submitter_username := ''zz_chentian''\<rparr>"

definition worker_task :: task where
  "worker_task = sample_task ''task'' [worker_unit]"

definition sample_manifest :: "int \<Rightarrow> manifest" where
  "sample_manifest epoch = sign_model toy_crypto (manifest_integrity man_manifest_id) ''key''
     \<lparr>man_key_id = ''k'', man_manifest_id = sample_id ''manifest'', man_task_id = sample_id ''task'',
      man_execution_id = sample_id ''exec'', man_assignment_id = sample_id ''assign'',
      man_dispatch_generation = 1, man_worker_id = ''w'', man_gpu_ids = [0], man_lease_epoch = epoch,
      man_container_name = the_container, man_created_at = 0, man_content_hash = None,
      man_signature = None\<rparr>"

definition sample_plan :: "int \<Rightarrow> plan" where
  "sample_plan epoch = sign_model toy_crypto (plan_integrity pln_plan_id) ''key''
     \<lparr>pln_key_id = ''k'', pln_plan_id = sample_id ''plan'', pln_assignment_id = sample_id ''assign'',
      pln_execution_id = sample_id ''exec'', pln_task_id = sample_id ''task'',
      pln_task_content_hash = (case tsk_content_hash worker_task of None \<Rightarrow> [] | Some h \<Rightarrow> h),
      pln_dispatch_generation = 1, pln_worker_id = ''w'', pln_unit_id = sample_id ''unit'',
      pln_gpu_ids = [0], pln_lease_epoch = epoch, pln_container_name = the_container,
      pln_submitter_username = ''zz_chentian'', pln_container_user = ''root'',
      pln_image_digest = sample_image, pln_environment = [], pln_created_at = 0,
      pln_content_hash = None, pln_signature = None\<rparr>"

text \<open>The environment of the sample worker: a good disk and that daemon.\<close>

definition sample_env :: "'z worker_scheme \<Rightarrow> bool" where
  "sample_env s \<longleftrightarrow> faults s = no_faults \<and> dk_daemon s = sample_daemon \<and> dk_repr s = (\<lambda>_. []) \<and>
     wd_key_id s = ''k'' \<and> wd_worker_id s = ''w'' \<and> wd_mono s = (\<lambda>_. 0)"

definition fresh_worker :: worker where
  "fresh_worker =
     \<lparr>clock = (\<lambda>n. 0), clock_no = 0, draws = (\<lambda>n. (int n, 0, 0)), draw_no = 0, faults = no_faults,
      fault_no = 0, store_root = ''/state'', immutable = [], snapshots = [], logs = [],
      dk_calls = [], dk_daemon = sample_daemon, dk_repr = (\<lambda>_. []),
      wd_key_id = ''k'', wd_worker_id = ''w'', wd_prepared = [], wd_plans = [], wd_epochs = [],
      wd_owner = [], wd_state_file = None, wd_inbox = [], wd_evidence = [], wd_files = (\<lambda>_. {}),
      wd_mono = (\<lambda>_. 0), wd_mono_no = 0, wd_short = (\<lambda>_. 0), wd_iso = (\<lambda>_. [])\<rparr>"

lemma fresh_worker_env: "sample_env fresh_worker"
  by (simp add: fresh_worker_def sample_env_def)

interpretation sample_env: worker_effect "keeps sample_env"
  by unfold_locales (auto simp: keeps_def sample_env_def append_line_def own_resources_fields)

section \<open>Steps on the sample worker\<close>

lemma running_after_snoc:
  "running_after (cs @ [c]) = (if take 1 (dc_args c) = [''start''] then True
     else if take 1 (dc_args c) \<in> {[''stop''], [''kill'']} then False else running_after cs)"
  by (simp add: running_after_def)

lemma sample_audit:
  assumes "sample_env s"
  obtains s' where "audit t et pl s = (Inr (), s')" and "same_driver s s'" and "sample_env s'"
proof -
  obtain ms ra rb where d: "draws s (draw_no s) = (ms, ra, rb)" by (metis prod.exhaust)
  obtain i where i: "new_id ''worker_evt'' ms ra rb = Inr i"
    by (simp add: new_id_Inr is_lower_def less_eq_char_def del: hex_pad.simps)
  have "\<exists>s'. audit t et pl s = (Inr (), s')"
    using assms d i
    by (simp add: audit_def bindP_def fresh_id_def utc_now_def next_fault_def Let_def sample_env_def no_faults_def)
  then obtain s' where a: "audit t et pl s = (Inr (), s')" by blast
  show ?thesis
    using that [OF a] obeysD [OF same_driver.eff_audit a] obeysD [OF sample_env.eff_audit a] assms
    by (simp add: keeps_def)
qed

lemma container_answer:
  "\<exists>x. Option.bind (json_loads (json_dumps True r (container_json b))) py_first = Some x \<and>
     inspection_of repr x = Inr (container_view b)"
proof -
  obtain x where x: "container_json b = JArr [x]" by (simp add: container_json_def)
  then show ?thesis
    using loads_dumps [OF container_json_clean, of True r b] container_inspection [of repr b]
      container_json_sorted [of b]
    by (simp del: json_dumps.simps)
qed

lemma sample_inspect:
  assumes "sample_env s"
  shows "docker_inspect name s = (Inr (container_view (running_after (dk_calls s))),
    s\<lparr>dk_calls := dk_calls s @ [\<lparr>dc_args = [''inspect'', name], dc_stdin = None, dc_timeout = 30\<rparr>]\<rparr>)"
proof -
  obtain x where "Option.bind (json_loads (json_dumps True (\<lambda>_. []) (container_json (running_after (dk_calls s))))) py_first = Some x"
    and "inspection_of (\<lambda>_. []) x = Inr (container_view (running_after (dk_calls s)))"
    using container_answer by blast
  then show ?thesis
    using assms
    by (simp add: docker_inspect_def docker_run_def bindP_def liftE_def Let_def sample_env_def
        sample_daemon_def inspect_result_def running_after_snoc del: json_dumps.simps)
qed

lemma sample_digests:
  assumes "sample_env s"
  shows "docker_image_repo_digests i s = (Inr [sample_image],
    s\<lparr>dk_calls := dk_calls s @ [\<lparr>dc_args = [''image'', ''inspect'', ''--format'', ''{{json .RepoDigests}}'', i],
       dc_stdin = None, dc_timeout = 30\<rparr>]\<rparr>)"
proof -
  have "list_all (\<lambda>c. byte c < 128) sample_image" by (simp add: sample_image_def list_all_iff)
  then have "clean (JArr [JStr sample_image])" by (simp add: clean_ascii)
  from loads_dumps [OF this] assms show ?thesis
    by (simp add: docker_image_repo_digests_def docker_run_def bindP_def Let_def sample_env_def sample_daemon_def)
qed

lemma container_view_baseline:
  "baseline_namespace (container_view b)" "expected_devices \<subseteq> set (ins_devices (container_view b))"
  "(\<lambda>m. (mnt_source m, mnt_destination m, mnt_read_write m)) ` set (ins_mounts (container_view b)) = expected_mounts"
  "\<not> list_ex (\<lambda>m. mnt_destination m = ''/var/run/docker.sock'') (ins_mounts (container_view b))"
  "ins_exists (container_view b)" "ins_running (container_view b) = b"
  "ins_image_id (container_view b) = Some expected_image_id"
  by (auto simp: container_view_def baseline_namespace_def expected_devices_def expected_mounts_def)

lemma sample_validate:
  assumes "sample_env s" and "\<not> running_after (dk_calls s)"
  obtains s' where "validate_container worker_unit True s = (Inr (), s')" and "sample_env s'"
    and "\<not> running_after (dk_calls s')" and "\<exists>cs. s' = s\<lparr>dk_calls := cs\<rparr>"
proof -
  let ?s1 = "s\<lparr>dk_calls := dk_calls s @ [\<lparr>dc_args = [''inspect'', the_container], dc_stdin = None, dc_timeout = 30\<rparr>]\<rparr>"
  have e1: "sample_env ?s1" using assms by (simp add: sample_env_def)
  have "wd_worker_id s = ''w''" using assms by (simp add: sample_env_def)
  then have "validate_container worker_unit True s = (Inr (), s\<lparr>dk_calls := dk_calls ?s1 @
      [\<lparr>dc_args = [''image'', ''inspect'', ''--format'', ''{{json .RepoDigests}}'', expected_image_id],
         dc_stdin = None, dc_timeout = 30\<rparr>]\<rparr>)"
    using sample_inspect [OF assms(1)] sample_digests [OF e1] container_view_baseline assms
    by (simp add: validate_container_def bindP_def checkP_def worker_unit_def sample_unit_def
        the_container_def)
  then show ?thesis by (rule that) (use assms in \<open>auto simp: running_after_def sample_env_def\<close>)
qed

lemma sample_signatures:
  "verify_model toy_crypto (task_integrity tsk_task_id) ''key'' worker_task"
  "verify_model toy_crypto (manifest_integrity man_manifest_id) ''key'' (sample_manifest e)"
  "verify_model toy_crypto (plan_integrity pln_plan_id) ''key'' (sample_plan e)"
  using signed_task.verify_signed [OF toy_crypto_ok, of tsk_task_id "''key''"]
    signed_manifest.verify_signed [OF toy_crypto_ok, of man_manifest_id "''key''"]
    signed_plan.verify_signed [OF toy_crypto_ok, of pln_plan_id "''key''"]
  by (simp_all add: worker_task_def sample_task_def sample_manifest_def sample_plan_def toy_crypto_def)

lemma sample_fields [simp]:
  "tsk_key_id worker_task = ''k''" "tsk_execution_id worker_task = sample_id ''exec''"
  "tsk_units worker_task = [worker_unit]" "tsk_task_id worker_task = sample_id ''task''"
  "man_key_id (sample_manifest e) = ''k''" "man_worker_id (sample_manifest e) = ''w''"
  "man_task_id (sample_manifest e) = sample_id ''task''" "man_gpu_ids (sample_manifest e) = [0]"
  "man_container_name (sample_manifest e) = the_container" "man_lease_epoch (sample_manifest e) = e"
  "man_assignment_id (sample_manifest e) = sample_id ''assign''"
  "pln_key_id (sample_plan e) = ''k''" "pln_gpu_ids (sample_plan e) = [0]"
  "pln_container_name (sample_plan e) = the_container" "pln_lease_epoch (sample_plan e) = e"
  "pln_unit_id (sample_plan e) = sample_id ''unit''"
  "pln_assignment_id (sample_plan e) = sample_id ''assign''"
  by (simp_all add: worker_task_def sample_task_def sample_manifest_def sample_plan_def sign_model_def
      task_integrity_def manifest_integrity_def plan_integrity_def Let_def)

lemma worker_unit_fields [simp]:
  "unt_unit_id worker_unit = sample_id ''unit''" "unt_container_name worker_unit = the_container"
  "unt_setup worker_unit = []" "unt_run worker_unit = [sample_command]" "unt_teardown worker_unit = []"
  "unt_timeout_seconds worker_unit = 60" "unt_required_logs worker_unit = []"
  "unt_required_outputs worker_unit = []"
  by (simp_all add: worker_unit_def sample_unit_def)

lemma sample_signed:
  assumes "sample_env s"
  shows "signed_by_master toy_signer worker_task s = (Inr (), s)"
    and "manifest_by_master toy_signer (sample_manifest e) s = (Inr (), s)"
    and "plan_by_master toy_signer (sample_plan e) s = (Inr (), s)"
  using assms sample_signatures
  by (simp_all add: signed_by_master_def manifest_by_master_def plan_by_master_def verify_signed_def
      bindP_def checkP_def toy_signer_def sample_env_def)

text \<open>A first manifest is accepted by the fresh worker.\<close>

lemma sample_prepare:
  "\<exists>s. worker_prepare toy_signer (sample_manifest 2) worker_task fresh_worker = (Inr True, s)"
proof -
  have "\<not> running_after (dk_calls fresh_worker)" by (simp add: fresh_worker_def running_after_def)
  then obtain s1 where v: "validate_container worker_unit True fresh_worker = (Inr (), s1)"
    and e1: "sample_env s1" and c: "\<exists>cs. s1 = fresh_worker\<lparr>dk_calls := cs\<rparr>"
    by (rule sample_validate [OF fresh_worker_env])
  have free: "wd_epochs s1 = []" using c by (auto simp: fresh_worker_def)
  let ?s2 = "(own_resources (sample_manifest 2) s1)\<lparr>wd_prepared :=
    AList.update (sample_id ''assign'') (sample_manifest 2) (wd_prepared (own_resources (sample_manifest 2) s1))\<rparr>"
  obtain s3 where p: "persist_state ?s2 = (Inr (), s3)"
    using e1 by (simp add: persist_state_def bindP_def next_fault_def sample_env_def own_resources_fields no_faults_def)
  have "sample_env ?s2" using e1 by (auto simp: sample_env_def own_resources_fields)
  then have "sample_env s3" using obeysD [OF sample_env.eff_persist_state p] by (simp add: keeps_def)
  then obtain s4 where "audit worker_task ''PREPARED'' [(''manifest_id'', JStr (man_manifest_id (sample_manifest 2))),
      (''gpu_ids'', JArr (map JInt (man_gpu_ids (sample_manifest 2))))] s3 = (Inr (), s4)"
    by (rule sample_audit)
  then show ?thesis
    using fresh_worker_env sample_signed [OF fresh_worker_env] v p free
    by (simp add: worker_prepare_def catchP_def prepare_body_def bindP_def checkP_def liftE_def
        unit_for_container_def take_over_def manifest_resources_def high_water_def sample_env_def)
qed

section \<open>A run on the sample worker\<close>

text \<open>The worker after the plan of epoch 2 was acknowledged.\<close>

definition planned_worker :: worker where
  "planned_worker = fresh_worker\<lparr>
     wd_prepared := [(sample_id ''assign'', sample_manifest 2)],
     wd_plans := [(sample_id ''assign'', sample_plan 2)],
     wd_epochs := [(gpu_resource 0, 2), (container_resource the_container, 2)],
     wd_owner := [(gpu_resource 0, sample_id ''assign''), (container_resource the_container, sample_id ''assign'')]\<rparr>"

lemma planned_worker_env: "sample_env planned_worker"
  by (simp add: planned_worker_def fresh_worker_def sample_env_def)

lemma planned_registered: "registered (sample_plan 2) planned_worker"
  by (simp add: registered_def is_current_plan_def planned_worker_def manifest_resources_def
      gpu_resource_def container_resource_def)

lemma sample_start:
  assumes "sample_env s"
  obtains s' where "docker_start the_container s = (Inr (), s')" and "sample_env s'" and "\<exists>c \<in> set (dk_calls s'). start_call c"
proof -
  let ?s1 = "s\<lparr>dk_calls := dk_calls s @ [\<lparr>dc_args = [''start'', the_container], dc_stdin = None, dc_timeout = 30\<rparr>]\<rparr>"
  have e: "sample_env ?s1" and r: "running_after (dk_calls ?s1)"
    using assms by (simp_all add: sample_env_def running_after_snoc)
  have "docker_start the_container s = (Inr (), ?s1\<lparr>dk_calls := dk_calls ?s1 @
      [\<lparr>dc_args = [''inspect'', the_container], dc_stdin = None, dc_timeout = 30\<rparr>]\<rparr>)"
    using assms sample_inspect [OF e] r container_view_baseline
    by (simp add: docker_start_def docker_run_def bindP_def checkP_def Let_def sample_env_def sample_daemon_def)
  then show ?thesis
    by (rule that) (use assms in \<open>auto simp: sample_env_def start_call_def\<close>)
qed

lemma sample_stop:
  assumes "sample_env s"
  obtains s' i where "docker_stop the_container 30 s = (Inr (i, None), s')" and "sample_env s'"
    and "ins_exists i" and "\<not> ins_running i"
proof -
  let ?s1 = "s\<lparr>dk_calls := dk_calls s @ [\<lparr>dc_args = [''stop'', ''--time'', show_int 30, the_container],
    dc_stdin = None, dc_timeout = 30 + 15\<rparr>]\<rparr>"
  have e: "sample_env ?s1" and r: "\<not> running_after (dk_calls ?s1)"
    using assms by (simp_all add: sample_env_def running_after_snoc)
  have "docker_stop the_container 30 s = (Inr (container_view False, None), ?s1\<lparr>dk_calls := dk_calls ?s1 @
      [\<lparr>dc_args = [''inspect'', the_container], dc_stdin = None, dc_timeout = 30\<rparr>]\<rparr>)"
    using assms sample_inspect [OF e] r container_view_baseline
    by (simp add: docker_stop_def attempt_docker_def catchP_def docker_run_def bindP_def Let_def
        sample_env_def sample_daemon_def)
  then show ?thesis
    by (rule that) (use assms container_view_baseline in \<open>auto simp: sample_env_def\<close>)
qed

lemma sample_phase:
  assumes "sample_env s" and "1000000 \<le> d"
  obtains s' where "phase_run p t d phase [] limit s = (Inr 0, s')" and "sample_env s'"
proof -
  have "0 < d div 1000000" using assms(2) by simp
  then have "phase_run p t d phase [] limit s = (Inr 0, s\<lparr>wd_mono_no := Suc (wd_mono_no s)\<rparr>)"
    using assms by (simp add: phase_run_def remaining_def monotonic_def bindP_def Let_def sample_env_def)
  then show ?thesis by (rule that) (use assms in \<open>simp add: sample_env_def\<close>)
qed

lemma sample_command_phase:
  assumes "sample_env s" and "1000000 \<le> d"
  obtains s' where "phase_run p t d phase [sample_command] limit s = (Inr 0, s')" and "sample_env s'"
proof -
  have "0 < d div 1000000" using assms(2) by simp
  then have "\<exists>s'. phase_run p t d phase [sample_command] limit s = (Inr 0, s')"
    using assms(1)
    by (simp add: phase_run_def remaining_def monotonic_def bindP_apply Let_def sample_env_def run_command_def
        sample_command_def docker_exec_def docker_run_def sample_daemon_def utc_now_def write_evidence_def
        next_fault_def no_faults_def)
  then obtain s' where r: "phase_run p t d phase [sample_command] limit s = (Inr 0, s')" by blast
  show ?thesis
    using that [OF r] obeysD [OF sample_env.eff_phase_run r] assms(1) by (simp add: keeps_def)
qed

lemma sample_phases:
  assumes "sample_env s" and "1000000 \<le> d"
  obtains s' where "run_phases (sample_plan 2) worker_task worker_unit d (s, f) = (Inr (), (s', f\<lparr>rf_run_exit := 0\<rparr>))"
    and "sample_env s'" and "\<exists>c \<in> set (dk_calls s'). start_call c"
proof -
  obtain s1 where 1: "docker_start the_container s = (Inr (), s1)" "sample_env s1"
    "\<exists>c \<in> set (dk_calls s1). start_call c"
    using sample_start [OF assms(1)] by blast
  obtain s2 where 2: "audit worker_task ''DOCKER_START_CONFIRMED''
      [(''plan_id'', JStr (pln_plan_id (sample_plan 2))),
       (''argv'', JArr (map JStr [''docker'', ''start'', the_container])),
       (''postcondition'', JStr ''running=true'')] s1 = (Inr (), s2)" "sample_env s2"
    using sample_audit [OF 1(2)] by blast
  obtain s3 where 3: "phase_run (sample_plan 2) worker_task d ''setup'' [] 120 s2 = (Inr 0, s3)" "sample_env s3"
    using sample_phase [OF 2(2) assms(2)] by blast
  obtain s4 where 4: "phase_run (sample_plan 2) worker_task d ''run'' [sample_command] 300 s3 = (Inr 0, s4)" "sample_env s4"
    using sample_command_phase [OF 3(2) assms(2)] by blast
  obtain s5 where 5: "phase_run (sample_plan 2) worker_task d ''teardown'' [] 120 s4 = (Inr 0, s5)" "sample_env s5"
    using sample_phase [OF 4(2) assms(2)] by blast
  have "run_phases (sample_plan 2) worker_task worker_unit d (s, f) = (Inr (), (s5, f\<lparr>rf_run_exit := 0\<rparr>))"
    using 1 2 3 4 5 by (simp add: run_phases_def bindP_def onW_def assign_def)
  moreover have "asks s1 s5"
    using obeysD [OF asks.eff_audit 2(1)] obeysD [OF asks.eff_phase_run 3(1)]
      obeysD [OF asks.eff_phase_run 4(1)] obeysD [OF asks.eff_phase_run 5(1)] asks_trans by blast
  then have "\<exists>c \<in> set (dk_calls s5). start_call c" using 1(3) by (auto simp: asks_def)
  ultimately show ?thesis using 5(2) that by blast
qed

lemma audit_step:
  assumes "sample_env s" and "\<And>s'. sample_env s' \<Longrightarrow> \<exists>x. k () s' = (Inr res, x)"
  shows "\<exists>x. bindP (audit t et pl) k s = (Inr res, x)"
proof -
  obtain s' where "audit t et pl s = (Inr (), s')" "sample_env s'"
    using sample_audit [OF assms(1)] by blast
  then show ?thesis using assms(2) [of s'] by (simp add: bindP_step)
qed

lemma sample_finish:
  assumes "cleanup the_container s = (Inr (True, None), s')" and "sample_env s'"
  shows "\<exists>x. finish_execute (sample_plan 2) worker_task worker_unit
      (run_start\<lparr>rf_start_attempted := True, rf_run_exit := 0\<rparr>) s = (Inr \<lparr>res_exit_code = 0,
      res_logs_present = True, res_outputs_present = True, res_cleanup_ok = True, res_warning = None,
      res_failure_reason = None\<rparr>, x)"
  unfolding finish_execute_def
  by (subst bindP_step [where x = "(True, None)" and t = s'])
     (use assms in \<open>auto simp: run_start_def whenP_def bindP_step intro!: audit_step\<close>)

lemma planned_execute:
  assumes env: "sample_env s0" and reg: "registered (sample_plan 2) s0" and idle: "dk_calls s0 = []"
  shows "\<exists>res s. worker_execute toy_signer (sample_plan 2) worker_task s0 = (Inr res, s) \<and> res_cleanup_ok res \<and>
     (\<exists>c \<in> set (new_calls s0 s). start_call c)"
proof -
  let ?w = "s0\<lparr>wd_mono_no := Suc (wd_mono_no s0)\<rparr>"
  let ?p = "sample_plan 2" and ?f = "run_start\<lparr>rf_start_attempted := True\<rparr>"
  have e: "sample_env ?w" using env by (simp add: sample_env_def)
  have stopped: "\<not> running_after (dk_calls ?w)"
    by (simp add: idle running_after_def)
  obtain s1 where 1: "validate_container worker_unit True ?w = (Inr (), s1)" "sample_env s1"
    using sample_validate [OF e stopped] by blast
  obtain s2 where 2: "audit worker_task ''DOCKER_INSPECT_PRE'' [(''plan_id'', JStr (pln_plan_id ?p)),
        (''argv'', JArr (map JStr [''docker'', ''inspect'', the_container])),
        (''postcondition'', JStr ''exists=true,running=false,baseline=matched'')] s1 = (Inr (), s2)" "sample_env s2"
    using sample_audit [OF 1(2)] by blast
  obtain s3 where 3: "audit worker_task ''TASK_VERIFIED_PRE_DOCKER'' [(''plan_id'', JStr (pln_plan_id ?p)),
        (''task_content_hash'', JStr (case tsk_content_hash worker_task of None \<Rightarrow> [] | Some h \<Rightarrow> h)),
        (''lease_epoch'', JInt 2), (''dispatch_generation'', JInt (pln_dispatch_generation ?p))] s2
      = (Inr (), s3)" "sample_env s3"
    using sample_audit [OF 2(2)] by blast
  obtain s4 where 4: "run_phases ?p worker_task worker_unit (0 + 60 * 1000000) (s3, ?f)
      = (Inr (), (s4, ?f\<lparr>rf_run_exit := 0\<rparr>))" "sample_env s4"
      "\<exists>c \<in> set (dk_calls s4). start_call c"
    using sample_phases [OF 3(2), of "0 + 60 * 1000000"] by auto
  have body: "execute_body toy_signer ?p worker_task worker_unit (0 + 60 * 1000000) (?w, run_start)
      = (Inr (), (s4, ?f\<lparr>rf_run_exit := 0\<rparr>))"
    using 1 2 3 4 sample_signed [OF e] by (simp add: execute_body_def bindP_def onW_def assign_def)
  obtain s5 i where 5: "docker_stop the_container 30 s4 = (Inr (i, None), s5)" "sample_env s5"
      "ins_exists i" "\<not> ins_running i"
    using sample_stop [OF 4(2)] by blast
  have clean: "cleanup the_container s4 = (Inr (True, None), s5)"
    using 5 by (simp add: cleanup_def catchP_def bindP_def)
  obtain res s6 where 6: "finish_execute ?p worker_task worker_unit (?f\<lparr>rf_run_exit := 0\<rparr>) s4 = (Inr res, s6)"
      "res_cleanup_ok res"
    using sample_finish [OF clean 5(2)] by (auto simp: run_start_def)
  have "\<exists>c \<in> set (dk_calls s6). start_call c"
    using 4(3) obeysD [OF asks.eff_finish 6(1)] by (auto simp: asks_def)
  then have "\<exists>c \<in> set (new_calls s0 s6). start_call c"
    by (simp add: new_calls_def idle)
  moreover have "worker_execute toy_signer ?p worker_task s0 = (Inr res, s6)"
    using body 6(1) reg env
    by (simp add: worker_execute_def bindP_def catchP_def monotonic_def sample_env_def)
  ultimately show ?thesis using 6(2) by blast
qed

lemma sample_execute:
  "\<exists>res s. worker_execute toy_signer (sample_plan 2) worker_task planned_worker = (Inr res, s) \<and> res_cleanup_ok res \<and>
     (\<exists>c \<in> set (new_calls planned_worker s). start_call c)"
  by (rule planned_execute [OF planned_worker_env planned_registered]) (simp add: planned_worker_def fresh_worker_def)

section \<open>The theorems on concrete runs\<close>

definition manifest_accepted :: worker where
  "manifest_accepted = snd (worker_prepare toy_signer (sample_manifest 2) worker_task fresh_worker)"

lemma manifest_accepted:
  "worker_prepare toy_signer (sample_manifest 2) worker_task fresh_worker = (Inr True, manifest_accepted)"
  using sample_prepare by (auto simp: manifest_accepted_def)

theorem stale_plan_never_runs_witness:
  "\<not> is_current_plan (sample_plan 1) (driver_init manifest_accepted) \<and>
   dk_calls (snd (worker_execute toy_signer (sample_plan 1) worker_task (driver_init manifest_accepted)))
     = dk_calls (driver_init manifest_accepted)"
  by (rule stale_plan_never_runs [OF manifest_accepted worker_reaches.restart [OF worker_reaches.here],
        of "gpu_resource 0"]) (simp_all add: manifest_resources_def)


text \<open>A full run: the container was started and then stopped.\<close>

definition run_ended :: "(exn + exec_result) \<times> worker" where
  "run_ended = worker_execute toy_signer (sample_plan 2) worker_task planned_worker"

theorem reported_cleanup_was_observed_witness:
  "\<exists>res s. run_ended = (Inr res, s) \<and> res_cleanup_ok res \<and>
     ({c \<in> set (new_calls planned_worker s). start_call c} = {} \<or>
      (\<exists>i. last_inspection s the_container i \<and> ins_exists i \<and> \<not> ins_running i))"
proof -
  obtain res s where r: "worker_execute toy_signer (sample_plan 2) worker_task planned_worker = (Inr res, s)"
    and c: "res_cleanup_ok res" using sample_execute by blast
  from reported_cleanup_was_observed [OF r c] r c show ?thesis by (auto simp: run_ended_def)
qed


end
