(* ===== verification/Gpu_Sampler.thy ===== *)
theory Gpu_Sampler
  imports Docker_Cli "HOL-Library.Multiset"
begin

text \<open>
  The device sampler of a worker, \<open>HySmiSampler\<close> of \<open>src/agent_scheduler/worker/gpu.py\<close>: reading
  the table of \<open>hy-smi\<close>, and the state of each device, which after a sample above the threshold
  takes three lower ones to become available again. What \<open>hy-smi\<close> prints is an arbitrary stream.
  Proved: a sample that succeeds names the devices from 0 on, and the reported states are those of
  a reference that looks at the readings alone.
\<close>

section \<open>State\<close>

text \<open>\<open>smp_round\<close> is the rounding of \<open>float\<close>; bytes above 127 count as neither digits nor spaces.\<close>

record sampler = world +
  smp_threshold :: rat
  smp_low_streak :: "(int, int) dict"
  smp_states :: "(int, gpu_state) dict"
  smp_reply :: "nat \<Rightarrow> docker_reply"
  smp_no :: nat
  smp_round :: "rat \<Rightarrow> rat"

section \<open>Reading a row\<close>

text \<open>The words of a line: the pattern consists of words that single spaces or more separate.\<close>

function line_words :: "string \<Rightarrow> string list" where
  "line_words s = (let s1 = dropWhile is_space s
     in if s1 = [] then []
        else takeWhile (\<lambda>c. \<not> is_space c) s1 # line_words (dropWhile (\<lambda>c. \<not> is_space c) s1))"
  by pat_completeness auto

termination
proof (relation "measure length")
  fix s s1 :: string
  assume s1: "s1 = dropWhile is_space s" and n: "s1 \<noteq> []"
  obtain c cs where c: "s1 = c # cs" using n by (cases s1) simp_all
  then have "\<not> is_space c" using s1 hd_dropWhile [of is_space s] by auto
  then have "length (dropWhile (\<lambda>c. \<not> is_space c) s1) < length s1"
    using c length_dropWhile_le [of "\<lambda>c. \<not> is_space c" cs] by simp
  also have "length s1 \<le> length s" by (simp add: s1 length_dropWhile_le)
  finally show "(dropWhile (\<lambda>c. \<not> is_space c) s1, s) \<in> measure length" by simp
qed simp

declare line_words.simps [simp del]

definition percentage :: "string \<Rightarrow> rat option" where
  "percentage v =
     (let ds = takeWhile is_digit v; (fr, r) = fraction (dropWhile is_digit v)
      in if ds \<noteq> [] \<and> r = ''%'' then Some (scaled (digits_value ds) fr 0) else None)"

text \<open>\<open>_ROW\<close>: an identifier, four words, a percentage and something more.\<close>

definition match_row :: "string \<Rightarrow> (string \<times> rat) option" where
  "match_row line = (case line_words line of
      i # _ # _ # _ # _ # v # _ # _ \<Rightarrow>
        (if list_all is_digit i then (case percentage v of None \<Rightarrow> None | Some x \<Rightarrow> Some (i, x)) else None)
    | _ \<Rightarrow> None)"

text \<open>\<open>str.splitlines\<close>.\<close>

definition line_break :: "char \<Rightarrow> bool" where
  "line_break c \<longleftrightarrow> c \<in> {CHR 0x0A, CHR 0x0B, CHR 0x0C, CHR 0x0D, CHR 0x1C, CHR 0x1D, CHR 0x1E}"

fun split_lines :: "string \<Rightarrow> string \<Rightarrow> string list" where
  "split_lines acc [] = (if acc = [] then [] else [acc])"
| "split_lines acc (c # cs) =
     (if c = CHR 0x0D \<and> take 1 cs = [CHR 0x0A] then acc # split_lines [] (drop 1 cs)
      else if line_break c then acc # split_lines [] cs
      else split_lines (acc @ [c]) cs)"

section \<open>One device\<close>

text \<open>State and streak of a device after one more reading.\<close>

definition drift :: "rat \<Rightarrow> rat \<Rightarrow> gpu_state \<times> int \<Rightarrow> gpu_state \<times> int" where
  "drift threshold vram = (\<lambda>(previous, streak).
     if vram \<ge> threshold then (G_DRIFTED, 0)
     else if previous = G_DRIFTED then (if streak + 1 \<ge> 3 then G_AVAILABLE else G_DRIFTED, streak + 1)
     else (G_AVAILABLE, min 3 (streak + 1)))"

definition device_entry :: "'z sampler_scheme \<Rightarrow> int \<Rightarrow> gpu_state \<times> int" where
  "device_entry s g =
     (case map_of (smp_states s) g of None \<Rightarrow> G_UNKNOWN | Some x \<Rightarrow> x,
      case map_of (smp_low_streak s) g of None \<Rightarrow> 0 | Some n \<Rightarrow> n)"

definition record_reading :: "int \<Rightarrow> rat \<Rightarrow> 'z sampler_scheme \<Rightarrow> 'z sampler_scheme" where
  "record_reading g vram s =
     (let (state, streak) = drift (smp_threshold s) vram (device_entry s g)
      in s\<lparr>smp_low_streak := AList.update g streak (smp_low_streak s),
           smp_states := AList.update g state (smp_states s)\<rparr>)"

section \<open>A sample\<close>

text \<open>One line of the table: nothing, or one more device.\<close>

definition sample_line ::
  "int \<Rightarrow> string \<Rightarrow> gpu_snapshot list \<Rightarrow> ('z sampler_scheme, gpu_snapshot list) prog" where
  "sample_line now raw_line out =
     (case match_row (py_strip raw_line) of
        None \<Rightarrow> returnP out
      | Some (digits, value) \<Rightarrow>
          bindP (checkP (length digits \<le> 4300) (ValueError ''Exceeds the limit for integer string conversion'')) (\<lambda>_.
          let g = int (digits_value digits)
          in bindP (checkP (g \<le> 7) (GpuSamplingError ''hy-smi reported unsupported GPU ID'')) (\<lambda>_.
             bindP (checkP (g \<notin> set (map gpu_gpu_id out))
                      (GpuSamplingError ''hy-smi reported duplicate GPU ID'')) (\<lambda>_.
             bindP (readP (\<lambda>s. smp_round s value)) (\<lambda>vram.
             bindP (updateP (record_reading g vram)) (\<lambda>_.
             bindP (readP (\<lambda>s. fst (device_entry s g))) (\<lambda>state.
             let snap = \<lparr>gpu_gpu_id = g, gpu_vram_percent = vram, gpu_sampled_at = now,
                         gpu_state_of = state, gpu_raw_line = raw_line\<rparr>
             in bindP (checkP (valid_gpu_snapshot snap) (ValueError ''validation error for GpuSnapshot'')) (\<lambda>_.
                returnP (out @ [snap])))))))))"

fun sample_lines ::
  "int \<Rightarrow> string list \<Rightarrow> gpu_snapshot list \<Rightarrow> ('z sampler_scheme, gpu_snapshot list) prog" where
  "sample_lines now [] out = returnP out"
| "sample_lines now (l # ls) out =
     bindP (sample_line now l out) (\<lambda>out'. sample_lines now ls out')"

definition run_hy_smi :: "('z sampler_scheme, proc_result) prog" where
  "run_hy_smi = (\<lambda>s.
     (case smp_reply s (smp_no s) of
        Completed r \<Rightarrow> Inr r
      | Not_text \<Rightarrow> Inl (ValueError ''invalid start byte'')
      | _ \<Rightarrow> Inl (GpuSamplingError ''hy-smi invocation failed''),
      s\<lparr>smp_no := Suc (smp_no s)\<rparr>))"

definition sample :: "('z sampler_scheme, gpu_snapshot list) prog" where
  "sample =
     bindP run_hy_smi (\<lambda>r.
     bindP (checkP (pr_returncode r = 0)
              (GpuSamplingError (message_or (pr_stderr r) ''hy-smi returned nonzero''))) (\<lambda>_.
     bindP utc_now (\<lambda>now.
     bindP (sample_lines now (split_lines [] (pr_stdout r)) []) (\<lambda>out.
     let seen = map gpu_gpu_id out
     in bindP (checkP (seen \<noteq> []) (GpuSamplingError ''hy-smi did not report any GPU rows'')) (\<lambda>_.
        bindP (checkP (set seen = set [0..Max (set seen)])
                 (GpuSamplingError ''hy-smi GPU IDs must be contiguous from 0'')) (\<lambda>_.
        returnP (sort_key gpu_gpu_id out)))))))"

section \<open>Devices and their readings\<close>

text \<open>What the state of a device should be, from all its readings: unknown without one, drifted at
  the threshold or above, and after a drift available only with the third lower reading in a row.\<close>

definition low_run :: "rat \<Rightarrow> rat list \<Rightarrow> nat" where
  "low_run threshold vs = length (takeWhile (\<lambda>v. v < threshold) (rev vs))"

definition device_reference :: "rat \<Rightarrow> rat list \<Rightarrow> gpu_state" where
  "device_reference threshold vs =
     (if vs = [] then G_UNKNOWN
      else if last vs \<ge> threshold then G_DRIFTED
      else if list_ex (\<lambda>v. v \<ge> threshold) vs \<and> low_run threshold vs < 3 then G_DRIFTED
      else G_AVAILABLE)"

lemma low_run_snoc [simp]:
  "low_run th (vs @ [v]) = (if v < th then Suc (low_run th vs) else 0)"
  by (simp add: low_run_def)

lemma low_run_high: "vs \<noteq> [] \<Longrightarrow> th \<le> last vs \<Longrightarrow> low_run th vs = 0"
  by (cases vs rule: rev_cases) simp_all

lemma device_states:
  "fold (drift th) vs (G_UNKNOWN, 0) = (device_reference th vs, min 3 (int (low_run th vs)))"
proof (induction vs rule: rev_induct)
  case Nil
  then show ?case by (simp add: device_reference_def low_run_def)
next
  case (snoc v vs)
  show ?case
  proof (cases "vs = []")
    case True
    then show ?thesis by (auto simp: drift_def device_reference_def low_run_def)
  next
    case False
    have high: "list_ex (\<lambda>v. v \<ge> th) vs" if "last vs \<ge> th"
      using that False by (auto simp: list_ex_iff)
    show ?thesis
      using snoc False high low_run_high [of vs th] by (auto simp: drift_def device_reference_def)
  qed
qed

lemma device_entry_simps [simp]:
  "device_entry (s\<lparr>clock_no := n\<rparr>) = device_entry s" "device_entry (s\<lparr>smp_no := n\<rparr>) = device_entry s"
  by (simp_all add: device_entry_def fun_eq_iff)

lemma record_reading_entry:
  "device_entry (record_reading g v s) x =
     (if x = g then drift (smp_threshold s) v (device_entry s g) else device_entry s x)"
  by (auto simp: record_reading_def device_entry_def Let_def update_conv' split: prod.split)

lemma record_reading_fields [simp]:
  "smp_threshold (record_reading g v s) = smp_threshold s" "clock (record_reading g v s) = clock s"
  "clock_no (record_reading g v s) = clock_no s"
  by (simp_all add: record_reading_def split: prod.split)

text \<open>The readings of a device in a list of snapshots.\<close>

definition readings :: "int \<Rightarrow> gpu_snapshot list \<Rightarrow> rat list" where
  "readings g out = map gpu_vram_percent (filter (\<lambda>n. gpu_gpu_id n = g) out)"

text \<open>Lines read so far: what the loop keeps true.\<close>

definition read_so_far ::
  "int \<Rightarrow> 'z sampler_scheme \<Rightarrow> gpu_snapshot list \<Rightarrow> 'z sampler_scheme \<Rightarrow> bool" where
  "read_so_far now s0 out s \<longleftrightarrow> distinct (map gpu_gpu_id out) \<and>
     smp_threshold s = smp_threshold s0 \<and>
     (\<forall>g. device_entry s g = fold (drift (smp_threshold s0)) (readings g out) (device_entry s0 g)) \<and>
     (\<forall>n \<in> set out. valid_gpu_snapshot n \<and> gpu_sampled_at n = now \<and>
        gpu_state_of n = fst (device_entry s (gpu_gpu_id n)))"

lemma sample_line_keeps:
  assumes "read_so_far now s0 out s" and "sample_line now l out s = (Inr out', s')"
  shows "read_so_far now s0 out' s'"
proof (cases "match_row (py_strip l)")
  case None
  then show ?thesis using assms by (simp add: sample_line_def)
next
  case (Some m)
  obtain digits v0 where m: "m = (digits, v0)" by (cases m)
  define g where "g = int (digits_value digits)"
  define v where "v = smp_round s v0"
  define s1 where "s1 = record_reading g v s"
  define n where "n = \<lparr>gpu_gpu_id = g, gpu_vram_percent = v, gpu_sampled_at = now,
     gpu_state_of = fst (device_entry s1 g), gpu_raw_line = l\<rparr>"
  have r: "g \<notin> gpu_gpu_id ` set out" "valid_gpu_snapshot n" "out' = out @ [n]" "s' = s1"
    using assms(2) Some m
    by (auto simp: sample_line_def bindP_def checkP_def Let_def g_def v_def s1_def n_def split: if_splits)
  have e: "device_entry s1 x = (if x = g then drift (smp_threshold s) v (device_entry s g) else device_entry s x)" for x
    by (simp add: s1_def record_reading_entry)
  have fresh: "readings g out = []" using r(1) by (auto simp: readings_def filter_empty_conv)
  show ?thesis
    using assms(1) r e fresh
    by (auto simp: read_so_far_def s1_def n_def readings_def)
qed

lemma sample_lines_keep:
  "sample_lines now ls out s = (Inr out', s') \<Longrightarrow> read_so_far now s0 out s \<Longrightarrow> read_so_far now s0 out' s'"
proof (induction ls arbitrary: out s)
  case (Cons l ls)
  then show ?case by (auto elim!: bindP_Inr dest: sample_line_keeps)
qed simp

lemma read_so_far_start: "read_so_far now s [] s"
  by (simp add: read_so_far_def readings_def)

lemma int_range: "set [0..m] = {i. 0 \<le> i \<and> i \<le> m}" for m :: int
  by auto

lemma sorted_range:
  fixes xs :: "int list"
  assumes "distinct xs" and "set xs = set [0..m]"
  shows "sort xs = [0..m]"
  using assms by (metis distinct_sort set_sort sorted_distinct_set_unique sorted_sort distinct_upto sorted_upto)

lemma map_sort_key: "map f (sort_key f xs) = sort (map f xs)" for f :: "'a \<Rightarrow> int"
  by (rule properties_for_sort [symmetric]) simp_all

text \<open>A sample that succeeds.\<close>

definition sampled :: "'z sampler_scheme \<Rightarrow> gpu_snapshot list \<Rightarrow> 'z sampler_scheme \<Rightarrow> bool" where
  "sampled s out s' \<longleftrightarrow> (\<exists>m now. 0 \<le> m \<and> m \<le> 7 \<and> map gpu_gpu_id out = [0..m] \<and> read_so_far now s out s')"

lemma readings_mset:
  assumes "distinct (map gpu_gpu_id xs)" and "mset xs = mset ys"
  shows "readings g xs = readings g ys"
proof -
  have m: "mset (filter (\<lambda>n. gpu_gpu_id n = g) xs) = mset (filter (\<lambda>n. gpu_gpu_id n = g) ys)"
    using assms(2) by simp
  have "length (filter (\<lambda>n. gpu_gpu_id n = g) xs) \<le> 1"
    using assms(1) by (induction xs) (auto simp: filter_empty_conv image_iff)
  then consider "filter (\<lambda>n. gpu_gpu_id n = g) xs = []" | n where "filter (\<lambda>n. gpu_gpu_id n = g) xs = [n]"
    by (cases "filter (\<lambda>n. gpu_gpu_id n = g) xs") auto
  then show ?thesis
  proof cases
    case 1
    then show ?thesis using m by (metis mset_zero_iff readings_def)
  next
    case 2
    then show ?thesis using m by (metis mset_single_iff mset.simps readings_def)
  qed
qed

lemma sample_sampled:
  assumes "sample s = (Inr out, s')"
  shows "sampled s out s'"
proof -
  obtain r s1 where r: "run_hy_smi s = (Inr r, s1)"
    and rest: "bindP (sample_lines (clock s1 (clock_no s1)) (split_lines [] (pr_stdout r)) []) (\<lambda>out.
       let seen = map gpu_gpu_id out
       in bindP (checkP (seen \<noteq> []) (GpuSamplingError ''hy-smi did not report any GPU rows'')) (\<lambda>_.
        bindP (checkP (set seen = set [0..Max (set seen)])
                 (GpuSamplingError ''hy-smi GPU IDs must be contiguous from 0'')) (\<lambda>_.
        returnP (sort_key gpu_gpu_id out)))) (s1\<lparr>clock_no := Suc (clock_no s1)\<rparr>) = (Inr out, s')"
    using assms by (auto simp: sample_def bindP_def checkP_def utc_now_def split: prod.splits sum.splits if_splits)
  let ?now = "clock s1 (clock_no s1)" and ?s2 = "s1\<lparr>clock_no := Suc (clock_no s1)\<rparr>"
  obtain raw where l: "sample_lines ?now (split_lines [] (pr_stdout r)) [] ?s2 = (Inr raw, s')"
    and ne: "raw \<noteq> []" and c: "set (map gpu_gpu_id raw) = set [0..Max (set (map gpu_gpu_id raw))]"
    and out: "out = sort_key gpu_gpu_id raw"
    using rest by (auto simp: bindP_def checkP_def Let_def split: prod.splits sum.splits if_splits)
  let ?m = "Max (set (map gpu_gpu_id raw))"
  have k: "read_so_far ?now ?s2 raw s'" by (rule sample_lines_keep [OF l read_so_far_start])
  have s1: "s1 = s\<lparr>smp_no := Suc (smp_no s)\<rparr>" using r by (auto simp: run_hy_smi_def)
  have d: "distinct (map gpu_gpu_id raw)" using k by (simp add: read_so_far_def)
  have "?m \<in> set (map gpu_gpu_id raw)" using ne by (intro Max_in) simp_all
  then have m: "0 \<le> ?m" "?m \<le> 7" using k by (auto simp: read_so_far_def valid_gpu_snapshot_def)
  have ids: "map gpu_gpu_id out = [0..?m]" using sorted_range [OF d c] by (simp add: out map_sort_key)
  have rd: "readings g out = readings g raw" for g
    using readings_mset [OF d, where ys = out and g = g] by (simp add: out)
  have "read_so_far ?now s out s'"
    using k d by (simp add: read_so_far_def s1 rd ids, simp add: out)
  then show ?thesis using m ids unfolding sampled_def by blast
qed

section \<open>Sampling again and again\<close>

text \<open>A worker with one device, busy in the first sample and then idle.\<close>

definition idle_row :: string where "idle_row = ''0 50C 99W auto 350W 1.5% 0% ok''"

definition one_device :: sampler where
  "one_device =
     \<lparr>clock = int, clock_no = 0, draws = (\<lambda>n. (int n, 0, 0)), draw_no = 0, faults = (\<lambda>_. IO_ok),
      fault_no = 0, store_root = ''/state'', immutable = [], snapshots = [], logs = [],
      smp_threshold = 2, smp_low_streak = [], smp_states = [],
      smp_reply = (\<lambda>n. Completed \<lparr>pr_returncode = 0, pr_stdout = ''HCU Temp'' @ [CHR 0x0A] @
        (if n = 0 then ''0 50C 99W auto 350W 87% 99% ok'' else idle_row), pr_stderr = []\<rparr>),
      smp_no = 0, smp_round = id\<rparr>"

text \<open>The snapshots of earlier samples, and those of this one, give the state of a device.\<close>

definition no_readings :: "'z sampler_scheme \<Rightarrow> bool" where
  "no_readings s \<longleftrightarrow> smp_states s = [] \<and> smp_low_streak s = []"

lemma readings_append: "readings g (a @ b) = readings g a @ readings g b"
  by (simp add: readings_def)

lemma samples_history:
  assumes "forP ks (\<lambda>_. sample) s = (Inr outs, s')"
    and "\<And>g. device_entry s g = fold (drift th) (readings g before) (G_UNKNOWN, 0)"
    and "smp_threshold s = th" and "n \<in> set (outs ! k)" and "k < length outs"
  shows "gpu_state_of n = device_reference th (readings (gpu_gpu_id n) (before @ concat (take (Suc k) outs)))"
  using assms
proof (induction ks arbitrary: s before outs k)
  case (Cons x ks)
  obtain out s1 outs1 where o: "sample s = (Inr out, s1)" and r: "forP ks (\<lambda>_. sample) s1 = (Inr outs1, s')"
    and outs: "outs = out # outs1"
    using Cons.prems(1) by (auto elim!: bindP_Inr)
  obtain now where h: "read_so_far now s out s1" using sample_sampled [OF o] by (auto simp: sampled_def)
  have e: "device_entry s1 g = fold (drift th) (readings g (before @ out)) (G_UNKNOWN, 0)" for g
    using h Cons.prems(2,3) by (simp add: read_so_far_def readings_append)
  have t: "smp_threshold s1 = th" using h Cons.prems(3) by (simp add: read_so_far_def)
  show ?case
  proof (cases k)
    case 0
    then have "gpu_state_of n = fst (device_entry s1 (gpu_gpu_id n))"
      using h Cons.prems(4) outs by (simp add: read_so_far_def)
    then show ?thesis using 0 outs by (simp add: e device_states)
  next
    case (Suc j)
    then show ?thesis using Cons.IH [OF r e t, of j] Cons.prems(4,5) outs by simp
  qed
qed simp

text \<open>
  C16. Drift and recovery: when samples are taken one after the other from the start, the state
  reported for a device in each of them is the one of the reference: it depends only on the
  readings of that device so far, is drifted at or above the threshold, and after a drift becomes
  available again with the third lower reading in a row.
\<close>

theorem samples_follow_reference:
  assumes "no_readings s" and "forP [0..<runs] (\<lambda>_. sample) s = (Inr outs, s')"
    and "k < length outs" and "n \<in> set (outs ! k)"
  shows "gpu_state_of n =
    device_reference (smp_threshold s) (readings (gpu_gpu_id n) (concat (take (Suc k) outs)))"
proof -
  have "device_entry s g = fold (drift (smp_threshold s)) (readings g []) (G_UNKNOWN, 0)" for g
    using assms(1) by (simp add: no_readings_def device_entry_def readings_def)
  from samples_history [OF assms(2) this refl assms(4,3)] show ?thesis by simp
qed

text \<open>
  A sample that succeeds names between one and eight devices, contiguous from 0 and in order,
  each once, all with the same time and values the model accepts.
\<close>

theorem sample_shape:
  assumes "sample s = (Inr out, s')"
  shows "\<exists>m now. 0 \<le> m \<and> m \<le> 7 \<and> map gpu_gpu_id out = [0..m] \<and>
    list_all (\<lambda>n. valid_gpu_snapshot n \<and> gpu_sampled_at n = now) out"
proof -
  obtain m now where "0 \<le> m" "m \<le> 7" "map gpu_gpu_id out = [0..m]" "read_so_far now s out s'"
    using sample_sampled [OF assms] by (auto simp: sampled_def)
  then show ?thesis by (auto simp: read_so_far_def list_all_iff)
qed

definition four_samples :: "(exn + gpu_snapshot list list) \<times> sampler" where
  "four_samples = forP [0..<4] (\<lambda>_. sample) one_device"

lemma four_samples_taken:
  "case fst four_samples of Inl e \<Rightarrow> False
   | Inr outs \<Rightarrow> map (map gpu_gpu_id) outs = [[0], [0], [0], [0]] \<and>
       map (readings 0) outs = [[87], [3/2], [3/2], [3/2]]"
  by code_simp

theorem samples_follow_reference_witness:
  "\<exists>outs s. four_samples = (Inr outs, s) \<and>
     map (map gpu_state_of) outs = [[G_DRIFTED], [G_DRIFTED], [G_DRIFTED], [G_AVAILABLE]]"
proof -
  obtain q s0 where q: "four_samples = (q, s0)" by (rule prod.exhaust)
  obtain outs s where f: "four_samples = (Inr outs, s)" and i: "map (map gpu_gpu_id) outs = [[0], [0], [0], [0]]"
    and r: "map (readings 0) outs = [[87], [3/2], [3/2], [3/2]]"
    using four_samples_taken unfolding q by (cases q) simp_all
  obtain a b c d where o: "outs = [[a], [b], [c], [d]]"
    and ids: "gpu_gpu_id a = 0" "gpu_gpu_id b = 0" "gpu_gpu_id c = 0" "gpu_gpu_id d = 0"
    using i by (auto simp: map_eq_Cons_conv)
  have v: "gpu_vram_percent a = 87" "gpu_vram_percent b = 3/2" "gpu_vram_percent c = 3/2" "gpu_vram_percent d = 3/2"
    using r ids by (simp_all add: o readings_def)
  have n: "no_readings one_device" and t: "smp_threshold one_device = 2"
    by (simp_all add: no_readings_def one_device_def)
  note th = samples_follow_reference [OF n f [unfolded four_samples_def], unfolded t]
  have "gpu_state_of a = G_DRIFTED" "gpu_state_of b = G_DRIFTED" "gpu_state_of c = G_DRIFTED"
    "gpu_state_of d = G_AVAILABLE"
    using th [of 0 a] th [of 1 b] th [of 2 c] th [of 3 d]
    by (simp_all add: o ids v readings_def device_reference_def low_run_def)
  then show ?thesis using f unfolding o by (intro exI [of _ "[[a], [b], [c], [d]]"] exI [of _ s]) simp
qed

theorem sample_shape_witness:
  "\<exists>out s m now. sample one_device = (Inr out, s) \<and> 0 \<le> m \<and> m \<le> 7 \<and> map gpu_gpu_id out = [0..m] \<and>
     list_all (\<lambda>n. valid_gpu_snapshot n \<and> gpu_sampled_at n = now) out"
proof -
  obtain q s0 where q: "sample one_device = (q, s0)" by (rule prod.exhaust)
  have "case fst (sample one_device) of Inl e \<Rightarrow> False | Inr out \<Rightarrow> True" by code_simp
  then obtain out s where "sample one_device = (Inr out, s)" unfolding q by (cases q) simp_all
  from this sample_shape [OF this] show ?thesis by blast
qed

end
