(* ===== verification/Stored_Models.thy ===== *)
theory Stored_Models
  imports Event_Store
begin

text \<open>
  Reading the files of the store back as models: \<open>strict_from_json_value(Model, data)\<close> on what
  \<open>write_immutable\<close> and \<open>write_snapshot\<close> dumped (\<open>src/agent_scheduler/domain/models.py\<close>). It gives
  the dumped model when that satisfies the constraints of its class, and a \<open>ValidationError\<close>, which
  is a \<open>ValueError\<close>, otherwise. Shared by the services that rebuild their tables at start.
\<close>

definition invalid :: "string \<Rightarrow> exn + 'a" where
  "invalid model = Inl (ValueError (''validation error for '' @ model))"

definition validated :: "string \<Rightarrow> ('a \<Rightarrow> bool) \<Rightarrow> 'a \<Rightarrow> exn + 'a" where
  "validated model ok x = (if ok x then Inr x else invalid model)"

definition valid_idempotency :: "idempotency_record \<Rightarrow> bool" where
  "valid_idempotency x \<longleftrightarrow> valid_sha256 (idm_request_hash x) \<and> valid_id (idm_object_id x)"

definition valid_status :: "task_status \<Rightarrow> bool" where
  "valid_status x \<longleftrightarrow> valid_id (sts_task_id x) \<and> valid_id (sts_execution_id x)"

definition valid_worker :: "worker_snapshot \<Rightarrow> bool" where
  "valid_worker x \<longleftrightarrow> list_all valid_gpu_snapshot (wkr_gpus x)"

fun as_proposal :: "obj \<Rightarrow> exn + proposal" where
  "as_proposal (O_proposal x) = validated ''Proposal'' valid_proposal x"
| "as_proposal _ = invalid ''Proposal''"

fun as_revision :: "obj \<Rightarrow> exn + revision" where
  "as_revision (O_revision x) = validated ''Revision'' valid_revision x"
| "as_revision _ = invalid ''Revision''"

fun as_facts :: "obj \<Rightarrow> exn + facts" where
  "as_facts (O_facts x) = validated ''ProposalFacts'' valid_facts x"
| "as_facts _ = invalid ''ProposalFacts''"

fun as_review :: "obj \<Rightarrow> exn + review" where
  "as_review (O_review x) = validated ''Review'' valid_review x"
| "as_review _ = invalid ''Review''"

fun as_context :: "obj \<Rightarrow> exn + compilation_context" where
  "as_context (O_context x) = validated ''CompilationContext'' valid_context x"
| "as_context _ = invalid ''CompilationContext''"

fun as_task :: "obj \<Rightarrow> exn + task" where
  "as_task (O_task x) = validated ''Task'' valid_task x"
| "as_task _ = invalid ''Task''"

fun as_idempotency :: "obj \<Rightarrow> exn + idempotency_record" where
  "as_idempotency (O_idempotency x) = validated ''IdempotencyRecord'' valid_idempotency x"
| "as_idempotency _ = invalid ''IdempotencyRecord''"

fun as_status :: "obj \<Rightarrow> exn + task_status" where
  "as_status (O_status x) = validated ''TaskStatus'' valid_status x"
| "as_status _ = invalid ''TaskStatus''"

fun as_lease :: "obj \<Rightarrow> exn + lease" where
  "as_lease (O_lease x) = validated ''ResourceLease'' valid_lease x"
| "as_lease _ = invalid ''ResourceLease''"

fun as_plan :: "obj \<Rightarrow> exn + plan" where
  "as_plan (O_plan x) = validated ''ExecutionPlan'' valid_plan x"
| "as_plan _ = invalid ''ExecutionPlan''"

fun as_worker :: "obj \<Rightarrow> exn + worker_snapshot" where
  "as_worker (O_worker x) = validated ''WorkerSnapshot'' valid_worker x"
| "as_worker _ = invalid ''WorkerSnapshot''"

text \<open>\<open>data.get("proposal_id")\<close> on a file that some model was dumped to.\<close>

fun stored_proposal_id :: "obj \<Rightarrow> string option" where
  "stored_proposal_id (O_proposal x) = Some (prp_proposal_id x)"
| "stored_proposal_id (O_revision x) = Some (rev_proposal_id x)"
| "stored_proposal_id (O_review x) = Some (rvw_proposal_id x)"
| "stored_proposal_id (O_task x) = Some (tsk_proposal_id x)"
| "stored_proposal_id (O_context x) = Some (ctx_proposal_id x)"
| "stored_proposal_id (O_json d) = (case jget d ''proposal_id'' of JStr t \<Rightarrow> Some t | _ \<Rightarrow> None)"
| "stored_proposal_id _ = None"

text \<open>
  \<open>for data in iter_immutable(...): body\<close>, and the same over snapshots: the directory is listed
  first, every file is read when its turn comes.
\<close>

definition each_immutable ::
  "string \<Rightarrow> (obj \<Rightarrow> ('z world_scheme, 'a) prog) \<Rightarrow> ('z world_scheme, 'a list) prog" where
  "each_immutable object_type body =
     bindP (readP (\<lambda>s. json_files object_type (immutable s))) (\<lambda>names.
     forP (filter (\<lambda>n. \<not> ends_with ''.canonical.json'' n) names) (\<lambda>n.
       bindP (\<lambda>s. (read_object (object_type, n) (map_of (immutable s) (object_type, n)), s)) body))"

definition each_snapshot ::
  "string \<Rightarrow> (obj \<Rightarrow> ('z world_scheme, 'a) prog) \<Rightarrow> ('z world_scheme, 'a list) prog" where
  "each_snapshot object_type body =
     bindP (readP (\<lambda>s. json_files object_type (snapshots s))) (\<lambda>names.
     forP names (\<lambda>n.
       bindP (\<lambda>s. (read_object (object_type, n) (map_of (snapshots s) (object_type, n)), s)) body))"

definition read_models :: "string \<Rightarrow> (obj \<Rightarrow> exn + 'a) \<Rightarrow> ('z world_scheme, 'a list) prog" where
  "read_models object_type as_model = each_immutable object_type (\<lambda>d. liftE (as_model d))"

context effect
begin

lemma eff_each:
  assumes "\<And>d. obeys R (body d)"
  shows "obeys R (forP names (\<lambda>n. bindP (\<lambda>s. (f n s, s)) body))"
  by (intro eff_for eff_bind assms) (simp add: obeys_def effect_refl)

end

context world_effect
begin

lemma eff_each_immutable: "(\<And>d. obeys R (body d)) \<Longrightarrow> obeys R (each_immutable ty body)"
  unfolding each_immutable_def by (intro eff_bind eff_read eff_each)

lemma eff_each_snapshot: "(\<And>d. obeys R (body d)) \<Longrightarrow> obeys R (each_snapshot ty body)"
  unfolding each_snapshot_def by (intro eff_bind eff_read eff_each)

lemma eff_read_models: "obeys R (read_models ty f)"
  unfolding read_models_def by (intro eff_each_immutable eff_lift)

end

end
