(* ===== verification/Proposal_Service.thy ===== *)
theory Proposal_Service
  imports Stored_Models Json_Text
begin

text \<open>
  The proposal workflow, \<open>ProposalService\<close> of \<open>src/agent_scheduler/proposal/service.py\<close>: a
  submitter's proposal is processed into facts, confirmed, reviewed and compiled into a signed
  task. The agents behind the harness adapter are programs passed as arguments. Definitions only;
  theory \<open>Proposal_Rules\<close> proves them correct.
\<close>

section \<open>State\<close>

record prop_record =
  rc_proposal :: proposal
  rc_revisions :: "(string, revision) dict"
  rc_facts :: "(string, facts) dict"
  rc_reviews :: "(string, review) dict"
  rc_task :: "task option"

text \<open>\<open>sv_exists\<close> says which paths exist at each look at the file system.\<close>

record service = world +
  sv_key_id :: string
  sv_allowed_users :: "string set"
  sv_max_workers :: int
  sv_allowed_worker_ids :: "string list"
  sv_policy_version :: string
  sv_records :: "(string, prop_record) dict"
  sv_idempotency :: "(string \<times> string \<times> string, idempotency_record) dict"
  sv_exists :: "nat \<Rightarrow> string set"
  sv_exists_no :: nat

text \<open>
  What the service is given: the harness adapter (\<open>co_process\<close>, \<open>co_review\<close>), the signing key,
  SHA-256 and Ed25519, and the serialisers of the models.
\<close>

record ('k, 'p, 's) collaborators =
  co_crypto :: "('k, 'p) crypto"
  co_signing_key :: 'k
  co_task_payload :: "task \<Rightarrow> string"
  co_task_bytes :: "task \<Rightarrow> string"
  co_proposal_dump :: "proposal \<Rightarrow> (string \<times> json) list"
  co_process :: "revision \<Rightarrow> ('s, facts) prog"
  co_review :: "revision \<Rightarrow> facts \<Rightarrow> ('s, review) prog"

definition required_headings :: "string list" where
  "required_headings =
     [''# Proposal'', ''## Identity'', ''## Objective'', ''## Success Criteria'', ''## Workload and Code'',
      ''## Container'', ''## Resources'', ''## Commands'', ''## Inputs and Mounts'', ''## Environment'',
      ''## Networking and Privileges'', ''## Timeout and Cleanup'', ''## Framework Logs'',
      ''## Business Logs and Outputs'', ''## Multi-node Coordination'', ''## Risks and Notes'']"

definition qualification_launcher :: string where
  "qualification_launcher = ''/data/fh/agent-gpu-task-scheduler/scripts/run_torch_collective_smoke.sh''"

definition qualification_launcher_sha256 :: string where
  "qualification_launcher_sha256 = ''c1cf6dee074e03c026dd7272e358d7b15c65b6ff3b6ae1c1f71e7efae341de0c''"

definition terminal :: "proposal_state set" where
  "terminal = {P_REJECTED, P_EXPIRED, P_CANCELLED, P_COMPILED}"

definition days :: "int \<Rightarrow> int" where "days n = n * 86400000000"
definition minutes :: "int \<Rightarrow> int" where "minutes n = n * 60000000"

fun is_HarnessError :: "exn \<Rightarrow> bool" where
  "is_HarnessError (HarnessError _) = True"
| "is_HarnessError _ = False"

fun is_ProposalError :: "exn \<Rightarrow> bool" where
  "is_ProposalError (ProposalError _ _) = True"
| "is_ProposalError _ = False"

fun is_CompileError :: "exn \<Rightarrow> bool" where
  "is_CompileError (CompileError _) = True"
| "is_CompileError _ = False"

section \<open>Records\<close>

text \<open>A record is a shared object: changing it changes what the table holds.\<close>

definition alter :: "string \<Rightarrow> (prop_record \<Rightarrow> prop_record) \<Rightarrow> 'z service_scheme \<Rightarrow> 'z service_scheme" where
  "alter pid f s = s\<lparr>sv_records := AList.map_entry pid f (sv_records s)\<rparr>"

definition get_record :: "string \<Rightarrow> ('z service_scheme, prop_record) prog" where
  "get_record pid =
     bindP (readP (\<lambda>s. map_of (sv_records s) pid)) (\<lambda>x. case x of
        None \<Rightarrow> raiseP (ProposalError ''proposal not found'' ''NOT_FOUND'')
      | Some r \<Rightarrow> returnP r)"

definition persist_proposal :: "proposal \<Rightarrow> ('z service_scheme, unit) prog" where
  "persist_proposal p =
     bindP (fresh_id ''prop_state'') (\<lambda>i.
     bindP (write_immutable ''proposal-states'' i (O_proposal p)) (\<lambda>_.
     write_snapshot ''proposals'' (prp_proposal_id p) (O_proposal p)))"

text \<open>\<open>record.proposal = p\<close> and \<open>_persist_proposal(p)\<close>.\<close>

definition put_proposal :: "string \<Rightarrow> proposal \<Rightarrow> ('z service_scheme, unit) prog" where
  "put_proposal pid p =
     bindP (updateP (alter pid (\<lambda>r. r\<lparr>rc_proposal := p\<rparr>))) (\<lambda>_. persist_proposal p)"

text \<open>\<open>model_copy\<close> with a new state and time, stored and persisted.\<close>

definition move_to :: "string \<Rightarrow> proposal_state \<Rightarrow> ('z service_scheme, unit) prog" where
  "move_to pid state =
     bindP (get_record pid) (\<lambda>r.
     bindP utc_now (\<lambda>now.
     put_proposal pid ((rc_proposal r)\<lparr>prp_state := state, prp_updated_at := now\<rparr>)))"

definition announce :: "string \<Rightarrow> string \<Rightarrow> string \<Rightarrow> string \<Rightarrow> (string \<times> json) list \<Rightarrow> ('z service_scheme, unit) prog" where
  "announce pid event_type actor request_id payload =
     bindP (append_event ''proposals'' pid event_type actor request_id payload) (\<lambda>_. returnP ())"

section \<open>Checks\<close>

definition check_user :: "string \<Rightarrow> ('z service_scheme, unit) prog" where
  "check_user username =
     bindP (readP sv_allowed_users) (\<lambda>users.
     checkP (username \<in> users) (ProposalError ''username is not allowlisted'' ''USERNAME_NOT_ALLOWED''))"

definition invalid_proposal :: "string \<Rightarrow> exn" where
  "invalid_proposal m = ProposalError m ''INVALID_PROPOSAL''"

definition check_owner :: "proposal \<Rightarrow> string \<Rightarrow> ('z service_scheme, unit) prog" where
  "check_owner p username =
     checkP (prp_username p = username) (invalid_proposal ''username does not match proposal declaration'')"

definition expired :: "int \<Rightarrow> proposal \<Rightarrow> bool" where
  "expired now p \<longleftrightarrow> now \<ge> prp_expires_at p \<or>
     (case prp_submitter_deadline p of None \<Rightarrow> False | Some d \<Rightarrow> now \<ge> d)"

definition check_lifetime :: "string \<Rightarrow> string \<Rightarrow> ('z service_scheme, unit) prog" where
  "check_lifetime pid request_id =
     bindP (get_record pid) (\<lambda>r.
     bindP utc_now (\<lambda>now.
     whenP (expired now (rc_proposal r))
       (bindP (put_proposal pid ((rc_proposal r)\<lparr>prp_state := P_EXPIRED, prp_updated_at := now\<rparr>)) (\<lambda>_.
        bindP (announce pid ''EXPIRED'' ''master'' request_id []) (\<lambda>_.
        raiseP (ProposalError ''proposal expired'' ''EXPIRED''))))))"

definition validate_size :: "string \<Rightarrow> ('z service_scheme, unit) prog" where
  "validate_size markdown =
     checkP (markdown \<noteq> [] \<and> length markdown \<le> 256 * 1024)
       (invalid_proposal ''proposal markdown must be 1..256 KiB'')"

definition lower_ascii :: "char \<Rightarrow> char" where
  "lower_ascii c = (if is_upper c then char_of ((of_char c :: nat) + 32) else c)"

definition validate_review_ready :: "string \<Rightarrow> ('z service_scheme, unit) prog" where
  "validate_review_ready markdown =
     (let missing = filter (\<lambda>h. \<not> contains h markdown) required_headings
      in bindP (checkP (missing = [])
                 (invalid_proposal (''proposal is missing headings: '' @ join '', '' missing))) (\<lambda>_.
         checkP (\<not> has_word ''tbd'' False (map lower_ascii markdown))
           (invalid_proposal ''confirmed revision must not contain TBD'')))"

text \<open>\<open>text.replace(a, b, 1)\<close>, for a non-empty \<open>a\<close>.\<close>

fun replace_first :: "string \<Rightarrow> string \<Rightarrow> string \<Rightarrow> string" where
  "replace_first a b [] = []"
| "replace_first a b (c # s) =
     (if starts_with a (c # s) then b @ drop (length a) (c # s) else c # replace_first a b s)"

definition path_absent :: "string \<Rightarrow> ('z service_scheme, bool) prog" where
  "path_absent path = (\<lambda>s. (Inr (path \<notin> sv_exists s (sv_exists_no s)), s\<lparr>sv_exists_no := Suc (sv_exists_no s)\<rparr>))"

text \<open>
  The launcher command and its two artifacts, for the proposal. The lists that two of the messages
  print with \<open>repr\<close> at their end are left out; no code looks at a message.
\<close>

definition kind_value :: "command_kind \<Rightarrow> string" where
  "kind_value k = (case k of INLINE_BASH \<Rightarrow> ''inline_bash'' | CONTAINER_PATH_BASH \<Rightarrow> ''container_path_bash'')"

definition or_none :: "string option \<Rightarrow> string" where
  "or_none x = (case x of None \<Rightarrow> ''None'' | Some v \<Rightarrow> v)"

definition artifact_error :: "string \<Rightarrow> facts \<Rightarrow> string option" where
  "artifact_error pid facts =
     (case fct_run facts of
        [command] \<Rightarrow>
          if cmd_kind command \<noteq> CONTAINER_PATH_BASH
          then Some (''qualification run command must be container_path_bash, not '' @ kind_value (cmd_kind command))
          else if cmd_container_path command \<noteq> Some qualification_launcher
          then Some (''qualification run command must invoke the frozen launcher '' @ qualification_launcher @
                 '', not '' @ or_none (cmd_container_path command))
          else if cmd_sha256 command \<noteq> Some qualification_launcher_sha256
          then Some (''qualification launcher SHA-256 must be '' @ qualification_launcher_sha256 @
                 '', not '' @ or_none (cmd_sha256 command))
          else (case cmd_argv command of
              [output, business_log] \<Rightarrow>
                if \<not> starts_with (''/data/agent-scheduler-mvp/outputs/'' @ pid) output
                then Some ''qualification output path is not Proposal-unique''
                else if \<not> starts_with (''/data/agent-scheduler-mvp/logs/'' @ pid) business_log
                then Some ''qualification business log path is not Proposal-unique''
                else if fct_required_outputs facts \<noteq> [replace_first ''/data'' ''/public/share'' output] \<or>
                        fct_required_logs facts \<noteq> [replace_first ''/data'' ''/public/share'' business_log]
                then Some ''required host artifacts must be the launcher argv remapped through the `/data` -> `/public/share` bind mount: ''
                else None
            | argv \<Rightarrow> Some (''the frozen launcher takes exactly two positional arguments '' @
                ''`<container-output-path> <container-log-path>` and accepts no flags; got '' @
                show_nat (length argv) @ '' arguments: ''))
      | _ \<Rightarrow> Some ''qualification requires exactly one run command'')"

definition facts_error :: "proposal \<Rightarrow> facts \<Rightarrow> string option" where
  "facts_error p facts =
     (if fct_submitter_username facts \<noteq> prp_username p
      then Some ''Facts username differs from Proposal username''
      else if fct_required_gpu_count facts \<notin> {1, 2, 4, 8}
      then Some ''qualification GPU count must be 1, 2, 4, or 8''
      else artifact_error (prp_proposal_id p) facts)"

definition validate_facts :: "proposal \<Rightarrow> facts \<Rightarrow> ('z service_scheme, unit) prog" where
  "validate_facts p facts =
     (case facts_error p facts of
        Some m \<Rightarrow> raiseP (invalid_proposal m)
      | None \<Rightarrow>
          bindP (allP (fct_required_outputs facts @ fct_required_logs facts) path_absent) (\<lambda>absent.
          checkP absent (invalid_proposal ''qualification artifact paths must not exist before execution'')))"

section \<open>Idempotency\<close>

definition request_hash :: "('k, 'p, 's) collaborators \<Rightarrow> (string \<times> json) list \<Rightarrow> string" where
  "request_hash co request = sha256_hex (co_crypto co) (json_dumps True (\<lambda>_. []) (JObj request))"

definition idempotent_result ::
  "('k, 'p, 'z service_scheme) collaborators \<Rightarrow> string \<Rightarrow> string \<Rightarrow> string \<Rightarrow> (string \<times> json) list
     \<Rightarrow> ('z service_scheme, idempotency_record option) prog" where
  "idempotent_result co username operation key request =
     bindP (checkP (key \<noteq> []) (ProposalError ''idempotency key is required'' ''IDEMPOTENCY_REQUIRED'')) (\<lambda>_.
     bindP (readP (\<lambda>s. map_of (sv_idempotency s) (username, operation, key))) (\<lambda>item. case item of
        None \<Rightarrow> returnP None
      | Some i \<Rightarrow>
          bindP (checkP (idm_request_hash i = request_hash co request)
                   (ProposalError ''idempotency key conflicts with a different request'' ''IDEMPOTENCY_CONFLICT''))
            (\<lambda>_. returnP (Some i))))"

definition idempotency_file ::
  "('k, 'p, 's) collaborators \<Rightarrow> string \<Rightarrow> string \<Rightarrow> string \<Rightarrow> string" where
  "idempotency_file co username operation key =
     sha256_hex (co_crypto co) (username @ [CHR 0x00] @ operation @ [CHR 0x00] @ key)"

definition save_idempotency ::
  "('k, 'p, 'z service_scheme) collaborators \<Rightarrow> string \<Rightarrow> string \<Rightarrow> string \<Rightarrow> (string \<times> json) list
     \<Rightarrow> string \<Rightarrow> (string \<times> json) list \<Rightarrow> ('z service_scheme, unit) prog" where
  "save_idempotency co username operation key request object_id response =
     (let item = \<lparr>idm_username = username, idm_operation = operation, idm_key = key,
                  idm_request_hash = request_hash co request, idm_object_id = object_id,
                  idm_response = response\<rparr>;
          name = idempotency_file co username operation key
      in bindP (checkP (valid_idempotency item) (ValueError ''validation error for IdempotencyRecord'')) (\<lambda>_.
         bindP (updateP (\<lambda>s. s\<lparr>sv_idempotency :=
             AList.update (username, operation, key) item (sv_idempotency s)\<rparr>)) (\<lambda>_.
         bindP (immutable_exists ''idempotency'' name) (\<lambda>exists.
         whenP (\<not> exists) (write_immutable ''idempotency'' name (O_idempotency item))))))"

section \<open>Creating a proposal\<close>

definition make_revision :: "proposal \<Rightarrow> string \<Rightarrow> int \<Rightarrow> ('z service_scheme, revision) prog" where
  "make_revision p markdown number =
     bindP (fresh_id ''rev'') (\<lambda>i.
     bindP utc_now (\<lambda>now.
     let r = \<lparr>rev_revision_id = i, rev_proposal_id = prp_proposal_id p, rev_number = number,
              rev_markdown = markdown, rev_created_at = now\<rparr>
     in bindP (checkP (valid_revision r) (ValueError ''validation error for Revision'')) (\<lambda>_. returnP r)))"

definition new_proposal :: "string \<Rightarrow> int \<Rightarrow> string \<Rightarrow> proposal" where
  "new_proposal username now pid =
     \<lparr>prp_proposal_id = pid, prp_username = username, prp_state = P_CLARIFYING,
      prp_current_revision_id = None, prp_current_facts_id = None, prp_processor_rounds = 1,
      prp_review_count = 0, prp_created_at = now, prp_updated_at = now,
      prp_expires_at = now + days 7, prp_submitter_deadline = None\<rparr>"

text \<open>The facts are in: the proposal awaits its confirmation.\<close>

definition created ::
  "('k, 'p, 'z service_scheme) collaborators \<Rightarrow> string \<Rightarrow> string \<Rightarrow> string \<Rightarrow> string \<Rightarrow> proposal \<Rightarrow>
     revision \<Rightarrow> facts \<Rightarrow> ('z service_scheme, proposal) prog" where
  "created co username markdown idempotency_key request_id p rv facts =
     (let pid = prp_proposal_id p
      in bindP (write_immutable ''facts'' (fct_facts_id facts) (O_facts facts)) (\<lambda>_.
         bindP (updateP (alter pid (\<lambda>r. r\<lparr>rc_facts := AList.update (fct_facts_id facts) facts (rc_facts r)\<rparr>))) (\<lambda>_.
         bindP utc_now (\<lambda>t1.
         bindP utc_now (\<lambda>t2.
         let p' = p\<lparr>prp_state := P_AWAITING_CONFIRMATION, prp_current_revision_id := Some (rev_revision_id rv),
                     prp_current_facts_id := Some (fct_facts_id facts), prp_updated_at := t2,
                     prp_submitter_deadline := Some (t1 + minutes 30)\<rparr>
         in bindP (put_proposal pid p') (\<lambda>_.
            bindP (announce pid ''CREATED'' username request_id
               [(''revision_id'', JStr (rev_revision_id rv)), (''facts_id'', JStr (fct_facts_id facts))]) (\<lambda>_.
            bindP (save_idempotency co username ''create'' idempotency_key [(''markdown'', JStr markdown)]
               pid (co_proposal_dump co p')) (\<lambda>_. returnP p')))))))) "

definition process_failed ::
  "('k, 'p, 'z service_scheme) collaborators \<Rightarrow> string \<Rightarrow> string \<Rightarrow> string \<Rightarrow> string \<Rightarrow> proposal \<Rightarrow> exn
     \<Rightarrow> ('z service_scheme, facts) prog" where
  "process_failed co username markdown idempotency_key request_id p e =
     (let pid = prp_proposal_id p
      in bindP utc_now (\<lambda>now.
         let p' = p\<lparr>prp_state := P_PROCESSING_ERROR, prp_updated_at := now\<rparr>
         in bindP (put_proposal pid p') (\<lambda>_.
            bindP (announce pid ''PROCESSING_ERROR'' ''processor'' request_id [(''error'', JStr (exn_message e))]) (\<lambda>_.
            bindP (save_idempotency co username ''create'' idempotency_key [(''markdown'', JStr markdown)]
               pid (co_proposal_dump co p')) (\<lambda>_.
            raiseP (ProposalError (exn_message e) ''PROCESSING_ERROR''))))))"

definition create_new ::
  "('k, 'p, 'z service_scheme) collaborators \<Rightarrow> string \<Rightarrow> string \<Rightarrow> string \<Rightarrow> string
     \<Rightarrow> ('z service_scheme, proposal) prog" where
  "create_new co username markdown idempotency_key request_id =
     bindP utc_now (\<lambda>now.
     bindP (fresh_id ''prop'') (\<lambda>pid.
     let p = new_proposal username now pid
     in bindP (checkP (valid_proposal p) (ValueError ''validation error for Proposal'')) (\<lambda>_.
        bindP (make_revision p markdown 1) (\<lambda>rv.
        bindP (updateP (\<lambda>s. s\<lparr>sv_records := AList.update pid
           \<lparr>rc_proposal = p, rc_revisions = [(rev_revision_id rv, rv)], rc_facts = [], rc_reviews = [],
            rc_task = None\<rparr> (sv_records s)\<rparr>)) (\<lambda>_.
        bindP (write_immutable ''revisions'' (rev_revision_id rv) (O_revision rv)) (\<lambda>_.
        bindP (catchP (co_process co rv) is_HarnessError
                 (process_failed co username markdown idempotency_key request_id p)) (\<lambda>facts.
        bindP (catchP (validate_facts p facts) is_ProposalError
                 (\<lambda>e. bindP (updateP (\<lambda>s. s\<lparr>sv_records := AList.delete pid (sv_records s)\<rparr>)) (\<lambda>_. raiseP e))) (\<lambda>_.
        created co username markdown idempotency_key request_id p rv facts))))))))"

definition get_proposal :: "string \<Rightarrow> ('z service_scheme, proposal) prog" where
  "get_proposal pid = bindP (get_record pid) (\<lambda>r. returnP (rc_proposal r))"

definition create ::
  "('k, 'p, 'z service_scheme) collaborators \<Rightarrow> string \<Rightarrow> string \<Rightarrow> string \<Rightarrow> string
     \<Rightarrow> ('z service_scheme, proposal) prog" where
  "create co username markdown idempotency_key request_id =
     bindP (check_user username) (\<lambda>_.
     bindP (validate_size markdown) (\<lambda>_.
     bindP (idempotent_result co username ''create'' idempotency_key [(''markdown'', JStr markdown)]) (\<lambda>cached.
     case cached of
        Some i \<Rightarrow> get_proposal (idm_object_id i)
      | None \<Rightarrow> create_new co username markdown idempotency_key request_id)))"

section \<open>Replying\<close>

definition operation_of :: "string \<Rightarrow> string \<Rightarrow> string" where
  "operation_of name pid = name @ '':'' @ pid"

text \<open>The processor failed on a reply or the reviewer on a confirmation.\<close>

definition harness_failed :: "string \<Rightarrow> string \<Rightarrow> string \<Rightarrow> exn \<Rightarrow> ('z service_scheme, unit) prog" where
  "harness_failed pid actor request_id e =
     bindP (move_to pid P_PROCESSING_ERROR) (\<lambda>_.
     announce pid ''PROCESSING_ERROR'' actor request_id [(''error'', JStr (exn_message e))])"

definition reply_revision ::
  "('k, 'p, 'z service_scheme) collaborators \<Rightarrow> string \<Rightarrow> string \<Rightarrow> string \<Rightarrow> string \<Rightarrow> string
     \<Rightarrow> ('z service_scheme, proposal) prog" where
  "reply_revision co pid username markdown idempotency_key request_id =
     bindP (get_record pid) (\<lambda>r.
     bindP (checkP (prp_state (rc_proposal r) \<notin> terminal) (ProposalError ''proposal is terminal'' ''TERMINAL_STATE'')) (\<lambda>_.
     let next_round = prp_processor_rounds (rc_proposal r) + 1
     in bindP (checkP (next_round \<le> 8) (ProposalError ''processor round limit reached'' ''ROUND_LIMIT'')) (\<lambda>_.
        bindP (make_revision (rc_proposal r) markdown next_round) (\<lambda>rv.
        bindP (catchP (co_process co rv) is_HarnessError
                 (\<lambda>e. bindP (harness_failed pid ''processor'' request_id e) (\<lambda>_.
                      raiseP (ProposalError (exn_message e) ''PROCESSING_ERROR'')))) (\<lambda>facts.
        bindP (get_record pid) (\<lambda>r.
        bindP (validate_facts (rc_proposal r) facts) (\<lambda>_.
        bindP (write_immutable ''revisions'' (rev_revision_id rv) (O_revision rv)) (\<lambda>_.
        bindP (write_immutable ''facts'' (fct_facts_id facts) (O_facts facts)) (\<lambda>_.
        bindP (updateP (alter pid (\<lambda>r. r\<lparr>rc_revisions := AList.update (rev_revision_id rv) rv (rc_revisions r),
                 rc_facts := AList.update (fct_facts_id facts) facts (rc_facts r)\<rparr>))) (\<lambda>_.
        bindP (get_record pid) (\<lambda>r.
        bindP utc_now (\<lambda>t1.
        bindP utc_now (\<lambda>t2.
        let p' = (rc_proposal r)\<lparr>prp_state := P_AWAITING_CONFIRMATION,
                   prp_current_revision_id := Some (rev_revision_id rv),
                   prp_current_facts_id := Some (fct_facts_id facts), prp_processor_rounds := next_round,
                   prp_updated_at := t1, prp_submitter_deadline := Some (t2 + minutes 30)\<rparr>
        in bindP (put_proposal pid p') (\<lambda>_.
           bindP (announce pid ''REVISION_CREATED'' username request_id
              [(''revision_id'', JStr (rev_revision_id rv)), (''facts_id'', JStr (fct_facts_id facts))]) (\<lambda>_.
           bindP (save_idempotency co username (operation_of ''reply'' pid) idempotency_key
              [(''markdown'', JStr markdown)] pid (co_proposal_dump co p')) (\<lambda>_. returnP p')))))))))))))))) "

definition reply ::
  "('k, 'p, 'z service_scheme) collaborators \<Rightarrow> string \<Rightarrow> string \<Rightarrow> string \<Rightarrow> string \<Rightarrow> string
     \<Rightarrow> ('z service_scheme, proposal) prog" where
  "reply co pid username markdown idempotency_key request_id =
     bindP (check_user username) (\<lambda>_.
     bindP (validate_size markdown) (\<lambda>_.
     bindP (get_record pid) (\<lambda>r.
     bindP (check_owner (rc_proposal r) username) (\<lambda>_.
     bindP (check_lifetime pid request_id) (\<lambda>_.
     bindP (idempotent_result co username (operation_of ''reply'' pid) idempotency_key
              [(''markdown'', JStr markdown)]) (\<lambda>cached.
     if cached \<noteq> None then get_proposal pid
     else reply_revision co pid username markdown idempotency_key request_id))))))"

section \<open>Confirming\<close>

text \<open>How a confirmation ends without a task: the event, the remembered outcome, the error.\<close>

definition outcome_json :: "string \<Rightarrow> (string \<times> json) list \<Rightarrow> (string \<times> json) list" where
  "outcome_json code extra = (''outcome'', JStr code) # extra"

definition confirm_error ::
  "('k, 'p, 'z service_scheme) collaborators \<Rightarrow> string \<Rightarrow> string \<Rightarrow> string \<Rightarrow> string \<Rightarrow> string \<Rightarrow> string
     \<Rightarrow> (string \<times> json) list \<Rightarrow> ('z service_scheme, 'a) prog" where
  "confirm_error co pid username revision_id idempotency_key message code extra =
     bindP (save_idempotency co username (operation_of ''confirm'' pid) idempotency_key
              [(''revision_id'', JStr revision_id)] pid (outcome_json code extra)) (\<lambda>_.
     raiseP (ProposalError message code))"

text \<open>A confirmation that was answered before.\<close>

definition cached_confirmation ::
  "idempotency_record \<Rightarrow> prop_record \<Rightarrow> ('z service_scheme, task) prog" where
  "cached_confirmation i r =
     (case (jget (idm_response i) ''outcome'', rc_task r) of
        (JStr outcome, Some t) \<Rightarrow>
          if outcome = ''COMPILED'' then returnP t
          else raiseP (ProposalError (''cached confirmation outcome: '' @ outcome) outcome)
      | (JStr outcome, None) \<Rightarrow> raiseP (ProposalError (''cached confirmation outcome: '' @ outcome) outcome)
      | _ \<Rightarrow> raiseP (invalid_proposal ''cached confirmation has no outcome''))"

definition request_changes ::
  "('k, 'p, 'z service_scheme) collaborators \<Rightarrow> string \<Rightarrow> string \<Rightarrow> string \<Rightarrow> string \<Rightarrow> string \<Rightarrow> review
     \<Rightarrow> ('z service_scheme, 'a) prog" where
  "request_changes co pid username revision_id idempotency_key request_id rvw =
     bindP (get_record pid) (\<lambda>r.
     bindP utc_now (\<lambda>t1.
     bindP utc_now (\<lambda>t2.
     bindP (put_proposal pid ((rc_proposal r)\<lparr>prp_state := P_CHANGES_REQUESTED, prp_updated_at := t1,
              prp_submitter_deadline := Some (t2 + minutes 30)\<rparr>)) (\<lambda>_.
     bindP (announce pid ''CHANGES_REQUESTED'' ''reviewer'' request_id [(''review_id'', JStr (rvw_review_id rvw))]) (\<lambda>_.
     confirm_error co pid username revision_id idempotency_key ''review requested changes''
       ''CHANGES_REQUESTED'' [(''review_id'', JStr (rvw_review_id rvw))])))))"

definition reject ::
  "('k, 'p, 'z service_scheme) collaborators \<Rightarrow> string \<Rightarrow> string \<Rightarrow> string \<Rightarrow> string \<Rightarrow> string \<Rightarrow> review
     \<Rightarrow> ('z service_scheme, 'a) prog" where
  "reject co pid username revision_id idempotency_key request_id rvw =
     bindP (move_to pid P_REJECTED) (\<lambda>_.
     bindP (announce pid ''REJECTED'' ''reviewer'' request_id [(''review_id'', JStr (rvw_review_id rvw))]) (\<lambda>_.
     confirm_error co pid username revision_id idempotency_key ''review rejected proposal''
       ''REJECTED'' [(''review_id'', JStr (rvw_review_id rvw))]))"

text \<open>The frozen context of a compilation.\<close>

definition make_context ::
  "string \<Rightarrow> revision \<Rightarrow> facts \<Rightarrow> review \<Rightarrow> ('z service_scheme, compilation_context) prog" where
  "make_context pid rv facts rvw =
     bindP (fresh_id ''task'') (\<lambda>task_id.
     bindP (fresh_id ''exec'') (\<lambda>execution_id.
     bindP utc_now (\<lambda>now.
     bindP (readP id) (\<lambda>s.
     let context = \<lparr>ctx_task_id = task_id, ctx_execution_id = execution_id, ctx_proposal_id = pid,
           ctx_revision_id = rev_revision_id rv, ctx_facts_id = fct_facts_id facts,
           ctx_review_id = rvw_review_id rvw, ctx_created_at = now, ctx_key_id = sv_key_id s,
           ctx_policy_version = sv_policy_version s, ctx_max_workers = sv_max_workers s,
           ctx_allowed_worker_ids = sv_allowed_worker_ids s,
           ctx_allowed_container = (fct_required_worker_id facts, ''fh-sglang-deepseek-v4-flash'', ''zz_chentian''),
           ctx_allowed_image_digest = fct_image_digest facts\<rparr>
     in bindP (checkP (valid_context context) (ValueError ''validation error for CompilationContext'')) (\<lambda>_.
        bindP (write_immutable ''compilation-contexts'' task_id (O_context context)) (\<lambda>_.
        returnP context))))))"

definition canonical_name :: "string \<Rightarrow> string" where
  "canonical_name task_id = task_id @ ''.canonical.json''"

definition store_task ::
  "('k, 'p, 'z service_scheme) collaborators \<Rightarrow> task \<Rightarrow> ('z service_scheme, unit) prog" where
  "store_task co t =
     bindP (write_immutable ''tasks'' (tsk_task_id t) (O_task t)) (\<lambda>_.
     write_immutable_bytes ''tasks'' (canonical_name (tsk_task_id t)) (co_task_bytes co t))"

definition compiled ::
  "('k, 'p, 'z service_scheme) collaborators \<Rightarrow> string \<Rightarrow> string \<Rightarrow> string \<Rightarrow> string \<Rightarrow> string \<Rightarrow> task
     \<Rightarrow> ('z service_scheme, task) prog" where
  "compiled co pid username revision_id idempotency_key request_id t =
     bindP (store_task co t) (\<lambda>_.
     bindP (updateP (alter pid (\<lambda>r. r\<lparr>rc_task := Some t\<rparr>))) (\<lambda>_.
     bindP (move_to pid P_COMPILED) (\<lambda>_.
     bindP (announce pid ''COMPILED'' ''compiler'' request_id [(''task_id'', JStr (tsk_task_id t))]) (\<lambda>_.
     bindP (append_event ''tasks'' (tsk_task_id t) ''CREATED'' ''compiler'' request_id
              [(''execution_id'', JStr (tsk_execution_id t))]) (\<lambda>_.
     bindP (save_idempotency co username (operation_of ''confirm'' pid) idempotency_key
              [(''revision_id'', JStr revision_id)] pid
              (outcome_json ''COMPILED'' [(''task_id'', JStr (tsk_task_id t))])) (\<lambda>_.
     returnP t))))))"

definition compile_failed ::
  "('k, 'p, 'z service_scheme) collaborators \<Rightarrow> string \<Rightarrow> string \<Rightarrow> string \<Rightarrow> string \<Rightarrow> string \<Rightarrow> exn
     \<Rightarrow> ('z service_scheme, task) prog" where
  "compile_failed co pid username revision_id idempotency_key request_id e =
     bindP (move_to pid P_COMPILE_FAILED) (\<lambda>_.
     bindP (announce pid ''COMPILE_FAILED'' ''compiler'' request_id [(''error'', JStr (exn_message e))]) (\<lambda>_.
     confirm_error co pid username revision_id idempotency_key (exn_message e) ''COMPILE_FAILED'' []))"

text \<open>From the approval of the review on.\<close>

definition compile_approved ::
  "('k, 'p, 'z service_scheme) collaborators \<Rightarrow> string \<Rightarrow> string \<Rightarrow> string \<Rightarrow> string \<Rightarrow> string \<Rightarrow> revision
     \<Rightarrow> facts \<Rightarrow> review \<Rightarrow> ('z service_scheme, task) prog" where
  "compile_approved co pid username revision_id idempotency_key request_id rv facts rvw =
     bindP (move_to pid P_COMPILING) (\<lambda>_.
     bindP (make_context pid rv facts rvw) (\<lambda>context.
     bindP (catchP (liftE (compile_task (co_crypto co) (co_task_payload co) rv facts rvw context (co_signing_key co)))
              is_CompileError (compile_failed co pid username revision_id idempotency_key request_id)) (\<lambda>t.
     compiled co pid username revision_id idempotency_key request_id t)))"

text \<open>The review, after the confirmation was recorded.\<close>

definition review_revision ::
  "('k, 'p, 'z service_scheme) collaborators \<Rightarrow> string \<Rightarrow> string \<Rightarrow> string \<Rightarrow> string \<Rightarrow> string \<Rightarrow> revision
     \<Rightarrow> facts \<Rightarrow> ('z service_scheme, task) prog" where
  "review_revision co pid username revision_id idempotency_key request_id rv facts =
     bindP (catchP (co_review co rv facts) is_HarnessError
              (\<lambda>e. bindP (harness_failed pid ''reviewer'' request_id e) (\<lambda>_.
                   confirm_error co pid username revision_id idempotency_key (exn_message e)
                     ''PROCESSING_ERROR'' []))) (\<lambda>rvw.
     bindP (write_immutable ''reviews'' (rvw_review_id rvw) (O_review rvw)) (\<lambda>_.
     bindP (updateP (alter pid (\<lambda>r. r\<lparr>rc_reviews := AList.update (rvw_review_id rvw) rvw (rc_reviews r)\<rparr>))) (\<lambda>_.
     case rvw_decision rvw of
        REQUEST_CHANGES \<Rightarrow> request_changes co pid username revision_id idempotency_key request_id rvw
      | REJECT \<Rightarrow> reject co pid username revision_id idempotency_key request_id rvw
      | APPROVE \<Rightarrow> compile_approved co pid username revision_id idempotency_key request_id rv facts rvw)))"

definition lookupP :: "('k, 'v) dict \<Rightarrow> 'k \<Rightarrow> string \<Rightarrow> ('s, 'v) prog" where
  "lookupP d k m = (case map_of d k of None \<Rightarrow> raiseP (KeyError m) | Some v \<Rightarrow> returnP v)"

definition confirm_revision ::
  "('k, 'p, 'z service_scheme) collaborators \<Rightarrow> string \<Rightarrow> string \<Rightarrow> string \<Rightarrow> string \<Rightarrow> string
     \<Rightarrow> ('z service_scheme, task) prog" where
  "confirm_revision co pid username revision_id idempotency_key request_id =
     bindP (get_record pid) (\<lambda>r.
     let p = rc_proposal r
     in bindP (checkP (prp_state p = P_AWAITING_CONFIRMATION)
                 (ProposalError ''proposal is not awaiting confirmation'' ''INVALID_STATE'')) (\<lambda>_.
        bindP (checkP (prp_current_revision_id p = Some revision_id)
                 (invalid_proposal ''only the current revision can be confirmed'')) (\<lambda>_.
        bindP (lookupP (rc_revisions r) revision_id ''revision'') (\<lambda>rv.
        bindP (validate_review_ready (rev_markdown rv)) (\<lambda>_.
        bindP (case prp_current_facts_id p of None \<Rightarrow> raiseP (KeyError ''None'')
               | Some i \<Rightarrow> lookupP (rc_facts r) i ''facts'') (\<lambda>facts.
        bindP (checkP (prp_review_count p + 1 \<le> 4) (ProposalError ''review limit reached'' ''REVIEW_LIMIT'')) (\<lambda>_.
        bindP utc_now (\<lambda>now.
        bindP (put_proposal pid (p\<lparr>prp_state := P_IN_REVIEW, prp_review_count := prp_review_count p + 1,
                 prp_updated_at := now, prp_submitter_deadline := None\<rparr>)) (\<lambda>_.
        bindP (announce pid ''REVISION_CONFIRMED'' username request_id [(''revision_id'', JStr revision_id)]) (\<lambda>_.
        review_revision co pid username revision_id idempotency_key request_id rv facts))))))))))"

definition confirm ::
  "('k, 'p, 'z service_scheme) collaborators \<Rightarrow> string \<Rightarrow> string \<Rightarrow> string \<Rightarrow> string \<Rightarrow> string
     \<Rightarrow> ('z service_scheme, task) prog" where
  "confirm co pid username revision_id idempotency_key request_id =
     bindP (check_user username) (\<lambda>_.
     bindP (get_record pid) (\<lambda>r.
     bindP (check_owner (rc_proposal r) username) (\<lambda>_.
     bindP (check_lifetime pid request_id) (\<lambda>_.
     bindP (idempotent_result co username (operation_of ''confirm'' pid) idempotency_key
              [(''revision_id'', JStr revision_id)]) (\<lambda>cached.
     case cached of
        Some i \<Rightarrow> cached_confirmation i r
      | None \<Rightarrow> confirm_revision co pid username revision_id idempotency_key request_id)))))"

section \<open>Resuming, retrying, cancelling\<close>

definition resume_proposal ::
  "('k, 'p, 'z service_scheme) collaborators \<Rightarrow> string \<Rightarrow> string \<Rightarrow> string \<Rightarrow> string
     \<Rightarrow> ('z service_scheme, proposal) prog" where
  "resume_proposal co pid username idempotency_key request_id =
     bindP (check_user username) (\<lambda>_.
     bindP (get_record pid) (\<lambda>r.
     bindP (check_owner (rc_proposal r) username) (\<lambda>_.
     bindP (idempotent_result co username (operation_of ''resume'' pid) idempotency_key []) (\<lambda>cached.
     if cached \<noteq> None then returnP (rc_proposal r)
     else
       bindP (checkP (prp_state (rc_proposal r) = P_PROCESSING_ERROR)
                (ProposalError ''proposal is not resumable'' ''INVALID_STATE'')) (\<lambda>_.
       bindP (move_to pid P_CLARIFYING) (\<lambda>_.
       bindP (announce pid ''RESUMED'' username request_id [(''state'', JStr (proposal_value P_CLARIFYING))]) (\<lambda>_.
       bindP (get_proposal pid) (\<lambda>p.
       bindP (save_idempotency co username (operation_of ''resume'' pid) idempotency_key [] pid
                (co_proposal_dump co p)) (\<lambda>_. returnP p)))))))))"

text \<open>\<open>max(contexts, key=created_at)\<close>: the first of the latest.\<close>

primrec latest_context :: "compilation_context list \<Rightarrow> compilation_context option" where
  "latest_context [] = None"
| "latest_context (x # xs) = (case latest_context xs of
      None \<Rightarrow> Some x
    | Some y \<Rightarrow> Some (if ctx_created_at y > ctx_created_at x then y else x))"

definition frozen_contexts :: "string \<Rightarrow> ('z service_scheme, compilation_context list) prog" where
  "frozen_contexts pid =
     bindP (each_immutable ''compilation-contexts'' (\<lambda>d.
        if stored_proposal_id d = Some pid then bindP (liftE (as_context d)) (\<lambda>x. returnP [x])
        else returnP [])) (\<lambda>xs. returnP (concat xs))"

definition store_retried ::
  "('k, 'p, 'z service_scheme) collaborators \<Rightarrow> task \<Rightarrow> ('z service_scheme, unit) prog" where
  "store_retried co t =
     bindP (immutable_exists ''tasks'' (tsk_task_id t)) (\<lambda>exists.
     if exists then
       bindP (read_immutable ''tasks'' (tsk_task_id t)) (\<lambda>d.
       bindP (liftE (as_task d)) (\<lambda>existing.
       checkP (existing = t) (invalid_proposal ''retry changed deterministic Task bytes'')))
     else store_task co t)"

definition retry_compilation ::
  "('k, 'p, 'z service_scheme) collaborators \<Rightarrow> string \<Rightarrow> string \<Rightarrow> string \<Rightarrow> ('z service_scheme, task) prog" where
  "retry_compilation co pid actor request_id =
     bindP (get_record pid) (\<lambda>r.
     bindP (checkP (prp_state (rc_proposal r) = P_COMPILE_FAILED)
              (ProposalError ''proposal is not compile-failed'' ''INVALID_STATE'')) (\<lambda>_.
     bindP (frozen_contexts pid) (\<lambda>contexts.
     case latest_context contexts of
        None \<Rightarrow> raiseP (ProposalError ''frozen Compilation Context not found'' ''NOT_FOUND'')
      | Some context \<Rightarrow>
          bindP (lookupP (rc_revisions r) (ctx_revision_id context) ''revision'') (\<lambda>rv.
          bindP (lookupP (rc_facts r) (ctx_facts_id context) ''facts'') (\<lambda>facts.
          bindP (lookupP (rc_reviews r) (ctx_review_id context) ''review'') (\<lambda>rvw.
          bindP (liftE (compile_task (co_crypto co) (co_task_payload co) rv facts rvw context
                          (co_signing_key co))) (\<lambda>t.
          bindP (store_retried co t) (\<lambda>_.
          bindP (updateP (alter pid (\<lambda>r. r\<lparr>rc_task := Some t\<rparr>))) (\<lambda>_.
          bindP (move_to pid P_COMPILED) (\<lambda>_.
          bindP (announce pid ''COMPILATION_RETRIED'' actor request_id [(''task_id'', JStr (tsk_task_id t))]) (\<lambda>_.
          returnP t)))))))))))"

definition cancel_proposal :: "string \<Rightarrow> string \<Rightarrow> string \<Rightarrow> ('z service_scheme, proposal) prog" where
  "cancel_proposal pid username request_id =
     bindP (check_user username) (\<lambda>_.
     bindP (get_record pid) (\<lambda>r.
     bindP (check_owner (rc_proposal r) username) (\<lambda>_.
     bindP (checkP (prp_state (rc_proposal r) \<notin> terminal)
              (ProposalError ''proposal is terminal'' ''TERMINAL_STATE'')) (\<lambda>_.
     bindP (move_to pid P_CANCELLED) (\<lambda>_.
     bindP (announce pid ''CANCELLED'' username request_id []) (\<lambda>_.
     get_proposal pid))))))"

section \<open>Reading\<close>

definition get_revision :: "string \<Rightarrow> string \<Rightarrow> ('z service_scheme, revision) prog" where
  "get_revision pid revision_id =
     bindP (get_record pid) (\<lambda>r. lookupP (rc_revisions r) revision_id revision_id)"

definition get_proposal_task :: "string \<Rightarrow> ('z service_scheme, task option) prog" where
  "get_proposal_task pid = bindP (get_record pid) (\<lambda>r. returnP (rc_task r))"

definition get_reviews :: "string \<Rightarrow> ('z service_scheme, review list) prog" where
  "get_reviews pid =
     bindP (get_record pid) (\<lambda>r. returnP (sort_key rvw_created_at (dvalues (rc_reviews r))))"

definition get_current_facts :: "string \<Rightarrow> ('z service_scheme, facts option) prog" where
  "get_current_facts pid =
     bindP (get_record pid) (\<lambda>r. returnP (case prp_current_facts_id (rc_proposal r) of
        None \<Rightarrow> None
      | Some i \<Rightarrow> if i = [] then None else map_of (rc_facts r) i))"

definition list_proposals :: "('z service_scheme, proposal list) prog" where
  "list_proposals = readP (\<lambda>s.
     sort_key (\<lambda>p. (prp_created_at p, prp_proposal_id p)) (map rc_proposal (dvalues (sv_records s))))"

definition list_reviews :: "('z service_scheme, review list) prog" where
  "list_reviews = readP (\<lambda>s. sort_key (\<lambda>v. (rvw_created_at v, rvw_review_id v))
     (concat (map (\<lambda>r. dvalues (rc_reviews r)) (dvalues (sv_records s)))))"

definition list_tasks :: "('z service_scheme, task list) prog" where
  "list_tasks = readP (\<lambda>s. sort_key tsk_task_id
     (List.map_filter rc_task (dvalues (sv_records s))))"

section \<open>Start\<close>

text \<open>The latest state of each proposal: the snapshot, unless a state file is as late or later.\<close>

definition latest_states :: "proposal list \<Rightarrow> proposal list \<Rightarrow> (string, proposal) dict" where
  "latest_states from_snapshots from_states =
     fold (\<lambda>p d. case map_of d (prp_proposal_id p) of
         None \<Rightarrow> AList.update (prp_proposal_id p) p d
       | Some prior \<Rightarrow>
           if prp_updated_at p \<ge> prp_updated_at prior then AList.update (prp_proposal_id p) p d else d)
       from_states (fold (\<lambda>p d. AList.update (prp_proposal_id p) p d) from_snapshots [])"

definition empty_record :: "proposal \<Rightarrow> prop_record" where
  "empty_record p = \<lparr>rc_proposal = p, rc_revisions = [], rc_facts = [], rc_reviews = [], rc_task = None\<rparr>"

definition add_facts :: "facts list \<Rightarrow> prop_record \<Rightarrow> prop_record" where
  "add_facts all r =
     (let by_revision = fold (\<lambda>f d. AList.update (fct_revision_id f) f d) all []
      in fold (\<lambda>i r. case map_of by_revision i of
           None \<Rightarrow> r
         | Some f \<Rightarrow> r\<lparr>rc_facts := AList.update (fct_facts_id f) f (rc_facts r)\<rparr>) (map fst (rc_revisions r)) r)"

text \<open>The tables from the models read, and the whole start of the service.\<close>

definition build_records ::
  "(string, proposal) dict \<Rightarrow> revision list \<Rightarrow> facts list \<Rightarrow> review list \<Rightarrow> task list
     \<Rightarrow> (string, prop_record) dict" where
  "build_records latest revisions facts reviews tasks =
     (let r0 = map (\<lambda>(pid, p). (pid, empty_record p)) latest;
          r1 = fold (\<lambda>v d. AList.map_entry (rev_proposal_id v)
                 (\<lambda>r. r\<lparr>rc_revisions := AList.update (rev_revision_id v) v (rc_revisions r)\<rparr>) d) revisions r0;
          r2 = map (\<lambda>(pid, r). (pid, add_facts facts r)) r1;
          r3 = fold (\<lambda>v d. AList.map_entry (rvw_proposal_id v)
                 (\<lambda>r. r\<lparr>rc_reviews := AList.update (rvw_review_id v) v (rc_reviews r)\<rparr>) d) reviews r2
      in fold (\<lambda>t d. AList.map_entry (tsk_proposal_id t) (\<lambda>r. r\<lparr>rc_task := Some t\<rparr>) d) tasks r3)"

definition load_service :: "('z service_scheme, unit) prog" where
  "load_service =
     bindP validate_all_events (\<lambda>_.
     bindP (each_snapshot ''proposals'' (\<lambda>d. liftE (as_proposal d))) (\<lambda>snaps.
     bindP (read_models ''proposal-states'' as_proposal) (\<lambda>states.
     bindP (read_models ''revisions'' as_revision) (\<lambda>revisions.
     bindP (read_models ''facts'' as_facts) (\<lambda>facts.
     bindP (read_models ''reviews'' as_review) (\<lambda>reviews.
     bindP (read_models ''tasks'' as_task) (\<lambda>tasks.
     bindP (read_models ''idempotency'' as_idempotency) (\<lambda>items.
     updateP (\<lambda>s. s\<lparr>sv_records := build_records (latest_states snaps states) revisions facts reviews tasks,
        sv_idempotency := fold (\<lambda>i d. AList.update (idm_username i, idm_operation i, idm_key i) i d)
          items (sv_idempotency s)\<rparr>)))))))))"

text \<open>\<open>__init__\<close>: the given configuration, empty tables, and the load.\<close>

definition start_service ::
  "string set \<Rightarrow> int \<Rightarrow> string list \<Rightarrow> string \<Rightarrow> string \<Rightarrow> ('z service_scheme, unit) prog" where
  "start_service allowed_users max_workers allowed_worker_ids policy_version key_id =
     bindP (updateP (\<lambda>s. s\<lparr>sv_key_id := key_id,
        sv_allowed_users := (if allowed_users = {} then {''zz_chentian''} else allowed_users),
        sv_max_workers := max_workers, sv_allowed_worker_ids := allowed_worker_ids,
        sv_policy_version := policy_version, sv_records := [], sv_idempotency := []\<rparr>)) (\<lambda>_.
     load_service)"

end
