(* ===== verification/Proposal_Rules.thy ===== *)
theory Proposal_Rules
  imports Proposal_Service
begin

text \<open>
  The abstract workflow of one proposal, as a step relation on its record, and the proof that
  every operation of the proposal service refines it. What holds for every path of the workflow
  then holds for the service: the limits on rounds and reviews, that a task needs an approved
  review of a confirmed revision, that a task never changes.
\<close>

section \<open>The workflow of a proposal\<close>

text \<open>Facts of the kind \<open>validate_facts\<close> lets through for a proposal.\<close>

definition admissible :: "proposal \<Rightarrow> facts \<Rightarrow> bool" where
  "admissible p f \<longleftrightarrow> facts_error p f = None"

definition set_state :: "proposal_state \<Rightarrow> int \<Rightarrow> prop_record \<Rightarrow> prop_record" where
  "set_state st now r = r\<lparr>rc_proposal := (rc_proposal r)\<lparr>prp_state := st, prp_updated_at := now\<rparr>\<rparr>"

abbreviation state_of :: "prop_record \<Rightarrow> proposal_state" where
  "state_of r \<equiv> prp_state (rc_proposal r)"

definition with_revision :: "revision \<Rightarrow> prop_record \<Rightarrow> prop_record" where
  "with_revision rv r = r\<lparr>rc_revisions := AList.update (rev_revision_id rv) rv (rc_revisions r)\<rparr>"

definition with_facts :: "facts \<Rightarrow> prop_record \<Rightarrow> prop_record" where
  "with_facts f r = r\<lparr>rc_facts := AList.update (fct_facts_id f) f (rc_facts r)\<rparr>"

definition with_review :: "review \<Rightarrow> prop_record \<Rightarrow> prop_record" where
  "with_review v r = r\<lparr>rc_reviews := AList.update (rvw_review_id v) v (rc_reviews r)\<rparr>"

text \<open>A task for the record: compiled from an approved review, with facts and a revision it holds.\<close>

definition compiles ::
  "('k, 'p, 's) collaborators \<Rightarrow> prop_record \<Rightarrow> task \<Rightarrow> bool" where
  "compiles co r t \<longleftrightarrow> (\<exists>rv f v x. rv \<in> set (dvalues (rc_revisions r)) \<and> f \<in> set (dvalues (rc_facts r)) \<and>
     v \<in> set (dvalues (rc_reviews r)) \<and>
     compile_task (co_crypto co) (co_task_payload co) rv f v x (co_signing_key co) = Inr t)"

inductive wstep ::
  "('k, 'p, 's) collaborators \<Rightarrow> string \<Rightarrow> prop_record option \<Rightarrow> prop_record option \<Rightarrow> bool"
  for co pid where
  creation: "prp_proposal_id p = pid \<Longrightarrow> prp_state p = P_CLARIFYING \<Longrightarrow> prp_processor_rounds p = 1 \<Longrightarrow>
     prp_review_count p = 0 \<Longrightarrow> prp_current_facts_id p = None \<Longrightarrow>
     wstep co pid None (Some (with_revision rv (empty_record p)))"
| refusal: "state_of r = P_CLARIFYING \<Longrightarrow> rc_facts r = [] \<Longrightarrow> wstep co pid (Some r) None"
| facts: "state_of r \<notin> terminal \<Longrightarrow> admissible (rc_proposal r) f \<Longrightarrow>
     wstep co pid (Some r) (Some (with_facts f r))"
| revision: "state_of r \<notin> terminal \<Longrightarrow> rev_number rv = prp_processor_rounds (rc_proposal r) + 1 \<Longrightarrow>
     rev_number rv \<le> 8 \<Longrightarrow> wstep co pid (Some r) (Some (with_revision rv r))"
| awaiting: "state_of r \<notin> terminal \<Longrightarrow> map_of (rc_revisions r) i = Some rv \<Longrightarrow>
     map_of (rc_facts r) j = Some f \<Longrightarrow> n = rev_number rv \<Longrightarrow>
     n \<in> {prp_processor_rounds (rc_proposal r), prp_processor_rounds (rc_proposal r) + 1} \<Longrightarrow> n \<le> 8 \<Longrightarrow>
     wstep co pid (Some r) (Some (r\<lparr>rc_proposal := (rc_proposal r)\<lparr>prp_state := P_AWAITING_CONFIRMATION,
       prp_current_revision_id := Some i, prp_current_facts_id := Some j, prp_processor_rounds := n,
       prp_updated_at := now, prp_submitter_deadline := d\<rparr>\<rparr>))"
| review_begun: "state_of r = P_AWAITING_CONFIRMATION \<Longrightarrow> n = prp_review_count (rc_proposal r) + 1 \<Longrightarrow> n \<le> 4 \<Longrightarrow>
     wstep co pid (Some r) (Some (r\<lparr>rc_proposal := (rc_proposal r)\<lparr>prp_state := P_IN_REVIEW,
       prp_review_count := n, prp_updated_at := now, prp_submitter_deadline := None\<rparr>\<rparr>))"
| reviewed: "state_of r = P_IN_REVIEW \<Longrightarrow> wstep co pid (Some r) (Some (with_review v r))"
| changes: "state_of r = P_IN_REVIEW \<Longrightarrow> v \<in> set (dvalues (rc_reviews r)) \<Longrightarrow>
     rvw_decision v = REQUEST_CHANGES \<Longrightarrow>
     wstep co pid (Some r) (Some (r\<lparr>rc_proposal := (rc_proposal r)\<lparr>prp_state := P_CHANGES_REQUESTED,
       prp_updated_at := now, prp_submitter_deadline := d\<rparr>\<rparr>))"
| rejection: "state_of r = P_IN_REVIEW \<Longrightarrow> v \<in> set (dvalues (rc_reviews r)) \<Longrightarrow> rvw_decision v = REJECT \<Longrightarrow>
     wstep co pid (Some r) (Some (set_state P_REJECTED now r))"
| approval: "state_of r = P_IN_REVIEW \<Longrightarrow> v \<in> set (dvalues (rc_reviews r)) \<Longrightarrow> rvw_decision v = APPROVE \<Longrightarrow>
     wstep co pid (Some r) (Some (set_state P_COMPILING now r))"
| compile_failure: "state_of r = P_COMPILING \<Longrightarrow> wstep co pid (Some r) (Some (set_state P_COMPILE_FAILED now r))"
| compilation: "state_of r \<in> {P_COMPILING, P_COMPILE_FAILED} \<Longrightarrow> compiles co r t \<Longrightarrow>
     wstep co pid (Some r) (Some (set_state P_COMPILED now (r\<lparr>rc_task := Some t\<rparr>)))"
| failure: "state_of r \<notin> terminal \<Longrightarrow> wstep co pid (Some r) (Some (set_state P_PROCESSING_ERROR now r))"
| resumption: "state_of r = P_PROCESSING_ERROR \<Longrightarrow> wstep co pid (Some r) (Some (set_state P_CLARIFYING now r))"
| cancellation: "state_of r \<notin> terminal \<Longrightarrow> wstep co pid (Some r) (Some (set_state P_CANCELLED now r))"
| expiry: "wstep co pid (Some r) (Some (set_state P_EXPIRED now r))"

text \<open>The record of a proposal, and the workflow seen by the service.\<close>

definition record_of :: "'z service_scheme \<Rightarrow> string \<Rightarrow> prop_record option" where
  "record_of s pid = map_of (sv_records s) pid"

definition proposal_draw :: "'z world_scheme \<Rightarrow> nat \<Rightarrow> exn + string" where
  "proposal_draw s n = (case draws s n of (ms, ra, rb) \<Rightarrow> new_id ''prop'' ms ra rb)"

definition newcomer :: "'z service_scheme \<Rightarrow> 'z service_scheme \<Rightarrow> string \<Rightarrow> bool" where
  "newcomer s t pid \<longleftrightarrow> (\<exists>n. draw_no s \<le> n \<and> n < draw_no t \<and> proposal_draw s n = Inr pid)"

definition works :: "('k, 'p, 's) collaborators \<Rightarrow> 'z service_scheme \<Rightarrow> 'z service_scheme \<Rightarrow> bool" where
  "works co s t \<longleftrightarrow> (\<forall>pid. (wstep co pid)\<^sup>*\<^sup>* (record_of s pid) (record_of t pid)) \<and>
     draws t = draws s \<and> draw_no s \<le> draw_no t \<and>
     (\<forall>pid. record_of s pid = None \<longrightarrow> record_of t pid \<noteq> None \<longrightarrow> newcomer s t pid)"

section \<open>Operations that leave the records alone\<close>

definition same_records :: "'z service_scheme \<Rightarrow> 'z service_scheme \<Rightarrow> bool" where
  "same_records s t \<longleftrightarrow> sv_records t = sv_records s \<and> draws t = draws s \<and> draw_no s \<le> draw_no t"

text \<open>What the harness adapter, which holds no reference to the service, may do.\<close>

definition harness_obeys :: "('s \<Rightarrow> 's \<Rightarrow> bool) \<Rightarrow> ('k, 'p, 's) collaborators \<Rightarrow> bool" where
  "harness_obeys R co \<longleftrightarrow> (\<forall>rv. obeys R (co_process co rv)) \<and> (\<forall>rv f. obeys R (co_review co rv f))"

locale service_effect = world_effect R for R :: "'z service_scheme \<Rightarrow> 'z service_scheme \<Rightarrow> bool" +
  assumes R_idem: "R s (s\<lparr>sv_idempotency := i\<rparr>)"
    and R_exists: "R s (s\<lparr>sv_exists_no := n\<rparr>)"
begin

lemma eff_update: "(\<And>s. R s (f s)) \<Longrightarrow> obeys R (updateP f)"
  by (simp add: obeys_def)

lemma eff_get_record: "obeys R (get_record pid)"
  unfolding get_record_def by (intro eff_bind eff_read) (auto split: option.split intro: eff_raise eff_return)

lemma eff_persist_proposal: "obeys R (persist_proposal p)"
  unfolding persist_proposal_def by (intro eff_bind eff_store)

lemma eff_announce: "obeys R (announce pid et a rq pl)"
  unfolding announce_def by (intro eff_bind eff_store eff_return)

lemma eff_checks: "obeys R (check_user u)" "obeys R (check_owner p u)" "obeys R (validate_size m)"
  "obeys R (validate_review_ready m)"
  unfolding check_user_def check_owner_def validate_size_def validate_review_ready_def Let_def
  by (intro eff_bind eff_read eff_check)+

lemma eff_path_absent: "obeys R (path_absent x)"
  by (simp add: obeys_def path_absent_def R_exists)

lemma eff_validate_facts: "obeys R (validate_facts p f)"
  unfolding validate_facts_def
  by (auto split: option.split intro!: eff_raise eff_bind eff_all eff_check eff_path_absent)

lemma eff_idempotent_result: "obeys R (idempotent_result co u op k rq)"
  unfolding idempotent_result_def
  by (intro eff_bind eff_check eff_read) (auto split: option.split intro!: eff_return eff_bind eff_check)

lemma eff_save_idempotency: "obeys R (save_idempotency co u op k rq i rs)"
  unfolding save_idempotency_def Let_def
  by (intro eff_bind eff_check eff_update eff_when eff_store R_idem)

lemma eff_make_revision: "obeys R (make_revision p m n)"
  unfolding make_revision_def Let_def by (intro eff_bind eff_store eff_check eff_return)

lemma eff_confirm_error: "obeys R (confirm_error co pid u rid k m c x)"
  unfolding confirm_error_def by (intro eff_bind eff_save_idempotency eff_raise)

lemma eff_make_context: "obeys R (make_context pid rv f v)"
  unfolding make_context_def Let_def by (intro eff_bind eff_store eff_check eff_return eff_read)

lemma eff_store_task: "obeys R (store_task co t)"
  unfolding store_task_def by (intro eff_bind eff_store)

lemma eff_store_retried: "obeys R (store_retried co t)"
  unfolding store_retried_def
  by (intro eff_bind eff_store eff_if eff_lift eff_check eff_store_task)

lemma eff_frozen_contexts: "obeys R (frozen_contexts pid)"
  unfolding frozen_contexts_def
  by (intro eff_bind eff_each_immutable eff_if eff_lift eff_return)

lemma eff_lookup: "obeys R (lookupP d k m)"
  by (simp add: lookupP_def eff_raise eff_return split: option.split)

lemma eff_cached: "obeys R (cached_confirmation i r)"
  unfolding cached_confirmation_def
  by (auto split: json.split option.split intro!: eff_if eff_raise eff_return)

lemmas eff_service = eff_get_record eff_persist_proposal eff_announce eff_checks eff_validate_facts
  eff_idempotent_result eff_save_idempotency eff_make_revision eff_confirm_error eff_make_context
  eff_store_task eff_store_retried eff_frozen_contexts eff_lookup eff_cached eff_store

end

interpretation same_records: service_effect same_records
  by unfold_locales (auto simp: same_records_def append_line_def)

section \<open>Operations as workflow steps\<close>

lemma map_entry_twice: "AList.map_entry k f (AList.map_entry k g d) = AList.map_entry k (\<lambda>x. f (g x)) d"
  by (induction d) auto

interpretation works: effect "works co" for co
proof unfold_locales
  fix s t u :: "'z service_scheme"
  show "works co s s" by (auto simp: works_def)
  assume st: "works co s t" and tu: "works co t u"
  have eq: "proposal_draw t = proposal_draw s" using st by (simp add: works_def proposal_draw_def fun_eq_iff)
  have le: "draw_no s \<le> draw_no t" "draw_no t \<le> draw_no u" using st tu by (simp_all add: works_def)
  have "newcomer s u pid" if "record_of s pid = None" "record_of u pid \<noteq> None" for pid
  proof (cases "record_of t pid = None")
    case True
    then have "newcomer t u pid" using tu that(2) by (simp add: works_def)
    then show ?thesis using le eq unfolding newcomer_def by (metis order_trans)
  next
    case False
    then have "newcomer s t pid" using st that(1) by (simp add: works_def)
    then show ?thesis using le unfolding newcomer_def by (metis order_less_le_trans)
  qed
  moreover have "(wstep co pid)\<^sup>*\<^sup>* (record_of s pid) (record_of u pid)" for pid
    using st tu rtranclp_trans [of "wstep co pid" "record_of s pid" "record_of t pid" "record_of u pid"]
    by (simp add: works_def)
  moreover have "draws u = draws s" "draw_no s \<le> draw_no u" using st tu by (simp_all add: works_def)
  ultimately show "works co s u" by (simp add: works_def)
qed

lemma same_works: "same_records s t \<Longrightarrow> works co s t"
  by (auto simp: same_records_def works_def record_of_def)

text \<open>The state is at record \<open>r\<close> of proposal \<open>pid\<close>, reached from \<open>s0\<close> along the workflow.\<close>

definition on_record ::
  "('k, 'p, 's) collaborators \<Rightarrow> 'z service_scheme \<Rightarrow> string \<Rightarrow> prop_record \<Rightarrow> 'z service_scheme \<Rightarrow> bool" where
  "on_record co s0 pid r s \<longleftrightarrow> works co s0 s \<and> record_of s pid = Some r"

lemma triple_pure: "(A \<Longrightarrow> triple P m Q E) \<Longrightarrow> triple (\<lambda>s. A \<and> P s) m Q E"
  by (auto simp: triple_def)

lemma triple_ex: "(\<And>a. triple (P a) m Q E) \<Longrightarrow> triple (\<lambda>s. \<exists>a. P a s) m Q E"
  by (fastforce simp: triple_def)

lemma triple_works:
  assumes "obeys same_records m"
  shows "triple (works co s0) m (\<lambda>_. works co s0) (\<lambda>_. works co s0)"
proof (rule tripleI)
  fix s
  assume "works co s0 s"
  moreover obtain q t where m: "m s = (q, t)" by (rule prod.exhaust)
  moreover have "works co s t" using obeysD [OF assms m] same_works by blast
  ultimately have "works co s0 t" using works.effect_trans by blast
  then show "case m s of (Inl e, t) \<Rightarrow> works co s0 t | (Inr x, t) \<Rightarrow> works co s0 t"
    unfolding m by (simp split: sum.split)
qed

lemma triple_at:
  assumes "obeys same_records m"
  shows "triple (on_record co s0 pid r) m (\<lambda>_. on_record co s0 pid r) (\<lambda>_. works co s0)"
proof (rule tripleI)
  fix s
  assume a: "on_record co s0 pid r s"
  obtain q t where m: "m s = (q, t)" by (rule prod.exhaust)
  have st: "same_records s t" using obeysD [OF assms m] .
  then have "works co s0 t" using a same_works works.effect_trans unfolding on_record_def by blast
  moreover have "record_of t pid = Some r" using a st by (simp add: on_record_def same_records_def record_of_def)
  ultimately show "case m s of (Inl e, t) \<Rightarrow> works co s0 t | (Inr x, t) \<Rightarrow> on_record co s0 pid r t"
    unfolding m on_record_def by (auto split: sum.split)
qed

text \<open>Programs that only need to stay in the workflow from where they are.\<close>

lemma triple_bind_at:
  assumes "obeys same_records m" and "\<And>x. triple (on_record co s0 pid r) (k x) Q (\<lambda>_. works co s0)"
  shows "triple (on_record co s0 pid r) (bindP m k) Q (\<lambda>_. works co s0)"
  by (rule triple_bind [OF triple_at [OF assms(1)] assms(2)])

lemma triple_bind_works:
  assumes "obeys same_records m" and "\<And>x. triple (works co s0) (k x) Q (\<lambda>_. works co s0)"
  shows "triple (works co s0) (bindP m k) Q (\<lambda>_. works co s0)"
  by (rule triple_bind [OF triple_works [OF assms(1)] assms(2)])

lemma triple_end:
  assumes "obeys same_records m"
  shows "triple (on_record co s0 pid r) m (\<lambda>_. works co s0) (\<lambda>_. works co s0)"
  by (rule triple_conseq [OF triple_at [OF assms]]) (auto simp: on_record_def)

lemma triple_get:
  assumes "triple (on_record co s0 pid r) (k r) Q E"
  shows "triple (on_record co s0 pid r) (bindP (get_record pid) k) Q E"
  using assms by (auto simp: triple_def on_record_def get_record_def bindP_def record_of_def)

lemma triple_enter:
  assumes "\<And>r. triple (on_record co s0 pid r) (k r) Q (\<lambda>_. works co s0)"
  shows "triple (works co s0) (bindP (get_record pid) k) Q (\<lambda>_. works co s0)"
proof (rule tripleI)
  fix s
  assume w: "works co s0 s"
  show "case bindP (get_record pid) k s of (Inl e, t) \<Rightarrow> works co s0 t | (Inr x, t) \<Rightarrow> Q x t"
  proof (cases "record_of s pid")
    case None
    then show ?thesis using w by (simp add: get_record_def bindP_def record_of_def)
  next
    case (Some r)
    then have "on_record co s0 pid r s" using w by (simp add: on_record_def)
    then show ?thesis
      using assms [of r] Some by (simp add: triple_def get_record_def bindP_def record_of_def)
  qed
qed

lemma record_of_alter:
  "record_of (alter pid f s) i = (if i = pid then map_option f (record_of s i) else record_of s i)"
  by (simp add: record_of_def alter_def map_of_map_entry split: option.split)

lemma alter_works:
  assumes "record_of s pid = Some r" and "wstep co pid (Some r) (Some (f r))"
  shows "works co s (alter pid f s)"
  using assms by (auto simp: works_def record_of_alter, simp_all add: alter_def)

lemma triple_alter:
  assumes "wstep co pid (Some r) (Some (f r))" and "triple (on_record co s0 pid (f r)) (k ()) Q E"
  shows "triple (on_record co s0 pid r) (bindP (updateP (alter pid f)) k) Q E"
proof (rule triple_bind [OF triple_update])
  fix s
  assume a: "on_record co s0 pid r s"
  then have "works co s (alter pid f s)" using alter_works [of s pid r co f] assms(1) by (simp add: on_record_def)
  then show "on_record co s0 pid (f r) (alter pid f s)"
    using a works.effect_trans by (auto simp: on_record_def record_of_alter)
qed (use assms(2) in simp)

lemma triple_put:
  assumes "wstep co pid (Some r) (Some (r\<lparr>rc_proposal := p\<rparr>))"
    and "triple (on_record co s0 pid (r\<lparr>rc_proposal := p\<rparr>)) (k ()) Q (\<lambda>_. works co s0)"
  shows "triple (on_record co s0 pid r) (bindP (put_proposal pid p) k) Q (\<lambda>_. works co s0)"
  unfolding put_proposal_def bindP_assoc
  by (rule triple_alter [where f = "\<lambda>r. r\<lparr>rc_proposal := p\<rparr>"], rule assms(1),
      rule triple_bind_at [OF same_records.eff_persist_proposal]) (use assms(2) in simp)

lemma triple_move:
  assumes "\<And>now. wstep co pid (Some r) (Some (set_state st now r))"
    and "\<And>now. triple (on_record co s0 pid (set_state st now r)) (k ()) Q (\<lambda>_. works co s0)"
  shows "triple (on_record co s0 pid r) (bindP (move_to pid st) k) Q (\<lambda>_. works co s0)"
  unfolding move_to_def bindP_assoc
  by (rule triple_get, rule triple_bind_at [OF same_records.eff_utc_now], rule triple_put)
     (use assms in \<open>simp_all add: set_state_def\<close>)

lemma triple_check:
  assumes "b \<Longrightarrow> triple (on_record co s0 pid r) (k ()) Q (\<lambda>_. works co s0)"
  shows "triple (on_record co s0 pid r) (bindP (checkP b e) k) Q (\<lambda>_. works co s0)"
  using assms by (cases b) (auto simp: triple_def bindP_def checkP_def on_record_def)

lemma triple_lookup:
  assumes "\<And>v. map_of d i = Some v \<Longrightarrow> triple (on_record co s0 pid r) (k v) Q (\<lambda>_. works co s0)"
  shows "triple (on_record co s0 pid r) (bindP (lookupP d i m) k) Q (\<lambda>_. works co s0)"
  using assms by (cases "map_of d i") (auto simp: triple_def bindP_def lookupP_def on_record_def)

lemma triple_lift:
  assumes "\<And>v. x = Inr v \<Longrightarrow> triple (on_record co s0 pid r) (k v) Q (\<lambda>_. works co s0)"
  shows "triple (on_record co s0 pid r) (bindP (liftE x) k) Q (\<lambda>_. works co s0)"
  using assms by (cases x) (auto simp: triple_def bindP_def liftE_def on_record_def)

lemma obeys_works:
  assumes "\<And>s0. triple (works co s0) m (\<lambda>_. works co s0) (\<lambda>_. works co s0)"
  shows "obeys (works co) m"
proof (rule obeysI)
  fix s
  obtain q t where "m s = (q, t)" by (rule prod.exhaust)
  then show "works co s (snd (m s))"
    using triple_Inl [OF assms works.effect_refl, of s] triple_Inr [OF assms works.effect_refl, of s]
    by (cases q) auto
qed

lemmas same_eff = same_records.eff_service same_records.eff_store

text \<open>At a record that holds the task a call returns.\<close>

definition owns ::
  "('k, 'p, 's) collaborators \<Rightarrow> 'z service_scheme \<Rightarrow> string \<Rightarrow> task \<Rightarrow> 'z service_scheme \<Rightarrow> bool" where
  "owns co s0 pid t s \<longleftrightarrow> works co s0 s \<and> (\<exists>r. record_of s pid = Some r \<and> rc_task r = Some t)"

lemma triple_own:
  "rc_task r = Some t \<Longrightarrow> triple (on_record co s0 pid r) (returnP t) (owns co s0 pid) E"
  by (simp add: triple_def on_record_def owns_def)

lemma triple_owns: "triple P m (owns co s0 pid) E \<Longrightarrow> triple P m (\<lambda>_. works co s0) E"
  by (erule triple_conseq) (simp_all add: owns_def)

lemma triple_exit: "triple (on_record co s0 pid r) (returnP x) (\<lambda>_. works co s0) E"
  by (simp add: triple_def on_record_def)

lemma resume_triple:
  "triple (works co s0) (resume_proposal co pid u k rq) (\<lambda>_. works co s0) (\<lambda>_. works co s0)"
  unfolding resume_proposal_def get_proposal_def bindP_assoc
  by (intro triple_bind_works [OF same_eff(4)] triple_enter triple_bind_at same_eff triple_if
        triple_check triple_move triple_get triple_end)
     (auto simp: set_state_def intro: wstep.resumption [unfolded set_state_def])

lemma cancel_triple:
  "triple (works co s0) (cancel_proposal pid u rq) (\<lambda>_. works co s0) (\<lambda>_. works co s0)"
  unfolding cancel_proposal_def get_proposal_def
  by (intro triple_bind_works [OF same_eff(4)] triple_enter triple_bind_at same_eff
        triple_check triple_move triple_get triple_exit wstep.cancellation)

text \<open>A compiled task and the final state are entered together.\<close>

lemma triple_compiled:
  fixes s0 :: "'z service_scheme"
  assumes "state_of r \<in> {P_COMPILING, P_COMPILE_FAILED}" and "compiles co r t"
    and "\<And>r x. rc_task r = Some t \<Longrightarrow> triple (on_record co s0 pid r) (k x) Q (\<lambda>_. works co s0)"
  shows "triple (on_record co s0 pid r)
    (bindP (updateP (alter pid (\<lambda>r. r\<lparr>rc_task := Some t\<rparr>))) (\<lambda>_. bindP (move_to pid P_COMPILED) k))
    Q (\<lambda>_. works co s0)"
proof (rule tripleI)
  fix s
  assume a: "on_record co s0 pid r s"
  let ?f = "\<lambda>r. r\<lparr>rc_task := Some t\<rparr>" and ?now = "clock s (clock_no s)"
  let ?g = "set_state P_COMPILED ?now"
  let ?s1 = "alter pid ?f s"
  have r1: "map_of (sv_records ?s1) pid = Some (?f r)"
    using a record_of_alter [of pid ?f s pid] by (simp add: on_record_def record_of_def)
  have m: "bindP (updateP (alter pid ?f)) (\<lambda>_. bindP (move_to pid P_COMPILED) k) s =
      bindP (persist_proposal (rc_proposal (?g (?f r)))) k
        (alter pid (\<lambda>r'. r'\<lparr>rc_proposal := rc_proposal (?g (?f r))\<rparr>) (?s1\<lparr>clock_no := Suc (clock_no s)\<rparr>))"
    using r1
    by (simp add: bindP_def move_to_def get_record_def utc_now_def put_proposal_def set_state_def alter_def)
  have both: "alter pid (\<lambda>r'. r'\<lparr>rc_proposal := rc_proposal (?g (?f r))\<rparr>) (?s1\<lparr>clock_no := Suc (clock_no s)\<rparr>)
      = (alter pid (\<lambda>r'. (?f r')\<lparr>rc_proposal := rc_proposal (?g (?f r))\<rparr>) s)\<lparr>clock_no := Suc (clock_no s)\<rparr>"
    by (simp add: alter_def map_entry_twice)
  have h2: "works co s (alter pid (\<lambda>r'. (?f r')\<lparr>rc_proposal := rc_proposal (?g (?f r))\<rparr>) s)"
    using a wstep.compilation [OF assms(1,2), of pid ?now]
    by (intro alter_works) (simp_all add: on_record_def set_state_def)
  have h3: "works co x (x\<lparr>clock_no := n\<rparr>)" for x :: "'z service_scheme" and n
    by (intro same_works) (simp add: same_records_def)
  have h1: "works co s0 s" using a by (simp add: on_record_def)
  note w = works.effect_trans [OF works.effect_trans [OF h1 h2] h3]
  have on: "on_record co s0 pid (?g (?f r))
      ((alter pid (\<lambda>r'. (?f r')\<lparr>rc_proposal := rc_proposal (?g (?f r))\<rparr>) s)\<lparr>clock_no := Suc (clock_no s)\<rparr>)"
    using a w [of "Suc (clock_no s)"] record_of_alter [of pid "\<lambda>r'. (?f r')\<lparr>rc_proposal := rc_proposal (?g (?f r))\<rparr>" s pid]
    unfolding on_record_def by (simp add: record_of_def set_state_def)
  have then_k: "triple (on_record co s0 pid (?g (?f r))) (bindP (persist_proposal (rc_proposal (?g (?f r)))) k)
      Q (\<lambda>_. works co s0)"
    by (rule triple_bind_at [OF same_records.eff_persist_proposal assms(3)]) (simp add: set_state_def)
  show "case bindP (updateP (alter pid ?f)) (\<lambda>_. bindP (move_to pid P_COMPILED) k) s of
      (Inl e, t) \<Rightarrow> works co s0 t | (Inr x, t) \<Rightarrow> Q x t"
    unfolding m both by (rule then_k [unfolded triple_def, rule_format, OF on])
qed

lemma compilesI:
  assumes "map_of (rc_revisions r) i = Some rv" and "map_of (rc_facts r) j = Some f"
    and "map_of (rc_reviews r) n = Some v"
    and "compile_task (co_crypto co) (co_task_payload co) rv f v x (co_signing_key co) = Inr t"
  shows "compiles co r t"
  using assms unfolding compiles_def dvalues_def by (force dest: map_of_SomeD)

lemma retry_triple:
  "triple (works co s0) (retry_compilation co pid a rq) (owns co s0 pid) (\<lambda>_. works co s0)"
  unfolding retry_compilation_def
proof (rule triple_enter, rule triple_check, rule triple_bind_at [OF same_records.eff_frozen_contexts])
  fix r :: prop_record and xs
  assume st: "prp_state (rc_proposal r) = P_COMPILE_FAILED"
  show "triple (on_record co s0 pid r) (case latest_context xs of
        None \<Rightarrow> raiseP (ProposalError ''frozen Compilation Context not found'' ''NOT_FOUND'')
      | Some context \<Rightarrow>
          bindP (lookupP (rc_revisions r) (ctx_revision_id context) ''revision'') (\<lambda>rv.
          bindP (lookupP (rc_facts r) (ctx_facts_id context) ''facts'') (\<lambda>facts.
          bindP (lookupP (rc_reviews r) (ctx_review_id context) ''review'') (\<lambda>rvw.
          bindP (liftE (compile_task (co_crypto co) (co_task_payload co) rv facts rvw context
                          (co_signing_key co))) (\<lambda>t.
          bindP (store_retried co t) (\<lambda>_.
          bindP (updateP (alter pid (\<lambda>r. r\<lparr>rc_task := Some t\<rparr>))) (\<lambda>_.
          bindP (move_to pid P_COMPILED) (\<lambda>_.
          bindP (announce pid ''COMPILATION_RETRIED'' a rq [(''task_id'', JStr (tsk_task_id t))]) (\<lambda>_.
          returnP t))))))))) (owns co s0 pid) (\<lambda>_. works co s0)"
  proof (cases "latest_context xs")
    case None
    then show ?thesis by (simp add: triple_def on_record_def)
  next
    case (Some x)
    show ?thesis
      unfolding Some option.case
    proof (rule triple_lookup, rule triple_lookup, rule triple_lookup, rule triple_lift)
      fix rv f v t
      assume "map_of (rc_revisions r) (ctx_revision_id x) = Some rv"
        and "map_of (rc_facts r) (ctx_facts_id x) = Some f"
        and "map_of (rc_reviews r) (ctx_review_id x) = Some v"
        and "compile_task (co_crypto co) (co_task_payload co) rv f v x (co_signing_key co) = Inr t"
      then have "compiles co r t" by (rule compilesI)
      then show "triple (on_record co s0 pid r) (bindP (store_retried co t) (\<lambda>_.
          bindP (updateP (alter pid (\<lambda>r. r\<lparr>rc_task := Some t\<rparr>))) (\<lambda>_.
          bindP (move_to pid P_COMPILED) (\<lambda>_.
          bindP (announce pid ''COMPILATION_RETRIED'' a rq [(''task_id'', JStr (tsk_task_id t))]) (\<lambda>_.
          returnP t))))) (owns co s0 pid) (\<lambda>_. works co s0)"
        by (intro triple_bind_at [OF same_records.eff_store_retried] triple_compiled
            triple_bind_at [OF same_records.eff_announce] triple_own) (simp_all add: st)
    qed
  qed
qed

text \<open>Handlers that end with an exception, and what may fail before them.\<close>

lemma triple_throw: "triple (on_record co s0 pid r) (raiseP e) Q (\<lambda>_. works co s0)"
  by (simp add: triple_def on_record_def)

lemma triple_confirm_error:
  "triple (on_record co s0 pid r) (confirm_error co' i u rid k m c x) Q (\<lambda>_. works co s0)"
  unfolding confirm_error_def by (intro triple_bind_at [OF same_records.eff_save_idempotency] triple_throw)

lemma triple_catch_at:
  assumes "obeys same_records m"
    and "\<And>e. triple (on_record co s0 pid r) (h e) (\<lambda>_ _. False) (\<lambda>_. works co s0)"
    and "\<And>x. triple (on_record co s0 pid r) (k x) Q (\<lambda>_. works co s0)"
  shows "triple (on_record co s0 pid r) (bindP (catchP m c h) k) Q (\<lambda>_. works co s0)"
proof (rule triple_bind [OF _ assms(3)])
  have "triple (on_record co s0 pid r) m (\<lambda>_. on_record co s0 pid r) (\<lambda>_. on_record co s0 pid r)"
  proof (rule tripleI)
    fix s
    assume a: "on_record co s0 pid r s"
    obtain q t where m: "m s = (q, t)" by (rule prod.exhaust)
    have "same_records s t" using obeysD [OF assms(1) m] .
    then have "record_of t pid = Some r" using a by (simp add: on_record_def same_records_def record_of_def)
    moreover have "works co s0 t"
      using a works.effect_trans [of co s0 s t] same_works [OF \<open>same_records s t\<close>, of co] by (simp add: on_record_def)
    ultimately show "case m s of (Inl e, t) \<Rightarrow> on_record co s0 pid r t | (Inr x, t) \<Rightarrow> on_record co s0 pid r t"
      unfolding m on_record_def by (simp split: sum.split)
  qed
  then show "triple (on_record co s0 pid r) (catchP m c h) (\<lambda>_. on_record co s0 pid r) (\<lambda>_. works co s0)"
    by (rule triple_catch) (rule triple_conseq [OF assms(2)], auto simp: on_record_def)
qed

lemma triple_harness_failed:
  assumes "state_of r \<notin> terminal"
    and "\<And>r. triple (on_record co s0 pid r) (k ()) Q (\<lambda>_. works co s0)"
  shows "triple (on_record co s0 pid r) (bindP (harness_failed pid a rq e) k) Q (\<lambda>_. works co s0)"
  unfolding harness_failed_def bindP_assoc
proof (rule triple_move)
  show "wstep co pid (Some r) (Some (set_state P_PROCESSING_ERROR now r))" for now
    using assms(1) by (rule wstep.failure)
  show "triple (on_record co s0 pid (set_state P_PROCESSING_ERROR now r))
      (bindP (announce pid ''PROCESSING_ERROR'' a rq [(''error'', JStr (exn_message e))]) k) Q (\<lambda>_. works co s0)" for now
    by (rule triple_bind_at [OF same_records.eff_announce]) (use assms(2) in simp)
qed

lemma triple_validate:
  assumes "admissible p f \<Longrightarrow> triple (on_record co s0 pid r) (k ()) Q (\<lambda>_. works co s0)"
  shows "triple (on_record co s0 pid r) (bindP (validate_facts p f) k) Q (\<lambda>_. works co s0)"
proof (cases "facts_error p f")
  case None
  then have "triple (on_record co s0 pid r) (k ()) Q (\<lambda>_. works co s0)"
    using assms by (simp add: admissible_def)
  then show ?thesis by (intro triple_bind_at [OF same_records.eff_validate_facts]) simp
next
  case (Some m)
  then show ?thesis by (simp add: validate_facts_def bindP_def triple_def on_record_def)
qed

lemma triple_make_revision:
  assumes "\<And>rv. rev_number rv = n \<Longrightarrow> rev_proposal_id rv = prp_proposal_id p \<Longrightarrow>
    triple (on_record co s0 pid r) (k rv) Q (\<lambda>_. works co s0)"
  shows "triple (on_record co s0 pid r) (bindP (make_revision p m n) k) Q (\<lambda>_. works co s0)"
proof (rule tripleI)
  fix s
  assume a: "on_record co s0 pid r s"
  obtain q t where m: "make_revision p m n s = (q, t)" by (rule prod.exhaust)
  note w = triple_at [OF same_records.eff_make_revision, of co s0 pid r p m n]
  show "case bindP (make_revision p m n) k s of (Inl e, t) \<Rightarrow> works co s0 t | (Inr x, t) \<Rightarrow> Q x t"
  proof (cases q)
    case (Inl e)
    then show ?thesis using triple_Inl [OF w a] m by (simp add: bindP_def)
  next
    case (Inr rv)
    then have "rev_number rv = n" "rev_proposal_id rv = prp_proposal_id p"
      using m by (auto simp: make_revision_def bindP_def checkP_def Let_def split: prod.splits sum.splits if_splits)
    from assms [OF this] show ?thesis
      using triple_Inr [OF w a] m Inr by (simp add: bindP_def triple_def)
  qed
qed

lemma triple_alter_star:
  assumes "(wstep co pid)\<^sup>*\<^sup>* (Some r) (Some (f r))" and "triple (on_record co s0 pid (f r)) (k ()) Q E"
  shows "triple (on_record co s0 pid r) (bindP (updateP (alter pid f)) k) Q E"
proof (rule triple_bind [OF triple_update])
  fix s
  assume a: "on_record co s0 pid r s"
  have "works co s (alter pid f s)"
    using a assms(1) by (auto simp: works_def record_of_alter on_record_def, simp_all add: alter_def)
  then have "works co s0 (alter pid f s)"
    using a works.effect_trans [of co s0 s] by (simp add: on_record_def)
  then show "on_record co s0 pid (f r) (alter pid f s)"
    using a by (simp add: on_record_def record_of_alter)
qed (use assms(2) in simp)

lemma reply_revision_triple:
  assumes "harness_obeys same_records co"
  shows "triple (works co s0) (reply_revision co pid u m k rq) (\<lambda>_. works co s0) (\<lambda>_. works co s0)"
  unfolding reply_revision_def Let_def
proof (rule triple_enter, rule triple_check, rule triple_check, rule triple_make_revision,
    rule triple_catch_at, goal_cases)
  case (1 r rv)
  then show ?case using assms by (simp add: harness_obeys_def)
next
  case (2 r rv e)
  then show ?case by (intro triple_harness_failed triple_throw)
next
  case (3 r rv f)
  let ?n = "prp_processor_rounds (rc_proposal r) + 1"
  let ?h = "\<lambda>r. r\<lparr>rc_revisions := AList.update (rev_revision_id rv) rv (rc_revisions r),
                 rc_facts := AList.update (fct_facts_id f) f (rc_facts r)\<rparr>"
  have two: "(wstep co pid)\<^sup>*\<^sup>* (Some r) (Some (?h r))" if "admissible (rc_proposal r) f"
  proof -
    have "wstep co pid (Some r) (Some (with_revision rv r))"
      using 3 by (intro wstep.revision) simp_all
    moreover have "wstep co pid (Some (with_revision rv r)) (Some (with_facts f (with_revision rv r)))"
      using 3 that by (intro wstep.facts) (simp_all add: with_revision_def)
    moreover have "with_facts f (with_revision rv r) = ?h r" by (simp add: with_facts_def with_revision_def)
    ultimately show ?thesis by (metis converse_rtranclp_into_rtranclp rtranclp.rtrancl_refl)
  qed
  show ?case
  proof (rule triple_get, rule triple_validate, rule triple_bind_at [OF same_records.eff_write_immutable],
      rule triple_bind_at [OF same_records.eff_write_immutable], rule triple_alter_star, rule two,
      assumption, rule triple_get, rule triple_bind_at [OF same_records.eff_utc_now],
      rule triple_bind_at [OF same_records.eff_utc_now], rule triple_put, goal_cases)
    case (1 a b t1 t2)
    then show ?case using 3 by (intro wstep.awaiting [where rv = rv and f = f]) (simp_all add: dupdate_lookup)
  next
    case (2 a b t1 t2)
    then show ?case
      by (intro triple_bind_at [OF same_records.eff_announce]
          triple_bind_at [OF same_records.eff_save_idempotency] triple_exit)
  qed
qed

lemma triple_weaken: "triple (works co s0) m Q E \<Longrightarrow> triple (on_record co s0 pid r) m Q E"
  by (auto simp: triple_def on_record_def)

lemma triple_lifetime_at:
  assumes "triple (on_record co s0 pid r) (k ()) Q (\<lambda>_. works co s0)"
  shows "triple (on_record co s0 pid r) (bindP (check_lifetime pid rq) k) Q (\<lambda>_. works co s0)"
  unfolding check_lifetime_def bindP_assoc
proof (rule triple_get, rule triple_bind_at [OF same_records.eff_utc_now], goal_cases)
  case (1 now)
  show ?case
  proof (cases "expired now (rc_proposal r)")
    case False
    then show ?thesis using assms by (simp add: whenP_def bindP_def)
  next
    case True
    have "wstep co pid (Some r) (Some (r\<lparr>rc_proposal := (rc_proposal r)\<lparr>prp_state := P_EXPIRED, prp_updated_at := now\<rparr>\<rparr>))"
      using wstep.expiry [of co pid r now] by (simp add: set_state_def)
    then show ?thesis
      using True
      by (simp add: whenP_def bindP_assoc)
         (intro triple_put triple_bind_at [OF same_records.eff_announce], auto simp: bindP_def triple_def on_record_def)
  qed
qed

lemma triple_lifetime:
  "triple (works co s0) (k ()) Q (\<lambda>_. works co s0) \<Longrightarrow>
   triple (on_record co s0 pid r) (bindP (check_lifetime pid rq) k) Q (\<lambda>_. works co s0)"
  by (rule triple_lifetime_at [OF triple_weaken])

lemma get_proposal_same: "obeys same_records (get_proposal pid)"
  unfolding get_proposal_def by (intro same_records.eff_bind same_records.eff_get_record same_records.eff_return)

lemma reply_triple:
  assumes "harness_obeys same_records co"
  shows "triple (works co s0) (reply co pid u m k rq) (\<lambda>_. works co s0) (\<lambda>_. works co s0)"
  unfolding reply_def
  by (intro triple_bind_works [OF same_records.eff_checks(1)] triple_bind_works [OF same_records.eff_checks(3)]
      triple_enter triple_bind_at [OF same_records.eff_checks(2)] triple_lifetime
      triple_bind_works [OF same_records.eff_idempotent_result] triple_if
      reply_revision_triple [OF assms] triple_works [OF get_proposal_same])

lemma compile_failed_triple:
  assumes "state_of r = P_COMPILING"
  shows "triple (on_record co s0 pid r) (compile_failed co' pid u rid k rq e) Q (\<lambda>_. works co s0)"
  unfolding compile_failed_def
  by (intro triple_move triple_bind_at [OF same_records.eff_announce] triple_confirm_error
      wstep.compile_failure assms)

lemma compiled_triple:
  assumes "state_of r = P_COMPILING" and "compiles co r t"
  shows "triple (on_record co s0 pid r) (compiled co' pid u rid k rq t) (owns co s0 pid) (\<lambda>_. works co s0)"
  unfolding compiled_def
  by (intro triple_bind_at [OF same_records.eff_store_task] triple_compiled
      triple_bind_at [OF same_records.eff_announce] triple_bind_at [OF same_records.eff_append_event]
      triple_bind_at [OF same_records.eff_save_idempotency] triple_own)
     (simp_all add: assms)

lemma compile_approved_triple:
  assumes "state_of r = P_IN_REVIEW" and "map_of (rc_revisions r) i = Some rv"
    and "map_of (rc_facts r) j = Some f" and "map_of (rc_reviews r) n = Some v" and "rvw_decision v = APPROVE"
  shows "triple (on_record co s0 pid r) (compile_approved co pid u rid k rq rv f v)
    (owns co s0 pid) (\<lambda>_. works co s0)"
  unfolding compile_approved_def
proof (rule triple_move)
  show "wstep co pid (Some r) (Some (set_state P_COMPILING now r))" for now
    using assms map_of_SomeD [OF assms(4)] by (intro wstep.approval) (force simp: dvalues_def)+
  fix now
  let ?r = "set_state P_COMPILING now r"
  have c: "compiles co ?r t"
    if "compile_task (co_crypto co) (co_task_payload co) rv f v x (co_signing_key co) = Inr t" for x t
    using assms that by (intro compilesI) (simp_all add: set_state_def)
  have st: "state_of ?r = P_COMPILING" by (simp add: set_state_def)
  show "triple (on_record co s0 pid ?r) (bindP (make_context pid rv f v) (\<lambda>context.
     bindP (catchP (liftE (compile_task (co_crypto co) (co_task_payload co) rv f v context (co_signing_key co)))
              is_CompileError (compile_failed co pid u rid k rq)) (\<lambda>t.
     compiled co pid u rid k rq t))) (owns co s0 pid) (\<lambda>_. works co s0)"
  proof (rule triple_bind_at [OF same_records.eff_make_context])
    fix x
    show "triple (on_record co s0 pid ?r)
      (bindP (catchP (liftE (compile_task (co_crypto co) (co_task_payload co) rv f v x (co_signing_key co)))
              is_CompileError (compile_failed co pid u rid k rq)) (compiled co pid u rid k rq))
      (owns co s0 pid) (\<lambda>_. works co s0)"
    proof (cases "compile_task (co_crypto co) (co_task_payload co) rv f v x (co_signing_key co)")
      case (Inr t)
      then show ?thesis
        using compiled_triple [OF st c [OF Inr], of s0 pid co u rid k rq]
        by (simp add: bindP_def catchP_def liftE_def)
    next
      case (Inl e)
      have "triple (on_record co s0 pid ?r) (bindP (compile_failed co pid u rid k rq e) (compiled co pid u rid k rq))
          (owns co s0 pid) (\<lambda>_. works co s0)"
        by (rule triple_bind [OF compile_failed_triple [OF st, where Q = "\<lambda>_ _. False"]]) (simp add: triple_def)
      then show ?thesis
        using Inl by (cases "is_CompileError e") (auto simp: triple_def bindP_def catchP_def liftE_def on_record_def)
    qed
  qed
qed

lemma review_triple:
  assumes "harness_obeys same_records co" and "state_of r = P_IN_REVIEW"
    and "map_of (rc_revisions r) i = Some rv" and "map_of (rc_facts r) j = Some f"
  shows "triple (on_record co s0 pid r) (review_revision co pid u rid k rq rv f)
    (owns co s0 pid) (\<lambda>_. works co s0)"
  unfolding review_revision_def
proof (rule triple_catch_at, goal_cases)
  case 1
  then show ?case using assms by (simp add: harness_obeys_def)
next
  case (2 e)
  then show ?case using assms(2) by (intro triple_harness_failed triple_confirm_error) (simp add: terminal_def)
next
  case (3 v)
  let ?r = "with_review v r"
  have st: "state_of ?r = P_IN_REVIEW" and v: "map_of (rc_reviews ?r) (rvw_review_id v) = Some v"
    and rv: "map_of (rc_revisions ?r) i = Some rv" and f: "map_of (rc_facts ?r) j = Some f"
    using assms by (simp_all add: with_review_def dupdate_lookup)
  have mem: "v \<in> set (dvalues (rc_reviews ?r))" using map_of_SomeD [OF v] by (force simp: dvalues_def)
  show ?case
  proof (rule triple_bind_at [OF same_records.eff_write_immutable], rule triple_alter [where f = "with_review v", unfolded with_review_def], goal_cases)
    case 1
    then show ?case using wstep.reviewed [OF assms(2), of co pid v] by (simp add: with_review_def)
  next
    case 2
    show ?case
    proof (cases "rvw_decision v")
      case REQUEST_CHANGES
      then show ?thesis
        unfolding with_review_def [symmetric] request_changes_def
        by (simp, intro triple_get triple_bind_at [OF same_records.eff_utc_now] triple_put
            triple_bind_at [OF same_records.eff_announce] triple_confirm_error wstep.changes [OF st mem])
    next
      case REJECT
      then show ?thesis
        unfolding with_review_def [symmetric] reject_def
        by (simp, intro triple_move triple_bind_at [OF same_records.eff_announce] triple_confirm_error
            wstep.rejection [OF st mem])
    next
      case APPROVE
      then show ?thesis
        unfolding with_review_def [symmetric] using compile_approved_triple [OF st rv f v] by simp
    qed
  qed
qed

lemma cached_owns:
  "triple (on_record co s0 pid r) (cached_confirmation i r) (owns co s0 pid) (\<lambda>_. works co s0)"
  by (auto simp: cached_confirmation_def triple_own triple_throw split: json.split option.split)

lemma confirm_triple:
  assumes "harness_obeys same_records co"
  shows "triple (works co s0) (confirm co pid u rid k rq) (owns co s0 pid) (\<lambda>_. works co s0)"
proof -
  have body: "triple (works co s0) (confirm_revision co pid u rid k rq) (owns co s0 pid) (\<lambda>_. works co s0)"
    unfolding confirm_revision_def Let_def
  proof (rule triple_enter, rule triple_check, rule triple_check, rule triple_lookup,
      rule triple_bind_at [OF same_records.eff_checks(4)], goal_cases)
    case (1 r rv _)
    show ?case
    proof (cases "prp_current_facts_id (rc_proposal r)")
      case None
      then show ?thesis by (simp add: bindP_def triple_def on_record_def)
    next
      case (Some j)
      show ?thesis
        unfolding Some option.case
      proof (rule triple_lookup, rule triple_check, rule triple_bind_at [OF same_records.eff_utc_now],
          rule triple_put, goal_cases)
        case (1 f now)
        then show ?case using \<open>state_of r = P_AWAITING_CONFIRMATION\<close> by (intro wstep.review_begun) simp_all
      next
        case (2 f now)
        then show ?case
          using 1 by (intro triple_bind_at [OF same_records.eff_announce] review_triple [OF assms]) simp_all
      qed
    qed
  qed
  show ?thesis
    unfolding confirm_def
  proof (intro triple_bind_works [OF same_records.eff_checks(1)] triple_enter
      triple_bind_at [OF same_records.eff_checks(2)] triple_lifetime_at
      triple_bind_at [OF same_records.eff_idempotent_result])
    fix r c
    show "triple (on_record co s0 pid r) (case c of None \<Rightarrow> confirm_revision co pid u rid k rq
        | Some i \<Rightarrow> cached_confirmation i r) (owns co s0 pid) (\<lambda>_. works co s0)"
      using triple_weaken [OF body] by (cases c) (auto simp: cached_owns)
  qed
qed

section \<open>Creation\<close>

text \<open>
  Identifiers of proposals are drawn once: among the first \<open>k\<close> draws, later ones differ from
  earlier ones, and the table holds no proposal whose identifier is still to be drawn.
\<close>

definition ids_ahead :: "nat \<Rightarrow> 'z service_scheme \<Rightarrow> bool" where
  "ids_ahead k s \<longleftrightarrow>
     (\<forall>m n. m < n \<longrightarrow> n < k \<longrightarrow> (\<forall>pid. proposal_draw s m = Inr pid \<longrightarrow> proposal_draw s n \<noteq> Inr pid)) \<and>
     (\<forall>n pid. draw_no s \<le> n \<longrightarrow> n < k \<longrightarrow> proposal_draw s n = Inr pid \<longrightarrow> record_of s pid = None)"

lemma ids_ahead_works:
  assumes "ids_ahead k s" and "works co s t"
  shows "ids_ahead k t"
proof -
  have d: "proposal_draw t = proposal_draw s" and le: "draw_no s \<le> draw_no t"
    using assms(2) by (simp_all add: works_def proposal_draw_def fun_eq_iff)
  have "record_of t pid = None" if n: "draw_no t \<le> n" "n < k" "proposal_draw s n = Inr pid" for n pid
  proof (rule ccontr)
    assume r: "record_of t pid \<noteq> None"
    have "record_of s pid = None" using assms(1) n order_trans [OF le n(1)] by (simp add: ids_ahead_def)
    then have "newcomer s t pid" using assms(2) r by (simp add: works_def)
    then obtain m where "m < draw_no t" "proposal_draw s m = Inr pid" by (auto simp: newcomer_def)
    then show False using assms(1) n unfolding ids_ahead_def by (meson order_less_le_trans)
  qed
  then show ?thesis using assms(1) d by (simp add: ids_ahead_def)
qed

text \<open>Draws are only consumed, also when proposals are created.\<close>

definition draws_on :: "'z service_scheme \<Rightarrow> 'z service_scheme \<Rightarrow> bool" where
  "draws_on s t \<longleftrightarrow> draw_no s \<le> draw_no t"

interpretation draws_on: service_effect draws_on
  by unfold_locales (auto simp: draws_on_def append_line_def)

lemma draws_on_same: "obeys same_records m \<Longrightarrow> obeys draws_on m"
  by (auto simp: obeys_def same_records_def draws_on_def)

lemma draws_on_put: "obeys draws_on (put_proposal pid p)"
  unfolding put_proposal_def
  by (intro draws_on.eff_bind draws_on.eff_update draws_on.eff_persist_proposal) (simp add: draws_on_def alter_def)

lemma create_new_drawn:
  assumes "harness_obeys same_records co" and "create_new co u m k rq s = (q, t)"
  shows "draw_no s < draw_no t"
proof -
  have "\<exists>K. create_new co u m k rq = bindP utc_now (\<lambda>now. bindP (fresh_id ''prop'') (K now)) \<and>
      (\<forall>now pid. obeys draws_on (K now pid))"
    unfolding create_new_def
  proof (rule exI, rule conjI, rule refl, rule allI, rule allI)
    fix now pid
    show "obeys draws_on (let p = new_proposal u now pid
     in bindP (checkP (valid_proposal p) (ValueError ''validation error for Proposal'')) (\<lambda>_.
        bindP (make_revision p m 1) (\<lambda>rv.
        bindP (updateP (\<lambda>s. s\<lparr>sv_records := AList.update pid
           \<lparr>rc_proposal = p, rc_revisions = [(rev_revision_id rv, rv)], rc_facts = [], rc_reviews = [],
            rc_task = None\<rparr> (sv_records s)\<rparr>)) (\<lambda>_.
        bindP (write_immutable ''revisions'' (rev_revision_id rv) (O_revision rv)) (\<lambda>_.
        bindP (catchP (co_process co rv) is_HarnessError (process_failed co u m k rq p)) (\<lambda>facts.
        bindP (catchP (validate_facts p facts) is_ProposalError
                 (\<lambda>e. bindP (updateP (\<lambda>s. s\<lparr>sv_records := AList.delete pid (sv_records s)\<rparr>)) (\<lambda>_. raiseP e))) (\<lambda>_.
        created co u m k rq p rv facts)))))))"
      using assms(1)
      unfolding created_def process_failed_def Let_def harness_obeys_def
      by (intro draws_on.eff_bind draws_on.eff_catch draws_on.eff_store draws_on.eff_service draws_on_put
          draws_on.eff_update draws_on.eff_raise draws_on_same) (simp_all add: draws_on_def alter_def)
  qed
  then obtain K where run: "create_new co u m k rq = bindP utc_now (\<lambda>now. bindP (fresh_id ''prop'') (K now))"
    and K: "\<And>now pid. obeys draws_on (K now pid)" by blast
  obtain q1 s1 where f: "fresh_id ''prop'' (s\<lparr>clock_no := Suc (clock_no s)\<rparr>) = (q1, s1)" by (rule prod.exhaust)
  then have s1: "draw_no s1 = Suc (draw_no s)"
    by (auto simp: fresh_id_def split: prod.splits)
  show ?thesis
  proof (cases q1)
    case (Inl e)
    then show ?thesis using assms(2) f s1 unfolding run by (simp add: bindP_def utc_now_def)
  next
    case (Inr pid)
    then have "K (clock s (clock_no s)) pid s1 = (q, t)"
      using assms(2) f unfolding run by (simp add: bindP_def utc_now_def)
    from obeysD [OF K this] s1 show ?thesis by (simp add: draws_on_def)
  qed
qed

lemma created_triple:
  assumes "rc_proposal r = p" and "prp_proposal_id p = pid" and "state_of r \<notin> terminal"
    and "map_of (rc_revisions r) (rev_revision_id rv) = Some rv" and "rev_number rv = 1"
    and "prp_processor_rounds p = 1" and "admissible p f"
  shows "triple (on_record co s0 pid r) (created co' u m k rq p rv f) (\<lambda>_. works co s0) (\<lambda>_. works co s0)"
  unfolding created_def Let_def assms(2)
proof (rule triple_bind_at [OF same_records.eff_write_immutable],
    rule triple_alter [where f = "with_facts f", unfolded with_facts_def],
    goal_cases)
  case 1
  then show ?case using wstep.facts [of r f co pid] assms by (simp add: with_facts_def)
next
  case 2
  show ?case
  proof (rule triple_bind_at [OF same_records.eff_utc_now], rule triple_bind_at [OF same_records.eff_utc_now],
      rule triple_put, goal_cases)
    case (1 t1 t2)
    let ?r = "r\<lparr>rc_facts := AList.update (fct_facts_id f) f (rc_facts r)\<rparr>"
    have "wstep co pid (Some ?r) (Some (?r\<lparr>rc_proposal := (rc_proposal ?r)\<lparr>prp_state := P_AWAITING_CONFIRMATION,
       prp_current_revision_id := Some (rev_revision_id rv), prp_current_facts_id := Some (fct_facts_id f),
       prp_processor_rounds := 1, prp_updated_at := t2, prp_submitter_deadline := Some (t1 + minutes 30)\<rparr>\<rparr>))"
      using assms by (intro wstep.awaiting [where rv = rv and f = f]) (simp_all add: dupdate_lookup)
    moreover have "(p\<lparr>prp_state := P_AWAITING_CONFIRMATION, prp_current_revision_id := Some (rev_revision_id rv),
       prp_current_facts_id := Some (fct_facts_id f), prp_processor_rounds := 1, prp_updated_at := t2,
       prp_submitter_deadline := Some (t1 + minutes 30)\<rparr>) = p\<lparr>prp_state := P_AWAITING_CONFIRMATION,
       prp_current_revision_id := Some (rev_revision_id rv), prp_current_facts_id := Some (fct_facts_id f),
       prp_updated_at := t2, prp_submitter_deadline := Some (t1 + minutes 30)\<rparr>"
      using assms(6) by simp
    ultimately show ?case using assms(1) by simp
  next
    case (2 t1 t2)
    show ?case
      by (intro triple_bind_at [OF same_records.eff_announce]
          triple_bind_at [OF same_records.eff_save_idempotency] triple_exit)
  qed
qed

lemma process_failed_triple:
  assumes "rc_proposal r = p" and "prp_proposal_id p = pid" and "state_of r \<notin> terminal"
  shows "triple (on_record co s0 pid r) (process_failed co' u m k rq p e) Q (\<lambda>_. works co s0)"
  unfolding process_failed_def Let_def assms(2)
  by (intro triple_bind_at [OF same_records.eff_utc_now] triple_put triple_bind_at [OF same_records.eff_announce]
      triple_bind_at [OF same_records.eff_save_idempotency] triple_throw)
     (use assms wstep.failure [of r co pid] in \<open>simp add: set_state_def\<close>)

lemma drop_record:
  assumes "on_record co s0 pid r s" and "state_of r = P_CLARIFYING" and "rc_facts r = []"
  shows "works co s0 (s\<lparr>sv_records := AList.delete pid (sv_records s)\<rparr>)"
proof -
  have "works co s (s\<lparr>sv_records := AList.delete pid (sv_records s)\<rparr>)"
    using assms wstep.refusal [OF assms(2,3)]
    by (auto simp: works_def on_record_def record_of_def ddelete_lookup)
  then show ?thesis using assms(1) works.effect_trans [of co s0 s] by (simp add: on_record_def)
qed

text \<open>The new record enters the table.\<close>

lemma enter_record:
  assumes "works co s0 s" and "record_of s pid = None" and "newcomer s0 s pid" and "record_of s0 pid = None"
    and "wstep co pid None (Some r)"
  shows "on_record co s0 pid r (s\<lparr>sv_records := AList.update pid r (sv_records s)\<rparr>)"
proof -
  let ?t = "s\<lparr>sv_records := AList.update pid r (sv_records s)\<rparr>"
  have r: "record_of ?t i = (if i = pid then Some r else record_of s i)" for i
    by (simp add: record_of_def dupdate_lookup)
  have "(wstep co i)\<^sup>*\<^sup>* (record_of s0 i) (record_of ?t i)" for i
    using assms rtranclp.rtrancl_into_rtrancl [of "wstep co pid" "record_of s0 pid" None "Some r"]
    by (auto simp: r works_def)
  moreover have "newcomer s0 ?t i" if "record_of s0 i = None" "record_of ?t i \<noteq> None" for i
  proof (cases "i = pid")
    case True
    then show ?thesis using assms(3) by (simp add: newcomer_def)
  next
    case False
    then have "newcomer s0 s i" using that r assms(1) by (simp add: works_def)
    then show ?thesis by (simp add: newcomer_def)
  qed
  ultimately have "works co s0 ?t" using assms(1) by (simp add: works_def)
  then show ?thesis using r by (simp add: on_record_def)
qed

lemma create_rest_triple:
  assumes "harness_obeys same_records co" and "rc_proposal r = p" and "prp_proposal_id p = pid"
    and "prp_state p = P_CLARIFYING" and "rc_facts r = []"
    and "map_of (rc_revisions r) (rev_revision_id rv) = Some rv" and "rev_number rv = 1"
    and "prp_processor_rounds p = 1"
  shows "triple (on_record co s0 pid r)
    (bindP (write_immutable ''revisions'' (rev_revision_id rv) (O_revision rv)) (\<lambda>_.
     bindP (catchP (co_process co rv) is_HarnessError (process_failed co u m k rq p)) (\<lambda>facts.
     bindP (catchP (validate_facts p facts) is_ProposalError
       (\<lambda>e. bindP (updateP (\<lambda>s. s\<lparr>sv_records := AList.delete pid (sv_records s)\<rparr>)) (\<lambda>_. raiseP e))) (\<lambda>_.
     created co u m k rq p rv facts)))) (\<lambda>_. works co s0) (\<lambda>_. works co s0)"
proof (rule triple_bind_at [OF same_records.eff_write_immutable], rule triple_catch_at, goal_cases)
  case 1
  then show ?case using assms(1) by (simp add: harness_obeys_def)
next
  case (2 _ e)
  then show ?case using assms by (intro process_failed_triple) (simp_all add: terminal_def)
next
  case (3 _ f)
  let ?h = "\<lambda>e. bindP (updateP (\<lambda>s. s\<lparr>sv_records := AList.delete pid (sv_records s)\<rparr>)) (\<lambda>_. raiseP e)"
  have drop: "triple (on_record co s0 pid r) (?h e) (\<lambda>_ _. False) (\<lambda>_. works co s0)" for e
    using drop_record [of co s0 pid r] assms by (auto simp: triple_def bindP_def)
  show ?case
  proof (cases "facts_error p f")
    case (Some msg)
    then have "triple (on_record co s0 pid r) (validate_facts p f) (\<lambda>_ _. False) (\<lambda>_. on_record co s0 pid r)"
      by (simp add: validate_facts_def triple_def)
    then have "triple (on_record co s0 pid r) (catchP (validate_facts p f) is_ProposalError ?h)
        (\<lambda>_ _. False) (\<lambda>_. works co s0)"
      by (rule triple_catch) (rule drop, simp add: on_record_def)
    then show ?thesis by (rule triple_bind) (simp add: triple_def)
  next
    case None
    show ?thesis
      using assms None
      by (intro triple_catch_at same_records.eff_validate_facts drop created_triple)
         (simp_all add: admissible_def terminal_def)
  qed
qed

lemma create_new_works:
  assumes "harness_obeys same_records co" and "ids_ahead (draw_no t) s" and "create_new co u m k rq s = (q, t)"
  shows "works co s t"
proof (cases "proposal_draw s (draw_no s)")
  case (Inl e)
  then have "t = s\<lparr>clock_no := Suc (clock_no s), draw_no := Suc (draw_no s)\<rparr>"
    using assms(3)
    by (cases "draws s (draw_no s)") (simp add: create_new_def bindP_def utc_now_def fresh_id_def proposal_draw_def)
  then show ?thesis by (intro same_works) (simp add: same_records_def)
next
  case (Inr pid)
  let ?s1 = "s\<lparr>clock_no := Suc (clock_no s), draw_no := Suc (draw_no s)\<rparr>"
  let ?p = "new_proposal u (clock s (clock_no s)) pid"
  have drawn: "draw_no s < draw_no t" by (rule create_new_drawn [OF assms(1,3)])
  have none: "record_of s pid = None" using assms(2) Inr drawn unfolding ids_ahead_def by blast
  have s1: "same_records s ?s1" by (simp add: same_records_def)
  have now: "utc_now s = (Inr (clock s (clock_no s)), s\<lparr>clock_no := Suc (clock_no s)\<rparr>)"
    by (simp add: utc_now_def)
  have draw: "fresh_id ''prop'' (s\<lparr>clock_no := Suc (clock_no s)\<rparr>) = (Inr pid, ?s1)"
    using Inr by (cases "draws s (draw_no s)") (simp add: fresh_id_def proposal_draw_def)
  have run: "create_new co u m k rq s = bindP (checkP (valid_proposal ?p) (ValueError ''validation error for Proposal'')) (\<lambda>_.
        bindP (make_revision ?p m 1) (\<lambda>rv.
        bindP (updateP (\<lambda>s. s\<lparr>sv_records := AList.update pid (with_revision rv (empty_record ?p)) (sv_records s)\<rparr>)) (\<lambda>_.
        bindP (write_immutable ''revisions'' (rev_revision_id rv) (O_revision rv)) (\<lambda>_.
        bindP (catchP (co_process co rv) is_HarnessError (process_failed co u m k rq ?p)) (\<lambda>facts.
        bindP (catchP (validate_facts ?p facts) is_ProposalError
                 (\<lambda>e. bindP (updateP (\<lambda>s. s\<lparr>sv_records := AList.delete pid (sv_records s)\<rparr>)) (\<lambda>_. raiseP e))) (\<lambda>_.
        created co u m k rq ?p rv facts)))))) ?s1"
    unfolding create_new_def bindP_step [where m = utc_now and s = s, OF now]
      bindP_step [where m = "fresh_id ''prop''" and s = "s\<lparr>clock_no := Suc (clock_no s)\<rparr>", OF draw]
    by (simp add: Let_def with_revision_def empty_record_def)
  obtain q1 s2 where mr: "make_revision ?p m 1 ?s1 = (q1, s2)" by (rule prod.exhaust)
  have s2: "same_records s s2"
    using same_records.effect_trans [OF s1 obeysD [OF same_records.eff_make_revision mr]] .
  consider "t = ?s1" | "\<exists>e. q1 = Inl e" "t = s2" | rv where "q1 = Inr rv" "valid_proposal ?p"
    using assms(3) unfolding run by (cases "valid_proposal ?p"; cases q1) (auto simp: bindP_def checkP_def mr)
  then show ?thesis
  proof cases
    case 1
    then show ?thesis using same_works [OF s1] by simp
  next
    case 2
    then show ?thesis using same_works [OF s2] by simp
  next
    case 3
    let ?r = "with_revision rv (empty_record ?p)"
    let ?s3 = "s2\<lparr>sv_records := AList.update pid ?r (sv_records s2)\<rparr>"
    have number: "rev_number rv = 1"
      using mr 3 by (auto simp: make_revision_def bindP_def checkP_def Let_def split: prod.splits sum.splits if_splits)
    have draws2: "Suc (draw_no s) \<le> draw_no s2"
      using obeysD [OF same_records.eff_make_revision mr] by (simp add: same_records_def)
    have "on_record co s pid ?r ?s3"
    proof (rule enter_record [OF same_works [OF s2]])
      show "record_of s2 pid = None" using none s2 by (simp add: same_records_def record_of_def)
      show "newcomer s s2 pid" unfolding newcomer_def using Inr draws2 by (intro exI [of _ "draw_no s"]) simp
      show "wstep co pid None (Some ?r)" by (rule wstep.creation) (simp_all add: new_proposal_def)
    qed (rule none)
    moreover have "triple (on_record co s pid ?r)
       (bindP (write_immutable ''revisions'' (rev_revision_id rv) (O_revision rv)) (\<lambda>_.
        bindP (catchP (co_process co rv) is_HarnessError (process_failed co u m k rq ?p)) (\<lambda>facts.
        bindP (catchP (validate_facts ?p facts) is_ProposalError
          (\<lambda>e. bindP (updateP (\<lambda>s. s\<lparr>sv_records := AList.delete pid (sv_records s)\<rparr>)) (\<lambda>_. raiseP e))) (\<lambda>_.
        created co u m k rq ?p rv facts)))) (\<lambda>_. works co s) (\<lambda>_. works co s)"
      by (rule create_rest_triple [OF assms(1)]) (simp_all add: with_revision_def empty_record_def new_proposal_def number)
    ultimately show ?thesis
      using assms(3) 3 mr unfolding run triple_def by (cases q) (fastforce simp: bindP_def checkP_def)+
  qed
qed

section \<open>The service refines the workflow\<close>

lemma create_works:
  assumes "harness_obeys same_records co" and "ids_ahead (draw_no t) s" and "create co u m k rq s = (q, t)"
  shows "works co s t"
proof -
  obtain q1 s1 where c: "bindP (check_user u) (\<lambda>_. bindP (validate_size m) (\<lambda>_.
      idempotent_result co u ''create'' k [(''markdown'', JStr m)])) s = (q1, s1)" by (rule prod.exhaust)
  have run: "create co u m k rq s = bindP (bindP (check_user u) (\<lambda>_. bindP (validate_size m) (\<lambda>_.
      idempotent_result co u ''create'' k [(''markdown'', JStr m)]))) (\<lambda>cached. case cached of
        Some i \<Rightarrow> get_proposal (idm_object_id i)
      | None \<Rightarrow> create_new co u m k rq) s"
    unfolding create_def bindP_assoc ..
  have "obeys same_records (bindP (check_user u) (\<lambda>_. bindP (validate_size m) (\<lambda>_.
      idempotent_result co u ''create'' k [(''markdown'', JStr m)])))"
    by (intro same_records.eff_bind same_records.eff_service)
  from obeysD [OF this c] have same: "same_records s s1" .
  have ahead: "ids_ahead (draw_no t) s1" using ids_ahead_works [OF assms(2) same_works [OF same, of co]] .
  show ?thesis
  proof (cases "\<exists>x. q1 = Inr x")
    case False
    then have "t = s1" using assms(3) c unfolding run by (cases q1) (auto simp: bindP_def)
    then show ?thesis using same_works [OF same] by simp
  next
    case True
    then obtain x where "q1 = Inr x" by blast
    then have "(case x of Some i \<Rightarrow> get_proposal (idm_object_id i) | None \<Rightarrow> create_new co u m k rq) s1 = (q, t)"
      using assms(3) c unfolding run by (simp add: bindP_def)
    then have "works co s1 t"
      using create_new_works [OF assms(1) ahead] same_works [OF obeysD [OF get_proposal_same]]
      by (cases x) auto
    then show ?thesis using works.effect_trans [OF same_works [OF same]] by blast
  qed
qed

text \<open>What callers may do to the service, one call after the other.\<close>

inductive serves :: "('k, 'p, 'z service_scheme) collaborators \<Rightarrow> 'z service_scheme \<Rightarrow> 'z service_scheme \<Rightarrow> bool"
  for co s where
  here: "serves co s s"
| create: "serves co s t \<Longrightarrow> serves co s (snd (create co u m k rq t))"
| reply: "serves co s t \<Longrightarrow> serves co s (snd (reply co pid u m k rq t))"
| confirm: "serves co s t \<Longrightarrow> serves co s (snd (confirm co pid u rid k rq t))"
| resume: "serves co s t \<Longrightarrow> serves co s (snd (resume_proposal co pid u k rq t))"
| retry: "serves co s t \<Longrightarrow> serves co s (snd (retry_compilation co pid a rq t))"
| cancel: "serves co s t \<Longrightarrow> serves co s (snd (cancel_proposal pid u rq t))"

lemma create_draws_on:
  assumes "harness_obeys same_records co"
  shows "obeys draws_on (create co u m k rq)"
proof -
  have "obeys draws_on (create_new co u m k rq)"
    using create_new_drawn [OF assms] by (metis draws_on_def less_imp_le obeys_def prod.collapse)
  then show ?thesis
    unfolding create_def
    by (intro draws_on.eff_bind draws_on.eff_service)
       (auto split: option.split intro: draws_on_same [OF get_proposal_same])
qed

lemma serves_works:
  assumes "harness_obeys same_records co" and "ids_ahead k s" and "serves co s t" and "draw_no t \<le> k"
  shows "works co s t"
  using assms(3,4)
proof (induction rule: serves.induct)
  case here
  show ?case by (rule works.effect_refl)
next
  case (create t u m ky rq)
  obtain q v where c: "create co u m ky rq t = (q, v)" by (rule prod.exhaust)
  have "draw_no t \<le> draw_no v" using obeysD [OF create_draws_on [OF assms(1)] c] by (simp add: draws_on_def)
  then have st: "works co s t" using create.IH create.prems c by simp
  then have "ids_ahead k t" using ids_ahead_works [OF assms(2)] by blast
  then have "ids_ahead (draw_no v) t" using create.prems c by (auto simp: ids_ahead_def)
  from create_works [OF assms(1) this c] show ?case using st c works.effect_trans by simp
next
  case (reply t pid u m ky rq)
  have w: "works co t (snd (reply co pid u m ky rq t))"
    by (rule obeys_works [OF reply_triple [OF assms(1)], unfolded obeys_def, rule_format])
  then have "works co s t" using reply.IH reply.prems by (simp add: works_def)
  then show ?case using w works.effect_trans by blast
next
  case (confirm t pid u rid ky rq)
  have w: "works co t (snd (confirm co pid u rid ky rq t))"
    by (rule obeys_works [OF triple_owns [OF confirm_triple [OF assms(1)]], unfolded obeys_def, rule_format])
  then have "works co s t" using confirm.IH confirm.prems by (simp add: works_def)
  then show ?case using w works.effect_trans by blast
next
  case (resume t pid u ky rq)
  have w: "works co t (snd (resume_proposal co pid u ky rq t))"
    by (rule obeys_works [OF resume_triple, unfolded obeys_def, rule_format])
  then have "works co s t" using resume.IH resume.prems by (simp add: works_def)
  then show ?case using w works.effect_trans by blast
next
  case (retry t pid a rq)
  have w: "works co t (snd (retry_compilation co pid a rq t))"
    by (rule obeys_works [OF triple_owns [OF retry_triple], unfolded obeys_def, rule_format])
  then have "works co s t" using retry.IH retry.prems by (simp add: works_def)
  then show ?case using w works.effect_trans by blast
next
  case (cancel t pid u rq)
  have w: "works co t (snd (cancel_proposal pid u rq t))"
    by (rule obeys_works [OF cancel_triple, unfolded obeys_def, rule_format])
  then have "works co s t" using cancel.IH cancel.prems by (simp add: works_def)
  then show ?case using w works.effect_trans by blast
qed

lemma works_draws_on: "obeys (works co) m \<Longrightarrow> obeys draws_on m"
  by (auto simp: obeys_def works_def draws_on_def)

lemma serves_draws_on:
  assumes "harness_obeys same_records co" and "serves co s t"
  shows "draws_on s t"
  using assms(2)
proof (induction rule: serves.induct)
  case here
  show ?case by (rule draws_on.effect_refl)
next
  case (create t u m k rq)
  from create.IH show ?case by (rule draws_on.effect_trans [OF _ create_draws_on [OF assms(1), unfolded obeys_def, rule_format]])
next
  case (reply t pid u m k rq)
  from reply.IH show ?case
    by (rule draws_on.effect_trans [OF _ works_draws_on [OF obeys_works [OF reply_triple [OF assms(1)]], unfolded obeys_def, rule_format]])
next
  case (confirm t pid u rid k rq)
  from confirm.IH show ?case
    by (rule draws_on.effect_trans [OF _ works_draws_on [OF obeys_works [OF triple_owns [OF confirm_triple [OF assms(1)]]], unfolded obeys_def, rule_format]])
next
  case (resume t pid u k rq)
  from resume.IH show ?case
    by (rule draws_on.effect_trans [OF _ works_draws_on [OF obeys_works [OF resume_triple], unfolded obeys_def, rule_format]])
next
  case (retry t pid a rq)
  from retry.IH show ?case
    by (rule draws_on.effect_trans [OF _ works_draws_on [OF obeys_works [OF triple_owns [OF retry_triple]], unfolded obeys_def, rule_format]])
next
  case (cancel t pid u rq)
  from cancel.IH show ?case
    by (rule draws_on.effect_trans [OF _ works_draws_on [OF obeys_works [OF cancel_triple], unfolded obeys_def, rule_format]])
qed

section \<open>What every path of the workflow keeps\<close>

definition sound_record :: "('k, 'p, 's) collaborators \<Rightarrow> string \<Rightarrow> prop_record \<Rightarrow> bool" where
  "sound_record co pid r \<longleftrightarrow> prp_proposal_id (rc_proposal r) = pid \<and>
     1 \<le> prp_processor_rounds (rc_proposal r) \<and> prp_processor_rounds (rc_proposal r) \<le> 8 \<and>
     0 \<le> prp_review_count (rc_proposal r) \<and> prp_review_count (rc_proposal r) \<le> 4 \<and>
     (state_of r = P_COMPILED \<longrightarrow> rc_task r \<noteq> None) \<and>
     (\<forall>f \<in> set (dvalues (rc_facts r)). admissible (rc_proposal r) f) \<and>
     (\<forall>t. rc_task r = Some t \<longrightarrow> compiles co r t \<and> state_of r \<in> {P_COMPILED, P_EXPIRED})"

lemma compiles_cong:
  "rc_revisions r' = rc_revisions r \<Longrightarrow> rc_facts r' = rc_facts r \<Longrightarrow> rc_reviews r' = rc_reviews r \<Longrightarrow>
     compiles co r' t = compiles co r t"
  by (simp add: compiles_def)

lemma compiles_set_state [simp]:
  "compiles co (set_state st now r) t = compiles co r t" "compiles co (r\<lparr>rc_task := x\<rparr>) t = compiles co r t"
  "compiles co (r\<lparr>rc_proposal := p\<rparr>) t = compiles co r t"
  by (simp_all add: compiles_def set_state_def)

lemma admissible_updates [simp]:
  "admissible (p\<lparr>prp_state := a\<rparr>) = admissible p" "admissible (p\<lparr>prp_updated_at := b\<rparr>) = admissible p"
  "admissible (p\<lparr>prp_review_count := n\<rparr>) = admissible p"
  "admissible (p\<lparr>prp_processor_rounds := n\<rparr>) = admissible p"
  "admissible (p\<lparr>prp_submitter_deadline := d\<rparr>) = admissible p"
  "admissible (p\<lparr>prp_current_revision_id := i\<rparr>) = admissible p"
  "admissible (p\<lparr>prp_current_facts_id := i\<rparr>) = admissible p"
  by (simp_all add: admissible_def facts_error_def fun_eq_iff)

lemma dvalues_update: "v \<in> set (dvalues (AList.update k x d)) \<Longrightarrow> v = x \<or> v \<in> set (dvalues d)"
  by (induction d) (auto simp: dvalues_def split: if_splits)

lemma wstep_sound:
  assumes "wstep co pid x y" and "case x of None \<Rightarrow> True | Some r \<Rightarrow> sound_record co pid r"
  shows "case y of None \<Rightarrow> True | Some r \<Rightarrow> sound_record co pid r"
  using assms
  by (cases rule: wstep.cases)
     (auto simp: sound_record_def with_revision_def with_facts_def with_review_def empty_record_def
       set_state_def terminal_def dest!: dvalues_update, simp_all add: dvalues_def)

lemma wsteps_sound:
  "(wstep co pid)\<^sup>*\<^sup>* x y \<Longrightarrow> (case x of None \<Rightarrow> True | Some r \<Rightarrow> sound_record co pid r) \<Longrightarrow>
     (case y of None \<Rightarrow> True | Some r \<Rightarrow> sound_record co pid r)"
  by (induction rule: rtranclp_induct) (auto dest: wstep_sound)

lemma wstep_task:
  assumes "wstep co pid (Some r) y" and "sound_record co pid r" and "rc_task r = Some t"
  shows "\<exists>r'. y = Some r' \<and> rc_task r' = Some t"
  using assms
  by (cases rule: wstep.cases)
     (auto simp: sound_record_def with_revision_def with_facts_def with_review_def set_state_def terminal_def)

lemma wsteps_task:
  assumes "(wstep co pid)\<^sup>*\<^sup>* x y" and "x = Some r" and "sound_record co pid r" and "rc_task r = Some t"
  shows "\<exists>r'. y = Some r' \<and> rc_task r' = Some t"
  using assms(1)
proof (induction rule: rtranclp_induct)
  case base
  then show ?case using assms by simp
next
  case (step y z)
  then obtain r' where y: "y = Some r'" "rc_task r' = Some t" by blast
  then have "sound_record co pid r'" using wsteps_sound [OF step(1)] assms by simp
  then show ?case using wstep_task step(2) y by blast
qed

lemma served_sound:
  assumes "harness_obeys same_records co" and "ids_ahead (draw_no t) s" and "sv_records s = []" and "serves co s t"
    and "record_of t pid = Some r"
  shows "sound_record co pid r"
proof -
  have "(wstep co pid)\<^sup>*\<^sup>* (record_of s pid) (record_of t pid)"
    using serves_works [OF assms(1,2,4) order_refl] by (simp add: works_def)
  then show ?thesis using wsteps_sound assms(3,5) by (fastforce simp: record_of_def)
qed



text \<open>A sound record with a task.\<close>

lemma approved_task:
  assumes "crypto_ok (co_crypto co)" and sound: "sound_record co pid r" and "rc_task r = Some k"
  shows "\<exists>v \<in> set (dvalues (rc_reviews r)). rvw_decision v = APPROVE \<and>
    rvw_revision_id v = tsk_revision_id k \<and> rvw_review_id v = tsk_review_id k \<and>
    (\<exists>f \<in> set (dvalues (rc_facts r)). fct_revision_id f = tsk_revision_id k \<and> fct_facts_id f = tsk_facts_id k) \<and>
    verify_model (co_crypto co) (task_integrity (co_task_payload co)) (public_key (co_crypto co) (co_signing_key co)) k \<and>
    (\<exists>u c. tsk_units k = [u] \<and> unt_run u = [c] \<and> cmd_container_path c = Some qualification_launcher \<and>
       cmd_sha256 c = Some qualification_launcher_sha256)"
proof -
  from sound obtain rv f v x where f: "f \<in> set (dvalues (rc_facts r))" and v: "v \<in> set (dvalues (rc_reviews r))"
    and c: "compile_task (co_crypto co) (co_task_payload co) rv f v x (co_signing_key co) = Inr k"
    using assms(3) by (auto simp: sound_record_def compiles_def)
  have "facts_error (rc_proposal r) f = None" using sound f by (simp add: sound_record_def admissible_def)
  then obtain cmd where cmd: "fct_run f = [cmd]" "cmd_container_path cmd = Some qualification_launcher"
    "cmd_sha256 cmd = Some qualification_launcher_sha256"
    by (auto simp: facts_error_def artifact_error_def split: if_splits list.splits)
  obtain tail where t: "tsk_units k = [compile_unit f tail]" "tsk_revision_id k = rev_revision_id rv"
    "tsk_facts_id k = fct_facts_id f" "tsk_review_id k = rvw_review_id v"
    using compiled_fields [OF c] by blast
  have b: "bound_inputs rv f v x" "rvw_decision v = APPROVE" using c by (simp_all add: compile_task_Inr)
  have ver: "verify_model (co_crypto co) (task_integrity (co_task_payload co))
      (public_key (co_crypto co) (co_signing_key co)) k"
    using c signed_task.verify_signed [OF assms(1)] by (auto simp: compile_task_Inr)
  show ?thesis
    using f v cmd t b ver unfolding bound_inputs_def
    by (intro bexI [OF _ v] conjI bexI [OF _ f] exI [of _ "compile_unit f tail"] exI [of _ cmd])
       (simp_all add: compile_unit_def)
qed


text \<open>
  C19. The task of a proposal is final: once compiled, no further call replaces or removes it.
\<close>

theorem task_never_changes:
  assumes "harness_obeys same_records co" and "ids_ahead (draw_no u) s" and "sv_records s = []"
    and "serves co s t" and "record_of t pid = Some r" and "rc_task r = Some k" and "serves co t u"
  shows "\<exists>r'. record_of u pid = Some r' \<and> rc_task r' = Some k"
proof -
  have tu: "draw_no t \<le> draw_no u" using serves_draws_on [OF assms(1,7)] by (simp add: draws_on_def)
  have st: "works co s t" using serves_works [OF assms(1,2,4) tu] .
  have "sound_record co pid r"
    using wsteps_sound [of co pid "record_of s pid" "record_of t pid"] st assms(3,5)
    by (simp add: works_def) (metis option.simps(4,5) record_of_def map_of.simps(1))
  moreover have "works co t u"
    using serves_works [OF assms(1) ids_ahead_works [OF assms(2) st] assms(7) order_refl] .
  then have "(wstep co pid)\<^sup>*\<^sup>* (Some r) (record_of u pid)" using assms(5) by (metis works_def)
  ultimately show ?thesis using wsteps_task assms(6) by blast
qed

end
