(* ===== verification/Store_Runs.thy ===== *)
theory Store_Runs
  imports Event_Store
begin

text \<open>
  Evaluating programs over a store step by step, for the concrete runs that the theorems are applied
  to: each operation on a state without faults, with the identifiers that numbered draws give.
\<close>

section \<open>Programs\<close>

lemma Suc_Suc_0: "Suc (Suc 0) = 2" by simp

lemma run_rules:
  "bindP m f s = (case m s of (Inl e, t) \<Rightarrow> (Inl e, t) | (Inr x, t) \<Rightarrow> f x t)"
  "readP g s = (Inr (g s), s)" "updateP h s = (Inr (), h s)" "returnP x s = (Inr x, s)" "raiseP e s = (Inl e, s)"
  "checkP b e s = (if b then (Inr (), s) else (Inl e, s))"
  "whenP b w s = (if b then w s else (Inr (), s))"
  "catchP m c k s = (case m s of (Inl e, t) \<Rightarrow> if c e then k e t else (Inl e, t) | (Inr x, t) \<Rightarrow> (Inr x, t))"
  "liftE y s = (y, s)"
  by (simp_all add: bindP_def readP_def updateP_def returnP_def raiseP_def checkP_def whenP_def catchP_def liftE_def)

lemma file_rules:
  "utc_now s = (Inr (clock s (clock_no s)), s\<lparr>clock_no := Suc (clock_no s)\<rparr>)"
  "write_immutable_file ty i d s =
     (if map_of (immutable s) (ty, i) = None
      then file_op (\<lambda>s. s\<lparr>immutable := AList.update (ty, i) d (immutable s)\<rparr>) s
      else (Inl (FileExistsError (ty @ ''/'' @ i)), s))"
  "immutable_exists ty i s = (Inr (map_of (immutable s) (ty, json_name i) \<noteq> None), s)"
  "faults s (fault_no s) = IO_ok \<Longrightarrow> file_op h s = (Inr (), h (s\<lparr>fault_no := Suc (fault_no s)\<rparr>))"
  by (simp_all add: run_rules utc_now_def write_immutable_file_def immutable_exists_def file_op_def next_fault_def)

section \<open>Identifiers of numbered draws\<close>

text \<open>The number of the draw is the time stamp.\<close>

definition drawn_id :: "string \<Rightarrow> nat \<Rightarrow> string" where
  "drawn_id p n = p @ ''_'' @ hex_pad 32 (uuid7 (int n) 0 0)"

lemma drawn_ids:
  assumes "draws s = (\<lambda>n. (int n, 0, 0))" and "p \<noteq> []" and "list_all (\<lambda>c. is_lower c \<or> c = CHR ''_'') p"
  shows "fresh_id p s = (Inr (drawn_id p (draw_no s)), s\<lparr>draw_no := Suc (draw_no s)\<rparr>)"
  using assms by (simp add: fresh_id_def new_id_def list_ex_iff list_all_iff drawn_id_def uuid_hex_def del: hex_pad.simps)

lemma drawn_valid:
  assumes "p \<noteq> []" and "list_all (\<lambda>c. is_lower c \<or> c = CHR ''_'') p" and "is_lower (hd p)"
  shows "valid_id (drawn_id p n)"
  by (rule new_id_Inr_valid [of p "int n" 0 0]) (use assms in \<open>auto simp: new_id_Inr drawn_id_def\<close>)

lemma drawn_eq:
  assumes "m < 2 ^ 48" and "n < 2 ^ 48"
  shows "drawn_id p m = drawn_id p n \<longleftrightarrow> m = n"
proof -
  have "drawn_id p a < drawn_id p b" if "a < b" "a < 2 ^ 48" "b < 2 ^ 48" for a b :: nat
  proof -
    have i: "int a < 2 ^ 48" "int b < 2 ^ 48" using that by simp_all
    then have "uuid7 (int a) 0 0 < uuid7 (int b) 0 0" using that uuid7_less [of 0 0 0 0 "int a" "int b"] by simp
    moreover have "0 \<le> uuid7 (int a) 0 0" "uuid7 (int b) 0 0 < 2 ^ 128"
      using uuid7_range [of 0 0 "int a"] uuid7_range [of 0 0 "int b"] by simp_all
    ultimately show ?thesis
      by (simp add: drawn_id_def append_less hex_pad_mono del: hex_pad.simps)
  qed
  then show ?thesis using assms by (metis less_irrefl linorder_neqE_nat)
qed

lemma prefix_neq: "drawn_id p m = drawn_id p n \<longleftrightarrow> m = n" if "m < 20" "n < 20" for m n
  using drawn_eq [of m n p] that by simp

lemma ids_ok:
  "valid_id (drawn_id ''prop'' n)" "valid_id (drawn_id ''rev'' n)" "valid_id (drawn_id ''facts'' n)"  "valid_id (drawn_id ''prop_state'' n)"
   "valid_id (drawn_id ''review'' n)"  "valid_id (drawn_id ''task'' n)"  "valid_id (drawn_id ''exec'' n)"  "valid_id (drawn_id ''evt'' n)" 
  by (simp_all add: drawn_valid is_lower_def less_eq_char_def)

lemma fresh_ids:
  assumes "draws s = (\<lambda>n. (int n, 0, 0))"
  shows "fresh_id ''prop'' s = (Inr (drawn_id ''prop'' (draw_no s)), s\<lparr>draw_no := Suc (draw_no s)\<rparr>)"
    "fresh_id ''rev'' s = (Inr (drawn_id ''rev'' (draw_no s)), s\<lparr>draw_no := Suc (draw_no s)\<rparr>)"
    "fresh_id ''facts'' s = (Inr (drawn_id ''facts'' (draw_no s)), s\<lparr>draw_no := Suc (draw_no s)\<rparr>)"
    "fresh_id ''prop_state'' s = (Inr (drawn_id ''prop_state'' (draw_no s)), s\<lparr>draw_no := Suc (draw_no s)\<rparr>)"
    "fresh_id ''review'' s = (Inr (drawn_id ''review'' (draw_no s)), s\<lparr>draw_no := Suc (draw_no s)\<rparr>)"
    "fresh_id ''task'' s = (Inr (drawn_id ''task'' (draw_no s)), s\<lparr>draw_no := Suc (draw_no s)\<rparr>)"
    "fresh_id ''exec'' s = (Inr (drawn_id ''exec'' (draw_no s)), s\<lparr>draw_no := Suc (draw_no s)\<rparr>)"
  by (intro drawn_ids [OF assms]; simp add: is_lower_def less_eq_char_def)+

section \<open>Events\<close>

lemma event_ok:
  "valid_event \<lparr>evt_event_id = drawn_id ''evt'' n, evt_object_type = ty, evt_object_id = i, evt_sequence = q, evt_event_type = et,
      evt_actor = a, evt_request_id = rq, evt_timestamp = x, evt_payload = pl\<rparr> \<longleftrightarrow> valid_id i \<and> 1 \<le> q"
  by (simp add: valid_event_def ids_ok)

lemma append_event_run:
  assumes "faults s (fault_no s) = IO_ok" and "fst (next_sequence ty oid s) = Inr q" and "draws s = (\<lambda>n. (int n, 0, 0))"
    and "valid_event \<lparr>evt_event_id = drawn_id ''evt'' (draw_no s), evt_object_type = ty,
                  evt_object_id = oid, evt_sequence = q, evt_event_type = et,
                  evt_actor = a, evt_request_id = rq, evt_timestamp = clock s (clock_no s),
                  evt_payload = pl\<rparr>"
  shows "append_event ty oid et a rq pl s = (Inr \<lparr>evt_event_id = drawn_id ''evt'' (draw_no s), evt_object_type = ty,
                  evt_object_id = oid, evt_sequence = q, evt_event_type = et,
                  evt_actor = a, evt_request_id = rq, evt_timestamp = clock s (clock_no s),
                  evt_payload = pl\<rparr>, append_line (ty, oid) (Event_line \<lparr>evt_event_id = drawn_id ''evt'' (draw_no s), evt_object_type = ty,
                  evt_object_id = oid, evt_sequence = q, evt_event_type = et,
                  evt_actor = a, evt_request_id = rq, evt_timestamp = clock s (clock_no s),
                  evt_payload = pl\<rparr>) (s\<lparr>draw_no := Suc (draw_no s), clock_no := Suc (clock_no s), fault_no := Suc (fault_no s)\<rparr>))"
proof -
  have n: "next_sequence ty oid s = (Inr q, s)" using assms(2) next_sequence_state [of ty oid s] by (metis prod.collapse)
  show ?thesis unfolding append_event_def Let_def
    using assms by (simp add: run_rules n drawn_ids is_lower_def less_eq_char_def file_rules next_fault_def)
qed

lemma no_stream: "map_of (logs s) (ty, i) = None \<Longrightarrow> fst (next_sequence ty i s) = Inr 1"
  by (simp add: next_sequence_def run_rules)

lemma one_stream:
  "map_of (logs s) (ty, i) = Some [Event_line e] \<Longrightarrow> valid_event e \<Longrightarrow> evt_object_type e = ty \<Longrightarrow> evt_object_id e = i \<Longrightarrow> evt_sequence e = 1
   \<Longrightarrow> fst (next_sequence ty i s) = Inr 2"
  by (simp add: next_sequence_def run_rules list_events_def)

lemma two_stream:
  "map_of (logs s) (ty, i) = Some [Event_line e, Event_line e'] \<Longrightarrow> valid_event e \<Longrightarrow> evt_object_type e = ty \<Longrightarrow> evt_object_id e = i \<Longrightarrow> evt_sequence e = 1
  \<Longrightarrow> valid_event e' \<Longrightarrow> evt_object_type e' = ty \<Longrightarrow> evt_object_id e' = i \<Longrightarrow> evt_sequence e' = 2
   \<Longrightarrow> fst (next_sequence ty i s) = Inr 3"
  by (simp add: next_sequence_def run_rules list_events_def)

lemma name_eq [simp]: "json_name i = json_name j \<longleftrightarrow> i = j" by (simp add: json_name_def)

end
