(* ===== verification/Fake_Harness.thy ===== *)
theory Fake_Harness
  imports Proposal_Rules Store_Runs
begin

text \<open>
  The deterministic harness, \<open>FakeHarnessAdapter\<close> of \<open>src/agent_scheduler/adapters/harness.py\<close>: it
  derives the facts from the text of the revision and answers reviews from a list. It keeps the
  contract the proposal service relies on. The theorems about the service are applied to a
  conversation with it.
\<close>

section \<open>The adapter\<close>

record fake_harness =
  fh_worker_id :: string
  fh_container_name :: string
  fh_submitter_username :: string
  fh_container_user :: string
  fh_image_digest :: string
  fh_gpu_count :: int

record fake_service = service +
  fh_decisions :: "review_decision list"
  fh_process_calls :: nat
  fh_review_calls :: nat

text \<open>
  \<open>_find_card_count\<close>: the first occurrence of a keyword, an optional separator and one of the
  digits 1, 2, 4, 8 that no word character follows; without one, 1.
\<close>

definition card_keywords :: "string list" where
  "card_keywords = [''gpu'', [CHR 0xE5, CHR 0x8D, CHR 0xA1, CHR 0xE6, CHR 0x95, CHR 0xB0], ''cards'', ''card'']"

definition card_separator :: "string \<Rightarrow> string" where
  "card_separator s =
     (if starts_with '':'' s \<or> starts_with ''='' s then drop 1 s
      else if starts_with [CHR 0xEF, CHR 0xBC, CHR 0x9A] s then drop 3 s else s)"

definition card_digit :: "string \<Rightarrow> int option" where
  "card_digit s = (case s of
      c # r \<Rightarrow> if c \<in> set ''1248'' \<and> (case r of [] \<Rightarrow> True | d # _ \<Rightarrow> \<not> is_word_char d)
               then Some (int (digits_value [c])) else None
    | [] \<Rightarrow> None)"

definition card_at :: "string \<Rightarrow> int option" where
  "card_at s = (case List.map_filter (\<lambda>k. if starts_with k (map lower_ascii s)
        then card_digit (dropWhile is_space (card_separator (dropWhile is_space (drop (length k) s)))) else None)
        card_keywords of [] \<Rightarrow> None | n # _ \<Rightarrow> Some n)"

fun find_card_count :: "string \<Rightarrow> int" where
  "find_card_count [] = 1"
| "find_card_count (c # s) = (case card_at (c # s) of Some n \<Rightarrow> n | None \<Rightarrow> find_card_count s)"

definition fake_artifact :: "string \<Rightarrow> string \<Rightarrow> string \<Rightarrow> string" where
  "fake_artifact dir pid ext = ''/public/share/agent-scheduler-mvp/'' @ dir @ ''/'' @ pid @ ext"

definition launcher_command :: "string \<Rightarrow> string \<Rightarrow> command" where
  "launcher_command output logfile =
     \<lparr>cmd_kind = CONTAINER_PATH_BASH, cmd_script = None, cmd_container_path = Some qualification_launcher,
      cmd_sha256 = Some qualification_launcher_sha256, cmd_argv = [output, logfile]\<rparr>"

definition fake_facts :: "fake_harness \<Rightarrow> string \<Rightarrow> revision \<Rightarrow> int \<Rightarrow> facts" where
  "fake_facts h facts_id rv requested =
     (let host_output = fake_artifact ''outputs'' (rev_proposal_id rv) ''.json'';
          host_log = fake_artifact ''logs'' (rev_proposal_id rv) ''.log''
      in \<lparr>fct_facts_id = facts_id, fct_revision_id = rev_revision_id rv, fct_worker_count = 1,
          fct_gpu_count = fh_gpu_count h, fct_required_gpu_count = requested,
          fct_required_worker_id = fh_worker_id h, fct_container_name = fh_container_name h,
          fct_submitter_username = fh_submitter_username h, fct_container_user = fh_container_user h,
          fct_image_digest = fh_image_digest h, fct_setup = [],
          fct_run = [launcher_command (replace_first ''/public/share'' ''/data'' host_output)
                       (replace_first ''/public/share'' ''/data'' host_log)],
          fct_teardown = [], fct_required_logs = [host_log], fct_required_outputs = [host_output],
          fct_timeout_seconds = 600\<rparr>)"

definition fake_process :: "fake_harness \<Rightarrow> revision \<Rightarrow> ('z fake_service_scheme, facts) prog" where
  "fake_process h rv =
     bindP (updateP (\<lambda>s. s\<lparr>fh_process_calls := Suc (fh_process_calls s)\<rparr>)) (\<lambda>_.
     let requested = find_card_count (rev_markdown rv)
     in bindP (checkP (requested \<le> fh_gpu_count h)
                 (HarnessError ''requested GPU count exceeds worker capacity'')) (\<lambda>_.
        bindP (fresh_id ''facts'') (\<lambda>i.
        let f = fake_facts h i rv requested
        in bindP (checkP (valid_facts f) (ValueError ''validation error for ProposalFacts'')) (\<lambda>_.
           returnP f))))"

definition decision_value :: "review_decision \<Rightarrow> string" where
  "decision_value d = (case d of APPROVE \<Rightarrow> ''APPROVE'' | REQUEST_CHANGES \<Rightarrow> ''REQUEST_CHANGES'' | REJECT \<Rightarrow> ''REJECT'')"

definition fake_review :: "revision \<Rightarrow> facts \<Rightarrow> ('z fake_service_scheme, review) prog" where
  "fake_review rv f =
     bindP (updateP (\<lambda>s. s\<lparr>fh_review_calls := Suc (fh_review_calls s)\<rparr>)) (\<lambda>_.
     bindP (readP (\<lambda>s. case fh_decisions s of [] \<Rightarrow> APPROVE | d # _ \<Rightarrow> d)) (\<lambda>decision.
     bindP (updateP (\<lambda>s. s\<lparr>fh_decisions := tl (fh_decisions s)\<rparr>)) (\<lambda>_.
     bindP (fresh_id ''review'') (\<lambda>i.
     bindP utc_now (\<lambda>now.
     let v = \<lparr>rvw_review_id = i, rvw_proposal_id = rev_proposal_id rv, rvw_revision_id = rev_revision_id rv,
              rvw_decision = decision,
              rvw_rationale = ''Fake reviewer returned '' @ decision_value decision @ '' for the validated smoke task.'',
              rvw_created_at = now\<rparr>
     in bindP (checkP (valid_review v) (ValueError ''validation error for Review'')) (\<lambda>_. returnP v))))))"

lemma fake_harness_same:
  "obeys same_records (fake_process h rv)" "obeys same_records (fake_review rv f)"
  unfolding fake_process_def fake_review_def Let_def
  by (intro same_records.eff_bind same_records.eff_store same_records.eff_update same_records.eff_service
      same_records.eff_read same_records.eff_check same_records.eff_return; simp add: same_records_def)+

section \<open>A service with the fake harness\<close>

definition mvp_harness :: fake_harness where
  "mvp_harness = \<lparr>fh_worker_id = ''worker-local-01'', fh_container_name = ''fh-sglang-deepseek-v4-flash'',
     fh_submitter_username = ''zz_chentian'', fh_container_user = ''root'', fh_image_digest = sample_image,
     fh_gpu_count = 8\<rparr>"

definition toy_service :: "(string, string, 'z fake_service_scheme) collaborators" where
  "toy_service = \<lparr>co_crypto = toy_crypto, co_signing_key = ''key'', co_task_payload = tsk_task_id,
     co_task_bytes = tsk_task_id, co_proposal_dump = (\<lambda>p. [(''proposal_id'', JStr (prp_proposal_id p))]),
     co_process = fake_process mvp_harness, co_review = fake_review\<rparr>"

lemma toy_service_obeys: "harness_obeys same_records toy_service"
  by (simp add: harness_obeys_def toy_service_def fake_harness_same)

definition new_service :: "review_decision list \<Rightarrow> fake_service" where
  "new_service ds =
     \<lparr>clock = (\<lambda>n. int n), clock_no = 0, draws = (\<lambda>n. (int n, 0, 0)), draw_no = 0,
      faults = (\<lambda>_. IO_ok), fault_no = 0, store_root = ''/state'', immutable = [], snapshots = [], logs = [],
      sv_key_id = ''k'', sv_allowed_users = {''zz_chentian''}, sv_max_workers = 1,
      sv_allowed_worker_ids = [''worker-local-01''], sv_policy_version = ''policy-v1'',
      sv_records = [], sv_idempotency = [], sv_exists = (\<lambda>_. {}), sv_exists_no = 0,
      fh_decisions = ds, fh_process_calls = 0, fh_review_calls = 0\<rparr>"

definition good_proposal :: string where
  "good_proposal = ''gpu: 2  '' @ join ''  '' required_headings"

definition user :: string where "user = ''zz_chentian''"

end
