(* ===== verification/Proposal_Samples.thy ===== *)
theory Proposal_Samples
  imports Fake_Harness
begin

text \<open>
  A conversation with the proposal service and the fake harness, evaluated: a proposal is created,
  confirmed, reviewed and compiled into a signed task. The theorems about the service are applied
  to it.
\<close>

section \<open>The proposal and its models\<close>

lemma has_word_contains: "has_word w prev s \<Longrightarrow> contains w s"
  by (induction s arbitrary: prev) auto

lemma contains_append: "contains p s \<Longrightarrow> contains p (a @ s @ b)"
  unfolding contains_iff by (metis append.assoc)

lemma contains_join: "h \<in> set hs \<Longrightarrow> contains h (join sep hs)"
proof (induction hs)
  case (Cons x hs)
  show ?case
  proof (cases "hs = []")
    case False
    then have j: "join sep (x # hs) = x @ sep @ join sep hs" by (cases hs) simp_all
    have self: "contains x x" unfolding contains_iff by (metis append_Nil append_Nil2)
    show ?thesis
    proof (cases "h = x")
      case True
      then show ?thesis using contains_append [OF self, of "[]" "sep @ join sep hs"] by (simp add: j del: join.simps)
    next
      case False
      then have "contains h (join sep hs)" using Cons by simp
      from contains_append [OF this, of "x @ sep" "[]"] show ?thesis by (simp add: j del: join.simps)
    qed
  next
    case True
    have "contains x x" unfolding contains_iff by (metis append_Nil append_Nil2)
    then show ?thesis using Cons True by simp
  qed
qed simp

lemma sample_card_count: "find_card_count good_proposal = 2" 
proof -
  have "card_at good_proposal = Some 2"
    by (simp add: good_proposal_def card_at_def card_keywords_def starts_with_def lower_ascii_def is_upper_def less_eq_char_def
     card_digit_def card_separator_def is_space_def is_word_char_def is_alnum_def is_lower_def is_digit_def digits_value_def byte_def)
  then show ?thesis by (simp add: good_proposal_def)
qed

lemma sample_headings: "filter (\<lambda>h. \<not> contains h good_proposal) required_headings = []"
  unfolding filter_empty_conv good_proposal_def using contains_join contains_append [where b = "[]"] by fastforce

lemma sample_no_tbd: "\<not> has_word ''tbd'' False (map lower_ascii good_proposal)"
proof
  assume "has_word ''tbd'' False (map lower_ascii good_proposal)"
  then have "contains ''tbd'' (map lower_ascii good_proposal)" by (rule has_word_contains)
  then show False by (simp add: good_proposal_def required_headings_def lower_ascii_def is_upper_def less_eq_char_def starts_with_def)
qed

lemma sample_length: "length good_proposal < 500" by (simp add: good_proposal_def required_headings_def)

lemma sample_py_len: "0 < py_len good_proposal" by (simp add: good_proposal_def py_len_def)

lemma user_ok:
  "valid_username user" by (simp add: valid_username_def user_def is_path_char_def is_alnum_def is_lower_def is_upper_def is_digit_def less_eq_char_def)

lemma pid_value: "drawn_id ''prop'' 0 = ''prop_00000000000070008000000000000000''"
  by code_simp

lemmas char_classes = is_path_char_def is_alnum_def is_lower_def is_upper_def is_digit_def is_hex_def less_eq_char_def

definition first_facts :: facts where
  "first_facts = fake_facts mvp_harness (drawn_id ''facts'' 2) \<lparr>rev_revision_id = drawn_id ''rev'' 1,
     rev_proposal_id = drawn_id ''prop'' 0, rev_number = 1, rev_markdown = good_proposal, rev_created_at = 1\<rparr> 2"

lemma launcher_ok: "valid_abs_path qualification_launcher" "valid_sha256 qualification_launcher_sha256"
  by (simp_all add: qualification_launcher_def qualification_launcher_sha256_def valid_sha256_def char_classes)

lemma facts_ok: "valid_facts first_facts"
  by (simp add: first_facts_def valid_facts_def fake_facts_def Let_def drawn_valid is_lower_def less_eq_char_def mvp_harness_def
    sample_image_valid valid_command_def launcher_command_def launcher_ok validate_variant_def background_command_def
    py_len_def valid_username_def char_classes fake_artifact_def pid_value starts_with_def)

lemma facts_adm: "facts_error (new_proposal user c (drawn_id ''prop'' 0)) first_facts = None"
  by (simp add: first_facts_def facts_error_def artifact_error_def new_proposal_def fake_facts_def Let_def 
    mvp_harness_def launcher_command_def fake_artifact_def pid_value starts_with_def user_def)

lemma sample_py_len_le: "py_len good_proposal \<le> 262144"
proof -
  have "py_len good_proposal \<le> length good_proposal" by (simp add: py_len_def)
  with sample_length show ?thesis by linarith
qed

lemma service_rules:
  "path_absent x s = (Inr (x \<notin> sv_exists s (sv_exists_no s)), s\<lparr>sv_exists_no := Suc (sv_exists_no s)\<rparr>)"
  "get_record pid s = (case map_of (sv_records s) pid of
      None \<Rightarrow> (Inl (ProposalError ''proposal not found'' ''NOT_FOUND''), s) | Some r \<Rightarrow> (Inr r, s))"
  by (simp_all add: run_rules path_absent_def get_record_def split: option.split)

lemma rev_ok:
  "valid_revision \<lparr>rev_revision_id = drawn_id ''rev'' n, rev_proposal_id = drawn_id ''prop'' m, rev_number = 1, rev_markdown = good_proposal, rev_created_at = t\<rparr>"
  using sample_py_len sample_py_len_le by (simp add: valid_revision_def drawn_valid is_lower_def less_eq_char_def Suc_le_eq)

lemma prop_ok: "valid_proposal (new_proposal user now (drawn_id ''prop'' n))"
  by (simp add: valid_proposal_def new_proposal_def user_ok drawn_valid is_lower_def less_eq_char_def)

lemma size_ok:
  "good_proposal \<noteq> []" "length good_proposal \<le> 256 * 1024" "length good_proposal \<le> 262144" using sample_length sample_py_len by (auto simp: py_len_def)

lemma toy_sel [simp]: "co_process toy_service = fake_process mvp_harness" "co_review toy_service = fake_review"
  "co_crypto toy_service = toy_crypto" "co_signing_key toy_service = ''key''" "co_task_payload toy_service = tsk_task_id"
  "co_task_bytes toy_service = tsk_task_id" "co_proposal_dump toy_service = (\<lambda>p. [(''proposal_id'', JStr (prp_proposal_id p))])"
  by (simp_all add: toy_service_def)

lemma mvp_sel [simp]: "fh_gpu_count mvp_harness = 8" by (simp add: mvp_harness_def)

definition first_revision :: revision where
  "first_revision = \<lparr>rev_revision_id = drawn_id ''rev'' (Suc 0),
     rev_proposal_id = drawn_id ''prop'' 0, rev_number = 1, rev_markdown = good_proposal, rev_created_at = 1\<rparr>"

lemma new_proposal_sel [simp]: "prp_proposal_id (new_proposal u n i) = i" "prp_state (new_proposal u n i) = P_CLARIFYING"
  "prp_username (new_proposal u n i) = u"  "prp_review_count (new_proposal u n i) = 0"  "prp_processor_rounds (new_proposal u n i) = 1"
  "prp_expires_at (new_proposal u n i) = n + days 7"
  by (simp_all add: new_proposal_def)

lemma facts_fold:
  "fake_facts mvp_harness (drawn_id ''facts'' 2) first_revision 2 = first_facts" by (simp add: first_facts_def first_revision_def )

lemma first_facts_sel [simp]: "fct_facts_id first_facts = drawn_id ''facts'' 2" 
  "fct_required_outputs first_facts = [fake_artifact ''outputs'' (drawn_id ''prop'' 0) ''.json'']"
  "fct_required_logs first_facts = [fake_artifact ''logs'' (drawn_id ''prop'' 0) ''.log'']"
  by (simp_all add: first_facts_def fake_facts_def Let_def )

lemma first_revision_sel [simp]:
  "rev_revision_id first_revision = drawn_id ''rev'' (Suc 0)" "rev_markdown first_revision = good_proposal"
  "rev_proposal_id first_revision = drawn_id ''prop'' 0"  "rev_number first_revision = 1"
  by (simp_all add: first_revision_def)

lemma hash_ok [simp]: "valid_sha256 (request_hash toy_service r)"
  by (simp add: request_hash_def toy_crypto_def valid_sha256_def is_hex_def less_eq_char_def list_all_iff)

definition waiting :: proposal where
  "waiting = new_proposal user 0 (drawn_id ''prop'' 0)
                          \<lparr>prp_state := P_AWAITING_CONFIRMATION,
                             prp_current_revision_id :=
                               Some (drawn_id ''rev'' (Suc 0)),
                             prp_current_facts_id :=
                               Some (drawn_id ''facts'' 2),
                             prp_updated_at := 3,
                             prp_submitter_deadline :=
                               Some (2 + minutes 30)\<rparr>"

lemma waiting_sel [simp]: "prp_proposal_id waiting = drawn_id ''prop'' 0" by (simp add: waiting_def)

abbreviation toy :: "(string, string, fake_service) collaborators" where "toy \<equiv> toy_service"

definition create_key :: idempotency_record where
  "create_key = \<lparr>idm_username = user, idm_operation = ''create'', idm_key = ''k1'',
   idm_request_hash = request_hash toy [(''markdown'', JStr good_proposal)],
   idm_object_id = drawn_id ''prop'' 0, idm_response = [(''proposal_id'', JStr (drawn_id ''prop'' 0))]\<rparr>"

definition created_event :: event where
  "created_event = \<lparr>evt_event_id = drawn_id ''evt'' 4,
   evt_object_type = ''proposals'', evt_object_id = drawn_id ''prop'' 0, evt_sequence = 1,
   evt_event_type = ''CREATED'', evt_actor = user, evt_request_id = ''r1'', evt_timestamp = 4,
   evt_payload = [(''revision_id'', JStr (drawn_id ''rev'' (Suc 0))), (''facts_id'', JStr (drawn_id ''facts'' 2))]\<rparr>"

definition created_service :: "review_decision list \<Rightarrow> fake_service" where
  "created_service ds = \<lparr>clock = int, clock_no = 5,
   draws = \<lambda>n. (int n, 0, 0), draw_no = 5,
   faults = \<lambda>_. IO_ok, fault_no = 6, store_root = ''/state'',
   immutable =
     [((''revisions'', json_name (drawn_id ''rev'' (Suc 0))), O_revision first_revision),
      ((''facts'', json_name (drawn_id ''facts'' 2)), O_facts first_facts),
      ((''proposal-states'', json_name (drawn_id ''prop_state'' 3)), O_proposal waiting),
      ((''idempotency'', json_name (idempotency_file toy user ''create'' ''k1'')), O_idempotency create_key)],
   snapshots = [((''proposals'', json_name (drawn_id ''prop'' 0)), O_proposal waiting)],
   logs = [((''proposals'', drawn_id ''prop'' 0), [Event_line created_event])],
   sv_key_id = ''k'', sv_allowed_users = {user}, sv_max_workers = 1,
   sv_allowed_worker_ids = [''worker-local-01''], sv_policy_version = ''policy-v1'',
   sv_records = [(drawn_id ''prop'' 0, \<lparr>rc_proposal = waiting, rc_revisions = [(drawn_id ''rev'' (Suc 0), first_revision)],
      rc_facts = [(drawn_id ''facts'' 2, first_facts)], rc_reviews = [], rc_task = None\<rparr>)],
   sv_idempotency = [((user, ''create'', ''k1''), create_key)],
   sv_exists = \<lambda>_. {}, sv_exists_no = 2, fh_decisions = ds, fh_process_calls = Suc 0, fh_review_calls = 0\<rparr>"

lemma create_runs:
  "create toy user good_proposal ''k1'' ''r1'' (new_service ds) = (Inr waiting, created_service ds)"
  apply (simp add: Suc_Suc_0 create_def check_user_def validate_size_def run_rules idempotent_result_def size_ok)
  apply (simp add: Suc_Suc_0 new_service_def user_def[symmetric])
  unfolding create_new_def
  apply (simp add: Suc_Suc_0 run_rules file_rules service_rules fresh_ids prop_ok Let_def make_revision_def rev_ok[simplified] write_immutable_def first_revision_def[symmetric])
  apply (simp add: Suc_Suc_0 fake_process_def run_rules Let_def sample_card_count fresh_ids file_rules service_rules facts_fold facts_ok)
  apply (simp add: Suc_Suc_0 validate_facts_def facts_adm run_rules file_rules service_rules)
  apply (simp add: Suc_Suc_0 created_def run_rules Let_def write_immutable_def file_rules alter_def put_proposal_def persist_proposal_def fresh_ids write_snapshot_def announce_def waiting_def[symmetric])
  apply (simp add: Suc_Suc_0 append_event_run no_stream valid_event_def ids_ok append_line_def save_idempotency_def Let_def run_rules file_rules service_rules valid_idempotency_def write_immutable_def)
  apply (simp add: Suc_Suc_0 created_service_def created_event_def create_key_def)
  done

lemma created_event_ok [simp]:
  "valid_event created_event" "evt_object_type created_event = ''proposals''" "evt_object_id created_event = drawn_id ''prop'' 0" "evt_sequence created_event = 1"
  by (simp_all add: created_event_def valid_event_def ids_ok)

lemma not_expired: "expired 5 waiting = False" by (simp add: expired_def waiting_def days_def minutes_def)

lemma waiting_sel2 [simp]:
  "prp_username waiting = user" "prp_state waiting = P_AWAITING_CONFIRMATION" "prp_current_revision_id waiting = Some (drawn_id ''rev'' (Suc 0))"
  "prp_current_facts_id waiting = Some (drawn_id ''facts'' 2)" "prp_review_count waiting = 0"
  by (simp_all add: waiting_def)

lemma review_ready:
  "validate_review_ready good_proposal s = (Inr (), s)" by (simp add: validate_review_ready_def Let_def run_rules sample_headings sample_no_tbd)

lemma op_neq [simp]: "operation_of ''confirm'' i \<noteq> ''create''" by (simp add: operation_of_def)

definition in_review :: proposal where
  "in_review = waiting\<lparr>prp_state := P_IN_REVIEW, prp_review_count := 1, prp_updated_at := 6, prp_submitter_deadline := None\<rparr>"

definition first_review :: review where
  "first_review = \<lparr>rvw_review_id = drawn_id ''review'' 7,
   rvw_proposal_id = drawn_id ''prop'' 0, rvw_revision_id = drawn_id ''rev'' (Suc 0), rvw_decision = APPROVE,
   rvw_rationale = ''Fake reviewer returned '' @ decision_value APPROVE @ '' for the validated smoke task.'', rvw_created_at = 8\<rparr>"

lemma in_review_sel [simp]: "prp_proposal_id in_review = drawn_id ''prop'' 0" "prp_state in_review = P_IN_REVIEW"
   "prp_processor_rounds in_review = 1"
  by (simp_all add: in_review_def waiting_def)

lemma first_review_sel [simp]: "rvw_review_id first_review = drawn_id ''review'' 7"
   "rvw_decision first_review = APPROVE"
  by (simp_all add: first_review_def)

lemma first_review_ok: "valid_review first_review"
  by (simp add: valid_review_def first_review_def ids_ok decision_value_def py_len_def)

definition confirmed_event :: event where
  "confirmed_event = \<lparr>evt_event_id = drawn_id ''evt'' 6, evt_object_type = ''proposals'', evt_object_id = drawn_id ''prop'' 0, evt_sequence = 2, evt_event_type = ''REVISION_CONFIRMED'',
      evt_actor = user, evt_request_id = ''r2'', evt_timestamp = 7, evt_payload = [(''revision_id'', JStr (drawn_id ''rev'' (Suc 0)))]\<rparr>"

definition first_context :: compilation_context where
  "first_context = \<lparr>ctx_task_id = drawn_id ''task'' 9, ctx_execution_id = drawn_id ''exec'' 10, ctx_proposal_id = drawn_id ''prop'' 0,
           ctx_revision_id = drawn_id ''rev'' (Suc 0), ctx_facts_id = drawn_id ''facts'' 2,
           ctx_review_id = drawn_id ''review'' 7, ctx_created_at = 10, ctx_key_id = ''k'',
           ctx_policy_version = ''policy-v1'', ctx_max_workers = 1,
           ctx_allowed_worker_ids = [''worker-local-01''],
           ctx_allowed_container = (''worker-local-01'', ''fh-sglang-deepseek-v4-flash'', ''zz_chentian''),
           ctx_allowed_image_digest = sample_image\<rparr>"

lemma first_facts_sel2 [simp]:
  "fct_required_worker_id first_facts = ''worker-local-01''" "fct_image_digest first_facts = sample_image"
 by (simp_all add: first_facts_def fake_facts_def Let_def mvp_harness_def)

lemma first_context_ok: "valid_context first_context"
  by (simp add: first_context_def valid_context_def ids_ok)

lemma first_context_sel [simp]: "ctx_task_id first_context = drawn_id ''task'' 9" by (simp add: first_context_def)

lemma task_tail: "after_underscore (drawn_id ''task'' n) = Some (hex_pad 32 (uuid7 (int n) 0 0))"
  by (simp add: after_underscore_def drawn_id_def)

definition first_task :: task where
  "first_task = sign_model toy_crypto (task_integrity tsk_task_id) ''key'' (unsigned_task first_revision first_facts first_review first_context (hex_pad 32 (uuid7 9 0 0)))"

lemma first_bound: "bound_inputs first_revision first_facts first_review first_context"
  by (simp add: bound_inputs_def first_revision_def first_context_def first_review_def first_facts_def fake_facts_def Let_def )

lemma first_policy: "allowed_by_policy first_facts first_context"
  by (simp add: allowed_by_policy_def first_context_def first_facts_def fake_facts_def Let_def  mvp_harness_def)

lemma task_runs:
  "compile_task toy_crypto tsk_task_id first_revision first_facts first_review first_context ''key'' = Inr first_task"
proof -
  have "valid_task (unsigned_task first_revision first_facts first_review first_context (hex_pad 32 (uuid7 9 0 0)))"
    using valid_unsigned [OF facts_ok first_context_ok first_bound, of "hex_pad 32 (uuid7 9 0 0)"]
    by (simp add: task_tail labels_ok_def first_context_def py_len_def del: hex_pad.simps)
  then show ?thesis using first_bound first_policy
    by (simp add: compile_task_def bound_inputs_def allowed_by_policy_def task_tail first_task_def Let_def del: hex_pad.simps) 
qed

lemma first_task_sel [simp]:
  "tsk_task_id first_task = drawn_id ''task'' 9" "tsk_execution_id first_task = drawn_id ''exec'' 10"
  by (simp_all add: first_task_def sign_model_def task_integrity_def Let_def unsigned_task_def first_context_def)

lemma canonical_neq [simp]: "canonical_name i \<noteq> json_name i" "json_name i \<noteq> canonical_name i"
  by (simp_all add: canonical_name_def json_name_def)

lemma confirmed_event_ok [simp]:
  "valid_event confirmed_event" "evt_object_type confirmed_event = ''proposals''" "evt_object_id confirmed_event = drawn_id ''prop'' 0" "evt_sequence confirmed_event = 2"
  by (simp_all add: confirmed_event_def valid_event_def ids_ok)

lemma confirm_runs:
  "\<exists>t r. confirm toy (drawn_id ''prop'' 0) user (drawn_id ''rev'' (Suc 0)) ''k2'' ''r2'' (created_service []) = (Inr first_task, t) \<and>
   draw_no t = 14 \<and> draws t = (\<lambda>n. (int n, 0, 0)) \<and> faults t = (\<lambda>_. IO_ok) \<and>
   map_of (immutable t) (''tasks'', json_name (drawn_id ''task'' 9)) = Some (O_task first_task) \<and>
   (\<forall>x. map_of (immutable t) (''task-status-history'', x) = None) \<and> (\<exists>e. map_of (logs t) (''tasks'', drawn_id ''task'' 9) = Some [Event_line e] \<and> valid_event e \<and>
     evt_object_type e = ''tasks'' \<and> evt_object_id e = drawn_id ''task'' 9 \<and> evt_sequence e = 1) \<and>
   map_of (sv_records t) (drawn_id ''prop'' 0) = Some r \<and> rc_task r = Some first_task \<and> state_of r = P_COMPILED"
  apply (simp add: Suc_Suc_0 created_service_def confirm_def check_user_def check_owner_def check_lifetime_def idempotent_result_def run_rules file_rules service_rules not_expired)
  unfolding confirm_revision_def
  apply (simp add: Suc_Suc_0 run_rules file_rules service_rules lookupP_def review_ready Let_def)
  apply (simp add: Suc_Suc_0 put_proposal_def alter_def run_rules file_rules service_rules persist_proposal_def fresh_ids write_immutable_def write_snapshot_def announce_def prefix_neq in_review_def[symmetric]
    append_event_run one_stream event_ok ids_ok append_line_def)
  unfolding review_revision_def
  apply (simp add: Suc_Suc_0 run_rules fake_review_def file_rules fresh_ids Let_def write_immutable_def alter_def first_review_def[symmetric, simplified] first_review_ok confirmed_event_def [symmetric])
  unfolding compile_approved_def
  apply (simp add: Suc_Suc_0 run_rules file_rules service_rules Let_def move_to_def put_proposal_def alter_def persist_proposal_def fresh_ids write_immutable_def write_snapshot_def make_context_def first_context_def[symmetric] first_context_ok prefix_neq)
  apply (simp add: task_runs)
  unfolding compiled_def store_task_def
  apply (simp add: Suc_Suc_0 run_rules file_rules service_rules Let_def move_to_def put_proposal_def alter_def persist_proposal_def fresh_ids write_immutable_def write_immutable_bytes_def write_snapshot_def prefix_neq)
  apply (simp add: Suc_Suc_0 announce_def append_event_run two_stream no_stream event_ok ids_ok append_line_def save_idempotency_def Let_def run_rules file_rules service_rules valid_idempotency_def write_immutable_def idempotency_file_def)
  done

section \<open>The theorems at the conversation\<close>

definition first_pid :: string where "first_pid = drawn_id ''prop'' 0"

definition confirmed_service :: fake_service where
  "confirmed_service = snd (confirm toy first_pid user (drawn_id ''rev'' (Suc 0)) ''k2'' ''r2'' (created_service []))"

lemma confirmed:
  "draw_no confirmed_service = 14" "faults confirmed_service = (\<lambda>_. IO_ok)"
  "map_of (immutable confirmed_service) (''tasks'', json_name (drawn_id ''task'' 9)) = Some (O_task first_task)"
  "map_of (immutable confirmed_service) (''task-status-history'', x) = None"
  "\<exists>e. map_of (logs confirmed_service) (''tasks'', drawn_id ''task'' 9) = Some [Event_line e] \<and> valid_event e \<and>
     evt_object_type e = ''tasks'' \<and> evt_object_id e = drawn_id ''task'' 9 \<and> evt_sequence e = 1"
  "draws confirmed_service = (\<lambda>n. (int n, 0, 0))"
  "confirm toy first_pid user (drawn_id ''rev'' (Suc 0)) ''k2'' ''r2'' (created_service []) = (Inr first_task, confirmed_service)"
  "\<exists>r. record_of confirmed_service first_pid = Some r \<and> rc_task r = Some first_task \<and> state_of r = P_COMPILED"
  using confirm_runs by (auto simp: confirmed_service_def first_pid_def record_of_def)

lemma sample_draw: "proposal_draw (new_service ds) n = Inr (drawn_id ''prop'' n)"
  using drawn_ids [of "(new_service ds)\<lparr>draw_no := n\<rparr>" "''prop''"]
  by (simp add: proposal_draw_def fresh_id_def new_service_def is_lower_def less_eq_char_def)

lemma sample_ahead: "k \<le> 20 \<Longrightarrow> ids_ahead k (new_service ds)"
  by (auto simp: ids_ahead_def sample_draw prefix_neq record_of_def) (simp add: new_service_def)

lemma sample_serves:
  "serves toy (new_service ds) (created_service ds)" "serves toy (new_service []) confirmed_service"
  "serves toy (created_service []) confirmed_service"
proof -
  show a: "serves toy (new_service ds) (created_service ds)" for ds
    using serves.create [OF serves.here [of toy "new_service ds"], of user good_proposal "''k1''" "''r1''"]
    by (simp add: create_runs)
  show "serves toy (new_service []) confirmed_service" "serves toy (created_service []) confirmed_service"
    unfolding confirmed_service_def by (rule serves.confirm [OF a], rule serves.confirm [OF serves.here])
qed

lemma sample_start_empty: "sv_records (new_service ds) = []"
  by (simp add: new_service_def)

lemma sample_created: "record_of (created_service ds) first_pid = Some \<lparr>rc_proposal = waiting,
    rc_revisions = [(drawn_id ''rev'' (Suc 0), first_revision)], rc_facts = [(drawn_id ''facts'' 2, first_facts)],
    rc_reviews = [], rc_task = None\<rparr>" "draw_no (created_service ds) = 5"
  by (simp_all add: record_of_def first_pid_def created_service_def)




theorem task_never_changes_witness:
  "\<exists>r. record_of (snd (retry_compilation toy first_pid ''admin'' ''r3'' confirmed_service)) first_pid = Some r \<and>
     rc_task r = Some first_task"
proof -
  let ?u = "snd (retry_compilation toy first_pid ''admin'' ''r3'' confirmed_service)"
  obtain r where r: "record_of confirmed_service first_pid = Some r" "rc_task r = Some first_task" "state_of r = P_COMPILED"
    using confirmed(8) by blast
  have "serves toy confirmed_service ?u" by (rule serves.retry [OF serves.here])
  moreover have "?u = confirmed_service"
    using r by (simp add: retry_compilation_def run_rules file_rules service_rules record_of_def)
  then have "draw_no ?u \<le> 20" using confirmed(1) by simp
  ultimately show ?thesis
    using task_never_changes [OF toy_service_obeys sample_ahead sample_start_empty sample_serves(2) r(1,2)] by blast
qed

end
