(* ===== verification/Scheduler_Recovery.thy ===== *)
theory Scheduler_Recovery
  imports Scheduler_System Stored_Models Store_Runs
begin

text \<open>
  The start of the scheduler: \<open>__init__\<close> and \<open>_load\<close> of \<open>src/agent_scheduler/scheduler/core.py\<close>,
  which rebuild the tables from the store after a crash at any point. Proved: the fencing epochs
  of the store are never used again, and what ran before is stopped for reconciliation.
\<close>

section \<open>Definitions\<close>

definition active :: "task_state set" where
  "active = {T_PREPARING, T_RESERVED, T_DISPATCHED, T_STARTING, T_RUNNING, T_FINALIZING}"

text \<open>Workers come back offline, their devices unknown.\<close>

definition unknown_gpu :: "gpu_snapshot \<Rightarrow> gpu_snapshot" where
  "unknown_gpu g = g\<lparr>gpu_state_of := G_UNKNOWN\<rparr>"

definition offline_worker :: "worker_snapshot \<Rightarrow> worker_snapshot" where
  "offline_worker w = w\<lparr>wkr_online := False, wkr_gpus := map unknown_gpu (wkr_gpus w)\<rparr>"

definition load_workers :: "('z sched_scheme, unit) prog" where
  "load_workers =
     bindP (each_snapshot ''workers'' (\<lambda>d. bindP (liftE (as_worker d)) (\<lambda>w.
       updateP (\<lambda>s. s\<lparr>sc_workers := AList.update (wkr_worker_id w) (offline_worker w) (sc_workers s)\<rparr>))))
       (\<lambda>_. returnP ())"

definition load_tasks :: "('z sched_scheme, unit) prog" where
  "load_tasks =
     bindP (each_immutable ''tasks'' (\<lambda>d. bindP (liftE (as_task d)) (\<lambda>t.
       updateP (\<lambda>s. s\<lparr>sc_tasks := AList.update (tsk_task_id t) t (sc_tasks s)\<rparr>))))
       (\<lambda>_. returnP ())"

text \<open>The latest status of each task, and its first one.\<close>

definition latest_status ::
  "task_status \<Rightarrow> (string, task_status) dict \<Rightarrow> (string, task_status) dict" where
  "latest_status x d = (case map_of d (sts_task_id x) of
      None \<Rightarrow> AList.update (sts_task_id x) x d
    | Some prior \<Rightarrow>
        if sts_updated_at x \<ge> sts_updated_at prior then AList.update (sts_task_id x) x d else d)"

definition first_status ::
  "task_status \<Rightarrow> (string, task_status) dict \<Rightarrow> (string, task_status) dict" where
  "first_status x d = (case map_of d (sts_task_id x) of
      None \<Rightarrow> AList.update (sts_task_id x) x d
    | Some prior \<Rightarrow>
        if sts_updated_at x < sts_updated_at prior then AList.update (sts_task_id x) x d else d)"

text \<open>A task that was under way must be reconciled.\<close>

definition recover_status ::
  "string \<times> task_status \<Rightarrow> ('z sched_scheme, string \<times> task_status) prog" where
  "recover_status = (\<lambda>(task_id, status).
     if sts_state status \<in> active then
       bindP utc_now (\<lambda>now.
       let reconciled = status\<lparr>sts_state := T_RECONCILIATION_REQUIRED, sts_updated_at := now,
             sts_failure_reason := Some ''MASTER_RESTART_DURING_ACTIVE_EXECUTION''\<rparr>
       in bindP (persist_status reconciled) (\<lambda>_.
          bindP (fresh_id ''request'') (\<lambda>rq.
          bindP (append_event ''tasks'' task_id ''RECONCILIATION_REQUIRED'' ''master-recovery'' rq
                   [(''previous_state'', JStr (task_value (sts_state status)))]) (\<lambda>_.
          returnP (task_id, reconciled)))))
     else returnP (task_id, status))"

definition requeue :: "task_status \<Rightarrow> 'z sched_scheme \<Rightarrow> 'z sched_scheme" where
  "requeue status s = (case map_of (sc_tasks s) (sts_task_id status) of
      None \<Rightarrow> s
    | Some t \<Rightarrow>
        if sts_state status = T_QUEUED then
          s\<lparr>sc_queue := AList.update (tsk_task_id t)
              \<lparr>qd_task = t, qd_status = status, qd_enqueued_at = sts_updated_at status,
               qd_aging_started_at = sts_updated_at status\<rparr> (sc_queue s)\<rparr>
        else s)"

definition load_statuses :: "('z sched_scheme, unit) prog" where
  "load_statuses =
     bindP (each_snapshot ''task-status'' (\<lambda>d. liftE (as_status d))) (\<lambda>snaps.
     bindP (read_models ''task-status-history'' as_status) (\<lambda>history.
     bindP (updateP (\<lambda>s. s\<lparr>sc_initial_statuses := fold first_status history []\<rparr>)) (\<lambda>_.
     bindP (forP (fold latest_status history
                    (fold (\<lambda>x. AList.update (sts_task_id x) x) snaps [])) recover_status) (\<lambda>latest.
     bindP (updateP (\<lambda>s. s\<lparr>sc_statuses := latest\<rparr>)) (\<lambda>_.
     updateP (fold requeue (dvalues latest)))))))"

text \<open>\<open>self._epochs[resource] = max(self._epochs.get(resource, 0), epoch)\<close> for each resource.\<close>

definition resource_names :: "int list \<Rightarrow> string \<Rightarrow> string list" where
  "resource_names gpu_ids container = map gpu_resource gpu_ids @ [container_resource container]"

definition raise_epoch :: "resource \<Rightarrow> int \<Rightarrow> (resource \<rightharpoonup> int) \<Rightarrow> resource \<rightharpoonup> int" where
  "raise_epoch r epoch m = m(r \<mapsto> max (case m r of None \<Rightarrow> 0 | Some e \<Rightarrow> e) epoch)"

definition raise_epochs :: "string \<Rightarrow> string list \<Rightarrow> int \<Rightarrow> 'z sched_scheme \<Rightarrow> 'z sched_scheme" where
  "raise_epochs w resources epoch s =
     s\<lparr>sc_epochs := fold (\<lambda>r. raise_epoch (w, r) epoch) resources (sc_epochs s)\<rparr>"

definition load_plan :: "obj \<Rightarrow> ('z sched_scheme, unit) prog" where
  "load_plan d =
     bindP (liftE (as_plan d)) (\<lambda>p.
     bindP (updateP (\<lambda>s. s\<lparr>sc_plans := AList.update (pln_plan_id p) p (sc_plans s)\<rparr>)) (\<lambda>_.
     updateP (raise_epochs (pln_worker_id p) (resource_names (pln_gpu_ids p) (pln_container_name p))
       (pln_lease_epoch p))))"

definition load_plans :: "('z sched_scheme, unit) prog" where
  "load_plans = bindP (each_immutable ''plans'' load_plan) (\<lambda>_. returnP ())"

text \<open>\<open>data["lease"]\<close> and \<open>data.get("action")\<close> of an entry of the lease history.\<close>

fun lease_entry :: "obj \<Rightarrow> exn + string \<times> lease" where
  "lease_entry (O_lease_event action at_time l) =
     (if valid_lease l then Inr (action, l) else invalid ''ResourceLease'')"
| "lease_entry _ = Inl (KeyError ''lease'')"

definition replay_lease :: "obj \<Rightarrow> ('z sched_scheme, unit) prog" where
  "replay_lease d =
     bindP (liftE (lease_entry d)) (\<lambda>(action, l).
     bindP (updateP (raise_epochs (lse_worker_id l) (resource_names (lse_gpu_ids l) (lse_container_name l))
              (lse_lease_epoch l))) (\<lambda>_.
     if action \<in> {''HELD'', ''COMMITTED''} then
       updateP (\<lambda>s. s\<lparr>sc_leases := AList.update (lse_lease_id l) l (sc_leases s)\<rparr>)
     else if action = ''RELEASED'' then
       updateP (\<lambda>s. s\<lparr>sc_leases := AList.delete (lse_lease_id l) (sc_leases s)\<rparr>)
     else raiseP (SchedulingError ''unknown Lease history action'')))"

definition load_lease :: "obj \<Rightarrow> ('z sched_scheme, unit) prog" where
  "load_lease d =
     bindP (liftE (as_lease d)) (\<lambda>l.
     updateP (\<lambda>s. s\<lparr>sc_leases := AList.update (lse_lease_id l) l (sc_leases s)\<rparr>))"

definition load_leases :: "('z sched_scheme, unit) prog" where
  "load_leases =
     bindP (each_snapshot ''leases'' load_lease) (\<lambda>_.
     bindP (each_immutable ''lease-history'' replay_lease) (\<lambda>_. returnP ()))"

definition load_scheduler :: "('z sched_scheme, unit) prog" where
  "load_scheduler =
     bindP load_workers (\<lambda>_. bindP load_tasks (\<lambda>_. bindP load_statuses (\<lambda>_.
     bindP load_plans (\<lambda>_. load_leases))))"

text \<open>\<open>__init__\<close>: the production threshold may only be raised by the qualification profile.\<close>

definition start_scheduler ::
  "string \<Rightarrow> rat \<Rightarrow> int set \<Rightarrow> bool \<Rightarrow> ('z sched_scheme, unit) prog" where
  "start_scheduler key_id vram_threshold authorized_gpu_ids qualification_profile =
     bindP (checkP (\<not> (vram_threshold > 2 \<and> \<not> qualification_profile))
       (ValueError ''VRAM threshold above production default requires qualification profile'')) (\<lambda>_.
     bindP (updateP (\<lambda>s. s\<lparr>sc_key_id := key_id, sc_vram_threshold := vram_threshold,
       sc_authorized_gpu_ids := authorized_gpu_ids, sc_qualification_profile := qualification_profile,
       sc_workers := [], sc_queue := [], sc_leases := [], sc_holds := {}, sc_epochs := Map.empty,
       sc_tasks := [], sc_statuses := [], sc_initial_statuses := [], sc_plans := [],
       sc_cancel_requested := {}\<rparr>)) (\<lambda>_.
     load_scheduler))"

section \<open>Epochs\<close>

text \<open>What starting keeps: files that exist, epochs once raised, the empty set of holds.\<close>

definition recovers :: "'z sched_scheme \<Rightarrow> 'z sched_scheme \<Rightarrow> bool" where
  "recovers s t \<longleftrightarrow> epochs_grow s t \<and> sc_holds t = sc_holds s \<and>
     (\<forall>k v. map_of (immutable s) k = Some v \<longrightarrow> map_of (immutable t) k = Some v)"

lemma epochs_grow_same: "sc_epochs t = sc_epochs s \<Longrightarrow> epochs_grow s t"
  by (auto simp: epochs_grow_def)

interpretation recovers: world_effect recovers
proof unfold_locales
  fix s t u :: "'a sched_scheme"
  show "recovers s s" by (simp add: recovers_def epochs_grow_same)
  assume "recovers s t" "recovers t u"
  then show "recovers s u" unfolding recovers_def using epochs_grow_trans by metis
qed (auto simp: recovers_def epochs_grow_same append_line_def dupdate_lookup)

lemma fold_raise_epoch:
  "r \<in> set rs \<Longrightarrow> \<exists>e'. fold (\<lambda>r. raise_epoch (w, r) e) rs m (w, r) = Some e' \<and> e \<le> e'"
  "m q = Some e0 \<Longrightarrow> \<exists>e'. fold (\<lambda>r. raise_epoch (w, r) e) rs m q = Some e' \<and> e0 \<le> e'"
proof -
  show keep: "m q = Some e0 \<Longrightarrow> \<exists>e'. fold (\<lambda>r. raise_epoch (w, r) e) rs m q = Some e' \<and> e0 \<le> e'" for m q e0 rs
  proof (induction rs arbitrary: m e0)
    case (Cons r rs)
    then have "\<exists>e1. raise_epoch (w, r) e m q = Some e1 \<and> e0 \<le> e1" by (auto simp: raise_epoch_def)
    then show ?case using Cons.IH order_trans by fastforce
  qed simp
  show "r \<in> set rs \<Longrightarrow> \<exists>e'. fold (\<lambda>r. raise_epoch (w, r) e) rs m (w, r) = Some e' \<and> e \<le> e'"
  proof (induction rs arbitrary: m)
    case (Cons x rs)
    show ?case
    proof (cases "x = r")
      case True
      then have "\<exists>e1. raise_epoch (w, x) e m (w, r) = Some e1 \<and> e \<le> e1" by (simp add: raise_epoch_def)
      then show ?thesis using keep order_trans by fastforce
    qed (use Cons in auto)
  qed simp
qed

definition floor_epoch :: "'z sched_scheme \<Rightarrow> resource \<Rightarrow> int \<Rightarrow> bool" where
  "floor_epoch s r e \<longleftrightarrow> (\<exists>e'. sc_epochs s r = Some e' \<and> e \<le> e')"

lemma raise_epochs_floor: "r \<in> set rs \<Longrightarrow> floor_epoch (raise_epochs w rs e s) (w, r) e"
  by (simp add: floor_epoch_def raise_epochs_def fold_raise_epoch)

lemma floor_recovers: "floor_epoch s r e \<Longrightarrow> recovers s t \<Longrightarrow> floor_epoch t r e"
  unfolding floor_epoch_def recovers_def epochs_grow_def by (meson order_trans)

lemma recovers_raise: "recovers s (raise_epochs w rs e s)"
  using fold_raise_epoch(2) [of "sc_epochs s"] by (auto simp: recovers_def epochs_grow_def raise_epochs_def) metis

lemma recovers_eqs:
  "recovers s (s\<lparr>sc_plans := a\<rparr>)" "recovers s (s\<lparr>sc_leases := b\<rparr>)" "recovers s (s\<lparr>sc_workers := c\<rparr>)"
  "recovers s (s\<lparr>sc_tasks := d\<rparr>)" "recovers s (s\<lparr>sc_statuses := f\<rparr>)"
  "recovers s (s\<lparr>sc_initial_statuses := f\<rparr>)" "recovers s (s\<lparr>sc_queue := q\<rparr>)"
  by (simp_all add: recovers_def epochs_grow_same)

lemma recovers_update: "(\<And>s. recovers s (f s)) \<Longrightarrow> obeys recovers (updateP f)"
  by (simp add: obeys_def)

lemma recovers_requeue: "recovers s (fold requeue xs s)"
proof (induction xs arbitrary: s)
  case Nil
  show ?case by (simp add: recovers.effect_refl)
next
  case (Cons x xs)
  have "recovers s (requeue x s)"
    by (simp add: requeue_def recovers_eqs recovers.effect_refl split: option.split)
  then show ?case using Cons.IH recovers.effect_trans by fastforce
qed

lemma recovers_parts:
  "obeys recovers (load_plan d)" "obeys recovers (replay_lease d)" "obeys recovers load_workers"
  "obeys recovers load_tasks" "obeys recovers (recover_status x)" "obeys recovers load_statuses"
  "obeys recovers (load_lease d)"
proof -
  show plan: "obeys recovers (load_plan d)" for d :: obj
    unfolding load_plan_def
    by (intro recovers.eff_bind recovers.eff_lift recovers_update recovers_raise recovers_eqs)
  show "obeys recovers (load_lease d)"
    unfolding load_lease_def by (intro recovers.eff_bind recovers.eff_lift recovers_update recovers_eqs)
  show "obeys recovers (replay_lease d)"
    unfolding replay_lease_def
    by (intro recovers.eff_bind recovers.eff_lift)
       (auto intro!: recovers.eff_bind recovers_update recovers_raise recovers_eqs recovers.eff_raise)
  show "obeys recovers load_workers" "obeys recovers load_tasks"
    unfolding load_workers_def load_tasks_def
    by (intro recovers.eff_bind recovers.eff_each_snapshot recovers.eff_each_immutable recovers.eff_lift
        recovers_update recovers_eqs recovers.eff_return)+
  show status: "obeys recovers (recover_status x)" for x :: "string \<times> task_status"
    unfolding recover_status_def persist_status_def Let_def
    by (auto split: prod.split intro!: recovers.eff_store)
  show "obeys recovers load_statuses"
    unfolding load_statuses_def
    by (intro recovers.eff_bind recovers.eff_each_snapshot recovers.eff_read_models recovers.eff_lift
        recovers.eff_for status recovers_update recovers_eqs recovers_requeue)
qed

section \<open>Recovered epochs\<close>

text \<open>An epoch that a plan or an entry of the lease history in the store gives to a resource.\<close>

definition recorded_epoch :: "'z sched_scheme \<Rightarrow> resource \<Rightarrow> int \<Rightarrow> bool" where
  "recorded_epoch s r e \<longleftrightarrow>
     (\<exists>i p. valid_id i \<and> map_of (immutable s) (''plans'', json_name i) = Some (O_plan p) \<and>
        fst r = pln_worker_id p \<and> snd r \<in> set (resource_names (pln_gpu_ids p) (pln_container_name p)) \<and>
        e = pln_lease_epoch p) \<or>
     (\<exists>i a n l. valid_id i \<and> map_of (immutable s) (''lease-history'', json_name i) = Some (O_lease_event a n l) \<and>
        fst r = lse_worker_id l \<and> snd r \<in> set (resource_names (lse_gpu_ids l) (lse_container_name l)) \<and>
        e = lse_lease_epoch l)"

lemma valid_id_file:
  assumes "valid_id i"
  shows "\<not> ends_with ''.canonical.json'' (json_name i)"
proof
  assume "ends_with ''.canonical.json'' (json_name i)"
  moreover have long: "34 \<le> length i" using assms by (simp add: valid_id_def)
  moreover have "length (json_name i) - length ''.canonical.json'' = length i - 10" by (simp add: json_name_def)
  ultimately have "drop (length i - 10) (json_name i) = ''.canonical'' @ ''.json''"
    unfolding ends_with_def by (metis append.simps)
  then have "drop (length i - 10) i = ''.canonical''" by (simp add: json_name_def)
  then have "last i = CHR ''l''" using long last_drop [of "length i - 10" i] by simp
  moreover have tail: "tl (drop (length i - 33) i) \<noteq> []"
    using long by (simp flip: length_greater_0_conv)
  moreover have "last i = last (tl (drop (length i - 33) i))"
    using long tail by (subst last_tl) auto
  ultimately have "CHR ''l'' \<in> set (tl (drop (length i - 33) i))" by (metis last_in_set)
  moreover have "list_all is_hex (tl (drop (length i - 33) i))" using assms by (simp add: valid_id_def Let_def)
  ultimately have "is_hex (CHR ''l'')" by (metis list_all_iff)
  then show False by (simp add: is_hex_def less_eq_char_def is_digit_def)
qed

definition loaded :: "string \<Rightarrow> (obj \<Rightarrow> resource \<Rightarrow> int \<Rightarrow> bool) \<Rightarrow> string \<Rightarrow> 'z sched_scheme \<Rightarrow> bool" where
  "loaded ty gives n t \<longleftrightarrow> (\<exists>d. map_of (immutable t) (ty, n) = Some d \<and> (\<forall>r e. gives d r e \<longrightarrow> floor_epoch t r e))"

lemma loaded_recovers: "loaded ty gives n s \<Longrightarrow> recovers s t \<Longrightarrow> loaded ty gives n t"
  unfolding loaded_def by (meson floor_recovers recovers_def)

lemma each_loaded:
  assumes "\<And>d. obeys recovers (body d)" and "\<And>d s t y r e. body d s = (Inr y, t) \<Longrightarrow> gives d r e \<Longrightarrow> floor_epoch t r e"
    and "each_immutable ty body s = (Inr ys, t)" and "map_of (immutable s) (ty, json_name i) = Some d" and "valid_id i"
    and "gives d r e"
  shows "floor_epoch t r e"
proof -
  let ?f = "\<lambda>n. bindP (\<lambda>s. (read_object (ty, n) (map_of (immutable s) (ty, n)), s)) body"
  let ?names = "filter (\<lambda>n. \<not> ends_with ''.canonical.json'' n) (json_files ty (immutable s))"
  have run: "forP ?names ?f s = (Inr ys, t)" using assms(3) by (simp add: each_immutable_def bindP_def)
  have ob: "obeys recovers (?f n)" for n
    by (intro recovers.eff_bind assms(1)) (simp add: obeys_def recovers.effect_refl)
  have one: "loaded ty gives n t'" if run1: "?f n s' = (Inr y, t')" for n s' t' y
  proof -
    obtain d' where d': "read_object (ty, n) (map_of (immutable s') (ty, n)) = Inr d'" "body d' s' = (Inr y, t')"
      using run1 unfolding bindP_def by (auto split: sum.splits)
    then have "map_of (immutable s') (ty, n) = Some d'"
      by (auto simp: read_object_def split: option.splits obj.splits)
    then have "map_of (immutable t') (ty, n) = Some d'"
      using obeysD [OF assms(1) d'(2)] by (simp add: recovers_def)
    then show ?thesis using assms(2) [OF d'(2)] by (auto simp: loaded_def)
  qed
  have loop: "loaded ty gives n t'" if "forP ns ?f s' = (Inr zs, t')" "n \<in> set ns" for ns n s' zs t'
    using that
  proof (induction ns arbitrary: s' zs)
    case (Cons x ns)
    obtain y u zs' where 1: "?f x s' = (Inr y, u)" and 2: "forP ns ?f u = (Inr zs', t')"
      using Cons.prems(1) by (auto simp: bindP_def split: prod.splits sum.splits)
    have "recovers u t'" by (rule obeysD [OF recovers.eff_for [OF ob] 2])
    then show ?case using Cons.IH [OF 2] one [OF 1] loaded_recovers Cons.prems(2) by (cases "n = x") auto
  qed simp
  have "json_name i \<in> set (json_files ty (immutable s))"
    using map_of_SomeD [OF assms(4)]
    by (auto simp: json_files_def json_name_def ends_with_def image_iff intro!: bexI [of _ "((ty, json_name i), d)"])
  then have "json_name i \<in> set ?names" using valid_id_file [OF assms(5)] by simp
  from loop [OF run this] obtain d' where "map_of (immutable t) (ty, json_name i) = Some d'" "\<And>r e. gives d' r e \<Longrightarrow> floor_epoch t r e"
    by (auto simp: loaded_def)
  moreover have "recovers s t" by (rule obeysD [OF recovers.eff_for [OF ob] run])
  ultimately show ?thesis using assms(4,6) by (simp add: recovers_def)
qed

lemma load_plan_floor:
  assumes "load_plan d s = (Inr y, t)" and "d = O_plan p" and "r \<in> set (resource_names (pln_gpu_ids p) (pln_container_name p))"
  shows "floor_epoch t (pln_worker_id p, r) (pln_lease_epoch p)"
  using assms raise_epochs_floor
  by (auto simp: load_plan_def bindP_def liftE_def validated_def invalid_def split: if_splits)

lemma replay_lease_floor:
  assumes "replay_lease d s = (Inr y, t)" and "d = O_lease_event a n l"
    and "r \<in> set (resource_names (lse_gpu_ids l) (lse_container_name l))"
  shows "floor_epoch t (lse_worker_id l, r) (lse_lease_epoch l)"
  using assms raise_epochs_floor [of r "resource_names (lse_gpu_ids l) (lse_container_name l)"]
  by (auto simp: replay_lease_def bindP_def liftE_def invalid_def floor_epoch_def split: if_splits)

lemma bindP_Inr_runs:
  assumes "bindP m f s = (Inr x, t)"
  obtains y u where "m s = (Inr y, u)" and "f y u = (Inr x, t)"
  using assms by (auto simp: bindP_def split: prod.splits sum.splits)

lemma load_scheduler_floor:
  assumes "load_scheduler s = (Inr (), t)" and "recorded_epoch s r e"
  shows "floor_epoch t r e"
proof -
  obtain s1 s2 s3 s4 where 1: "load_workers s = (Inr (), s1)" "load_tasks s1 = (Inr (), s2)"
      "load_statuses s2 = (Inr (), s3)" and 2: "load_plans s3 = (Inr (), s4)" and 3: "load_leases s4 = (Inr (), t)"
    using assms(1) unfolding load_scheduler_def by (elim bindP_Inr_runs) auto
  obtain ys where plans: "each_immutable ''plans'' load_plan s3 = (Inr ys, s4)"
    using 2 unfolding load_plans_def by (elim bindP_Inr_runs) simp
  obtain zs us s5 where snaps: "each_snapshot ''leases'' load_lease s4 = (Inr zs, s5)"
     and hist: "each_immutable ''lease-history'' replay_lease s5 = (Inr us, t)"
    using 3 unfolding load_leases_def by (elim bindP_Inr_runs) simp
  have r3: "recovers s s3"
    using obeysD [OF recovers_parts(3) 1(1)] obeysD [OF recovers_parts(4) 1(2)] obeysD [OF recovers_parts(6) 1(3)]
      recovers.effect_trans by metis
  have r5: "recovers s4 s5" by (rule obeysD [OF recovers.eff_each_snapshot [OF recovers_parts(7)] snaps])
  have r4: "recovers s3 s4" by (rule obeysD [OF recovers.eff_each_immutable [OF recovers_parts(1)] plans])
  have rt: "recovers s5 t" by (rule obeysD [OF recovers.eff_each_immutable [OF recovers_parts(2)] hist])
  from assms(2) show ?thesis
    unfolding recorded_epoch_def
  proof (elim disjE exE conjE)
    fix i p
    assume i: "valid_id i" and m: "map_of (immutable s) (''plans'', json_name i) = Some (O_plan p)"
      and r: "fst r = pln_worker_id p" "snd r \<in> set (resource_names (pln_gpu_ids p) (pln_container_name p))"
        "e = pln_lease_epoch p"
    have "floor_epoch s4 r e"
    proof (rule each_loaded [OF recovers_parts(1) _ plans _ i])
      show "map_of (immutable s3) (''plans'', json_name i) = Some (O_plan p)" using r3 m by (simp add: recovers_def)
      show "floor_epoch t' r' e'" if "load_plan d' s' = (Inr y', t')" "\<exists>q. d' = O_plan q \<and> fst r' = pln_worker_id q \<and>
            snd r' \<in> set (resource_names (pln_gpu_ids q) (pln_container_name q)) \<and> e' = pln_lease_epoch q"
        for d' s' y' t' r' e'
        using that load_plan_floor by (cases r') fastforce
    qed (use r in auto)
    then show ?thesis using floor_recovers r5 rt by blast
  next
    fix i a n l
    assume i: "valid_id i" and m: "map_of (immutable s) (''lease-history'', json_name i) = Some (O_lease_event a n l)"
      and r: "fst r = lse_worker_id l" "snd r \<in> set (resource_names (lse_gpu_ids l) (lse_container_name l))"
        "e = lse_lease_epoch l"
    show ?thesis
    proof (rule each_loaded [OF recovers_parts(2) _ hist _ i])
      show "map_of (immutable s5) (''lease-history'', json_name i) = Some (O_lease_event a n l)"
        using r3 r4 r5 m by (simp add: recovers_def)
      show "floor_epoch t' r' e'" if "replay_lease d' s' = (Inr y', t')"
          "\<exists>a n q. d' = O_lease_event a n q \<and> fst r' = lse_worker_id q \<and>
            snd r' \<in> set (resource_names (lse_gpu_ids q) (lse_container_name q)) \<and> e' = lse_lease_epoch q"
        for d' s' y' t' r' e'
        using that replay_lease_floor by (cases r') fastforce
    qed (use r in auto)
  qed
qed

text \<open>
  C21. Fencing survives a crash: when the scheduler starts on a store, whatever happened before, the
  next epoch it hands out on any resource is above every epoch that a plan or a lease entry of the
  store gave to that resource, so no plan issued before the crash can be taken for a new one.
\<close>

theorem recovery_fences_old_plans:
  assumes "start_scheduler key threshold gpus qualification s = (Inr (), t)"
    and "recorded_epoch s (w, r) e" and "r \<in> set resources"
  shows "e < next_epoch (sc_epochs t) w resources"
proof -
  obtain s1 where s1: "load_scheduler s1 = (Inr (), t)" "immutable s1 = immutable s"
    using assms(1) unfolding start_scheduler_def by (elim bindP_Inr_runs) (auto simp: checkP_def split: if_splits)
  then have rec: "recorded_epoch s1 (w, r) e" using assms(2) by (simp add: recorded_epoch_def)
  obtain e' where "sc_epochs t (w, r) = Some e'" "e \<le> e'"
    using load_scheduler_floor [OF s1(1) rec] by (auto simp: floor_epoch_def)
  then show ?thesis using next_epoch_above [OF assms(3), of "sc_epochs t" w] by auto
qed

section \<open>What ran before\<close>

definition safe_start :: "'z sched_scheme \<Rightarrow> bool" where
  "safe_start s \<longleftrightarrow> list_all (\<lambda>x. sts_state (snd x) \<notin> active) (sc_statuses s) \<and>
     list_all (\<lambda>x. \<not> wkr_online (snd x) \<and> list_all (\<lambda>g. gpu_state_of g = G_UNKNOWN) (wkr_gpus (snd x)))
       (sc_workers s) \<and>
     sc_holds s = {} \<and> list_all (\<lambda>x. sts_state (qd_status (snd x)) = T_QUEUED) (sc_queue s)"

interpretation safe: world_effect "keeps safe_start"
  by unfold_locales (auto simp: keeps_def safe_start_def append_line_def)

lemma list_all_update: "list_all P d \<Longrightarrow> P (k, v) \<Longrightarrow> list_all P (AList.update k v d)"
  by (induction d) auto

lemma safe_update: "(\<And>s. safe_start s \<Longrightarrow> safe_start (f s)) \<Longrightarrow> obeys (keeps safe_start) (updateP f)"
  by (simp add: obeys_def keeps_def)

lemma safe_requeue: "safe_start s \<Longrightarrow> safe_start (fold requeue xs s)"
proof (induction xs arbitrary: s)
  case (Cons x xs)
  have "safe_start (requeue x s)"
    using Cons.prems by (auto simp: safe_start_def requeue_def list_all_update split: option.split)
  then show ?case using Cons.IH by simp
qed simp

lemma recover_status_safe:
  "recover_status x s = (Inr y, t) \<Longrightarrow> sts_state (snd y) \<notin> active"
  by (auto simp: recover_status_def Let_def active_def split: prod.splits if_splits elim!: bindP_Inr_runs)

lemma forP_results:
  "(\<And>x s y t. f x s = (Inr y, t) \<Longrightarrow> P y) \<Longrightarrow> forP xs f s = (Inr ys, t) \<Longrightarrow> list_all P ys"
proof (induction xs arbitrary: s ys)
  case (Cons x xs)
  obtain y u zs where "f x s = (Inr y, u)" "forP xs f u = (Inr zs, t)" "ys = y # zs"
    using Cons.prems(2) by (auto simp: bindP_def split: prod.splits sum.splits)
  then show ?case using Cons.IH Cons.prems(1) by auto
qed simp

lemma safe_parts:
  "obeys (keeps safe_start) load_workers" "obeys (keeps safe_start) load_tasks"
  "obeys (keeps safe_start) load_plans" "obeys (keeps safe_start) load_leases"
  "obeys (keeps safe_start) (recover_status x)"
proof -
  show "obeys (keeps safe_start) load_workers"
    unfolding load_workers_def
    by (intro keeps.eff_bind safe.eff_each_snapshot keeps.eff_lift safe_update keeps.eff_return)
       (auto simp: safe_start_def offline_worker_def unknown_gpu_def intro!: list_all_update, simp add: list_all_iff unknown_gpu_def)
  show "obeys (keeps safe_start) load_tasks" "obeys (keeps safe_start) load_plans"
    unfolding load_tasks_def load_plans_def load_plan_def
    by (intro keeps.eff_bind safe.eff_each_immutable keeps.eff_lift safe_update keeps.eff_return;
        simp add: safe_start_def raise_epochs_def)+
  show "obeys (keeps safe_start) load_leases"
    unfolding load_leases_def load_lease_def replay_lease_def
    by (intro keeps.eff_bind safe.eff_each_snapshot safe.eff_each_immutable keeps.eff_lift safe_update keeps.eff_return)
       (auto simp: safe_start_def raise_epochs_def intro!: keeps.eff_bind safe_update keeps.eff_raise)
  show "obeys (keeps safe_start) (recover_status x)"
    unfolding recover_status_def persist_status_def Let_def
    by (auto split: prod.split intro!: safe.eff_store)
qed

lemma load_statuses_safe:
  assumes "load_statuses s = (Inr (), t)" and "safe_start s"
  shows "safe_start t"
proof -
  obtain snaps s1 hist s2 latest s3 where
    1: "each_snapshot ''task-status'' (\<lambda>d. liftE (as_status d)) s = (Inr snaps, s1)" and
    2: "read_models ''task-status-history'' as_status s1 = (Inr hist, s2)" and
    3: "forP (fold latest_status hist (fold (\<lambda>x. AList.update (sts_task_id x) x) snaps [])) recover_status
          (s2\<lparr>sc_initial_statuses := fold first_status hist []\<rparr>) = (Inr latest, s3)" and
    t: "t = fold requeue (dvalues latest) (s3\<lparr>sc_statuses := latest\<rparr>)"
    using assms(1) unfolding load_statuses_def by (elim bindP_Inr_runs) auto
  have "obeys (keeps safe_start) (each_snapshot ''task-status'' (\<lambda>d. liftE (as_status d)))"
    by (intro safe.eff_each_snapshot keeps.eff_lift)
  from keepsD [OF this assms(2)] have s1: "safe_start s1" unfolding 1 by simp
  have s2: "safe_start s2"
    using keepsD [OF safe.eff_read_models [of "''task-status-history''" as_status] s1] unfolding 2 by simp
  then have "safe_start (s2\<lparr>sc_initial_statuses := fold first_status hist []\<rparr>)" by (simp add: safe_start_def)
  then have "safe_start s3"
    using obeysD [OF keeps.eff_for [where f = recover_status, OF safe_parts(5)] 3] by (simp only: keeps_def)
  moreover have "list_all (\<lambda>x. sts_state (snd x) \<notin> active) latest"
    by (rule forP_results [OF recover_status_safe 3])
  ultimately have "safe_start (s3\<lparr>sc_statuses := latest\<rparr>)" by (simp add: safe_start_def)
  then show ?thesis unfolding t by (rule safe_requeue)
qed


section \<open>A store after a crash\<close>

definition crashed_status :: task_status where
  "crashed_status = \<lparr>sts_task_id = sample_id ''task'', sts_execution_id = sample_id ''exec'', sts_state = T_RUNNING,
     sts_updated_at = 0, sts_underlying_outcome = None, sts_failure_reason = None\<rparr>"

definition crashed_lease :: lease where
  "crashed_lease = \<lparr>lse_lease_id = sample_id ''prop'', lse_execution_id = sample_id ''exec'', lse_worker_id = ''w'',
     lse_gpu_ids = [0], lse_container_name = ''c'', lse_lease_epoch = 7, lse_committed = True\<rparr>"

definition crashed_store :: fake_sched where
  "crashed_store = (empty_sched no_faults)\<lparr>draws := (\<lambda>n. (int n, 0, 0)),
     snapshots := [((''workers'', json_name ''w''), O_worker (sample_worker ''w''))],
     immutable := [((''task-status-history'', json_name (sample_id ''rev'')), O_status crashed_status),
       ((''lease-history'', json_name (sample_id ''facts'')), O_lease_event ''COMMITTED'' 0 crashed_lease)]\<rparr>"

lemma crashed_valid: "valid_status crashed_status" "valid_lease crashed_lease" "valid_worker (sample_worker w)"
  by (simp_all add: crashed_status_def crashed_lease_def sample_worker_def valid_status_def valid_lease_def valid_worker_def
      sample_id_valid valid_gpu_ids_def valid_gpu_snapshot_def)

definition recovered_status :: task_status where
  "recovered_status = crashed_status\<lparr>sts_state := T_RECONCILIATION_REQUIRED, sts_updated_at := 0,
     sts_failure_reason := Some ''MASTER_RESTART_DURING_ACTIVE_EXECUTION''\<rparr>"

lemma crashed_sel [simp]: "sts_task_id crashed_status = sample_id ''task''" "sts_state crashed_status = T_RUNNING"
   "sts_task_id recovered_status = sample_id ''task''" "sts_state recovered_status = T_RECONCILIATION_REQUIRED"
  by (simp_all add: crashed_status_def recovered_status_def)


lemma json_file: "ends_with ''.json'' (json_name i)" by (simp add: json_name_def ends_with_def)

lemma recovered_fold: "crashed_status\<lparr>sts_state := T_RECONCILIATION_REQUIRED, sts_updated_at := 0,
     sts_failure_reason := Some ''MASTER_RESTART_DURING_ACTIVE_EXECUTION''\<rparr> = recovered_status"
  by (simp add: recovered_status_def)

lemma fresh_recovery:
  assumes "draws s = (\<lambda>n. (int n, 0, 0))"
  shows "fresh_id ''status'' s = (Inr (drawn_id ''status'' (draw_no s)), s\<lparr>draw_no := Suc (draw_no s)\<rparr>)"
    "fresh_id ''request'' s = (Inr (drawn_id ''request'' (draw_no s)), s\<lparr>draw_no := Suc (draw_no s)\<rparr>)"
  by (intro drawn_ids [OF assms]; simp add: is_lower_def less_eq_char_def)+

lemma status_new: "drawn_id ''status'' n \<noteq> sample_id ''rev''"
  by (simp add: drawn_id_def sample_id_def)

lemmas start_rules = run_rules each_snapshot_def each_immutable_def read_models_def json_files_def json_file valid_id_file
  sample_id_valid read_object_def validated_def crashed_valid

lemma crashed_restarts:
  "\<exists>t x. start_scheduler ''k'' 2 {0} False crashed_store = (Inr (), t) \<and>
     sc_statuses t = [(sample_id ''task'', x)] \<and> sts_state x = T_RECONCILIATION_REQUIRED \<and> sc_leases t \<noteq> []"
  unfolding start_scheduler_def load_scheduler_def
  apply (simp add: load_workers_def load_tasks_def crashed_store_def empty_sched_def start_rules)
  apply (simp add: load_statuses_def start_rules)
  apply (simp add: latest_status_def first_status_def recover_status_def active_def run_rules file_rules Let_def recovered_fold persist_status_def fresh_recovery
     write_immutable_def write_snapshot_def no_faults_def append_event_run no_stream event_ok sample_id_valid append_line_def status_new)
  apply (simp add: dvalues_def requeue_def load_plans_def load_leases_def replay_lease_def raise_epochs_def start_rules)
  done


theorem recovery_fences_old_plans_witness:
  "\<exists>t. start_scheduler ''k'' 2 {0} False crashed_store = (Inr (), t) \<and>
     7 < next_epoch (sc_epochs t) ''w'' [gpu_resource 0, gpu_resource 1]"
proof -
  obtain t where t: "start_scheduler ''k'' 2 {0} False crashed_store = (Inr (), t)" using crashed_restarts by blast
  have "recorded_epoch crashed_store (''w'', gpu_resource 0) 7"
    unfolding recorded_epoch_def crashed_store_def
    using sample_id_valid(5) by (intro disjI2 exI [of _ "sample_id ''facts''"] exI [of _ "''COMMITTED''"] exI [of _ 0] exI [of _ crashed_lease])
      (simp add: resource_names_def crashed_lease_def)
  from recovery_fences_old_plans [OF t this] t show ?thesis by auto
qed

end
