(* ===== verification/Configuration.thy ===== *)
theory Configuration
  imports Domain_Models Json_Text
begin

text \<open>
  The configuration files of the two processes, \<open>src/agent_scheduler/config.py\<close>: what the master and
  a worker read at start, with every check in the order of the source. The file system is an
  argument: the text of a file, whether a path is a regular file, and its mode.
  \<open>FileNotFoundError\<close> and \<open>PermissionError\<close> are \<open>OSError\<close>, whose subclasses they are. The JSON
  reader accepts no \<open>NaN\<close> and no infinity, which the source reads and rejects afterwards.
\<close>

record file_system =
  fs_text :: "string \<Rightarrow> exn + string"
  fs_is_file :: "string \<Rightarrow> bool"
  fs_mode :: "string \<Rightarrow> nat"

record settings =
  st_state_root :: string
  st_harness_mode :: string
  st_worker_mode :: string
  st_qualification_profile :: bool
  st_vram_threshold :: rat
  st_allowed_users :: "string set"
  st_max_workers :: int
  st_allowed_worker_ids :: "string list"
  st_worker_api_keys :: "(string \<times> string) list"
  st_auto_schedule :: bool

record worker_settings =
  ws_state_root :: string
  ws_worker_id :: string
  ws_master_uri :: string
  ws_api_key :: string
  ws_ca_file :: string
  ws_harness_mode :: string
  ws_vram_threshold :: rat

definition vram_ceiling :: "bool \<Rightarrow> rat" where
  "vram_ceiling qualification = (if qualification then 97 else 2)"

section \<open>Reading fields\<close>

definition checkE :: "bool \<Rightarrow> exn \<Rightarrow> exn + unit" where
  "checkE b e = (if b then Inr () else Inl e)"

lemma checkE_Inr [simp]: "checkE b e = Inr u \<longleftrightarrow> b"
  by (simp add: checkE_def)

text \<open>\<open>Path.parent\<close> and \<open>base / name\<close> on paths as they are written.\<close>

definition path_parent :: "string \<Rightarrow> string" where
  "path_parent p = (case dropWhile (\<lambda>c. c \<noteq> CHR ''/'') (rev p) of
      [] \<Rightarrow> ''.''
    | _ # d \<Rightarrow> if d = [] then ''/'' else rev d)"

definition path_join :: "string \<Rightarrow> string \<Rightarrow> string" where
  "path_join base name =
     (if starts_with ''/'' name then name
      else if base = ''.'' then name
      else if ends_with ''/'' base then base @ name
      else base @ ''/'' @ name)"

definition json_object :: "file_system \<Rightarrow> string \<Rightarrow> exn + (string \<times> json) list" where
  "json_object fs path =
     bindE (fs_text fs path) (\<lambda>text.
     case json_loads text of
       None \<Rightarrow> Inl (JSONDecodeError ''invalid JSON'')
     | Some (JObj d) \<Rightarrow> Inr d
     | Some _ \<Rightarrow> Inl (TypeError (''configuration must be a JSON object: '' @ path)))"

definition reject_unknown :: "(string \<times> json) list \<Rightarrow> string list \<Rightarrow> string \<Rightarrow> exn + unit" where
  "reject_unknown d allowed label =
     (let unknown = sort (remdups (filter (\<lambda>k. k \<notin> set allowed) (map fst d)))
      in checkE (unknown = []) (ValueError (label @ '' contains unknown fields: '' @ join '', '' unknown)))"

definition path_value :: "(string \<times> json) list \<Rightarrow> string \<Rightarrow> string \<Rightarrow> exn + string" where
  "path_value d name base = (case jget d name of
      JStr raw \<Rightarrow> if raw = [] then Inl (ValueError (name @ '' must be a non-empty path string''))
                  else Inr (path_join base raw)
    | _ \<Rightarrow> Inl (ValueError (name @ '' must be a non-empty path string'')))"

text \<open>\<open>mode & 0o077\<close>: a permission for the group or for others.\<close>

definition validate_secret_file :: "file_system \<Rightarrow> string \<Rightarrow> exn + unit" where
  "validate_secret_file fs path =
     bindE (checkE (fs_is_file fs path) (OSError (''secret file is missing: '' @ path))) (\<lambda>_.
     checkE (fs_mode fs path mod 64 = 0) (OSError (''secret file is too permissive: '' @ path)))"

definition json_or :: "(string \<times> json) list \<Rightarrow> string \<Rightarrow> json \<Rightarrow> json" where
  "json_or d name dflt = (case map_of d name of None \<Rightarrow> dflt | Some v \<Rightarrow> v)"

definition json_rat :: "json \<Rightarrow> string \<Rightarrow> exn + rat" where
  "json_rat v name = (case v of
      JInt i \<Rightarrow> Inr (of_int i) | JNum x \<Rightarrow> Inr x
    | _ \<Rightarrow> Inl (TypeError (name @ '' must be a JSON number'')))"

definition json_integer :: "json \<Rightarrow> string \<Rightarrow> exn + int" where
  "json_integer v name = (case v of JInt i \<Rightarrow> Inr i | _ \<Rightarrow> Inl (TypeError (name @ '' must be a JSON integer'')))"

definition validate_threshold :: "rat \<Rightarrow> rat \<Rightarrow> exn + unit" where
  "validate_threshold t maximum =
     checkE (0 < t \<and> t \<le> maximum) (ValueError ''VRAM threshold must be finite and in range for this profile'')"

text \<open>\<open>value in {...}\<close> for texts: a list or an object has no hash.\<close>

definition one_of :: "json \<Rightarrow> string list \<Rightarrow> string \<Rightarrow> exn + string" where
  "one_of v names message = (case v of
      JStr t \<Rightarrow> if t \<in> set names then Inr t else Inl (ValueError message)
    | JArr _ \<Rightarrow> Inl (TypeError ''unhashable type'')
    | JObj _ \<Rightarrow> Inl (TypeError ''unhashable type'')
    | _ \<Rightarrow> Inl (ValueError message))"

text \<open>The key of a worker: a private file with at least 32 characters.\<close>

definition read_api_key :: "file_system \<Rightarrow> string \<Rightarrow> string \<Rightarrow> exn + string" where
  "read_api_key fs path message =
     bindE (validate_secret_file fs path) (\<lambda>_.
     bindE (fs_text fs path) (\<lambda>text.
     bindE (checkE (32 \<le> py_len (py_strip text)) (ValueError message)) (\<lambda>_.
     Inr (py_strip text))))"

section \<open>The master\<close>

definition read_users :: "json \<Rightarrow> exn + string set" where
  "read_users v = (case v of
      JArr items \<Rightarrow>
        if list_all (\<lambda>i. case i of JStr t \<Rightarrow> t \<noteq> [] | _ \<Rightarrow> False) items
        then Inr {t. JStr t \<in> set items}
        else Inl (ValueError ''allowed_users must be a non-empty JSON string array'')
    | _ \<Rightarrow> Inl (ValueError ''allowed_users must be a non-empty JSON string array''))"

definition read_worker :: "file_system \<Rightarrow> string \<Rightarrow> string \<times> json \<Rightarrow> exn + string \<times> string" where
  "read_worker fs base = (\<lambda>(worker, v). case v of
      JObj d \<Rightarrow>
        if worker = [] then Inl (ValueError ''each Worker entry must map a non-empty ID to an object'')
        else
          bindE (reject_unknown d [''api_key_file''] (''Worker '' @ worker)) (\<lambda>_.
          bindE (path_value d ''api_key_file'' base) (\<lambda>key_path.
          bindE (read_api_key fs key_path
                   (''Worker API key for '' @ worker @ '' must contain at least 32 characters'')) (\<lambda>key.
          Inr (worker, key))))
    | _ \<Rightarrow> Inl (ValueError ''each Worker entry must map a non-empty ID to an object''))"

definition read_workers :: "file_system \<Rightarrow> string \<Rightarrow> json \<Rightarrow> exn + (string \<times> string) list" where
  "read_workers fs base v = (case v of
      JObj entries \<Rightarrow>
        if entries = [] then Inl (ValueError ''workers must be a non-empty JSON object'')
        else mapE (read_worker fs base) entries
    | _ \<Rightarrow> Inl (ValueError ''workers must be a non-empty JSON object''))"

definition read_bool :: "json \<Rightarrow> string \<Rightarrow> exn + bool" where
  "read_bool v name = (case v of JBool b \<Rightarrow> Inr b | _ \<Rightarrow> Inl (TypeError (name @ '' must be a JSON boolean'')))"

definition settings_from_file :: "file_system \<Rightarrow> string \<Rightarrow> exn + settings" where
  "settings_from_file fs path =
     bindE (json_object fs path) (\<lambda>d.
     bindE (reject_unknown d [''state_root'', ''harness_mode'', ''worker_mode'', ''profile'', ''vram_threshold'',
              ''allowed_users'', ''max_workers'', ''workers'', ''auto_schedule''] ''Master configuration'') (\<lambda>_.
     bindE (path_value d ''state_root'' (path_parent path)) (\<lambda>state_root.
     bindE (one_of (json_or d ''harness_mode'' (JStr ''fake'')) [''fake'', ''claude'']
              ''harness mode must be fake or claude'') (\<lambda>harness_mode.
     bindE (one_of (json_or d ''worker_mode'' (JStr ''remote'')) [''fake'', ''remote'']
              ''worker mode must be fake or remote'') (\<lambda>worker_mode.
     bindE (one_of (json_or d ''profile'' (JStr ''production'')) [''production'', ''qualification'']
              ''profile must be production or qualification'') (\<lambda>profile.
     let qualification = (profile = ''qualification''); maximum = vram_ceiling qualification in
     bindE (json_rat (json_or d ''vram_threshold'' (JNum maximum)) ''vram_threshold'') (\<lambda>threshold.
     bindE (validate_threshold threshold maximum) (\<lambda>_.
     bindE (read_users (json_or d ''allowed_users'' (JArr [JStr ''zz_chentian'']))) (\<lambda>users.
     bindE (read_workers fs (path_parent path) (jget d ''workers'')) (\<lambda>keys.
     bindE (json_integer (json_or d ''max_workers'' (JInt (int (length keys)))) ''max_workers'') (\<lambda>max_workers.
     bindE (checkE (1 \<le> max_workers \<and> max_workers \<le> int (length keys))
              (ValueError ''max workers must be between 1 and the number of allowed Workers'')) (\<lambda>_.
     bindE (read_bool (json_or d ''auto_schedule'' (JBool True)) ''auto_schedule'') (\<lambda>auto_schedule.
     Inr \<lparr>st_state_root = state_root, st_harness_mode = harness_mode, st_worker_mode = worker_mode,
          st_qualification_profile = qualification, st_vram_threshold = threshold,
          st_allowed_users = users, st_max_workers = max_workers, st_allowed_worker_ids = map fst keys,
          st_worker_api_keys = keys, st_auto_schedule = auto_schedule\<rparr>)))))))))))))"

text \<open>
  The same from environment variables; \<open>number\<close> is \<open>float(text)\<close>, with \<open>None\<close> for a value that is
  not finite.
\<close>

fun split_at_char :: "char \<Rightarrow> string \<Rightarrow> string list" where
  "split_at_char c [] = [[]]"
| "split_at_char c (x # s) =
     (if x = c then [] # split_at_char c s
      else case split_at_char c s of w # ws \<Rightarrow> (x # w) # ws | [] \<Rightarrow> [[x]])"

definition env_or :: "(string \<rightharpoonup> string) \<Rightarrow> string \<Rightarrow> string \<Rightarrow> string" where
  "env_or env name dflt = (case env name of None \<Rightarrow> dflt | Some t \<Rightarrow> t)"

definition settings_from_env :: "(string \<Rightarrow> exn + rat option) \<Rightarrow> (string \<rightharpoonup> string) \<Rightarrow> exn + settings" where
  "settings_from_env number env =
     (let qualification = (env ''AGENT_SCHEDULER_PROFILE'' = Some ''qualification'');
          maximum = vram_ceiling qualification;
          harness_mode = env_or env ''AGENT_SCHEDULER_HARNESS_MODE'' ''fake'';
          worker_mode = env_or env ''AGENT_SCHEDULER_WORKER_MODE'' ''remote'';
          users = filter (\<lambda>t. t \<noteq> []) (map py_strip
            (split_at_char CHR '','' (env_or env ''AGENT_SCHEDULER_ALLOWED_USERS'' ''zz_chentian'')))
      in bindE (number (env_or env ''AGENT_SCHEDULER_VRAM_THRESHOLD''
                  (if qualification then ''97.0'' else ''2.0''))) (\<lambda>x.
         bindE (case x of
             None \<Rightarrow> Inl (ValueError ''VRAM threshold must be finite and in range for this profile'')
           | Some t \<Rightarrow> bindE (validate_threshold t maximum) (\<lambda>_. Inr t)) (\<lambda>threshold.
         bindE (one_of (JStr harness_mode) [''fake'', ''claude''] ''harness mode must be fake or claude'') (\<lambda>_.
         bindE (one_of (JStr worker_mode) [''fake'', ''remote''] ''worker mode must be fake or remote'') (\<lambda>_.
         bindE (py_int (JStr (env_or env ''AGENT_SCHEDULER_MAX_WORKERS'' ''1''))) (\<lambda>max_workers.
         Inr \<lparr>st_state_root = env_or env ''AGENT_SCHEDULER_STATE_ROOT'' ''/public/share/agent-scheduler-mvp'',
              st_harness_mode = harness_mode, st_worker_mode = worker_mode,
              st_qualification_profile = qualification, st_vram_threshold = threshold,
              st_allowed_users = set users, st_max_workers = max_workers,
              st_allowed_worker_ids = [''worker-local-01''], st_worker_api_keys = [],
              st_auto_schedule = (env_or env ''AGENT_SCHEDULER_AUTO_SCHEDULE'' ''1'' = ''1'')\<rparr>))))))"

section \<open>A worker\<close>

definition worker_settings_from_file :: "file_system \<Rightarrow> string \<Rightarrow> exn + worker_settings" where
  "worker_settings_from_file fs path =
     bindE (json_object fs path) (\<lambda>d.
     bindE (reject_unknown d [''state_root'', ''worker_id'', ''master_uri'', ''api_key_file'', ''ca_file'',
              ''harness_mode'', ''profile'', ''vram_threshold''] ''Worker configuration'') (\<lambda>_.
     bindE (path_value d ''state_root'' (path_parent path)) (\<lambda>state_root.
     bindE (case jget d ''worker_id'' of JStr t \<Rightarrow> if t \<noteq> [] then Inr t else Inl (ValueError ''worker_id must be a non-empty string'')
            | _ \<Rightarrow> Inl (ValueError ''worker_id must be a non-empty string'')) (\<lambda>worker_id.
     bindE (case jget d ''master_uri'' of JStr t \<Rightarrow> if starts_with ''wss://'' t then Inr t else Inl (ValueError ''master_uri must use wss://'')
            | _ \<Rightarrow> Inl (ValueError ''master_uri must use wss://'')) (\<lambda>master_uri.
     bindE (path_value d ''api_key_file'' (path_parent path)) (\<lambda>key_path.
     bindE (read_api_key fs key_path ''Worker API key must contain at least 32 characters'') (\<lambda>key.
     bindE (path_value d ''ca_file'' (path_parent path)) (\<lambda>ca_file.
     bindE (checkE (fs_is_file fs ca_file) (OSError (''Worker CA file is missing: '' @ ca_file))) (\<lambda>_.
     bindE (one_of (json_or d ''harness_mode'' (JStr ''fake'')) [''fake'', ''claude'']
              ''harness mode must be fake or claude'') (\<lambda>harness_mode.
     bindE (one_of (json_or d ''profile'' (JStr ''production'')) [''production'', ''qualification'']
              ''profile must be production or qualification'') (\<lambda>profile.
     let maximum = vram_ceiling (profile = ''qualification'') in
     bindE (json_rat (json_or d ''vram_threshold'' (JNum maximum)) ''vram_threshold'') (\<lambda>threshold.
     bindE (validate_threshold threshold maximum) (\<lambda>_.
     Inr \<lparr>ws_state_root = state_root, ws_worker_id = worker_id, ws_master_uri = master_uri,
          ws_api_key = key, ws_ca_file = ca_file, ws_harness_mode = harness_mode,
          ws_vram_threshold = threshold\<rparr>)))))))))))))"

section \<open>What an accepted configuration guarantees\<close>

text \<open>A key that a private file holds.\<close>

definition private_key :: "file_system \<Rightarrow> string \<Rightarrow> bool" where
  "private_key fs key \<longleftrightarrow> 32 \<le> py_len key \<and>
     (\<exists>f text. fs_is_file fs f \<and> fs_mode fs f mod 64 = 0 \<and> fs_text fs f = Inr text \<and> key = py_strip text)"

lemma read_api_key_private: "read_api_key fs p m = Inr k \<Longrightarrow> private_key fs k"
  by (auto simp: read_api_key_def validate_secret_file_def bindE_Inr private_key_def)

lemma read_worker_private: "read_worker fs b e = Inr (w, k) \<Longrightarrow> w \<noteq> [] \<and> private_key fs k \<and> w = fst e"
  by (cases e) (auto simp: read_worker_def bindE_Inr read_api_key_private split: json.splits if_splits)

lemma read_workers_private:
  assumes "read_workers fs b v = Inr ks" and "(w, k) \<in> set ks"
  shows "w \<noteq> [] \<and> private_key fs k"
proof -
  from assms(1) obtain es where "list_all2 (\<lambda>e x. read_worker fs b e = Inr x) es ks"
    by (auto simp: read_workers_def mapE_Inr split: json.splits if_splits)
  then show ?thesis using assms(2) by (induction rule: list_all2_induct) (auto dest: read_worker_private)
qed

lemma one_of_Inr: "one_of v ns m = Inr t \<longleftrightarrow> v = JStr t \<and> t \<in> set ns"
  by (auto simp: one_of_def split: json.split)

lemma accepted_settings_facts:
  assumes "settings_from_file fs path = Inr s"
  shows "0 < st_vram_threshold s" "st_vram_threshold s \<le> vram_ceiling (st_qualification_profile s)"
    "st_harness_mode s \<in> {''fake'', ''claude''}" "st_worker_mode s \<in> {''fake'', ''remote''}"
    "1 \<le> st_max_workers s" "st_max_workers s \<le> int (length (st_allowed_worker_ids s))"
    "st_allowed_worker_ids s = map fst (st_worker_api_keys s)"
    "(w, k) \<in> set (st_worker_api_keys s) \<Longrightarrow> w \<noteq> [] \<and> private_key fs k"
proof -
  from assms obtain d profile threshold keys where
    p: "one_of (json_or d ''profile'' (JStr ''production'')) [''production'', ''qualification'']
          ''profile must be production or qualification'' = Inr profile"
    and t: "validate_threshold threshold (vram_ceiling (profile = ''qualification'')) = Inr ()"
    and k: "read_workers fs (path_parent path) (jget d ''workers'') = Inr keys"
    and f: "st_vram_threshold s = threshold" "st_qualification_profile s = (profile = ''qualification'')"
      "st_worker_api_keys s = keys" "st_allowed_worker_ids s = map fst keys"
      "1 \<le> st_max_workers s" "st_max_workers s \<le> int (length keys)"
    and m: "st_harness_mode s \<in> {''fake'', ''claude''}" "st_worker_mode s \<in> {''fake'', ''remote''}"
    by (auto simp: settings_from_file_def bindE_Inr Let_def one_of_Inr)
  show "0 < st_vram_threshold s" "st_vram_threshold s \<le> vram_ceiling (st_qualification_profile s)"
    "st_harness_mode s \<in> {''fake'', ''claude''}" "st_worker_mode s \<in> {''fake'', ''remote''}"
    "1 \<le> st_max_workers s" "st_max_workers s \<le> int (length (st_allowed_worker_ids s))"
    "st_allowed_worker_ids s = map fst (st_worker_api_keys s)"
    using t f m by (auto simp: validate_threshold_def)
  show "(w, k) \<in> set (st_worker_api_keys s) \<Longrightarrow> w \<noteq> [] \<and> private_key fs k"
    using read_workers_private [OF k] f(3) by blast
qed

text \<open>
  C30. The master starts with a safe configuration or not at all: the memory threshold is positive and
  at most the ceiling of the profile, every worker has a name and a key of at least 32 characters
  from a file only its owner can read, and the number of workers of a task is within bounds.
\<close>

theorem accepted_settings_safe:
  assumes "settings_from_file fs path = Inr s"
  shows "0 < st_vram_threshold s \<and> st_vram_threshold s \<le> vram_ceiling (st_qualification_profile s) \<and>
    st_harness_mode s \<in> {''fake'', ''claude''} \<and> st_worker_mode s \<in> {''fake'', ''remote''} \<and>
    1 \<le> st_max_workers s \<and> st_max_workers s \<le> int (length (st_allowed_worker_ids s)) \<and>
    st_allowed_worker_ids s = map fst (st_worker_api_keys s) \<and>
    (\<forall>(w, k) \<in> set (st_worker_api_keys s). w \<noteq> [] \<and> private_key fs k)"
  using accepted_settings_facts [OF assms] by blast

text \<open>A file system with two configurations and a private key file, for the witnesses.\<close>

definition sample_key :: string where "sample_key = replicate 32 CHR ''k''"

definition sample_config :: "string \<Rightarrow> string" where
  "sample_config users =
     (let q = [CHR 0x22] in
      ''{'' @ q @ ''state_root'' @ q @ '':'' @ q @ ''/s'' @ q @ '','' @ q @ ''allowed_users'' @ q @ '':'' @ users @ '',''
      @ q @ ''workers'' @ q @ '':{'' @ q @ ''w'' @ q @ '':{'' @ q @ ''api_key_file'' @ q @ '':'' @ q @ ''/k'' @ q @ ''}}}'')"

definition sample_files :: file_system where
  "sample_files =
     \<lparr>fs_text = (\<lambda>p. if p = ''/k'' then Inr sample_key else if p = ''/open'' then Inr (sample_config ''[]'')
        else Inl (OSError p)),
      fs_is_file = (\<lambda>p. p = ''/k''), fs_mode = (\<lambda>p. 384)\<rparr>"

definition open_settings :: settings where
  "open_settings =
     \<lparr>st_state_root = ''/s'', st_harness_mode = ''fake'', st_worker_mode = ''remote'',
      st_qualification_profile = False, st_vram_threshold = 2, st_allowed_users = {},
      st_max_workers = 1, st_allowed_worker_ids = [''w''], st_worker_api_keys = [(''w'', sample_key)],
      st_auto_schedule = True\<rparr>"

lemma sample_config_json:
  "json_loads (sample_config ''[]'') = Some (JObj [(''state_root'', JStr ''/s''), (''allowed_users'', JArr []),
     (''workers'', JObj [(''w'', JObj [(''api_key_file'', JStr ''/k'')])])])"
  by code_simp

lemma sample_key_facts: "py_strip sample_key = sample_key" "py_len sample_key = 32"
  by code_simp+

lemma open_settings_accepted: "settings_from_file sample_files ''/open'' = Inr open_settings"
  by (simp add: settings_from_file_def json_object_def sample_files_def sample_config_json reject_unknown_def
      checkE_def path_value_def path_join_def path_parent_def jget_def json_or_def one_of_def json_rat_def
      vram_ceiling_def validate_threshold_def read_users_def read_workers_def read_worker_def read_api_key_def
      validate_secret_file_def json_integer_def read_bool_def starts_with_def Let_def sample_key_facts
      open_settings_def)

theorem accepted_settings_safe_witness:
  "private_key sample_files sample_key \<and> st_vram_threshold open_settings \<le> vram_ceiling False"
  using accepted_settings_safe [OF open_settings_accepted] by (simp add: open_settings_def)

end
