(* ===== verification/Worker_Client.thy ===== *)
theory Worker_Client
  imports Worker_Driver Gpu_Sampler Stored_Models
begin

text \<open>
  The worker's side of the link to the master, \<open>WorkerClient\<close> of
  \<open>src/agent_scheduler/worker/client.py\<close>. Its state extends the one of the worker's driver by the
  two sequence numbers, the responses the master has not acknowledged, the files that keep both and
  the messages put on the wire. Definitions only; theories \<open>Worker_Commands\<close> and \<open>Worker_Link\<close> prove them correct.
  What the threads of a session do is a list of activities, each performed as a whole.
\<close>

section \<open>State\<close>

text \<open>
  \<open>wc_state_file\<close> is \<open>state.json\<close> (send and seen sequence), \<open>wc_response_files\<close> the directory
  \<open>responses\<close>. \<open>wc_background\<close> holds the commands whose background tasks have not ended,
  \<open>wc_sent\<close> what was handed to the connection; \<open>wc_wire\<close> says which of the sends succeed.
\<close>

record client = worker +
  wc_send_sequence :: int
  wc_seen_sequence :: int
  wc_responses :: "(string, envelope) dict"
  wc_state_file :: "(int \<times> int) option"
  wc_response_files :: "(string, envelope) dict"
  wc_background :: "envelope list"
  wc_sent :: "envelope list"
  wc_wire :: "nat \<Rightarrow> bool"
  wc_wire_no :: nat

text \<open>A message as it arrives: the text of an envelope, other text, or bytes.\<close>

datatype wire_message = Envelope envelope | Bad_text | Binary

text \<open>
  The JSON form of the models that travel inside a payload, \<open>model_dump(mode="json")\<close> and
  \<open>strict_from_json_value\<close> of pydantic.
\<close>

record codec =
  cd_manifest_json :: "manifest \<Rightarrow> json"
  cd_manifest_of :: "json \<Rightarrow> exn + manifest"
  cd_worker_json :: "worker_snapshot \<Rightarrow> json"
  cd_worker_of :: "json \<Rightarrow> exn + worker_snapshot"

section \<open>Files of the protocol\<close>

text \<open>\<open>_atomic_write\<close>, and the removal of a file: done as a whole, or an \<open>OSError\<close>.\<close>

definition atomic_file :: "('z client_scheme \<Rightarrow> 'z client_scheme) \<Rightarrow> ('z client_scheme, unit) prog" where
  "atomic_file f =
     bindP next_fault (\<lambda>x. if x = IO_ok then updateP f else raiseP (OSError ''protocol file not written''))"

definition persist_protocol_state :: "('z client_scheme, unit) prog" where
  "persist_protocol_state =
     atomic_file (\<lambda>s. s\<lparr>wc_state_file := Some (wc_send_sequence s, wc_seen_sequence s)\<rparr>)"

definition record_response :: "string \<Rightarrow> envelope \<Rightarrow> ('z client_scheme, unit) prog" where
  "record_response original_id r =
     bindP (updateP (\<lambda>s. s\<lparr>wc_responses := AList.update original_id r (wc_responses s)\<rparr>)) (\<lambda>_.
     atomic_file (\<lambda>s. s\<lparr>wc_response_files := AList.update original_id r (wc_response_files s)\<rparr>))"

definition ack_response :: "string \<Rightarrow> ('z client_scheme, unit) prog" where
  "ack_response response_id =
     bindP (readP (\<lambda>s. find (\<lambda>(_, r). env_message_id r = response_id) (wc_responses s))) (\<lambda>found.
     case found of
       None \<Rightarrow> returnP ()
     | Some (original, _) \<Rightarrow>
         bindP (updateP (\<lambda>s. s\<lparr>wc_responses := AList.delete original (wc_responses s)\<rparr>)) (\<lambda>_.
         bindP (readP (\<lambda>s. map_of (wc_response_files s) original \<noteq> None)) (\<lambda>exists.
         whenP exists
           (atomic_file (\<lambda>s. s\<lparr>wc_response_files := AList.delete original (wc_response_files s)\<rparr>)))))"

text \<open>\<open>__post_init__\<close>: what a new process finds on disk, the responses in the order of their files.\<close>

definition client_init :: "'z client_scheme \<Rightarrow> 'z client_scheme" where
  "client_init s =
     s\<lparr>wc_send_sequence := (case wc_state_file s of None \<Rightarrow> 0 | Some (n, _) \<Rightarrow> n),
       wc_seen_sequence := (case wc_state_file s of None \<Rightarrow> 0 | Some (_, n) \<Rightarrow> n),
       wc_responses := sort_key (\<lambda>p. json_name (fst p)) (wc_response_files s),
       wc_background := []\<rparr>"

section \<open>Sending\<close>

text \<open>\<open>_envelope\<close>: the next sequence number, on disk before the message exists.\<close>

definition make_envelope ::
  "string \<Rightarrow> (string \<times> json) list \<Rightarrow> string option \<Rightarrow> int option \<Rightarrow> int option
     \<Rightarrow> ('z client_scheme, envelope) prog" where
  "make_envelope message_type payload a generation epoch =
     bindP (updateP (\<lambda>s. s\<lparr>wc_send_sequence := wc_send_sequence s + 1\<rparr>)) (\<lambda>_.
     bindP persist_protocol_state (\<lambda>_.
     bindP (fresh_id ''msg'') (\<lambda>i.
     bindP (readP wc_send_sequence) (\<lambda>n.
     let e = \<lparr>env_message_id = i, env_sequence = n, env_message_type = message_type,
              env_assignment_id = a, env_dispatch_generation = generation,
              env_lease_epoch = epoch, env_payload = payload\<rparr>
     in bindP (checkP (valid_envelope e) (ValueError ''validation error for ProtocolEnvelope''))
          (\<lambda>_. returnP e)))))"

definition send :: "envelope \<Rightarrow> ('z client_scheme, unit) prog" where
  "send e =
     bindP (readP (\<lambda>s. wc_wire s (wc_wire_no s))) (\<lambda>up.
     bindP (updateP (\<lambda>s. s\<lparr>wc_wire_no := Suc (wc_wire_no s)\<rparr>)) (\<lambda>_.
     if up then updateP (\<lambda>s. s\<lparr>wc_sent := wc_sent s @ [e]\<rparr>) else raiseP ConnectionClosed))"

text \<open>One turn of \<open>_heartbeats\<close>, where \<open>result\<close> is what the GPU sampler returned or raised.\<close>

definition heartbeat ::
  "codec \<Rightarrow> exn + gpu_snapshot list \<Rightarrow> ('z client_scheme, unit) prog" where
  "heartbeat c result = (case result of
      Inl _ \<Rightarrow> returnP ()
    | Inr gpus \<Rightarrow>
        bindP utc_now (\<lambda>now.
        bindP (readP wd_worker_id) (\<lambda>me.
        let w = \<lparr>wkr_worker_id = me, wkr_online = True, wkr_last_heartbeat_at = now, wkr_gpus = gpus\<rparr>
        in bindP (make_envelope ''HEARTBEAT'' [(''worker'', cd_worker_json c w)] None None None) send)))"

section \<open>Ground truth\<close>

text \<open>\<open>value.get(name)\<close> of a text field, as \<open>isinstance(x, str)\<close> sees it.\<close>

definition text_field :: "(string \<times> json) list \<Rightarrow> string \<Rightarrow> string option" where
  "text_field d k = (case jget d k of JStr t \<Rightarrow> Some t | _ \<Rightarrow> None)"

definition immutable_path :: "string \<Rightarrow> string \<Rightarrow> string \<Rightarrow> string" where
  "immutable_path r object_type name = r @ ''/immutable/'' @ object_type @ ''/'' @ name"

definition check_fencing ::
  "envelope \<Rightarrow> string \<Rightarrow> int \<Rightarrow> int \<Rightarrow> ('z client_scheme, unit) prog" where
  "check_fencing e a generation epoch =
     checkP (env_assignment_id e = Some a \<and> env_dispatch_generation e = Some generation \<and>
             env_lease_epoch e = Some epoch)
       (WorkerClientError ''protocol envelope fencing does not match payload'')"

text \<open>
  The parts \<open>_load_plan\<close> and \<open>_load_task\<close> share: the reference of the payload, whose paths must be
  the ones of the store, and the two files it names. \<open>resolve\<close> is \<open>Path.resolve\<close> of the worker's
  file system, which leads to the same file as the path it is given. A name with a slash names no
  file here; the source would read a file whose identifier differs and raise the same class.
\<close>

definition reference ::
  "(string \<Rightarrow> string) \<Rightarrow> string \<Rightarrow> string \<Rightarrow> string \<Rightarrow> envelope
     \<Rightarrow> ('z client_scheme, string \<times> string) prog" where
  "reference resolve Kind kind directory e =
     (case (text_field (env_payload e) (kind @ ''_id''), text_field (env_payload e) (kind @ ''_content_hash'')) of
        (Some i, Some h) \<Rightarrow>
          (case (text_field (env_payload e) (kind @ ''_path''), text_field (env_payload e) (kind @ ''_canonical_path'')) of
             (Some path, Some canonical) \<Rightarrow>
               bindP (readP store_root) (\<lambda>r.
               bindP (checkP
                  (resolve path = resolve (immutable_path r directory (json_name i)) \<and>
                   resolve canonical = resolve (immutable_path r directory (i @ ''.canonical.json'')))
                  (WorkerClientError (Kind @ '' reference escapes the configured Ground Truth''))) (\<lambda>_.
               returnP (i, h)))
           | _ \<Rightarrow> raiseP (WorkerClientError (''Worker message lacks '' @ Kind @ '' Ground Truth paths'')))
      | _ \<Rightarrow> raiseP (WorkerClientError (''Worker message lacks '' @ Kind @ '' identity/hash'')))"

definition ground_truth ::
  "string \<Rightarrow> string \<Rightarrow> (obj \<Rightarrow> exn + 'a) \<Rightarrow> string \<Rightarrow> ('z client_scheme, 'a \<times> string) prog" where
  "ground_truth Kind directory as_model i =
     bindP (readP (\<lambda>s. (map_of (immutable s) (directory, json_name i),
                       map_of (immutable s) (directory, i @ ''.canonical.json'')))) (\<lambda>files.
     case files of
       (Some d, Some (O_bytes canonical)) \<Rightarrow>
         (case as_model d of
            Inr x \<Rightarrow> returnP (x, canonical)
          | Inl _ \<Rightarrow> raiseP (WorkerClientError (Kind @ '' Ground Truth is missing or invalid'')))
     | _ \<Rightarrow> raiseP (WorkerClientError (Kind @ '' Ground Truth is missing or invalid'')))"

definition fetch_plan ::
  "('k, 'p) signer \<Rightarrow> (string \<Rightarrow> string) \<Rightarrow> envelope \<Rightarrow> ('z client_scheme, plan) prog" where
  "fetch_plan g resolve e =
     bindP (reference resolve ''Plan'' ''plan'' ''plans'' e) (\<lambda>(i, h).
     bindP (ground_truth ''Plan'' ''plans'' as_plan i) (\<lambda>(p, canonical).
     bindP (checkP (pln_plan_id p = i \<and> pln_content_hash p = Some h)
              (WorkerClientError ''Plan Ground Truth differs from signed reference'')) (\<lambda>_.
     bindP (checkP (canonical = sg_plan_dump g p)
              (WorkerClientError ''canonical Plan sidecar differs from Plan JSON'')) (\<lambda>_.
     bindP (check_fencing e (pln_assignment_id p) (pln_dispatch_generation p) (pln_lease_epoch p)) (\<lambda>_.
     returnP p)))))"

definition fetch_task ::
  "('k, 'p) signer \<Rightarrow> (string \<Rightarrow> string) \<Rightarrow> envelope \<Rightarrow> ('z client_scheme, task) prog" where
  "fetch_task g resolve e =
     bindP (reference resolve ''Task'' ''task'' ''tasks'' e) (\<lambda>(i, h).
     bindP (ground_truth ''Task'' ''tasks'' as_task i) (\<lambda>(t, canonical).
     bindP (checkP (tsk_task_id t = i \<and> tsk_content_hash t = Some h)
              (WorkerClientError ''Task Ground Truth differs from the signed message reference'')) (\<lambda>_.
     bindP (checkP (canonical = sg_task_dump g t)
              (WorkerClientError ''canonical Task sidecar differs from Task JSON'')) (\<lambda>_.
     returnP t))))"

section \<open>Commands\<close>

text \<open>\<open>value.get(name, default)\<close>, \<open>value.get(name) == text\<close> and \<open>value.get(name) is True\<close>.\<close>

definition jget_or :: "(string \<times> json) list \<Rightarrow> string \<Rightarrow> json \<Rightarrow> json" where
  "jget_or d k dflt = (case map_of d k of None \<Rightarrow> dflt | Some v \<Rightarrow> v)"

definition flag :: "(string \<times> json) list \<Rightarrow> string \<Rightarrow> bool" where
  "flag d k \<longleftrightarrow> map_of d k = Some (JBool True)"

text \<open>The payload of a line of the inbox that records the end of this plan's run.\<close>

definition finished_payload :: "plan \<Rightarrow> task \<Rightarrow> json \<Rightarrow> (string \<times> json) list option" where
  "finished_payload p t v = (case v of
      JObj d \<Rightarrow>
        if jget d ''event_type'' = JStr ''EXECUTION_FINISHED'' \<and> jget d ''task_id'' = JStr (tsk_task_id t)
        then (case jget d ''payload'' of
                JObj x \<Rightarrow> if jget x ''plan_id'' = JStr (pln_plan_id p) then Some x else None
              | _ \<Rightarrow> None)
        else None
    | _ \<Rightarrow> None)"

definition evidence_result :: "(string \<times> json) list \<Rightarrow> (string \<times> json) list" where
  "evidence_result x =
     [(''exit_code'', jget_or x ''exit_code'' (JInt 1)),
      (''logs_present'', JBool (flag x ''logs_present'')),
      (''outputs_present'', JBool (flag x ''outputs_present'')),
      (''cleanup_ok'', JBool (flag x ''cleanup_ok'')),
      (''warning'', jget x ''warning''), (''failure_reason'', jget x ''failure_reason'')]"

text \<open>The loop over the lines, from the last to the first.\<close>

fun last_finished :: "plan \<Rightarrow> task \<Rightarrow> string list \<Rightarrow> exn + (string \<times> json) list option" where
  "last_finished p t [] = Inr None"
| "last_finished p t (l # ls) = (case json_loads l of
      None \<Rightarrow> Inl (ValueError ''invalid JSON'')
    | Some v \<Rightarrow> (case finished_payload p t v of
        Some x \<Rightarrow> Inr (Some (evidence_result x))
      | None \<Rightarrow> last_finished p t ls))"

definition completed_execution :: "plan \<Rightarrow> task \<Rightarrow> ('z client_scheme, (string \<times> json) list option) prog" where
  "completed_execution p t =
     bindP (readP (\<lambda>s. map_of (wd_inbox s) (tsk_execution_id t))) (\<lambda>inbox.
     case inbox of
       None \<Rightarrow> returnP None
     | Some b \<Rightarrow> liftE (last_finished p t (rev (split_lines [] b))))"

definition result_payload :: "exec_result \<Rightarrow> (string \<times> json) list" where
  "result_payload r =
     [(''exit_code'', JInt (res_exit_code r)), (''logs_present'', JBool (res_logs_present r)),
      (''outputs_present'', JBool (res_outputs_present r)), (''cleanup_ok'', JBool (res_cleanup_ok r)),
      (''warning'', json_option (res_warning r)), (''failure_reason'', json_option (res_failure_reason r))]"

text \<open>What a client is configured with; \<open>cc_control\<close> is the call of the controller, if there is one.\<close>

record ('k, 'p, 's) client_config =
  cc_signer :: "('k, 'p) signer"
  cc_codec :: codec
  cc_resolve :: "string \<Rightarrow> string"
  cc_control :: "(string \<Rightarrow> int \<Rightarrow> ('s, unit) prog) option"

definition execute_payload ::
  "('k, 'p, 'z client_scheme) client_config \<Rightarrow> plan \<Rightarrow> task \<Rightarrow> ('z client_scheme, (string \<times> json) list) prog" where
  "execute_payload c p t =
     bindP (completed_execution p t) (\<lambda>cached.
     case cached of
       Some x \<Rightarrow> returnP x
     | None \<Rightarrow>
         bindP (case cc_control c of None \<Rightarrow> returnP ()
                | Some control \<Rightarrow> control (pln_assignment_id p) (pln_dispatch_generation p)) (\<lambda>_.
         bindP (worker_execute (cc_signer c) p t) (\<lambda>r. returnP (result_payload r))))"

definition with_plan ::
  "('k, 'p, 'z client_scheme) client_config \<Rightarrow> envelope
     \<Rightarrow> (plan \<Rightarrow> task \<Rightarrow> ('z client_scheme, 'a) prog) \<Rightarrow> ('z client_scheme, 'a) prog" where
  "with_plan c e k =
     bindP (fetch_plan (cc_signer c) (cc_resolve c) e) (\<lambda>p.
     bindP (fetch_task (cc_signer c) (cc_resolve c) e) (\<lambda>t. k p t))"

definition prepare_payload ::
  "('k, 'p, 'z client_scheme) client_config \<Rightarrow> envelope \<Rightarrow> ('z client_scheme, (string \<times> json) list) prog" where
  "prepare_payload c e =
     bindP (case map_of (env_payload e) ''manifest'' of
              None \<Rightarrow> raiseP (KeyError ''manifest'') | Some v \<Rightarrow> liftE (cd_manifest_of (cc_codec c) v)) (\<lambda>m.
     bindP (check_fencing e (man_assignment_id m) (man_dispatch_generation m) (man_lease_epoch m)) (\<lambda>_.
     bindP (fetch_task (cc_signer c) (cc_resolve c) e) (\<lambda>t.
     bindP (worker_prepare (cc_signer c) m t) (\<lambda>ok. returnP [(''accepted'', JBool ok)]))))"

definition status_payload ::
  "('k, 'p, 'z client_scheme) client_config \<Rightarrow> envelope \<Rightarrow> ('z client_scheme, (string \<times> json) list) prog" where
  "status_payload c e =
     bindP (fetch_task (cc_signer c) (cc_resolve c) e) (\<lambda>t.
     case (env_assignment_id e, env_dispatch_generation e, env_lease_epoch e) of
       (Some a, Some generation, Some epoch) \<Rightarrow>
         bindP (worker_query a generation epoch t) (\<lambda>x. returnP [(''status'', JStr x)])
     | _ \<Rightarrow> raiseP (WorkerClientError ''STATUS_QUERY lacks assignment fencing fields''))"

definition command_payload ::
  "('k, 'p, 'z client_scheme) client_config \<Rightarrow> envelope \<Rightarrow> ('z client_scheme, (string \<times> json) list) prog" where
  "command_payload c e =
     (let g = cc_signer c; kind = env_message_type e in
      if kind = ''PREPARE'' then prepare_payload c e
      else if kind = ''PLAN'' then with_plan c e (\<lambda>p t.
        bindP (worker_acknowledge g p t) (\<lambda>ok. returnP [(''accepted'', JBool ok)]))
      else if kind = ''EXECUTE'' then with_plan c e (execute_payload c)
      else if kind = ''STATUS_QUERY'' then status_payload c e
      else if kind = ''CANCEL'' then with_plan c e (\<lambda>p t.
        bindP (worker_cancel g p t) (\<lambda>ok. returnP [(''cancelled'', JBool ok)]))
      else if kind = ''RECONCILE'' then with_plan c e (\<lambda>p t.
        bindP (worker_reconcile g p t) (\<lambda>ok. returnP [(''safe'', JBool ok)]))
      else returnP [(''accepted'', JBool False), (''error'', JStr ''UNKNOWN_MESSAGE_TYPE'')])"

definition handle ::
  "('k, 'p, 'z client_scheme) client_config \<Rightarrow> envelope \<Rightarrow> ('z client_scheme, envelope) prog" where
  "handle c e =
     bindP (command_payload c e) (\<lambda>payload.
     make_envelope (env_message_type e @ ''_RESULT'')
       (AList.update ''reply_to'' (JStr (env_message_id e)) payload)
       (env_assignment_id e) (env_dispatch_generation e) (env_lease_epoch e))"

definition handle_and_send ::
  "('k, 'p, 'z client_scheme) client_config \<Rightarrow> envelope \<Rightarrow> ('z client_scheme, unit) prog" where
  "handle_and_send c e =
     bindP (handle c e) (\<lambda>r.
     bindP (record_response (env_message_id e) r) (\<lambda>_. send r))"

section \<open>A session\<close>

definition send_cached :: "envelope \<Rightarrow> ('z client_scheme, bool) prog" where
  "send_cached e =
     bindP (readP (\<lambda>s. map_of (wc_responses s) (env_message_id e))) (\<lambda>cached.
     case cached of
       None \<Rightarrow> returnP False
     | Some r \<Rightarrow> bindP (send r) (\<lambda>_. returnP True))"

text \<open>The checks on an arriving message; what comes out is a command to be carried out.\<close>

definition accept_message :: "wire_message \<Rightarrow> ('z client_scheme, envelope option) prog" where
  "accept_message raw = (case raw of
      Binary \<Rightarrow> raiseP (WorkerClientError ''binary Worker protocol message is forbidden'')
    | Bad_text \<Rightarrow> raiseP (ValueError ''validation error for ProtocolEnvelope'')
    | Envelope e \<Rightarrow>
        bindP (readP wc_seen_sequence) (\<lambda>seen.
        if env_sequence e \<le> seen then bindP (send_cached e) (\<lambda>_. returnP None)
        else
          bindP (checkP (env_sequence e = seen + 1)
             (WorkerClientError (''Master sequence gap: expected '' @ show_int (seen + 1) @ '', got ''
                @ show_int (env_sequence e)))) (\<lambda>_.
          bindP (updateP (\<lambda>s. s\<lparr>wc_seen_sequence := env_sequence e\<rparr>)) (\<lambda>_.
          bindP persist_protocol_state (\<lambda>_.
          if env_message_type e = ''ACK'' then
            bindP (case text_field (env_payload e) ''reply_to'' of
                     None \<Rightarrow> returnP () | Some r \<Rightarrow> ack_response r) (\<lambda>_. returnP None)
          else
            bindP (send_cached e) (\<lambda>sent. returnP (if sent then None else Some e)))))))"

definition receive ::
  "('k, 'p, 'z client_scheme) client_config \<Rightarrow> wire_message \<Rightarrow> ('z client_scheme, unit) prog" where
  "receive c raw =
     bindP (accept_message raw) (\<lambda>command.
     case command of
       None \<Rightarrow> returnP ()
     | Some e \<Rightarrow>
         if env_message_type e = ''EXECUTE''
         then updateP (\<lambda>s. s\<lparr>wc_background := wc_background s @ [e]\<rparr>)
         else handle_and_send c e)"

definition ignore_errors :: "('s, unit) prog \<Rightarrow> ('s, unit) prog" where
  "ignore_errors m = catchP m (\<lambda>_. True) (\<lambda>_. returnP ())"

text \<open>A background task to its end; its exceptions are collected and dropped.\<close>

definition run_background ::
  "('k, 'p, 'z client_scheme) client_config \<Rightarrow> envelope \<Rightarrow> ('z client_scheme, unit) prog" where
  "run_background c e =
     bindP (updateP (\<lambda>s. s\<lparr>wc_background := remove1 e (wc_background s)\<rparr>)) (\<lambda>_.
     ignore_errors (handle_and_send c e))"

text \<open>
  What can happen while a session is open, in the order it happens. The heartbeat loop ends with its
  first failed send; a list of activities may contain later beats too, which every list without
  them is a case of.
\<close>

datatype activity =
    Arrival wire_message
  | Beat "exn + gpu_snapshot list"
  | Background envelope

definition perform ::
  "('k, 'p, 'z client_scheme) client_config \<Rightarrow> activity \<Rightarrow> ('z client_scheme, unit) prog" where
  "perform c a = (case a of
      Arrival raw \<Rightarrow> receive c raw
    | Beat result \<Rightarrow> ignore_errors (heartbeat (cc_codec c) result)
    | Background e \<Rightarrow>
        bindP (readP (\<lambda>s. e \<in> set (wc_background s))) (\<lambda>open. whenP open (run_background c e)))"

definition resend_responses :: "('z client_scheme, unit) prog" where
  "resend_responses =
     bindP (readP (\<lambda>s. dvalues (wc_responses s))) (\<lambda>rs.
     bindP (forP rs send) (\<lambda>_. returnP ()))"

definition drain_background ::
  "('k, 'p, 'z client_scheme) client_config \<Rightarrow> ('z client_scheme, unit) prog" where
  "drain_background c =
     bindP (readP wc_background) (\<lambda>es. bindP (forP es (run_background c)) (\<lambda>_. returnP ()))"

text \<open>
  \<open>_session\<close>: the connection is refused, or it opens and the loop over the messages ends in the way
  \<open>ending\<close> says unless a message ends it before.
\<close>

datatype visit = Refused exn | Visit "activity list" "exn option"

definition session ::
  "('k, 'p, 'z client_scheme) client_config \<Rightarrow> visit \<Rightarrow> ('z client_scheme, unit) prog" where
  "session c v = (case v of
      Refused x \<Rightarrow> raiseP x
    | Visit activities ending \<Rightarrow>
        bindP resend_responses (\<lambda>_.
        finallyP
          (bindP (forP activities (perform c)) (\<lambda>_.
           case ending of None \<Rightarrow> returnP () | Some x \<Rightarrow> raiseP x))
          (drain_background c)))"

text \<open>The exceptions \<open>run\<close> survives, and the loop itself with the seconds it waits in between.\<close>

fun reconnects :: "exn \<Rightarrow> bool" where
  "reconnects ConnectionClosed = True"
| "reconnects e = is_OSError e"

fun run_client ::
  "('k, 'p, 'z client_scheme) client_config \<Rightarrow> int \<Rightarrow> visit list \<Rightarrow> ('z client_scheme, int list) prog" where
  "run_client c delay [] = returnP []"
| "run_client c delay (v # rest) = (\<lambda>s.
     case session c v s of
       (Inr _, t) \<Rightarrow> run_client c 1 rest t
     | (Inl x, t) \<Rightarrow>
         if reconnects x
         then bindP (run_client c (min (delay * 2) 30) rest) (\<lambda>ds. returnP (delay # ds)) t
         else (Inl x, t))"

end
