(* ===== verification/Worker_Hub.thy ===== *)
theory Worker_Hub
  imports Worker_Client Scheduler_Recovery
begin

text \<open>
  The master's side of the link, \<open>WorkerHub\<close> and \<open>RemoteWorkerDriver\<close> of
  \<open>src/agent_scheduler/worker/protocol.py\<close>. The state extends the scheduler's, which the hub's
  heartbeats feed and which calls the remote driver. While a request waits for its reply the event
  loop serves whatever the workers send: that is an argument of the state, so a request is a
  function of it. Definitions only; theory \<open>Worker_Link\<close> proves them correct.
\<close>

section \<open>State\<close>

text \<open>What reaches the event loop: a worker connects, sends a message or is cut off.\<close>

datatype hub_event =
    Joins string
  | Sends string wire_message
  | Leaves string

text \<open>
  \<open>hb_pending\<close> maps the identifier of a request to its future, \<open>None\<close> until it is resolved.
  \<open>hb_sent\<close> is what was put on the wire, by worker. The environment: \<open>hb_wire\<close> says which sends
  succeed, \<open>hb_traffic k n\<close> is what the loop serves within the \<open>n\<close> seconds the \<open>k\<close>-th request waits,
  \<open>hb_inbox k\<close> the files \<open>driver-events.jsonl\<close> when they are read for the \<open>k\<close>-th time.
\<close>

record hub = sched +
  hb_connections :: "string list"
  hb_pending :: "(string, envelope option) dict"
  hb_sequence :: "(string, int) dict"
  hb_receive_sequence :: "(string, int) dict"
  hb_last_snapshot :: "(string, worker_snapshot) dict"
  hb_loop :: bool
  hb_sent :: "(string \<times> envelope) list"
  hb_wire :: "nat \<Rightarrow> bool"
  hb_wire_no :: nat
  hb_traffic :: "nat \<Rightarrow> int \<Rightarrow> hub_event list"
  hb_traffic_no :: nat
  hb_inbox :: "nat \<Rightarrow> string \<times> string \<Rightarrow> string option"
  hb_inbox_no :: nat
  rd_worker_id :: "string option"
  rd_assignment_workers :: "(string, string) dict"

definition counter :: "(string, int) dict \<Rightarrow> string \<Rightarrow> int" where
  "counter d w = (case map_of d w of None \<Rightarrow> 0 | Some n \<Rightarrow> n)"

definition sequence_file :: "string \<Rightarrow> int \<Rightarrow> obj" where
  "sequence_file w n = O_json [(''worker_id'', JStr w), (''sequence'', JInt n)]"

section \<open>Start\<close>

text \<open>One file of sequence numbers; Python counts a boolean as an integer.\<close>

definition read_sequence :: "obj \<Rightarrow> (string \<times> int) option" where
  "read_sequence d = (case d of
      O_json v \<Rightarrow> (case (jget v ''worker_id'', jget v ''sequence'') of
          (JStr w, JInt n) \<Rightarrow> Some (w, n)
        | (JStr w, JBool b) \<Rightarrow> Some (w, if b then 1 else 0)
        | _ \<Rightarrow> None)
    | _ \<Rightarrow> None)"

definition load_sequences ::
  "string \<Rightarrow> ((string \<times> int) \<Rightarrow> 'z hub_scheme \<Rightarrow> 'z hub_scheme) \<Rightarrow> ('z hub_scheme, unit) prog" where
  "load_sequences object_type set_entry =
     bindP (each_snapshot object_type (\<lambda>d. case read_sequence d of
       None \<Rightarrow> returnP () | Some x \<Rightarrow> updateP (set_entry x))) (\<lambda>_. returnP ())"

definition start_hub :: "('z hub_scheme, unit) prog" where
  "start_hub =
     bindP (updateP (\<lambda>s. s\<lparr>hb_connections := [], hb_pending := [], hb_sequence := [],
        hb_receive_sequence := [], hb_last_snapshot := [], hb_loop := False\<rparr>)) (\<lambda>_.
     bindP (load_sequences ''protocol-sequence''
        (\<lambda>(w, n) s. s\<lparr>hb_sequence := AList.update w n (hb_sequence s)\<rparr>)) (\<lambda>_.
     load_sequences ''worker-receive-sequence''
        (\<lambda>(w, n) s. s\<lparr>hb_receive_sequence := AList.update w n (hb_receive_sequence s)\<rparr>)))"

section \<open>Sending\<close>

definition send_text :: "string \<Rightarrow> envelope \<Rightarrow> ('z hub_scheme, unit) prog" where
  "send_text w e =
     bindP (readP (\<lambda>s. hb_wire s (hb_wire_no s))) (\<lambda>up.
     bindP (updateP (\<lambda>s. s\<lparr>hb_wire_no := Suc (hb_wire_no s)\<rparr>)) (\<lambda>_.
     if up then updateP (\<lambda>s. s\<lparr>hb_sent := hb_sent s @ [(w, e)]\<rparr>) else raiseP WebSocketDisconnect))"

text \<open>The next sequence number towards a worker, in memory first and then on disk.\<close>

definition take_sequence :: "('k, 'p) signer \<Rightarrow> string \<Rightarrow> ('z hub_scheme, int) prog" where
  "take_sequence g w =
     bindP (readP (\<lambda>s. counter (hb_sequence s) w + 1)) (\<lambda>n.
     bindP (updateP (\<lambda>s. s\<lparr>hb_sequence := AList.update w n (hb_sequence s)\<rparr>)) (\<lambda>_.
     bindP (write_snapshot ''protocol-sequence'' (worker_object_id g w) (sequence_file w n)) (\<lambda>_.
     returnP n)))"

definition hub_envelope ::
  "string \<Rightarrow> (string \<times> json) list \<Rightarrow> string option \<Rightarrow> int option \<Rightarrow> int option \<Rightarrow> int
     \<Rightarrow> ('z hub_scheme, envelope) prog" where
  "hub_envelope message_type payload a generation epoch n =
     bindP (fresh_id ''msg'') (\<lambda>i.
     let e = \<lparr>env_message_id = i, env_sequence = n, env_message_type = message_type,
              env_assignment_id = a, env_dispatch_generation = generation,
              env_lease_epoch = epoch, env_payload = payload\<rparr>
     in bindP (checkP (valid_envelope e) (ValueError ''validation error for ProtocolEnvelope''))
          (\<lambda>_. returnP e))"

definition send_ack :: "('k, 'p) signer \<Rightarrow> string \<Rightarrow> envelope \<Rightarrow> ('z hub_scheme, unit) prog" where
  "send_ack g w e =
     bindP (readP (\<lambda>s. w \<in> set (hb_connections s))) (\<lambda>connected.
     bindP (checkP connected (KeyError w)) (\<lambda>_.
     bindP (take_sequence g w) (\<lambda>n.
     bindP (hub_envelope ''ACK'' [(''reply_to'', JStr (env_message_id e))] (env_assignment_id e)
              (env_dispatch_generation e) (env_lease_epoch e) n) (\<lambda>ack.
     send_text w ack))))"

section \<open>Serving a worker\<close>

definition json_opt :: "('a \<Rightarrow> json) \<Rightarrow> 'a option \<Rightarrow> json" where
  "json_opt f x = (case x of None \<Rightarrow> JNull | Some y \<Rightarrow> f y)"

text \<open>\<open>on_heartbeat\<close> in a thread of its own: whatever it raises is lost.\<close>

definition detached_heartbeat :: "('k, 'p) signer \<Rightarrow> worker_snapshot \<Rightarrow> ('z hub_scheme, unit) prog" where
  "detached_heartbeat g w = ignore_errors (register_worker g w ''worker-register'')"

definition serve_heartbeat ::
  "('k, 'p) signer \<Rightarrow> codec \<Rightarrow> string \<Rightarrow> envelope \<Rightarrow> ('z hub_scheme, unit) prog" where
  "serve_heartbeat g c w e =
     bindP (case map_of (env_payload e) ''worker'' of
              None \<Rightarrow> raiseP (KeyError ''worker'') | Some v \<Rightarrow> liftE (cd_worker_of c v)) (\<lambda>snapshot.
     bindP (checkP (wkr_worker_id snapshot = w) (WorkerProtocolError ''heartbeat worker_id mismatch'')) (\<lambda>_.
     bindP (updateP (\<lambda>s. s\<lparr>hb_last_snapshot := AList.update w snapshot (hb_last_snapshot s)\<rparr>)) (\<lambda>_.
     bindP (detached_heartbeat g snapshot) (\<lambda>_.
     send_ack g w e))))"

text \<open>A reply resolves the future of its request, once, and is stored before.\<close>

definition serve_reply :: "('k, 'p) signer \<Rightarrow> string \<Rightarrow> envelope \<Rightarrow> ('z hub_scheme, unit) prog" where
  "serve_reply g w e = (case text_field (env_payload e) ''reply_to'' of
      None \<Rightarrow> returnP ()
    | Some r \<Rightarrow>
        bindP (readP (\<lambda>s. map_of (hb_pending s) r = Some None)) (\<lambda>waiting.
        whenP waiting
          (bindP (immutable_exists ''worker-replies'' (env_message_id e)) (\<lambda>known.
           bindP (whenP (\<not> known) (write_immutable ''worker-replies'' (env_message_id e) (O_envelope e))) (\<lambda>_.
           bindP (updateP (\<lambda>s. s\<lparr>hb_pending := AList.update r (Some e) (hb_pending s)\<rparr>)) (\<lambda>_.
           send_ack g w e))))))"

definition record_arrival :: "('k, 'p) signer \<Rightarrow> string \<Rightarrow> envelope \<Rightarrow> ('z hub_scheme, unit) prog" where
  "record_arrival g w e =
     bindP (updateP (\<lambda>s. s\<lparr>hb_receive_sequence :=
        AList.update w (env_sequence e) (hb_receive_sequence s)\<rparr>)) (\<lambda>_.
     bindP (write_snapshot ''worker-receive-sequence'' (worker_object_id g w) (sequence_file w (env_sequence e))) (\<lambda>_.
     bindP (append_event ''workers'' (worker_object_id g w) (''MESSAGE_'' @ env_message_type e) w (env_message_id e)
        [(''sequence'', JInt (env_sequence e)), (''assignment_id'', json_opt JStr (env_assignment_id e)),
         (''dispatch_generation'', json_opt JInt (env_dispatch_generation e)),
         (''lease_epoch'', json_opt JInt (env_lease_epoch e))]) (\<lambda>_.
     returnP ())))"

text \<open>One turn of the loop of \<open>serve\<close>.\<close>

definition serve_message ::
  "('k, 'p) signer \<Rightarrow> codec \<Rightarrow> string \<Rightarrow> wire_message \<Rightarrow> ('z hub_scheme, unit) prog" where
  "serve_message g c w raw = (case raw of
      Envelope e \<Rightarrow>
        bindP (readP (\<lambda>s. counter (hb_receive_sequence s) w)) (\<lambda>prior.
        if env_sequence e \<le> prior then
          bindP (immutable_exists ''worker-replies'' (env_message_id e)) (\<lambda>known. whenP known (send_ack g w e))
        else
          bindP (checkP (env_sequence e = prior + 1)
            (WorkerProtocolError (''Worker sequence gap: expected '' @ show_int (prior + 1) @ '', got ''
               @ show_int (env_sequence e)))) (\<lambda>_.
          bindP (record_arrival g w e) (\<lambda>_.
          if env_message_type e = ''HEARTBEAT'' then serve_heartbeat g c w e else serve_reply g w e)))
    | Bad_text \<Rightarrow> raiseP (ValueError ''validation error for ProtocolEnvelope'')
    | Binary \<Rightarrow> raiseP (KeyError ''text''))"

text \<open>The end of \<open>serve\<close>: the worker is offline, the state of its devices unknown.\<close>

definition disconnect :: "('k, 'p) signer \<Rightarrow> string \<Rightarrow> ('z hub_scheme, unit) prog" where
  "disconnect g w =
     bindP (updateP (\<lambda>s. s\<lparr>hb_connections := removeAll w (hb_connections s)\<rparr>)) (\<lambda>_.
     bindP (readP (\<lambda>s. map_of (hb_last_snapshot s) w)) (\<lambda>prior.
     case prior of
       None \<Rightarrow> returnP ()
     | Some snapshot \<Rightarrow>
         bindP utc_now (\<lambda>now.
         register_worker g ((offline_worker snapshot)\<lparr>wkr_last_heartbeat_at := now\<rparr>) ''worker-register'')))"

text \<open>
  One event of the loop. An exception ends the \<open>serve\<close> of that worker, through its \<open>finally\<close>
  clause, and goes to the web server; other workers and pending requests do not see it.
\<close>

definition serve_event :: "('k, 'p) signer \<Rightarrow> codec \<Rightarrow> hub_event \<Rightarrow> ('z hub_scheme, unit) prog" where
  "serve_event g c ev = (case ev of
      Joins w \<Rightarrow> updateP (\<lambda>s. if w \<in> set (hb_connections s) then s
                          else s\<lparr>hb_connections := hb_connections s @ [w], hb_loop := True\<rparr>)
    | Sends w raw \<Rightarrow>
        bindP (readP (\<lambda>s. w \<in> set (hb_connections s))) (\<lambda>connected.
        whenP connected
          (catchP (serve_message g c w raw) (\<lambda>_. True) (\<lambda>_. ignore_errors (disconnect g w))))
    | Leaves w \<Rightarrow>
        bindP (readP (\<lambda>s. w \<in> set (hb_connections s))) (\<lambda>connected.
        whenP connected (ignore_errors (disconnect g w))))"

definition serve_events :: "('k, 'p) signer \<Rightarrow> codec \<Rightarrow> hub_event list \<Rightarrow> ('z hub_scheme, unit) prog" where
  "serve_events g c evs = bindP (forP evs (serve_event g c)) (\<lambda>_. returnP ())"

section \<open>Requests\<close>

text \<open>\<open>asyncio.wait_for\<close>: what arrives in time is served, then the future is resolved or not.\<close>

definition await_reply :: "('k, 'p) signer \<Rightarrow> codec \<Rightarrow> string \<Rightarrow> int \<Rightarrow> ('z hub_scheme, envelope) prog" where
  "await_reply g c i timeout =
     bindP (readP (\<lambda>s. hb_traffic s (hb_traffic_no s) timeout)) (\<lambda>evs.
     bindP (updateP (\<lambda>s. s\<lparr>hb_traffic_no := Suc (hb_traffic_no s)\<rparr>)) (\<lambda>_.
     bindP (serve_events g c evs) (\<lambda>_.
     bindP (readP (\<lambda>s. map_of (hb_pending s) i)) (\<lambda>future.
     case future of
       Some (Some r) \<Rightarrow> returnP r
     | _ \<Rightarrow> raiseP (TimeoutError '''')))))"

definition request ::
  "('k, 'p) signer \<Rightarrow> codec \<Rightarrow> string \<Rightarrow> string \<Rightarrow> (string \<times> json) list \<Rightarrow> string \<Rightarrow> int \<Rightarrow> int \<Rightarrow> int
     \<Rightarrow> ('z hub_scheme, envelope) prog" where
  "request g c w message_type payload a generation epoch timeout =
     bindP (readP hb_loop) (\<lambda>running.
     bindP (checkP running (WorkerProtocolError ''WorkerHub has no running event loop'')) (\<lambda>_.
     bindP (readP (\<lambda>s. w \<in> set (hb_connections s))) (\<lambda>connected.
     bindP (checkP connected (WorkerProtocolError ''Worker is not connected'')) (\<lambda>_.
     bindP (take_sequence g w) (\<lambda>n.
     bindP (hub_envelope message_type payload (Some a) (Some generation) (Some epoch) n) (\<lambda>e.
     bindP (updateP (\<lambda>s. s\<lparr>hb_pending := AList.update (env_message_id e) None (hb_pending s)\<rparr>)) (\<lambda>_.
     bindP (append_event ''workers'' (worker_object_id g w) (''SEND_'' @ message_type) ''master'' (env_message_id e)
        [(''sequence'', JInt n), (''assignment_id'', JStr a)]) (\<lambda>_.
     finallyP
       (bindP (send_text w e) (\<lambda>_. await_reply g c (env_message_id e) timeout))
       (updateP (\<lambda>s. s\<lparr>hb_pending := AList.delete (env_message_id e) (hb_pending s)\<rparr>))))))))))"

section \<open>The remote driver\<close>

definition plan_reference :: "plan \<Rightarrow> ('z hub_scheme, (string \<times> json) list) prog" where
  "plan_reference p = (case pln_content_hash p of
      None \<Rightarrow> raiseP (WorkerProtocolError ''ExecutionPlan has no content hash'')
    | Some h \<Rightarrow> readP (\<lambda>s.
        [(''plan_id'', JStr (pln_plan_id p)), (''plan_content_hash'', JStr h),
         (''plan_path'', JStr (immutable_path (store_root s) ''plans'' (json_name (pln_plan_id p)))),
         (''plan_canonical_path'', JStr (immutable_path (store_root s) ''plans'' (pln_plan_id p @ ''.canonical.json'')))]))"

definition task_reference :: "task \<Rightarrow> ('z hub_scheme, (string \<times> json) list) prog" where
  "task_reference t = (case tsk_content_hash t of
      None \<Rightarrow> raiseP (WorkerProtocolError ''Task has no content hash'')
    | Some h \<Rightarrow> readP (\<lambda>s.
        [(''task_id'', JStr (tsk_task_id t)), (''task_content_hash'', JStr h),
         (''task_path'', JStr (immutable_path (store_root s) ''tasks'' (json_name (tsk_task_id t)))),
         (''task_canonical_path'', JStr (immutable_path (store_root s) ''tasks'' (tsk_task_id t @ ''.canonical.json'')))]))"

text \<open>\<open>_ingest_worker_evidence\<close>: every line is bound to the task and stored once.\<close>

definition ingest_line :: "task \<Rightarrow> string \<Rightarrow> ('z hub_scheme, unit) prog" where
  "ingest_line t l = (case json_loads l of
      None \<Rightarrow> raiseP (ValueError ''invalid JSON'')
    | Some (JObj d) \<Rightarrow>
        bindP (checkP (jget d ''task_id'' = JStr (tsk_task_id t))
          (WorkerProtocolError ''Worker evidence is malformed or cross-bound'')) (\<lambda>_.
        case text_field d ''event_id'' of
          None \<Rightarrow> raiseP (WorkerProtocolError ''Worker evidence lacks event_id'')
        | Some i \<Rightarrow>
            bindP (immutable_exists ''worker-evidence'' i) (\<lambda>known.
            whenP (\<not> known) (write_immutable ''worker-evidence'' i (O_json d))))
    | Some _ \<Rightarrow> raiseP (WorkerProtocolError ''Worker evidence is malformed or cross-bound''))"

definition ingest_evidence :: "task \<Rightarrow> string \<Rightarrow> ('z hub_scheme, unit) prog" where
  "ingest_evidence t w =
     bindP (readP (\<lambda>s. hb_inbox s (hb_inbox_no s) (w, tsk_execution_id t))) (\<lambda>inbox.
     bindP (updateP (\<lambda>s. s\<lparr>hb_inbox_no := Suc (hb_inbox_no s)\<rparr>)) (\<lambda>_.
     case inbox of
       None \<Rightarrow> returnP ()
     | Some b \<Rightarrow> bindP (forP (split_lines [] b) (ingest_line t)) (\<lambda>_. returnP ())))"

definition remote_prepare ::
  "('k, 'p) signer \<Rightarrow> codec \<Rightarrow> manifest \<Rightarrow> task \<Rightarrow> ('z hub_scheme, bool) prog" where
  "remote_prepare g c m t =
     bindP (updateP (\<lambda>s. s\<lparr>rd_assignment_workers :=
        AList.update (man_assignment_id m) (man_worker_id m) (rd_assignment_workers s)\<rparr>)) (\<lambda>_.
     bindP (task_reference t) (\<lambda>ref.
     bindP (request g c (man_worker_id m) ''PREPARE'' ((''manifest'', cd_manifest_json c m) # ref)
        (man_assignment_id m) (man_dispatch_generation m) (man_lease_epoch m) 30) (\<lambda>r.
     bindP (ingest_evidence t (man_worker_id m)) (\<lambda>_.
     returnP (flag (env_payload r) ''accepted'')))))"

text \<open>The calls that name a plan: its reference and the task's, a request, and the evidence.\<close>

definition plan_request ::
  "('k, 'p) signer \<Rightarrow> codec \<Rightarrow> string \<Rightarrow> plan \<Rightarrow> task \<Rightarrow> exn + int \<Rightarrow> ('z hub_scheme, envelope) prog" where
  "plan_request g c message_type p t timeout =
     bindP (plan_reference p) (\<lambda>pref.
     bindP (task_reference t) (\<lambda>tref.
     bindP (liftE timeout) (\<lambda>seconds.
     bindP (request g c (pln_worker_id p) message_type (pref @ tref)
        (pln_assignment_id p) (pln_dispatch_generation p) (pln_lease_epoch p) seconds) (\<lambda>r.
     bindP (ingest_evidence t (pln_worker_id p)) (\<lambda>_. returnP r)))))"

definition remote_flag ::
  "('k, 'p) signer \<Rightarrow> codec \<Rightarrow> string \<Rightarrow> string \<Rightarrow> int \<Rightarrow> plan \<Rightarrow> task \<Rightarrow> ('z hub_scheme, bool) prog" where
  "remote_flag g c message_type name timeout p t =
     bindP (plan_request g c message_type p t (Inr timeout)) (\<lambda>r. returnP (flag (env_payload r) name))"

definition remote_acknowledge ::
  "('k, 'p) signer \<Rightarrow> codec \<Rightarrow> plan \<Rightarrow> task \<Rightarrow> ('z hub_scheme, bool) prog" where
  "remote_acknowledge g c p t = remote_flag g c ''PLAN'' ''accepted'' 30 p t"

definition execute_timeout :: "task \<Rightarrow> exn + int" where
  "execute_timeout t = (case map unt_timeout_seconds (tsk_units t) of
      [] \<Rightarrow> Inl (ValueError ''max() iterable argument is empty'')
    | n # ns \<Rightarrow> Inr (fold max ns n + 180))"

definition remote_execute ::
  "('k, 'p) signer \<Rightarrow> codec \<Rightarrow> plan \<Rightarrow> task \<Rightarrow> ('z hub_scheme, exec_result) prog" where
  "remote_execute g c p t =
     bindP (plan_request g c ''EXECUTE'' p t (execute_timeout t)) (\<lambda>r.
     let d = env_payload r in
     bindP (case map_of d ''exit_code'' of
              None \<Rightarrow> raiseP (KeyError ''exit_code'') | Some v \<Rightarrow> liftE (py_int v)) (\<lambda>code.
     returnP \<lparr>res_exit_code = code, res_logs_present = flag d ''logs_present'',
              res_outputs_present = flag d ''outputs_present'', res_cleanup_ok = flag d ''cleanup_ok'',
              res_warning = text_field d ''warning'', res_failure_reason = text_field d ''failure_reason''\<rparr>))"

definition remote_query ::
  "('k, 'p) signer \<Rightarrow> codec \<Rightarrow> string \<Rightarrow> int \<Rightarrow> int \<Rightarrow> task \<Rightarrow> ('z hub_scheme, string) prog" where
  "remote_query g c a generation epoch t =
     bindP (readP (\<lambda>s. case map_of (rd_assignment_workers s) a of
        Some w \<Rightarrow> Some w | None \<Rightarrow> rd_worker_id s)) (\<lambda>worker.
     case worker of
       None \<Rightarrow> raiseP (WorkerProtocolError ''assignment has no known Worker'')
     | Some w \<Rightarrow>
         bindP (task_reference t) (\<lambda>ref.
         bindP (request g c w ''STATUS_QUERY'' ref a generation epoch 30) (\<lambda>r.
         returnP (case text_field (env_payload r) ''status'' of None \<Rightarrow> ''UNKNOWN'' | Some x \<Rightarrow> x))))"

definition remote_cancel :: "('k, 'p) signer \<Rightarrow> codec \<Rightarrow> plan \<Rightarrow> task \<Rightarrow> ('z hub_scheme, bool) prog" where
  "remote_cancel g c p t = remote_flag g c ''CANCEL'' ''cancelled'' 60 p t"

definition remote_reconcile :: "('k, 'p) signer \<Rightarrow> codec \<Rightarrow> plan \<Rightarrow> task \<Rightarrow> ('z hub_scheme, bool) prog" where
  "remote_reconcile g c p t = remote_flag g c ''RECONCILE'' ''safe'' 30 p t"

definition remote_driver :: "('k, 'p) signer \<Rightarrow> codec \<Rightarrow> 'z hub_scheme driver" where
  "remote_driver g c =
     \<lparr>drv_prepare = remote_prepare g c, drv_acknowledge_plan = remote_acknowledge g c,
      drv_execute = remote_execute g c, drv_cancel = remote_cancel g c,
      drv_query_status = remote_query g c, drv_reconcile = remote_reconcile g c\<rparr>"

end
