(* ===== verification/Http_App.thy ===== *)
theory Http_App
  imports Configuration Proposal_Service Worker_Hub
begin

text \<open>
  The master as a whole, \<open>src/agent_scheduler/api/app.py\<close>: the composition of proposal service,
  scheduler and hub over one store, the HTTP routes, the worker socket and the background loop.
  Definitions only; theory \<open>App_System\<close> proves what holds of every run.
  A route is a program that returns the body of the answer or raises; \<open>answer\<close> is the
  exception handler of the framework. What pydantic dumps is an argument (\<open>views\<close>), and so is
  \<open>Path.resolve\<close>.
\<close>

section \<open>The state of the master\<close>

text \<open>
  One record for everything: the hub's state, which extends the scheduler's and the store, and the
  service's own fields in \<open>ap_service\<close>. The store in \<open>ap_service\<close> is not used: the service runs on
  the common one. \<open>ap_draining\<close> is \<open>AppContext.draining\<close>; three module level caches; the rest is
  what the environment shows at the \<open>n\<close>-th look: files, trees of files, the monotonic clock and
  \<open>docker inspect\<close>.
\<close>

record 'h app = hub +
  ap_service :: "'h service_scheme"
  ap_draining :: bool
  ap_integrity_cache :: "(rat \<times> string) option"
  ap_container_cache :: "(rat \<times> (string \<times> json) list) option"
  ap_log_index_cache :: "(string \<times> string, rat \<times> (string \<times> json) list) dict"
  ap_monotonic :: "nat \<Rightarrow> rat"
  ap_monotonic_no :: nat
  ap_inspections :: "nat \<Rightarrow> exn + inspection"
  ap_inspection_no :: nat
  ap_files :: "nat \<Rightarrow> string \<Rightarrow> string option"
  ap_trees :: "nat \<Rightarrow> string \<times> string \<Rightarrow> string list"
  ap_look_no :: nat

text \<open>The service's view of the state, and a call of the service.\<close>

definition the_service :: "('h, 'z) app_scheme \<Rightarrow> 'h service_scheme" where
  "the_service s = world.extend (world.truncate s) (world.more (ap_service s))"

definition put_service :: "'h service_scheme \<Rightarrow> ('h, 'z) app_scheme \<Rightarrow> ('h, 'z) app_scheme" where
  "put_service v s = (world.extend (world.truncate v) (world.more s))\<lparr>ap_service := v\<rparr>"

definition zoom :: "('s \<Rightarrow> 't) \<Rightarrow> ('t \<Rightarrow> 's \<Rightarrow> 's) \<Rightarrow> ('t, 'a) prog \<Rightarrow> ('s, 'a) prog" where
  "zoom get put m = (\<lambda>s. case m (get s) of (r, v) \<Rightarrow> (r, put v s))"

definition on_service :: "('h service_scheme, 'a) prog \<Rightarrow> (('h, 'z) app_scheme, 'a) prog" where
  "on_service m = zoom the_service put_service m"

section \<open>What the master is built from\<close>

record views =
  vw_proposal :: "proposal \<Rightarrow> json"
  vw_review :: "review \<Rightarrow> json"
  vw_facts :: "facts \<Rightarrow> json"
  vw_event :: "event \<Rightarrow> json"
  vw_task :: "task \<Rightarrow> json"
  vw_status :: "task_status \<Rightarrow> json"
  vw_lease :: "lease \<Rightarrow> json"
  vw_plan :: "plan \<Rightarrow> json"
  vw_worker :: "worker_snapshot \<Rightarrow> json"
  vw_gpu :: "gpu_snapshot \<Rightarrow> json"
  vw_unit :: "task_unit \<Rightarrow> (string \<times> json) list"

text \<open>
  \<open>ac_driver\<close> is the fake or the remote driver, by \<open>worker_mode\<close>; \<open>ac_decode\<close> is \<open>decode("utf-8",
  errors="replace")\<close>.
\<close>

record ('k, 'p, 'h, 's) app_config =
  ac_settings :: settings
  ac_signer :: "('k, 'p) signer"
  ac_key_id :: string
  ac_worker_api_key :: string
  ac_driver :: "'s driver"
  ac_collaborators :: "('k, 'p, 'h service_scheme) collaborators"
  ac_codec :: codec
  ac_views :: views
  ac_resolve :: "string \<Rightarrow> string"
  ac_decode :: "string \<Rightarrow> string"

text \<open>
  Headers, what \<open>uuid4\<close> returns where the source calls it, and what the validator of the framework
  reports when it refuses the request.
\<close>

record http_request =
  hr_request_id :: "string option"
  hr_uuid :: string
  hr_username :: "string option"
  hr_idempotency_key :: "string option"
  hr_details :: json

definition request_id :: "http_request \<Rightarrow> string" where
  "request_id q = (case hr_request_id q of None \<Rightarrow> hr_uuid q | Some i \<Rightarrow> i)"

definition username :: "http_request \<Rightarrow> string" where
  "username q = (case hr_username q of None \<Rightarrow> [] | Some u \<Rightarrow> u)"

definition idempotency_key :: "http_request \<Rightarrow> string" where
  "idempotency_key q = (case hr_idempotency_key q of None \<Rightarrow> [] | Some k \<Rightarrow> k)"

section \<open>Errors\<close>

definition error_body :: "string \<Rightarrow> string \<Rightarrow> string \<Rightarrow> (string \<times> json) list" where
  "error_body code message rid =
     [(''error_code'', JStr code), (''message'', JStr message), (''object_id'', JNull),
      (''current_state'', JNull), (''request_id'', JStr rid), (''retryable'', JBool False)]"

definition http_error :: "int \<Rightarrow> string \<Rightarrow> string \<Rightarrow> string \<Rightarrow> exn" where
  "http_error status code message rid = HTTPException status (JObj (error_body code message rid))"

fun proposal_status :: "string \<Rightarrow> int" where
  "proposal_status code =
     (if code = ''NOT_FOUND'' then 404 else if code = ''USERNAME_NOT_ALLOWED'' then 403
      else if code = ''INVALID_PROPOSAL'' then 422 else if code = ''IDEMPOTENCY_REQUIRED'' then 422 else 409)"

fun error_code :: "exn \<Rightarrow> string" where
  "error_code (ProposalError _ c) = c"
| "error_code _ = []"

definition proposal_http_error :: "string \<Rightarrow> exn \<Rightarrow> exn" where
  "proposal_http_error rid e = http_error (proposal_status (error_code e)) (error_code e) (exn_message e) rid"

fun is_SchedulingError :: "exn \<Rightarrow> bool" where
  "is_SchedulingError (SchedulingError _) = True"
| "is_SchedulingError _ = False"

definition convert :: "(exn \<Rightarrow> bool) \<Rightarrow> (exn \<Rightarrow> exn) \<Rightarrow> ('s, 'a) prog \<Rightarrow> ('s, 'a) prog" where
  "convert c f m = catchP m c (\<lambda>e. raiseP (f e))"

text \<open>
  The handlers of the application for its errors: a body of one of its errors passes, any other
  detail is wrapped. The status of an exception of another class is the server's 500.
\<close>

fun http_body :: "string \<Rightarrow> int \<Rightarrow> json \<Rightarrow> (string \<times> json) list" where
  "http_body rid status (JObj d) =
     (if map_of d ''error_code'' \<noteq> None
      then (if map_of d ''request_id'' = None then AList.update ''request_id'' (JStr rid) d else d)
      else error_body (if status = 405 then ''METHOD_NOT_ALLOWED'' else ''HTTP_ERROR'') '''' rid)"
| "http_body rid status detail =
     error_body (if status = 405 then ''METHOD_NOT_ALLOWED'' else ''HTTP_ERROR'') (py_str (\<lambda>_. '''') detail) rid"

datatype answer =
    Answer int "(string \<times> json) list"
  | Chunk string int
  | Page

fun is_HTTPException :: "exn \<Rightarrow> bool" where
  "is_HTTPException (HTTPException _ _) = True"
| "is_HTTPException _ = False"

fun error_answer :: "string \<Rightarrow> exn \<Rightarrow> ('s, answer) prog" where
  "error_answer rid (HTTPException status detail) = returnP (Answer status (http_body rid status detail))"
| "error_answer rid e = raiseP e"

definition answer_with :: "http_request \<Rightarrow> ('s, answer) prog \<Rightarrow> ('s, answer) prog" where
  "answer_with q m = catchP m is_HTTPException (error_answer (request_id q))"

definition json_answer :: "int \<Rightarrow> ('s, (string \<times> json) list) prog \<Rightarrow> ('s, answer) prog" where
  "json_answer status m = bindP m (\<lambda>body. returnP (Answer status body))"

text \<open>Strict validation of the parameters of a request.\<close>

definition valid_call :: "http_request \<Rightarrow> bool \<Rightarrow> ('s, 'a) prog \<Rightarrow> ('s, 'a) prog" where
  "valid_call q ok m =
     bindP (checkP ok (HTTPException 422 (JObj (error_body ''VALIDATION_ERROR''
        ''request failed strict schema validation'' (request_id q) @ [(''details'', hr_details q)])))) (\<lambda>_. m)"

definition valid_markdown_request :: "string \<Rightarrow> bool" where
  "valid_markdown_request m \<longleftrightarrow> 1 \<le> py_len m \<and> py_len m \<le> 256 * 1024"

definition valid_admin_reason :: "string \<Rightarrow> string \<Rightarrow> bool" where
  "valid_admin_reason actor reason \<longleftrightarrow>
     1 \<le> py_len actor \<and> py_len actor \<le> 128 \<and> 1 \<le> py_len reason \<and> py_len reason \<le> 1024"

definition reject_if_draining :: "http_request \<Rightarrow> (('h, 'z) app_scheme, unit) prog" where
  "reject_if_draining q =
     bindP (readP ap_draining) (\<lambda>draining.
     checkP (\<not> draining) (http_error 503 ''MASTER_DRAINING'' ''Master is draining'' (hr_uuid q)))"

section \<open>Proposals\<close>

definition with_id :: "http_request \<Rightarrow> (string \<times> json) list \<Rightarrow> (string \<times> json) list" where
  "with_id q body = (''request_id'', JStr (request_id q)) # body"

definition service_call ::
  "http_request \<Rightarrow> ('h service_scheme, 'a) prog \<Rightarrow> (('h, 'z) app_scheme, 'a) prog" where
  "service_call q m = convert is_ProposalError (proposal_http_error (request_id q)) (on_service m)"

definition proposal_body ::
  "('k, 'p, 'h, ('h, 'z) app_scheme) app_config \<Rightarrow> http_request \<Rightarrow> proposal \<Rightarrow> (string \<times> json) list" where
  "proposal_body c q p = with_id q [(''proposal'', vw_proposal (ac_views c) p)]"

definition create_proposal ::
  "('k, 'p, 'h, ('h, 'z) app_scheme) app_config \<Rightarrow> http_request \<Rightarrow> string
     \<Rightarrow> (('h, 'z) app_scheme, (string \<times> json) list) prog" where
  "create_proposal c q markdown =
     bindP (reject_if_draining q) (\<lambda>_.
     bindP (service_call q (create (ac_collaborators c) (username q) markdown (idempotency_key q) (request_id q)))
       (\<lambda>p. returnP (proposal_body c q p)))"

definition show_proposal ::
  "('k, 'p, 'h, ('h, 'z) app_scheme) app_config \<Rightarrow> http_request \<Rightarrow> string
     \<Rightarrow> (('h, 'z) app_scheme, (string \<times> json) list) prog" where
  "show_proposal c q pid =
     bindP (service_call q (get_proposal pid)) (\<lambda>p. returnP (proposal_body c q p))"

definition show_reviews ::
  "('k, 'p, 'h, ('h, 'z) app_scheme) app_config \<Rightarrow> http_request \<Rightarrow> string
     \<Rightarrow> (('h, 'z) app_scheme, (string \<times> json) list) prog" where
  "show_reviews c q pid =
     bindP (service_call q (bindP (get_reviews pid) (\<lambda>rs. bindP (get_current_facts pid) (\<lambda>f. returnP (rs, f)))))
       (\<lambda>(rs, f). returnP (with_id q [(''reviews'', JArr (map (vw_review (ac_views c)) rs)),
          (''current_facts'', case f of None \<Rightarrow> JNull | Some x \<Rightarrow> vw_facts (ac_views c) x)]))"

definition show_events ::
  "('k, 'p, 'h, ('h, 'z) app_scheme) app_config \<Rightarrow> http_request \<Rightarrow> string \<Rightarrow> string \<Rightarrow> int
     \<Rightarrow> (('h, 'z) app_scheme, (string \<times> json) list) prog" where
  "show_events c q object_type object_id after_sequence =
     bindP (list_events object_type object_id after_sequence) (\<lambda>es.
     returnP (with_id q [(''events'', JArr (map (vw_event (ac_views c)) es))]))"

definition reply_proposal ::
  "('k, 'p, 'h, ('h, 'z) app_scheme) app_config \<Rightarrow> http_request \<Rightarrow> string \<Rightarrow> string
     \<Rightarrow> (('h, 'z) app_scheme, (string \<times> json) list) prog" where
  "reply_proposal c q pid markdown =
     bindP (reject_if_draining q) (\<lambda>_.
     bindP (service_call q (reply (ac_collaborators c) pid (username q) markdown (idempotency_key q) (request_id q)))
       (\<lambda>p. returnP (proposal_body c q p)))"

definition task_body ::
  "('k, 'p, 'h, ('h, 'z) app_scheme) app_config \<Rightarrow> http_request \<Rightarrow> task \<Rightarrow> task_status \<Rightarrow> (string \<times> json) list" where
  "task_body c q t st = with_id q [(''task'', vw_task (ac_views c) t), (''status'', vw_status (ac_views c) st)]"

definition confirm_proposal ::
  "('k, 'p, 'h, ('h, 'z) app_scheme) app_config \<Rightarrow> http_request \<Rightarrow> string \<Rightarrow> string
     \<Rightarrow> (('h, 'z) app_scheme, (string \<times> json) list) prog" where
  "confirm_proposal c q pid revision_id =
     bindP (reject_if_draining q) (\<lambda>_.
     bindP (service_call q (confirm (ac_collaborators c) pid (username q) revision_id (idempotency_key q) (request_id q)))
       (\<lambda>t.
     bindP (convert is_SchedulingError
              (\<lambda>e. http_error 409 ''SCHEDULING_REJECTED'' (exn_message e) (request_id q))
              (enqueue (ac_signer c) t (request_id q))) (\<lambda>st.
     returnP (task_body c q t st))))"

definition resume_route ::
  "('k, 'p, 'h, ('h, 'z) app_scheme) app_config \<Rightarrow> http_request \<Rightarrow> string
     \<Rightarrow> (('h, 'z) app_scheme, (string \<times> json) list) prog" where
  "resume_route c q pid =
     bindP (reject_if_draining q) (\<lambda>_.
     bindP (service_call q (resume_proposal (ac_collaborators c) pid (username q) (idempotency_key q) (request_id q)))
       (\<lambda>p. returnP (proposal_body c q p)))"

definition cancel_route ::
  "('k, 'p, 'h, ('h, 'z) app_scheme) app_config \<Rightarrow> http_request \<Rightarrow> string
     \<Rightarrow> (('h, 'z) app_scheme, (string \<times> json) list) prog" where
  "cancel_route c q pid =
     bindP (service_call q (cancel_proposal pid (username q) (request_id q))) (\<lambda>p. returnP (proposal_body c q p))"

section \<open>Tasks\<close>

definition cancel_task_route ::
  "('k, 'p, 'h, ('h, 'z) app_scheme) app_config \<Rightarrow> http_request \<Rightarrow> string
     \<Rightarrow> (('h, 'z) app_scheme, (string \<times> json) list) prog" where
  "cancel_task_route c q task_id =
     bindP (convert is_SchedulingError
        (\<lambda>e. http_error 409 ''CANCEL_REJECTED'' (exn_message e) (request_id q))
        (bindP (get_task task_id) (\<lambda>t.
         bindP (checkP (case tsk_units t of [] \<Rightarrow> False | u # _ \<Rightarrow> unt_submitter_username u = username q)
                  (SchedulingError ''username does not own Task declaration'')) (\<lambda>_.
         cancel_task (ac_driver c) task_id (username q) (request_id q))))) (\<lambda>st.
     returnP (with_id q [(''status'', vw_status (ac_views c) st)]))"

definition show_task ::
  "('k, 'p, 'h, ('h, 'z) app_scheme) app_config \<Rightarrow> http_request \<Rightarrow> string
     \<Rightarrow> (('h, 'z) app_scheme, (string \<times> json) list) prog" where
  "show_task c q task_id =
     bindP (convert is_SchedulingError (\<lambda>e. http_error 404 ''NOT_FOUND'' (exn_message e) (request_id q))
        (bindP (get_task task_id) (\<lambda>t. bindP (get_status task_id) (\<lambda>st. returnP (t, st))))) (\<lambda>(t, st).
     returnP (task_body c q t st))"

section \<open>Logs\<close>

definition framework_logs :: "('k, 'p, 'h, ('h, 'z) app_scheme) app_config \<Rightarrow> string" where
  "framework_logs c = path_join (st_state_root (ac_settings c)) ''framework-logs''"

text \<open>A file below the log directory, or the answer 404.\<close>

definition log_file ::
  "('k, 'p, 'h, ('h, 'z) app_scheme) app_config \<Rightarrow> string list \<Rightarrow> string \<Rightarrow> (('h, 'z) app_scheme, string) prog" where
  "log_file c parts rid =
     (let root = ac_resolve c (framework_logs c);
          path = ac_resolve c (root @ concat (map (\<lambda>p. ''/'' @ p) parts))
      in bindP (readP (\<lambda>s. ap_files s (ap_look_no s) path)) (\<lambda>data.
         bindP (updateP (\<lambda>s. s\<lparr>ap_look_no := Suc (ap_look_no s)\<rparr>)) (\<lambda>_.
         case data of
           Some b \<Rightarrow> if starts_with (root @ ''/'') path then returnP b
                     else raiseP (http_error 404 ''LOG_NOT_FOUND'' ''log not found'' rid)
         | None \<Rightarrow> raiseP (http_error 404 ''LOG_NOT_FOUND'' ''log not found'' rid))))"

text \<open>\<open>seek\<close> and \<open>read\<close>: the bytes and the offset behind them.\<close>

definition read_chunk :: "string \<Rightarrow> nat \<Rightarrow> nat \<Rightarrow> string \<times> nat" where
  "read_chunk data offset limit =
     (let chunk = take limit (drop offset data) in (chunk, offset + length chunk))"

definition get_log ::
  "('k, 'p, 'h, ('h, 'z) app_scheme) app_config \<Rightarrow> http_request \<Rightarrow> string list \<Rightarrow> nat \<Rightarrow> nat
     \<Rightarrow> (('h, 'z) app_scheme, answer) prog" where
  "get_log c q parts offset limit =
     bindP (log_file c parts (hr_uuid q)) (\<lambda>data.
     case read_chunk data offset limit of (chunk, next) \<Rightarrow> returnP (Chunk chunk (int next)))"

text \<open>\<open>bytes.splitlines\<close>: the ends of line are \<open>\n\<close>, \<open>\r\<close> and \<open>\r\n\<close>.\<close>

fun byte_lines :: "string \<Rightarrow> string \<Rightarrow> string list" where
  "byte_lines acc [] = (if acc = [] then [] else [acc])"
| "byte_lines acc (c # s) =
     (if c = CHR 0x0A then acc # byte_lines [] s
      else if c = CHR 0x0D then acc # byte_lines [] (if take 1 s = [CHR 0x0A] then drop 1 s else s)
      else byte_lines (acc @ [c]) s)"

text \<open>Where the last lines of a log start.\<close>

definition tail_start :: "nat \<Rightarrow> string \<Rightarrow> nat" where
  "tail_start n data =
     (let ls = byte_lines [] data
      in length data - length (join [CHR 0x0A] (drop (length ls - n) ls)))"

definition observe_log ::
  "('k, 'p, 'h, ('h, 'z) app_scheme) app_config \<Rightarrow> http_request \<Rightarrow> string list \<Rightarrow> nat option \<Rightarrow> nat
     \<Rightarrow> (('h, 'z) app_scheme, (string \<times> json) list) prog" where
  "observe_log c q parts offset tail_lines =
     bindP (log_file c parts (request_id q)) (\<lambda>data.
     let start = (case offset of Some n \<Rightarrow> n | None \<Rightarrow> tail_start tail_lines data)
     in returnP (with_id q [(''data'', JStr (ac_decode c (drop start data))), (''offset'', JInt (int start)),
                            (''next_offset'', JInt (int (length data)))]))"

section \<open>Administration\<close>

definition admin_object_id :: string where
  "admin_object_id = ''admin_00000000000070008000000000000000''"

definition admin_event ::
  "http_request \<Rightarrow> string \<Rightarrow> string \<Rightarrow> (string \<times> json) list \<Rightarrow> (('h, 'z) app_scheme, unit) prog" where
  "admin_event q event_type actor payload =
     bindP (append_event ''admin'' admin_object_id event_type actor (request_id q) payload) (\<lambda>_. returnP ())"

definition tick_route ::
  "('k, 'p, 'h, ('h, 'z) app_scheme) app_config \<Rightarrow> http_request \<Rightarrow> string \<Rightarrow> string
     \<Rightarrow> (('h, 'z) app_scheme, (string \<times> json) list) prog" where
  "tick_route c q actor reason =
     bindP (tick (ac_signer c) (ac_driver c) (request_id q)) (\<lambda>changed.
     bindP (admin_event q ''SCHEDULER_TICK'' actor [(''reason'', JStr reason),
        (''changed'', JArr (map (\<lambda>st. JStr (sts_task_id st)) changed))]) (\<lambda>_.
     returnP (with_id q [(''statuses'', JArr (map (vw_status (ac_views c)) changed))])))"

definition drain_route ::
  "http_request \<Rightarrow> string \<Rightarrow> string \<Rightarrow> (('h, 'z) app_scheme, (string \<times> json) list) prog" where
  "drain_route q actor reason =
     bindP (readP ap_draining) (\<lambda>before.
     bindP (updateP (\<lambda>s. s\<lparr>ap_draining := True\<rparr>)) (\<lambda>_.
     bindP (admin_event q ''DRAINED'' actor [(''reason'', JStr reason), (''before'', JBool before),
        (''after'', JBool True)]) (\<lambda>_.
     returnP (with_id q [(''draining'', JBool True)]))))"

definition retry_route ::
  "('k, 'p, 'h, ('h, 'z) app_scheme) app_config \<Rightarrow> http_request \<Rightarrow> string \<Rightarrow> string \<Rightarrow> string
     \<Rightarrow> (('h, 'z) app_scheme, (string \<times> json) list) prog" where
  "retry_route c q pid actor reason =
     bindP (service_call q (get_proposal pid)) (\<lambda>before.
     bindP (service_call q (retry_compilation (ac_collaborators c) pid actor (request_id q))) (\<lambda>t.
     bindP (enqueue (ac_signer c) t (request_id q)) (\<lambda>st.
     bindP (service_call q (get_proposal pid)) (\<lambda>after.
     bindP (admin_event q ''COMPILATION_RETRY'' actor [(''reason'', JStr reason), (''proposal_id'', JStr pid),
        (''before'', JStr (proposal_value (prp_state before))),
        (''after'', JStr (proposal_value (prp_state after))), (''task_id'', JStr (tsk_task_id t))]) (\<lambda>_.
     returnP (task_body c q t st))))))"

definition execution_leases ::
  "('k, 'p, 'h, ('h, 'z) app_scheme) app_config \<Rightarrow> string \<Rightarrow> (('h, 'z) app_scheme, json) prog" where
  "execution_leases c x = readP (\<lambda>s. JArr (map (vw_lease (ac_views c))
     (filter (\<lambda>l. lse_execution_id l = x) (dvalues (sc_leases s)))))"

definition reconcile_route ::
  "('k, 'p, 'h, ('h, 'z) app_scheme) app_config \<Rightarrow> http_request \<Rightarrow> string \<Rightarrow> string \<Rightarrow> string
     \<Rightarrow> (('h, 'z) app_scheme, (string \<times> json) list) prog" where
  "reconcile_route c q x actor reason =
     bindP (execution_leases c x) (\<lambda>before.
     bindP (convert is_SchedulingError
        (\<lambda>e. http_error 409 ''RECONCILE_REJECTED'' (exn_message e) (request_id q))
        (reconcile_execution (ac_driver c) x actor reason (request_id q))) (\<lambda>released.
     bindP (execution_leases c x) (\<lambda>after.
     bindP (admin_event q ''RECONCILE_COMMAND'' actor [(''reason'', JStr reason), (''execution_id'', JStr x),
        (''before'', before), (''after'', after), (''released'', JBool released)]) (\<lambda>_.
     returnP (with_id q [(''released'', JBool released)])))))"

definition reload_users ::
  "http_request \<Rightarrow> string list \<Rightarrow> string \<Rightarrow> string \<Rightarrow> (('h, 'z) app_scheme, (string \<times> json) list) prog" where
  "reload_users q users actor reason =
     bindP (readP (\<lambda>s. sorted_list_of_set (sv_allowed_users (ap_service s)))) (\<lambda>before.
     bindP (updateP (\<lambda>s. s\<lparr>ap_service := (ap_service s)\<lparr>sv_allowed_users := set users\<rparr>\<rparr>)) (\<lambda>_.
     bindP (admin_event q ''USERS_RELOADED'' actor [(''reason'', JStr reason),
        (''before'', JArr (map JStr before)), (''after'', JArr (map JStr (sort users)))]) (\<lambda>_.
     returnP (with_id q [(''users'', JArr (map JStr (sort users)))]))))"

section \<open>Observation\<close>

fun is_StoreCorruptionError :: "exn \<Rightarrow> bool" where
  "is_StoreCorruptionError (StoreCorruptionError _) = True"
| "is_StoreCorruptionError _ = False"

text \<open>A value that is computed again when the last one is older than \<open>ttl\<close> seconds.\<close>

definition cached ::
  "rat \<Rightarrow> (('h, 'z) app_scheme \<Rightarrow> (rat \<times> 'a) option) \<Rightarrow> (rat \<times> 'a \<Rightarrow> ('h, 'z) app_scheme \<Rightarrow> ('h, 'z) app_scheme)
     \<Rightarrow> (('h, 'z) app_scheme, 'a) prog \<Rightarrow> (('h, 'z) app_scheme, 'a) prog" where
  "cached ttl entry store compute =
     bindP (readP entry) (\<lambda>cache.
     bindP (readP (\<lambda>s. ap_monotonic s (ap_monotonic_no s))) (\<lambda>now.
     bindP (updateP (\<lambda>s. s\<lparr>ap_monotonic_no := Suc (ap_monotonic_no s)\<rparr>)) (\<lambda>_.
     case cache of
       Some (at_time, v) \<Rightarrow>
         if now - at_time < ttl then returnP v
         else bindP compute (\<lambda>w. bindP (updateP (store (now, w))) (\<lambda>_. returnP w))
     | None \<Rightarrow> bindP compute (\<lambda>w. bindP (updateP (store (now, w))) (\<lambda>_. returnP w)))))"

definition cached_integrity :: "(('h, 'z) app_scheme, string) prog" where
  "cached_integrity =
     cached 30 ap_integrity_cache (\<lambda>e s. s\<lparr>ap_integrity_cache := Some e\<rparr>)
       (catchP (bindP validate_all_events (\<lambda>_. returnP ''valid'')) is_StoreCorruptionError
         (\<lambda>_. returnP ''StoreCorruptionError''))"

fun docker_error_name :: "exn \<Rightarrow> string option" where
  "docker_error_name (DockerError _) = Some ''DockerError''"
| "docker_error_name (DockerTimeout _) = Some ''DockerTimeout''"
| "docker_error_name _ = None"

definition container_summary :: "string \<Rightarrow> (('h, 'z) app_scheme, (string \<times> json) list) prog" where
  "container_summary name =
     cached 2 ap_container_cache (\<lambda>e s. s\<lparr>ap_container_cache := Some e\<rparr>)
       (bindP (readP (\<lambda>s. ap_inspections s (ap_inspection_no s))) (\<lambda>result.
        bindP (updateP (\<lambda>s. s\<lparr>ap_inspection_no := Suc (ap_inspection_no s)\<rparr>)) (\<lambda>_.
        case result of
          Inr i \<Rightarrow> returnP [(''name'', JStr name), (''exists'', JBool (ins_exists i)),
                     (''running'', JBool (ins_running i)), (''image_id'', json_option (ins_image_id i))]
        | Inl e \<Rightarrow> (case docker_error_name e of
              Some n \<Rightarrow> returnP [(''name'', JStr name), (''exists'', JBool False), (''running'', JBool False),
                                (''error'', JStr n)]
            | None \<Rightarrow> raiseP e))))"

definition log_index :: "string \<Rightarrow> string \<Rightarrow> (('h, 'z) app_scheme, (string \<times> json) list) prog" where
  "log_index r pattern =
     cached 2 (\<lambda>s. map_of (ap_log_index_cache s) (r, pattern))
       (\<lambda>e s. s\<lparr>ap_log_index_cache := AList.update (r, pattern) e (ap_log_index_cache s)\<rparr>)
       (bindP (readP (\<lambda>s. rev (sort (ap_trees s (ap_look_no s) (r, pattern))))) (\<lambda>paths.
        bindP (updateP (\<lambda>s. s\<lparr>ap_look_no := Suc (ap_look_no s)\<rparr>)) (\<lambda>_.
        returnP [(''count'', JInt (int (length paths))), (''recent'', JArr (map JStr (take 20 paths)))])))"

definition health ::
  "('k, 'p, 'h, ('h, 'z) app_scheme) app_config \<Rightarrow> http_request \<Rightarrow> (('h, 'z) app_scheme, (string \<times> json) list) prog" where
  "health c q =
     bindP (convert is_StoreCorruptionError
        (\<lambda>e. http_error 503 ''GROUND_TRUTH_CORRUPT'' (exn_message e) (hr_uuid q)) validate_all_events) (\<lambda>_.
     readP (\<lambda>s. let x = ac_settings c in
       [(''status'', JStr (if \<not> ap_draining s then ''ready'' else ''draining'')),
        (''workers'', JInt (int (length (filter wkr_online (dvalues (sc_workers s)))))),
        (''configured_workers'', JInt (int (length (st_allowed_worker_ids x)))),
        (''integrity'', JStr ''valid''), (''qualification'', JBool (st_qualification_profile x)),
        (''harness_mode'', JStr (st_harness_mode x)), (''worker_mode'', JStr (st_worker_mode x))]))"

definition profile :: "settings \<Rightarrow> json" where
  "profile x = JObj [(''qualification'', JBool (st_qualification_profile x)),
     (''vram_threshold'', JNum (st_vram_threshold x)),
     (''authorized_gpu_ids'', JArr (map (\<lambda>n. JInt (int n)) [0..<8]))]"

definition unit_view ::
  "('k, 'p, 'h, ('h, 'z) app_scheme) app_config \<Rightarrow> task \<Rightarrow> task_unit \<Rightarrow> json" where
  "unit_view c t u = JObj (AList.update ''proposal_id'' (JStr (tsk_proposal_id t))
     (AList.update ''execution_id'' (JStr (tsk_execution_id t))
     (AList.update ''task_id'' (JStr (tsk_task_id t)) (vw_unit (ac_views c) u))))"

definition observe_summary ::
  "('k, 'p, 'h, ('h, 'z) app_scheme) app_config \<Rightarrow> http_request \<Rightarrow> (('h, 'z) app_scheme, (string \<times> json) list) prog" where
  "observe_summary c q =
     (let v = ac_views c; x = ac_settings c in
      bindP (on_service list_tasks) (\<lambda>ts.
      bindP (container_summary ''fh-sglang-deepseek-v4-flash'') (\<lambda>container.
      bindP cached_integrity (\<lambda>integrity.
      bindP (on_service list_proposals) (\<lambda>proposals.
      bindP (on_service list_reviews) (\<lambda>reviews.
      bindP queued_task_ids (\<lambda>queue.
      bindP (log_index (framework_logs c) ''*.json'') (\<lambda>framework.
      bindP (readP store_root) (\<lambda>r.
      bindP (log_index (r @ ''/events'') ''*.jsonl'') (\<lambda>audit.
      readP (\<lambda>s. with_id q
        [(''master'', JObj [(''draining'', JBool (ap_draining s)), (''profile'', profile x),
            (''integrity'', JStr integrity), (''harness_mode'', JStr (st_harness_mode x)),
            (''worker_mode'', JStr (st_worker_mode x))]),
         (''workers'', JArr (map (vw_worker v) (dvalues (sc_workers s)))),
         (''gpus'', JArr (map (vw_gpu v) (concat (map wkr_gpus (dvalues (sc_workers s)))))),
         (''proposals'', JArr (map (vw_proposal v) proposals)),
         (''reviews'', JArr (map (vw_review v) reviews)),
         (''tasks'', JArr (map (vw_status v) (statuses s))),
         (''units'', JArr (concat (map (\<lambda>t. map (unit_view c t) (tsk_units t)) ts))),
         (''queue'', JArr (map JStr queue)),
         (''plans'', JArr (map (vw_plan v) (dvalues (sc_plans s)))),
         (''leases'', JArr (map (vw_lease v) (dvalues (sc_leases s)))),
         (''containers'', JArr [JObj container]),
         (''framework_logs'', JObj framework), (''audit_streams'', JObj audit)])))))))))))"

definition observe_write_rejected :: "(('h, 'z) app_scheme, (string \<times> json) list) prog" where
  "observe_write_rejected = raiseP (HTTPException 405 (JStr ''observe namespace is GET-only''))"

section \<open>The table of routes\<close>

datatype http_call =
    Health | Create string | Show string | Reviews string | Proposal_events string int
  | Reply string string | Confirm string string | Resume string | Cancel string
  | Cancel_task string | Show_task string
  | Get_log "string list" int int | Observe_log "string list" "int option" int
  | Tick string string | Drain string string | Retry string string string
  | Reconcile string string string | Reload_users "string list" string string
  | Summary | Events string string int | Index | Observe_write

fun route ::
  "('k, 'p, 'h, ('h, 'z) app_scheme) app_config \<Rightarrow> http_request \<Rightarrow> http_call \<Rightarrow> (('h, 'z) app_scheme, answer) prog" where
  "route c q Health = json_answer 200 (health c q)"
| "route c q (Create m) = valid_call q (valid_markdown_request m) (json_answer 201 (create_proposal c q m))"
| "route c q (Show pid) = json_answer 200 (show_proposal c q pid)"
| "route c q (Reviews pid) = json_answer 200 (show_reviews c q pid)"
| "route c q (Proposal_events pid n) = valid_call q (0 \<le> n) (json_answer 200 (show_events c q ''proposals'' pid n))"
| "route c q (Reply pid m) = valid_call q (valid_markdown_request m) (json_answer 200 (reply_proposal c q pid m))"
| "route c q (Confirm pid rid) = json_answer 200 (confirm_proposal c q pid rid)"
| "route c q (Resume pid) = json_answer 200 (resume_route c q pid)"
| "route c q (Cancel pid) = json_answer 200 (cancel_route c q pid)"
| "route c q (Cancel_task i) = json_answer 200 (cancel_task_route c q i)"
| "route c q (Show_task i) = json_answer 200 (show_task c q i)"
| "route c q (Get_log parts offset limit) =
     valid_call q (0 \<le> offset \<and> 1 \<le> limit \<and> limit \<le> 1024 * 1024) (get_log c q parts (nat offset) (nat limit))"
| "route c q (Observe_log parts offset n) =
     valid_call q (opt_ok (\<lambda>i. 0 \<le> i) offset \<and> 1 \<le> n \<and> n \<le> 10000)
       (json_answer 200 (observe_log c q parts (map_option nat offset) (nat n)))"
| "route c q (Tick a r) = valid_call q (valid_admin_reason a r) (json_answer 200 (tick_route c q a r))"
| "route c q (Drain a r) = valid_call q (valid_admin_reason a r) (json_answer 200 (drain_route q a r))"
| "route c q (Retry pid a r) = valid_call q (valid_admin_reason a r) (json_answer 200 (retry_route c q pid a r))"
| "route c q (Reconcile x a r) = valid_call q (valid_admin_reason a r) (json_answer 200 (reconcile_route c q x a r))"
| "route c q (Reload_users us a r) =
     valid_call q (valid_admin_reason a r \<and> us \<noteq> []) (json_answer 200 (reload_users q us a r))"
| "route c q Summary = json_answer 200 (observe_summary c q)"
| "route c q (Events ty i n) = valid_call q (0 \<le> n) (json_answer 200 (show_events c q ty i n))"
| "route c q Index = returnP Page"
| "route c q Observe_write = json_answer 200 observe_write_rejected"

definition answer_http ::
  "('k, 'p, 'h, ('h, 'z) app_scheme) app_config \<Rightarrow> http_request \<Rightarrow> http_call \<Rightarrow> (('h, 'z) app_scheme, answer) prog" where
  "answer_http c q x = answer_with q (route c q x)"

section \<open>The worker socket, the loop and the start\<close>

datatype socket_answer = Closed int string | Admitted string | Raised exn

definition ascii_text :: "string \<Rightarrow> bool" where
  "ascii_text s \<longleftrightarrow> list_all (\<lambda>c. of_char c < (128 :: nat)) s"

definition worker_key ::
  "('k, 'p, 'h, ('h, 'z) app_scheme) app_config \<Rightarrow> string \<Rightarrow> string option" where
  "worker_key c worker_id =
     (let keys = st_worker_api_keys (ac_settings c) in
      case map_of (rev keys) worker_id of
        Some k \<Rightarrow> Some k
      | None \<Rightarrow> if keys = [] \<and> worker_id \<in> set (st_allowed_worker_ids (ac_settings c))
                then Some (ac_worker_api_key c) else None)"

text \<open>\<open>secrets.compare_digest\<close> raises for texts that are not ASCII.\<close>

definition worker_socket ::
  "('k, 'p, 'h, ('h, 'z) app_scheme) app_config \<Rightarrow> string option \<Rightarrow> string option \<Rightarrow> socket_answer" where
  "worker_socket c worker_header authorization =
     (if st_worker_mode (ac_settings c) = ''fake'' then Closed 4403 ''remote Worker mode is disabled''
      else
        let worker_id = (case worker_header of None \<Rightarrow> [] | Some w \<Rightarrow> w) in
        case worker_key c worker_id of
          None \<Rightarrow> Closed 4401 ''invalid Worker identity''
        | Some k \<Rightarrow>
            let header = (case authorization of None \<Rightarrow> [] | Some a \<Rightarrow> a)
            in if \<not> (ascii_text header \<and> ascii_text k) then Raised (TypeError ''compare_digest needs ASCII'')
               else if header = ''Bearer '' @ k then Admitted worker_id
               else Closed 4401 ''invalid Worker identity'')"

definition tick_safely :: "('k, 'p, 'h, ('h, 'z) app_scheme) app_config \<Rightarrow> (('h, 'z) app_scheme, unit) prog" where
  "tick_safely c =
     catchP (bindP (tick (ac_signer c) (ac_driver c) ''scheduler-loop'') (\<lambda>_. returnP ())) (\<lambda>_. True) (\<lambda>_. returnP ())"

definition fake_worker :: "string \<Rightarrow> int \<Rightarrow> worker_snapshot" where
  "fake_worker w now =
     \<lparr>wkr_worker_id = w, wkr_online = True, wkr_last_heartbeat_at = now,
      wkr_gpus = map (\<lambda>i. \<lparr>gpu_gpu_id = int i, gpu_vram_percent = 0, gpu_sampled_at = now,
        gpu_state_of = G_AVAILABLE, gpu_raw_line = ''fake''\<rparr>) [0..<8]\<rparr>"

definition create_app :: "('k, 'p, 'h, ('h, 'z) app_scheme) app_config \<Rightarrow> (('h, 'z) app_scheme, unit) prog" where
  "create_app c =
     (let x = ac_settings c in
      bindP (whenP (st_worker_mode x \<noteq> ''fake'') start_hub) (\<lambda>_.
      bindP (start_scheduler (ac_key_id c) (st_vram_threshold x) {0..7} (st_qualification_profile x)) (\<lambda>_.
      bindP (on_service (start_service (st_allowed_users x) (st_max_workers x) (st_allowed_worker_ids x)
               ''policy-v1'' (ac_key_id c))) (\<lambda>_.
      updateP (\<lambda>s. s\<lparr>ap_draining := False, ap_integrity_cache := None, ap_container_cache := None,
        ap_log_index_cache := []\<rparr>)))))"

definition lifespan_start :: "('k, 'p, 'h, ('h, 'z) app_scheme) app_config \<Rightarrow> (('h, 'z) app_scheme, unit) prog" where
  "lifespan_start c =
     whenP (st_worker_mode (ac_settings c) = ''fake'')
       (bindP utc_now (\<lambda>now.
        register_worker (ac_signer c) (fake_worker (hd (st_allowed_worker_ids (ac_settings c))) now) ''worker-register''))"

end
