(* ===== verification/Proposal_Frame.thy ===== *)
theory Proposal_Frame
  imports Proposal_Rules
begin

text \<open>
  The calls of the proposal service other than \<open>create\<close> only change records that exist. The locale
  carries any relation that tolerates such changes through every call.
\<close>

locale record_effect = service_effect R for R :: "'z service_scheme \<Rightarrow> 'z service_scheme \<Rightarrow> bool" +
  assumes R_alter: "R s (alter pid f s)"
begin

lemma eff_alter: "obeys R (updateP (alter pid f))"
  by (simp add: obeys_def R_alter)

lemma eff_put_proposal: "obeys R (put_proposal pid p)"
  unfolding put_proposal_def by (intro eff_bind eff_alter eff_persist_proposal)

lemma eff_move_to: "obeys R (move_to pid st)"
  unfolding move_to_def by (intro eff_bind eff_get_record eff_utc_now eff_put_proposal)

lemma eff_check_lifetime: "obeys R (check_lifetime pid rq)"
  unfolding check_lifetime_def
  by (intro eff_bind eff_get_record eff_utc_now eff_when eff_put_proposal eff_announce eff_raise)

lemma eff_get_proposal: "obeys R (get_proposal pid)"
  unfolding get_proposal_def by (intro eff_bind eff_get_record eff_return)

lemma eff_harness_failed: "obeys R (harness_failed pid a rq e)"
  unfolding harness_failed_def by (intro eff_bind eff_move_to eff_announce)

lemmas eff_records = eff_alter eff_put_proposal eff_move_to eff_check_lifetime eff_get_proposal
  eff_harness_failed eff_service

lemma eff_reply:
  assumes "harness_obeys R co"
  shows "obeys R (reply co pid u m k rq)"
proof -
  have "obeys R (co_process co rv)" for rv using assms by (simp add: harness_obeys_def)
  then have "obeys R (reply_revision co pid u m k rq)"
    unfolding reply_revision_def Let_def
    by (intro eff_bind eff_catch eff_records eff_check eff_raise eff_return)
  then show ?thesis unfolding reply_def by (intro eff_bind eff_if eff_records)
qed

lemma eff_compile_approved: "obeys R (compile_approved co pid u rid k rq rv f v)"
  unfolding compile_approved_def compiled_def compile_failed_def
  by (intro eff_bind eff_catch eff_records eff_lift eff_return)

lemma eff_review_revision:
  assumes "harness_obeys R co"
  shows "obeys R (review_revision co pid u rid k rq rv f)"
proof -
  have "obeys R (co_review co rv f)" for rv f using assms by (simp add: harness_obeys_def)
  then show ?thesis
    unfolding review_revision_def request_changes_def reject_def
    by (intro eff_bind eff_catch eff_records)
       (auto split: review_decision.split intro!: eff_bind eff_records eff_compile_approved)
qed

lemma eff_confirm:
  assumes "harness_obeys R co"
  shows "obeys R (confirm co pid u rid k rq)"
proof -
  have facts: "obeys R (case i of None \<Rightarrow> raiseP e | Some j \<Rightarrow> lookupP d j m)" for i e d m
    by (cases i) (simp_all add: eff_raise eff_lookup)
  have "obeys R (confirm_revision co pid u rid k rq)"
    unfolding confirm_revision_def Let_def
    by (intro eff_bind eff_records eff_check facts eff_review_revision [OF assms])
  then show ?thesis
    unfolding confirm_def by (intro eff_bind eff_records) (auto split: option.split intro: eff_cached)
qed

lemma eff_resume: "obeys R (resume_proposal co pid u k rq)"
  unfolding resume_proposal_def by (intro eff_bind eff_if eff_records eff_check eff_return)

lemma eff_retry: "obeys R (retry_compilation co pid a rq)"
  unfolding retry_compilation_def
  by (intro eff_bind eff_records eff_check)
     (auto split: option.split intro!: eff_bind eff_raise eff_records eff_lift eff_return)

lemma eff_cancel: "obeys R (cancel_proposal pid u rq)"
  unfolding cancel_proposal_def by (intro eff_bind eff_records eff_check)

end

text \<open>No record comes into being; the table of users stays.\<close>

definition no_newcomer :: "'z service_scheme \<Rightarrow> 'z service_scheme \<Rightarrow> bool" where
  "no_newcomer s t \<longleftrightarrow> (\<forall>pid. record_of t pid \<noteq> None \<longrightarrow> record_of s pid \<noteq> None)"

interpretation no_newcomer: record_effect no_newcomer
proof unfold_locales
  fix s :: "'z service_scheme" and pid f
  show "no_newcomer s (alter pid f s)" by (auto simp: no_newcomer_def record_of_alter)
qed (auto simp: no_newcomer_def record_of_def append_line_def)

end
