(* ===== verification/Worker_Commands.thy ===== *)
theory Worker_Commands
  imports Worker_Client Worker_Fencing
begin

text \<open>
  Correctness of the worker's side of the link. A command of the master is carried out at most
  once, whatever faults, reconnections and restarts of the worker occur, and a container is only
  started for a command that names a signed plan of the store under its own fencing numbers. The
  locale \<open>client_invariant\<close> carries an invariant through everything a worker's process can do.
\<close>

section \<open>Effects of the commands\<close>

text \<open>What the controller, an external agent, may do.\<close>

definition control_obeys ::
  "('z client_scheme \<Rightarrow> 'z client_scheme \<Rightarrow> bool) \<Rightarrow> ('k, 'p, 'z client_scheme) client_config \<Rightarrow> bool" where
  "control_obeys R c \<longleftrightarrow> (case cc_control c of None \<Rightarrow> True | Some m \<Rightarrow> \<forall>a n. obeys R (m a n))"

locale ground_effect = effect R for R :: "'z client_scheme \<Rightarrow> 'z client_scheme \<Rightarrow> bool"
begin

lemma eff_option:
  "(x = None \<Longrightarrow> obeys R m) \<Longrightarrow> (\<And>y. x = Some y \<Longrightarrow> obeys R (k y)) \<Longrightarrow>
     obeys R (case x of None \<Rightarrow> m | Some y \<Rightarrow> k y)"
  by (simp split: option.split)

lemma eff_check_fencing: "obeys R (check_fencing e a n x)"
  unfolding check_fencing_def by (rule eff_check)

lemma eff_reference: "obeys R (reference resolve K k d e)"
  unfolding reference_def
  by (auto split: option.split prod.split intro!: eff_raise eff_bind eff_read eff_check eff_return)

lemma eff_ground_truth: "obeys R (ground_truth K d f i)"
  unfolding ground_truth_def
  by (auto split: option.split obj.split sum.split intro!: eff_bind eff_read eff_raise eff_return)

lemma eff_fetch_plan: "obeys R (fetch_plan g resolve e)"
  unfolding fetch_plan_def
  by (auto intro!: eff_bind eff_reference eff_ground_truth eff_check eff_check_fencing eff_return)

lemma eff_fetch_task: "obeys R (fetch_task g resolve e)"
  unfolding fetch_task_def
  by (auto intro!: eff_bind eff_reference eff_ground_truth eff_check eff_return)

lemma eff_with_plan: "(\<And>p t. obeys R (k p t)) \<Longrightarrow> obeys R (with_plan c e k)"
  unfolding with_plan_def by (intro eff_bind eff_fetch_plan eff_fetch_task)

lemma eff_completed: "obeys R (completed_execution p t)"
  unfolding completed_execution_def
  by (rule eff_bind [OF eff_read]) (auto split: option.split intro: eff_return eff_lift)

lemma eff_control:
  "control_obeys R c \<Longrightarrow> obeys R (case cc_control c of None \<Rightarrow> returnP () | Some m \<Rightarrow> m a n)"
  by (auto simp: control_obeys_def intro: eff_return split: option.splits)

text \<open>So a command has the effects of the driver's operations.\<close>

lemma eff_command:
  assumes "control_obeys R c"
    and "\<And>m t. obeys R (worker_prepare (cc_signer c) m t)" and "\<And>p t. obeys R (worker_acknowledge (cc_signer c) p t)"
    and "\<And>p t. env_message_type e = ''EXECUTE'' \<Longrightarrow> obeys R (worker_execute (cc_signer c) p t)"
    and "\<And>a n x t. obeys R (worker_query a n x t)"
    and "\<And>p t. obeys R (worker_cancel (cc_signer c) p t)" and "\<And>p t. obeys R (worker_reconcile (cc_signer c) p t)"
  shows "obeys R (command_payload c e)"
proof -
  have "obeys R (prepare_payload c e)"
    unfolding prepare_payload_def
    by (auto split: option.split intro!: eff_bind eff_raise eff_lift eff_check_fencing eff_fetch_task eff_return assms(2))
  moreover have "obeys R (status_payload c e)"
    unfolding status_payload_def
    by (rule eff_bind [OF eff_fetch_task])
       (auto split: option.split intro!: eff_bind eff_raise eff_return assms(5))
  moreover have "obeys R (execute_payload c p t)" if "env_message_type e = ''EXECUTE''" for p t
    unfolding execute_payload_def
    by (intro eff_bind eff_completed eff_control eff_option [where k = returnP] eff_return assms(1) assms(4) that)
  ultimately show ?thesis
    unfolding command_payload_def Let_def
    by (intro eff_if eff_with_plan eff_bind eff_return assms) auto
qed

end

text \<open>The driver leaves the protocol of the link alone, and the environment.\<close>

definition same_link :: "'z client_scheme \<Rightarrow> 'z client_scheme \<Rightarrow> bool" where
  "same_link s t \<longleftrightarrow> wc_send_sequence t = wc_send_sequence s \<and> wc_seen_sequence t = wc_seen_sequence s \<and>
     wc_responses t = wc_responses s \<and> wc_state_file t = wc_state_file s \<and>
     wc_response_files t = wc_response_files s \<and> wc_background t = wc_background s \<and>
     wc_sent t = wc_sent s \<and> wc_wire t = wc_wire s \<and> wc_wire_no t = wc_wire_no s \<and> faults t = faults s"

lemma own_resources_link [simp]:
  "wc_send_sequence (own_resources m s) = wc_send_sequence s" "wc_seen_sequence (own_resources m s) = wc_seen_sequence s"
  "wc_responses (own_resources m s) = wc_responses s" "wc_state_file (own_resources m s) = wc_state_file s"
  "wc_response_files (own_resources m s) = wc_response_files s" "wc_background (own_resources m s) = wc_background s"
  "wc_sent (own_resources m s) = wc_sent s" "wc_wire (own_resources m s) = wc_wire s"
  "wc_wire_no (own_resources m s) = wc_wire_no s" "faults (own_resources m s) = faults s"
  by (simp_all add: own_resources_fields)

interpretation same_link: worker_effect same_link
  by unfold_locales (auto simp: same_link_def append_line_def)

interpretation same_link: ground_effect same_link
  by unfold_locales

lemma command_same_link: "control_obeys same_link c \<Longrightarrow> obeys same_link (command_payload c e)"
  by (intro same_link.eff_command same_link.eff_prepare same_link.eff_acknowledge same_link.eff_execute
      same_link.eff_query same_link.eff_cancel_worker same_link.eff_reconcile_worker)

section \<open>Invariants of the client\<close>

text \<open>
  What every process of the worker keeps: an invariant that does not depend on the driver, and
  under which all messages to be sent are \<open>fine\<close>, namely the unacknowledged responses and the
  message that takes the next number.
\<close>

locale client_invariant =
  fixes I :: "'z client_scheme \<Rightarrow> bool" and fine :: "envelope \<Rightarrow> bool"
  assumes I_same: "same_link s t \<Longrightarrow> I s \<Longrightarrow> I t"
    and I_fault: "I s \<Longrightarrow> I (s\<lparr>fault_no := n\<rparr>)"
    and I_wire: "I s \<Longrightarrow> I (s\<lparr>wc_wire_no := n\<rparr>)"
    and I_background: "I s \<Longrightarrow> I (s\<lparr>wc_background := b\<rparr>)"
    and I_number: "I s \<Longrightarrow> I (s\<lparr>wc_send_sequence := wc_send_sequence s + 1\<rparr>)"
    and I_next: "I s \<Longrightarrow> env_sequence e = wc_send_sequence s + 1 \<Longrightarrow> fine e"
    and I_seen: "I s \<Longrightarrow> I (s\<lparr>wc_seen_sequence := wc_seen_sequence s + 1\<rparr>)"
    and I_file: "I s \<Longrightarrow> I (s\<lparr>wc_state_file := Some (wc_send_sequence s, wc_seen_sequence s)\<rparr>)"
    and I_response: "I s \<Longrightarrow> fine r \<Longrightarrow> I (s\<lparr>wc_responses := AList.update i r (wc_responses s)\<rparr>)"
    and I_response_file: "I s \<Longrightarrow> fine r \<Longrightarrow> I (s\<lparr>wc_response_files := AList.update i r (wc_response_files s)\<rparr>)"
    and I_forget: "I s \<Longrightarrow> I (s\<lparr>wc_responses := AList.delete i (wc_responses s)\<rparr>)"
    and I_forget_file: "I s \<Longrightarrow> I (s\<lparr>wc_response_files := AList.delete i (wc_response_files s)\<rparr>)"
    and I_cached: "I s \<Longrightarrow> r \<in> set (dvalues (wc_responses s)) \<Longrightarrow> fine r"
    and I_sent: "I s \<Longrightarrow> fine e \<Longrightarrow> I (s\<lparr>wc_sent := wc_sent s @ [e]\<rparr>)"
    and I_restart: "I s \<Longrightarrow> I (client_init (driver_init s))"
begin

lemma keep_same: "obeys same_link m \<Longrightarrow> obeys (keeps I) m"
  using I_same by (auto simp: obeys_def keeps_def)

lemma keep_update: "(\<And>s. I s \<Longrightarrow> I (f s)) \<Longrightarrow> obeys (keeps I) (updateP f)"
  by (simp add: obeys_def keeps_def)

lemma keep_atomic_file: "(\<And>s. I s \<Longrightarrow> I (f s)) \<Longrightarrow> obeys (keeps I) (atomic_file f)"
  unfolding atomic_file_def next_fault_def
  by (intro keeps.eff_bind keeps.eff_if keep_update keeps.eff_raise) (simp_all add: obeys_def keeps_def I_fault)

lemma keep_persist: "obeys (keeps I) persist_protocol_state"
  unfolding persist_protocol_state_def by (rule keep_atomic_file) (rule I_file)

lemma keep_send: "fine e \<Longrightarrow> obeys (keeps I) (send e)"
  unfolding send_def
  by (intro keeps.eff_bind keeps.eff_read keep_update keeps.eff_if keeps.eff_raise I_wire I_sent)

lemma keep_ack: "obeys (keeps I) (ack_response i)"
  unfolding ack_response_def
  by (rule keeps.eff_bind [OF keeps.eff_read])
     (auto split: option.split prod.split intro!: keeps.eff_bind keep_update keeps.eff_read keeps.eff_when
       keep_atomic_file keeps.eff_return I_forget I_forget_file)

lemma keep_record: "fine r \<Longrightarrow> obeys (keeps I) (record_response i r)"
  unfolding record_response_def by (intro keeps.eff_bind keep_update keep_atomic_file I_response I_response_file)

lemma keep_cached: "obeys (keeps I) (send_cached e)"
proof (rule obeysI)
  fix s
  show "keeps I s (snd (send_cached e s))"
  proof (cases "map_of (wc_responses s) (env_message_id e)")
    case None
    then show ?thesis by (simp add: send_cached_def bindP_apply keeps_def)
  next
    case (Some r)
    then have r: "r \<in> set (dvalues (wc_responses s))" unfolding dvalues_def by (force dest: map_of_SomeD)
    have "send_cached e s = bindP (send r) (\<lambda>_. returnP True) s" by (simp add: send_cached_def bindP_apply Some)
    moreover have "I (snd (bindP (send r) (\<lambda>_. returnP True) s))" if "I s"
      by (rule keepsD [OF keeps.eff_bind [OF keep_send keeps.eff_return]]) (rule I_cached [OF that r], rule that)
    ultimately show ?thesis by (simp add: keeps_def)
  qed
qed

lemma responses_send: "wc_responses (snd (send e s)) = wc_responses s"
  by (simp add: send_def bindP_def)

lemma keep_resend: "obeys (keeps I) resend_responses"
proof (rule obeysI)
  fix s :: "'z client_scheme"
  let ?rs = "dvalues (wc_responses s)" and ?J = "\<lambda>t. I t \<and> wc_responses t = wc_responses s"
  have "obeys (keeps ?J) (send r)" if r: "r \<in> set ?rs" for r
  proof (rule obeysI)
    fix t :: "'z client_scheme"
    have "I (snd (send r t))" if "?J t"
      by (rule keepsD [OF keep_send]) (use that r in \<open>auto intro: I_cached\<close>)
    then show "keeps ?J t (snd (send r t))" by (simp add: keeps_def responses_send)
  qed
  then have "obeys (keeps ?J) (bindP (forP ?rs send) (\<lambda>_. returnP ()))"
    by (intro keeps.eff_bind keeps.eff_for keeps.eff_return)
  from keepsD [OF this, of s] show "keeps I s (snd (resend_responses s))"
    by (simp add: keeps_def resend_responses_def bindP_apply)
qed

lemma keep_make_envelope: "triple I (make_envelope mt pl a n x) (\<lambda>e s. I s \<and> fine e) (\<lambda>_. I)"
proof (rule tripleI)
  fix s assume s: "I s"
  let ?s1 = "s\<lparr>wc_send_sequence := wc_send_sequence s + 1\<rparr>"
  obtain q s2 where p: "persist_protocol_state ?s1 = (q, s2)" by (rule prod.exhaust)
  have i2: "I s2" using keepsD [OF keep_persist I_number [OF s]] p by simp
  have n2: "wc_send_sequence s2 = wc_send_sequence s + 1"
    using p by (auto simp: persist_protocol_state_def atomic_file_def next_fault_def bindP_def split: if_splits)
  have f: "obeys same_link (fresh_id ''msg'')" by (rule same_link.eff_fresh_id)
  obtain y s3 where i: "fresh_id ''msg'' s2 = (y, s3)" by (rule prod.exhaust)
  have sl: "same_link s2 s3" using f i by (rule obeysD)
  then have "I s3" by (rule I_same) (rule i2)
  moreover have "wc_send_sequence s3 = wc_send_sequence s + 1" using sl n2 by (simp add: same_link_def)
  ultimately show "case make_envelope mt pl a n x s of (Inl e, t) \<Rightarrow> I t | (Inr e, t) \<Rightarrow> I t \<and> fine e"
    using p i i2 I_next [OF s]
    by (auto simp: make_envelope_def bindP_def checkP_def Let_def split: sum.split)
qed

lemma triple_same: "obeys same_link m \<Longrightarrow> triple I m (\<lambda>_. I) (\<lambda>_. I)"
  by (rule triple_keeps) (rule keep_same)

lemma keep_triple:
  assumes "triple I m (\<lambda>_. I) (\<lambda>_. I)"
  shows "obeys (keeps I) m"
proof (rule obeysI)
  fix s
  obtain r t where m: "m s = (r, t)" by (rule prod.exhaust)
  have "I t" if "I s"
    using triple_Inr [OF assms that] triple_Inl [OF assms that] m by (cases r) auto
  then show "keeps I s (snd (m s))" by (simp add: keeps_def m)
qed

lemma keep_emit:
  assumes "\<And>e. fine e \<Longrightarrow> obeys (keeps I) (k e)"
  shows "obeys (keeps I) (bindP (make_envelope mt pl a n x) k)"
proof (rule keep_triple, rule triple_bind [OF keep_make_envelope])
  show "triple (\<lambda>s. I s \<and> fine e) (k e) (\<lambda>_. I) (\<lambda>_. I)" for e
    by (cases "fine e", rule triple_conseq [OF triple_keeps [OF assms]]) (simp_all add: triple_def)
qed

lemma keep_heartbeat: "obeys (keeps I) (heartbeat c r)"
  unfolding heartbeat_def Let_def
  by (cases r)
     (auto intro!: keeps.eff_return keeps.eff_bind keeps.eff_read keep_emit keep_send
       keep_same [OF same_link.eff_utc_now])

lemma keep_handle_and_send:
  assumes "control_obeys same_link c"
  shows "obeys (keeps I) (handle_and_send c e)"
  unfolding handle_and_send_def handle_def bindP_assoc
  by (intro keeps.eff_bind [OF keep_same [OF command_same_link [OF assms]]] keep_emit keeps.eff_bind keep_record keep_send)

lemma keep_ignore: "obeys (keeps I) m \<Longrightarrow> obeys (keeps I) (ignore_errors m)"
  unfolding ignore_errors_def by (intro keeps.eff_catch keeps.eff_return)

lemma keep_accept: "obeys (keeps I) (accept_message raw)"
proof (cases raw)
  case (Envelope e)
  have "I (s\<lparr>wc_seen_sequence := env_sequence e\<rparr>)" if "I s" "env_sequence e = wc_seen_sequence s + 1" for s :: "'z client_scheme"
    using I_seen [OF that(1)] that(2) by simp
  note seen = this
  have rest: "obeys (keeps I) (bindP persist_protocol_state (\<lambda>_.
      if env_message_type e = ''ACK''
      then bindP (case text_field (env_payload e) ''reply_to'' of None \<Rightarrow> returnP () | Some r \<Rightarrow> ack_response r) (\<lambda>_. returnP None)
      else bindP (send_cached e) (\<lambda>sent. returnP (if sent then None else Some e))))"
    by (intro keeps.eff_bind keep_persist keeps.eff_if keep_cached keeps.eff_return)
       (auto split: option.split intro: keeps.eff_return keep_ack)
  show ?thesis
  proof (rule obeysI)
    fix s
    show "keeps I s (snd (accept_message raw s))"
    proof (cases "env_sequence e = wc_seen_sequence s + 1")
      case True
      then show ?thesis
        using seen [of s] keepsD [OF rest]
        by (auto simp: Envelope accept_message_def bindP_apply checkP_def keeps_def)
    next
      case False
      have "obeys (keeps I) (bindP (send_cached e) (\<lambda>_. returnP None :: ('z client_scheme, envelope option) prog))"
        by (intro keeps.eff_bind keep_cached keeps.eff_return)
      then show ?thesis
        using False by (auto simp: Envelope accept_message_def bindP_apply checkP_def keeps_def obeys_def)
    qed
  qed
qed (simp_all add: accept_message_def keeps.eff_raise)

lemma keep_receive: "control_obeys same_link c \<Longrightarrow> obeys (keeps I) (receive c raw)"
  unfolding receive_def
  by (rule keeps.eff_bind [OF keep_accept])
     (auto split: option.split intro: keeps.eff_return keep_update I_background keep_handle_and_send)

lemma keep_background: "control_obeys same_link c \<Longrightarrow> obeys (keeps I) (run_background c e)"
  unfolding run_background_def
  by (intro keeps.eff_bind keep_update I_background keep_ignore keep_handle_and_send)

lemma keep_perform: "control_obeys same_link c \<Longrightarrow> obeys (keeps I) (perform c a)"
  unfolding perform_def
  by (cases a) (auto intro: keep_receive keep_ignore keep_heartbeat keeps.eff_bind keeps.eff_read
      keeps.eff_when keep_background)

lemma keep_drain: "control_obeys same_link c \<Longrightarrow> obeys (keeps I) (drain_background c)"
  unfolding drain_background_def
  by (intro keeps.eff_bind keeps.eff_read keeps.eff_for keep_background keeps.eff_return)

lemma keep_session: "control_obeys same_link c \<Longrightarrow> obeys (keeps I) (session c v)"
  unfolding session_def
  by (cases v) (auto intro!: keeps.eff_raise keeps.eff_bind keep_resend keeps.eff_finally keeps.eff_for
      keep_perform keep_drain keeps.eff_return split: option.split)

lemma keep_run:
  assumes "control_obeys same_link c"
  shows "obeys (keeps I) (run_client c d vs)"
proof (induction vs arbitrary: d)
  case (Cons v vs)
  have "I (snd (run_client c d (v # vs) s))" if "I s" for s
  proof -
    obtain r t where t: "session c v s = (r, t)" by (rule prod.exhaust)
    then have "I t" using keepsD [OF keep_session [OF assms] that] by (metis snd_conv)
    then show ?thesis
      using t keepsD [OF Cons.IH] keepsD [OF keeps.eff_bind [OF Cons.IH keeps.eff_return]] by (cases r) auto
  qed
  then show ?case by (simp add: obeys_def keeps_def)
qed (simp add: keeps.eff_return)

end

text \<open>
  Everything that may happen to a worker's client: it goes through sessions, or through a part of
  one when the process dies in between, and it restarts.
\<close>

inductive client_reaches ::
  "('k, 'p, 'z client_scheme) client_config \<Rightarrow> 'z client_scheme \<Rightarrow> 'z client_scheme \<Rightarrow> bool" for c s where
  here: "client_reaches c s s"
| connect: "client_reaches c s u \<Longrightarrow> client_reaches c s (snd (resend_responses u))"
| act: "client_reaches c s u \<Longrightarrow> client_reaches c s (snd (perform c a u))"
| run: "client_reaches c s u \<Longrightarrow> client_reaches c s (snd (run_client c d vs u))"
| restart: "client_reaches c s u \<Longrightarrow> client_reaches c s (client_init (driver_init u))"

context client_invariant
begin

lemma keep_reaches: "client_reaches c s u \<Longrightarrow> control_obeys same_link c \<Longrightarrow> I s \<Longrightarrow> I u"
proof (induction rule: client_reaches.induct)
  case (restart u)
  then show ?case by (simp add: I_restart)
qed (blast intro: keepsD keep_resend keep_perform keep_run)+

end

section \<open>A command is carried out at most once\<close>

text \<open>Command number \<open>q\<close> is in the past, in memory and on disk.\<close>

definition past :: "int \<Rightarrow> 'z client_scheme \<Rightarrow> bool" where
  "past q s \<longleftrightarrow> q \<le> wc_seen_sequence s \<and> (\<exists>a b. wc_state_file s = Some (a, b) \<and> q \<le> b)"

lemma driver_init_link [simp]:
  "wc_send_sequence (driver_init s) = wc_send_sequence s" "wc_seen_sequence (driver_init s) = wc_seen_sequence s"
  "wc_responses (driver_init s) = wc_responses s" "wc_state_file (driver_init s) = wc_state_file s"
  "wc_response_files (driver_init s) = wc_response_files s" "wc_background (driver_init s) = wc_background s"
  "wc_sent (driver_init s) = wc_sent s" "wc_wire (driver_init s) = wc_wire s"
  "wc_wire_no (driver_init s) = wc_wire_no s" "faults (driver_init s) = faults s"
  by (simp_all add: driver_init_def split: option.split)

interpretation past: client_invariant "past q" "\<lambda>_. True" for q
  by unfold_locales (auto simp: past_def same_link_def client_init_def)

lemma accept_Some:
  assumes "accept_message raw s = (Inr (Some e), t)"
  shows "raw = Envelope e \<and> env_sequence e = wc_seen_sequence s + 1 \<and> past (env_sequence e) t"
proof (cases raw)
  case (Envelope e')
  obtain t1 x where e: "e' = e" and q: "env_sequence e = wc_seen_sequence s + 1"
    and p: "persist_protocol_state (s\<lparr>wc_seen_sequence := env_sequence e\<rparr>) = (Inr x, t1)"
    and c: "send_cached e t1 = (Inr False, t)"
    using assms by (auto simp: Envelope accept_message_def bindP_apply checkP_def split: if_splits sum.splits prod.splits)
  have "past (env_sequence e) t1"
    using p by (auto simp: persist_protocol_state_def atomic_file_def next_fault_def bindP_apply past_def split: if_splits)
  then have "past (env_sequence e) t" using keepsD [OF past.keep_cached] c by (metis snd_conv)
  then show ?thesis using Envelope e q by simp
qed (use assms in \<open>simp_all add: accept_message_def\<close>)


section \<open>What a command may start\<close>

interpretation no_start: audit_effect no_start
  by unfold_locales (auto simp: no_start_def append_line_def)

interpretation no_start: ground_effect no_start
  by unfold_locales

lemma no_start_update: "(\<And>s. dk_calls (f s) = dk_calls s) \<Longrightarrow> obeys no_start (updateP f)"
  by (simp add: obeys_def no_start_def)

lemma no_start_run: "(\<And>name. args \<noteq> [''start'', name]) \<Longrightarrow> obeys no_start (docker_run args stdin timeout)"
  by (simp add: obeys_def docker_run_def Let_def no_start_def start_call_def)

lemma no_start_attempt: "obeys no_start m \<Longrightarrow> obeys no_start (attempt_docker m)"
  unfolding attempt_docker_def by (intro no_start.eff_catch no_start.eff_bind no_start.eff_return)

lemma no_start_inspect: "obeys no_start (docker_inspect n)"
  by (auto simp: obeys_def no_start_def inspect_calls start_call_def)

lemma no_start_cleanup: "obeys no_start (cleanup n)"
proof -
  have "obeys no_start (docker_kill n)"
    unfolding docker_kill_def
    by (intro no_start.eff_bind no_start_attempt no_start_run no_start_inspect no_start.eff_if no_start.eff_raise
        no_start.eff_return) simp
  then have "obeys no_start (docker_stop n g)" for g
    unfolding docker_stop_def
    by (auto intro!: no_start.eff_bind no_start_attempt no_start_run no_start_inspect no_start.eff_if no_start.eff_return
        split: prod.split)
  then show ?thesis
    unfolding cleanup_def
    by (auto intro!: no_start.eff_catch no_start.eff_bind no_start_inspect no_start.eff_return split: prod.split)
qed

lemma no_start_persist: "obeys no_start persist_state"
  unfolding persist_state_def
  by (intro no_start.eff_bind no_start.eff_next_fault no_start.eff_if no_start.eff_raise no_start_update) simp

lemma no_start_verify: "obeys no_start (verify_signed g i key v)"
  unfolding verify_signed_def by (intro no_start.eff_bind no_start.eff_read no_start.eff_check)

lemma no_start_commands:
  "obeys no_start (worker_prepare g m t)" "obeys no_start (worker_acknowledge g p t)"
  "obeys no_start (worker_query a n x t)" "obeys no_start (worker_cancel g p t)" "obeys no_start (worker_reconcile g p t)"
proof -
  note step = no_start.eff_bind no_start.eff_read no_start.eff_check no_start.eff_return no_start.eff_raise
    no_start.eff_lift no_start.eff_if no_start.eff_catch no_start.eff_audit no_start_persist no_start_validate
    no_start_inspect no_start_attempt no_start_cleanup no_start_verify
  show "obeys no_start (worker_prepare g m t)"
    unfolding worker_prepare_def prepare_body_def take_over_def manifest_by_master_def signed_by_master_def
    by (intro step no_start_update) simp_all
  show "obeys no_start (worker_acknowledge g p t)"
    unfolding worker_acknowledge_def acknowledge_body_def plan_by_master_def signed_by_master_def
    by (intro step no_start_update) (simp_all add: getP_def obeys_def no_start_def)
  show "obeys no_start (worker_query a n x t)"
    unfolding worker_query_def by (auto intro!: step split: option.split)
  show "obeys no_start (worker_cancel g p t)"
    unfolding worker_cancel_def plan_by_master_def signed_by_master_def by (auto intro!: step split: prod.split)
  show "obeys no_start (worker_reconcile g p t)"
    unfolding worker_reconcile_def plan_by_master_def signed_by_master_def by (intro step)
qed

text \<open>Reading the ground truth changes nothing, and says what the store holds.\<close>

interpretation unchanged: ground_effect "\<lambda>s t. t = s"
  by unfold_locales simp_all

lemma as_plan_Inr: "as_plan d = Inr p \<longleftrightarrow> d = O_plan p \<and> valid_plan p"
  by (cases d) (auto simp: validated_def invalid_def)

lemma as_task_Inr: "as_task d = Inr t \<longleftrightarrow> d = O_task t \<and> valid_task t"
  by (cases d) (auto simp: validated_def invalid_def)

lemma ground_truth_Inr:
  assumes "ground_truth K directory f i s = (Inr (x, b), t)"
  shows "\<exists>d. map_of (immutable s) (directory, json_name i) = Some d \<and> f d = Inr x \<and>
    map_of (immutable s) (directory, i @ ''.canonical.json'') = Some (O_bytes b) \<and> t = s"
  using assms
  by (auto simp: ground_truth_def bindP_apply split: option.splits obj.splits sum.splits)

definition fenced_by :: "envelope \<Rightarrow> plan \<Rightarrow> bool" where
  "fenced_by e p \<longleftrightarrow> env_assignment_id e = Some (pln_assignment_id p) \<and>
     env_dispatch_generation e = Some (pln_dispatch_generation p) \<and> env_lease_epoch e = Some (pln_lease_epoch p)"

lemma fetch_plan_Inr:
  assumes "fetch_plan g resolve e s = (Inr p, t)"
  shows "t = s \<and> map_of (immutable s) (''plans'', json_name (pln_plan_id p)) = Some (O_plan p) \<and>
    map_of (immutable s) (''plans'', pln_plan_id p @ ''.canonical.json'') = Some (O_bytes (sg_plan_dump g p)) \<and>
    fenced_by e p"
proof -
  obtain i and h :: string where r: "reference resolve ''Plan'' ''plan'' ''plans'' e s = (Inr (i, h), s)"
    and f: "ground_truth ''Plan'' ''plans'' as_plan i s = (Inr (p, sg_plan_dump g p), s)"
    and o: "pln_plan_id p = i" "fenced_by e p" "t = s"
    using assms obeysD [OF unchanged.eff_reference] obeysD [OF unchanged.eff_ground_truth]
    by (fastforce simp: fetch_plan_def bindP_apply checkP_def check_fencing_def fenced_by_def
        split: sum.splits prod.splits if_splits)
  from ground_truth_Inr [OF f] o show ?thesis by (auto simp: as_plan_Inr)
qed

lemma fetch_task_Inr:
  assumes "fetch_task g resolve e s = (Inr x, t)"
  shows "t = s \<and> map_of (immutable s) (''tasks'', json_name (tsk_task_id x)) = Some (O_task x)"
proof -
  obtain i and h :: string where f: "ground_truth ''Task'' ''tasks'' as_task i s = (Inr (x, sg_task_dump g x), s)"
    and o: "tsk_task_id x = i" "t = s"
    using assms obeysD [OF unchanged.eff_reference] obeysD [OF unchanged.eff_ground_truth]
    by (fastforce simp: fetch_task_def bindP_apply checkP_def split: sum.splits prod.splits if_splits)
  from ground_truth_Inr [OF f] o show ?thesis by (auto simp: as_task_Inr)
qed

lemma make_envelope_driver: "obeys same_driver (make_envelope mt pl a n x)"
  unfolding make_envelope_def persist_protocol_state_def atomic_file_def Let_def
  by (intro same_driver.eff_bind same_driver.eff_next_fault same_driver.eff_if same_driver.eff_raise
      same_driver.eff_update same_driver.eff_fresh_id same_driver.eff_read same_driver.eff_check same_driver.eff_return)
    (simp_all add: same_driver_def)

interpretation same_driver: ground_effect same_driver
  by unfold_locales

lemma registered_same: "same_driver s t \<Longrightarrow> registered p t = registered p s"
  by (simp add: same_driver_def registered_def is_current_plan_def)

lemma new_calls_same:
  "same_driver s t \<Longrightarrow> new_calls s t = []"
  "same_driver s t \<Longrightarrow> new_calls s u = new_calls t u"
  "same_driver t u \<Longrightarrow> new_calls s u = new_calls s t"
  by (simp_all add: new_calls_def same_driver_def)

definition signed_run :: "('k, 'p) signer \<Rightarrow> plan \<Rightarrow> task \<Rightarrow> bool" where
  "signed_run g p t \<longleftrightarrow>
     verify_model (sg_crypto g) (task_integrity (sg_task_dump g)) (sg_verification_key g) t \<and>
     verify_model (sg_crypto g) (plan_integrity (sg_plan_dump g)) (sg_verification_key g) p"

lemma execute_payload_starts:
  assumes x: "execute_payload c p t s = (r, s')" and d: "d \<in> set (new_calls s s')" "start_call d"
    and ctl: "control_obeys same_driver c"
  shows "registered p s \<and> signed_run (cc_signer c) p t"
proof -
  obtain q where q: "completed_execution p t s = (q, s)"
    using obeysD [OF unchanged.eff_completed] by (metis surj_pair)
  let ?m = "case cc_control c of None \<Rightarrow> returnP () | Some m \<Rightarrow> m (pln_assignment_id p) (pln_dispatch_generation p)"
  obtain z s1 where z: "?m s = (z, s1)" by (rule prod.exhaust)
  have sd: "same_driver s s1" by (rule obeysD [OF same_driver.eff_control [OF ctl] z])
  have "new_calls s s = []" by (simp add: new_calls_def)
  then have "\<exists>r'. worker_execute (cc_signer c) p t s1 = (r', s')"
    using x d new_calls_same(1) [OF sd] z
    by (auto simp: execute_payload_def bindP_apply q split: sum.splits option.splits prod.splits)
  then obtain r' where w: "worker_execute (cc_signer c) p t s1 = (r', s')" by blast
  have "d \<in> set (new_calls s1 s')" using d(1) new_calls_same(2) [OF sd] by simp
  then have "registered p s1 \<and> signed_run (cc_signer c) p t"
    using unstarted_run [OF w] d(2) unfolding may_start_def signed_run_def by blast
  then show ?thesis using registered_same [OF sd] by simp
qed

text \<open>
  C14. A container is only started for an EXECUTE command that names a plan of the store under its
  own fencing numbers: the plan and the task are files of the ground truth, the canonical bytes of
  the plan are those of the model, the master signed both, and the plan is the one the worker has
  registered as current.
\<close>

theorem command_starts_only_its_plan:
  assumes "handle c e s = (r, s')" and "d \<in> set (new_calls s s')" and "start_call d"
    and "control_obeys same_driver c"
  shows "env_message_type e = ''EXECUTE'' \<and>
    (\<exists>p t. map_of (immutable s) (''plans'', json_name (pln_plan_id p)) = Some (O_plan p) \<and>
       map_of (immutable s) (''plans'', pln_plan_id p @ ''.canonical.json'') = Some (O_bytes (sg_plan_dump (cc_signer c) p)) \<and>
       map_of (immutable s) (''tasks'', json_name (tsk_task_id t)) = Some (O_task t) \<and>
       fenced_by e p \<and> registered p s \<and> signed_run (cc_signer c) p t)"
proof -
  obtain q s1 where q: "command_payload c e s = (q, s1)" by (rule prod.exhaust)
  have "same_driver s1 s'"
    using assms(1) q obeysD [OF make_envelope_driver] same_driver.effect_refl
    by (cases q) (auto simp: handle_def bindP_apply)
  then have d: "d \<in> set (new_calls s s1)" using assms(2) new_calls_same(3) by metis
  have "env_message_type e = ''EXECUTE''"
  proof (rule ccontr)
    assume "env_message_type e \<noteq> ''EXECUTE''"
    moreover have "control_obeys no_start c"
      using assms(4) by (auto simp: control_obeys_def obeys_def same_driver_def no_start_def split: option.splits)
    ultimately have "obeys no_start (command_payload c e)"
      by (intro no_start.eff_command no_start_commands) auto
    then have "no_start s s1" using q by (rule obeysD)
    then show False using d assms(3) by (auto simp: no_start_def new_calls_def)
  qed
  moreover from this have w: "with_plan c e (execute_payload c) s = (q, s1)"
    using q by (simp add: command_payload_def)
  obtain p where p: "fetch_plan (cc_signer c) (cc_resolve c) e s = (Inr p, s)"
    and w1: "bindP (fetch_task (cc_signer c) (cc_resolve c) e) (\<lambda>t. execute_payload c p t) s = (q, s1)"
    using w d obeysD [OF unchanged.eff_fetch_plan]
    by (fastforce simp: with_plan_def bindP_apply [where m = "fetch_plan _ _ _"] new_calls_def split: sum.splits prod.splits)
  obtain t where t: "fetch_task (cc_signer c) (cc_resolve c) e s = (Inr t, s)" and w2: "execute_payload c p t s = (q, s1)"
    using w1 d obeysD [OF unchanged.eff_fetch_task]
    by (fastforce simp: bindP_apply new_calls_def split: sum.splits prod.splits)
  ultimately show ?thesis
    using fetch_plan_Inr [OF p] fetch_task_Inr [OF t] execute_payload_starts [OF w2 d assms(3,4)] by blast
qed

end
