(* ===== verification/Worker_Link.thy ===== *)
theory Worker_Link
  imports Worker_Hub Worker_Commands Scheduler_System
begin

text \<open>
  Correctness of the master's side of the link and of both sides together. The remote driver is a
  driver in the sense of the scheduler, whatever the workers send; a request over a connection that
  works is answered and the two sides agree afterwards; and a message that was numbered but never
  arrived ends the link for good, because the other side insists on consecutive numbers.
\<close>

section \<open>Effects of the hub\<close>

lemma bindP_return: "bindP (returnP x) f = f x"
  by (simp add: bindP_def)

lemma bindP_raise: "bindP (raiseP e) f = raiseP e"
  by (simp add: bindP_def raiseP_def)

text \<open>
  A relation that tolerates every change of the hub's own fields, and the arrival of the messages
  that are \<open>fine\<close>, is kept by all the hub does as long as it is sent nothing else.
\<close>

locale hub_effect = steady_effect R for R :: "'z hub_scheme \<Rightarrow> 'z hub_scheme \<Rightarrow> bool" +
  fixes fine :: "string \<Rightarrow> wire_message \<Rightarrow> bool"
  assumes R_connections: "R s (s\<lparr>hb_connections := cs\<rparr>)" and R_loop: "R s (s\<lparr>hb_loop := b\<rparr>)"
    and R_pending: "R s (s\<lparr>hb_pending := ps\<rparr>)" and R_sequence: "R s (s\<lparr>hb_sequence := sq\<rparr>)"
    and R_last: "R s (s\<lparr>hb_last_snapshot := l\<rparr>)" and R_hb_sent: "R s (s\<lparr>hb_sent := x\<rparr>)"
    and R_hb_wire: "R s (s\<lparr>hb_wire_no := n\<rparr>)"
    and R_arrival: "fine w (Envelope e) \<Longrightarrow> env_sequence e = counter (hb_receive_sequence s) w + 1 \<Longrightarrow>
          R s (s\<lparr>hb_receive_sequence := AList.update w (env_sequence e) (hb_receive_sequence s)\<rparr>)"
begin

lemma eff_up: "(\<And>s. R s (f s)) \<Longrightarrow> obeys R (updateP f)"
  by (simp add: obeys_def)

lemma eff_ignore: "obeys R m \<Longrightarrow> obeys R (ignore_errors m)"
  unfolding ignore_errors_def by (intro eff_catch eff_return)

lemma eff_send_text: "obeys R (send_text w e)"
  unfolding send_text_def by (intro eff_bind eff_read eff_up R_hb_wire R_hb_sent eff_if eff_raise)

lemma eff_take_sequence: "obeys R (take_sequence g w)"
  unfolding take_sequence_def by (intro eff_bind eff_read eff_up R_sequence eff_write_snapshot eff_return)

lemma eff_hub_envelope: "obeys R (hub_envelope mt pl a n x q)"
  unfolding hub_envelope_def Let_def by (intro eff_bind eff_fresh_id eff_check eff_return)

lemma eff_send_ack: "obeys R (send_ack g w e)"
  unfolding send_ack_def
  by (intro eff_bind eff_read eff_check eff_take_sequence eff_hub_envelope eff_send_text)

lemma eff_disconnect: "obeys R (disconnect g w)"
  unfolding disconnect_def
  by (auto intro!: eff_bind eff_up R_connections eff_read eff_return eff_utc_now eff_register_worker split: option.split)

lemma eff_serve_heartbeat: "obeys R (serve_heartbeat g c w e)"
  unfolding serve_heartbeat_def detached_heartbeat_def
  by (auto intro!: eff_bind eff_raise eff_lift eff_check eff_up R_last eff_ignore eff_register_worker eff_send_ack
      split: option.split)

lemma eff_serve_reply: "obeys R (serve_reply g w e)"
  unfolding serve_reply_def
  by (auto intro!: eff_return eff_bind eff_read eff_when eff_immutable_exists eff_write_immutable eff_up R_pending
      eff_send_ack split: option.split)

lemma eff_serve_message:
  assumes "fine w raw"
  shows "obeys R (serve_message g c w raw)"
proof (cases raw)
  case (Envelope e)
  have dup: "obeys R (bindP (immutable_exists ''worker-replies'' (env_message_id e)) (\<lambda>known. whenP known (send_ack g w e)))"
    by (intro eff_bind eff_immutable_exists eff_when eff_send_ack)
  let ?k = "bindP (write_snapshot ''worker-receive-sequence'' (worker_object_id g w) (sequence_file w (env_sequence e))) (\<lambda>_.
     bindP (append_event ''workers'' (worker_object_id g w) (''MESSAGE_'' @ env_message_type e) w (env_message_id e)
        [(''sequence'', JInt (env_sequence e)), (''assignment_id'', json_opt JStr (env_assignment_id e)),
         (''dispatch_generation'', json_opt JInt (env_dispatch_generation e)),
         (''lease_epoch'', json_opt JInt (env_lease_epoch e))]) (\<lambda>_.
     if env_message_type e = ''HEARTBEAT'' then serve_heartbeat g c w e else serve_reply g w e))"
  have rest: "obeys R ?k"
    by (intro eff_bind eff_write_snapshot eff_append_event eff_if eff_serve_heartbeat eff_serve_reply)
  show ?thesis
  proof (rule obeysI)
    fix s :: "'z hub_scheme"
    let ?t = "s\<lparr>hb_receive_sequence := AList.update w (env_sequence e) (hb_receive_sequence s)\<rparr>"
    have "R s (snd (?k ?t))" if "env_sequence e = counter (hb_receive_sequence s) w + 1"
      using effect_trans [OF R_arrival] assms that rest by (simp add: Envelope obeys_def)
    moreover have "R s s" by (rule effect_refl)
    ultimately show "R s (snd (serve_message g c w raw s))"
      using dup
      by (auto simp: Envelope serve_message_def record_arrival_def bindP_assoc bindP_return bindP_raise
          bindP_apply [of "readP _"] bindP_apply [of "updateP _"] checkP_def obeys_def)
  qed
qed (simp_all add: serve_message_def eff_raise)

definition fine_events :: "hub_event list \<Rightarrow> bool" where
  "fine_events evs \<longleftrightarrow> (\<forall>w raw. Sends w raw \<in> set evs \<longrightarrow> fine w raw)"

lemma eff_serve_events:
  assumes "fine_events evs"
  shows "obeys R (serve_events g c evs)"
proof -
  have "obeys R (serve_event g c ev)" if "ev \<in> set evs" for ev
  proof (cases ev)
    case (Joins w)
    have "R s (s\<lparr>hb_connections := cs, hb_loop := True\<rparr>)" for s cs
      by (rule effect_trans [OF R_connections R_loop])
    then show ?thesis by (simp add: Joins serve_event_def obeys_def effect_refl)
  next
    case (Sends w raw)
    then have "fine w raw" using assms that by (auto simp: fine_events_def)
    then show ?thesis
      unfolding Sends serve_event_def hub_event.case
      by (intro eff_bind eff_read eff_when eff_catch eff_serve_message eff_ignore eff_disconnect)
  next
    case (Leaves w)
    show ?thesis
      unfolding Leaves serve_event_def hub_event.case
      by (intro eff_bind eff_read eff_when eff_ignore eff_disconnect)
  qed
  then show ?thesis unfolding serve_events_def by (intro eff_bind eff_for eff_return)
qed

end

text \<open>A relation that all traffic keeps is kept by every request, and by the remote driver.\<close>

locale hub_open = hub_effect R "\<lambda>_ _. True" for R :: "'z hub_scheme \<Rightarrow> 'z hub_scheme \<Rightarrow> bool" +
  assumes R_traffic: "R s (s\<lparr>hb_traffic_no := n\<rparr>)" and R_inbox_no: "R s (s\<lparr>hb_inbox_no := n\<rparr>)"
    and R_route: "R s (s\<lparr>rd_assignment_workers := ws\<rparr>)"
begin

lemma eff_await: "obeys R (await_reply g c i timeout)"
  unfolding await_reply_def
  by (auto intro!: eff_bind eff_read eff_up R_traffic eff_serve_events eff_return eff_raise
      simp: fine_events_def split: option.split)

lemma eff_request: "obeys R (request g c w mt pl a n x timeout)"
  unfolding request_def
  by (intro eff_bind eff_read eff_check eff_take_sequence eff_hub_envelope eff_up R_pending eff_append_event
      eff_finally eff_send_text eff_await)

lemma eff_ingest: "obeys R (ingest_evidence t w)"
proof -
  have "obeys R (ingest_line t l)" for l
    unfolding ingest_line_def
    by (auto intro!: eff_raise eff_bind eff_check eff_immutable_exists eff_when eff_write_immutable
        split: option.split json.split)
  then show ?thesis
    unfolding ingest_evidence_def
    by (auto intro!: eff_bind eff_read eff_up R_inbox_no eff_return eff_for split: option.split)
qed

lemma eff_references: "obeys R (plan_reference p)" "obeys R (task_reference t)"
  unfolding plan_reference_def task_reference_def by (auto intro: eff_raise eff_read split: option.split)

lemma eff_plan_request: "obeys R (plan_request g c mt p t timeout)"
  unfolding plan_request_def
  by (intro eff_bind eff_references eff_lift eff_request eff_ingest eff_return)

lemma remote_driver_obeys: "driver_obeys R (remote_driver g c)"
proof -
  have "obeys R (remote_prepare g c m t)" for m t
    unfolding remote_prepare_def
    by (intro eff_bind eff_up R_route eff_references eff_request eff_ingest eff_return)
  moreover have "obeys R (remote_flag g c mt n x p t)" for mt n x p t
    unfolding remote_flag_def by (intro eff_bind eff_plan_request eff_return)
  moreover have "obeys R (remote_execute g c p t)" for p t
    unfolding remote_execute_def Let_def
    by (auto intro!: eff_bind eff_plan_request eff_raise eff_lift eff_return split: option.split)
  moreover have "obeys R (remote_query g c a n x t)" for a n x t
    unfolding remote_query_def
    by (rule eff_bind [OF eff_read])
       (auto intro!: eff_bind eff_references eff_request eff_return eff_raise split: option.split)
  ultimately show ?thesis
    by (simp add: driver_obeys_def remote_driver_def remote_acknowledge_def remote_cancel_def remote_reconcile_def)
qed

end

interpretation remote: hub_open "calm :: 'z hub_scheme \<Rightarrow> 'z hub_scheme \<Rightarrow> bool"
  by unfold_locales (auto simp: calm_def same_res_def keeps_def workers_by_id_def)

section \<open>A message that never arrived\<close>

text \<open>
  Number \<open>q\<close> was given to a message that is gone: it is used up, in memory and on disk, no
  response has it, and none of the messages sent since the first \<open>k\<close> has it.
\<close>

definition used_up :: "int \<Rightarrow> nat \<Rightarrow> 'z client_scheme \<Rightarrow> bool" where
  "used_up q k s \<longleftrightarrow> q \<le> wc_send_sequence s \<and> (\<exists>a b. wc_state_file s = Some (a, b) \<and> q \<le> a) \<and>
     (\<forall>r \<in> set (dvalues (wc_responses s)) \<union> set (dvalues (wc_response_files s)). env_sequence r \<noteq> q) \<and>
     (\<forall>e \<in> set (drop k (wc_sent s)). env_sequence e \<noteq> q)"

lemma dvalues_updateD: "r \<in> set (dvalues (AList.update k v d)) \<Longrightarrow> r = v \<or> r \<in> set (dvalues d)"
  by (induction d) (auto simp: dvalues_def split: if_splits)

lemma dvalues_deleteD: "r \<in> set (dvalues (AList.delete k d)) \<Longrightarrow> r \<in> set (dvalues d)"
  by (auto simp: dvalues_def AList.delete_eq)

interpretation used_up: client_invariant "used_up q k" "\<lambda>e. env_sequence e \<noteq> q" for q k
proof unfold_locales
  fix s :: "'a client_scheme" and r :: envelope and i
  assume "used_up q k s" "env_sequence r \<noteq> q"
  then show "used_up q k (s\<lparr>wc_responses := AList.update i r (wc_responses s)\<rparr>)"
    "used_up q k (s\<lparr>wc_response_files := AList.update i r (wc_response_files s)\<rparr>)"
    by (auto simp: used_up_def dest: dvalues_updateD)
next
  fix s :: "'a client_scheme" and i
  assume "used_up q k s"
  then show "used_up q k (s\<lparr>wc_responses := AList.delete i (wc_responses s)\<rparr>)"
    "used_up q k (s\<lparr>wc_response_files := AList.delete i (wc_response_files s)\<rparr>)"
    by (auto simp: used_up_def dest: dvalues_deleteD)
next
  fix s :: "'a client_scheme"
  assume "used_up q k s"
  then show "used_up q k (client_init (driver_init s))"
    by (auto simp: used_up_def client_init_def dvalues_def)
next
  fix s :: "'a client_scheme" and e :: envelope
  assume "used_up q k s" "env_sequence e \<noteq> q"
  then show "used_up q k (s\<lparr>wc_sent := wc_sent s @ [e]\<rparr>)"
    by (auto simp: used_up_def dest: in_set_dropD split: if_splits)
qed (auto simp: used_up_def same_link_def)

text \<open>The hub waits for number \<open>q\<close> of worker \<open>w\<close>.\<close>

definition expects :: "string \<Rightarrow> int \<Rightarrow> 'z hub_scheme \<Rightarrow> bool" where
  "expects w q s \<longleftrightarrow> counter (hb_receive_sequence s) w + 1 = q"

lemma counter_update: "counter (AList.update w n d) v = (if v = w then n else counter d v)"
  by (simp add: counter_def dupdate_lookup)

definition not_number :: "string \<Rightarrow> int \<Rightarrow> string \<Rightarrow> wire_message \<Rightarrow> bool" where
  "not_number w q v raw \<longleftrightarrow> (v = w \<longrightarrow> (\<forall>e. raw = Envelope e \<longrightarrow> env_sequence e \<noteq> q))"

interpretation expects: hub_effect "keeps (expects w q :: 'z hub_scheme \<Rightarrow> bool)" "not_number w q" for w q
  by unfold_locales (auto simp: keeps_def expects_def append_line_def counter_update not_number_def)

lemma lost_beat:
  assumes "heartbeat d (Inr gpus) s = (Inl ConnectionClosed, t)"
    and "\<forall>r \<in> set (dvalues (wc_responses s)) \<union> set (dvalues (wc_response_files s)). env_sequence r \<le> wc_send_sequence s"
  shows "used_up (wc_send_sequence s + 1) (length (wc_sent t)) t"
proof -
  have "wc_send_sequence t = wc_send_sequence s + 1 \<and> wc_state_file t = Some (wc_send_sequence s + 1, wc_seen_sequence s) \<and>
      wc_responses t = wc_responses s \<and> wc_response_files t = wc_response_files s"
    using assms(1)
    by (auto simp: heartbeat_def bindP_apply utc_now_def Let_def make_envelope_def persist_protocol_state_def
        atomic_file_def next_fault_def checkP_def fresh_id_def new_id_def send_def
        split: sum.splits prod.splits if_splits)
  moreover have "env_sequence r \<noteq> wc_send_sequence s + 1"
    if "r \<in> set (dvalues (wc_responses s)) \<union> set (dvalues (wc_response_files s))" for r
    using assms(2) that by force
  ultimately show ?thesis by (auto simp: used_up_def)
qed

text \<open>
  C15. One lost heartbeat ends the link for good. A heartbeat that meets a broken connection has used
  up a sequence number: whatever the worker does afterwards, through reconnections and restarts,
  and whatever of its later messages reach the master, in any order and mixed with those of other
  workers, the master keeps waiting for the lost number and accepts none of them.
\<close>

theorem lost_heartbeat_ends_link:
  assumes "heartbeat d (Inr gpus) s = (Inl ConnectionClosed, t)"
    and "\<forall>r \<in> set (dvalues (wc_responses s)) \<union> set (dvalues (wc_response_files s)). env_sequence r \<le> wc_send_sequence s"
    and "client_reaches c t u" and "control_obeys same_link c"
    and "counter (hb_receive_sequence h) w = wc_send_sequence s"
    and "\<And>x. Sends w x \<in> set evs \<Longrightarrow> x \<in> Envelope ` set (drop (length (wc_sent t)) (wc_sent u))"
  shows "counter (hb_receive_sequence (snd (serve_events g d' evs h))) w = wc_send_sequence s"
proof -
  let ?q = "wc_send_sequence s + 1"
  have "used_up ?q (length (wc_sent t)) u"
    by (rule used_up.keep_reaches [OF assms(3,4)]) (rule lost_beat [OF assms(1,2)])
  then have "expects.fine_events w ?q evs"
    using assms(6) by (auto simp: expects.fine_events_def not_number_def used_up_def)
  from keepsD [OF expects.eff_serve_events [OF this]] assms(5) show ?thesis
    by (simp add: expects_def)
qed

section \<open>A request that is answered\<close>

text \<open>Programs that return, from every state of \<open>P\<close>.\<close>

abbreviation returns :: "('s \<Rightarrow> bool) \<Rightarrow> ('s, 'a) prog \<Rightarrow> ('a \<Rightarrow> 's \<Rightarrow> bool) \<Rightarrow> bool" where
  "returns P m Q \<equiv> triple P m Q (\<lambda>_ _. False)"

lemma returns_run: "returns P m Q \<Longrightarrow> P s \<Longrightarrow> \<exists>x t. m s = (Inr x, t) \<and> Q x t"
  by (cases "m s"; cases "fst (m s)") (auto dest: triple_Inl triple_Inr)

text \<open>
  The hub over a connection that works: no fault, the event stream of the worker readable. \<open>n\<close> and
  \<open>m\<close> are the numbers it sent and received last, \<open>fs\<close> the futures, \<open>xs\<close> the messages sent.
\<close>

definition hub_at ::
  "('k, 'p) signer \<Rightarrow> string \<Rightarrow> int \<Rightarrow> int \<Rightarrow> (string, envelope option) dict \<Rightarrow> (string \<times> envelope) list
     \<Rightarrow> 'z hub_scheme \<Rightarrow> bool" where
  "hub_at g w n m fs xs s \<longleftrightarrow> faults s = (\<lambda>_. IO_ok) \<and> hb_wire s = (\<lambda>_. True) \<and> hb_loop s \<and>
     w \<in> set (hb_connections s) \<and> valid_id (worker_object_id g w) \<and>
     (\<exists>es. stream (''workers'', worker_object_id g w) s es) \<and>
     0 \<le> n \<and> counter (hb_sequence s) w = n \<and> counter (hb_receive_sequence s) w = m \<and>
     hb_pending s = fs \<and> hb_sent s = xs"

lemma file_op_ok: "faults s = (\<lambda>_. IO_ok) \<Longrightarrow> file_op f s = (Inr (), f (s\<lparr>fault_no := Suc (fault_no s)\<rparr>))"
  by (simp add: file_op_def next_fault_def bindP_apply)

lemma hub_snapshot: "returns (hub_at g w n m fs xs) (write_snapshot ty i d) (\<lambda>_. hub_at g w n m fs xs)"
  by (rule tripleI) (auto simp: write_snapshot_def hub_at_def file_op_ok stream_def)

lemma hub_immutable:
  "returns (\<lambda>s. hub_at g w n m fs xs s \<and> map_of (immutable s) (ty, json_name i) = None) (write_immutable ty i d)
     (\<lambda>_. hub_at g w n m fs xs)"
  by (rule tripleI)
     (auto simp: write_immutable_def write_immutable_file_def bindP_apply hub_at_def file_op_ok stream_def)

definition drawn_msg :: "'z world_scheme \<Rightarrow> string" where
  "drawn_msg s = (case draws s (draw_no s) of (ms, ra, rb) \<Rightarrow> ''msg_'' @ uuid_hex ms ra rb)"

lemma msg_id: "fresh_id ''msg'' s = (Inr (drawn_msg s), s\<lparr>draw_no := Suc (draw_no s)\<rparr>)"
  by (simp add: fresh_id_def new_id_def is_lower_def less_eq_char_def drawn_msg_def split: prod.split)

lemma msg_id_valid: "valid_id (drawn_msg s)"
proof (cases "draws s (draw_no s)")
  case (fields ms ra rb)
  have "new_id ''msg'' ms ra rb = Inr (drawn_msg s)"
    by (simp add: new_id_def is_lower_def less_eq_char_def drawn_msg_def fields)
  then show ?thesis by (rule new_id_Inr_valid) (simp add: is_lower_def less_eq_char_def)
qed

lemma append_event_ok:
  assumes "faults s = (\<lambda>_. IO_ok)" and "stream (ty, oid) s es" and "valid_id oid"
  shows "\<exists>ev. append_event ty oid et actor rq pl s =
      (Inr ev, append_line (ty, oid) (Event_line ev)
         (s\<lparr>draw_no := Suc (draw_no s), clock_no := Suc (clock_no s), fault_no := Suc (fault_no s)\<rparr>)) \<and>
    stream (ty, oid) (append_line (ty, oid) (Event_line ev)
         (s\<lparr>draw_no := Suc (draw_no s), clock_no := Suc (clock_no s), fault_no := Suc (fault_no s)\<rparr>)) (es @ [ev])"
proof -
  have q: "fst (next_sequence ty oid s) = Inr (int (length es) + 1)"
    using assms(2) by (auto simp: next_sequence_stream)
  obtain x where x: "fresh_id ''evt'' s = (Inr x, s\<lparr>draw_no := Suc (draw_no s)\<rparr>)" "valid_id x"
    using new_id_Inr_valid [of "''evt''"]
    by (cases "draws s (draw_no s)") (force simp: fresh_id_def new_id_def is_lower_def less_eq_char_def)
  let ?s3 = "s\<lparr>draw_no := Suc (draw_no s), clock_no := Suc (clock_no s), fault_no := Suc (fault_no s)\<rparr>"
  let ?e = "\<lparr>evt_event_id = x, evt_object_type = ty, evt_object_id = oid, evt_sequence = int (length es) + 1,
    evt_event_type = et, evt_actor = actor, evt_request_id = rq, evt_timestamp = clock s (clock_no s), evt_payload = pl\<rparr>"
  have v: "valid_event ?e" using x(2) assms(3) by (simp add: valid_event_def)
  have n: "next_sequence ty oid s = (Inr (int (length es) + 1), s)"
    using q next_sequence_state [of ty oid s] by (metis prod.collapse)
  have "append_event ty oid et actor rq pl s = (Inr ?e, append_line (ty, oid) (Event_line ?e) ?s3)"
    using v assms(1) by (simp add: append_event_def bindP_apply n x utc_now_def checkP_def next_fault_def Let_def)
  moreover have "stream (ty, oid) (append_line (ty, oid) (Event_line ?e) ?s3) (es @ [?e])"
    using assms(2) v
    by (auto simp: stream_def numbered_append append_line_lookup split: option.splits)
  ultimately show ?thesis by blast
qed

lemma hub_event:
  "returns (hub_at g w n m fs xs) (append_event ''workers'' (worker_object_id g w) et a rq pl) (\<lambda>_. hub_at g w n m fs xs)"
proof (rule tripleI)
  fix s :: "'a hub_scheme"
  assume s: "hub_at g w n m fs xs s"
  then obtain es where "stream (''workers'', worker_object_id g w) s es" by (auto simp: hub_at_def)
  from append_event_ok [OF _ this, of et a rq pl] s
  obtain ev where "append_event ''workers'' (worker_object_id g w) et a rq pl s = (Inr ev,
       append_line (''workers'', worker_object_id g w) (Event_line ev)
         (s\<lparr>draw_no := Suc (draw_no s), clock_no := Suc (clock_no s), fault_no := Suc (fault_no s)\<rparr>))"
    and st: "stream (''workers'', worker_object_id g w) (append_line (''workers'', worker_object_id g w) (Event_line ev)
         (s\<lparr>draw_no := Suc (draw_no s), clock_no := Suc (clock_no s), fault_no := Suc (fault_no s)\<rparr>)) (es @ [ev])"
    by (auto simp: hub_at_def)
  with s show "case append_event ''workers'' (worker_object_id g w) et a rq pl s of
      (Inl e, t) \<Rightarrow> False | (Inr x, t) \<Rightarrow> hub_at g w n m fs xs t"
    using exI [of "stream _ _", OF st] by (simp add: hub_at_def append_line_def)
qed

lemma hub_sequence:
  "returns (hub_at g w n m fs xs) (take_sequence g w) (\<lambda>k s. k = n + 1 \<and> hub_at g w (n + 1) m fs xs s)"
  by (rule tripleI)
     (auto simp: take_sequence_def write_snapshot_def bindP_apply hub_at_def file_op_ok stream_def counter_update)

lemma hub_send: "returns (hub_at g w n m fs xs) (send_text v e) (\<lambda>_. hub_at g w n m fs (xs @ [(v, e)]))"
  by (rule tripleI) (auto simp: send_text_def bindP_apply hub_at_def stream_def)

text \<open>The optional fields of an envelope.\<close>

definition envelope_fields :: "string option \<Rightarrow> int option \<Rightarrow> int option \<Rightarrow> bool" where
  "envelope_fields a gen x \<longleftrightarrow> opt_ok valid_id a \<and> opt_ok (\<lambda>i. 1 \<le> i) gen \<and> opt_ok (\<lambda>i. 1 \<le> i) x"

lemma hub_envelope_ok:
  assumes "envelope_fields a gen x" and "1 \<le> q"
  shows "hub_envelope mt pl a gen x q s =
    (Inr \<lparr>env_message_id = drawn_msg s, env_sequence = q, env_message_type = mt, env_assignment_id = a,
       env_dispatch_generation = gen, env_lease_epoch = x, env_payload = pl\<rparr>, s\<lparr>draw_no := Suc (draw_no s)\<rparr>)"
  using assms
  by (simp add: hub_envelope_def bindP_apply msg_id checkP_def Let_def valid_envelope_def envelope_fields_def msg_id_valid)

text \<open>An acknowledgement of the message \<open>e\<close> with number \<open>q\<close>.\<close>

definition acknowledges :: "envelope \<Rightarrow> int \<Rightarrow> envelope \<Rightarrow> bool" where
  "acknowledges e q ack \<longleftrightarrow> env_sequence ack = q \<and> env_message_type ack = ''ACK'' \<and>
     env_payload ack = [(''reply_to'', JStr (env_message_id e))]"

lemma hub_at_draw: "hub_at g w n m fs xs (s\<lparr>draw_no := k\<rparr>) = hub_at g w n m fs xs s"
  by (simp add: hub_at_def stream_def)

lemma hub_ack:
  assumes "envelope_fields (env_assignment_id e) (env_dispatch_generation e) (env_lease_epoch e)"
  shows "returns (hub_at g w n m fs xs) (send_ack g w e)
    (\<lambda>_ s. \<exists>ack. acknowledges e (n + 1) ack \<and> hub_at g w (n + 1) m fs (xs @ [(w, ack)]) s)"
proof (rule tripleI)
  fix s :: "'a hub_scheme"
  assume s: "hub_at g w n m fs xs s"
  obtain s1 where q: "take_sequence g w s = (Inr (n + 1), s1)" and s1: "hub_at g w (n + 1) m fs xs s1"
    using returns_run [OF hub_sequence s] by blast
  let ?ack = "\<lparr>env_message_id = drawn_msg s1, env_sequence = n + 1, env_message_type = ''ACK'',
    env_assignment_id = env_assignment_id e, env_dispatch_generation = env_dispatch_generation e,
    env_lease_epoch = env_lease_epoch e, env_payload = [(''reply_to'', JStr (env_message_id e))]\<rparr>"
  let ?s2 = "s1\<lparr>draw_no := Suc (draw_no s1)\<rparr>"
  have "hub_at g w (n + 1) m fs xs ?s2" using s1 by (simp add: hub_at_draw)
  from returns_run [OF hub_send this, of w ?ack] obtain s3 where
    t: "send_text w ?ack ?s2 = (Inr (), s3)" and s3: "hub_at g w (n + 1) m fs (xs @ [(w, ?ack)]) s3" by auto
  have "1 \<le> n + 1" "w \<in> set (hb_connections s)" using s by (simp_all add: hub_at_def)
  then have "send_ack g w e s = (Inr (), s3)"
    by (simp add: send_ack_def bindP_apply checkP_def q hub_envelope_ok [OF assms] t)
  moreover have "acknowledges e (n + 1) ?ack" by (simp add: acknowledges_def)
  ultimately show "case send_ack g w e s of (Inl x, t) \<Rightarrow> False
    | (Inr x, t) \<Rightarrow> \<exists>ack. acknowledges e (n + 1) ack \<and> hub_at g w (n + 1) m fs (xs @ [(w, ack)]) t"
    using s3 by auto
qed

text \<open>The reply to a pending request resolves its future and is acknowledged.\<close>

lemma hub_reply:
  assumes s: "hub_at g w n m fs xs s" and i: "map_of fs i = Some None"
    and r: "env_sequence r = m + 1" "env_message_type r \<noteq> ''HEARTBEAT''" "map_of (env_payload r) ''reply_to'' = Some (JStr i)"
    and f: "envelope_fields (env_assignment_id r) (env_dispatch_generation r) (env_lease_epoch r)"
  shows "\<exists>ack t. acknowledges r (n + 1) ack \<and> serve_event g c (Sends w (Envelope r)) s = (Inr (), t) \<and>
    hub_at g w (n + 1) (m + 1) (AList.update i (Some r) fs) (xs @ [(w, ack)]) t"
proof -
  let ?s1 = "s\<lparr>hb_receive_sequence := AList.update w (env_sequence r) (hb_receive_sequence s)\<rparr>"
  have "hub_at g w n (m + 1) fs xs ?s1" using s r(1) by (simp add: hub_at_def counter_update stream_def)
  from returns_run [OF hub_snapshot this, of "''worker-receive-sequence''" "worker_object_id g w" "sequence_file w (env_sequence r)"]
  obtain s2 where s2: "write_snapshot ''worker-receive-sequence'' (worker_object_id g w) (sequence_file w (env_sequence r)) ?s1
      = (Inr (), s2)" "hub_at g w n (m + 1) fs xs s2" by auto
  from returns_run [OF hub_event s2(2)] obtain ev s3 where
    s3: "append_event ''workers'' (worker_object_id g w) (''MESSAGE_'' @ env_message_type r) w (env_message_id r)
        [(''sequence'', JInt (env_sequence r)), (''assignment_id'', json_opt JStr (env_assignment_id r)),
         (''dispatch_generation'', json_opt JInt (env_dispatch_generation r)),
         (''lease_epoch'', json_opt JInt (env_lease_epoch r))] s2 = (Inr ev, s3)" "hub_at g w n (m + 1) fs xs s3" by blast
  have a: "record_arrival g w r s = (Inr (), s3)"
    unfolding record_arrival_def bindP_apply updateP_apply s2(1) s3(1) sum.case prod.case returnP_apply ..
  let ?store = "whenP (map_of (immutable s3) (''worker-replies'', json_name (env_message_id r)) = None)
      (write_immutable ''worker-replies'' (env_message_id r) (O_envelope r))"
  obtain s4 where s4: "?store s3 = (Inr (), s4)" "hub_at g w n (m + 1) fs xs s4"
    using returns_run [OF hub_immutable [of g w n "m + 1" fs xs "''worker-replies''" "env_message_id r" "O_envelope r"], of s3] s3(2)
    by (cases "map_of (immutable s3) (''worker-replies'', json_name (env_message_id r)) = None")
       (auto simp: whenP_def)
  let ?s5 = "s4\<lparr>hb_pending := AList.update i (Some r) (hb_pending s4)\<rparr>"
  have "hub_at g w n (m + 1) (AList.update i (Some r) fs) xs ?s5" using s4(2) by (simp add: hub_at_def stream_def)
  from returns_run [OF hub_ack [OF f] this] obtain ack t where
    t: "send_ack g w r ?s5 = (Inr (), t)" "acknowledges r (n + 1) ack"
      "hub_at g w (n + 1) (m + 1) (AList.update i (Some r) fs) (xs @ [(w, ack)]) t" by auto
  have "hb_pending s3 = fs" using s3(2) by (simp add: hub_at_def)
  then have "serve_reply g w r s3 = (Inr (), t)"
    using s4(1) t(1) r(3) i
    by (simp add: serve_reply_def text_field_def jget_def bindP_apply immutable_exists_def whenP_def [of True])
  moreover have "counter (hb_receive_sequence s) w = m" "w \<in> set (hb_connections s)" using s by (simp_all add: hub_at_def)
  ultimately have "serve_event g c (Sends w (Envelope r)) s = (Inr (), t)"
    using r by (simp add: serve_event_def serve_message_def bindP_apply whenP_def catchP_def checkP_def a)
  then show ?thesis using t by blast
qed

text \<open>The worker's side over a connection that works, without unacknowledged responses.\<close>

definition client_at :: "int \<Rightarrow> int \<Rightarrow> (string, envelope) dict \<Rightarrow> envelope list \<Rightarrow> 'z client_scheme \<Rightarrow> bool" where
  "client_at n m rs xs s \<longleftrightarrow> faults s = (\<lambda>_. IO_ok) \<and> wc_wire s = (\<lambda>_. True) \<and> 0 \<le> n \<and> wc_send_sequence s = n \<and>
     wc_seen_sequence s = m \<and> wc_responses s = rs \<and> wc_background s = [] \<and> wc_sent s = xs"

lemma atomic_file_ok:
  "faults s = (\<lambda>_. IO_ok) \<Longrightarrow> atomic_file f s = (Inr (), f (s\<lparr>fault_no := Suc (fault_no s)\<rparr>))"
  by (simp add: atomic_file_def next_fault_def bindP_apply)

text \<open>The state in which an accepted command is carried out.\<close>

definition accepted :: "envelope \<Rightarrow> 'z client_scheme \<Rightarrow> 'z client_scheme" where
  "accepted e s = s\<lparr>wc_seen_sequence := env_sequence e, fault_no := Suc (fault_no s),
     wc_state_file := Some (wc_send_sequence s, env_sequence e)\<rparr>"

lemma accept_ok:
  assumes "client_at n m rs xs s" and "env_sequence e = m + 1"
  shows "accept_message (Envelope e) s =
    (if env_message_type e = ''ACK''
     then bindP (case text_field (env_payload e) ''reply_to'' of None \<Rightarrow> returnP () | Some r \<Rightarrow> ack_response r)
            (\<lambda>_. returnP None) (accepted e s)
     else bindP (send_cached e) (\<lambda>sent. returnP (if sent then None else Some e)) (accepted e s))"
  using assms
  by (simp add: accept_message_def client_at_def bindP_apply checkP_def persist_protocol_state_def atomic_file_ok
      accepted_def)

lemma make_envelope_ok:
  assumes "client_at n m rs xs s" and "envelope_fields a gen x"
  shows "\<exists>r t. make_envelope mt pl a gen x s = (Inr r, t) \<and> client_at (n + 1) m rs xs t \<and>
    env_sequence r = n + 1 \<and> env_message_type r = mt \<and> env_payload r = pl \<and> env_assignment_id r = a \<and>
    env_dispatch_generation r = gen \<and> env_lease_epoch r = x"
  using assms
  by (simp add: client_at_def make_envelope_def persist_protocol_state_def atomic_file_ok bindP_apply msg_id Let_def
      checkP_def valid_envelope_def envelope_fields_def msg_id_valid)

text \<open>A command that is answered: the response is recorded, sent and carries the command's number.\<close>

lemma handle_ok:
  assumes s: "client_at n m [] xs s" and p: "command_payload c e s = (Inr pl, s1)" and c: "control_obeys same_link c"
    and f: "envelope_fields (env_assignment_id e) (env_dispatch_generation e) (env_lease_epoch e)"
  shows "\<exists>r t. handle_and_send c e s = (Inr (), t) \<and> client_at (n + 1) m [(env_message_id e, r)] (xs @ [r]) t \<and>
    env_sequence r = n + 1 \<and> env_message_type r = env_message_type e @ ''_RESULT'' \<and>
    env_payload r = AList.update ''reply_to'' (JStr (env_message_id e)) pl \<and>
    envelope_fields (env_assignment_id r) (env_dispatch_generation r) (env_lease_epoch r)"
proof -
  have "client_at n m [] xs s1"
    using s obeysD [OF command_same_link [OF c] p] by (simp add: client_at_def same_link_def)
  from make_envelope_ok [OF this f, of "env_message_type e @ ''_RESULT''" "AList.update ''reply_to'' (JStr (env_message_id e)) pl"]
  obtain r s2 where r: "make_envelope (env_message_type e @ ''_RESULT'') (AList.update ''reply_to'' (JStr (env_message_id e)) pl)
      (env_assignment_id e) (env_dispatch_generation e) (env_lease_epoch e) s1 = (Inr r, s2)"
    and s2: "client_at (n + 1) m [] xs s2" and rf: "env_sequence r = n + 1" "env_message_type r = env_message_type e @ ''_RESULT''"
      "env_payload r = AList.update ''reply_to'' (JStr (env_message_id e)) pl"
      "envelope_fields (env_assignment_id r) (env_dispatch_generation r) (env_lease_epoch r)"
    using f by auto
  have h: "handle c e s = (Inr r, s2)"
    unfolding handle_def bindP_apply p sum.case prod.case r ..
  show ?thesis
    using s2 rf
    by (simp add: handle_and_send_def bindP_apply h record_response_def client_at_def atomic_file_ok send_def)
qed

text \<open>A whole turn: the command arrives and is carried out, in the background or not.\<close>

definition turn :: "('k, 'p, 'z client_scheme) client_config \<Rightarrow> envelope \<Rightarrow> ('z client_scheme, unit) prog" where
  "turn c e = bindP (perform c (Arrival (Envelope e))) (\<lambda>_. drain_background c)"

lemma turn_ok:
  assumes s: "client_at n m [] xs s" and e: "env_sequence e = m + 1" "env_message_type e \<noteq> ''ACK''"
    and p: "fst (command_payload c e (accepted e s)) = Inr pl" and c: "control_obeys same_link c"
    and f: "envelope_fields (env_assignment_id e) (env_dispatch_generation e) (env_lease_epoch e)"
  shows "\<exists>r t. turn c e s = (Inr (), t) \<and> client_at (n + 1) (m + 1) [(env_message_id e, r)] (xs @ [r]) t \<and>
    env_sequence r = n + 1 \<and> env_message_type r = env_message_type e @ ''_RESULT'' \<and>
    env_payload r = AList.update ''reply_to'' (JStr (env_message_id e)) pl \<and>
    envelope_fields (env_assignment_id r) (env_dispatch_generation r) (env_lease_epoch r)"
proof -
  let ?s1 = "accepted e s"
  have s1: "client_at n (m + 1) [] xs ?s1" using s e(1) by (simp add: client_at_def accepted_def)
  obtain s2 where p2: "command_payload c e ?s1 = (Inr pl, s2)" using p by (metis prod.collapse)
  from handle_ok [OF s1 p2 c f] obtain r t where
    h: "handle_and_send c e ?s1 = (Inr (), t)" and t: "client_at (n + 1) (m + 1) [(env_message_id e, r)] (xs @ [r]) t"
      "env_sequence r = n + 1" "env_message_type r = env_message_type e @ ''_RESULT''"
      "env_payload r = AList.update ''reply_to'' (JStr (env_message_id e)) pl"
      "envelope_fields (env_assignment_id r) (env_dispatch_generation r) (env_lease_epoch r)" by blast
  have a: "accept_message (Envelope e) s = (Inr (Some e), ?s1)"
    using e s1 by (simp add: accept_ok [OF s e(1)] send_cached_def bindP_apply client_at_def)
  have "turn c e s = (Inr (), t)"
  proof (cases "env_message_type e = ''EXECUTE''")
    case False
    then show ?thesis
      using t(1) h by (simp add: turn_def perform_def receive_def bindP_apply a drain_background_def client_at_def)
  next
    case True
    have same: "?s1\<lparr>wc_background := []\<rparr> = ?s1" using s1 by (simp add: client_at_def)
    have empty: "wc_background ?s1 = []" using s1 by (simp add: client_at_def)
    show ?thesis
      by (simp add: True turn_def perform_def receive_def bindP_apply a drain_background_def empty same h
          run_background_def ignore_errors_def catchP_def bindP_return)
  qed
  with t show ?thesis by blast
qed

lemma ack_ok:
  assumes s: "client_at n m [(i, r)] xs s" and a: "acknowledges r (m + 1) ack"
  shows "\<exists>t. perform c (Arrival (Envelope ack)) s = (Inr (), t) \<and> client_at n (m + 1) [] xs t"
proof -
  let ?s1 = "accepted ack s"
  have e: "env_sequence ack = m + 1" "env_message_type ack = ''ACK''"
    "text_field (env_payload ack) ''reply_to'' = Some (env_message_id r)"
    using a by (simp_all add: acknowledges_def text_field_def jget_def)
  have s1: "client_at n (m + 1) [(i, r)] xs ?s1" using s e(1) by (simp add: client_at_def accepted_def)
  have "\<exists>t. ack_response (env_message_id r) ?s1 = (Inr (), t) \<and> client_at n (m + 1) [] xs t"
    using s1 by (auto simp: ack_response_def bindP_apply client_at_def whenP_def atomic_file_ok)
  then obtain t where t: "ack_response (env_message_id r) ?s1 = (Inr (), t)" "client_at n (m + 1) [] xs t" by blast
  have "accept_message (Envelope ack) s = (Inr None, t)"
    using e t(1) by (simp add: accept_ok [OF s e(1)] bindP_apply)
  then have "perform c (Arrival (Envelope ack)) s = (Inr (), t)"
    by (simp add: perform_def receive_def bindP_apply)
  then show ?thesis using t(2) by blast
qed

text \<open>The message of a request, before it is sent.\<close>

definition request_message ::
  "string \<Rightarrow> string \<Rightarrow> (string \<times> json) list \<Rightarrow> string \<Rightarrow> int \<Rightarrow> int \<Rightarrow> 'z hub_scheme \<Rightarrow> envelope" where
  "request_message w mt pl a gen x h =
     \<lparr>env_message_id = drawn_msg h, env_sequence = counter (hb_sequence h) w + 1, env_message_type = mt,
      env_assignment_id = Some a, env_dispatch_generation = Some gen, env_lease_epoch = Some x, env_payload = pl\<rparr>"

definition same_traffic :: "'z hub_scheme \<Rightarrow> 'z hub_scheme \<Rightarrow> bool" where
  "same_traffic s t \<longleftrightarrow> hb_traffic t = hb_traffic s \<and> hb_traffic_no t = hb_traffic_no s"

interpretation same_traffic: hub_effect same_traffic "\<lambda>_ _. True"
  by unfold_locales (auto simp: same_traffic_def append_line_def)

lemma drawn_msg_sequence:
  "take_sequence g w h = (r, s) \<Longrightarrow> drawn_msg s = drawn_msg h"
  by (auto simp: take_sequence_def bindP_apply write_snapshot_def file_op_def next_fault_def drawn_msg_def
      split: io_fault.splits)

text \<open>The request up to the wait: the message is on the wire and its future is open.\<close>

lemma request_sends:
  assumes h: "hub_at g w n m fs xs h" and f: "envelope_fields (Some a) (Some gen) (Some x)"
    and e: "e = request_message w mt pl a gen x h"
  shows "\<exists>t. hub_at g w (n + 1) m (AList.update (env_message_id e) None fs) (xs @ [(w, e)]) t \<and> same_traffic h t \<and>
    request g c w mt pl a gen x timeout h =
      finallyP (await_reply g c (env_message_id e) timeout)
        (updateP (\<lambda>s. s\<lparr>hb_pending := AList.delete (env_message_id e) (hb_pending s)\<rparr>)) t"
proof -
  have e1: "env_message_id e = drawn_msg h" "e = \<lparr>env_message_id = drawn_msg h, env_sequence = n + 1, env_message_type = mt,
      env_assignment_id = Some a, env_dispatch_generation = Some gen, env_lease_epoch = Some x, env_payload = pl\<rparr>"
    using h by (simp_all add: e request_message_def hub_at_def)
  obtain s1 where q: "take_sequence g w h = (Inr (n + 1), s1)" and s1: "hub_at g w (n + 1) m fs xs s1"
    using returns_run [OF hub_sequence h] by blast
  let ?s2 = "s1\<lparr>draw_no := Suc (draw_no s1)\<rparr>"
  have mk: "hub_envelope mt pl (Some a) (Some gen) (Some x) (n + 1) s1 = (Inr e, ?s2)"
    using h drawn_msg_sequence [OF q] by (subst hub_envelope_ok [OF f]) (simp_all add: e1(2) hub_at_def)
  let ?s3 = "?s2\<lparr>hb_pending := AList.update (env_message_id e) None (hb_pending ?s2)\<rparr>"
  have s3: "hub_at g w (n + 1) m (AList.update (env_message_id e) None fs) xs ?s3"
    using s1 by (simp add: hub_at_def stream_def)
  let ?append = "append_event ''workers'' (worker_object_id g w) (''SEND_'' @ mt) ''master'' (env_message_id e)
      [(''sequence'', JInt (n + 1)), (''assignment_id'', JStr a)]"
  from returns_run [OF hub_event s3] obtain ev s4 where
    ev: "?append ?s3 = (Inr ev, s4)" and s4: "hub_at g w (n + 1) m (AList.update (env_message_id e) None fs) xs s4" by blast
  from returns_run [OF hub_send s4, of w e] obtain t where
    snd: "send_text w e s4 = (Inr (), t)" and
    t: "hub_at g w (n + 1) m (AList.update (env_message_id e) None fs) (xs @ [(w, e)]) t" by auto
  have "same_traffic h s1" by (rule obeysD [OF same_traffic.eff_take_sequence q])
  moreover have "same_traffic ?s3 s4" by (rule obeysD [OF same_traffic.eff_append_event ev])
  moreover have "same_traffic s4 t" by (rule obeysD [OF same_traffic.eff_send_text snd])
  ultimately have "same_traffic h t" by (simp add: same_traffic_def)
  moreover have "request g c w mt pl a gen x timeout h =
      finallyP (await_reply g c (env_message_id e) timeout)
        (updateP (\<lambda>s. s\<lparr>hb_pending := AList.delete (env_message_id e) (hb_pending s)\<rparr>)) t"
  proof -
    have "hb_loop h" "w \<in> set (hb_connections h)" using h by (simp_all add: hub_at_def)
    then show ?thesis
      unfolding request_def
      by (simp only: bindP_apply readP_apply checkP_def q mk ev snd updateP_apply returnP_apply sum.case prod.case if_True
          finallyP_def)
  qed
  ultimately show ?thesis using t by blast
qed

text \<open>
  C12. A request over a connection that works is answered. When the two sides agree on their numbers,
  no fault occurs, and the messages the worker sends while the master waits arrive, the request
  returns what the worker's command computed, under its own identifier; the acknowledgement the
  master sends makes the worker forget the response; and afterwards the two sides agree again.
\<close>

theorem request_is_answered:
  assumes hub: "hub_at g w n m [] xs h" and client: "client_at m n [] ys k"
    and fields: "envelope_fields (Some a) (Some gen) (Some x)" and kind: "mt \<noteq> ''ACK''"
    and e: "e = request_message w mt pl a gen x h"
    and answer: "fst (command_payload c e (accepted e k)) = Inr result" and control: "control_obeys same_link c"
    and arrives: "hb_traffic h (hb_traffic_no h) timeout =
      map (\<lambda>r. Sends w (Envelope r)) (drop (length ys) (wc_sent (snd (turn c e k))))"
  shows "\<exists>r ack h' k'. request g d w mt pl a gen x timeout h = (Inr r, h') \<and>
    env_payload r = AList.update ''reply_to'' (JStr (env_message_id e)) result \<and>
    hub_at g w (n + 2) (m + 1) [] (xs @ [(w, e), (w, ack)]) h' \<and>
    perform c (Arrival (Envelope ack)) (snd (turn c e k)) = (Inr (), k') \<and>
    client_at (m + 1) (n + 2) [] (ys @ [r]) k'"
proof -
  from request_sends [OF hub fields e, of d timeout] obtain t where
    t: "hub_at g w (n + 1) m [(env_message_id e, None)] (xs @ [(w, e)]) t" "same_traffic h t"
    and req: "request g d w mt pl a gen x timeout h =
      finallyP (await_reply g d (env_message_id e) timeout)
        (updateP (\<lambda>s. s\<lparr>hb_pending := AList.delete (env_message_id e) (hb_pending s)\<rparr>)) t" by auto
  have en: "env_sequence e = n + 1" "env_message_type e \<noteq> ''ACK''"
    "envelope_fields (env_assignment_id e) (env_dispatch_generation e) (env_lease_epoch e)"
    using hub kind fields by (simp_all add: e request_message_def hub_at_def)
  from turn_ok [OF client en(1,2) answer control en(3)] obtain r k1 where
    tn: "turn c e k = (Inr (), k1)" and k1: "client_at (m + 1) (n + 1) [(env_message_id e, r)] (ys @ [r]) k1"
    and r: "env_sequence r = m + 1" "env_message_type r = env_message_type e @ ''_RESULT''"
      "env_payload r = AList.update ''reply_to'' (JStr (env_message_id e)) result"
      "envelope_fields (env_assignment_id r) (env_dispatch_generation r) (env_lease_epoch r)" by blast
  have tr: "hb_traffic t (hb_traffic_no t) timeout = [Sends w (Envelope r)]"
    using arrives tn k1 t(2) by (simp add: same_traffic_def client_at_def)
  let ?t1 = "t\<lparr>hb_traffic_no := Suc (hb_traffic_no t)\<rparr>"
  have t1: "hub_at g w (n + 1) m [(env_message_id e, None)] (xs @ [(w, e)]) ?t1"
    using t(1) by (simp add: hub_at_def stream_def)
  have "env_message_type r \<noteq> ''HEARTBEAT''"
    using r(2) by (auto dest: arg_cong [where f = rev])
  moreover have "map_of (env_payload r) ''reply_to'' = Some (JStr (env_message_id e))"
    using r(3) by (simp add: dupdate_lookup)
  ultimately obtain ack u where ack: "acknowledges r (n + 2) ack"
    and u: "serve_event g d (Sends w (Envelope r)) ?t1 = (Inr (), u)"
      "hub_at g w (n + 2) (m + 1) [(env_message_id e, Some r)] (xs @ [(w, e), (w, ack)]) u"
    using hub_reply [OF t1 _ r(1) _ _ r(4), of "env_message_id e" d] by (auto simp: add.commute [of 2])
  have "await_reply g d (env_message_id e) timeout t = (Inr r, u)"
    using u by (simp add: await_reply_def bindP_apply tr serve_events_def hub_at_def)
  then have "request g d w mt pl a gen x timeout h = (Inr r, u\<lparr>hb_pending := []\<rparr>)"
    using u(2) by (simp add: req finallyP_def hub_at_def)
  moreover have "hub_at g w (n + 2) (m + 1) [] (xs @ [(w, e), (w, ack)]) (u\<lparr>hb_pending := []\<rparr>)"
    using u(2) by (simp add: hub_at_def stream_def)
  moreover have "\<exists>k'. perform c (Arrival (Envelope ack)) k1 = (Inr (), k') \<and> client_at (m + 1) (n + 2) [] (ys @ [r]) k'"
    using ack_ok [OF k1, of ack c] ack by (simp add: add.commute [of 2])
  ultimately show ?thesis using r(3) tn by auto
qed

end
