(* ===== verification/App_System.thy ===== *)
theory App_System
  imports Http_App Proposal_Frame Worker_Link
begin

text \<open>
  The master as a system: every request to it, the background loop and everything that arrives from
  the workers as a step, and what holds of every run. The service's theorems are carried over to
  the common state by the locale \<open>part\<close>, which the service's view interprets; the effects of
  scheduler and hub come from their own locales.
\<close>

section \<open>A component inside a larger state\<close>

locale part =
  fixes get :: "'s \<Rightarrow> 't" and put :: "'t \<Rightarrow> 's \<Rightarrow> 's"
  assumes get_put: "get (put v s) = v" and put_put: "put v (put w s) = put v s"
begin

lemma zoom_bind: "zoom get put (bindP m f) = bindP (zoom get put m) (\<lambda>x. zoom get put (f x))"
  by (auto simp: zoom_def bindP_def get_put put_put fun_eq_iff split: prod.split sum.split)

lemma zoom_result: "zoom get put m s = (r, t) \<Longrightarrow> m (get s) = (r, get t)"
  by (auto simp: zoom_def get_put split: prod.splits)

lemma zoom_obeys:
  assumes "obeys Q m" and "\<And>s v. Q (get s) v \<Longrightarrow> R s (put v s)"
  shows "obeys R (zoom get put m)"
proof (rule obeysI)
  fix s
  obtain r v where m: "m (get s) = (r, v)" by (rule prod.exhaust)
  show "R s (snd (zoom get put m s))"
    using assms(2) obeysD [OF assms(1) m] by (simp add: zoom_def m)
qed

end

lemma world_extend_same: "world.extend (world.truncate v) (world.more v) = v"
  by (cases v) (simp add: world.defs)

interpretation svc: part the_service put_service
proof unfold_locales
  fix v w :: "'h service_scheme" and s :: "('h, 'z) app_scheme"
  show "the_service (put_service v s) = v"
    by (cases s; cases v) (simp add: the_service_def put_service_def world.defs)
  show "put_service v (put_service w s) = put_service v s"
    by (cases s; cases v; cases w) (simp add: put_service_def world.defs)
qed

lemma service_world [simp]:
  "clock (the_service s) = clock s" "clock_no (the_service s) = clock_no s"
  "draws (the_service s) = draws s" "draw_no (the_service s) = draw_no s"
  "immutable (the_service s) = immutable s" "snapshots (the_service s) = snapshots s"
  "logs (the_service s) = logs s" "faults (the_service s) = faults s" "fault_no (the_service s) = fault_no s"
  by (simp_all add: the_service_def world.defs)

lemma ap_service_world [simp]:
  "ap_service (clock_no_update f s) = ap_service s" "ap_service (draw_no_update f s) = ap_service s"
  "ap_service (fault_no_update f s) = ap_service s" "ap_service (immutable_update g s) = ap_service s"
  "ap_service (snapshots_update g s) = ap_service s" "ap_service (logs_update h s) = ap_service s"
  "ap_draining (clock_no_update f s) = ap_draining s" "ap_draining (draw_no_update f s) = ap_draining s"
  "ap_draining (fault_no_update f s) = ap_draining s" "ap_draining (immutable_update g s) = ap_draining s"
  "ap_draining (snapshots_update g s) = ap_draining s" "ap_draining (logs_update h s) = ap_draining s"
  by (cases s; simp)+

lemma world_ap_service [simp]:
  "draws (ap_service_update f s) = draws s" "draw_no (ap_service_update f s) = draw_no s"
  "sc_tasks (ap_service_update f s) = sc_tasks s" "ap_draining (ap_service_update f s) = ap_draining s"
  "ap_service (ap_service_update f s) = f (ap_service s)"
  by (cases s; simp)+

lemma service_own [simp]:
  "sv_records (the_service s) = sv_records (ap_service s)"
  "sv_allowed_users (the_service s) = sv_allowed_users (ap_service s)"
  by (cases "ap_service s"; simp add: the_service_def world.defs)+

lemma put_service_others [simp]:
  "sc_tasks (put_service v s) = sc_tasks s" "sc_statuses (put_service v s) = sc_statuses s"
  "sc_leases (put_service v s) = sc_leases s" "sc_holds (put_service v s) = sc_holds s"
  "sc_epochs (put_service v s) = sc_epochs s" "sc_workers (put_service v s) = sc_workers s"
  "hb_connections (put_service v s) = hb_connections s" "ap_draining (put_service v s) = ap_draining s"
  "ap_service (put_service v s) = v"
  by (cases s; simp add: put_service_def world.defs)+

section \<open>Operations that do not reach the proposals\<close>

text \<open>Nothing happens to the records of the service, and the scheduler gets no task.\<close>

definition same_app :: "('h, 'z) app_scheme \<Rightarrow> ('h, 'z) app_scheme \<Rightarrow> bool" where
  "same_app s t \<longleftrightarrow> same_records (the_service s) (the_service t) \<and> sc_tasks t = sc_tasks s"

lemma hold_unit_same_app: "obeys same_app (hold_unit w rs)"
proof (rule obeysI)
  fix s :: "('h, 'z) app_scheme"
  show "same_app s (snd (hold_unit w rs s))"
    by (cases rule: hold_unit_cases [of w rs s]) (simp_all add: same_app_def same_records_def)
qed

interpretation same_app: free_dispatch_effect same_app
  by unfold_locales
     (auto simp: same_app_def same_records_def append_line_def hold_unit_same_app)

interpretation same_app: hub_open same_app
  by unfold_locales (auto simp: same_app_def same_records_def append_line_def)

section \<open>The tasks of the scheduler\<close>

text \<open>
  \<open>owned s k\<close>: a proposal has the task \<open>k\<close>. In a \<open>backed\<close> state every record is sound and every task
  of the scheduler is owned; \<open>grown\<close> is what runs of the master do, when the harness does not reach
  into the service: proposals move along the workflow and the state stays backed.
\<close>

definition owned :: "('h, 'z) app_scheme \<Rightarrow> task \<Rightarrow> bool" where
  "owned s k \<longleftrightarrow> (\<exists>pid r. record_of (the_service s) pid = Some r \<and> rc_task r = Some k)"

definition backed :: "('k, 'p, 'h service_scheme) collaborators \<Rightarrow> ('h, 'z) app_scheme \<Rightarrow> bool" where
  "backed co s \<longleftrightarrow> (\<forall>pid r. record_of (the_service s) pid = Some r \<longrightarrow> sound_record co pid r) \<and>
     (\<forall>k \<in> set (dvalues (sc_tasks s)). owned s k)"

definition grown ::
  "('k, 'p, 'h service_scheme) collaborators \<Rightarrow> ('h, 'z) app_scheme \<Rightarrow> ('h, 'z) app_scheme \<Rightarrow> bool" where
  "grown co s t \<longleftrightarrow> (harness_obeys same_records co \<longrightarrow>
     works co (the_service s) (the_service t) \<and> (backed co s \<longrightarrow> backed co t))"

lemma record_same: "same_records s t \<Longrightarrow> record_of t pid = record_of s pid"
  by (simp add: same_records_def record_of_def)

lemma same_grown: "same_app s t \<Longrightarrow> grown co s t"
  using record_same [of "the_service s" "the_service t"] same_works
  by (auto simp: grown_def same_app_def backed_def owned_def)

lemma grown_same: "obeys same_app m \<Longrightarrow> obeys (grown co) m"
  unfolding obeys_def using same_grown by blast

interpretation grown: effect "grown co" for co :: "('k, 'p, 'h service_scheme) collaborators"
proof unfold_locales
  fix s t u :: "('h, 'z) app_scheme"
  show "grown co s s" by (simp add: grown_def works.effect_refl)
  show "grown co s t \<Longrightarrow> grown co t u \<Longrightarrow> grown co s u"
    unfolding grown_def using works.effect_trans by blast
qed

text \<open>A path of the workflow keeps soundness and the tasks that proposals have.\<close>

lemma works_sound:
  assumes "works co s t" and "\<forall>pid r. record_of s pid = Some r \<longrightarrow> sound_record co pid r"
    and "record_of t pid = Some r"
  shows "sound_record co pid r"
proof -
  have "case record_of s pid of None \<Rightarrow> True | Some x \<Rightarrow> sound_record co pid x"
    using assms(2) by (cases "record_of s pid") auto
  then have "case record_of t pid of None \<Rightarrow> True | Some x \<Rightarrow> sound_record co pid x"
    using wsteps_sound assms(1) unfolding works_def by blast
  then show ?thesis using assms(3) by simp
qed

lemma works_owned:
  assumes "works co (the_service s) (the_service t)" and "backed co s" and "owned s k"
  shows "owned t k"
proof -
  obtain pid r where r: "record_of (the_service s) pid = Some r" "rc_task r = Some k"
    using assms(3) by (auto simp: owned_def)
  have "sound_record co pid r" using assms(2) r(1) by (simp add: backed_def)
  moreover have "(wstep co pid)\<^sup>*\<^sup>* (Some r) (record_of (the_service t) pid)"
    using assms(1) r(1) by (metis works_def)
  ultimately show ?thesis using wsteps_task r(2) unfolding owned_def by blast
qed

lemma works_grown:
  assumes "harness_obeys same_records co \<Longrightarrow> works co (the_service s) (the_service t)"
    and "\<And>k. harness_obeys same_records co \<Longrightarrow> k \<in> set (dvalues (sc_tasks t)) \<Longrightarrow>
           k \<in> set (dvalues (sc_tasks s)) \<or> owned t k"
  shows "grown co s t"
  unfolding grown_def
proof (intro conjI impI)
  assume h: "harness_obeys same_records co" and b: "backed co s"
  then have "\<forall>pid r. record_of (the_service s) pid = Some r \<longrightarrow> sound_record co pid r" by (simp add: backed_def)
  then have "sound_record co pid r" if "record_of (the_service t) pid = Some r" for pid r
    using works_sound [OF assms(1) [OF h]] that by blast
  moreover have "owned t k" if "k \<in> set (dvalues (sc_tasks t))" for k
    using assms(2) [OF h that] works_owned [OF assms(1) [OF h] b] b by (auto simp: backed_def)
  ultimately show "backed co t" by (simp add: backed_def)
qed (rule assms(1))

text \<open>Calls of the service, and the operations of scheduler and hub with any driver of this kind.\<close>

lemma service_grown:
  assumes "harness_obeys same_records co \<Longrightarrow> obeys (works co) m"
  shows "obeys (grown co) (on_service m)"
proof (cases "harness_obeys same_records co")
  case True
  show ?thesis
    unfolding on_service_def by (rule svc.zoom_obeys [OF assms [OF True]]) (auto intro!: works_grown simp: svc.get_put)
qed (simp add: obeys_def grown_def)

interpretation grown: free_dispatch_effect "grown co" for co :: "('k, 'p, 'h service_scheme) collaborators"
  by unfold_locales
     (auto intro!: same_grown simp: same_app_def same_records_def append_line_def grown_same hold_unit_same_app)

interpretation grown: hub_open "grown co" for co :: "('k, 'p, 'h service_scheme) collaborators"
  by unfold_locales (auto intro!: same_grown simp: same_app_def same_records_def append_line_def)

section \<open>Every route\<close>

text \<open>What adds the task \<open>k\<close> to the scheduler, at most.\<close>

definition adds :: "task \<Rightarrow> ('h, 'z) app_scheme \<Rightarrow> ('h, 'z) app_scheme \<Rightarrow> bool" where
  "adds k s t \<longleftrightarrow> same_records (the_service s) (the_service t) \<and> ap_draining t = ap_draining s \<and>
     set (dvalues (sc_tasks t)) \<subseteq> insert k (set (dvalues (sc_tasks s)))"

interpretation adds: steady_effect "adds k" for k
  by unfold_locales (auto simp: adds_def same_records_def append_line_def)

lemma adds_enqueue: "obeys (adds k) (enqueue g k rq)"
  by (rule adds.eff_enqueue_if) (auto simp: adds_def same_records_def dest: dvalues_update)

lemma adds_service: "obeys same_records m \<Longrightarrow> obeys (adds k) (on_service m)"
  unfolding on_service_def by (erule svc.zoom_obeys) (auto simp: adds_def svc.get_put)

lemma adds_convert: "obeys (adds k) m \<Longrightarrow> obeys (adds k) (convert c f m)"
  unfolding convert_def by (intro adds.eff_catch adds.eff_raise)

lemma adds_admin_event: "obeys (adds k) (admin_event q et a p)"
  unfolding admin_event_def by (intro adds.eff_bind adds.eff_append_event adds.eff_return)

lemma get_proposal_adds: "obeys (adds k) (service_call q (get_proposal pid))"
  unfolding service_call_def by (intro adds_convert adds_service get_proposal_same)

text \<open>
  A relation on the states of the master that all of its parts keep is kept by every route. What is
  needed: the fields of the application may change as the routes change them, reading calls of the
  service are harmless, and so are the calls that change proposals, with what follows them.
\<close>

locale app_effect = hub_open R + free_dispatch_effect R
  for R :: "('h, 'z) app_scheme \<Rightarrow> ('h, 'z) app_scheme \<Rightarrow> bool" +
  fixes co :: "('k, 'p, 'h service_scheme) collaborators" and fit :: "http_call \<Rightarrow> bool"
  assumes R_drain: "R s (s\<lparr>ap_draining := True\<rparr>)"
    and R_users: "R s (s\<lparr>ap_service := (ap_service s)\<lparr>sv_allowed_users := us\<rparr>\<rparr>)"
    and R_integrity: "R s (s\<lparr>ap_integrity_cache := a\<rparr>)" and R_container: "R s (s\<lparr>ap_container_cache := b\<rparr>)"
    and R_index: "R s (s\<lparr>ap_log_index_cache := x\<rparr>)" and R_monotonic: "R s (s\<lparr>ap_monotonic_no := n\<rparr>)"
    and R_inspection: "R s (s\<lparr>ap_inspection_no := n\<rparr>)" and R_look: "R s (s\<lparr>ap_look_no := n\<rparr>)"
    and R_reading: "same_records (the_service s) v \<Longrightarrow> R s (put_service v s)"
    and R_reply: "obeys R (on_service (reply co pid u md k rq))"
    and R_resume: "obeys R (on_service (resume_proposal co pid u k rq))"
    and R_cancel_proposal: "obeys R (on_service (cancel_proposal pid u rq))"
    and R_confirm: "(\<And>t. obeys (adds t) (rest t :: (('h, 'z) app_scheme, (string \<times> json) list) prog)) \<Longrightarrow>
          obeys R (bindP (service_call q (confirm co pid u rid k rq)) rest)"
    and R_retry: "(\<And>t. obeys (adds t) (rest t :: (('h, 'z) app_scheme, (string \<times> json) list) prog)) \<Longrightarrow>
          obeys R (bindP (service_call q (retry_compilation co pid u rq)) rest)"
    and R_create: "fit (Create md) \<Longrightarrow> obeys R (bindP (reject_if_draining q) (\<lambda>_.
          service_call q (create co u md k rq)))"
begin

lemma eff_updates:
  "obeys R (updateP (\<lambda>s. s\<lparr>ap_monotonic_no := f s\<rparr>))" "obeys R (updateP (\<lambda>s. s\<lparr>ap_inspection_no := f s\<rparr>))"
  "obeys R (updateP (\<lambda>s. s\<lparr>ap_look_no := f s\<rparr>))" "obeys R (updateP (\<lambda>s. s\<lparr>ap_draining := True\<rparr>))"
  "obeys R (updateP (\<lambda>s. s\<lparr>ap_service := (ap_service s)\<lparr>sv_allowed_users := us\<rparr>\<rparr>))"
  by (simp_all add: obeys_def R_monotonic R_inspection R_look R_drain R_users)

lemma eff_convert: "obeys R m \<Longrightarrow> obeys R (convert c f m)"
  unfolding convert_def by (intro eff_catch eff_raise)

lemma eff_service_call: "obeys R (on_service m) \<Longrightarrow> obeys R (service_call q m)"
  unfolding service_call_def by (rule eff_convert)

lemma eff_reject: "obeys R (reject_if_draining q)"
  unfolding reject_if_draining_def by (intro eff_bind eff_read eff_check)

lemma eff_admin_event: "obeys R (admin_event q et a p)"
  unfolding admin_event_def by (intro eff_bind eff_append_event eff_return)

lemma eff_valid_call: "obeys R m \<Longrightarrow> obeys R (valid_call q b m)"
  unfolding valid_call_def by (intro eff_bind eff_check)

lemma eff_json_answer: "obeys R m \<Longrightarrow> obeys R (json_answer n m)"
  unfolding json_answer_def by (intro eff_bind eff_return)

lemma eff_cached:
  assumes "\<And>e. obeys R (updateP (store e))" and "obeys R m"
  shows "obeys R (cached ttl entry store m)"
  unfolding cached_def
  by (intro eff_bind eff_read eff_updates)
     (auto split: option.split intro!: eff_if eff_return eff_bind assms)

lemma eff_reading: "obeys same_records m \<Longrightarrow> obeys R (on_service m)"
  unfolding on_service_def by (erule svc.zoom_obeys) (rule R_reading)

lemma same_reads: "obeys same_records (get_reviews pid)" "obeys same_records (get_current_facts pid)"
  "obeys same_records list_tasks" "obeys same_records list_proposals" "obeys same_records list_reviews"
  unfolding get_reviews_def get_current_facts_def list_tasks_def list_proposals_def list_reviews_def
  by (intro same_records.eff_bind same_records.eff_get_record same_records.eff_return same_records.eff_read)+

lemma eff_validate_all: "obeys R validate_all_events"
  unfolding validate_all_events_def
  by (auto split: prod.split intro!: eff_bind eff_read eff_for eff_list_events eff_return)

lemma eff_ordered_queue_ids: "obeys R queued_task_ids"
  unfolding queued_task_ids_def by (intro eff_bind eff_ordered_queue eff_return)

lemma eff_log_file: "obeys R (log_file c parts rid)"
  unfolding log_file_def Let_def
  by (intro eff_bind eff_read eff_updates) (auto split: option.split intro: eff_return eff_raise)

lemma eff_caches: "obeys R cached_integrity" "obeys R (container_summary n)" "obeys R (log_index r p)"
  unfolding cached_integrity_def container_summary_def log_index_def
  by (auto simp: obeys_def [of R "updateP _"] R_integrity R_container R_index
      intro!: eff_cached eff_catch eff_bind eff_validate_all eff_return eff_read eff_updates eff_raise
      split: sum.split option.split)

lemma eff_observe_summary: "obeys R (observe_summary c q)"
  unfolding observe_summary_def Let_def
  by (intro eff_bind eff_reading same_reads eff_caches eff_ordered_queue_ids eff_read)

lemma eff_driver_routes:
  assumes "driver_obeys R (ac_driver c)"
  shows "obeys R (cancel_task_route c q i)" "obeys R (tick_route c q a b)" "obeys R (reconcile_route c q x a b)"
  unfolding cancel_task_route_def tick_route_def reconcile_route_def execution_leases_def
  by (intro eff_bind eff_convert eff_get_task eff_check eff_cancel_task eff_return eff_tick eff_admin_event eff_read
      eff_reconcile assms)+

lemma confirm_rest:
  "obeys (adds t) (bindP (convert is_SchedulingError f (enqueue g t rq)) (\<lambda>st. returnP (z st)))"
  by (intro adds.eff_bind adds_convert adds_enqueue adds.eff_return)

lemma eff_confirm_route:
  assumes "ac_collaborators c = co"
  shows "obeys R (confirm_proposal c q pid rid)"
  unfolding confirm_proposal_def assms by (rule eff_bind [OF eff_reject], rule R_confirm, rule confirm_rest)

lemma eff_retry_route:
  assumes "ac_collaborators c = co"
  shows "obeys R (retry_route c q pid a b)"
  unfolding retry_route_def assms
  by (rule eff_bind [OF eff_service_call [OF eff_reading [OF get_proposal_same]]], rule R_retry)
     (intro adds.eff_bind adds_enqueue adds.eff_return get_proposal_adds adds_admin_event)

lemma eff_create_route:
  assumes "ac_collaborators c = co" and "fit (Create md)"
  shows "obeys R (create_proposal c q md)"
  unfolding create_proposal_def assms(1) bindP_assoc [symmetric]
  by (rule eff_bind [OF R_create [OF assms(2)] eff_return])

lemma eff_route:
  assumes "ac_collaborators c = co" and "driver_obeys R (ac_driver c)" and "fit x"
  shows "obeys R (route c q x)"
proof (cases x)
  case (Create md)
  then show ?thesis using assms by (simp add: eff_valid_call eff_json_answer eff_create_route)
next
  case (Observe_log parts offset n)
  show ?thesis
    unfolding Observe_log route.simps observe_log_def Let_def
    by (intro eff_valid_call eff_json_answer eff_bind eff_log_file eff_return)
next
  case (Get_log parts offset n)
  show ?thesis
    unfolding Get_log route.simps get_log_def
    by (intro eff_valid_call eff_bind eff_log_file) (simp add: eff_return split: prod.split)
qed (auto simp: health_def show_proposal_def show_reviews_def show_events_def reply_proposal_def resume_route_def
    cancel_route_def show_task_def drain_route_def reload_users_def observe_write_rejected_def assms(1)
    intro!: eff_valid_call eff_json_answer eff_bind eff_convert eff_validate_all eff_read eff_service_call
      eff_reading get_proposal_same same_records.eff_bind same_reads same_records.eff_return eff_return eff_list_events
      eff_reject R_reply R_resume R_cancel_proposal eff_get_task eff_get_status eff_updates eff_admin_event
      eff_confirm_route eff_retry_route eff_driver_routes eff_observe_summary eff_raise assms
    split: prod.split)

lemma eff_answer:
  assumes "ac_collaborators c = co" and "driver_obeys R (ac_driver c)" and "fit x"
  shows "obeys R (answer_http c q x)"
proof -
  have "obeys R (error_answer rid e)" for rid e
    by (cases e) (simp_all add: eff_return eff_raise)
  then show ?thesis
    unfolding answer_http_def answer_with_def by (intro eff_catch eff_route assms)
qed

lemma eff_tick_safely: "driver_obeys R (ac_driver c) \<Longrightarrow> obeys R (tick_safely c)"
  unfolding tick_safely_def by (intro eff_catch eff_bind eff_tick eff_return)

lemma eff_traffic: "obeys R (serve_event g cd ev)"
proof -
  have "snd (serve_event g cd ev s) = snd (serve_events g cd [ev] s)"
    for s :: "('h, 'z) app_scheme"
    by (simp add: serve_events_def bindP_def split: prod.split sum.split)
  moreover have "obeys R (serve_events g cd [ev])" by (rule eff_serve_events) (simp add: fine_events_def)
  ultimately show ?thesis by (simp add: obeys_def)
qed

end

section \<open>Runs of the master\<close>

text \<open>What arrives: a worker connects only where the socket admits it.\<close>

definition admitted :: "('k, 'p, 'h, ('h, 'z) app_scheme) app_config \<Rightarrow> hub_event \<Rightarrow> bool" where
  "admitted c ev \<longleftrightarrow> (\<forall>w. ev = Joins w \<longrightarrow> (\<exists>header auth. worker_socket c header auth = Admitted w))"

inductive app_runs ::
  "('k, 'p, 'h, ('h, 'z) app_scheme) app_config \<Rightarrow> ('h, 'z) app_scheme \<Rightarrow> ('h, 'z) app_scheme \<Rightarrow> bool"
  for c s where
  here: "app_runs c s s"
| request: "app_runs c s t \<Longrightarrow> app_runs c s (snd (answer_http c q x t))"
| loop: "app_runs c s t \<Longrightarrow> app_runs c s (snd (tick_safely c t))"
| traffic: "app_runs c s t \<Longrightarrow> admitted c ev \<Longrightarrow> app_runs c s (snd (serve_event (ac_signer c) (ac_codec c) ev t))"

text \<open>A call that ends with a task a proposal has, and what enqueues that task.\<close>

lemma grown_then_adds:
  fixes co :: "('k, 'p, 'h service_scheme) collaborators" and m :: "('h service_scheme, task) prog"
    and rest :: "task \<Rightarrow> (('h, 'z) app_scheme, 'a) prog"
  assumes "\<And>s0. harness_obeys same_records co \<Longrightarrow> triple (works co s0) m (owns co s0 pid) (\<lambda>_. works co s0)"
    and "\<And>t. obeys (adds t) (rest t)"
  shows "obeys (grown co) (bindP (service_call q m) rest)"
proof (rule obeysI)
  fix s :: "('h, 'z) app_scheme"
  obtain r v where m: "m (the_service s) = (r, v)" by (rule prod.exhaust)
  show "grown co s (snd (bindP (service_call q m) rest s))"
  proof (cases r)
    case (Inl e)
    then have "snd (bindP (service_call q m) rest s) = put_service v s"
      by (simp add: bindP_def service_call_def convert_def catchP_def on_service_def zoom_def m)
    moreover have "harness_obeys same_records co \<Longrightarrow> works co (the_service s) v"
      using triple_Inl [OF assms(1) works.effect_refl] m Inl by blast
    ultimately show ?thesis by (simp, intro works_grown) (simp_all add: svc.get_put)
  next
    case (Inr t)
    let ?u = "put_service v s"
    obtain r' w where w: "rest t ?u = (r', w)" by (rule prod.exhaust)
    have eq: "snd (bindP (service_call q m) rest s) = w"
      using w Inr by (simp add: bindP_def service_call_def convert_def catchP_def on_service_def zoom_def m)
    have a: "adds t ?u w" using obeysD [OF assms(2) w] .
    then have vw: "same_records v (the_service w)" by (simp add: adds_def svc.get_put)
    have own: "harness_obeys same_records co \<Longrightarrow> owns co (the_service s) pid t v"
      using triple_Inr [OF assms(1) works.effect_refl] m Inr by blast
    show ?thesis
      unfolding eq
    proof (rule works_grown)
      assume h: "harness_obeys same_records co"
      show "works co (the_service s) (the_service w)"
        using own [OF h] same_works [OF vw] works.effect_trans unfolding owns_def by blast
      fix k
      assume "k \<in> set (dvalues (sc_tasks w))"
      then have "k \<in> set (dvalues (sc_tasks s)) \<or> k = t" using a by (auto simp: adds_def)
      moreover have "owned w t"
        using own [OF h] record_same [OF vw] by (auto simp: owns_def owned_def)
      ultimately show "k \<in> set (dvalues (sc_tasks s)) \<or> owned w k" by blast
    qed
  qed
qed

text \<open>Creation is the one call that needs identifiers to be fresh.\<close>

definition not_creating :: "http_call \<Rightarrow> bool" where
  "not_creating x \<longleftrightarrow> (\<forall>md. x \<noteq> Create md)"

interpretation grown: app_effect "grown co" co not_creating for co :: "('k, 'p, 'h service_scheme) collaborators"
proof unfold_locales
  fix q :: http_request and pid u rid k rq :: string
    and rest :: "task \<Rightarrow> (('h, 'z) app_scheme, (string \<times> json) list) prog"
  assume r: "\<And>t. obeys (adds t) (rest t)"
  show "obeys (grown co) (bindP (service_call q (confirm co pid u rid k rq)) rest)"
    by (rule grown_then_adds [where pid = pid]) (simp_all add: confirm_triple r)
next
  fix q :: http_request and pid u rq :: string
    and rest :: "task \<Rightarrow> (('h, 'z) app_scheme, (string \<times> json) list) prog"
  assume r: "\<And>t. obeys (adds t) (rest t)"
  show "obeys (grown co) (bindP (service_call q (retry_compilation co pid u rq)) rest)"
    by (rule grown_then_adds [where pid = pid]) (simp_all add: retry_triple r)
next
  fix s :: "('h, 'z) app_scheme" and v
  assume "same_records (the_service s) v"
  then show "grown co s (put_service v s)" by (intro same_grown) (simp add: same_app_def svc.get_put)
qed (auto intro!: same_grown service_grown obeys_works reply_triple resume_triple cancel_triple
    simp: same_app_def not_creating_def same_records_def)

text \<open>Creation, where it is let through.\<close>

lemma after_return: "snd (bindP m (\<lambda>x. returnP (f x)) s) = snd (m s)"
  by (simp add: bindP_def split: prod.split sum.split)

lemma after_check: "snd (bindP (checkP ok e) (\<lambda>_. m) s) = (if ok then snd (m s) else s)"
  by (simp add: bindP_def checkP_def)

lemma after_answer: "snd (answer_with q m s) = snd (m s)"
proof -
  have "snd (error_answer i e t) = t" for i e and t :: 'a by (cases e) simp_all
  then show ?thesis by (simp add: answer_with_def catchP_def split: prod.split sum.split)
qed

lemma after_service_call: "snd (service_call q m s) = put_service (snd (m (the_service s))) s"
  by (simp add: service_call_def convert_def catchP_def on_service_def zoom_def split: prod.split sum.split)

lemma create_answer:
  "snd (answer_http c q (Create md) s) = (if valid_markdown_request md \<and> \<not> ap_draining s
     then put_service (snd (create (ac_collaborators c) (username q) md (idempotency_key q) (request_id q)
       (the_service s))) s
     else s)"
proof -
  let ?m = "service_call q (create (ac_collaborators c) (username q) md (idempotency_key q) (request_id q))"
  have "snd (create_proposal c q md s) = (if ap_draining s then s else snd (?m s))"
    unfolding create_proposal_def reject_if_draining_def bindP_assoc [symmetric] after_return
    by (simp add: bindP_def checkP_def)
  then show ?thesis
    unfolding answer_http_def after_answer route.simps valid_call_def json_answer_def
    by (simp add: after_check after_return after_service_call)
qed

lemma create_grown:
  assumes "harness_obeys same_records (ac_collaborators c)"
    and "ids_ahead (draw_no (snd (answer_http c q (Create md) s))) (the_service s)"
  shows "grown (ac_collaborators c) s (snd (answer_http c q (Create md) s))"
proof (cases "valid_markdown_request md \<and> \<not> ap_draining s")
  case True
  let ?m = "create (ac_collaborators c) (username q) md (idempotency_key q) (request_id q)"
  obtain r v where m: "?m (the_service s) = (r, v)" by (rule prod.exhaust)
  have v: "snd (answer_http c q (Create md) s) = put_service v s" using True m by (simp add: create_answer)
  have "draw_no (put_service v s) = draw_no v" using service_world(4) [of "put_service v s"] by (simp add: svc.get_put)
  then have "ids_ahead (draw_no v) (the_service s)" using assms(2) v by simp
  then have "works (ac_collaborators c) (the_service s) v" by (rule create_works [OF assms(1) _ m])
  then show ?thesis unfolding v by (intro works_grown) (simp_all add: svc.get_put)
next
  case False
  then show ?thesis unfolding create_answer by (auto simp: grown.effect_refl)
qed

lemma create_draws:
  assumes "harness_obeys same_records (ac_collaborators c)"
  shows "draw_no s \<le> draw_no (snd (answer_http c q (Create md) s))"
proof -
  have "draws_on (the_service s) (snd (create (ac_collaborators c) (username q) md (idempotency_key q)
      (request_id q) (the_service s)))"
    using create_draws_on [OF assms] unfolding obeys_def by blast
  then have "draw_no s \<le> draw_no (put_service (snd (create (ac_collaborators c) (username q) md (idempotency_key q)
      (request_id q) (the_service s))) s)"
    unfolding draws_on_def by (metis service_world(4) svc.get_put)
  then show ?thesis by (simp add: create_answer)
qed

lemma grown_draws: "grown co s t \<Longrightarrow> harness_obeys same_records co \<Longrightarrow> draw_no s \<le> draw_no t"
  by (simp add: grown_def works_def)

text \<open>Every run, with identifiers of proposals that do not repeat.\<close>

lemma runs_grown:
  assumes h: "harness_obeys same_records (ac_collaborators c)" and d: "driver_obeys (grown (ac_collaborators c)) (ac_driver c)"
    and "ids_ahead k (the_service s)" and "app_runs c s t" and "draw_no t \<le> k"
  shows "grown (ac_collaborators c) s t"
  using assms(4,5)
proof (induction rule: app_runs.induct)
  case here
  show ?case by (rule grown.effect_refl)
next
  case (request t q x)
  let ?u = "snd (answer_http c q x t)"
  have step: "grown (ac_collaborators c) t ?u" if "not_creating x"
    using grown.eff_answer [OF refl d that] unfolding obeys_def by blast
  have "draw_no t \<le> draw_no ?u"
    using grown_draws [OF step h] create_draws [OF h] by (cases x) (auto simp: not_creating_def)
  then have st: "grown (ac_collaborators c) s t" using request by simp
  have "grown (ac_collaborators c) t ?u"
  proof (cases "not_creating x")
    case False
    then obtain md where x: "x = Create md" by (auto simp: not_creating_def)
    have "ids_ahead k (the_service t)"
      using ids_ahead_works [OF assms(3), of "ac_collaborators c" "the_service t"] st h by (simp add: grown_def)
    then have "ids_ahead (draw_no ?u) (the_service t)" using request.prems by (auto simp: ids_ahead_def)
    then show ?thesis using create_grown [OF h] x by simp
  qed (rule step)
  with st show ?case by (rule grown.effect_trans)
next
  case (loop t)
  have "grown (ac_collaborators c) t (snd (tick_safely c t))"
    using grown.eff_tick_safely [OF d] unfolding obeys_def by blast
  moreover from this have "grown (ac_collaborators c) s t"
    using loop.IH loop.prems grown_draws [OF calculation h] by simp
  ultimately show ?case using grown.effect_trans by blast
next
  case (traffic t ev)
  let ?u = "snd (serve_event (ac_signer c) (ac_codec c) ev t)"
  have "grown (ac_collaborators c) t ?u" using grown.eff_traffic unfolding obeys_def by blast
  moreover from this have "grown (ac_collaborators c) s t"
    using traffic.IH traffic.prems grown_draws [OF calculation h] by simp
  ultimately show ?case using grown.effect_trans by blast
qed


end
