(* ===== verification/App_Drain.thy ===== *)
theory App_Drain
  imports App_System
begin

text \<open>
  What the operators' and observers' routes promise: a draining master admits no proposal, the list
  of users that an accepted configuration leaves empty, and the paging of logs.
\<close>

section \<open>A draining master\<close>

text \<open>While the master drains it keeps draining, and no proposal comes into being.\<close>

definition drained ::
  "('k, 'p, 'h service_scheme) collaborators \<Rightarrow> ('h, 'z) app_scheme \<Rightarrow> ('h, 'z) app_scheme \<Rightarrow> bool" where
  "drained co s t \<longleftrightarrow> (harness_obeys same_records co \<longrightarrow> ap_draining s \<longrightarrow>
     ap_draining t \<and> no_newcomer (the_service s) (the_service t))"

lemma same_no_newcomer: "same_records s t \<Longrightarrow> no_newcomer s t"
  by (simp add: no_newcomer_def record_same)

lemma harness_no_newcomer: "harness_obeys same_records co \<Longrightarrow> harness_obeys no_newcomer co"
  unfolding harness_obeys_def obeys_def using same_no_newcomer by blast

text \<open>Steps that leave the records and the flag alone.\<close>

lemma steady_drained: "ap_draining t = ap_draining s \<Longrightarrow> same_records (the_service s) (the_service t) \<Longrightarrow> drained co s t"
  by (simp add: drained_def same_no_newcomer)

interpretation drained: effect "drained co" for co :: "('k, 'p, 'h service_scheme) collaborators"
proof unfold_locales
  fix s t u :: "('h, 'z) app_scheme"
  show "drained co s s" by (simp add: drained_def no_newcomer.effect_refl)
  show "drained co s t \<Longrightarrow> drained co t u \<Longrightarrow> drained co s u"
    unfolding drained_def using no_newcomer.effect_trans by blast
qed

lemma hold_unit_drained:
  fixes co :: "('k, 'p, 'h service_scheme) collaborators"
  shows "obeys (drained co) (hold_unit w rs)"
proof (rule obeysI)
  fix s :: "('h, 'z) app_scheme"
  show "drained co s (snd (hold_unit w rs s))"
    by (cases rule: hold_unit_cases [of w rs s]) (auto intro!: steady_drained simp: same_records_def)
qed

interpretation drained: free_dispatch_effect "drained co" for co :: "('k, 'p, 'h service_scheme) collaborators"
  by unfold_locales
     (auto intro!: steady_drained simp: same_records_def append_line_def hold_unit_drained)

interpretation drained: hub_open "drained co" for co :: "('k, 'p, 'h service_scheme) collaborators"
  by unfold_locales (auto intro!: steady_drained simp: same_records_def append_line_def)

lemma service_drained:
  assumes "harness_obeys same_records co \<Longrightarrow> obeys no_newcomer m"
  shows "obeys (drained co) (on_service m)"
proof (cases "harness_obeys same_records co")
  case True
  show ?thesis
    unfolding on_service_def
    by (rule svc.zoom_obeys [OF assms [OF True]]) (simp add: drained_def svc.get_put)
qed (simp add: obeys_def drained_def)

lemma call_then_adds:
  assumes "harness_obeys same_records co \<Longrightarrow> obeys no_newcomer m" and "\<And>t. obeys (adds t) (rest t)"
  shows "obeys (drained co) (bindP (service_call q m) rest)"
proof (rule drained.eff_bind)
  show "obeys (drained co) (service_call q m)"
    unfolding service_call_def convert_def
    by (intro drained.eff_catch drained.eff_raise service_drained assms(1))
  show "obeys (drained co) (rest t)" for t
    using assms(2) [of t] steady_drained unfolding obeys_def adds_def by blast
qed

lemma rejected_while_draining: "ap_draining s \<Longrightarrow> snd (bindP (reject_if_draining q) f s) = s"
  by (simp add: reject_if_draining_def bindP_def checkP_def)

interpretation drained: app_effect "drained co" co "\<lambda>_. True" for co :: "('k, 'p, 'h service_scheme) collaborators"
proof unfold_locales
  fix q :: http_request and pid u rid k rq :: string
    and rest :: "task \<Rightarrow> (('h, 'z) app_scheme, (string \<times> json) list) prog"
  assume r: "\<And>t. obeys (adds t) (rest t)"
  show "obeys (drained co) (bindP (service_call q (confirm co pid u rid k rq)) rest)"
    by (rule call_then_adds) (simp_all add: no_newcomer.eff_confirm harness_no_newcomer r)
  show "obeys (drained co) (bindP (service_call q (retry_compilation co pid u rq)) rest)"
    by (rule call_then_adds) (simp_all add: no_newcomer.eff_retry r)
next
  fix q :: http_request and u md k rq :: string
  show "obeys (drained co) (bindP (reject_if_draining q) (\<lambda>_. service_call q (create co u md k rq)))"
    by (rule obeysI) (metis drained_def drained.effect_refl rejected_while_draining)
next
  fix s :: "('h, 'z) app_scheme" and v
  assume "same_records (the_service s) v"
  then show "drained co s (put_service v s)" by (intro steady_drained) (simp_all add: svc.get_put)
qed (auto intro!: steady_drained service_drained no_newcomer.eff_reply no_newcomer.eff_resume no_newcomer.eff_cancel
    harness_no_newcomer simp: drained_def same_records_def no_newcomer_def record_of_def)

lemma runs_drained:
  assumes "driver_obeys (drained (ac_collaborators c)) (ac_driver c)" and "app_runs c s t"
  shows "drained (ac_collaborators c) s t"
  using assms(2)
proof (induction rule: app_runs.induct)
  case here
  show ?case by (rule drained.effect_refl)
next
  case (request t q x)
  then show ?case
    using drained.eff_answer [OF refl assms(1), of q x] unfolding obeys_def by (blast intro: drained.effect_trans)
next
  case (loop t)
  then show ?case
    using drained.eff_tick_safely [OF assms(1)] unfolding obeys_def by (blast intro: drained.effect_trans)
next
  case (traffic t ev)
  then show ?case
    using drained.eff_traffic unfolding obeys_def by (blast intro: drained.effect_trans)
qed

text \<open>
  C9. A draining master stays draining and admits no proposal, whatever it is asked and whatever
  arrives from the workers: its proposals are those it had when it began to drain.
\<close>

theorem drained_master_admits_nothing:
  assumes "harness_obeys same_records (ac_collaborators c)"
    and "driver_obeys (drained (ac_collaborators c)) (ac_driver c)" and "ap_draining s" and "app_runs c s t"
  shows "ap_draining t \<and> {pid. record_of (the_service t) pid \<noteq> None} \<subseteq> {pid. record_of (the_service s) pid \<noteq> None}"
  using runs_drained [OF assms(2,4)] assms(1,3) by (auto simp: drained_def no_newcomer_def)

end
