(* ===== verification/App_Queries.thy ===== *)
theory App_Queries
  imports App_System
begin

text \<open>
  What single routes answer: the worker socket, confirmed tasks, pages and tails of logs.
\<close>

section \<open>The worker socket\<close>

text \<open>
  C8. A worker is admitted only with its own key: with an accepted configuration, a connection that
  the socket admits named a configured worker and presented a key of at least 32 characters
  that a file private to the master's user holds for this worker.
\<close>

theorem admitted_worker_holds_key:
  assumes "settings_from_file fs path = Inr (ac_settings c)" and "worker_socket c header auth = Admitted w"
  shows "st_worker_mode (ac_settings c) = ''remote'' \<and> header = Some w \<and> w \<in> set (st_allowed_worker_ids (ac_settings c)) \<and>
    (\<exists>k. (w, k) \<in> set (st_worker_api_keys (ac_settings c)) \<and> private_key fs k \<and> auth = Some (''Bearer '' @ k))"
proof -
  note safe = accepted_settings_facts [OF assms(1)]
  obtain k where m: "st_worker_mode (ac_settings c) \<noteq> ''fake''" and a: "auth = Some (''Bearer '' @ k)"
    and w: "w = (case header of None \<Rightarrow> [] | Some w \<Rightarrow> w)" and k: "worker_key c w = Some k"
    using assms(2) by (auto simp: worker_socket_def Let_def split: if_splits option.splits)
  have "st_worker_api_keys (ac_settings c) \<noteq> [] \<or> st_allowed_worker_ids (ac_settings c) = []" using safe(7) by auto
  then have "map_of (rev (st_worker_api_keys (ac_settings c))) w = Some k"
    using k by (auto simp: worker_key_def Let_def split: option.splits if_splits)
  then have wk: "(w, k) \<in> set (st_worker_api_keys (ac_settings c))" by (auto dest: map_of_SomeD)
  then have "w \<noteq> []" "private_key fs k" using safe(8) by blast+
  moreover have "w \<in> set (st_allowed_worker_ids (ac_settings c))" using wk safe(7) by force
  ultimately show ?thesis using m a w wk safe(4) by (auto split: option.splits)
qed

section \<open>Confirmed tasks\<close>

text \<open>What \<open>enqueue\<close> leaves when it returns: the scheduler knows the task.\<close>

definition known_task :: "string \<Rightarrow> 'z sched_scheme \<Rightarrow> bool" where
  "known_task i s \<longleftrightarrow> map_of (sc_statuses s) i \<noteq> None"

lemma known_task_simps [simp]:
  "known_task i (s\<lparr>sc_statuses := x\<rparr>) \<longleftrightarrow> map_of x i \<noteq> None"
  by (simp add: known_task_def)

interpretation known: world_effect "keeps (known_task i)" for i
  by unfold_locales (auto simp: keeps_def known_task_def append_line_def)

lemma enqueue_known:
  assumes "enqueue g t rq s = (Inr st, u)"
  shows "known_task (tsk_task_id t) u"
proof -
  let ?K = "known_task (tsk_task_id t)" and ?any = "\<lambda>_ _. True"
  have "triple (\<lambda>_. True) (enqueue g t rq) (\<lambda>_. ?K) ?any"
    unfolding enqueue_def Let_def
  proof (rule triple_bind [where R = "\<lambda>k v. k \<longrightarrow> ?K v"], rule triple_read, simp add: known_task_def, rule triple_if, goal_cases)
    case (1 known)
    then show ?case by (simp add: triple_def getP_def split: option.split)
  next
    case (2 known)
    show ?case
      unfolding persist_status_def task_event_def
      by (rule triple_bind [OF triple_any],
          rule triple_bind [OF triple_any], rule triple_bind [OF triple_any],
          rule triple_bind [where R = "\<lambda>_. ?K"], rule triple_update,
          simp add: known_task_def update_conv', rule triple_keeps_any)
         (intro known.eff_store keeps.eff_when)
  qed
  then show ?thesis using triple_Inr assms by fastforce
qed


section \<open>Logs\<close>

text \<open>The file a client gets that asks for chunk after chunk until one is empty.\<close>

function read_pages :: "string \<Rightarrow> nat \<Rightarrow> nat \<Rightarrow> string" where
  "read_pages data limit offset =
     (case read_chunk data offset limit of (chunk, next) \<Rightarrow>
        if chunk = [] then [] else chunk @ read_pages data limit next)"
  by auto
termination
  by (relation "measure (\<lambda>(data, limit, offset). length data - offset)")
     (auto simp: read_chunk_def Let_def)

lemma read_pages_rest: "0 < limit \<Longrightarrow> read_pages data limit offset = drop offset data"
proof (induction data limit offset rule: read_pages.induct)
  case (1 data limit offset)
  let ?chunk = "take limit (drop offset data)"
  have "read_pages data limit offset =
      (if ?chunk = [] then [] else ?chunk @ drop (offset + length ?chunk) data)"
    using 1 by (simp add: read_chunk_def Let_def del: read_pages.simps) (simp add: read_pages.simps read_chunk_def Let_def)
  also have "\<dots> = drop offset data"
    using 1(2) append_take_drop_id [of limit "drop offset data"]
    by (auto simp: min_def add.commute)
  finally show ?case .
qed

text \<open>
  The tail of a log. For a log of complete lines the source counts the separators between the lines
  but not the one at the end, so it starts a byte late.
\<close>

definition text_of :: "string list \<Rightarrow> string" where
  "text_of ls = concat (map (\<lambda>l. l @ [CHR 0x0A]) ls)"

definition plain_line :: "string \<Rightarrow> bool" where
  "plain_line l \<longleftrightarrow> CHR 0x0A \<notin> set l \<and> CHR 0x0D \<notin> set l"

lemma byte_lines_line:
  "plain_line l \<Longrightarrow> byte_lines acc (l @ CHR 0x0A # s) = (acc @ l) # byte_lines [] s"
  by (induction l arbitrary: acc) (auto simp: plain_line_def)

lemma byte_lines_text: "list_all plain_line ls \<Longrightarrow> byte_lines [] (text_of ls) = ls"
  by (induction ls) (simp_all add: text_of_def byte_lines_line)

lemma length_join_text: "ls \<noteq> [] \<Longrightarrow> Suc (length (join [CHR 0x0A] ls)) = length (text_of ls)"
proof (induction ls)
  case (Cons l ls)
  then show ?case by (cases ls) (simp_all add: text_of_def)
qed simp

lemma text_of_append: "text_of (a @ b) = text_of a @ text_of b"
  by (simp add: text_of_def)

text \<open>
  The tail of a log loses its first character: for a log of complete lines, the last \<open>n\<close>
  lines as the observer's route shows them lack the first character of the first line.
\<close>

theorem tail_starts_late:
  assumes "list_all plain_line ls" and "0 < n" and "ls \<noteq> []"
  shows "drop (tail_start n (text_of ls)) (text_of ls) = tl (text_of (drop (length ls - n) ls))"
proof -
  let ?last = "drop (length ls - n) ls" and ?first = "take (length ls - n) ls"
  have "0 < length ls" using assms(3) by auto
  then have "length ls - n < length ls" using diff_less [OF assms(2)] by blast
  then have ne: "?last \<noteq> []" by (simp add: not_le)
  have split: "text_of ls = text_of ?first @ text_of ?last" by (simp flip: text_of_append)
  have "tail_start n (text_of ls) = length (text_of ls) - length (join [CHR 0x0A] ?last)"
    by (simp add: tail_start_def byte_lines_text [OF assms(1)] Let_def)
  also have "length (text_of ls) = length (text_of ?first) + length (text_of ?last)"
    using arg_cong [OF split, of length] by simp
  finally have "tail_start n (text_of ls) = Suc (length (text_of ?first))"
    using length_join_text [OF ne] by linarith
  then show ?thesis by (subst (2) split) (simp add: drop_Suc tl_drop)
qed

theorem tail_starts_late_witness:
  "drop (tail_start 1 (text_of [''a'', ''bc''])) (text_of [''a'', ''bc'']) = [CHR ''c'', CHR 0x0A]"
  using tail_starts_late [of "[''a'', ''bc'']" 1] by (simp add: plain_line_def text_of_def)

end
