(* ===== verification/Link_Samples.thy ===== *)
theory Link_Samples
  imports Worker_Link Worker_Samples
begin

text \<open>
  A worker's client and a master's hub with working disks, on which the theorems about the link
  between them are applied to concrete runs.
\<close>

section \<open>Both sides\<close>

lemma no_faults_fun: "no_faults = (\<lambda>_. IO_ok)"
  by (rule ext) (simp add: no_faults_def)

definition sample_codec :: codec where
  "sample_codec = \<lparr>cd_manifest_json = (\<lambda>m. JStr (man_manifest_id m)), cd_manifest_of = (\<lambda>_. Inr (sample_manifest 2)),
     cd_worker_json = (\<lambda>w. JStr (wkr_worker_id w)), cd_worker_of = (\<lambda>_. Inr (sample_worker ''w''))\<rparr>"

definition sample_config :: "(string, string, client) client_config" where
  "sample_config = \<lparr>cc_signer = toy_signer, cc_codec = sample_codec, cc_resolve = id, cc_control = None\<rparr>"

lemma sample_control: "control_obeys R sample_config"
  by (simp add: control_obeys_def sample_config_def)

text \<open>The worker of the sample plan, with the plan and the task in its ground truth.\<close>

definition sample_client :: client where
  "sample_client =
     \<lparr>clock = (\<lambda>n. 0), clock_no = 0, draws = (\<lambda>n. (int n, 0, 0)), draw_no = 0, faults = no_faults,
      fault_no = 0, store_root = ''/state'',
      immutable = [((''plans'', json_name (sample_id ''plan'')), O_plan (sample_plan 2)),
        ((''plans'', sample_id ''plan'' @ ''.canonical.json''), O_bytes (sample_id ''plan'')),
        ((''tasks'', json_name (sample_id ''task'')), O_task worker_task),
        ((''tasks'', sample_id ''task'' @ ''.canonical.json''), O_bytes (sample_id ''task''))],
      snapshots = [], logs = [],
      dk_calls = [], dk_daemon = sample_daemon, dk_repr = (\<lambda>_. []),
      wd_key_id = ''k'', wd_worker_id = ''w'', wd_prepared = [(sample_id ''assign'', sample_manifest 2)],
      wd_plans = [(sample_id ''assign'', sample_plan 2)],
      wd_epochs = [(gpu_resource 0, 2), (container_resource the_container, 2)],
      wd_owner = [(gpu_resource 0, sample_id ''assign''), (container_resource the_container, sample_id ''assign'')],
      wd_state_file = None, wd_inbox = [], wd_evidence = [], wd_files = (\<lambda>_. {}),
      wd_mono = (\<lambda>_. 0), wd_mono_no = 0, wd_short = (\<lambda>_. 0), wd_iso = (\<lambda>_. []),
      wc_send_sequence = 0, wc_seen_sequence = 0, wc_responses = [], wc_state_file = None,
      wc_response_files = [], wc_background = [], wc_sent = [], wc_wire = (\<lambda>_. True), wc_wire_no = 0\<rparr>"

definition ping :: "int \<Rightarrow> envelope" where
  "ping n = \<lparr>env_message_id = sample_id ''msg'', env_sequence = n, env_message_type = ''PING'',
     env_assignment_id = None, env_dispatch_generation = None, env_lease_epoch = None, env_payload = []\<rparr>"

definition sample_hub :: hub where
  "sample_hub =
     \<lparr>clock = (\<lambda>n. 0), clock_no = 0, draws = (\<lambda>n. (int n, 0, 0)), draw_no = 0, faults = no_faults,
      fault_no = 0, store_root = ''/state'', immutable = [], snapshots = [], logs = [],
      sc_key_id = ''k'', sc_vram_threshold = 1, sc_authorized_gpu_ids = {0}, sc_qualification_profile = False,
      sc_workers = [], sc_queue = [], sc_leases = [], sc_holds = {}, sc_epochs = Map.empty, sc_tasks = [],
      sc_statuses = [], sc_initial_statuses = [], sc_plans = [], sc_cancel_requested = {},
      hb_connections = [''w''], hb_pending = [], hb_sequence = [], hb_receive_sequence = [], hb_last_snapshot = [],
      hb_loop = True, hb_sent = [], hb_wire = (\<lambda>_. True), hb_wire_no = 0, hb_traffic = (\<lambda>_ _. []), hb_traffic_no = 0,
      hb_inbox = (\<lambda>_ _. None), hb_inbox_no = 0, rd_worker_id = None, rd_assignment_workers = []\<rparr>"

lemma sample_client_at: "client_at 0 0 [] [] sample_client"
  by (simp add: client_at_def sample_client_def no_faults_fun)

section \<open>The theorems on concrete runs\<close>

lemma ping_accepted:
  "client_at n m [] xs s \<Longrightarrow> accept_message (Envelope (ping (m + 1))) s = (Inr (Some (ping (m + 1))), accepted (ping (m + 1)) s)"
  by (subst accept_ok, assumption) (simp_all add: ping_def send_cached_def bindP_apply client_at_def accepted_def)


text \<open>The first heartbeat is lost, the second one arrives.\<close>

definition flaky_client :: client where
  "flaky_client = sample_client\<lparr>wc_wire := \<lambda>n. n \<noteq> 0\<rparr>"

definition beat_lost :: client where
  "beat_lost = snd (heartbeat sample_codec (Inr []) flaky_client)"

definition beat_again :: client where
  "beat_again = snd (perform sample_config (Beat (Inr [])) beat_lost)"

theorem lost_heartbeat_ends_link_witness:
  "counter (hb_receive_sequence (snd (serve_events toy_signer sample_codec
     (map (\<lambda>e. Sends ''w'' (Envelope e)) (drop (length (wc_sent beat_lost)) (wc_sent beat_again))) sample_hub))) ''w'' = 0"
proof -
  have z: "wc_send_sequence flaky_client = 0" by (simp add: flaky_client_def sample_client_def)
  have "fst (heartbeat sample_codec (Inr []) flaky_client) = Inl ConnectionClosed"
    by (simp add: heartbeat_def bindP_apply utc_now_def Let_def make_envelope_def persist_protocol_state_def atomic_file_ok
        msg_id checkP_def send_def flaky_client_def sample_client_def no_faults_fun valid_envelope_def msg_id_valid opt_ok_def)
  then have "heartbeat sample_codec (Inr []) flaky_client = (Inl ConnectionClosed, beat_lost)"
    unfolding beat_lost_def by (metis prod.collapse)
  moreover have "dvalues (wc_responses flaky_client) = []" "dvalues (wc_response_files flaky_client) = []"
    by (simp_all add: flaky_client_def sample_client_def dvalues_def)
  moreover have "client_reaches sample_config beat_lost beat_again"
    unfolding beat_again_def by (rule client_reaches.act [OF client_reaches.here])
  moreover have "counter (hb_receive_sequence sample_hub) ''w'' = wc_send_sequence flaky_client"
    by (simp add: z sample_hub_def counter_def)
  ultimately have "counter (hb_receive_sequence (snd (serve_events toy_signer sample_codec
     (map (\<lambda>e. Sends ''w'' (Envelope e)) (drop (length (wc_sent beat_lost)) (wc_sent beat_again))) sample_hub))) ''w''
       = wc_send_sequence flaky_client"
    by (intro lost_heartbeat_ends_link [where c = sample_config and w = "''w''"]) (auto simp: sample_control)
  then show ?thesis by (simp add: z)
qed

text \<open>A request of the hub, answered by the client.\<close>

definition ping_request :: envelope where
  "ping_request = request_message ''w'' ''PING'' [] (sample_id ''assign'') 1 2 sample_hub"

definition answered_hub :: hub where
  "answered_hub = sample_hub\<lparr>hb_traffic := \<lambda>_ _. map (\<lambda>r. Sends ''w'' (Envelope r))
     (drop 0 (wc_sent (snd (turn sample_config ping_request sample_client))))\<rparr>"

lemma sample_ids:
  "valid_id (sample_id ''assign'')" "valid_id (sample_id ''plan'')" "valid_id (sample_id ''unit'')"
  by (simp_all add: sample_id_def valid_id_def is_lower_def is_digit_def is_hex_def less_eq_char_def list_all_iff)

lemma answered_hub_at: "hub_at toy_signer ''w'' 0 0 [] [] answered_hub"
proof -
  have "worker_object_id toy_signer ''w'' = ''worker_'' @ replicate 32 (CHR ''a'')"
    by (simp add: worker_object_id_def toy_signer_def toy_crypto_def numeral_eq_Suc)
  moreover have "valid_id (''worker_'' @ replicate 32 (CHR ''a''))"
    by (simp add: valid_id_def is_lower_def is_digit_def is_hex_def less_eq_char_def list_all_iff)
  ultimately show ?thesis
    by (simp add: hub_at_def answered_hub_def sample_hub_def no_faults_fun counter_def stream_def)
qed

theorem request_is_answered_witness:
  "\<exists>r h. request toy_signer sample_codec ''w'' ''PING'' [] (sample_id ''assign'') 1 2 30 answered_hub = (Inr r, h) \<and>
     map_of (env_payload r) ''error'' = Some (JStr ''UNKNOWN_MESSAGE_TYPE'')"
proof -
  have f: "envelope_fields (Some (sample_id ''assign'')) (Some 1) (Some 2)"
    by (simp add: envelope_fields_def opt_ok_def sample_ids)
  have e: "ping_request = request_message ''w'' ''PING'' [] (sample_id ''assign'') 1 2 answered_hub"
    by (simp add: ping_request_def request_message_def drawn_msg_def answered_hub_def)
  have a: "fst (command_payload sample_config ping_request (accepted ping_request sample_client))
      = Inr [(''accepted'', JBool False), (''error'', JStr ''UNKNOWN_MESSAGE_TYPE'')]"
    by (simp add: command_payload_def ping_request_def request_message_def Let_def)
  have t: "hb_traffic answered_hub (hb_traffic_no answered_hub) 30 =
      map (\<lambda>r. Sends ''w'' (Envelope r)) (drop (length []) (wc_sent (snd (turn sample_config ping_request sample_client))))"
    by (simp add: answered_hub_def)
  from request_is_answered [OF answered_hub_at sample_client_at f _ e a sample_control t, of sample_codec] show ?thesis
    by (auto simp: dupdate_lookup)
qed

text \<open>The plan of the sample worker, executed on command.\<close>

definition execute_command :: envelope where
  "execute_command = \<lparr>env_message_id = sample_id ''msg'', env_sequence = 1, env_message_type = ''EXECUTE'',
     env_assignment_id = Some (sample_id ''assign''), env_dispatch_generation = Some 1, env_lease_epoch = Some 2,
     env_payload =
       [(''plan_id'', JStr (sample_id ''plan'')),
        (''plan_content_hash'', JStr (replicate 64 (CHR ''a''))),
        (''plan_path'', JStr (immutable_path ''/state'' ''plans'' (json_name (sample_id ''plan'')))),
        (''plan_canonical_path'', JStr (immutable_path ''/state'' ''plans'' (sample_id ''plan'' @ ''.canonical.json''))),
        (''task_id'', JStr (sample_id ''task'')),
        (''task_content_hash'', JStr (replicate 64 (CHR ''a''))),
        (''task_path'', JStr (immutable_path ''/state'' ''tasks'' (json_name (sample_id ''task'')))),
        (''task_canonical_path'', JStr (immutable_path ''/state'' ''tasks'' (sample_id ''task'' @ ''.canonical.json'')))]\<rparr>"

lemma sample_hashes:
  "pln_content_hash (sample_plan 2) = Some (replicate 64 (CHR ''a''))"
  "tsk_content_hash worker_task = Some (replicate 64 (CHR ''a''))"
  "pln_plan_id (sample_plan 2) = sample_id ''plan''" "pln_dispatch_generation (sample_plan 2) = 1"
  by (simp_all add: sample_plan_def worker_task_def sample_task_def sign_model_def Let_def task_integrity_def
      plan_integrity_def toy_crypto_def del: replicate.simps)

lemma toy_signature_valid: "valid_signature (b64encode (ed_sign toy_crypto k m))"
  using toy_crypto_ok by (intro b64encode_64) (simp add: crypto_ok_def)

lemma toy_hash_valid: "valid_sha256 (replicate 64 (CHR ''a''))"
  by (simp add: valid_sha256_def is_hex_def is_digit_def less_eq_char_def list_all_iff)

lemma sample_plan_valid: "valid_plan (sample_plan 2)"
proof -
  have "pln_signature (sample_plan 2) = Some (b64encode (ed_sign toy_crypto ''key'' (sample_id ''plan'')))"
    by (simp add: sample_plan_def sign_model_def Let_def plan_integrity_def)
  moreover have "pln_execution_id (sample_plan 2) = sample_id ''exec''" "pln_task_id (sample_plan 2) = sample_id ''task''"
    "pln_image_digest (sample_plan 2) = sample_image" "pln_task_content_hash (sample_plan 2) = replicate 64 (CHR ''a'')"
    by (simp_all add: sample_plan_def sign_model_def Let_def plan_integrity_def sample_hashes(2) del: replicate.simps)
  ultimately show ?thesis
    using sample_ids sample_id_valid sample_image_valid toy_signature_valid toy_hash_valid
    by (simp add: valid_plan_def sample_hashes opt_ok_def valid_gpu_ids_def del: replicate.simps)
qed

lemma sample_task_valid: "valid_task worker_task"
proof -
  have "valid_unit worker_unit"
    using sample_ids sample_image_valid sample_command_valid
    by (simp add: valid_unit_def worker_unit_def sample_unit_def)
  moreover have "tsk_signature worker_task = Some (b64encode (ed_sign toy_crypto ''key'' (sample_id ''task'')))"
    by (simp add: worker_task_def sample_task_def sign_model_def Let_def task_integrity_def)
  moreover have "tsk_policy_version worker_task = ''1''" "tsk_proposal_id worker_task = sample_id ''prop''"
    "tsk_revision_id worker_task = sample_id ''rev''" "tsk_facts_id worker_task = sample_id ''facts''"
    "tsk_review_id worker_task = sample_id ''review''"
    by (simp_all add: worker_task_def sample_task_def sign_model_def Let_def task_integrity_def)
  ultimately show ?thesis
    using sample_id_valid toy_signature_valid toy_hash_valid
    by (simp add: valid_task_def validate_task_def sample_hashes opt_ok_def py_len_def del: replicate.simps)
qed

lemma sample_fetched:
  "fetch_plan toy_signer id execute_command sample_client = (Inr (sample_plan 2), sample_client)"
  "fetch_task toy_signer id execute_command sample_client = (Inr worker_task, sample_client)"
  by (simp_all add: fetch_plan_def fetch_task_def reference_def ground_truth_def bindP_apply checkP_def execute_command_def
      text_field_def jget_def sample_client_def sample_hashes validated_def sample_plan_valid sample_task_valid
      check_fencing_def toy_signer_def json_name_def del: replicate.simps)

text \<open>No earlier run is recorded, so the command runs the plan.\<close>

lemma sample_handled:
  "\<exists>r s. handle sample_config execute_command sample_client = (r, s) \<and> (\<exists>d \<in> set (new_calls sample_client s). start_call d)"
proof -
  have "sample_env sample_client" "dk_calls sample_client = []" "registered (sample_plan 2) sample_client"
    by (simp_all add: sample_env_def sample_client_def registered_def is_current_plan_def manifest_resources_def
        gpu_resource_def container_resource_def)
  then obtain res s1 where run: "worker_execute toy_signer (sample_plan 2) worker_task sample_client = (Inr res, s1)"
    and start: "\<exists>d \<in> set (new_calls sample_client s1). start_call d"
    using planned_execute by blast
  have "completed_execution (sample_plan 2) worker_task sample_client = (Inr None, sample_client)"
    by (simp add: completed_execution_def bindP_apply sample_client_def)
  moreover have "env_message_type execute_command = ''EXECUTE''" by (simp add: execute_command_def)
  ultimately have p: "command_payload sample_config execute_command sample_client = (Inr (result_payload res), s1)"
    using run sample_fetched
    by (simp add: command_payload_def with_plan_def execute_payload_def bindP_apply sample_config_def Let_def)
  let ?m = "make_envelope (env_message_type execute_command @ ''_RESULT'')
      (AList.update ''reply_to'' (JStr (env_message_id execute_command)) (result_payload res))
      (env_assignment_id execute_command) (env_dispatch_generation execute_command) (env_lease_epoch execute_command)"
  obtain r s2 where m: "?m s1 = (r, s2)" by (rule prod.exhaust)
  have "handle sample_config execute_command sample_client = (r, s2)"
    unfolding handle_def bindP_apply p sum.case prod.case m ..
  moreover have "new_calls sample_client s2 = new_calls sample_client s1"
    by (rule new_calls_same(3)) (rule obeysD [OF make_envelope_driver m])
  ultimately show ?thesis using start by auto
qed

theorem command_starts_only_its_plan_witness:
  "\<exists>p. map_of (immutable sample_client) (''plans'', json_name (pln_plan_id p)) = Some (O_plan p) \<and>
     fenced_by execute_command p \<and> registered p sample_client"
proof -
  obtain r s d where "handle sample_config execute_command sample_client = (r, s)"
    and "d \<in> set (new_calls sample_client s)" "start_call d" using sample_handled by blast
  from command_starts_only_its_plan [OF this sample_control] show ?thesis by blast
qed

end
