(* ===== verification/App_Samples.thy ===== *)
theory App_Samples
  imports App_Drain App_Queries Proposal_Samples Link_Samples
begin

text \<open>
  A master with the fake harness and the remote driver, on which the theorems about its runs are
  applied: a proposal is created, confirmed and scheduled over HTTP, then the master drains.
\<close>

section \<open>The master\<close>

definition sample_views :: views where
  "sample_views = \<lparr>vw_proposal = (\<lambda>_. JNull), vw_review = (\<lambda>_. JNull), vw_facts = (\<lambda>_. JNull), vw_event = (\<lambda>_. JNull),
     vw_task = (\<lambda>_. JNull), vw_status = (\<lambda>_. JNull), vw_lease = (\<lambda>_. JNull), vw_plan = (\<lambda>_. JNull),
     vw_worker = (\<lambda>_. JNull), vw_gpu = (\<lambda>_. JNull), vw_unit = (\<lambda>_. [])\<rparr>"

definition sample_master :: "(unit fake_service_ext) app" where
  "sample_master =
     \<lparr>clock = (\<lambda>n. int n), clock_no = 0, draws = (\<lambda>n. (int n, 0, 0)), draw_no = 0, faults = (\<lambda>_. IO_ok),
      fault_no = 0, store_root = ''/state'', immutable = [], snapshots = [], logs = [],
      sc_key_id = ''k'', sc_vram_threshold = 1, sc_authorized_gpu_ids = {0}, sc_qualification_profile = False,
      sc_workers = [], sc_queue = [], sc_leases = [], sc_holds = {}, sc_epochs = Map.empty, sc_tasks = [],
      sc_statuses = [], sc_initial_statuses = [], sc_plans = [], sc_cancel_requested = {},
      hb_connections = [], hb_pending = [], hb_sequence = [], hb_receive_sequence = [], hb_last_snapshot = [],
      hb_loop = True, hb_sent = [], hb_wire = (\<lambda>_. True), hb_wire_no = 0, hb_traffic = (\<lambda>_ _. []), hb_traffic_no = 0,
      hb_inbox = (\<lambda>_ _. None), hb_inbox_no = 0, rd_worker_id = None, rd_assignment_workers = [],
      ap_service = new_service [], ap_draining = False, ap_integrity_cache = None, ap_container_cache = None,
      ap_log_index_cache = [], ap_monotonic = (\<lambda>_. 0), ap_monotonic_no = 0,
      ap_inspections = (\<lambda>_. Inl (DockerError ''no daemon'')), ap_inspection_no = 0, ap_files = (\<lambda>_ _. None),
      ap_trees = (\<lambda>_ _. []), ap_look_no = 0\<rparr>"

abbreviation sample_app ::
  "(string, string, unit fake_service_ext, (unit fake_service_ext) app) app_config" where
  "sample_app \<equiv> \<lparr>ac_settings = open_settings, ac_signer = toy_signer, ac_key_id = ''k'',
     ac_worker_api_key = sample_key, ac_driver = remote_driver toy_signer sample_codec,
     ac_collaborators = toy, ac_codec = sample_codec, ac_views = sample_views, ac_resolve = id, ac_decode = id\<rparr>"

lemma sample_master_service: "the_service sample_master = new_service []"
  by (simp add: the_service_def sample_master_def new_service_def world.defs)

section \<open>How many identifiers an operation draws\<close>

definition costs :: "nat \<Rightarrow> ('z world_scheme, 'a) prog \<Rightarrow> bool" where
  "costs n m \<longleftrightarrow> (\<forall>s. draw_no (snd (m s)) \<le> draw_no s + n)"

lemma costs_bind:
  assumes "costs a m" and "\<And>x. costs b (f x)" and "a + b \<le> n"
  shows "costs n (bindP m f)"
  unfolding costs_def
proof
  fix s
  obtain r t where m: "m s = (r, t)" by (rule prod.exhaust)
  have t: "draw_no t \<le> draw_no s + a" using assms(1) m unfolding costs_def by (metis snd_conv)
  show "draw_no (snd (bindP m f s)) \<le> draw_no s + n"
  proof (cases r)
    case (Inr x)
    have "draw_no (snd (f x t)) \<le> draw_no t + b" using assms(2) unfolding costs_def by blast
    then show ?thesis using t Inr m assms(3) by (simp add: bindP_def)
  qed (use t m assms(3) in \<open>simp add: bindP_def\<close>)
qed

lemma costs_more: "costs a m \<Longrightarrow> a \<le> n \<Longrightarrow> costs n m"
  unfolding costs_def by (meson add_left_mono le_trans)

lemma costs_steps:
  "costs 0 (returnP x)" "costs 0 (raiseP e)" "costs 0 (readP f)" "costs 0 (checkP b e)" "costs 0 utc_now"
  "costs 1 (fresh_id p)" "costs 0 (file_op (\<lambda>s. s\<lparr>immutable := g s\<rparr>))" "costs 0 (file_op (\<lambda>s. s\<lparr>snapshots := d s\<rparr>))"
  by (simp_all add: costs_def checkP_def utc_now_def fresh_id_def file_op_def next_fault_def bindP_def
      split: prod.split sum.split io_fault.split)

lemma costs_files: "costs 0 (write_immutable ty i d)" "costs 0 (write_snapshot ty i d)"
  unfolding write_immutable_def write_immutable_file_def write_snapshot_def
  by (auto intro!: costs_bind [OF costs_steps(3)] costs_steps)

lemma costs_read: "costs 0 (read_immutable ty i)"
  by (simp add: costs_def read_immutable_def Let_def)

lemma costs_when: "costs n m \<Longrightarrow> costs n (whenP b m)"
  by (cases b) (simp_all add: whenP_def costs_def)

lemma costs_append: "costs 1 (append_event ty i et a rq pl)"
proof -
  have n: "costs 0 (next_sequence ty i)" by (simp add: costs_def next_sequence_state)
  have "costs 0 (bindP next_fault (\<lambda>x. case x of
            IO_ok \<Rightarrow> bindP (updateP (append_line k l)) (\<lambda>_. returnP v)
          | IO_before \<Rightarrow> raiseP (OSError ''open failed'')
          | IO_partial \<Rightarrow> bindP (updateP (append_line k Partial_line)) (\<lambda>_. raiseP (OSError ''partial event append''))
          | IO_after \<Rightarrow> bindP (updateP (append_line k l)) (\<lambda>_. raiseP (OSError ''fsync failed''))))"
    for k l and v :: event
    by (simp add: costs_def bindP_def next_fault_def append_line_def split: io_fault.split)
  then show ?thesis
    unfolding append_event_def Let_def
    by (intro costs_bind [OF n] costs_bind [OF costs_steps(6)] costs_bind [OF costs_steps(5)]
          costs_bind [OF costs_steps(4)]) auto
qed

lemma enqueue_costs: "costs 3 (enqueue g t rq :: ('z sched_scheme, task_status) prog)"
proof -
  have status: "costs 1 (persist_status st)" for st :: task_status
    unfolding persist_status_def
    by (rule costs_bind [OF costs_steps(6), where b = 0], rule costs_bind [OF costs_files(1) costs_files(2)]) simp_all
  have update: "costs 0 (updateP (\<lambda>s. s\<lparr>sc_tasks := a s, sc_statuses := b s, sc_initial_statuses := c s, sc_queue := d s\<rparr>)
      :: ('z sched_scheme, unit) prog)" for a b c d
    by (simp add: costs_def)
  have persist: "costs 0 (persist_task_if_needed t :: ('z sched_scheme, unit) prog)"
    unfolding persist_task_if_needed_def immutable_exists_def
    by (rule costs_bind [OF costs_steps(3)])
       (auto intro!: costs_files costs_read costs_bind [of 0 _ 0] costs_steps split: obj.split)
  have verify: "costs 0 (verify_task g t :: ('z sched_scheme, unit) prog)"
    unfolding verify_task_def by (rule costs_bind [OF costs_steps(3) costs_steps(4)]) simp
  have profile: "costs 1 (whenP p (bindP (task_event t et a rq pl) (\<lambda>_. returnP ())) :: ('z sched_scheme, unit) prog)"
    for p et a pl
    unfolding task_event_def by (rule costs_when, rule costs_bind [OF costs_append costs_steps(1)]) simp
  have known: "costs 3 (getP sc_initial_statuses i :: ('z sched_scheme, task_status) prog)" for i
    by (simp add: costs_def getP_def)
  show ?thesis
    unfolding enqueue_def Let_def
    by (rule costs_bind [OF costs_steps(3), where b = 3], split if_split, intro conjI impI known,
        rule costs_bind [OF verify, where b = 3], rule costs_bind [OF persist, where b = 3],
        rule costs_bind [OF costs_steps(5), where b = 3], rule costs_bind [OF update, where b = 3],
        rule costs_bind [OF status, where b = 2], unfold task_event_def, rule costs_bind [OF costs_append, where b = 1],
        rule costs_bind [OF costs_steps(3), where b = 1], rule costs_bind [OF profile [unfolded task_event_def] costs_steps(1)])
       simp_all
qed

section \<open>A task that is scheduled\<close>

interpretation listed: world_effect "keeps (\<lambda>s. map_of (sc_tasks s) i = Some k)" for i k
  by unfold_locales (auto simp: keeps_def append_line_def)

lemma enqueue_lists:
  assumes "map_of (sc_statuses s) (tsk_task_id k) = None" and "tsk_key_id k = sc_key_id s"
    and "verify_model (sg_crypto g) (task_integrity (sg_task_dump g)) (sg_verification_key g) k"
    and "map_of (immutable s) (''tasks'', json_name (tsk_task_id k)) = Some (O_task k)"
  shows "map_of (sc_tasks (snd (enqueue g k rq s))) (tsk_task_id k) = Some k"
proof -
  let ?P = "\<lambda>u. map_of (sc_tasks u) (tsk_task_id k) = Some k"
  have "triple (\<lambda>v. v = s) (enqueue g k rq) (\<lambda>_. ?P) (\<lambda>_. ?P)"
    unfolding enqueue_def Let_def persist_status_def task_event_def
  proof (rule triple_bind [where R = "\<lambda>b v. \<not> b \<and> v = s"], rule triple_read, simp add: assms(1), rule triple_if, goal_cases)
    case (1 known)
    then show ?case by (simp add: triple_def)
  next
    case (2 known)
    have v: "triple (\<lambda>v. \<not> known \<and> v = s) (verify_task g k) (\<lambda>_ v. v = s) (\<lambda>_. ?P)"
      using assms(2,3) by (simp add: triple_def verify_task_def bindP_def checkP_def)
    have p: "triple (\<lambda>v. v = s) (persist_task_if_needed k) (\<lambda>_ v. v = s) (\<lambda>_. ?P)"
      using assms(4) by (simp add: triple_def persist_task_if_needed_def bindP_def checkP_def immutable_exists_def
          read_immutable_def read_object_def Let_def)
    show ?case
      by (rule triple_bind [OF v], rule triple_bind [OF p], rule triple_bind [where R = "\<lambda>_ _. True"],
          simp add: triple_def utc_now_def, rule triple_bind [where R = "\<lambda>_. ?P"], rule triple_update,
          simp add: update_conv', rule triple_keeps)
         (intro listed.eff_store keeps.eff_when)
  qed
  then show ?thesis
    unfolding triple_def by (cases "enqueue g k rq s") (auto split: sum.splits)
qed

definition create_request :: http_request where
  "create_request = \<lparr>hr_request_id = Some ''r1'', hr_uuid = ''u1'', hr_username = Some user,
     hr_idempotency_key = Some ''k1'', hr_details = JNull\<rparr>"

definition confirm_request :: http_request where
  "confirm_request = \<lparr>hr_request_id = Some ''r2'', hr_uuid = ''u2'', hr_username = Some user,
     hr_idempotency_key = Some ''k2'', hr_details = JNull\<rparr>"

definition created_master :: "(unit fake_service_ext) app" where
  "created_master = snd (answer_http sample_app create_request (Create good_proposal) sample_master)"

definition scheduled_master :: "(unit fake_service_ext) app" where
  "scheduled_master = snd (answer_http sample_app confirm_request (Confirm first_pid (drawn_id ''rev'' (Suc 0))) created_master)"

lemma created_master: "created_master = put_service (created_service []) sample_master"
proof -
  have "valid_markdown_request good_proposal" using sample_py_len sample_py_len_le by (simp add: valid_markdown_request_def)
  then show ?thesis
    by (simp add: created_master_def create_answer sample_master_service create_request_def username_def
        idempotency_key_def request_id_def create_runs) (simp add: sample_master_def)
qed

lemma confirm_call:
  "service_call confirm_request (confirm toy first_pid user (drawn_id ''rev'' (Suc 0)) ''k2'' ''r2'') created_master
     = (Inr first_task, put_service confirmed_service created_master)"
  by (simp add: service_call_def convert_def catchP_def on_service_def zoom_def created_master svc.get_put confirmed(7))

lemma after_convert: "snd (convert x y m s) = snd (m s)"
  by (simp add: convert_def catchP_def split: prod.split sum.split)

lemma confirm_fields: "username confirm_request = user" "idempotency_key confirm_request = ''k2''"
  "request_id confirm_request = ''r2''"
  by (simp_all add: confirm_request_def username_def idempotency_key_def request_id_def)

lemma scheduled_master:
  "scheduled_master = snd (enqueue toy_signer first_task ''r2'' (put_service confirmed_service created_master))"
proof -
  have "\<not> ap_draining created_master" unfolding created_master by (simp add: sample_master_def)
  then have "snd (bindP (reject_if_draining confirm_request) f created_master) = snd (f () created_master)"
    for f :: "unit \<Rightarrow> ((unit fake_service_ext) app, (string \<times> json) list) prog"
    by (simp add: reject_if_draining_def bindP_def checkP_def)
  moreover have "snd (bindP (service_call confirm_request (confirm toy first_pid user (drawn_id ''rev'' (Suc 0)) ''k2'' ''r2'')) f created_master)
      = snd (f first_task (put_service confirmed_service created_master))"
    for f :: "task \<Rightarrow> ((unit fake_service_ext) app, (string \<times> json) list) prog"
    by (simp add: bindP_def confirm_call)
  ultimately show ?thesis
    by (simp add: scheduled_master_def answer_http_def after_answer json_answer_def after_return confirm_proposal_def
        confirm_fields after_convert)
qed

section \<open>The theorems on this run\<close>

lemma put_service_world [simp]:
  "clock (put_service v s) = clock v" "clock_no (put_service v s) = clock_no v" "draws (put_service v s) = draws v"
  "draw_no (put_service v s) = draw_no v" "immutable (put_service v s) = immutable v"
  "snapshots (put_service v s) = snapshots v" "logs (put_service v s) = logs v" "faults (put_service v s) = faults v"
  "fault_no (put_service v s) = fault_no v"
  using service_world [of "put_service v s"] by (simp_all add: svc.get_put)

lemma put_service_sched [simp]:
  "sc_key_id (put_service v s) = sc_key_id s"
  "sc_qualification_profile (put_service v s) = sc_qualification_profile s"
  by (cases s; simp add: put_service_def world.defs)+

lemma first_task_verifies:
  "tsk_key_id first_task = ''k''" "verify_model toy_crypto (task_integrity tsk_task_id) ''key'' first_task"
proof -
  have "public_key toy_crypto ''key'' = ''key''" by (simp add: toy_crypto_def)
  with signed_task.verify_signed [OF toy_crypto_ok] show "verify_model toy_crypto (task_integrity tsk_task_id) ''key'' first_task"
    unfolding first_task_def by metis
qed (simp add: first_task_def sign_model_def task_integrity_def Let_def unsigned_task_def first_context_def)

lemma toy_signer_sel [simp]: "sg_crypto toy_signer = toy_crypto" "sg_task_dump toy_signer = tsk_task_id"
  "sg_verification_key toy_signer = ''key''"
  by (simp_all add: toy_signer_def)

lemma created_scheduler [simp]:
  "sc_statuses created_master = []" "sc_key_id created_master = ''k''" "sc_qualification_profile created_master = False"
  by (simp_all add: created_master) (simp_all add: sample_master_def put_service_def world.defs)

lemma scheduled_status:
  "\<exists>st u. enqueue toy_signer first_task ''r2'' (put_service confirmed_service created_master) = (Inr st, u)"
proof -
  obtain e where e: "map_of (logs confirmed_service) (''tasks'', drawn_id ''task'' 9) = Some [Event_line e]"
    "valid_event e" "evt_object_type e = ''tasks''" "evt_object_id e = drawn_id ''task'' 9" "evt_sequence e = 1"
    using confirmed(5) by blast
  show ?thesis
    unfolding enqueue_def verify_task_def persist_task_if_needed_def
    by (simp add: run_rules file_rules read_immutable_def read_object_def first_task_verifies confirmed Let_def
      persist_status_def drawn_ids is_lower_def less_eq_char_def write_immutable_def write_snapshot_def task_event_def
      append_event_run append_line_def one_stream e event_ok ids_ok)
qed

lemma sample_settings: "remote_driver toy_signer sample_codec = ac_driver sample_app" by simp

lemma sample_runs: "app_runs sample_app sample_master created_master" "app_runs sample_app sample_master scheduled_master"
proof -
  show a: "app_runs sample_app sample_master created_master"
    unfolding created_master_def by (rule app_runs.request [OF app_runs.here])
  show "app_runs sample_app sample_master scheduled_master"
    unfolding scheduled_master_def by (rule app_runs.request [OF a])
qed

lemma scheduled_facts:
  "map_of (sc_tasks scheduled_master) (drawn_id ''task'' 9) = Some first_task" "draw_no scheduled_master \<le> 20"
proof -
  show "map_of (sc_tasks scheduled_master) (drawn_id ''task'' 9) = Some first_task"
    using enqueue_lists [of "put_service confirmed_service created_master" first_task toy_signer "''r2''"]
    by (simp add: scheduled_master first_task_verifies confirmed)
  show "draw_no scheduled_master \<le> 20"
    using spec [OF enqueue_costs [unfolded costs_def], of toy_signer first_task "''r2''"
        "put_service confirmed_service created_master"]
    by (simp add: scheduled_master confirmed)
qed



definition draining_master :: "(unit fake_service_ext) app" where
  "draining_master = created_master\<lparr>ap_draining := True\<rparr>"

theorem drained_master_admits_nothing_witness:
  "record_of (the_service (snd (answer_http sample_app create_request (Create good_proposal) draining_master)))
     (drawn_id ''prop'' 1) = None"
proof -
  let ?t = "snd (answer_http sample_app create_request (Create good_proposal) draining_master)"
  have "the_service draining_master = created_service []"
    unfolding draining_master_def created_master
    by (cases "created_service []") (simp add: the_service_def put_service_def sample_master_def world.defs)
  then have n: "record_of (the_service draining_master) (drawn_id ''prop'' 1) = None"
    using prefix_neq [of 1 0 "''prop''"] by (simp add: created_service_def record_of_def)
  have "harness_obeys same_records (ac_collaborators sample_app)"
    "driver_obeys (drained (ac_collaborators sample_app)) (ac_driver sample_app)" "ap_draining draining_master"
    by (simp_all add: toy_service_obeys drained.remote_driver_obeys draining_master_def)
  from drained_master_admits_nothing [OF this app_runs.request [OF app_runs.here]]
  have "{pid. record_of (the_service ?t) pid \<noteq> None} \<subseteq> {pid. record_of (the_service draining_master) pid \<noteq> None}"
    by blast
  then show ?thesis using n by blast
qed

lemma sample_key_ascii: "ascii_text sample_key" "ascii_text (''Bearer '' @ sample_key)"
  by code_simp+

theorem admitted_worker_holds_key_witness:
  "worker_socket sample_app (Some ''w'') (Some (''Bearer '' @ sample_key)) = Admitted ''w'' \<and>
   (\<exists>k. (''w'', k) \<in> set (st_worker_api_keys open_settings) \<and> private_key sample_files k)"
proof -
  have "worker_socket sample_app (Some ''w'') (Some (''Bearer '' @ sample_key)) = Admitted ''w''"
    by (simp add: worker_socket_def worker_key_def open_settings_def Let_def sample_key_ascii sample_key_ascii(2) [simplified])
  with admitted_worker_holds_key [of sample_files "''/open''" sample_app, OF _ this] open_settings_accepted
  show ?thesis by auto
qed

end
