(* ===== verification/Retention.thy ===== *)
theory Retention
  imports Prelude
begin

text \<open>
  The retention of framework logs, \<open>src/agent_scheduler/storage/retention.py\<close>: one pass over the
  directory in descending order of the paths, so that a directory comes after what it holds.
  A tree maps paths relative to the log directory to files with their time of change and
  to directories; what the operating system refuses is an argument.
\<close>

section \<open>Trees of logs\<close>

datatype log_entry = Log_dir | Log_file rat

type_synonym log_tree = "(string list, log_entry) dict"

definition below :: "string list \<Rightarrow> string list \<Rightarrow> bool" where
  "below p q \<longleftrightarrow> length p < length q \<and> take (length p) q = p"

section \<open>The pass\<close>

text \<open>\<open>refused p\<close>: the operating system refuses to remove \<open>p\<close>. For a file that ends the pass.\<close>

fun prune_paths ::
  "(string list \<Rightarrow> bool) \<Rightarrow> rat \<Rightarrow> string list list \<Rightarrow> log_tree \<Rightarrow> nat \<Rightarrow> (exn + nat) \<times> log_tree" where
  "prune_paths refused cutoff [] t removed = (Inr removed, t)"
| "prune_paths refused cutoff (p # ps) t removed =
     (case map_of t p of
        Some (Log_file m) \<Rightarrow>
          if m < cutoff
          then (if refused p then (Inl (OSError ''unlink failed''), t)
                else prune_paths refused cutoff ps (AList.delete p t) (Suc removed))
          else prune_paths refused cutoff ps t removed
      | Some Log_dir \<Rightarrow>
          prune_paths refused cutoff ps
            (if refused p \<or> list_ex (\<lambda>(q, _). below p q) t then t else AList.delete p t) removed
      | None \<Rightarrow> prune_paths refused cutoff ps t removed)"

definition prune_framework_logs ::
  "(string list \<Rightarrow> bool) \<Rightarrow> rat \<Rightarrow> rat \<Rightarrow> log_tree option \<Rightarrow> (exn + nat) \<times> log_tree option" where
  "prune_framework_logs refused now days tree = (case tree of
      None \<Rightarrow> (Inr 0, None)
    | Some t \<Rightarrow>
        (case prune_paths refused (now - days * 24 * 3600) (rev (sort (map fst t))) t 0 of
           (r, u) \<Rightarrow> (r, Some u)))"

section \<open>What remains\<close>

text \<open>The entry of a path after the pass: young files, and the directories that hold one.\<close>

definition kept_file :: "rat \<Rightarrow> log_tree \<Rightarrow> string list \<Rightarrow> bool" where
  "kept_file cutoff t p \<longleftrightarrow> (\<exists>m. map_of t p = Some (Log_file m) \<and> cutoff \<le> m)"

definition retained :: "rat \<Rightarrow> log_tree \<Rightarrow> string list \<Rightarrow> log_entry option" where
  "retained cutoff t p =
     (if kept_file cutoff t p then map_of t p
      else if map_of t p = Some Log_dir \<and> (\<exists>q. below p q \<and> kept_file cutoff t q) then Some Log_dir
      else None)"

definition old_files :: "rat \<Rightarrow> log_tree \<Rightarrow> string list set" where
  "old_files cutoff t = {p. \<exists>m. map_of t p = Some (Log_file m) \<and> m < cutoff}"

lemma below_trans: "below p q \<Longrightarrow> below q r \<Longrightarrow> below p r"
  unfolding below_def by (metis less_trans min.strict_order_iff take_take)

lemma below_less: "below p q \<Longrightarrow> p < q"
proof -
  assume b: "below p q"
  then obtain r where "q = p @ r" "r \<noteq> []"
    unfolding below_def by (metis append_Nil2 append_take_drop_id less_irrefl)
  then show "p < q" by (induction p arbitrary: q) (auto simp: neq_Nil_conv)
qed

text \<open>In the middle of the pass: the paths done have their final entry, the others are untouched.\<close>

definition half_done :: "rat \<Rightarrow> log_tree \<Rightarrow> string list list \<Rightarrow> log_tree \<Rightarrow> bool" where
  "half_done cutoff t todo u \<longleftrightarrow>
     (\<forall>p. map_of u p = (if p \<in> set todo then map_of t p else retained cutoff t p))"

lemma in_tree: "map_of t p = Some e \<Longrightarrow> p \<in> set (map fst t)"
  by (force dest: map_of_SomeD)

lemma directory_empty_iff:
  assumes "half_done cutoff t (p # ps) u" and "sorted (rev (p # ps))"
  shows "list_ex (\<lambda>(q, _). below p q) u \<longleftrightarrow> (\<exists>q. below p q \<and> kept_file cutoff t q)"
proof -
  have final: "map_of u q = retained cutoff t q" if "below p q" for q
  proof -
    have "q \<notin> set (p # ps)" using assms(2) below_less [OF that] by (auto simp: sorted_append)
    then show ?thesis using assms(1) by (simp add: half_done_def)
  qed
  have "list_ex (\<lambda>(q, _). below p q) u \<longleftrightarrow> (\<exists>q. below p q \<and> map_of u q \<noteq> None)"
    by (force simp: list_ex_iff map_of_eq_None_iff)
  also have "\<dots> \<longleftrightarrow> (\<exists>q. below p q \<and> retained cutoff t q \<noteq> None)" using final by auto
  also have "\<dots> \<longleftrightarrow> (\<exists>q. below p q \<and> kept_file cutoff t q)"
    unfolding retained_def by (auto simp: kept_file_def intro: below_trans split: if_splits)
  finally show ?thesis .
qed

lemma half_doneI:
  assumes "half_done cutoff t (p # ps) u" and "p \<notin> set ps" and "map_of v p = retained cutoff t p"
    and "\<And>q. q \<noteq> p \<Longrightarrow> map_of v q = map_of u q"
  shows "half_done cutoff t ps v"
  unfolding half_done_def
proof
  fix q
  show "map_of v q = (if q \<in> set ps then map_of t q else retained cutoff t q)"
    using assms by (cases "q = p") (simp_all add: half_done_def)
qed

lemma prune_paths_ok:
  assumes "half_done cutoff t ps u" and "sorted (rev ps)" and "distinct ps" and "\<And>p. \<not> refused p"
  shows "\<exists>v. prune_paths refused cutoff ps u n = (Inr (n + card (old_files cutoff t \<inter> set ps)), v) \<and>
           half_done cutoff t [] v"
  using assms(1-3)
proof (induction ps arbitrary: u n)
  case Nil
  then show ?case by simp
next
  case (Cons p ps)
  have p: "map_of u p = map_of t p" using Cons.prems(1) by (simp add: half_done_def)
  have s: "sorted (rev ps)" "distinct ps" "p \<notin> set ps" using Cons.prems(2,3) by (simp_all add: sorted_append)
  note next_tree = half_doneI [OF Cons.prems(1) s(3)]
  show ?case
  proof (cases "p \<in> old_files cutoff t")
    case True
    then obtain m where m: "map_of t p = Some (Log_file m)" "m < cutoff" by (auto simp: old_files_def)
    have "half_done cutoff t ps (AList.delete p u)"
      by (rule next_tree) (use m in \<open>auto simp: delete_conv' retained_def kept_file_def\<close>)
    from Cons.IH [OF this s(1,2), of "Suc n"] show ?thesis using m p s(3) True assms(4) by simp
  next
    case False
    then have old: "old_files cutoff t \<inter> set (p # ps) = old_files cutoff t \<inter> set ps" by auto
    show ?thesis
    proof (cases "map_of t p")
      case None
      have "half_done cutoff t ps u" by (rule next_tree) (use None p in \<open>auto simp: retained_def kept_file_def\<close>)
      from Cons.IH [OF this s(1,2)] show ?thesis using None p unfolding old by simp
    next
      case (Some e)
      show ?thesis
      proof (cases e)
        case (Log_file m)
        then have m: "\<not> m < cutoff" using False Some by (auto simp: old_files_def)
        have "half_done cutoff t ps u"
          by (rule next_tree) (use Some Log_file m p in \<open>auto simp: retained_def kept_file_def\<close>)
        from Cons.IH [OF this s(1,2)] show ?thesis using Some Log_file m p unfolding old by simp
      next
        case Log_dir
        let ?v = "if list_ex (\<lambda>(q, _). below p q) u then u else AList.delete p u"
        note kept = directory_empty_iff [OF Cons.prems(1,2)]
        have "half_done cutoff t ps ?v"
          by (rule next_tree) (use Some Log_dir p kept in \<open>auto simp: retained_def kept_file_def delete_conv'\<close>)
        from Cons.IH [OF this s(1,2)] show ?thesis using Some Log_dir p assms(4) unfolding old by simp
      qed
    qed
  qed
qed

text \<open>
  Retention removes exactly the old: when the operating system refuses nothing, the pass reports the number of
  files older than the cutoff; what remains is every younger file, unchanged, and of the
  directories those that hold a younger file somewhere below.
\<close>

theorem retention_exact:
  assumes "distinct (map fst t)" and "\<And>p. \<not> refused p"
  shows "\<exists>u. prune_framework_logs refused now days (Some t) =
      (Inr (card (old_files (now - days * 24 * 3600) t)), Some u) \<and>
    map_of u = retained (now - days * 24 * 3600) t"
proof -
  let ?cutoff = "now - days * 24 * 3600" and ?ps = "rev (sort (map fst t))"
  have start: "half_done ?cutoff t ?ps t"
    by (auto simp: half_done_def retained_def kept_file_def map_of_eq_None_iff dest: in_tree)
  have all: "old_files ?cutoff t \<inter> set ?ps = old_files ?cutoff t"
    by (auto simp: old_files_def dest: in_tree)
  obtain v where v: "prune_paths refused ?cutoff ?ps t 0 = (Inr (card (old_files ?cutoff t)), v)"
    "half_done ?cutoff t [] v"
    using prune_paths_ok [where refused = refused and n = 0, OF start _ _ assms(2)] assms(1) unfolding all by auto
  then show ?thesis by (auto simp: prune_framework_logs_def half_done_def)
qed

definition sample_tree :: log_tree where
  "sample_tree = [([''a''], Log_dir), ([''a'', ''x''], Log_file 0), ([''b''], Log_dir), ([''b'', ''y''], Log_file 9)]"

theorem retention_exact_witness:
  "\<exists>u. prune_framework_logs (\<lambda>_. False) 5 0 (Some sample_tree) = (Inr 1, Some u) \<and>
     map_of u [''a''] = None \<and> map_of u [''b''] = Some Log_dir"
proof -
  have "old_files 5 sample_tree = {[''a'', ''x'']}"
    by (auto simp: old_files_def sample_tree_def split: if_splits)
  moreover have "retained 5 sample_tree [''a''] = None"
    by (auto simp: retained_def kept_file_def sample_tree_def below_def split: if_splits)
  moreover have "kept_file 5 sample_tree [''b'', ''y'']" "below [''b''] [''b'', ''y'']"
    by (simp_all add: kept_file_def sample_tree_def below_def)
  then have "retained 5 sample_tree [''b''] = Some Log_dir"
    by (auto simp: retained_def) (simp_all add: sample_tree_def)
  ultimately show ?thesis
    using retention_exact [of sample_tree "\<lambda>_. False" 5 0] by (auto simp: sample_tree_def)
qed

end
