(* ===== verification/Kit_Verifier.thy ===== *)
theory Kit_Verifier
  imports Configuration
begin

text \<open>
  The verifier of an unpacked client kit,
  \<open>packages/client/src/agent_scheduler_client/kit_verifier.py\<close>: it accepts a directory when its
  files are exactly those that the checksum file lists, with their digests, and when its wheels are
  those of the manifest and leave the server's package and each other's packages alone.
  SHA-256, the reading of archives and of mail headers and Unicode's lower case are arguments
  (\<open>kit_tools\<close>). All failures are \<open>ValueError\<close>. A regular file can be read.
\<close>

section \<open>Directories and archives\<close>

text \<open>
  The entries below the root by their relative path, as \<open>lstat\<close> shows them; \<open>Kit_hidden\<close> is
  one it fails on, \<open>Kit_special\<close> a link, a socket or a device.
\<close>

datatype kit_entry = Kit_dir | Kit_file string | Kit_special | Kit_hidden

type_synonym kit = "(string, kit_entry) dict"

datatype kit_root = Root_missing | Root_not_directory | Root_dir kit

text \<open>A member of a wheel: its name, \<open>external_attr >> 16\<close> and its bytes, where they can be read.\<close>

record wheel_member =
  wm_name :: string
  wm_mode :: nat
  wm_data :: "string option"

record kit_tools =
  kt_sha256 :: "string \<Rightarrow> string"
  kt_archive :: "string \<Rightarrow> wheel_member list option"
  kt_utf8 :: "string \<Rightarrow> bool"
  kt_headers :: "string \<Rightarrow> (string, string) dict"
  kt_lower :: "string \<Rightarrow> string"

definition refuse :: "string \<Rightarrow> exn + 'a" where
  "refuse message = Inl (ValueError message)"

definition demand :: "bool \<Rightarrow> string \<Rightarrow> exn + unit" where
  "demand b message = checkE b (ValueError message)"

lemma refuse_Inr [simp]: "refuse m \<noteq> Inr x"
  by (simp add: refuse_def)

lemma demand_Inr [simp]: "demand b m = Inr u \<longleftrightarrow> b"
  by (simp add: demand_def)

section \<open>Paths\<close>

text \<open>\<open>PurePosixPath\<close>: empty and \<open>.\<close> components vanish.\<close>

definition posix_parts :: "string \<Rightarrow> string list" where
  "posix_parts p = filter (\<lambda>c. c \<noteq> [] \<and> c \<noteq> ''.'') (split_at_char CHR ''/'' p)"

definition as_posix :: "string \<Rightarrow> string" where
  "as_posix p = (if posix_parts p = [] then ''.'' else join ''/'' (posix_parts p))"

definition safe_relative :: "json \<Rightarrow> string \<Rightarrow> exn + string" where
  "safe_relative v description = (case v of
      JStr p \<Rightarrow>
        if p = [] \<or> CHR 0x5C \<in> set p
        then refuse (description @ '' must be a non-empty POSIX relative path'')
        else if starts_with ''/'' p \<or> ''..'' \<in> set (posix_parts p) \<or> ''.'' \<in> set (posix_parts p)
        then refuse (description @ '' is unsafe: '' @ p)
        else Inr (as_posix p)
    | _ \<Rightarrow> refuse (description @ '' must be a non-empty POSIX relative path''))"

definition wheel_member_parts :: "string \<Rightarrow> exn + string list" where
  "wheel_member_parts name =
     (if name = [] \<or> CHR 0x5C \<in> set name then refuse (''unsafe wheel member path: '' @ name)
      else if starts_with ''/'' name \<or> ''..'' \<in> set (posix_parts name)
      then refuse (''unsafe wheel member path: '' @ name)
      else Inr (posix_parts name))"

section \<open>Files and checksums\<close>

fun walk_files :: "kit \<Rightarrow> exn + string list" where
  "walk_files [] = Inr []"
| "walk_files ((p, Kit_dir) # k) = walk_files k"
| "walk_files ((p, Kit_file b) # k) = bindE (walk_files k) (\<lambda>fs. Inr (p # fs))"
| "walk_files ((p, Kit_special) # k) =
     refuse (''Client Kit entries must be regular files or directories; symlink or special entry: '' @ p)"
| "walk_files ((p, Kit_hidden) # k) = refuse (''Client Kit entry is unreadable: '' @ p)"

fun regular_files :: "kit_root \<Rightarrow> exn + string list" where
  "regular_files Root_missing = refuse ''Client Kit root is missing or unreadable''"
| "regular_files Root_not_directory = refuse ''Client Kit root must be a regular directory''"
| "regular_files (Root_dir k) = walk_files k"

text \<open>\<open>str.partition(''  '')\<close>.\<close>

fun cut_two_spaces :: "string \<Rightarrow> (string \<times> string) option" where
  "cut_two_spaces [] = None"
| "cut_two_spaces (c # s) =
     (if c = CHR '' '' \<and> take 1 s = '' '' then Some ([], drop 1 s)
      else map_option (\<lambda>(a, b). (c # a, b)) (cut_two_spaces s))"

text \<open>\<open>splitlines\<close> of an ASCII text that was read with universal newlines.\<close>

fun ascii_lines :: "string \<Rightarrow> string \<Rightarrow> string list" where
  "ascii_lines acc [] = (if acc = [] then [] else [acc])"
| "ascii_lines acc (c # s) =
     (if c = CHR 0x0D then acc # ascii_lines [] (if take 1 s = [CHR 0x0A] then drop 1 s else s)
      else if c \<in> {CHR 0x0A, CHR 0x0B, CHR 0x0C, CHR 0x1C, CHR 0x1D, CHR 0x1E} then acc # ascii_lines [] s
      else ascii_lines (acc @ [c]) s)"

fun read_hash_lines :: "(string, string) dict \<Rightarrow> string list \<Rightarrow> exn + (string, string) dict" where
  "read_hash_lines hashes [] = Inr hashes"
| "read_hash_lines hashes (l # ls) = (case cut_two_spaces l of
      None \<Rightarrow> refuse (''malformed SHA256SUMS line: '' @ l)
    | Some (digest, raw) \<Rightarrow>
        if length digest \<noteq> 64 \<or> \<not> list_all is_hex digest then refuse (''malformed SHA256SUMS line: '' @ l)
        else bindE (safe_relative (JStr raw) ''checksum path'') (\<lambda>relative.
          if relative = ''SHA256SUMS'' \<or> map_of hashes relative \<noteq> None
          then refuse (''duplicate or recursive checksum path: '' @ relative)
          else read_hash_lines (hashes @ [(relative, digest)]) ls))"

definition read_hashes :: "kit \<Rightarrow> exn + (string, string) dict" where
  "read_hashes k = (case map_of k ''SHA256SUMS'' of
      Some (Kit_file text) \<Rightarrow>
        if \<not> list_all (\<lambda>c. byte c < 128) text then refuse ''SHA256SUMS is missing or unreadable''
        else bindE (read_hash_lines [] (ascii_lines [] text)) (\<lambda>hashes.
          bindE (demand (hashes \<noteq> []) ''SHA256SUMS must contain at least one file'') (\<lambda>_. Inr hashes))
    | _ \<Rightarrow> refuse ''SHA256SUMS is missing or unreadable'')"

definition read_manifest :: "kit_tools \<Rightarrow> kit \<Rightarrow> exn + (string \<times> json) list" where
  "read_manifest t k = (case map_of k ''MANIFEST.json'' of
      Some (Kit_file text) \<Rightarrow>
        if \<not> kt_utf8 t text then refuse ''MANIFEST.json is missing or invalid''
        else (case json_loads text of
            Some (JObj d) \<Rightarrow> Inr d
          | Some _ \<Rightarrow> refuse ''MANIFEST.json must contain a JSON object''
          | None \<Rightarrow> refuse ''MANIFEST.json is missing or invalid'')
    | _ \<Rightarrow> refuse ''MANIFEST.json is missing or invalid'')"

section \<open>Distribution names\<close>

text \<open>\<open>replace(''--'', ''-'')\<close>, until there is none.\<close>

fun squeeze :: "string \<Rightarrow> string" where
  "squeeze (a # b # s) =
     (if a = CHR ''-'' \<and> b = CHR ''-'' then CHR ''-'' # squeeze s else a # squeeze (b # s))"
| "squeeze s = s"

lemma length_squeeze: "length (squeeze s) \<le> length s"
  by (induction s rule: squeeze.induct) auto

lemma squeeze_shorter: "contains ''--'' s \<Longrightarrow> length (squeeze s) < length s"
proof (induction s rule: squeeze.induct)
  case (1 a b s)
  then show ?case using length_squeeze [of s] by (auto simp: starts_with_def)
qed (auto simp: starts_with_def)

function single_dashes :: "string \<Rightarrow> string" where
  "single_dashes s = (if contains ''--'' s then single_dashes (squeeze s) else s)"
  by auto
termination
  by (relation "measure length") (auto dest: squeeze_shorter)

declare single_dashes.simps [simp del]

definition normalized_distribution :: "kit_tools \<Rightarrow> string \<Rightarrow> string" where
  "normalized_distribution t v =
     single_dashes (map (\<lambda>c. if c = CHR ''_'' \<or> c = CHR ''.'' then CHR ''-'' else c) (kt_lower t v))"

section \<open>Wheels\<close>

definition client_distribution :: string where
  "client_distribution = ''agent-gpu-task-scheduler-client''"

definition client_package :: string where "client_package = ''agent_scheduler_client''"

definition server_package :: string where "server_package = ''agent_scheduler''"

text \<open>\<open>S_IFMT\<close>, without its twelve low zero bits: 4 is a directory, 8 a regular file, 10 a link.\<close>

definition file_type :: "nat \<Rightarrow> nat" where
  "file_type mode = mode div 4096 mod 16"

definition kit_archive :: "kit_tools \<Rightarrow> kit \<Rightarrow> string \<Rightarrow> wheel_member list option" where
  "kit_archive t k relative =
     (case map_of k relative of Some (Kit_file b) \<Rightarrow> kt_archive t b | _ \<Rightarrow> None)"

fun inspect_members :: "string \<Rightarrow> wheel_member list \<Rightarrow> exn + string set" where
  "inspect_members relative [] = Inr {}"
| "inspect_members relative (m # ms) =
     bindE (wheel_member_parts (wm_name m)) (\<lambda>parts.
     if file_type (wm_mode m) = 10
     then refuse (''wheel contains a symlink member: '' @ relative @ ''!'' @ wm_name m)
     else if file_type (wm_mode m) \<notin> {0, 8, 4}
     then refuse (''wheel member is not a regular file or directory: '' @ relative @ ''!'' @ wm_name m)
     else if take 1 parts = [server_package]
     then refuse (''wheel contains the server package: '' @ relative)
     else bindE (inspect_members relative ms) (\<lambda>top. Inr (set (take 1 parts) \<union> top)))"

definition inspect_wheel_members :: "kit_tools \<Rightarrow> kit \<Rightarrow> string \<Rightarrow> exn + string set" where
  "inspect_wheel_members t k relative = (case kit_archive t k relative of
      None \<Rightarrow> refuse (''invalid wheel archive: '' @ relative)
    | Some ms \<Rightarrow> inspect_members relative ms)"

definition wheel_identity :: "kit_tools \<Rightarrow> kit \<Rightarrow> string \<Rightarrow> exn + string \<times> string" where
  "wheel_identity t k relative = (case kit_archive t k relative of
      None \<Rightarrow> refuse (''manifest wheel is invalid: '' @ relative)
    | Some ms \<Rightarrow>
        (case filter (\<lambda>m. ends_with ''.dist-info/METADATA'' (wm_name m)) ms of
           [m] \<Rightarrow>
             (case wm_data m of
                None \<Rightarrow> refuse (''manifest wheel is invalid: '' @ relative)
              | Some b \<Rightarrow>
                  if \<not> kt_utf8 t b then refuse (''manifest wheel is invalid: '' @ relative)
                  else (case (map_of (kt_headers t b) ''Name'', map_of (kt_headers t b) ''Version'') of
                      (Some n, Some v) \<Rightarrow>
                        if n \<noteq> [] \<and> v \<noteq> [] then Inr (normalized_distribution t n, v)
                        else refuse (''wheel metadata is missing Name or Version: '' @ relative)
                    | _ \<Rightarrow> refuse (''wheel metadata is missing Name or Version: '' @ relative)))
         | _ \<Rightarrow> refuse (''wheel must contain exactly one dist-info METADATA: '' @ relative)))"

section \<open>The manifest\<close>

definition nonempty_string :: "json \<Rightarrow> bool" where
  "nonempty_string v = (case v of JStr s \<Rightarrow> s \<noteq> [] | _ \<Rightarrow> False)"

fun json_string :: "json \<Rightarrow> string" where
  "json_string (JStr s) = s"
| "json_string _ = []"

definition dependency_keys :: "string set" where
  "dependency_keys = {''distribution'', ''version'', ''wheel''}"

text \<open>One entry of the dependencies, with the wheels and distributions before it.\<close>

definition manifest_dependency ::
  "kit_tools \<Rightarrow> kit \<Rightarrow> string set \<Rightarrow> string set \<Rightarrow> json \<Rightarrow> exn + string \<times> string" where
  "manifest_dependency t k wheels distributions v = (case v of
      JObj d \<Rightarrow>
        bindE (demand (set (map fst d) = dependency_keys) ''manifest dependency keys do not match the schema'') (\<lambda>_.
        bindE (demand (nonempty_string (jget d ''distribution''))
                 ''manifest dependency distribution must be a non-empty string'') (\<lambda>_.
        let distribution = json_string (jget d ''distribution''); normal = normalized_distribution t distribution in
        bindE (demand (distribution = normal)
                 (''manifest dependency distribution is not normalized: '' @ distribution)) (\<lambda>_.
        bindE (demand (normal \<notin> distributions)
                 (''duplicate manifest dependency distribution: '' @ distribution)) (\<lambda>_.
        bindE (demand (normal \<noteq> normalized_distribution t client_distribution)
                 (''dependency wheel distribution collides with the client distribution: '' @ distribution)) (\<lambda>_.
        bindE (demand (nonempty_string (jget d ''version''))
                 ''manifest dependency version must be a non-empty string'') (\<lambda>_.
        bindE (safe_relative (jget d ''wheel'') ''manifest dependency wheel'') (\<lambda>wheel.
        bindE (inspect_wheel_members t k wheel) (\<lambda>members.
        bindE (demand (client_package \<notin> members)
                 (''dependency wheel contains the client package: '' @ wheel)) (\<lambda>_.
        bindE (wheel_identity t k wheel) (\<lambda>identity.
        bindE (demand (identity = (normal, json_string (jget d ''version'')))
                 (''manifest dependency does not match wheel metadata: '' @ distribution)) (\<lambda>_.
        bindE (demand (wheel \<notin> wheels) (''manifest wheel path collision: '' @ wheel)) (\<lambda>_.
        Inr (wheel, normal)))))))))))))
    | _ \<Rightarrow> refuse ''manifest dependency entries must be objects'')"

fun manifest_dependencies ::
  "kit_tools \<Rightarrow> kit \<Rightarrow> string set \<Rightarrow> string set \<Rightarrow> json list \<Rightarrow> exn + string set" where
  "manifest_dependencies t k wheels distributions [] = Inr wheels"
| "manifest_dependencies t k wheels distributions (v # vs) =
     bindE (manifest_dependency t k wheels distributions v) (\<lambda>(wheel, normal).
     manifest_dependencies t k (insert wheel wheels) (insert normal distributions) vs)"

definition manifest_client :: "kit_tools \<Rightarrow> kit \<Rightarrow> string \<Rightarrow> json \<Rightarrow> exn + string" where
  "manifest_client t k kit_version v = (case v of
      JObj d \<Rightarrow>
        bindE (demand (set (map fst d) = {''distribution'', ''version'', ''wheel'', ''python_requires''})
                 ''manifest client keys do not match the schema'') (\<lambda>_.
        bindE (demand (jget d ''distribution'' = JStr client_distribution)
                 ''manifest client distribution is invalid'') (\<lambda>_.
        bindE (demand (jget d ''python_requires'' = JStr ''>=3.10'') ''manifest client python_requires is invalid'') (\<lambda>_.
        bindE (demand (jget d ''version'' = JStr kit_version) ''manifest client version must equal kit_version'') (\<lambda>_.
        bindE (safe_relative (jget d ''wheel'') ''manifest client wheel'') (\<lambda>wheel.
        bindE (inspect_wheel_members t k wheel) (\<lambda>members.
        bindE (demand (client_package \<in> members) ''client wheel is missing the agent_scheduler_client package'') (\<lambda>_.
        bindE (wheel_identity t k wheel) (\<lambda>identity.
        bindE (demand (identity = (client_distribution, kit_version))
                 ''manifest client distribution/version does not match wheel metadata'') (\<lambda>_.
        Inr wheel)))))))))
    | _ \<Rightarrow> refuse ''manifest client must be an object'')"

definition is_twelve :: "json \<Rightarrow> bool" where
  "is_twelve v = (case v of JInt i \<Rightarrow> i = 12 | JNum x \<Rightarrow> x = 12 | _ \<Rightarrow> False)"

definition valid_harnesses :: "json \<Rightarrow> exn + unit" where
  "valid_harnesses v = (case v of
      JObj d \<Rightarrow> demand (set (map fst d) = {''claude'', ''codex'', ''pi'', ''dsh''} \<and>
                  list_all nonempty_string (map snd d)) ''manifest tested_harnesses is invalid''
    | _ \<Rightarrow> refuse ''manifest tested_harnesses must be an object'')"

definition placed_wheel :: "string \<Rightarrow> bool" where
  "placed_wheel w \<longleftrightarrow> length (posix_parts w) = 2 \<and> hd (posix_parts w) = ''wheels'' \<and> ends_with ''.whl'' w"

definition manifest_wheels :: "kit_tools \<Rightarrow> kit \<Rightarrow> (string \<times> json) list \<Rightarrow> exn + string set" where
  "manifest_wheels t k d =
     bindE (demand (set (map fst d) = {''kit_version'', ''client'', ''dependencies'', ''master_api'',
              ''mcp_server_name'', ''tool_count'', ''tested_harnesses''})
              ''manifest keys do not match the schema'') (\<lambda>_.
     bindE (demand (nonempty_string (jget d ''kit_version'')) ''manifest kit_version must be a non-empty string'') (\<lambda>_.
     bindE (manifest_client t k (json_string (jget d ''kit_version'')) (jget d ''client'')) (\<lambda>wheel.
     bindE (case jget d ''dependencies'' of JArr vs \<Rightarrow> Inr vs | _ \<Rightarrow> refuse ''manifest dependencies must be an array'') (\<lambda>vs.
     bindE (demand (vs \<noteq> []) ''manifest dependencies must not be empty'') (\<lambda>_.
     bindE (demand (jget d ''master_api'' = JStr ''v1'' \<and> jget d ''mcp_server_name'' = JStr ''submitter'' \<and>
                    is_twelve (jget d ''tool_count'')) ''manifest API, MCP server, or tool contract is invalid'') (\<lambda>_.
     bindE (valid_harnesses (jget d ''tested_harnesses'')) (\<lambda>_.
     bindE (manifest_dependencies t k {wheel} {} vs) (\<lambda>wheels.
     bindE (demand (\<forall>w \<in> wheels. placed_wheel w)
              ''every manifest wheel must be a .whl directly under wheels/'') (\<lambda>_.
     Inr wheels)))))))))"

section \<open>The kit\<close>

fun verify_digests :: "kit_tools \<Rightarrow> kit \<Rightarrow> (string, string) dict \<Rightarrow> exn + unit" where
  "verify_digests t k [] = Inr ()"
| "verify_digests t k ((relative, expected) # hs) = (case map_of k relative of
      Some (Kit_file b) \<Rightarrow>
        if kt_sha256 t b \<noteq> expected then refuse (''Client Kit digest mismatch: '' @ relative)
        else verify_digests t k hs
    | _ \<Rightarrow> Inl (OSError relative))"

definition required_files :: "string list" where
  "required_files =
     [''MANIFEST.json'', ''verify_client_kit.py'', ''skills/submit-gpu-task/SKILL.md'',
      ''config/mcp.example.json'', ''config/codex-mcp.example.toml'', ''config/dsh-mcp.example.patch.yml'',
      ''docs/submitting-from-an-agent-client.md'']"

definition entries_of :: "kit_root \<Rightarrow> kit" where
  "entries_of r = (case r of Root_dir k \<Rightarrow> k | _ \<Rightarrow> [])"

definition verify_client_kit :: "kit_tools \<Rightarrow> kit_root \<Rightarrow> exn + (string \<times> json) list" where
  "verify_client_kit t r =
     bindE (regular_files r) (\<lambda>files.
     let k = entries_of r in
     bindE (read_hashes k) (\<lambda>hashes.
     bindE (demand (set files = insert ''SHA256SUMS'' (set (map fst hashes))) ''Client Kit file set mismatch'') (\<lambda>_.
     bindE (verify_digests t k hashes) (\<lambda>_.
     bindE (read_manifest t k) (\<lambda>manifest.
     bindE (manifest_wheels t k manifest) (\<lambda>wheels.
     bindE (demand (set (filter (\<lambda>f. starts_with ''wheels/'' f \<and> ends_with ''.whl'' f) files) = wheels)
              ''manifest wheel file set mismatch'') (\<lambda>_.
     bindE (demand (set required_files \<subseteq> set files) ''Client Kit required file is missing'') (\<lambda>_.
     Inr manifest))))))))"

section \<open>What an accepted kit guarantees\<close>

text \<open>The content of a file of the kit.\<close>

definition kit_file :: "kit_root \<Rightarrow> string \<Rightarrow> string option" where
  "kit_file r f = (case map_of (entries_of r) f of Some (Kit_file b) \<Rightarrow> Some b | _ \<Rightarrow> None)"

lemma walk_files_ok:
  assumes "walk_files k = Inr fs"
  shows "(p, e) \<in> set k \<Longrightarrow> e = Kit_dir \<or> (\<exists>b. e = Kit_file b)" and "f \<in> set fs \<longleftrightarrow> (\<exists>b. (f, Kit_file b) \<in> set k)"
  using assms by (induction k arbitrary: fs rule: walk_files.induct) (auto simp: bindE_Inr)

lemma verify_digests_ok:
  "verify_digests t k hs = Inr u \<Longrightarrow> (f, h) \<in> set hs \<Longrightarrow> \<exists>b. map_of k f = Some (Kit_file b) \<and> kt_sha256 t b = h"
  by (induction hs rule: verify_digests.induct)
     (auto split: option.splits kit_entry.splits if_splits)

lemma inspected:
  assumes "inspect_members relative ms = Inr roots" and "m \<in> set ms"
  shows "\<exists>parts. wheel_member_parts (wm_name m) = Inr parts \<and> file_type (wm_mode m) \<in> {0, 4, 8} \<and>
    take 1 parts \<noteq> [server_package] \<and> set (take 1 parts) \<subseteq> roots"
  using assms
proof (induction ms arbitrary: roots)
  case (Cons a ms)
  then obtain parts rest where a: "wheel_member_parts (wm_name a) = Inr parts" "file_type (wm_mode a) \<in> {0, 4, 8}"
      "take 1 parts \<noteq> [server_package]" and rest: "inspect_members relative ms = Inr rest"
    and roots: "roots = set (take 1 parts) \<union> rest"
    by (auto simp: bindE_Inr split: if_splits)
  show ?case
  proof (cases "m = a")
    case True
    then show ?thesis using a roots by auto
  next
    case False
    then show ?thesis using Cons.IH [OF rest] Cons.prems(2) roots by auto
  qed
qed simp

lemma dependency_wheel:
  assumes "manifest_dependency t k ws ds v = Inr (w, n)"
  shows "\<exists>roots. inspect_wheel_members t k w = Inr roots \<and> client_package \<notin> roots"
  using assms by (auto simp: manifest_dependency_def bindE_Inr Let_def split: json.splits)

lemma dependency_wheels:
  assumes "manifest_dependencies t k ws ds vs = Inr us" and "w \<in> us" and "w \<notin> ws"
  shows "\<exists>roots. inspect_wheel_members t k w = Inr roots \<and> client_package \<notin> roots"
  using assms
proof (induction vs arbitrary: ws ds)
  case (Cons v vs)
  then obtain x n where v: "manifest_dependency t k ws ds v = Inr (x, n)"
    and r: "manifest_dependencies t k (insert x ws) (insert n ds) vs = Inr us"
    by (auto simp: bindE_Inr)
  show ?case
  proof (cases "w = x")
    case True
    then show ?thesis using dependency_wheel [OF v] by simp
  next
    case False
    then show ?thesis using Cons.IH [OF r Cons.prems(2)] Cons.prems(3) by simp
  qed
qed simp

lemma dependencies_grow: "manifest_dependencies t k ws ds vs = Inr us \<Longrightarrow> ws \<subseteq> us"
  by (induction vs arbitrary: ws ds) (fastforce simp: bindE_Inr)+

lemma client_wheel:
  assumes "manifest_client t k v d = Inr w"
  shows "\<exists>roots. inspect_wheel_members t k w = Inr roots \<and> client_package \<in> roots"
  using assms by (auto simp: manifest_client_def bindE_Inr split: json.splits)

lemma manifest_wheels_ok:
  assumes "manifest_wheels t k d = Inr ws"
  obtains c where "c \<in> ws" "\<exists>roots. inspect_wheel_members t k c = Inr roots \<and> client_package \<in> roots"
    "\<And>w. w \<in> ws \<Longrightarrow> w \<noteq> c \<Longrightarrow> \<exists>roots. inspect_wheel_members t k w = Inr roots \<and> client_package \<notin> roots"
proof -
  obtain c v vs where c: "manifest_client t k v (jget d ''client'') = Inr c"
    and deps: "manifest_dependencies t k {c} {} vs = Inr ws"
    using assms by (auto simp: manifest_wheels_def bindE_Inr)
  show ?thesis
    using that [of c] dependencies_grow [OF deps] client_wheel [OF c] dependency_wheels [OF deps] by blast
qed

definition kit_checked ::
  "kit_tools \<Rightarrow> kit_root \<Rightarrow> (string \<times> json) list \<Rightarrow> string list \<Rightarrow> (string, string) dict \<Rightarrow> string set \<Rightarrow> bool" where
  "kit_checked t r manifest files hashes wheels \<longleftrightarrow>
     walk_files (entries_of r) = Inr files \<and> read_hashes (entries_of r) = Inr hashes \<and>
     set files = insert ''SHA256SUMS'' (set (map fst hashes)) \<and> verify_digests t (entries_of r) hashes = Inr () \<and>
     manifest_wheels t (entries_of r) manifest = Inr wheels \<and>
     set (filter (\<lambda>f. starts_with ''wheels/'' f \<and> ends_with ''.whl'' f) files) = wheels \<and>
     set required_files \<subseteq> set files"

lemma accepted_kit:
  assumes "verify_client_kit t r = Inr manifest"
  shows "\<exists>files hashes wheels. kit_checked t r manifest files hashes wheels"
proof -
  have "regular_files r = Inr fs \<Longrightarrow> walk_files (entries_of r) = Inr fs" for fs
    by (cases r) (simp_all add: entries_of_def)
  then show ?thesis
    using assms by (auto simp: verify_client_kit_def bindE_Inr Let_def kit_checked_def)
qed

lemma accepted_kit_with:
  assumes "verify_client_kit t r = Inr manifest" and "read_hashes (entries_of r) = Inr hashes"
  shows "\<exists>files wheels. kit_checked t r manifest files hashes wheels"
  using accepted_kit [OF assms(1)] assms(2) by (auto simp: kit_checked_def)

lemma hash_file: "read_hashes k = Inr hs \<Longrightarrow> \<exists>b. map_of k ''SHA256SUMS'' = Some (Kit_file b)"
  by (auto simp: read_hashes_def split: option.splits kit_entry.splits)

lemma hashes_distinct_from:
  "read_hash_lines acc ls = Inr hs \<Longrightarrow> distinct (map fst acc) \<Longrightarrow> ''SHA256SUMS'' \<notin> set (map fst acc) \<Longrightarrow>
   distinct (map fst hs) \<and> ''SHA256SUMS'' \<notin> set (map fst hs)"
  by (induction ls arbitrary: acc)
     (fastforce simp: bindE_Inr map_of_eq_None_iff split: option.splits if_splits)+

lemma hashes_distinct:
  "read_hashes k = Inr hs \<Longrightarrow> distinct (map fst hs) \<and> ''SHA256SUMS'' \<notin> set (map fst hs)"
  using hashes_distinct_from [of "[]"]
  by (auto simp: read_hashes_def bindE_Inr split: option.splits kit_entry.splits if_splits)

text \<open>The files of an accepted kit, one by one.\<close>

lemma accepted_files:
  assumes "verify_client_kit t r = Inr manifest" and "read_hashes (entries_of r) = Inr hashes"
  shows "kit_file r f = Some b \<Longrightarrow> f \<noteq> ''SHA256SUMS'' \<Longrightarrow> map_of hashes f = Some (kt_sha256 t b)"
    and "map_of hashes f = Some h \<Longrightarrow> \<exists>b. kit_file r f = Some b \<and> kt_sha256 t b = h"
    and "(f, e) \<in> set (entries_of r) \<Longrightarrow> e = Kit_dir \<or> (\<exists>b. e = Kit_file b)"
proof -
  obtain files where w: "walk_files (entries_of r) = Inr files"
    and s: "set files = insert ''SHA256SUMS'' (set (map fst hashes))"
    and v: "verify_digests t (entries_of r) hashes = Inr ()"
    using accepted_kit_with [OF assms] unfolding kit_checked_def by blast
  show listed: "\<exists>b. kit_file r f = Some b \<and> kt_sha256 t b = h" if "map_of hashes f = Some h" for f h
    using verify_digests_ok [OF v map_of_SomeD [OF that]] by (auto simp: kit_file_def)
  show "map_of hashes f = Some (kt_sha256 t b)" if b: "kit_file r f = Some b" and n: "f \<noteq> ''SHA256SUMS''" for f b
  proof -
    have "(f, Kit_file b) \<in> set (entries_of r)"
      using b by (auto simp: kit_file_def split: option.splits kit_entry.splits dest: map_of_SomeD)
    then have "f \<in> set (map fst hashes)" using walk_files_ok(2) [OF w] s n by blast
    then obtain h where h: "map_of hashes f = Some h" by (metis map_of_eq_None_iff not_None_eq list.set_map)
    then show ?thesis using listed [OF h] b by auto
  qed
  show "e = Kit_dir \<or> (\<exists>b. e = Kit_file b)" if "(f, e) \<in> set (entries_of r)" for f e
    using walk_files_ok(1) [OF w that] .
qed

text \<open>
  An accepted kit is what its checksum file says: it holds nothing but directories and regular files,
  the files are exactly the listed ones beside the checksum file, each has the
  listed digest, and the files a client needs are there.
\<close>

theorem accepted_kit_is_listed:
  assumes "verify_client_kit t r = Inr manifest"
  shows "\<exists>hashes. read_hashes (entries_of r) = Inr hashes \<and>
    (\<forall>(f, e) \<in> set (entries_of r). e = Kit_dir \<or> (\<exists>b. e = Kit_file b)) \<and>
    (\<forall>f. f \<noteq> ''SHA256SUMS'' \<longrightarrow> map_of hashes f = map_option (kt_sha256 t) (kit_file r f)) \<and>
    (\<forall>f \<in> set required_files. kit_file r f \<noteq> None)"
proof -
  obtain files hashes where h: "read_hashes (entries_of r) = Inr hashes"
    and s: "set files = insert ''SHA256SUMS'' (set (map fst hashes))" and q: "set required_files \<subseteq> set files"
    using accepted_kit [OF assms] unfolding kit_checked_def by blast
  note ok = accepted_files [OF assms h]
  have eq: "map_of hashes f = map_option (kt_sha256 t) (kit_file r f)" if "f \<noteq> ''SHA256SUMS''" for f
    using ok(1) [OF _ that] ok(2) [of f] by (cases "kit_file r f"; cases "map_of hashes f") auto
  have "kit_file r f \<noteq> None" if "f \<in> set required_files" for f
  proof -
    have "f \<noteq> ''SHA256SUMS''" using that by (auto simp: required_files_def)
    moreover from this have "f \<in> fst ` set hashes" using that q s by auto
    ultimately show ?thesis using eq [of f] map_of_eq_None_iff [of hashes f] by auto
  qed
  then show ?thesis using h eq ok(3) by blast
qed

text \<open>
  C36. A kit cannot be changed unnoticed: two accepted kits with the same checksum file have the same
  files, unless somebody found two contents of a file with one digest.
\<close>

theorem kit_tampering_detected:
  assumes "verify_client_kit t r = Inr m" and "verify_client_kit t r' = Inr m'"
    and "kit_file r ''SHA256SUMS'' = kit_file r' ''SHA256SUMS''"
    and "\<And>f b b'. kit_file r f = Some b \<Longrightarrow> kit_file r' f = Some b' \<Longrightarrow> kt_sha256 t b = kt_sha256 t b' \<Longrightarrow> b = b'"
  shows "kit_file r' f = kit_file r f"
proof -
  obtain hashes where h: "read_hashes (entries_of r) = Inr hashes" using accepted_kit [OF assms(1)] unfolding kit_checked_def by blast
  obtain hashes' where h': "read_hashes (entries_of r') = Inr hashes'" using accepted_kit [OF assms(2)] unfolding kit_checked_def by blast
  have "hashes' = hashes"
    using h h' hash_file [OF h] hash_file [OF h'] assms(3) by (auto simp: kit_file_def read_hashes_def)
  note ok = accepted_files [OF assms(1) h] accepted_files [OF assms(2) h' [unfolded \<open>hashes' = hashes\<close>]]
  show ?thesis
  proof (cases "f = ''SHA256SUMS''")
    case False
    have "kit_file r' f = Some b" if "kit_file r f = Some b" for b
      using ok(1) [OF that False] ok(5) assms(4) [OF that] by fastforce
    moreover have "kit_file r f = Some b" if "kit_file r' f = Some b" for b
      using ok(4) [OF that False] ok(2) assms(4) [OF _ that] by fastforce
    ultimately show ?thesis by (cases "kit_file r f"; cases "kit_file r' f") auto
  qed (simp add: assms(3))
qed


end
