(* ===== verification/Kit_Samples.thy ===== *)
theory Kit_Samples
  imports Kit_Verifier
begin

text \<open>A small kit that the verifier accepts, for the witnesses.\<close>

definition kit_digest :: string where "kit_digest = replicate 64 CHR ''a''"

definition sum_line :: "string \<Rightarrow> string" where
  "sum_line f = kit_digest @ ''  '' @ f @ [CHR 0x0A]"

definition kit_paths :: "string list" where
  "kit_paths = required_files @ [''wheels/c.whl'', ''wheels/d.whl'']"

definition dquote :: "string \<Rightarrow> string" where "dquote s = CHR 0x22 # s @ [CHR 0x22]"

definition pair :: "string \<Rightarrow> string \<Rightarrow> string" where "pair k v = dquote k @ '':'' @ v"

definition braces :: "string list \<Rightarrow> string" where "braces ms = ''{'' @ join '','' ms @ ''}''"

definition kit_manifest_text :: string where
  "kit_manifest_text = braces
     [pair ''kit_version'' (dquote ''1''),
      pair ''client'' (braces [pair ''distribution'' (dquote client_distribution), pair ''version'' (dquote ''1''),
        pair ''wheel'' (dquote ''wheels/c.whl''), pair ''python_requires'' (dquote ''>=3.10'')]),
      pair ''dependencies'' (''['' @ braces [pair ''distribution'' (dquote ''d''), pair ''version'' (dquote ''2''),
        pair ''wheel'' (dquote ''wheels/d.whl'')] @ '']''),
      pair ''master_api'' (dquote ''v1''), pair ''mcp_server_name'' (dquote ''submitter''), pair ''tool_count'' ''12'',
      pair ''tested_harnesses'' (braces [pair ''claude'' (dquote ''1''), pair ''codex'' (dquote ''1''),
        pair ''pi'' (dquote ''1''), pair ''dsh'' (dquote ''1'')])]"

definition kit_manifest :: "(string \<times> json) list" where
  "kit_manifest =
     [(''kit_version'', JStr ''1''),
      (''client'', JObj [(''distribution'', JStr client_distribution), (''version'', JStr ''1''),
        (''wheel'', JStr ''wheels/c.whl''), (''python_requires'', JStr ''>=3.10'')]),
      (''dependencies'', JArr [JObj [(''distribution'', JStr ''d''), (''version'', JStr ''2''), (''wheel'', JStr ''wheels/d.whl'')]]),
      (''master_api'', JStr ''v1''), (''mcp_server_name'', JStr ''submitter''), (''tool_count'', JInt 12),
      (''tested_harnesses'', JObj [(''claude'', JStr ''1''), (''codex'', JStr ''1''), (''pi'', JStr ''1''), (''dsh'', JStr ''1'')])]"

lemma kit_manifest_json: "json_loads kit_manifest_text = Some (JObj kit_manifest)"
  by code_simp

definition kit_sums :: string where "kit_sums = concat (map sum_line kit_paths)"

text \<open>With an empty directory that the checksum file does not know, or without.\<close>

definition sample_kit :: "bool \<Rightarrow> kit" where
  "sample_kit e = (''SHA256SUMS'', Kit_file kit_sums) # (''wheels'', Kit_dir) #
     map (\<lambda>f. (f, Kit_file (if f = ''MANIFEST.json'' then kit_manifest_text else f))) kit_paths @
     (if e then [(''empty'', Kit_dir)] else [])"

definition sample_tools :: kit_tools where
  "sample_tools = \<lparr>kt_sha256 = (\<lambda>_. kit_digest),
     kt_archive = (\<lambda>b. Some [\<lparr>wm_name = (if b = ''wheels/c.whl'' then client_package else ''d''), wm_mode = 33188, wm_data = Some b\<rparr>,
       \<lparr>wm_name = ''x.dist-info/METADATA'', wm_mode = 0, wm_data = Some b\<rparr>]),
     kt_utf8 = (\<lambda>_. True),
     kt_headers = (\<lambda>b. if b = ''wheels/c.whl'' then [(''Name'', client_distribution), (''Version'', ''1'')]
       else [(''Name'', ''d''), (''Version'', ''2'')]),
     kt_lower = id\<rparr>"

lemma ascii_line:
  "list_all (\<lambda>c. c \<notin> {CHR 0x0A, CHR 0x0B, CHR 0x0C, CHR 0x0D, CHR 0x1C, CHR 0x1D, CHR 0x1E}) l \<Longrightarrow>
   ascii_lines acc (l @ CHR 0x0A # s) = (acc @ l) # ascii_lines [] s"
  by (induction l arbitrary: acc) auto

lemma cut_line: "CHR '' '' \<notin> set d \<Longrightarrow> cut_two_spaces (d @ ''  '' @ f) = Some (d, f)"
  by (induction d) auto

lemma read_sums:
  assumes "list_all (\<lambda>f. safe_relative (JStr f) ''checksum path'' = Inr f \<and> f \<noteq> ''SHA256SUMS'') fs"
    and "distinct (map fst acc @ fs)"
  shows "read_hash_lines acc (map (\<lambda>f. kit_digest @ ''  '' @ f) fs) = Inr (acc @ map (\<lambda>f. (f, kit_digest)) fs)"
  using assms
proof (induction fs arbitrary: acc)
  case (Cons f fs)
  have "f \<notin> fst ` set acc" using Cons.prems(2) by auto
  then have "map_of acc f = None" by (simp add: map_of_eq_None_iff)
  moreover have "cut_two_spaces (kit_digest @ ''  '' @ f) = Some (kit_digest, f)"
    by (rule cut_line) (simp add: kit_digest_def)
  moreover have "length kit_digest = 64" "list_all is_hex kit_digest"
    by (simp_all add: kit_digest_def list_all_iff is_hex_def less_eq_char_def)
  ultimately show ?case
    using Cons.IH [of "acc @ [(f, kit_digest)]"] Cons.prems \<open>f \<notin> fst ` set acc\<close> by simp force
qed simp

lemma kit_paths_safe: "list_all (\<lambda>f. safe_relative (JStr f) ''checksum path'' = Inr f \<and> f \<noteq> ''SHA256SUMS'') kit_paths"
  by (simp add: kit_paths_def required_files_def safe_relative_def posix_parts_def as_posix_def starts_with_def)

lemma kit_sums_read:
  "read_hash_lines [] (ascii_lines [] kit_sums) = Inr (map (\<lambda>f. (f, kit_digest)) kit_paths)"
  "list_all (\<lambda>c. byte c < 128) kit_sums"
proof -
  have "ascii_lines [] (concat (map sum_line fs)) = map (\<lambda>f. kit_digest @ ''  '' @ f) fs"
    if "list_all (list_all (\<lambda>c. c \<notin> {CHR 0x0A, CHR 0x0B, CHR 0x0C, CHR 0x0D, CHR 0x1C, CHR 0x1D, CHR 0x1E})) fs" for fs
    using that
  proof (induction fs)
    case (Cons f fs)
    have "ascii_lines [] ((kit_digest @ ''  '' @ f) @ CHR 0x0A # concat (map sum_line fs))
        = ([] @ kit_digest @ ''  '' @ f) # ascii_lines [] (concat (map sum_line fs))"
      by (rule ascii_line) (use Cons.prems in \<open>simp add: kit_digest_def list_all_iff\<close>)
    then show ?case using Cons by (simp add: sum_line_def [of f])
  qed simp
  moreover have "list_all (list_all (\<lambda>c. c \<notin> {CHR 0x0A, CHR 0x0B, CHR 0x0C, CHR 0x0D, CHR 0x1C, CHR 0x1D, CHR 0x1E})) kit_paths"
    by (simp add: kit_paths_def required_files_def)
  moreover have "distinct kit_paths" by (simp add: kit_paths_def required_files_def)
  ultimately show "read_hash_lines [] (ascii_lines [] kit_sums) = Inr (map (\<lambda>f. (f, kit_digest)) kit_paths)"
    using read_sums [OF kit_paths_safe, of "[]"] by (simp add: kit_sums_def)
  have "list_all (list_all (\<lambda>c. byte c < 128)) kit_paths" by code_simp
  moreover have "byte (CHR ''a'') < 128" "byte (CHR '' '') < 128" "byte (CHR 0x0A) < 128" by code_simp+
  ultimately show "list_all (\<lambda>c. byte c < 128) kit_sums"
    by (auto simp: kit_sums_def sum_line_def kit_digest_def list_all_iff)
qed

lemma kit_hashes: "read_hashes (sample_kit e) = Inr (map (\<lambda>f. (f, kit_digest)) kit_paths)"
  using kit_sums_read by (simp add: read_hashes_def sample_kit_def bindE_Inr kit_paths_def)

lemma kit_walk: "walk_files (sample_kit e) = Inr (''SHA256SUMS'' # kit_paths)"
  by (simp add: sample_kit_def kit_paths_def required_files_def)

lemma kit_lookup:
  assumes "f \<in> set kit_paths"
  shows "map_of (sample_kit e) f = Some (Kit_file (if f = ''MANIFEST.json'' then kit_manifest_text else f))"
proof -
  have "f \<noteq> ''SHA256SUMS''" "f \<noteq> ''wheels''" using assms by (auto simp: kit_paths_def required_files_def)
  moreover have "map_of (map (\<lambda>f. (f, Kit_file (if f = ''MANIFEST.json'' then kit_manifest_text else f))) xs) f
      = (if f \<in> set xs then Some (Kit_file (if f = ''MANIFEST.json'' then kit_manifest_text else f)) else None)"
    for xs by (induction xs) auto
  ultimately show ?thesis using assms by (simp add: sample_kit_def map_add_Some_iff map_of_append)
qed

lemma sample_tools_sel [simp]:
  "kt_sha256 sample_tools b = kit_digest" "kt_utf8 sample_tools b" "kt_lower sample_tools v = v"
  "kt_archive sample_tools b = Some [\<lparr>wm_name = (if b = ''wheels/c.whl'' then client_package else ''d''), wm_mode = 33188, wm_data = Some b\<rparr>,
       \<lparr>wm_name = ''x.dist-info/METADATA'', wm_mode = 0, wm_data = Some b\<rparr>]"
  "kt_headers sample_tools b = (if b = ''wheels/c.whl'' then [(''Name'', client_distribution), (''Version'', ''1'')]
       else [(''Name'', ''d''), (''Version'', ''2'')])"
  by (simp_all add: sample_tools_def)

lemma package_names: "client_package \<noteq> server_package" "server_package \<noteq> ''d''" "server_package \<noteq> ''x.dist-info''"
  "client_package \<noteq> ''d''" "client_package \<noteq> ''x.dist-info''" "client_distribution \<noteq> ''d''" "client_distribution \<noteq> []"
  "\<not> ends_with ''.dist-info/METADATA'' client_package" "\<not> ends_with ''.dist-info/METADATA'' ''d''"
  "ends_with ''.dist-info/METADATA'' ''x.dist-info/METADATA''"
  by (simp_all add: client_package_def server_package_def client_distribution_def ends_with_def)

lemma kit_members: "''wheels/c.whl'' \<in> set kit_paths" "''wheels/d.whl'' \<in> set kit_paths" "''MANIFEST.json'' \<in> set kit_paths"
  by (simp_all add: kit_paths_def required_files_def)

lemma verify_digestsI:
  "(\<And>f h. (f, h) \<in> set hs \<Longrightarrow> \<exists>b. map_of k f = Some (Kit_file b) \<and> kt_sha256 t b = h) \<Longrightarrow> verify_digests t k hs = Inr ()"
  by (induction hs) (fastforce split: option.split kit_entry.split)+

lemma kit_digests: "verify_digests sample_tools (sample_kit e) (map (\<lambda>f. (f, kit_digest)) kit_paths) = Inr ()"
  by (rule verify_digestsI) (auto simp: kit_lookup)

lemma kit_archives:
  "kit_archive sample_tools (sample_kit e) ''wheels/c.whl'' = Some [\<lparr>wm_name = client_package, wm_mode = 33188, wm_data = Some ''wheels/c.whl''\<rparr>,
       \<lparr>wm_name = ''x.dist-info/METADATA'', wm_mode = 0, wm_data = Some ''wheels/c.whl''\<rparr>]"
  "kit_archive sample_tools (sample_kit e) ''wheels/d.whl'' = Some [\<lparr>wm_name = ''d'', wm_mode = 33188, wm_data = Some ''wheels/d.whl''\<rparr>,
       \<lparr>wm_name = ''x.dist-info/METADATA'', wm_mode = 0, wm_data = Some ''wheels/d.whl''\<rparr>]"
  by (simp_all add: kit_archive_def kit_lookup kit_members)

lemma kit_paths_parts:
  "wheel_member_parts client_package = Inr [client_package]" "wheel_member_parts ''d'' = Inr [''d'']"
  "wheel_member_parts ''x.dist-info/METADATA'' = Inr [''x.dist-info'', ''METADATA'']"
  "safe_relative (JStr ''wheels/c.whl'') i = Inr ''wheels/c.whl''" "safe_relative (JStr ''wheels/d.whl'') j = Inr ''wheels/d.whl''"
  by (simp_all add: wheel_member_parts_def safe_relative_def posix_parts_def as_posix_def starts_with_def client_package_def)

lemma kit_modes: "file_type 33188 = 8" "file_type 0 = 0"
  by (simp_all add: file_type_def)

lemma kit_roots:
  "inspect_wheel_members sample_tools (sample_kit e) ''wheels/c.whl'' = Inr {client_package, ''x.dist-info''}"
  "inspect_wheel_members sample_tools (sample_kit e) ''wheels/d.whl'' = Inr {''d'', ''x.dist-info''}"
  by (simp_all add: inspect_wheel_members_def kit_archives kit_paths_parts kit_modes package_names package_names(1-5) [symmetric] insert_commute)

lemma plain_names:
  "normalized_distribution sample_tools client_distribution = client_distribution"
  "normalized_distribution sample_tools ''d'' = ''d''"
  by (simp_all add: normalized_distribution_def single_dashes.simps client_distribution_def starts_with_def)

lemma kit_identities:
  "wheel_identity sample_tools (sample_kit e) ''wheels/c.whl'' = Inr (client_distribution, ''1'')"
  "wheel_identity sample_tools (sample_kit e) ''wheels/d.whl'' = Inr (''d'', ''2'')"
  by (simp_all add: wheel_identity_def kit_archives package_names plain_names)

lemma kit_placed: "placed_wheel ''wheels/c.whl''" "placed_wheel ''wheels/d.whl''"
  by (simp_all add: placed_wheel_def posix_parts_def ends_with_def)

lemma kit_wheels: "manifest_wheels sample_tools (sample_kit e) kit_manifest = Inr {''wheels/d.whl'', ''wheels/c.whl''}"
proof -
  have client: "manifest_client sample_tools (sample_kit e) ''1'' (jget kit_manifest ''client'') = Inr ''wheels/c.whl''"
    by (simp add: manifest_client_def kit_manifest_def jget_def kit_paths_parts kit_roots kit_identities bindE_Inr insert_commute)
  have deps: "manifest_dependencies sample_tools (sample_kit e) {''wheels/c.whl''} {}
      [JObj [(''distribution'', JStr ''d''), (''version'', JStr ''2''), (''wheel'', JStr ''wheels/d.whl'')]]
    = Inr {''wheels/d.whl'', ''wheels/c.whl''}"
    by (simp add: manifest_dependency_def dependency_keys_def nonempty_string_def jget_def kit_paths_parts kit_roots
        kit_identities plain_names bindE_Inr Let_def package_names package_names(1-6) [symmetric])
  have "manifest_client sample_tools (sample_kit e) (json_string (jget kit_manifest ''kit_version'')) (jget kit_manifest ''client'')
      = Inr ''wheels/c.whl''"
    using client by (simp add: kit_manifest_def jget_def)
  moreover have "(case jget kit_manifest ''dependencies'' of JArr vs \<Rightarrow> Inr vs | _ \<Rightarrow> refuse ''manifest dependencies must be an array'')
      = Inr [JObj [(''distribution'', JStr ''d''), (''version'', JStr ''2''), (''wheel'', JStr ''wheels/d.whl'')]]"
    by (simp add: kit_manifest_def jget_def)
  moreover have "set (map fst kit_manifest) = {''kit_version'', ''client'', ''dependencies'', ''master_api'',
              ''mcp_server_name'', ''tool_count'', ''tested_harnesses''}"
    by (simp add: kit_manifest_def)
  moreover have "nonempty_string (jget kit_manifest ''kit_version'')" "jget kit_manifest ''master_api'' = JStr ''v1''"
    "jget kit_manifest ''mcp_server_name'' = JStr ''submitter''" "is_twelve (jget kit_manifest ''tool_count'')"
    "valid_harnesses (jget kit_manifest ''tested_harnesses'') = Inr ()"
    by (simp_all add: kit_manifest_def jget_def nonempty_string_def is_twelve_def valid_harnesses_def insert_commute)
  ultimately show ?thesis
    unfolding manifest_wheels_def by (simp add: deps kit_placed demand_def checkE_def del: manifest_dependencies.simps)
qed

lemma kit_files: "{f. (f = ''SHA256SUMS'' \<or> f \<in> set kit_paths) \<and> starts_with ''wheels/'' f \<and> ends_with ''.whl'' f}
    = {''wheels/d.whl'', ''wheels/c.whl''}"
proof -
  have "filter (\<lambda>f. starts_with ''wheels/'' f \<and> ends_with ''.whl'' f) (''SHA256SUMS'' # kit_paths) = [''wheels/c.whl'', ''wheels/d.whl'']"
    by (simp add: kit_paths_def required_files_def starts_with_def ends_with_def)
  from arg_cong [OF this, of set] show ?thesis by (simp only: set_filter list.set insert_commute insert_iff)
qed

lemma sample_kit_accepted: "verify_client_kit sample_tools (Root_dir (sample_kit e)) = Inr kit_manifest"
proof -
  have "read_manifest sample_tools (sample_kit e) = Inr kit_manifest"
    by (simp add: read_manifest_def kit_lookup kit_members kit_manifest_json)
  moreover have "fst ` set (map (\<lambda>f. (f, kit_digest)) kit_paths) = set kit_paths" by force
  moreover have "set required_files \<subseteq> set (''SHA256SUMS'' # kit_paths)" by (auto simp: kit_paths_def)
  ultimately show ?thesis
    unfolding verify_client_kit_def
    by (simp add: entries_of_def kit_walk kit_hashes kit_digests kit_wheels kit_files Let_def bindE_Inr)
qed

theorem accepted_kit_is_listed_witness:
  "kit_file (Root_dir (sample_kit False)) ''MANIFEST.json'' \<noteq> None \<and> kit_file (Root_dir (sample_kit False)) ''verify_client_kit.py'' \<noteq> None"
  using accepted_kit_is_listed [OF sample_kit_accepted] by (auto simp: required_files_def)

lemma sample_kits: "sample_kit True = sample_kit False @ [(''empty'', Kit_dir)]"
  by (simp add: sample_kit_def)

theorem kit_tampering_detected_witness:
  "sample_kit True \<noteq> sample_kit False \<and>
   kit_file (Root_dir (sample_kit True)) ''MANIFEST.json'' = kit_file (Root_dir (sample_kit False)) ''MANIFEST.json''"
proof -
  have same: "kit_file (Root_dir (sample_kit True)) f = kit_file (Root_dir (sample_kit False)) f" for f
    unfolding sample_kits by (simp add: kit_file_def entries_of_def map_of_append map_add_def split: option.split)
  have "kit_file (Root_dir (sample_kit True)) ''MANIFEST.json'' = kit_file (Root_dir (sample_kit False)) ''MANIFEST.json''"
    by (rule kit_tampering_detected [OF sample_kit_accepted sample_kit_accepted]) (simp_all only: same option.inject)
  then show ?thesis unfolding sample_kits by simp
qed


end
