(* ===== verification/Claude_Adapter.thy ===== *)
theory Claude_Adapter
  imports Fake_Harness Json_Text
begin

text \<open>
  The adapter that runs the external agent, \<open>ClaudeCodeAdapter\<close> of
  \<open>src/agent_scheduler/adapters/harness.py\<close>: the prompts, the loop over attempts with its audit
  records, and the reading of the agent's output. What a process does is chosen by the environment.
  The schemas and the validation of pydantic are arguments (\<open>claude\<close>).
\<close>

section \<open>The adapter and its processes\<close>

text \<open>
  How \<open>subprocess.run\<close> ends: with an exit code and both outputs, in a timeout, with an
  \<open>OSError\<close> of the given class, or with another exception, as for output that is not UTF-8.
\<close>

datatype run_result =
    Ran int string string
  | Ran_out
  | Not_launched string
  | Run_raised exn

record claude_service = service +
  cl_runs :: "nat \<Rightarrow> run_result"
  cl_commands :: "string list list"
  cl_is_file :: "nat \<Rightarrow> string \<Rightarrow> bool"
  cl_looks :: nat
  cl_slept :: "nat list"

record claude =
  ca_executable :: string
  ca_prompts_dir :: string
  ca_mcp_config :: string
  ca_max_attempts :: nat
  ca_allowed_worker_ids :: "string list"
  ca_schema :: "string \<Rightarrow> string"
  ca_facts_of :: "string \<Rightarrow> exn + facts"
  ca_review_of :: "string \<Rightarrow> exn + review"
  ca_facts_json :: "facts \<Rightarrow> string"
  ca_facts_dump :: "facts \<Rightarrow> json"
  ca_review_dump :: "review \<Rightarrow> json"
  ca_iso :: "int \<Rightarrow> string"
  ca_repr :: "rat \<Rightarrow> string"

definition run_process :: "string list \<Rightarrow> ('z claude_service_scheme, run_result) prog" where
  "run_process argv =
     bindP (readP (\<lambda>s. cl_runs s (length (cl_commands s)))) (\<lambda>result.
     bindP (updateP (\<lambda>s. s\<lparr>cl_commands := cl_commands s @ [argv]\<rparr>)) (\<lambda>_. returnP result))"

definition is_file :: "string \<Rightarrow> ('z claude_service_scheme, bool) prog" where
  "is_file path =
     bindP (readP (\<lambda>s. cl_is_file s (cl_looks s) path)) (\<lambda>b.
     bindP (updateP (\<lambda>s. s\<lparr>cl_looks := Suc (cl_looks s)\<rparr>)) (\<lambda>_. returnP b))"

definition sleep :: "nat \<Rightarrow> ('z claude_service_scheme, unit) prog" where
  "sleep n = updateP (\<lambda>s. s\<lparr>cl_slept := cl_slept s @ [n]\<rparr>)"

section \<open>The output of the agent\<close>

text \<open>\<open>str.splitlines\<close>, with the separators of Unicode as UTF-8.\<close>

fun unicode_lines :: "string \<Rightarrow> string \<Rightarrow> string list" where
  "unicode_lines acc [] = (if acc = [] then [] else [acc])"
| "unicode_lines acc (c # s) =
     (if c = CHR 0x0D then acc # unicode_lines [] (if take 1 s = [CHR 0x0A] then drop 1 s else s)
      else if c \<in> {CHR 0x0A, CHR 0x0B, CHR 0x0C, CHR 0x1C, CHR 0x1D, CHR 0x1E} then acc # unicode_lines [] s
      else if c = CHR 0xC2 \<and> take 1 s = [CHR 0x85] then acc # unicode_lines [] (drop 1 s)
      else if c = CHR 0xE2 \<and> take 2 s \<in> {[CHR 0x80, CHR 0xA8], [CHR 0x80, CHR 0xA9]}
      then acc # unicode_lines [] (drop 2 s)
      else unicode_lines (acc @ [c]) s)"

fun envelopes :: "string list \<Rightarrow> exn + (string \<times> json) list list" where
  "envelopes [] = Inr []"
| "envelopes (l # ls) =
     (if py_strip l = [] then envelopes ls
      else case json_loads l of
          None \<Rightarrow> Inl (JSONDecodeError ''invalid JSON'')
        | Some (JObj d) \<Rightarrow> bindE (envelopes ls) (\<lambda>ds. Inr (d # ds))
        | Some _ \<Rightarrow> envelopes ls)"

text \<open>The value of an envelope, and the first one that is an object.\<close>

definition envelope_value :: "(string \<times> json) list \<Rightarrow> json" where
  "envelope_value d =
     (let v = jget d ''structured_output''
      in if v = JNull \<and> jget d ''type'' = JStr ''result'' then jget d ''result'' else v)"

fun first_object :: "(string \<times> json) list list \<Rightarrow> (string \<times> json) list option" where
  "first_object [] = None"
| "first_object (d # ds) =
     (case envelope_value d of
        JObj v \<Rightarrow> Some v
      | JStr t \<Rightarrow> (case json_loads t of Some (JObj v) \<Rightarrow> Some v | _ \<Rightarrow> first_object ds)
      | _ \<Rightarrow> first_object ds)"

definition structured_output :: "string \<Rightarrow> exn + (string \<times> json) list" where
  "structured_output stdout =
     (let lines = unicode_lines [] stdout in
      bindE (envelopes (if lines = [] then [stdout] else lines)) (\<lambda>ds.
      case first_object (rev ds) of
        Some v \<Rightarrow> Inr v
      | None \<Rightarrow> (case ds of [d] \<Rightarrow> Inr d | _ \<Rightarrow> Inl (TypeError ''Claude Code stream has no structured output''))))"

definition retryable_stderr :: "string \<Rightarrow> bool" where
  "retryable_stderr stderr =
     list_ex (\<lambda>m. contains m (map lower_ascii stderr)) [''rate limit'', ''429'', ''timed out'', ''timeout'']"

section \<open>One attempt\<close>

definition claude_command :: "claude \<Rightarrow> string \<Rightarrow> string \<Rightarrow> string list" where
  "claude_command c prompt_path schema =
     [ca_executable c, ''--print'', ''--no-session-persistence'', ''--disable-slash-commands'',
      ''--setting-sources'', [], ''--permission-mode'', ''dontAsk'', ''--tools'', [],
      ''--strict-mcp-config'', ''--mcp-config'', ca_mcp_config c, ''--system-prompt-file'', prompt_path,
      ''--output-format'', ''stream-json'', ''--verbose'', ''--json-schema'', schema]"

text \<open>\<open>dict.update\<close>.\<close>

definition json_update :: "(string \<times> json) list \<Rightarrow> (string \<times> json) list \<Rightarrow> (string \<times> json) list" where
  "json_update d new = fold (\<lambda>(k, v). AList.update k v) new d"

fun exn_name :: "exn \<Rightarrow> string" where
  "exn_name (JSONDecodeError _) = ''JSONDecodeError''"
| "exn_name (ValidationError _) = ''ValidationError''"
| "exn_name (TypeError _) = ''TypeError''"
| "exn_name (KeyError _) = ''KeyError''"
| "exn_name (FileExistsError _) = ''FileExistsError''"
| "exn_name (FileNotFoundError _) = ''FileNotFoundError''"
| "exn_name (PermissionError _) = ''PermissionError''"
| "exn_name _ = ''OSError''"

fun is_invalid_output :: "exn \<Rightarrow> bool" where
  "is_invalid_output (JSONDecodeError _) = True"
| "is_invalid_output (ValidationError _) = True"
| "is_invalid_output (TypeError _) = True"
| "is_invalid_output (KeyError _) = True"
| "is_invalid_output _ = False"

definition write_audit :: "string \<Rightarrow> (string \<times> json) list \<Rightarrow> ('z claude_service_scheme, unit) prog" where
  "write_audit invocation_id audit = write_immutable ''harness'' invocation_id (O_json audit)"

text \<open>What the handlers of an attempt do: a failed attempt that may be repeated, or the end.\<close>

definition attempt_failed ::
  "claude \<Rightarrow> string \<Rightarrow> (string \<times> json) list \<Rightarrow> string \<Rightarrow> bool \<Rightarrow> ('z claude_service_scheme, unit) prog" where
  "attempt_failed c invocation_id audit error retryable =
     bindP utc_now (\<lambda>ended.
     write_audit invocation_id (json_update audit
       [(''ended_at'', JStr (ca_iso c ended)), (''error'', JStr error), (''retryable'', JBool retryable)]))"

definition launch_failed ::
  "claude \<Rightarrow> string \<Rightarrow> (string \<times> json) list \<Rightarrow> string \<Rightarrow> ('z claude_service_scheme, 'a) prog" where
  "launch_failed c invocation_id audit class_name =
     bindP (attempt_failed c invocation_id audit (''process launch failed: '' @ class_name) False) (\<lambda>_.
     raiseP (HarnessError ''Claude Code process could not be launched''))"

definition run_finished ::
  "claude \<Rightarrow> (string \<Rightarrow> exn + 'a) \<Rightarrow> ('a \<Rightarrow> json) \<Rightarrow> string \<Rightarrow> (string \<times> json) list \<Rightarrow> int \<Rightarrow> string \<Rightarrow> string
     \<Rightarrow> ('z claude_service_scheme, 'a option) prog" where
  "run_finished c validate dump invocation_id audit code out err =
     (if code \<noteq> 0 then
        let audit = json_update audit [(''retryable'', JBool (retryable_stderr err))] in
        catchP
          (bindP (write_audit invocation_id audit) (\<lambda>_.
           if retryable_stderr err then returnP None
           else raiseP (HarnessError (''Claude Code exited with code '' @ show_int code))))
          is_OSError (\<lambda>e. launch_failed c invocation_id audit (exn_name e))
      else
        case bindE (structured_output out) (\<lambda>d. validate (json_dumps True (ca_repr c) (JObj d))) of
          Inl e \<Rightarrow>
            if is_invalid_output e
            then bindP (attempt_failed c invocation_id audit (''invalid structured output: '' @ exn_name e) True)
                   (\<lambda>_. returnP None)
            else raiseP e
        | Inr v \<Rightarrow>
            let audit = json_update audit [(''validated_output'', dump v)] in
            catchP (bindP (write_audit invocation_id audit) (\<lambda>_. returnP (Some v)))
              is_OSError (\<lambda>e. launch_failed c invocation_id audit (exn_name e)))"

definition base_audit ::
  "claude \<Rightarrow> string \<Rightarrow> string \<Rightarrow> string \<Rightarrow> string list \<Rightarrow> string \<Rightarrow> string \<Rightarrow> nat \<Rightarrow> int \<Rightarrow> (string \<times> json) list" where
  "base_audit c cwd invocation_id role command prompt version attempt started =
     [(''schema_version'', JStr ''v1''), (''invocation_id'', JStr invocation_id), (''role'', JStr role),
      (''attempt'', JInt (int attempt)), (''cli_version'', JStr version), (''started_at'', JStr (ca_iso c started)),
      (''argv'', JArr (map JStr command)), (''cwd'', JStr cwd), (''input'', JStr prompt)]"

definition claude_attempt ::
  "claude \<Rightarrow> (string \<Rightarrow> exn + 'a) \<Rightarrow> ('a \<Rightarrow> json) \<Rightarrow> string \<Rightarrow> string list \<Rightarrow> string \<Rightarrow> string \<Rightarrow> nat
     \<Rightarrow> ('z claude_service_scheme, 'a option) prog" where
  "claude_attempt c validate dump role command prompt version attempt =
     bindP (fresh_id ''harness'') (\<lambda>invocation_id.
     bindP utc_now (\<lambda>started.
     bindP (readP store_root) (\<lambda>cwd.
     let audit = base_audit c cwd invocation_id role command prompt version attempt started in
     bindP (run_process command) (\<lambda>result. case result of
        Ran code out err \<Rightarrow>
          bindP utc_now (\<lambda>ended.
          run_finished c validate dump invocation_id (json_update audit
            [(''ended_at'', JStr (ca_iso c ended)), (''exit_code'', JInt code), (''stdout'', JStr out), (''stderr'', JStr err)])
            code out err)
      | Ran_out \<Rightarrow>
          bindP (attempt_failed c invocation_id audit ''timeout'' True) (\<lambda>_. returnP None)
      | Not_launched n \<Rightarrow> launch_failed c invocation_id audit n
      | Run_raised e \<Rightarrow> raiseP e))))"

fun claude_attempts ::
  "claude \<Rightarrow> (string \<Rightarrow> exn + 'a) \<Rightarrow> ('a \<Rightarrow> json) \<Rightarrow> string \<Rightarrow> string list \<Rightarrow> string \<Rightarrow> string \<Rightarrow> nat \<Rightarrow> nat
     \<Rightarrow> ('z claude_service_scheme, 'a) prog" where
  "claude_attempts c validate dump role command prompt version attempt 0 =
     raiseP (HarnessError (''Claude Code failed after '' @ show_nat (ca_max_attempts c) @ '' attempts''))"
| "claude_attempts c validate dump role command prompt version attempt (Suc remaining) =
     bindP (claude_attempt c validate dump role command prompt version attempt) (\<lambda>r. case r of
        Some v \<Rightarrow> returnP v
      | None \<Rightarrow>
          bindP (whenP (0 < remaining) (sleep (2 ^ (attempt - 1)))) (\<lambda>_.
          claude_attempts c validate dump role command prompt version (Suc attempt) remaining))"

definition cli_version :: "claude \<Rightarrow> ('z claude_service_scheme, string) prog" where
  "cli_version c =
     bindP (run_process [ca_executable c, ''--version'']) (\<lambda>result. case result of
        Ran code out err \<Rightarrow>
          if code \<noteq> 0 then raiseP (HarnessError ''Claude Code version check returned nonzero'')
          else returnP (py_strip out)
      | Ran_out \<Rightarrow> raiseP (HarnessError ''Claude Code version check failed'')
      | Not_launched n \<Rightarrow> raiseP (HarnessError ''Claude Code version check failed'')
      | Run_raised e \<Rightarrow> raiseP e)"

definition claude_invoke ::
  "claude \<Rightarrow> (string \<Rightarrow> exn + 'a) \<Rightarrow> ('a \<Rightarrow> json) \<Rightarrow> string \<Rightarrow> string \<Rightarrow> string \<Rightarrow> ('z claude_service_scheme, 'a) prog" where
  "claude_invoke c validate dump role prompt model =
     (let prompt_path = ca_prompts_dir c @ ''/'' @ role @ ''.md'';
          missing = raiseP (HarnessError (''missing versioned Harness configuration for '' @ role)) in
      bindP (is_file prompt_path) (\<lambda>a.
      if \<not> a then missing else
      bindP (is_file (ca_mcp_config c)) (\<lambda>b.
      if \<not> b then missing else
      bindP (cli_version c) (\<lambda>version.
      claude_attempts c validate dump role (claude_command c prompt_path (ca_schema c model)) prompt version 1
        (ca_max_attempts c)))))"

section \<open>The roles\<close>

definition process_prompt :: "claude \<Rightarrow> string \<Rightarrow> revision \<Rightarrow> string" where
  "process_prompt c facts_id rv =
     ''Produce ProposalFacts for this immutable revision. Echo the supplied IDs exactly. '' @
     ''Do not approve the proposal. The deterministic qualification command MUST be '' @
     ''container_path_bash `'' @ qualification_launcher @ ''` with SHA-256 `'' @ qualification_launcher_sha256 @ ''`; '' @
     ''argv MUST be the Proposal-unique container output and business-log paths derived '' @
     ''from proposal_id, and required host paths MUST map `/data` to `/public/share`.'' @ [CHR 0x0A, CHR 0x0A] @
     ''allowed_worker_ids=['' @ join '', '' (map (quoted True) (ca_allowed_worker_ids c)) @ '']'' @ [CHR 0x0A] @
     ''facts_id='' @ facts_id @ [CHR 0x0A] @ ''proposal_id='' @ rev_proposal_id rv @ [CHR 0x0A] @
     ''revision_id='' @ rev_revision_id rv @ [CHR 0x0A] @ ''revision_markdown:'' @ [CHR 0x0A] @ rev_markdown rv"

definition claude_process :: "claude \<Rightarrow> revision \<Rightarrow> ('z claude_service_scheme, facts) prog" where
  "claude_process c rv =
     bindP (fresh_id ''facts'') (\<lambda>facts_id.
     bindP (claude_invoke c (ca_facts_of c) (ca_facts_dump c) ''processor'' (process_prompt c facts_id rv) ''ProposalFacts'')
       (\<lambda>f.
     bindP (checkP (fct_facts_id f = facts_id \<and> fct_revision_id f = rev_revision_id rv)
              (HarnessError ''Processor returned identifiers not bound to the invocation'')) (\<lambda>_.
     returnP f)))"

definition review_prompt :: "claude \<Rightarrow> string \<Rightarrow> revision \<Rightarrow> facts \<Rightarrow> string" where
  "review_prompt c review_id rv f =
     ''Independently review this revision and its validated facts. Return only APPROVE, '' @
     ''REQUEST_CHANGES, or REJECT through the schema. Echo all supplied IDs exactly.'' @ [CHR 0x0A, CHR 0x0A] @
     ''review_id='' @ review_id @ [CHR 0x0A] @ ''proposal_id='' @ rev_proposal_id rv @ [CHR 0x0A] @
     ''revision_id='' @ rev_revision_id rv @ [CHR 0x0A] @ ''revision:'' @ [CHR 0x0A] @ rev_markdown rv @ [CHR 0x0A, CHR 0x0A] @
     ''facts:'' @ [CHR 0x0A] @ ca_facts_json c f"

definition claude_review :: "claude \<Rightarrow> revision \<Rightarrow> facts \<Rightarrow> ('z claude_service_scheme, review) prog" where
  "claude_review c rv f =
     bindP (fresh_id ''review'') (\<lambda>review_id.
     bindP (claude_invoke c (ca_review_of c) (ca_review_dump c) ''reviewer'' (review_prompt c review_id rv f) ''Review'')
       (\<lambda>v.
     bindP (checkP (rvw_review_id v = review_id \<and> rvw_proposal_id v = rev_proposal_id rv \<and>
                    rvw_revision_id v = rev_revision_id rv)
              (HarnessError ''Reviewer returned identifiers not bound to the invocation'')) (\<lambda>_.
     returnP v)))"

datatype controller_result = Controller string int string

text \<open>The third role; \<open>control_of\<close> is the validation of its answer.\<close>

definition control_prompt :: "string \<Rightarrow> int \<Rightarrow> string" where
  "control_prompt assignment_id generation =
     ''Request deterministic Worker Driver ownership transfer for the supplied assignment. '' @
     ''Do not construct commands or recovery actions.'' @ [CHR 0x0A] @
     ''assignment_id='' @ assignment_id @ [CHR 0x0A] @ ''dispatch_generation='' @ show_int generation"

fun controller_dump :: "controller_result \<Rightarrow> json" where
  "controller_dump (Controller a g h) =
     JObj [(''assignment_id'', JStr a), (''dispatch_generation'', JInt g), (''supervisor_handle'', JStr h)]"

definition claude_control ::
  "claude \<Rightarrow> (string \<Rightarrow> exn + controller_result) \<Rightarrow> string \<Rightarrow> int \<Rightarrow> ('z claude_service_scheme, string) prog" where
  "claude_control c control_of assignment_id generation =
     bindP (claude_invoke c control_of controller_dump ''worker-controller'' (control_prompt assignment_id generation)
              ''ControllerResult'') (\<lambda>r. case r of Controller a g h \<Rightarrow>
     if a \<noteq> assignment_id \<or> g \<noteq> generation
     then raiseP (HarnessError ''Controller returned identifiers not bound to the invocation'')
     else returnP h)"

definition fake_control :: "string \<Rightarrow> int \<Rightarrow> string" where
  "fake_control assignment_id generation = ''fake-supervisor:'' @ assignment_id @ '':'' @ show_int generation"

text \<open>The environment of the process: a fixed part and the named variables that have a value.\<close>

definition minimal_environment :: "(string \<rightharpoonup> string) \<Rightarrow> (string \<times> string) list" where
  "minimal_environment env =
     [(''HOME'', case env ''HOME'' of None \<Rightarrow> ''/root'' | Some v \<Rightarrow> v),
      (''PATH'', case env ''PATH'' of None \<Rightarrow> ''/usr/bin:/bin'' | Some v \<Rightarrow> v),
      (''DISABLE_UPDATES'', ''1''), (''CLAUDE_CODE_SUBPROCESS_ENV_SCRUB'', ''1'')] @
     concat (map (\<lambda>n. case env n of None \<Rightarrow> [] | Some v \<Rightarrow> if v = [] then [] else [(n, v)])
       [''ANTHROPIC_API_KEY'', ''ANTHROPIC_AUTH_TOKEN'', ''ANTHROPIC_BASE_URL'', ''HTTP_PROXY'',
        ''HTTPS_PROXY'', ''NO_PROXY''])"

section \<open>What the adapter does to the state\<close>

locale claude_effect = world_effect R for R :: "'z claude_service_scheme \<Rightarrow> 'z claude_service_scheme \<Rightarrow> bool" +
  assumes R_commands: "R s (s\<lparr>cl_commands := x\<rparr>)" and R_looks: "R s (s\<lparr>cl_looks := n\<rparr>)"
    and R_slept: "R s (s\<lparr>cl_slept := y\<rparr>)"
begin

lemma eff_run_process: "obeys R (run_process argv)"
  unfolding run_process_def
  by (intro eff_bind eff_read eff_return) (simp add: obeys_def R_commands)

lemma eff_is_file: "obeys R (is_file p)"
  unfolding is_file_def by (intro eff_bind eff_read eff_return) (simp add: obeys_def R_looks)

lemma eff_sleep: "obeys R (sleep n)"
  by (simp add: sleep_def obeys_def R_slept)

lemma eff_handlers:
  "obeys R (write_audit i a)" "obeys R (attempt_failed c i a e b)" "obeys R (launch_failed c i a n)"
  unfolding launch_failed_def attempt_failed_def write_audit_def by (intro eff_bind eff_store eff_raise)+

lemma eff_run_finished: "obeys R (run_finished c validate dump i a code out err)"
  unfolding run_finished_def Let_def
  by (auto split: sum.split intro!: eff_catch eff_bind eff_handlers eff_return eff_raise)

lemma eff_attempt: "obeys R (claude_attempt c validate dump role command prompt version n)"
  unfolding claude_attempt_def Let_def
  by (intro eff_bind eff_store eff_read eff_run_process)
     (auto split: run_result.split intro!: eff_bind eff_store eff_run_finished eff_handlers eff_return eff_raise)

lemma eff_attempts: "obeys R (claude_attempts c validate dump role command prompt version n remaining)"
proof (induction remaining arbitrary: n)
  case (Suc remaining)
  show ?case
    unfolding claude_attempts.simps
    by (intro eff_bind eff_attempt) (auto split: option.split intro!: eff_bind eff_return eff_when eff_sleep Suc)
qed (simp add: eff_raise)

lemma eff_invoke: "obeys R (claude_invoke c validate dump role prompt model)"
  unfolding claude_invoke_def Let_def cli_version_def
  by (intro eff_bind eff_is_file eff_if eff_raise eff_run_process eff_attempts)
     (auto split: run_result.split intro: eff_raise eff_return)

lemma eff_process: "obeys R (claude_process c rv)"
  unfolding claude_process_def by (intro eff_bind eff_store eff_invoke eff_check eff_return)

lemma eff_review: "obeys R (claude_review c rv f)"
  unfolding claude_review_def by (intro eff_bind eff_store eff_invoke eff_check eff_return)

lemma harness_obeys: "harness_obeys R (co\<lparr>co_process := claude_process c, co_review := claude_review c\<rparr>)"
  by (simp add: harness_obeys_def eff_process eff_review)

end

interpretation claude_records: claude_effect same_records
  by unfold_locales (auto simp: same_records_def append_line_def)

text \<open>
  The agent cannot touch the proposals: whatever its processes do and however its disk fails, the
  adapter keeps the contract that the theorems about the proposal service ask of a harness.
\<close>

theorem claude_keeps_contract:
  "harness_obeys same_records (co\<lparr>co_process := claude_process c, co_review := claude_review c\<rparr>)"
  by (rule claude_records.harness_obeys)

section \<open>How often it runs the agent\<close>

text \<open>At most \<open>n\<close> processes and \<open>w\<close> seconds of waiting between them.\<close>

definition spends :: "nat \<Rightarrow> nat \<Rightarrow> ('z claude_service_scheme, 'a) prog \<Rightarrow> bool" where
  "spends n w m \<longleftrightarrow> (\<forall>s. length (cl_commands (snd (m s))) \<le> length (cl_commands s) + n \<and>
     sum_list (cl_slept (snd (m s))) \<le> sum_list (cl_slept s) + w)"

definition idle :: "'z claude_service_scheme \<Rightarrow> 'z claude_service_scheme \<Rightarrow> bool" where
  "idle s t \<longleftrightarrow> cl_commands t = cl_commands s \<and> cl_slept t = cl_slept s"

interpretation idle: world_effect idle
  by unfold_locales (auto simp: idle_def append_line_def)

lemma spends_idle: "obeys idle m \<Longrightarrow> spends 0 0 m"
  by (simp add: obeys_def idle_def spends_def)

lemma spends_more: "spends n w m \<Longrightarrow> n \<le> n' \<Longrightarrow> w \<le> w' \<Longrightarrow> spends n' w' m"
  unfolding spends_def by (meson add_left_mono le_trans)

lemma spends_bind:
  assumes "spends n w m" and "\<And>x. spends k v (f x)"
  shows "spends (n + k) (w + v) (bindP m f)"
  unfolding spends_def
proof
  fix s
  obtain r t where m: "m s = (r, t)" by (rule prod.exhaust)
  have t: "length (cl_commands t) \<le> length (cl_commands s) + n \<and> sum_list (cl_slept t) \<le> sum_list (cl_slept s) + w"
    using assms(1) m unfolding spends_def by (metis snd_conv)
  show "length (cl_commands (snd (bindP m f s))) \<le> length (cl_commands s) + (n + k) \<and>
      sum_list (cl_slept (snd (bindP m f s))) \<le> sum_list (cl_slept s) + (w + v)"
  proof (cases r)
    case (Inr x)
    have "length (cl_commands (snd (f x t))) \<le> length (cl_commands t) + k \<and>
        sum_list (cl_slept (snd (f x t))) \<le> sum_list (cl_slept t) + v"
      using assms(2) unfolding spends_def by blast
    then show ?thesis using t Inr m by (simp add: bindP_def)
  qed (use t m in \<open>simp add: bindP_def\<close>)
qed

lemma spends_run: "spends 1 0 (run_process argv)"
  by (simp add: spends_def run_process_def bindP_def)

lemma spends_files: "spends 0 0 (is_file p)"
  by (simp add: spends_def is_file_def bindP_def)

lemma spends_raise: "spends n w (raiseP e)"
  by (simp add: spends_def)

lemma idle_handlers:
  "obeys idle (write_audit i a)" "obeys idle (attempt_failed c i a e b)" "obeys idle (launch_failed c i a n)"
  unfolding launch_failed_def attempt_failed_def write_audit_def by (intro idle.eff_bind idle.eff_store idle.eff_raise)+

lemma idle_run_finished: "obeys idle (run_finished c validate dump i a code out err)"
  unfolding run_finished_def Let_def
  by (auto split: sum.split intro!: idle.eff_catch idle.eff_bind idle_handlers idle.eff_return idle.eff_raise)

lemma spends_attempt: "spends 1 0 (claude_attempt c validate dump role command prompt version n)"
proof -
  have result: "spends 0 0 (case result of
        Ran code out err \<Rightarrow> bindP utc_now (\<lambda>ended. run_finished c validate dump i (a ended code out err) code out err)
      | Ran_out \<Rightarrow> bindP (attempt_failed c i b ''timeout'' True) (\<lambda>_. returnP None)
      | Not_launched n \<Rightarrow> launch_failed c i b n
      | Run_raised e \<Rightarrow> raiseP e)" for result i a b
    by (rule spends_idle)
       (auto split: run_result.split intro!: idle.eff_bind idle.eff_store idle_run_finished idle_handlers
          idle.eff_return idle.eff_raise)
  have "spends (0 + (0 + (0 + (1 + 0)))) (0 + (0 + (0 + (0 + 0)))) (claude_attempt c validate dump role command prompt version n)"
    unfolding claude_attempt_def Let_def
    by (intro spends_bind spends_run result spends_idle idle.eff_store idle.eff_read)
  then show ?thesis by simp
qed

lemma spends_retry:
  assumes "spends r (2 ^ Suc a * (2 ^ (r - 1) - 1)) m"
  shows "spends r (2 ^ a * (2 ^ r - 1)) (case x of Some v \<Rightarrow> returnP v | None \<Rightarrow>
    bindP (whenP (0 < r) (sleep (2 ^ (Suc a - 1)))) (\<lambda>_. m))"
proof (cases x)
  case None
  have sleep: "spends 0 (if 0 < r then 2 ^ a else 0) (whenP (0 < r) (sleep (2 ^ (Suc a - 1))))"
    by (simp add: spends_def whenP_def sleep_def)
  have more: "(if 0 < r then 2 ^ a else 0) + 2 ^ Suc a * (2 ^ (r - 1) - 1) \<le> (2 ^ a * (2 ^ r - 1) :: nat)"
    by (cases r) (simp_all add: algebra_simps diff_mult_distrib2)
  show ?thesis
    unfolding None option.case by (rule spends_more [OF spends_bind [OF sleep assms] _ more]) simp
next
  case (Some v)
  show ?thesis
    unfolding Some option.case by (rule spends_more [OF spends_idle [OF idle.eff_return]]) simp_all
qed

lemma spends_attempts:
  "spends r (2 ^ a * (2 ^ (r - 1) - 1)) (claude_attempts c validate dump role command prompt version (Suc a) r)"
proof (induction r arbitrary: a)
  case 0
  show ?case unfolding claude_attempts.simps by (rule spends_raise)
next
  case (Suc r)
  show ?case
    unfolding claude_attempts.simps
    by (rule spends_more [OF spends_bind [OF spends_attempt]], rule spends_retry, rule Suc) simp_all
qed

lemma spends_invoke:
  "spends (Suc (ca_max_attempts c)) (2 ^ (ca_max_attempts c - 1) - 1) (claude_invoke c validate dump role prompt model)"
proof -
  let ?n = "ca_max_attempts c"
  have version: "spends (1 + 0) (0 + 0) (cli_version c)"
    unfolding cli_version_def
    by (rule spends_bind [OF spends_run], rule spends_idle) (auto split: run_result.split intro: idle.eff_raise idle.eff_return)
  have "spends (0 + (0 + (1 + 0 + ?n))) (0 + (0 + (0 + 0 + 2 ^ 0 * (2 ^ (?n - 1) - 1))))
      (claude_invoke c validate dump role prompt model)"
    unfolding claude_invoke_def Let_def
    by (intro spends_bind [OF spends_files] spends_bind [OF version] spends_attempts [of ?n 0, unfolded One_nat_def [symmetric]]
        conjI impI spends_raise | split if_split)+
  then show ?thesis by simp
qed

lemma spends_start:
  assumes "\<And>i. spends n w (m i)" shows "spends n w (bindP (fresh_id p) m)"
  using spends_bind [OF spends_idle [OF idle.eff_fresh_id] assms] by simp

lemma spends_end: "spends n w m \<Longrightarrow> spends n w (bindP m (\<lambda>x. bindP (checkP (b x) e) (\<lambda>_. returnP x)))"
  using spends_bind [of n w m 0 0] spends_idle [OF idle.eff_bind [OF idle.eff_check idle.eff_return]] by fastforce


section \<open>What it answers is on record\<close>

text \<open>
  The audit record of an accepted answer: it holds the prompt, an exit code 0 and the output, and the
  answer is what the validation makes of the object in that output.
\<close>

definition audited ::
  "claude \<Rightarrow> (string \<Rightarrow> exn + 'a) \<Rightarrow> ('a \<Rightarrow> json) \<Rightarrow> string \<Rightarrow> string \<Rightarrow> 'a \<Rightarrow> 'z world_scheme \<Rightarrow> bool" where
  "audited c validate dump role prompt v s \<longleftrightarrow> (\<exists>i a out d.
     map_of (immutable s) (''harness'', json_name i) = Some (O_json a) \<and> jget a ''role'' = JStr role \<and>
     jget a ''input'' = JStr prompt \<and> jget a ''exit_code'' = JInt 0 \<and> jget a ''stdout'' = JStr out \<and>
     jget a ''validated_output'' = dump v \<and>
     structured_output out = Inr d \<and> validate (json_dumps True (ca_repr c) (JObj d)) = Inr v)"

lemma audit_written:
  "write_audit i a s = (Inr x, t) \<Longrightarrow> map_of (immutable t) (''harness'', json_name i) = Some (O_json a)"
  by (auto simp: write_audit_def write_immutable_def write_immutable_file_def file_op_def next_fault_def bindP_def
      update_conv split: if_splits io_fault.splits)

lemma launch_fails: "launch_failed c i a n s \<noteq> (Inr x, t)"
  by (auto simp: launch_failed_def bindP_def split: prod.splits sum.splits)

lemma catch_Inr: "catchP m b h s = (Inr x, t) \<Longrightarrow> (\<And>e u. h e u \<noteq> (Inr x, t)) \<Longrightarrow> m s = (Inr x, t)"
  by (auto simp: catchP_def split: prod.splits sum.splits if_splits)

lemma run_finished_audited:
  assumes "run_finished c validate dump i a code out err s = (Inr (Some v), t)"
    and "jget a ''role'' = JStr role" "jget a ''input'' = JStr prompt"
    and "jget a ''exit_code'' = JInt code" "jget a ''stdout'' = JStr out"
  shows "audited c validate dump role prompt v t"
proof (cases "code = 0")
  case True
  then obtain u where u: "bindE (structured_output out) (\<lambda>d. validate (json_dumps True (ca_repr c) (JObj d))) = Inr u"
      "catchP (bindP (write_audit i (json_update a [(''validated_output'', dump u)])) (\<lambda>_. returnP (Some u)))
         is_OSError (\<lambda>e. launch_failed c i (json_update a [(''validated_output'', dump u)]) (exn_name e)) s = (Inr (Some v), t)"
    using assms(1)
    by (auto simp: run_finished_def Let_def bindP_def [of "attempt_failed c i a e b" for e b]
        split: sum.splits if_splits prod.splits)
  have "bindP (write_audit i (json_update a [(''validated_output'', dump u)])) (\<lambda>_. returnP (Some u)) s = (Inr (Some v), t)"
    by (rule catch_Inr [OF u(2) launch_fails])
  then have "u = v" "map_of (immutable t) (''harness'', json_name i) = Some (O_json (json_update a [(''validated_output'', dump u)]))"
    by (auto simp: bindP_def dest: audit_written split: prod.splits sum.splits)
  moreover from u(1) obtain d where "structured_output out = Inr d" "validate (json_dumps True (ca_repr c) (JObj d)) = Inr u"
    by (auto simp: bindE_def split: sum.splits)
  ultimately show ?thesis
    using assms(2-5) True unfolding audited_def
    by (intro exI [of _ i] exI [of _ "json_update a [(''validated_output'', dump u)]"] exI [of _ out] exI [of _ d])
       (simp add: jget_def json_update_def update_conv)
next
  case False
  let ?a = "json_update a [(''retryable'', JBool (retryable_stderr err))]"
  have "bindP (write_audit i ?a) (\<lambda>_. if retryable_stderr err then returnP None
      else raiseP (HarnessError (''Claude Code exited with code '' @ show_int code))) s = (Inr (Some v), t)"
    using assms(1) False unfolding run_finished_def Let_def by (auto intro: catch_Inr [OF _ launch_fails])
  then show ?thesis by (auto simp: bindP_def split: prod.splits sum.splits if_splits)
qed

lemma ran_audit_fields:
  assumes a: "a = json_update (base_audit c cwd i role command prompt version n started)
    [(''ended_at'', JStr ended), (''exit_code'', JInt code), (''stdout'', JStr out), (''stderr'', JStr err)]"
  shows "jget a ''role'' = JStr role" "jget a ''input'' = JStr prompt"
    "jget a ''exit_code'' = JInt code" "jget a ''stdout'' = JStr out"
  by (simp_all add: a jget_def json_update_def base_audit_def)

lemma attempt_audited:
  assumes "claude_attempt c validate dump role command prompt version n s = (Inr (Some v), t)"
  shows "audited c validate dump role prompt v t"
proof -
  let ?Q = "\<lambda>r t. case r of None \<Rightarrow> True | Some v \<Rightarrow> audited c validate dump role prompt v t"
  have ends: "triple (\<lambda>_. True) (run_finished c validate dump i (json_update (base_audit c cwd i role command prompt version n started)
       [(''ended_at'', JStr e), (''exit_code'', JInt code), (''stdout'', JStr out), (''stderr'', JStr err)]) code out err)
      ?Q (\<lambda>_ _. True)" (is "triple _ ?m _ _") for i cwd started e code out err
  proof (rule tripleI)
    fix u
    show "case ?m u of (Inl e, t) \<Rightarrow> True | (Inr x, t) \<Rightarrow> ?Q x t"
    proof (cases "?m u")
      case (Pair r t)
      show ?thesis
      proof (cases r)
        case (Inr x)
        show ?thesis
        proof (cases x)
          case (Some v)
          have "audited c validate dump role prompt v t"
            using Pair Inr Some run_finished_audited [OF _ ran_audit_fields [OF refl]] by fastforce
          then show ?thesis using Pair Inr Some by simp
        qed (use Pair Inr in simp)
      qed (use Pair in simp)
    qed
  qed
  have result: "triple (\<lambda>_. True) (case result of
        Ran code out err \<Rightarrow>
          bindP utc_now (\<lambda>ended.
          run_finished c validate dump i (json_update (base_audit c cwd i role command prompt version n started)
            [(''ended_at'', JStr (ca_iso c ended)), (''exit_code'', JInt code), (''stdout'', JStr out), (''stderr'', JStr err)])
            code out err)
      | Ran_out \<Rightarrow> bindP (attempt_failed c i (base_audit c cwd i role command prompt version n started) ''timeout'' True) (\<lambda>_. returnP None)
      | Not_launched k \<Rightarrow> launch_failed c i (base_audit c cwd i role command prompt version n started) k
      | Run_raised e \<Rightarrow> raiseP e) ?Q (\<lambda>_ _. True)" for i cwd started result
  proof (cases result)
    case Ran_out
    have "triple (\<lambda>_. True) (returnP None) ?Q (\<lambda>_ _. True)" by (simp add: triple_def)
    then show ?thesis using Ran_out by (auto intro: triple_bind [OF triple_any])
  next
    case (Not_launched k)
    then show ?thesis using launch_fails by (fastforce simp: triple_def split: prod.split sum.split)
  next
    case (Run_raised e)
    then show ?thesis by (simp add: triple_def)
  qed (simp, intro triple_bind [OF triple_any] ends)
  have "triple (\<lambda>_. True) (claude_attempt c validate dump role command prompt version n) ?Q (\<lambda>_ _. True)"
    unfolding claude_attempt_def Let_def by (intro triple_bind [OF triple_any] result)
  then have "?Q (Some v) t" using assms by (rule triple_Inr [where P = "\<lambda>_. True", OF _ TrueI])
  then show ?thesis by simp
qed

lemma attempts_audited:
  "claude_attempts c validate dump role command prompt version n r s = (Inr v, t) \<Longrightarrow>
   audited c validate dump role prompt v t"
proof (induction r arbitrary: n s)
  case (Suc r)
  obtain x u where a: "claude_attempt c validate dump role command prompt version n s = (x, u)" by (rule prod.exhaust)
  show ?case
  proof (cases x)
    case (Inr o')
    show ?thesis
    proof (cases o')
      case None
      then show ?thesis using Suc a Inr by (auto simp: bindP_def split: prod.splits sum.splits)
    next
      case (Some w)
      then show ?thesis using Suc.prems a Inr attempt_audited by (fastforce simp: bindP_def)
    qed
  qed (use Suc.prems a in \<open>simp add: bindP_def\<close>)
qed simp

lemma invoke_audited:
  "claude_invoke c validate dump role prompt model s = (Inr v, t) \<Longrightarrow> audited c validate dump role prompt v t"
  unfolding claude_invoke_def Let_def
  by (auto simp: bindP_def split: prod.splits sum.splits if_splits dest: attempts_audited)

text \<open>
  C34. No review without its record: a review that the adapter returns is bound to the revision and
  carries the identifier drawn for it, and the store holds a run of the agent that was given the
  prompt for this identifier, this text and these facts, ended with exit code 0 and printed it.
\<close>

theorem review_is_on_record:
  assumes "claude_review c rv f s = (Inr v, t)"
  shows "fst (fresh_id ''review'' s) = Inr (rvw_review_id v) \<and>
    rvw_proposal_id v = rev_proposal_id rv \<and> rvw_revision_id v = rev_revision_id rv \<and>
    audited c (ca_review_of c) (ca_review_dump c) ''reviewer'' (review_prompt c (rvw_review_id v) rv f) v t"
proof -
  obtain x u where x: "fresh_id ''review'' s = (x, u)" by (rule prod.exhaust)
  with assms obtain i where i: "fresh_id ''review'' s = (Inr i, u)"
    by (cases x) (simp_all add: claude_review_def bindP_def)
  obtain v' u' where v': "claude_invoke c (ca_review_of c) (ca_review_dump c) ''reviewer'' (review_prompt c i rv f) ''Review'' u
      = (Inr v', u')" "v' = v" "t = u'" "rvw_review_id v = i" "rvw_proposal_id v = rev_proposal_id rv" "rvw_revision_id v = rev_revision_id rv"
    using assms i by (auto simp: claude_review_def bindP_def checkP_def split: prod.splits sum.splits if_splits)
  then show ?thesis using i invoke_audited by fastforce
qed

end
