(* ===== verification/Claude_Samples.thy ===== *)
theory Claude_Samples
  imports Claude_Adapter
begin

text \<open>
  A review by the agent: the version, an attempt that times out, a second one that approves.
\<close>

definition claude_world :: claude_service where
  "claude_world =
     \<lparr>clock = (\<lambda>n. int n), clock_no = 0, draws = (\<lambda>n. (int n, 0, 0)), draw_no = 0,
      faults = (\<lambda>_. IO_ok), fault_no = 0, store_root = ''/state'', immutable = [], snapshots = [], logs = [],
      sv_key_id = ''k'', sv_allowed_users = {}, sv_max_workers = 1,
      sv_allowed_worker_ids = [''worker-1''], sv_policy_version = ''v1'',
      sv_records = [], sv_idempotency = [], sv_exists = (\<lambda>_. {}), sv_exists_no = 0,
      cl_runs = (\<lambda>n. if n = 0 then Ran 0 ''2.1'' [] else if n = 1 then Ran_out
        else Ran 0 ''{\"structured_output\":{\"decision\":\"APPROVE\"}}'' []),
      cl_commands = [], cl_is_file = (\<lambda>_ _. True), cl_looks = 0, cl_slept = []\<rparr>"

definition agent_revision :: revision where
  "agent_revision = \<lparr>rev_revision_id = ''rev'', rev_proposal_id = ''prop'', rev_number = 1,
     rev_markdown = ''gpu: 1'', rev_created_at = 0\<rparr>"

definition agent_review :: review where
  "agent_review = \<lparr>rvw_review_id = (case fst (fresh_id ''review'' claude_world) of Inr i \<Rightarrow> i | Inl _ \<Rightarrow> []),
     rvw_proposal_id = ''prop'', rvw_revision_id = ''rev'', rvw_decision = APPROVE, rvw_rationale = ''ok'',
     rvw_created_at = 0\<rparr>"

definition agent_claude :: claude where
  "agent_claude = \<lparr>ca_executable = ''claude'', ca_prompts_dir = ''/prompts'', ca_mcp_config = ''/mcp.json'',
     ca_max_attempts = 3, ca_allowed_worker_ids = [''worker-1''], ca_schema = (\<lambda>m. m),
     ca_facts_of = (\<lambda>_. Inl (ValidationError ''facts'')),
     ca_review_of = (\<lambda>s. if s = ''{\"decision\":\"APPROVE\"}'' then Inr agent_review else Inl (ValidationError ''review'')),
     ca_facts_json = fct_facts_id, ca_facts_dump = (\<lambda>f. JStr (fct_facts_id f)),
     ca_review_dump = (\<lambda>v. JStr (rvw_review_id v)), ca_iso = show_int, ca_repr = (\<lambda>_. [])\<rparr>"

definition agent_facts :: facts where
  "agent_facts = fake_facts mvp_harness ''facts'' agent_revision 1"

lemma agent_approves:
  "fst (claude_review agent_claude agent_revision agent_facts claude_world) = Inr agent_review"
  by code_simp

theorem review_is_on_record_witness:
  "\<exists>t. claude_review agent_claude agent_revision agent_facts claude_world = (Inr agent_review, t) \<and>
     audited agent_claude (ca_review_of agent_claude) (ca_review_dump agent_claude) ''reviewer''
       (review_prompt agent_claude (rvw_review_id agent_review) agent_revision agent_facts) agent_review t"
proof -
  obtain t where t: "claude_review agent_claude agent_revision agent_facts claude_world = (Inr agent_review, t)"
    using agent_approves by (metis prod.collapse)
  then show ?thesis using review_is_on_record [OF t] by blast
qed

text \<open>Three processes ran, with one second between the attempts; there are two audit records.\<close>

lemma agent_run:
  "length (cl_commands (snd (claude_review agent_claude agent_revision agent_facts claude_world))) = 3"
  "cl_slept (snd (claude_review agent_claude agent_revision agent_facts claude_world)) = [1]"
  "length (immutable (snd (claude_review agent_claude agent_revision agent_facts claude_world))) = 2"
  by code_simp+

end
