(* ===== verification/Client_Tools.thy ===== *)
theory Client_Tools
  imports Configuration
begin

text \<open>
  The tools of the client, \<open>packages/client/src/agent_scheduler_client/tools.py\<close>: their schemas and
  the validation of their arguments against the same schemas.
\<close>

section \<open>The tools\<close>

datatype tool_constraint = Text | Number int "int option"

record tool =
  tl_name :: string
  tl_description :: string
  tl_properties :: "(string, tool_constraint) dict"
  tl_required :: "string list"

definition build_tools :: "string \<Rightarrow> tool list" where
  "build_tools user =
     [\<lparr>tl_name = ''create_proposal'',
        tl_description = ''Create a Proposal through the authoritative REST control plane. '' @
          ''The configured submitter username is `'' @ user @ ''`; use it exactly '' @
          ''in the Proposal Identity section.'',
        tl_properties = [(''markdown'', Text), (''idempotency_key'', Text)],
        tl_required = [''markdown'', ''idempotency_key'']\<rparr>,
      \<lparr>tl_name = ''reply'', tl_description = ''Submit a complete revised Proposal reply.'',
        tl_properties = [(''proposal_id'', Text), (''markdown'', Text), (''idempotency_key'', Text)],
        tl_required = [''proposal_id'', ''markdown'', ''idempotency_key'']\<rparr>,
      \<lparr>tl_name = ''confirm_revision'',
        tl_description = ''Explicitly confirm the current immutable revision for review.'',
        tl_properties = [(''proposal_id'', Text), (''revision_id'', Text), (''idempotency_key'', Text)],
        tl_required = [''proposal_id'', ''revision_id'', ''idempotency_key'']\<rparr>,
      \<lparr>tl_name = ''get_reviews'',
        tl_description = ''Read Reviewer decisions, rationale, and current normalized Facts.'',
        tl_properties = [(''proposal_id'', Text)], tl_required = [''proposal_id'']\<rparr>,
      \<lparr>tl_name = ''resume'', tl_description = ''Resume a recoverable Proposal state.'',
        tl_properties = [(''proposal_id'', Text), (''idempotency_key'', Text)],
        tl_required = [''proposal_id'', ''idempotency_key'']\<rparr>,
      \<lparr>tl_name = ''cancel'', tl_description = ''Cancel a non-terminal Proposal.'',
        tl_properties = [(''proposal_id'', Text)], tl_required = [''proposal_id'']\<rparr>,
      \<lparr>tl_name = ''get_proposal'', tl_description = ''Read current Proposal state.'',
        tl_properties = [(''proposal_id'', Text)], tl_required = [''proposal_id'']\<rparr>,
      \<lparr>tl_name = ''get_task'', tl_description = ''Read immutable Task and current status.'',
        tl_properties = [(''task_id'', Text)], tl_required = [''task_id'']\<rparr>,
      \<lparr>tl_name = ''cancel_task'', tl_description = ''Cancel a queued or running Task.'',
        tl_properties = [(''task_id'', Text)], tl_required = [''task_id'']\<rparr>,
      \<lparr>tl_name = ''wait_for_task'', tl_description = ''Poll Task state for at most 30 seconds.'',
        tl_properties = [(''task_id'', Text), (''timeout_seconds'', Number 1 (Some 30))],
        tl_required = [''task_id'']\<rparr>,
      \<lparr>tl_name = ''wait_for_events'', tl_description = ''Poll Proposal events for at most 30 seconds.'',
        tl_properties = [(''proposal_id'', Text), (''after_sequence'', Number 0 None),
          (''timeout_seconds'', Number 1 (Some 30))],
        tl_required = [''proposal_id'', ''after_sequence'']\<rparr>,
      \<lparr>tl_name = ''get_logs'', tl_description = ''Read Framework log bytes from an offset.'',
        tl_properties = [(''task_id'', Text), (''unit_id'', Text), (''execution_id'', Text), (''name'', Text),
          (''offset'', Number 0 None)],
        tl_required = [''task_id'', ''unit_id'', ''execution_id'', ''name'']\<rparr>]"

definition submitter_tools :: "string list" where
  "submitter_tools =
     [''create_proposal'', ''reply'', ''confirm_revision'', ''get_reviews'', ''resume'', ''cancel'',
      ''get_proposal'', ''get_task'', ''cancel_task'', ''wait_for_task'', ''wait_for_events'', ''get_logs'']"

fun constraint_json :: "tool_constraint \<Rightarrow> json" where
  "constraint_json Text = JObj [(''type'', JStr ''string''), (''minLength'', JInt 1)]"
| "constraint_json (Number lo None) = JObj [(''type'', JStr ''integer''), (''minimum'', JInt lo)]"
| "constraint_json (Number lo (Some hi)) =
     JObj [(''type'', JStr ''integer''), (''minimum'', JInt lo), (''maximum'', JInt hi)]"

definition tool_json :: "tool \<Rightarrow> json" where
  "tool_json t = JObj [(''name'', JStr (tl_name t)), (''description'', JStr (tl_description t)),
     (''inputSchema'', JObj [(''type'', JStr ''object''),
        (''properties'', JObj (map (\<lambda>(k, c). (k, constraint_json c)) (tl_properties t))),
        (''required'', JArr (map JStr (tl_required t))), (''additionalProperties'', JBool False)])]"

section \<open>Validation\<close>

definition name_list :: "string list \<Rightarrow> string" where
  "name_list ks = ''['' @ join '', '' (map (\<lambda>k. [CHR 0x27] @ k @ [CHR 0x27]) ks) @ '']''"

fun check_argument :: "tool_constraint \<Rightarrow> string \<Rightarrow> json \<Rightarrow> exn + unit" where
  "check_argument Text k v = (case v of
      JStr s \<Rightarrow> checkE (s \<noteq> []) (ValueError (k @ '' must not be empty''))
    | _ \<Rightarrow> Inl (TypeError (k @ '' must be a string'')))"
| "check_argument (Number lo hi) k v = (case v of
      JInt i \<Rightarrow>
        bindE (checkE (lo \<le> i) (ValueError (k @ '' must be at least '' @ show_int lo))) (\<lambda>_.
        case hi of
          None \<Rightarrow> Inr ()
        | Some h \<Rightarrow> checkE (i \<le> h) (ValueError (k @ '' must be between '' @ show_int lo @ '' and '' @ show_int h)))
    | _ \<Rightarrow> Inl (TypeError (k @ '' must be an integer'')))"

fun check_arguments :: "(string, tool_constraint) dict \<Rightarrow> (string \<times> json) list \<Rightarrow> exn + unit" where
  "check_arguments ps [] = Inr ()"
| "check_arguments ps ((k, v) # args) =
     bindE (case map_of ps k of Some c \<Rightarrow> check_argument c k v | None \<Rightarrow> Inl (KeyError k)) (\<lambda>_.
     check_arguments ps args)"

definition validate_tool_arguments :: "string \<Rightarrow> (string \<times> json) list \<Rightarrow> exn + unit" where
  "validate_tool_arguments name args = (case find (\<lambda>t. tl_name t = name) (build_tools []) of
      None \<Rightarrow> Inl (ValueError (''unknown tool: '' @ name))
    | Some t \<Rightarrow>
        let unexpected = sort (remdups (filter (\<lambda>k. k \<notin> set (map fst (tl_properties t))) (map fst args)));
            missing = filter (\<lambda>k. k \<notin> set (map fst args)) (tl_required t) in
        bindE (checkE (unexpected = []) (ValueError (''unexpected tool arguments: '' @ name_list unexpected))) (\<lambda>_.
        bindE (checkE (missing = []) (ValueError (''missing required tool arguments: '' @ name_list missing))) (\<lambda>_.
        check_arguments (tl_properties t) args)))"

section \<open>What validation means\<close>

text \<open>The schema as a predicate.\<close>

fun satisfies :: "tool_constraint \<Rightarrow> json \<Rightarrow> bool" where
  "satisfies Text v \<longleftrightarrow> (\<exists>s. v = JStr s \<and> s \<noteq> [])"
| "satisfies (Number lo hi) v \<longleftrightarrow> (\<exists>i. v = JInt i \<and> lo \<le> i \<and> (\<forall>h. hi = Some h \<longrightarrow> i \<le> h))"

lemma check_argument_iff: "check_argument c k v = Inr () \<longleftrightarrow> satisfies c v"
  by (cases c; cases v) (auto simp: bindE_Inr checkE_def split: option.splits)

lemma check_arguments_iff:
  "check_arguments ps args = Inr () \<longleftrightarrow> (\<forall>(k, v) \<in> set args. \<exists>c. map_of ps k = Some c \<and> satisfies c v)"
  by (induction ps args rule: check_arguments.induct)
     (auto simp: bindE_Inr check_argument_iff split: option.splits)

lemma none_left: "sort (remdups (filter P xs)) = [] \<longleftrightarrow> (\<forall>x \<in> set xs. \<not> P (x :: string))"
proof -
  have "sort (remdups (filter P xs)) = [] \<longleftrightarrow> set (sort (remdups (filter P xs))) = {}" by (simp only: set_empty)
  then show ?thesis by auto
qed

lemma tool_names: "map tl_name (build_tools u) = submitter_tools"
  by (simp add: build_tools_def submitter_tools_def)

text \<open>
  Arguments are accepted exactly when the tool exists, all required ones are there, none is unknown
  and each satisfies its schema.
\<close>

lemma validated_iff:
  "validate_tool_arguments name args = Inr () \<longleftrightarrow>
   (\<exists>t \<in> set (build_tools []). tl_name t = name \<and> set (tl_required t) \<subseteq> set (map fst args) \<and>
     (\<forall>(k, v) \<in> set args. \<exists>c. map_of (tl_properties t) k = Some c \<and> satisfies c v))"
  (is "_ \<longleftrightarrow> ?ok")
proof (cases "find (\<lambda>t. tl_name t = name) (build_tools [])")
  case None
  then have "validate_tool_arguments name args \<noteq> Inr ()" by (simp add: validate_tool_arguments_def)
  moreover have "\<not> ?ok" using None by (auto simp: find_None_iff)
  ultimately show ?thesis by blast
next
  case (Some t)
  have d: "distinct (map tl_name (build_tools []))" by (simp add: tool_names submitter_tools_def)
  have t: "t \<in> set (build_tools [])" "tl_name t = name" using Some by (auto simp: find_Some_iff)
  have only: "t' = t" if "t' \<in> set (build_tools [])" "tl_name t' = name" for t'
    using d t that by (metis distinct_map inj_onD)
  have "validate_tool_arguments name args = Inr () \<longleftrightarrow>
      (\<forall>k \<in> set (map fst args). k \<in> set (map fst (tl_properties t))) \<and>
      set (tl_required t) \<subseteq> set (map fst args) \<and> check_arguments (tl_properties t) args = Inr ()"
    by (simp add: validate_tool_arguments_def Some Let_def bindE_Inr none_left filter_empty_conv subset_eq)
  moreover have "(\<forall>k \<in> set (map fst args). k \<in> set (map fst (tl_properties t)))"
    if "check_arguments (tl_properties t) args = Inr ()"
  proof
    fix k
    assume "k \<in> set (map fst args)"
    then obtain v where "(k, v) \<in> set args" by auto
    with that obtain c where "map_of (tl_properties t) k = Some c" unfolding check_arguments_iff by blast
    then show "k \<in> set (map fst (tl_properties t))" by (metis map_of_eq_None_iff not_None_eq set_map)
  qed
  ultimately have "validate_tool_arguments name args = Inr () \<longleftrightarrow>
      set (tl_required t) \<subseteq> set (map fst args) \<and>
      (\<forall>(k, v) \<in> set args. \<exists>c. map_of (tl_properties t) k = Some c \<and> satisfies c v)"
    unfolding check_arguments_iff by blast
  then show ?thesis using only t by blast
qed

end
