(* ===== verification/Rest_Client.thy ===== *)
theory Rest_Client
  imports Client_Tools Http_App
begin

text \<open>
  The client of the HTTP interface, \<open>packages/client/src/agent_scheduler_client/rest.py\<close>: one request
  per tool, the reading of its answer, and the two tools that poll. The HTTP library is the argument
  \<open>transport\<close>; the other side of it is the field \<open>rw_far\<close> of the state.
\<close>

section \<open>Requests and answers\<close>

record rest_request =
  rq_method :: string
  rq_path :: string
  rq_params :: "(string \<times> int) list"
  rq_body :: "(string \<times> json) list option"
  rq_username :: string
  rq_key :: "string option"

record rest_response =
  rs_status :: int
  rs_content :: string
  rs_next_offset :: "string option"

text \<open>Time in nanoseconds: every look at the clock and every sleep takes a while the environment chooses.\<close>

record 'f rest_world =
  rw_far :: 'f
  rw_sent :: "rest_request list"
  rw_time :: nat
  rw_delays :: "nat \<Rightarrow> nat"
  rw_delay_no :: nat

text \<open>
  Sending, \<open>response.json\<close>, \<open>response.text\<close>, the URL of a request in messages, and the \<open>repr\<close> of
  values.
\<close>

record 'f transport =
  tr_send :: "rest_request \<Rightarrow> ('f, rest_response) prog"
  tr_json :: "string \<Rightarrow> exn + json"
  tr_text :: "string \<Rightarrow> string"
  tr_url :: "rest_request \<Rightarrow> string"
  tr_repr :: "json \<Rightarrow> string"

definition pass :: "nat \<Rightarrow> ('f rest_world, unit) prog" where
  "pass n = updateP (\<lambda>s. s\<lparr>rw_time := rw_time s + n + rw_delays s (rw_delay_no s), rw_delay_no := Suc (rw_delay_no s)\<rparr>)"

definition one_second :: nat where "one_second = 10 ^ 9"

definition exchange :: "'f transport \<Rightarrow> rest_request \<Rightarrow> ('f rest_world, rest_response) prog" where
  "exchange tr rq =
     bindP (updateP (\<lambda>s. s\<lparr>rw_sent := rw_sent s @ [rq]\<rparr>)) (\<lambda>_.
     zoom rw_far (\<lambda>v s. s\<lparr>rw_far := v\<rparr>) (tr_send tr rq))"

text \<open>The first \<open>n\<close> characters of a text in UTF-8.\<close>

fun py_take :: "nat \<Rightarrow> string \<Rightarrow> string" where
  "py_take n [] = []"
| "py_take n (c # s) =
     (if of_char c div 64 = (2 :: nat) then c # py_take n s
      else if n = 0 then [] else c # py_take (n - 1) s)"

definition error_detail :: "'f transport \<Rightarrow> rest_response \<Rightarrow> exn + string" where
  "error_detail tr rs =
     bindE (case tr_json tr (rs_content rs) of
         Inl e \<Rightarrow> if is_ValueError e then Inr JNull else Inl e
       | Inr v \<Rightarrow> Inr v) (\<lambda>body.
     let parts = (case body of
           JObj d \<Rightarrow>
             let m = jget d ''message''
             in filter py_truth [jget d ''error_code'', if py_truth m then m else jget d ''detail'']
         | _ \<Rightarrow> []);
         detail = join '' '' (map (py_str (tr_repr tr)) parts)
     in Inr (if detail = [] then py_take 500 (py_strip (tr_text tr (rs_content rs))) else detail))"

definition is_error :: "rest_response \<Rightarrow> bool" where
  "is_error rs \<longleftrightarrow> 400 \<le> rs_status rs \<and> rs_status rs \<le> 599"

definition raise_for_status :: "'f transport \<Rightarrow> rest_request \<Rightarrow> rest_response \<Rightarrow> exn + unit" where
  "raise_for_status tr rq rs =
     (if \<not> is_error rs then Inr ()
      else bindE (error_detail tr rs) (\<lambda>detail.
        Inl (MCPAdapterError (rq_method rq @ '' '' @ tr_url tr rq @ '' failed with HTTP '' @
          show_int (rs_status rs) @ '': '' @ (if detail = [] then ''no error body'' else detail)))))"

definition response_object :: "'f transport \<Rightarrow> rest_request \<Rightarrow> rest_response \<Rightarrow> exn + (string \<times> json) list" where
  "response_object tr rq rs =
     bindE (raise_for_status tr rq rs) (\<lambda>_.
     bindE (tr_json tr (rs_content rs)) (\<lambda>v. case v of
       JObj d \<Rightarrow> Inr d
     | _ \<Rightarrow> Inl (TypeError ''REST response must be a JSON object'')))"

definition header_key :: "string option \<Rightarrow> string option" where
  "header_key k = (if k = Some [] then None else k)"

definition post_request :: "string \<Rightarrow> string \<Rightarrow> (string \<times> json) list \<Rightarrow> string option \<Rightarrow> rest_request" where
  "post_request user path body key =
     \<lparr>rq_method = ''POST'', rq_path = path, rq_params = [], rq_body = Some body, rq_username = user,
      rq_key = header_key key\<rparr>"

definition get_request :: "string \<Rightarrow> string \<Rightarrow> (string \<times> int) list \<Rightarrow> rest_request" where
  "get_request user path params =
     \<lparr>rq_method = ''GET'', rq_path = path, rq_params = params, rq_body = None, rq_username = user, rq_key = None\<rparr>"

definition ask :: "'f transport \<Rightarrow> rest_request \<Rightarrow> ('f rest_world, (string \<times> json) list) prog" where
  "ask tr rq = bindP (exchange tr rq) (\<lambda>rs. liftE (response_object tr rq rs))"

section \<open>Waiting\<close>

lemma ask_time: "rw_time (snd (ask tr rq s)) = rw_time s"
  by (auto simp: ask_def exchange_def bindP_def zoom_def liftE_def split: prod.splits sum.splits)

lemma ask_same_time: "(r, t) = ask tr rq s \<Longrightarrow> rw_time t = rw_time s"
  using ask_time [of tr rq s] by (metis snd_conv)

text \<open>
  \<open>while True\<close>: ask, stop when the answer says so or the time is over, sleep for a second.
\<close>

function poll ::
  "'f transport \<Rightarrow> rest_request \<Rightarrow> ((string \<times> json) list \<Rightarrow> exn + bool) \<Rightarrow> nat
     \<Rightarrow> ('f rest_world, (string \<times> json) list) prog" where
  "poll tr rq stop deadline s = (case ask tr rq s of
      (Inl e, s) \<Rightarrow> (Inl e, s)
    | (Inr v, s) \<Rightarrow>
        (case stop v of
           Inl e \<Rightarrow> (Inl e, s)
         | Inr True \<Rightarrow> (Inr v, s)
         | Inr False \<Rightarrow>
             let s = snd (pass 0 s) in
             if deadline \<le> rw_time s then (Inr v, s)
             else poll tr rq stop deadline (snd (pass one_second s))))"
  by pat_completeness auto
termination
  by (relation "measure (\<lambda>(_, _, _, deadline, s). deadline - rw_time s)")
     (auto simp: pass_def one_second_def dest: ask_same_time)

declare poll.simps [simp del]

definition terminal_states :: "string list" where
  "terminal_states = [''BLOCKED'', ''COMPLETED'', ''FAILED'', ''CANCELLED'', ''CLEANUP_FAILED'']"

text \<open>A list or an object cannot be looked up in a set.\<close>

definition task_ended :: "(string \<times> json) list \<Rightarrow> exn + bool" where
  "task_ended v = (case jget v ''status'' of
      JObj st \<Rightarrow>
        (case jget st ''state'' of
           JStr x \<Rightarrow> Inr (x \<in> set terminal_states)
         | JArr _ \<Rightarrow> Inl (TypeError ''unhashable type: list'')
         | JObj _ \<Rightarrow> Inl (TypeError ''unhashable type: dict'')
         | _ \<Rightarrow> Inr False)
    | _ \<Rightarrow> Inr False)"

definition events_came :: "(string \<times> json) list \<Rightarrow> exn + bool" where
  "events_came v = Inr (case jget v ''events'' of JArr es \<Rightarrow> es \<noteq> [] | _ \<Rightarrow> False)"

definition wait_for ::
  "'f transport \<Rightarrow> rest_request \<Rightarrow> ((string \<times> json) list \<Rightarrow> exn + bool) \<Rightarrow> int
     \<Rightarrow> ('f rest_world, (string \<times> json) list) prog" where
  "wait_for tr rq stop timeout_seconds =
     bindP (pass 0) (\<lambda>_.
     bindP (readP rw_time) (\<lambda>now.
     poll tr rq stop (now + nat (min (max timeout_seconds 1) 30) * one_second)))"

section \<open>The operations\<close>

datatype operation =
    Op_create string string
  | Op_reply string string string
  | Op_confirm string string string
  | Op_reviews string
  | Op_resume string string
  | Op_cancel string
  | Op_proposal string
  | Op_task string
  | Op_cancel_task string
  | Op_wait_task string int
  | Op_wait_events string int int
  | Op_logs string string string string int

fun request_of :: "string \<Rightarrow> operation \<Rightarrow> rest_request" where
  "request_of u (Op_create m k) = post_request u ''/api/v1/proposals'' [(''markdown'', JStr m)] (Some k)"
| "request_of u (Op_reply p m k) =
     post_request u (''/api/v1/proposals/'' @ p @ ''/replies'') [(''markdown'', JStr m)] (Some k)"
| "request_of u (Op_confirm p r k) =
     post_request u (''/api/v1/proposals/'' @ p @ ''/confirm'') [(''revision_id'', JStr r)] (Some k)"
| "request_of u (Op_reviews p) = get_request u (''/api/v1/proposals/'' @ p @ ''/reviews'') []"
| "request_of u (Op_resume p k) = post_request u (''/api/v1/proposals/'' @ p @ ''/resume'') [] (Some k)"
| "request_of u (Op_cancel p) = post_request u (''/api/v1/proposals/'' @ p @ ''/cancel'') [] None"
| "request_of u (Op_proposal p) = get_request u (''/api/v1/proposals/'' @ p) []"
| "request_of u (Op_task t) = get_request u (''/api/v1/tasks/'' @ t) []"
| "request_of u (Op_cancel_task t) = post_request u (''/api/v1/tasks/'' @ t @ ''/cancel'') [] None"
| "request_of u (Op_wait_task t n) = get_request u (''/api/v1/tasks/'' @ t) []"
| "request_of u (Op_wait_events p a n) =
     get_request u (''/api/v1/proposals/'' @ p @ ''/events'') [(''after_sequence'', a)]"
| "request_of u (Op_logs t i e n offset) =
     get_request u (''/api/v1/logs/'' @ t @ ''/'' @ i @ ''/'' @ e @ ''/'' @ n) [(''offset'', offset)]"

definition log_object :: "'f transport \<Rightarrow> rest_request \<Rightarrow> int \<Rightarrow> rest_response \<Rightarrow> exn + (string \<times> json) list" where
  "log_object tr rq offset rs =
     bindE (raise_for_status tr rq rs) (\<lambda>_.
     let next_offset = (case Option.bind (rs_next_offset rs) py_int_text of None \<Rightarrow> -1 | Some i \<Rightarrow> i);
         expected = offset + int (length (rs_content rs)) in
     if next_offset < 0 \<or> next_offset \<noteq> expected
     then Inl (MCPAdapterError (py_take 200 (''invalid X-Next-Offset header: expected '' @ show_int expected @
            '', received '' @ (case rs_next_offset rs of None \<Rightarrow> ''None'' | Some t \<Rightarrow> tr_repr tr (JStr t)))))
     else Inr [(''data'', JStr (tr_text tr (rs_content rs))), (''next_offset'', JInt next_offset)])"

fun perform_operation :: "'f transport \<Rightarrow> string \<Rightarrow> operation \<Rightarrow> ('f rest_world, (string \<times> json) list) prog" where
  "perform_operation tr u (Op_wait_task t n) = wait_for tr (request_of u (Op_wait_task t n)) task_ended n"
| "perform_operation tr u (Op_wait_events p a n) = wait_for tr (request_of u (Op_wait_events p a n)) events_came n"
| "perform_operation tr u (Op_logs t i e name offset) =
     bindP (exchange tr (request_of u (Op_logs t i e name offset))) (\<lambda>rs.
     liftE (log_object tr (request_of u (Op_logs t i e name offset)) offset rs))"
| "perform_operation tr u operation = ask tr (request_of u operation)"

section \<open>Calls of tools\<close>

definition string_argument :: "(string \<times> json) list \<Rightarrow> string \<Rightarrow> exn + string" where
  "string_argument args name = (case jget args name of
      JStr s \<Rightarrow> Inr s
    | _ \<Rightarrow> Inl (MCPAdapterError (name @ '' must be a string'')))"

definition integer_argument :: "(string \<times> json) list \<Rightarrow> string \<Rightarrow> int \<Rightarrow> exn + int" where
  "integer_argument args name dflt = (case map_of args name of
      None \<Rightarrow> Inr dflt
    | Some (JInt i) \<Rightarrow> Inr i
    | Some _ \<Rightarrow> Inl (MCPAdapterError (name @ '' must be an integer'')))"

definition tool_operation :: "string \<Rightarrow> (string \<times> json) list \<Rightarrow> exn + operation" where
  "tool_operation name args =
     (let text = string_argument args; number = integer_argument args in
      if name = ''create_proposal'' then
        bindE (text ''markdown'') (\<lambda>m. bindE (text ''idempotency_key'') (\<lambda>k. Inr (Op_create m k)))
      else if name = ''reply'' then
        bindE (text ''proposal_id'') (\<lambda>p. bindE (text ''markdown'') (\<lambda>m. bindE (text ''idempotency_key'') (\<lambda>k.
        Inr (Op_reply p m k))))
      else if name = ''confirm_revision'' then
        bindE (text ''proposal_id'') (\<lambda>p. bindE (text ''revision_id'') (\<lambda>r. bindE (text ''idempotency_key'') (\<lambda>k.
        Inr (Op_confirm p r k))))
      else if name = ''get_reviews'' then bindE (text ''proposal_id'') (\<lambda>p. Inr (Op_reviews p))
      else if name = ''resume'' then
        bindE (text ''proposal_id'') (\<lambda>p. bindE (text ''idempotency_key'') (\<lambda>k. Inr (Op_resume p k)))
      else if name = ''cancel'' then bindE (text ''proposal_id'') (\<lambda>p. Inr (Op_cancel p))
      else if name = ''get_proposal'' then bindE (text ''proposal_id'') (\<lambda>p. Inr (Op_proposal p))
      else if name = ''get_task'' then bindE (text ''task_id'') (\<lambda>t. Inr (Op_task t))
      else if name = ''cancel_task'' then bindE (text ''task_id'') (\<lambda>t. Inr (Op_cancel_task t))
      else if name = ''wait_for_task'' then
        bindE (text ''task_id'') (\<lambda>t. bindE (number ''timeout_seconds'' 30) (\<lambda>n. Inr (Op_wait_task t n)))
      else if name = ''wait_for_events'' then
        bindE (text ''proposal_id'') (\<lambda>p. bindE (number ''after_sequence'' 0) (\<lambda>a.
        bindE (number ''timeout_seconds'' 30) (\<lambda>n. Inr (Op_wait_events p a n))))
      else if name = ''get_logs'' then
        bindE (text ''task_id'') (\<lambda>t. bindE (text ''unit_id'') (\<lambda>i. bindE (text ''execution_id'') (\<lambda>e.
        bindE (text ''name'') (\<lambda>n. bindE (number ''offset'' 0) (\<lambda>o'. Inr (Op_logs t i e n o'))))))
      else Inl (MCPAdapterError (''unknown tool: '' @ name)))"

fun is_invalid_argument :: "exn \<Rightarrow> bool" where
  "is_invalid_argument (TypeError _) = True"
| "is_invalid_argument e = is_ValueError e"

definition call_tool ::
  "'f transport \<Rightarrow> string \<Rightarrow> string \<Rightarrow> (string \<times> json) list \<Rightarrow> ('f rest_world, (string \<times> json) list) prog" where
  "call_tool tr u name args =
     (case validate_tool_arguments name args of
        Inl e \<Rightarrow> raiseP (if is_invalid_argument e then MCPAdapterError (exn_message e) else e)
      | Inr _ \<Rightarrow> bindP (liftE (tool_operation name args)) (perform_operation tr u))"

section \<open>What a tool does to the far side\<close>

text \<open>\<open>n\<close> requests of one kind were sent and answered, and nothing else.\<close>

definition did :: "'f transport \<Rightarrow> rest_request \<Rightarrow> nat \<Rightarrow> 'f rest_world \<Rightarrow> 'f rest_world \<Rightarrow> bool" where
  "did tr rq n s t \<longleftrightarrow> rw_sent t = rw_sent s @ replicate n rq \<and>
     rw_far t = ((\<lambda>f. snd (tr_send tr rq f)) ^^ n) (rw_far s)"

lemma did_exchange: "did tr rq 1 s (snd (exchange tr rq s))"
  by (simp add: did_def exchange_def bindP_def zoom_def split: prod.split)

lemma snd_bind_lift: "snd (bindP m (\<lambda>x. liftE (f x)) s) = snd (m s)"
  by (simp add: bindP_def liftE_def split: prod.split sum.split)

lemma did_ask: "did tr rq 1 s (snd (ask tr rq s))"
  unfolding ask_def snd_bind_lift by (rule did_exchange)

lemma did_pass: "did tr rq n s t \<Longrightarrow> did tr rq n s (snd (pass k t))"
  "did tr rq n (snd (pass k s)) t = did tr rq n s t"
  by (simp_all add: did_def pass_def)

lemma did_more:
  assumes "did tr rq n s t" and "did tr rq k t u" shows "did tr rq (n + k) s u"
proof -
  have "rw_far u = ((\<lambda>f. snd (tr_send tr rq f)) ^^ (k + n)) (rw_far s)"
    using assms by (simp add: did_def funpow_add)
  then show ?thesis using assms by (simp add: did_def replicate_add add.commute [of k n])
qed

text \<open>Rounding up: one round costs a whole unit.\<close>

lemma rounds_less:
  fixes S D E :: nat
  assumes "0 < S" and "0 < D" and "E + S \<le> D \<or> E = 0"
  shows "1 + (E + (S - 1)) div S \<le> (D + (S - 1)) div S"
proof (cases "E + S \<le> D")
  case True
  then have "(S + (E + (S - 1))) div S \<le> (D + (S - 1)) div S" by (intro div_le_mono) simp
  moreover have "(S + (E + (S - 1))) div S = 1 + (E + (S - 1)) div S" using assms(1) by (simp only: div_add_self1)
  ultimately show ?thesis by simp
next
  case False
  then have "E = 0" using assms(3) by simp
  moreover have "1 \<le> (D + (S - 1)) div S" using assms(1,2) by (simp add: div_greater_zero_iff Suc_le_eq)
  ultimately show ?thesis using assms(1) by simp
qed

lemma poll_did:
  "\<exists>n. 1 \<le> n \<and> n \<le> 1 + (deadline - rw_time s + (one_second - 1)) div one_second \<and>
     did tr rq n s (snd (poll tr rq stop deadline s))"
proof (induction "deadline - rw_time s" arbitrary: s rule: less_induct)
  case less
  obtain r u where a: "ask tr rq s = (r, u)" by (rule prod.exhaust)
  have u: "did tr rq 1 s u" "rw_time u = rw_time s" using did_ask [of tr rq s] ask_time [of tr rq s] a by simp_all
  define v where "v = snd (pass 0 u)"
  have v: "did tr rq 1 s v" "rw_time s \<le> rw_time v" using did_pass(1) [OF u(1), of 0] u(2) by (simp_all add: v_def pass_def)
  show ?case
  proof (cases "\<exists>x. r = Inr x \<and> stop x = Inr False \<and> \<not> deadline \<le> rw_time v")
    case True
    define w where "w = snd (pass one_second v)"
    have w: "did tr rq 1 s w" "rw_time v + one_second \<le> rw_time w" using did_pass(1) [OF v(1), of one_second] by (simp_all add: w_def pass_def)
    have "deadline - rw_time w < deadline - rw_time s" using True v(2) w(2) by (auto simp: one_second_def)
    from less [OF this] obtain n where n: "1 \<le> n" "n \<le> 1 + (deadline - rw_time w + (one_second - 1)) div one_second"
      "did tr rq n w (snd (poll tr rq stop deadline w))" by blast
    have p: "poll tr rq stop deadline s = poll tr rq stop deadline w"
      using True a by (subst poll.simps) (auto simp: v_def w_def Let_def)
    have "1 + (deadline - rw_time w + (one_second - 1)) div one_second \<le> (deadline - rw_time s + (one_second - 1)) div one_second"
      using True v(2) w(2) by (intro rounds_less) (auto simp: one_second_def)
    then show ?thesis using n did_more [OF w(1) n(3)] unfolding p by (intro exI [of _ "1 + n"]) simp
  next
    case False
    then have "did tr rq 1 s (snd (poll tr rq stop deadline s))"
      using a u v by (subst poll.simps) (auto simp: v_def Let_def split: sum.split bool.split)
    then show ?thesis by (intro exI [of _ 1]) simp
  qed
qed

lemma wait_did:
  "\<exists>n. 1 \<le> n \<and> n \<le> 31 \<and> did tr rq n s (snd (wait_for tr rq stop timeout s))"
proof -
  let ?s = "snd (pass 0 s)" and ?k = "nat (min (max timeout 1) 30)"
  have w: "wait_for tr rq stop timeout s = poll tr rq stop (rw_time ?s + ?k * one_second) ?s"
    by (simp add: wait_for_def bindP_def pass_def)
  obtain n where n: "1 \<le> n" "n \<le> 1 + (?k * one_second + (one_second - 1)) div one_second"
    "did tr rq n s (snd (wait_for tr rq stop timeout s))"
    using poll_did [of "rw_time ?s + ?k * one_second" ?s tr rq stop] unfolding w did_pass(2) by auto
  have "(?k * one_second + (one_second - 1)) div one_second \<le> 30"
  proof -
    have "?k \<le> 30" by simp
    then have "?k * one_second + (one_second - 1) < 31 * one_second" by (simp add: one_second_def)
    then show ?thesis using less_mult_imp_div_less by fastforce
  qed
  then show ?thesis using n by auto
qed

fun polls :: "operation \<Rightarrow> bool" where
  "polls (Op_wait_task t n) = True"
| "polls (Op_wait_events p a n) = True"
| "polls _ = False"

lemma perform_did:
  "\<exists>n. 1 \<le> n \<and> n \<le> 31 \<and> (\<not> polls x \<longrightarrow> n = 1) \<and> did tr (request_of u x) n s (snd (perform_operation tr u x s))"
proof (cases "polls x")
  case True
  then show ?thesis using wait_did by (cases x) (auto simp del: request_of.simps)
next
  case False
  then have "did tr (request_of u x) 1 s (snd (perform_operation tr u x s))"
    by (cases x) (simp_all del: request_of.simps One_nat_def add: did_ask did_exchange snd_bind_lift)
  then show ?thesis by (intro exI [of _ 1]) simp
qed

end
