(* ===== verification/Client_Routes.thy ===== *)
theory Client_Routes
  imports Rest_Client
begin

text \<open>
  The client and the master joined: the table of routes of \<open>src/agent_scheduler/api/app.py\<close>, which
  finds the handler of a request, is the far side of the client's \<open>transport\<close>.
\<close>

section \<open>The table of routes\<close>

definition param :: "(string \<times> int) list \<Rightarrow> string \<Rightarrow> int \<Rightarrow> int" where
  "param ps k dflt = (case map_of ps k of None \<Rightarrow> dflt | Some i \<Rightarrow> i)"

text \<open>The request models: exactly the declared fields, of the declared types.\<close>

definition text_body :: "(string \<times> json) list option \<Rightarrow> string \<Rightarrow> string option" where
  "text_body body k = (case body of
      Some [(k', JStr s)] \<Rightarrow> if k' = k then Some s else None
    | _ \<Rightarrow> None)"

definition admin_body :: "string list \<Rightarrow> (string \<times> json) list option \<Rightarrow> (string \<times> string) option" where
  "admin_body extra body = (case body of
      Some d \<Rightarrow>
        (case (jget d ''actor'', jget d ''reason'') of
           (JStr a, JStr r) \<Rightarrow> if set (map fst d) = set ([''actor'', ''reason''] @ extra) then Some (a, r) else None
         | _ \<Rightarrow> None)
    | None \<Rightarrow> None)"

definition users_body :: "(string \<times> json) list option \<Rightarrow> (string list \<times> string \<times> string) option" where
  "users_body body = (case (admin_body [''users''] body, body) of
      (Some ar, Some d) \<Rightarrow>
        (case jget d ''users'' of
           JArr us \<Rightarrow> map_option (\<lambda>xs. (xs, ar)) (those (map (\<lambda>v. case v of JStr s \<Rightarrow> Some s | _ \<Rightarrow> None) us))
         | _ \<Rightarrow> None)
    | _ \<Rightarrow> None)"

definition route_get :: "string list \<Rightarrow> (string \<times> int) list \<Rightarrow> http_call option" where
  "route_get segments ps =
     (if [] \<in> set segments then None else case segments of
        [a, x] \<Rightarrow>
          if a = ''proposals'' then Some (Show x)
          else if a = ''tasks'' then Some (Show_task x)
          else if a = ''observe'' \<and> x = ''summary'' then Some Summary else None
      | [a, x, b] \<Rightarrow>
          if a = ''proposals'' \<and> b = ''reviews'' then Some (Reviews x)
          else if a = ''proposals'' \<and> b = ''events'' then Some (Proposal_events x (param ps ''after_sequence'' 0))
          else None
      | [a, b, x, y] \<Rightarrow>
          if a = ''observe'' \<and> b = ''events'' then Some (Events x y (param ps ''after_sequence'' 0)) else None
      | [a, t, u, e, n] \<Rightarrow>
          if a = ''logs'' then Some (Get_log [t, u, e, n] (param ps ''offset'' 0) (param ps ''limit'' (64 * 1024)))
          else None
      | [a, b, t, u, e, n] \<Rightarrow>
          if a = ''observe'' \<and> b = ''logs''
          then Some (Observe_log [t, u, e, n] (map_of ps ''offset'') (param ps ''tail_lines'' 1000)) else None
      | _ \<Rightarrow> None)"

definition route_post :: "string list \<Rightarrow> (string \<times> json) list option \<Rightarrow> http_call option" where
  "route_post segments body =
     (if take 1 segments = [''observe''] \<and> 1 < length segments then Some Observe_write
      else if [] \<in> set segments then None else case segments of
        [a] \<Rightarrow> if a = ''proposals'' then map_option Create (text_body body ''markdown'') else None
      | [a, x] \<Rightarrow>
          if a = ''admin'' \<and> x = ''tick'' then map_option (\<lambda>(u, r). Tick u r) (admin_body [] body)
          else if a = ''admin'' \<and> x = ''drain'' then map_option (\<lambda>(u, r). Drain u r) (admin_body [] body)
          else if a = ''admin'' \<and> x = ''reload-users''
          then map_option (\<lambda>(us, u, r). Reload_users us u r) (users_body body)
          else None
      | [a, x, b] \<Rightarrow>
          if a = ''proposals'' \<and> b = ''replies'' then map_option (Reply x) (text_body body ''markdown'')
          else if a = ''proposals'' \<and> b = ''confirm'' then map_option (Confirm x) (text_body body ''revision_id'')
          else if a = ''proposals'' \<and> b = ''resume'' then Some (Resume x)
          else if a = ''proposals'' \<and> b = ''cancel'' then Some (Cancel x)
          else if a = ''tasks'' \<and> b = ''cancel'' then Some (Cancel_task x)
          else None
      | [a, b, x, d] \<Rightarrow>
          if a = ''admin'' \<and> b = ''proposals'' \<and> d = ''retry-compilation''
          then map_option (\<lambda>(u, r). Retry x u r) (admin_body [] body)
          else if a = ''admin'' \<and> b = ''executions'' \<and> d = ''reconcile''
          then map_option (\<lambda>(u, r). Reconcile x u r) (admin_body [] body)
          else None
      | _ \<Rightarrow> None)"

definition parse_call :: "rest_request \<Rightarrow> http_call option" where
  "parse_call rq =
     (if rq_path rq = ''/'' then (if rq_method rq = ''GET'' then Some Index else None)
      else if rq_path rq = ''/health'' then (if rq_method rq = ''GET'' then Some Health else None)
      else if \<not> starts_with ''/api/v1/'' (rq_path rq) then None
      else let segments = split_at_char CHR ''/'' (drop 8 (rq_path rq)) in
        if rq_method rq = ''GET'' then route_get segments (rq_params rq)
        else if rq_method rq = ''POST'' then route_post segments (rq_body rq)
        else None)"

section \<open>The master as the far side\<close>

text \<open>
  What the framework adds: the identifier it draws, what its validator reports, the bytes of an
  answer, and its own answers where no handler runs or one fails.
\<close>

record 's web =
  wb_uuid :: "rest_request \<Rightarrow> 's \<Rightarrow> string"
  wb_details :: "rest_request \<Rightarrow> json"
  wb_render :: "(string \<times> json) list \<Rightarrow> string"
  wb_refuse :: "rest_request \<Rightarrow> rest_response"
  wb_failed :: "exn \<Rightarrow> rest_response"
  wb_page :: string

definition web_head :: "'s web \<Rightarrow> rest_request \<Rightarrow> 's \<Rightarrow> http_request" where
  "web_head w rq s =
     \<lparr>hr_request_id = None, hr_uuid = wb_uuid w rq s, hr_username = Some (rq_username rq),
      hr_idempotency_key = rq_key rq, hr_details = wb_details w rq\<rparr>"

fun web_answer :: "'s web \<Rightarrow> answer \<Rightarrow> rest_response" where
  "web_answer w (Answer st body) = \<lparr>rs_status = st, rs_content = wb_render w body, rs_next_offset = None\<rparr>"
| "web_answer w (Chunk b n) = \<lparr>rs_status = 200, rs_content = b, rs_next_offset = Some (show_int n)\<rparr>"
| "web_answer w Page = \<lparr>rs_status = 200, rs_content = wb_page w, rs_next_offset = None\<rparr>"

definition master_send ::
  "('h, 'z) app_scheme web \<Rightarrow> ('k, 'p, 'h, ('h, 'z) app_scheme) app_config \<Rightarrow> rest_request
     \<Rightarrow> (('h, 'z) app_scheme, rest_response) prog" where
  "master_send w c rq = (\<lambda>s. case parse_call rq of
      None \<Rightarrow> (Inr (wb_refuse w rq), s)
    | Some x \<Rightarrow>
        (case answer_http c (web_head w rq s) x s of
           (Inl e, t) \<Rightarrow> (Inr (wb_failed w e), t)
         | (Inr a, t) \<Rightarrow> (Inr (web_answer w a), t)))"

section \<open>Every tool has its route\<close>

fun call_of :: "operation \<Rightarrow> http_call" where
  "call_of (Op_create m k) = Create m"
| "call_of (Op_reply p m k) = Reply p m"
| "call_of (Op_confirm p r k) = Confirm p r"
| "call_of (Op_reviews p) = Reviews p"
| "call_of (Op_resume p k) = Resume p"
| "call_of (Op_cancel p) = Cancel p"
| "call_of (Op_proposal p) = Show p"
| "call_of (Op_task t) = Show_task t"
| "call_of (Op_cancel_task t) = Cancel_task t"
| "call_of (Op_wait_task t n) = Show_task t"
| "call_of (Op_wait_events p a n) = Proposal_events p a"
| "call_of (Op_logs t u e n offset) = Get_log [t, u, e, n] offset (64 * 1024)"

text \<open>
  Identifiers the transport neither escapes nor normalises: words of letters, digits, \<open>_\<close>, \<open>-\<close> and
  \<open>.\<close>, but not \<open>.\<close> and \<open>..\<close> themselves.
\<close>

definition plain :: "string \<Rightarrow> bool" where
  "plain s \<longleftrightarrow> s \<notin> {[], ''.'', ''..''} \<and> list_all (\<lambda>c. is_alnum c \<or> c = CHR ''_'' \<or> c = CHR ''-'' \<or> c = CHR ''.'') s"

fun plain_operation :: "operation \<Rightarrow> bool" where
  "plain_operation (Op_create m k) = True"
| "plain_operation (Op_logs t u e n offset) = (plain t \<and> plain u \<and> plain e \<and> plain n)"
| "plain_operation (Op_reply p m k) = plain p"
| "plain_operation (Op_confirm p r k) = plain p"
| "plain_operation (Op_reviews p) = plain p"
| "plain_operation (Op_resume p k) = plain p"
| "plain_operation (Op_cancel p) = plain p"
| "plain_operation (Op_proposal p) = plain p"
| "plain_operation (Op_task t) = plain t"
| "plain_operation (Op_cancel_task t) = plain t"
| "plain_operation (Op_wait_task t n) = plain t"
| "plain_operation (Op_wait_events p a n) = plain p"

lemma plain_facts: "plain s \<Longrightarrow> CHR ''/'' \<notin> set s" "plain s \<Longrightarrow> s \<noteq> []" "plain s \<Longrightarrow> [] \<noteq> s"
proof -
  have "\<not> is_alnum CHR ''/''" by code_simp
  then show "plain s \<Longrightarrow> CHR ''/'' \<notin> set s" "plain s \<Longrightarrow> s \<noteq> []" "plain s \<Longrightarrow> [] \<noteq> s"
    by (auto simp: plain_def list_all_iff)
qed

lemma split_here: "CHR ''/'' \<notin> set s \<Longrightarrow> split_at_char CHR ''/'' (s @ CHR ''/'' # r) = s # split_at_char CHR ''/'' r"
  by (induction s) auto

lemma split_end: "CHR ''/'' \<notin> set s \<Longrightarrow> split_at_char CHR ''/'' s = [s]"
  by (induction s) auto

lemmas routing = parse_call_def starts_with_def Let_def plain_facts split_here split_end
  post_request_def get_request_def route_get_def route_post_def text_body_def param_def

lemma request_is_routed: "plain_operation x \<Longrightarrow> parse_call (request_of u x) = Some (call_of x)"
  by (cases x) (simp_all add: routing)

text \<open>Nothing escapes the identifiers: one with a slash in it reaches another route.\<close>

lemma identifier_not_escaped:
  "plain p \<Longrightarrow> parse_call (request_of u (Op_proposal (p @ ''/reviews''))) = Some (Reviews p)"
  by (simp add: routing)

text \<open>What the master does for a routed request.\<close>

lemma master_sent:
  "parse_call rq = Some x \<Longrightarrow> snd (master_send w c rq f) = snd (answer_http c (web_head w rq f) x f)"
  by (simp add: master_send_def split: prod.split sum.split)


end
