(* ===== verification/Client_Logs.thy ===== *)
theory Client_Logs
  imports Client_Routes Json_Roundtrip
begin

text \<open>
  Reading a log through the client: the chunks of \<open>get_log\<close> pass the offset check of \<open>get_logs\<close>, and
  calls that start where the one before ended return the whole file.
\<close>

definition log_place :: "('k, 'p, 'h, 's) app_config \<Rightarrow> string list \<Rightarrow> string" where
  "log_place c parts =
     ac_resolve c (ac_resolve c (path_join (st_state_root (ac_settings c)) ''framework-logs'') @
       concat (map (\<lambda>p. ''/'' @ p) parts))"

text \<open>The file lies below the log directory and every look shows the same bytes.\<close>

definition holds_log ::
  "('k, 'p, 'h, 's) app_config \<Rightarrow> string list \<Rightarrow> string \<Rightarrow> ('h, 'z) app_scheme \<Rightarrow> bool" where
  "holds_log c parts bytes f \<longleftrightarrow> (\<forall>k. ap_files f k (log_place c parts) = Some bytes) \<and>
     starts_with (ac_resolve c (path_join (st_state_root (ac_settings c)) ''framework-logs'') @ ''/'') (log_place c parts)"

text \<open>\<open>k\<close> calls, each from where the one before ended.\<close>

fun read_pieces ::
  "'f transport \<Rightarrow> string \<Rightarrow> (int \<Rightarrow> operation) \<Rightarrow> nat \<Rightarrow> int \<Rightarrow> ('f rest_world, json list) prog" where
  "read_pieces tr u x 0 offset = returnP []"
| "read_pieces tr u x (Suc k) offset =
     bindP (perform_operation tr u (x offset)) (\<lambda>v.
     bindP (read_pieces tr u x k (case jget v ''next_offset'' of JInt i \<Rightarrow> i | _ \<Rightarrow> -1)) (\<lambda>vs.
     returnP (jget v ''data'' # vs)))"

fun json_text :: "json \<Rightarrow> string" where
  "json_text (JStr s) = s"
| "json_text _ = []"

lemma log_file_held:
  assumes "holds_log c parts bytes f"
  shows "log_file c parts rid f = (Inr bytes, f\<lparr>ap_look_no := Suc (ap_look_no f)\<rparr>)"
  using assms by (simp add: log_file_def Let_def holds_log_def log_place_def framework_logs_def bindP_def)

lemma held_later: "holds_log c parts bytes f \<Longrightarrow> holds_log c parts bytes (f\<lparr>ap_look_no := n\<rparr>)"
  by (simp add: holds_log_def)

lemma log_sent:
  assumes "holds_log c [t, i, e, n] bytes f" and "plain_operation (Op_logs t i e n (int offset))"
  shows "master_send w c (request_of u (Op_logs t i e n (int offset))) f =
    (Inr \<lparr>rs_status = 200, rs_content = take (64 * 1024) (drop offset bytes),
       rs_next_offset = Some (show_int (int (offset + length (take (64 * 1024) (drop offset bytes)))))\<rparr>,
     f\<lparr>ap_look_no := Suc (ap_look_no f)\<rparr>)"
  unfolding master_send_def request_is_routed [OF assms(2)]
  by (simp del: request_of.simps
      add: answer_http_def answer_with_def catchP_def valid_call_def get_log_def bindP_def checkP_def
      log_file_held [OF assms(1)] read_chunk_def Let_def)

text \<open>\<open>int(str(n))\<close>.\<close>

lemma digits_grouped: "list_all is_digit s \<Longrightarrow> s \<noteq> [] \<Longrightarrow> digit_groups s"
proof (induction s rule: digit_groups.induct)
  case (3 c d s)
  have "\<not> is_digit CHR ''_''" by code_simp
  then show ?case using 3 by auto
qed simp_all

lemma digits_stripped: "list_all is_digit s \<Longrightarrow> py_strip s = s"
proof -
  have kept: "dropWhile is_space s = s" if "list_all is_digit s" for s
    using that by (cases s) (auto simp: is_space_def is_digit_code)
  assume "list_all is_digit s"
  then show ?thesis using kept [of s] kept [of "rev s"] by (simp add: py_strip_def)
qed

lemma int_of_shown: "py_int_text (show_int (int n)) = Some (int n)"
proof -
  note facts = show_nat_facts [of n]
  obtain c cs where c: "show_nat n = c # cs" "is_digit c" using facts by (cases "show_nat n") auto
  then have "c \<noteq> CHR ''-''" "c \<noteq> CHR ''+''" by (auto simp: is_digit_code)
  moreover have "filter is_digit (show_nat n) = show_nat n" using facts by (simp add: list_all_iff)
  moreover have "digit_groups (show_nat n)" using digits_grouped facts by blast
  ultimately show ?thesis
    using facts c digits_stripped [of "show_nat n"] by (simp add: py_int_text_def show_int_def Let_def)
qed

lemma log_piece:
  fixes offset :: nat
  defines "chunk bytes \<equiv> take (64 * 1024) (drop offset bytes)"
  assumes "tr_send tr = master_send w c" and "holds_log c [t, i, e, n] bytes (rw_far s)"
    and "plain_operation (Op_logs t i e n (int offset))"
  shows "\<exists>s'. perform_operation tr u (Op_logs t i e n (int offset)) s =
      (Inr [(''data'', JStr (tr_text tr (chunk bytes))), (''next_offset'', JInt (int (offset + length (chunk bytes))))], s') \<and>
      holds_log c [t, i, e, n] bytes (rw_far s')"
  using log_sent [OF assms(3,4), of w u] held_later [OF assms(3)] int_of_shown [of "offset + length (chunk bytes)"]
  by (simp del: request_of.simps add: chunk_def exchange_def bindP_def zoom_def assms(2) liftE_def log_object_def
      raise_for_status_def is_error_def Let_def)

lemma chunk_rest: "take m ys @ drop (length (take m ys)) ys = ys"
  by (cases "m \<le> length ys") auto

lemma pieces_from:
  assumes tr: "tr_send tr = master_send w c" and decode: "\<And>b. ascii_text b \<Longrightarrow> tr_text tr b = b"
    and plain: "\<And>offset. plain_operation (Op_logs t i e n offset)" and ascii: "ascii_text bytes"
  shows "holds_log c [t, i, e, n] bytes (rw_far s) \<Longrightarrow> length bytes \<le> offset + k * (64 * 1024) \<Longrightarrow>
    \<exists>pieces. fst (read_pieces tr u (Op_logs t i e n) k (int offset) s) = Inr pieces \<and>
      concat (map json_text pieces) = drop offset bytes"
proof (induction k arbitrary: offset s)
  case (Suc k)
  let ?chunk = "take (64 * 1024) (drop offset bytes)"
  obtain s' where s': "perform_operation tr u (Op_logs t i e n (int offset)) s =
      (Inr [(''data'', JStr (tr_text tr ?chunk)), (''next_offset'', JInt (int (offset + length ?chunk)))], s')"
    "holds_log c [t, i, e, n] bytes (rw_far s')"
    using log_piece [OF tr Suc.prems(1) plain] by blast
  have "ascii_text ?chunk" using ascii by (auto simp: ascii_text_def list_all_iff dest: in_set_takeD in_set_dropD)
  then have piece: "tr_text tr ?chunk = ?chunk" by (rule decode)
  have more: "length bytes \<le> (offset + length ?chunk) + k * (64 * 1024)" using Suc.prems(2) by simp
  obtain pieces where p: "fst (read_pieces tr u (Op_logs t i e n) k (int (offset + length ?chunk)) s') = Inr pieces"
    "concat (map json_text pieces) = drop (offset + length ?chunk) bytes"
    using Suc.IH [OF s'(2) more] by blast
  have "?chunk @ drop (offset + length ?chunk) bytes = drop offset bytes"
    using chunk_rest [of "64 * 1024" "drop offset bytes"] by (simp only: drop_drop add.commute)
  then have "fst (read_pieces tr u (Op_logs t i e n) (Suc k) (int offset) s) = Inr (JStr ?chunk # pieces) \<and>
      concat (map json_text (JStr ?chunk # pieces)) = drop offset bytes"
    using p s'(1) piece by (auto simp del: perform_operation.simps simp: bindP_def jget_def split: prod.split)
  then show ?case by blast
qed simp

text \<open>
  C32. A log is read completely: for a file of ASCII bytes that does not change, every call of \<open>get_logs\<close>
  passes the client's own check of the offset, and calls that each start where the one before ended
  return the file from its first byte to its last, with nothing lost or repeated.
\<close>

theorem client_reads_whole_log:
  assumes "tr_send tr = master_send w c" and "\<And>b. ascii_text b \<Longrightarrow> tr_text tr b = b"
    and "plain t" and "plain i" and "plain e" and "plain n" and "ascii_text bytes"
    and "holds_log c [t, i, e, n] bytes (rw_far s)" and "length bytes \<le> k * (64 * 1024)"
  shows "\<exists>pieces. fst (read_pieces tr u (Op_logs t i e n) k 0 s) = Inr pieces \<and>
    concat (map json_text pieces) = bytes"
  using pieces_from [OF assms(1,2) _ assms(7,8), of 0 k u] assms(3-6,9) by simp

end
