(* ===== verification/Mcp_Adapter.thy ===== *)
theory Mcp_Adapter
  imports Rest_Client
begin

text \<open>
  The adapter that offers the tools to an agent over standard input and output,
  \<open>packages/client/src/agent_scheduler_client/mcp.py\<close>: one JSON message per line, one answer for
  each but the notification of the client's start.
\<close>

section \<open>Messages\<close>

text \<open>\<open>json.dumps\<close> with its options \<open>sort_keys\<close>, \<open>ensure_ascii\<close> and \<open>separators\<close>.\<close>

fun json_format :: "bool \<Rightarrow> bool \<Rightarrow> string \<Rightarrow> string \<Rightarrow> (rat \<Rightarrow> string) \<Rightarrow> json \<Rightarrow> string" where
  "json_format srt ascii comma colon repr JNull = ''null''"
| "json_format srt ascii comma colon repr (JBool b) = (if b then ''true'' else ''false'')"
| "json_format srt ascii comma colon repr (JInt i) = show_int i"
| "json_format srt ascii comma colon repr (JNum x) = repr x"
| "json_format srt ascii comma colon repr (JStr t) = quoted ascii t"
| "json_format srt ascii comma colon repr (JArr vs) =
     ''['' @ join comma (map (json_format srt ascii comma colon repr) vs) @ '']''"
| "json_format srt ascii comma colon repr (JObj ms) =
     ''{'' @ join comma (map snd ((if srt then sort_key fst else id)
        (map (\<lambda>(k, v). (k, quoted ascii k @ colon @ json_format srt ascii comma colon repr v)) ms))) @ ''}''"

definition mcp_response :: "json \<Rightarrow> string \<times> json \<Rightarrow> json" where
  "mcp_response rid body = JObj [(''jsonrpc'', JStr ''2.0''), (''id'', rid), body]"

definition mcp_error :: "string \<Rightarrow> string \<times> json" where
  "mcp_error message = (''error'', JObj [(''code'', JInt (-32000)), (''message'', JStr message)])"

definition default_protocol :: json where "default_protocol = JStr ''2025-11-25''"

definition initialize_result :: "string \<Rightarrow> (string \<times> json) list \<Rightarrow> json" where
  "initialize_result version message =
     (let protocol = (case jget_or message ''params'' (JObj []) of
            JObj p \<Rightarrow> jget_or p ''protocolVersion'' default_protocol
          | _ \<Rightarrow> default_protocol)
      in JObj [(''protocolVersion'', protocol),
           (''capabilities'', JObj [(''tools'', JObj [(''listChanged'', JBool False)])]),
           (''serverInfo'', JObj [(''name'', JStr ''agent-scheduler-submitter''), (''version'', JStr version)])])"

definition call_result ::
  "'f transport \<Rightarrow> (rat \<Rightarrow> string) \<Rightarrow> string \<Rightarrow> (string \<times> json) list \<Rightarrow> ('f rest_world, json) prog" where
  "call_result tr repr u message = (case jget message ''params'' of
      JObj p \<Rightarrow>
        (case jget p ''name'' of
           JStr name \<Rightarrow>
             (case jget_or p ''arguments'' (JObj []) of
                JObj args \<Rightarrow>
                  bindP (call_tool tr u name args) (\<lambda>v.
                  returnP (JObj [(''content'', JArr [JObj [(''type'', JStr ''text''),
                      (''text'', JStr (json_format True False '', '' '': '' repr (JObj v)))]]),
                    (''isError'', JBool False)]))
              | _ \<Rightarrow> raiseP (MCPAdapterError ''tool arguments must be an object''))
         | _ \<Rightarrow> raiseP (MCPAdapterError ''tools/call requires name and arguments''))
    | _ \<Rightarrow> raiseP (MCPAdapterError ''tools/call requires name and arguments''))"

text \<open>The result of a message; \<open>None\<close> for the notification that gets no answer.\<close>

definition mcp_result ::
  "'f transport \<Rightarrow> (rat \<Rightarrow> string) \<Rightarrow> string \<Rightarrow> string \<Rightarrow> (string \<times> json) list \<Rightarrow> ('f rest_world, json option) prog" where
  "mcp_result tr repr u version message =
     (let verb = jget message ''method'' in
      if verb = JStr ''notifications/initialized'' then returnP None
      else if verb = JStr ''initialize'' then returnP (Some (initialize_result version message))
      else if verb = JStr ''tools/list'' then returnP (Some (JObj [(''tools'', JArr (map tool_json (build_tools u)))]))
      else if verb = JStr ''tools/call'' then bindP (call_result tr repr u message) (\<lambda>r. returnP (Some r))
      else raiseP (MCPAdapterError (''unsupported method: '' @ py_str (tr_repr tr) verb)))"

fun is_mcp_error :: "exn \<Rightarrow> bool" where
  "is_mcp_error (MCPAdapterError _) = True"
| "is_mcp_error (HTTPError _) = True"
| "is_mcp_error (JSONDecodeError _) = True"
| "is_mcp_error (TypeError _) = True"
| "is_mcp_error _ = False"

definition mcp_line ::
  "'f transport \<Rightarrow> (rat \<Rightarrow> string) \<Rightarrow> string \<Rightarrow> string \<Rightarrow> string \<Rightarrow> ('f rest_world, json option) prog" where
  "mcp_line tr repr u version line =
     (if py_strip line = [] then returnP None else case json_loads line of
        None \<Rightarrow> returnP (Some (mcp_response JNull (mcp_error ''invalid JSON'')))
      | Some (JObj message) \<Rightarrow>
          let rid = jget message ''id'' in
          catchP
            (bindP (mcp_result tr repr u version message) (\<lambda>r.
             returnP (map_option (\<lambda>v. mcp_response rid (''result'', v)) r)))
            is_mcp_error
            (\<lambda>e. returnP (Some (mcp_response rid (mcp_error (exn_message e)))))
      | Some _ \<Rightarrow> returnP (Some (mcp_response JNull (mcp_error ''JSON-RPC message must be an object''))))"

text \<open>The whole conversation: what was written, the exception that ended it if one did, the state.\<close>

fun run_stdio ::
  "'f transport \<Rightarrow> (rat \<Rightarrow> string) \<Rightarrow> string \<Rightarrow> string \<Rightarrow> string list \<Rightarrow> 'f rest_world
     \<Rightarrow> string list \<times> exn option \<times> 'f rest_world" where
  "run_stdio tr repr u version [] s = ([], None, s)"
| "run_stdio tr repr u version (line # lines) s = (case mcp_line tr repr u version line s of
      (Inl e, t) \<Rightarrow> ([], Some e, t)
    | (Inr r, t) \<Rightarrow>
        (case run_stdio tr repr u version lines t of (out, e, t) \<Rightarrow>
           ((case r of None \<Rightarrow> [] | Some v \<Rightarrow> [json_format False True '','' '':'' repr v @ [CHR 0x0A]]) @ out, e, t)))"

section \<open>Which exceptions occur\<close>

definition only_raises :: "(exn \<Rightarrow> bool) \<Rightarrow> ('s, 'a) prog \<Rightarrow> bool" where
  "only_raises P m \<longleftrightarrow> (\<forall>s e t. m s = (Inl e, t) \<longrightarrow> P e)"

lemma raises_bind: "only_raises P m \<Longrightarrow> (\<And>x. only_raises P (f x)) \<Longrightarrow> only_raises P (bindP m f)"
  unfolding only_raises_def bindP_def by (fastforce split: prod.splits sum.splits)

lemma raises_simple [simp]:
  "only_raises P (returnP x)" "only_raises P (readP f)" "only_raises P (updateP g)" "only_raises P (raiseP e) \<longleftrightarrow> P e"
  "only_raises P (liftE r) \<longleftrightarrow> (\<forall>e. r = Inl e \<longrightarrow> P e)" "only_raises P (pass n)"
  by (auto simp: only_raises_def liftE_def pass_def)

text \<open>The HTTP library raises its own errors; \<open>response.json\<close> fails on what is not JSON.\<close>

definition well_behaved :: "'f transport \<Rightarrow> bool" where
  "well_behaved tr \<longleftrightarrow> (\<forall>rq f e g. tr_send tr rq f = (Inl e, g) \<longrightarrow> (\<exists>m. e = HTTPError m)) \<and>
     (\<forall>b e. tr_json tr b = Inl e \<longrightarrow> (\<exists>m. e = JSONDecodeError m))"

lemma raises_exchange: "well_behaved tr \<Longrightarrow> only_raises is_mcp_error (exchange tr rq)"
  unfolding exchange_def
  by (rule raises_bind) (fastforce simp: only_raises_def zoom_def well_behaved_def split: prod.splits)+

lemma json_fails: "well_behaved tr \<Longrightarrow> tr_json tr b = Inl e \<Longrightarrow> \<exists>m. e = JSONDecodeError m"
  unfolding well_behaved_def by blast

lemma status_fails: "well_behaved tr \<Longrightarrow> raise_for_status tr rq rs = Inl e \<Longrightarrow> is_mcp_error e"
  by (auto simp: raise_for_status_def error_detail_def bindE_def Let_def dest!: json_fails split: if_splits sum.splits)

lemma object_fails: "well_behaved tr \<Longrightarrow> response_object tr rq rs = Inl e \<Longrightarrow> is_mcp_error e"
  by (auto simp: response_object_def bindE_def dest: status_fails json_fails split: sum.splits json.splits)

lemma log_fails: "well_behaved tr \<Longrightarrow> log_object tr rq n rs = Inl e \<Longrightarrow> is_mcp_error e"
  by (auto simp: log_object_def bindE_def Let_def dest: status_fails split: sum.splits if_splits)

lemma raises_ask: "well_behaved tr \<Longrightarrow> only_raises is_mcp_error (ask tr rq)"
  unfolding ask_def by (rule raises_bind [OF raises_exchange]) (auto dest: object_fails)

lemma stop_fails: "task_ended v = Inl e \<Longrightarrow> is_mcp_error e" "events_came v = Inl e \<Longrightarrow> is_mcp_error e"
  by (auto simp: task_ended_def events_came_def split: json.splits)

lemma poll_raises:
  assumes "well_behaved tr" and "\<And>v e. stop v = Inl e \<Longrightarrow> is_mcp_error e"
  shows "poll tr rq stop deadline s = (Inl e, t) \<Longrightarrow> is_mcp_error e"
proof (induction "deadline - rw_time s" arbitrary: s rule: less_induct)
  case less
  obtain r u where a: "ask tr rq s = (r, u)" by (rule prod.exhaust)
  show ?case
  proof (cases "\<exists>v. r = Inr v \<and> stop v = Inr False \<and> \<not> deadline \<le> rw_time (snd (pass 0 u))")
    case True
    let ?w = "snd (pass one_second (snd (pass 0 u)))"
    have "rw_time u = rw_time s" using a by (rule ask_same_time [OF sym])
    then have "deadline - rw_time ?w < deadline - rw_time s" using True by (auto simp: pass_def one_second_def)
    moreover have "poll tr rq stop deadline ?w = (Inl e, t)"
      using less.prems True a by (subst (asm) poll.simps) (auto simp: Let_def)
    ultimately show ?thesis by (rule less.hyps)
  next
    case False
    then show ?thesis
      using less.prems a raises_ask [OF assms(1), of rq] assms(2)
      by (subst (asm) poll.simps) (auto simp: only_raises_def Let_def split: sum.splits bool.splits if_splits)
  qed
qed

lemma raises_wait:
  "well_behaved tr \<Longrightarrow> (\<And>v e. stop v = Inl e \<Longrightarrow> is_mcp_error e) \<Longrightarrow> only_raises is_mcp_error (wait_for tr rq stop n)"
  unfolding wait_for_def
  by (intro raises_bind) (auto simp: only_raises_def [of _ "poll tr rq stop d" for d] dest: poll_raises)

lemma raises_perform: "well_behaved tr \<Longrightarrow> only_raises is_mcp_error (perform_operation tr u x)"
  by (cases x)
     (auto simp del: request_of.simps intro!: raises_ask raises_wait raises_bind raises_exchange dest: stop_fails log_fails)

lemma arguments_fail:
  "check_arguments ps args = Inl e \<Longrightarrow> set (map fst args) \<subseteq> set (map fst ps) \<Longrightarrow> is_invalid_argument e"
proof (induction ps args rule: check_arguments.induct)
  case (2 ps k v args)
  then obtain c where c: "map_of ps k = Some c" by (cases "map_of ps k") (auto simp: map_of_eq_None_iff)
  have "is_invalid_argument e" if "check_argument c k v = Inl e"
    using that by (cases c; cases v) (auto simp: bindE_def checkE_def split: if_splits option.splits)
  then show ?case using 2 c by (auto simp: bindE_def split: sum.splits)
qed simp

lemma validation_fails: "validate_tool_arguments name args = Inl e \<Longrightarrow> is_invalid_argument e"
proof (cases "find (\<lambda>t. tl_name t = name) (build_tools [])")
  case (Some t)
  assume "validate_tool_arguments name args = Inl e"
  then show ?thesis
    using Some arguments_fail [of "tl_properties t" args e]
    by (auto simp: validate_tool_arguments_def Let_def bindE_def checkE_def none_left subset_eq split: if_splits sum.splits)
qed (auto simp: validate_tool_arguments_def)

lemma operation_fails: "tool_operation name args = Inl e \<Longrightarrow> is_mcp_error e"
  unfolding tool_operation_def string_argument_def integer_argument_def Let_def bindE_def
  by (auto split: if_splits sum.splits json.splits option.splits)

lemma raises_call: "well_behaved tr \<Longrightarrow> only_raises is_mcp_error (call_tool tr u name args)"
  unfolding call_tool_def
  by (auto split: sum.split dest: validation_fails operation_fails intro!: raises_bind raises_perform)

lemma raises_result: "well_behaved tr \<Longrightarrow> only_raises is_mcp_error (mcp_result tr repr u version message)"
  unfolding mcp_result_def call_result_def Let_def
  by (auto split: json.split intro!: raises_bind raises_call)

section \<open>Every message is answered\<close>

text \<open>The lines that ask for an answer, and the identifier the answer has to carry.\<close>

definition awaits_answer :: "string \<Rightarrow> bool" where
  "awaits_answer line \<longleftrightarrow> py_strip line \<noteq> [] \<and>
     (case json_loads line of Some (JObj m) \<Rightarrow> jget m ''method'' \<noteq> JStr ''notifications/initialized'' | _ \<Rightarrow> True)"

definition line_id :: "string \<Rightarrow> json" where
  "line_id line = (case json_loads line of Some (JObj m) \<Rightarrow> jget m ''id'' | _ \<Rightarrow> JNull)"

definition answer_line :: "(rat \<Rightarrow> string) \<Rightarrow> string \<times> string \<times> json \<Rightarrow> string" where
  "answer_line repr = (\<lambda>(line, body). json_format False True '','' '':'' repr (mcp_response (line_id line) body) @ [CHR 0x0A])"

lemma result_of_asked:
  "mcp_result tr repr u version m s = (Inr r, t) \<Longrightarrow> r = None \<longleftrightarrow> jget m ''method'' = JStr ''notifications/initialized''"
  by (auto simp: mcp_result_def Let_def bindP_def split: if_splits prod.splits sum.splits)

lemma line_answered:
  assumes "well_behaved tr"
  shows "\<exists>r t. mcp_line tr repr u version line s = (Inr r, t) \<and>
    (if awaits_answer line then \<exists>k v. k \<in> {''result'', ''error''} \<and> r = Some (mcp_response (line_id line) (k, v)) else r = None)"
proof (cases "py_strip line = [] \<or> (\<forall>m. json_loads line \<noteq> Some (JObj m))")
  case True
  then show ?thesis
    by (auto simp: mcp_line_def awaits_answer_def line_id_def mcp_error_def split: option.split json.split)
next
  case False
  then obtain m where m: "py_strip line \<noteq> []" "json_loads line = Some (JObj m)" by blast
  obtain x t where x: "mcp_result tr repr u version m s = (x, t)" by (rule prod.exhaust)
  have "is_mcp_error e" if "x = Inl e" for e
    using raises_result [OF assms, of repr u version m] x that unfolding only_raises_def by blast
  moreover have "jget m ''method'' \<noteq> JStr ''notifications/initialized''" if "x = Inl e" for e
    using x that by (auto simp: mcp_result_def Let_def)
  ultimately show ?thesis
    using m x result_of_asked [of tr repr u version m s _ t]
    by (cases x) (auto simp: mcp_line_def awaits_answer_def line_id_def mcp_error_def bindP_def catchP_def Let_def)
qed


end
