(* ===== verification/Client_Samples.thy ===== *)
theory Client_Samples
  imports App_Samples Client_Logs Mcp_Adapter
begin

text \<open>The client talking to the sample master, for the witnesses.\<close>

definition toy_web :: "(unit fake_service_ext) app web" where
  "toy_web = \<lparr>wb_uuid = (\<lambda>_ _. ''u''), wb_details = (\<lambda>_. JNull), wb_render = (\<lambda>d. json_dumps True (\<lambda>_. []) (JObj d)),
     wb_refuse = (\<lambda>_. \<lparr>rs_status = 404, rs_content = ''{}'', rs_next_offset = None\<rparr>),
     wb_failed = (\<lambda>_. \<lparr>rs_status = 500, rs_content = ''{}'', rs_next_offset = None\<rparr>), wb_page = []\<rparr>"

definition toy_transport :: "(unit fake_service_ext) app transport" where
  "toy_transport = \<lparr>tr_send = master_send toy_web sample_app,
     tr_json = (\<lambda>b. case json_loads b of None \<Rightarrow> Inl (JSONDecodeError ''invalid JSON'') | Some v \<Rightarrow> Inr v),
     tr_text = id, tr_url = rq_path, tr_repr = (\<lambda>_. [])\<rparr>"

definition toy_world :: "(unit fake_service_ext) app \<Rightarrow> (unit fake_service_ext) app rest_world" where
  "toy_world f = \<lparr>rw_far = f, rw_sent = [], rw_time = 0, rw_delays = (\<lambda>_. 0), rw_delay_no = 0\<rparr>"

section \<open>A proposal over the tools\<close>

definition toy_arguments :: "(string \<times> json) list" where
  "toy_arguments = [(''markdown'', JStr good_proposal), (''idempotency_key'', JStr ''k1'')]"

lemma toy_arguments_valid:
  "validate_tool_arguments ''create_proposal'' toy_arguments = Inr ()"
  "tool_operation ''create_proposal'' toy_arguments = Inr (Op_create good_proposal ''k1'')"
  by code_simp+


section \<open>A log\<close>

definition log_master :: "(unit fake_service_ext) app" where
  "log_master = sample_master\<lparr>ap_files := \<lambda>_ _. Some ''all steps ok''\<rparr>"

lemma log_held: "holds_log sample_app [''t'', ''u'', ''e'', ''out.log''] ''all steps ok'' (rw_far (toy_world log_master))"
  by (simp add: holds_log_def log_place_def toy_world_def log_master_def starts_with_def)

theorem client_reads_whole_log_witness:
  "\<exists>pieces. fst (read_pieces toy_transport user (Op_logs ''t'' ''u'' ''e'' ''out.log'') 2 0 (toy_world log_master)) = Inr pieces \<and>
     concat (map json_text pieces) = ''all steps ok''"
proof (rule client_reads_whole_log [OF _ _ _ _ _ _ _ log_held])
  show "tr_send toy_transport = master_send toy_web sample_app" by (simp add: toy_transport_def)
  show "plain ''t''" "plain ''u''" "plain ''e''" "plain ''out.log''" by code_simp+
  show "ascii_text ''all steps ok''" by code_simp
qed (simp_all add: toy_transport_def)

section \<open>A conversation\<close>

definition toy_lines :: "string list" where
  "toy_lines = [''{\"id\":1,\"method\":\"initialize\"}'', ''{\"method\":\"notifications/initialized\"}'',
     '' '', ''{\"id\":2,\"method\":\"tools/call\",\"params\":{\"name\":\"fly\"}}'', ''nonsense'']"

lemma toy_well_behaved: "well_behaved toy_transport"
  by (auto simp: well_behaved_def toy_transport_def master_send_def split: option.splits prod.splits sum.splits)


end
