(* ===== verification/Runtime_Files.thy ===== *)
theory Runtime_Files
  imports Configuration Event_Store
begin

text \<open>
  The identity of a deployment, \<open>src/agent_scheduler/runtime.py\<close>: \<open>init_runtime\<close> creates the
  directories, the keys and the certificate once; the loaders read and check them. Paths are relative to
  the state root, \<open>.\<close> being the root itself. Key generation, the PEM forms and SHA-256 are
  arguments (\<open>identity_tools\<close>). What is a regular file can be read.
\<close>

section \<open>The directory tree\<close>

text \<open>Permissions, group and, for a file, content.\<close>

datatype rt_node = Rt_dir nat nat | Rt_file nat nat string

text \<open>
  \<open>dk_dir_mode\<close>, \<open>dk_file_mode\<close> and \<open>dk_group\<close> are what new entries get from the process; \<open>dk_cut\<close>
  is how much of a file an interrupted write leaves.
\<close>

record disk =
  dk_nodes :: "string \<Rightarrow> rt_node option"
  dk_dir_mode :: nat
  dk_file_mode :: nat
  dk_group :: nat
  dk_faults :: "nat \<Rightarrow> io_fault"
  dk_cut :: "nat \<Rightarrow> nat"
  dk_fault_no :: nat
  dk_generated :: nat

definition node_bytes :: "(string \<Rightarrow> rt_node option) \<Rightarrow> string \<Rightarrow> string option" where
  "node_bytes nodes p = (case nodes p of Some (Rt_file m g b) \<Rightarrow> Some b | _ \<Rightarrow> None)"

definition is_dir :: "(string \<Rightarrow> rt_node option) \<Rightarrow> string \<Rightarrow> bool" where
  "is_dir nodes p = (case nodes p of Some (Rt_dir m g) \<Rightarrow> True | _ \<Rightarrow> False)"

fun node_mode :: "rt_node \<Rightarrow> nat" where
  "node_mode (Rt_dir m g) = m"
| "node_mode (Rt_file m g b) = m"

fun node_group :: "rt_node \<Rightarrow> nat" where
  "node_group (Rt_dir m g) = g"
| "node_group (Rt_file m g b) = g"

fun with_mode :: "nat \<Rightarrow> rt_node \<Rightarrow> rt_node" where
  "with_mode m (Rt_dir _ g) = Rt_dir m g"
| "with_mode m (Rt_file _ g b) = Rt_file m g b"

fun with_group :: "nat \<Rightarrow> rt_node \<Rightarrow> rt_node" where
  "with_group g (Rt_dir m _) = Rt_dir m g"
| "with_group g (Rt_file m _ b) = Rt_file m g b"

section \<open>Operations on it\<close>

text \<open>One system call that sets the node at \<open>p\<close>: it may fail before, after or halfway through.\<close>

definition disk_op :: "string \<Rightarrow> rt_node \<Rightarrow> (nat \<Rightarrow> rt_node option) \<Rightarrow> (disk, unit) prog" where
  "disk_op p x half = (\<lambda>s.
     let n = dk_fault_no s; s = s\<lparr>dk_fault_no := Suc n\<rparr>; put = (\<lambda>x. s\<lparr>dk_nodes := (dk_nodes s)(p := x)\<rparr>) in
     case dk_faults s n of
       IO_ok \<Rightarrow> (Inr (), put (Some x))
     | IO_before \<Rightarrow> (Inl (OSError p), s)
     | IO_after \<Rightarrow> (Inl (OSError p), put (Some x))
     | IO_partial \<Rightarrow> (Inl (OSError p), put (half (dk_cut s n))))"

text \<open>\<open>mkdir(exist_ok=True)\<close>, \<open>chmod\<close>, \<open>_sync_group\<close> and the writing of a whole file.\<close>

definition make_dir :: "string \<Rightarrow> (disk, unit) prog" where
  "make_dir p = (\<lambda>s. case dk_nodes s p of
      Some (Rt_dir m g) \<Rightarrow> (Inr (), s)
    | Some (Rt_file m g b) \<Rightarrow> (Inl (FileExistsError p), s)
    | None \<Rightarrow> disk_op p (Rt_dir (dk_dir_mode s) (dk_group s)) (\<lambda>_. None) s)"

definition change_mode :: "string \<Rightarrow> nat \<Rightarrow> (disk, unit) prog" where
  "change_mode p m = (\<lambda>s. case dk_nodes s p of
      None \<Rightarrow> (Inl (FileNotFoundError p), s)
    | Some x \<Rightarrow> disk_op p (with_mode m x) (\<lambda>_. Some x) s)"

definition sync_group :: "string \<Rightarrow> string \<Rightarrow> (disk, unit) prog" where
  "sync_group p reference = (\<lambda>s. case (dk_nodes s reference, dk_nodes s p) of
      (Some r, Some x) \<Rightarrow> disk_op p (with_group (node_group r) x) (\<lambda>_. Some x) s
    | _ \<Rightarrow> (Inl (FileNotFoundError p), s))"

definition write_node :: "string \<Rightarrow> string \<Rightarrow> (disk, unit) prog" where
  "write_node p b = (\<lambda>s. case dk_nodes s p of
      Some (Rt_dir m g) \<Rightarrow> (Inl (OSError p), s)
    | Some (Rt_file m g _) \<Rightarrow> disk_op p (Rt_file m g b) (\<lambda>n. Some (Rt_file m g (take n b))) s
    | None \<Rightarrow> disk_op p (Rt_file (dk_file_mode s) (dk_group s) b)
        (\<lambda>n. Some (Rt_file (dk_file_mode s) (dk_group s) (take n b))) s)"

section \<open>Creating the identity\<close>

text \<open>
  The \<open>n\<close>-th generated keys, tokens and certificates; the loaders of PEM text, which give \<open>None\<close>
  for a key of another kind; the raw bytes of a public key.
\<close>

record ('k, 'p) identity_tools =
  it_key :: "nat \<Rightarrow> 'k"
  it_token :: "nat \<Rightarrow> string"
  it_certificate :: "nat \<Rightarrow> string \<times> string"
  it_public :: "'k \<Rightarrow> 'p"
  it_private_pem :: "'k \<Rightarrow> string"
  it_public_pem :: "'p \<Rightarrow> string"
  it_load_private :: "string \<Rightarrow> exn + 'k option"
  it_load_public :: "string \<Rightarrow> exn + 'p option"
  it_raw :: "'p \<Rightarrow> string"
  it_sha256 :: "string \<Rightarrow> string"
  it_utf8 :: "string \<Rightarrow> bool"

text \<open>Octal 700, 770 and 750 are 448, 504 and 488; 600 and 640 are 384 and 416.\<close>

definition runtime_directories :: "(string \<times> nat) list" where
  "runtime_directories =
     [(''immutable'', 448), (''events'', 448), (''snapshots'', 448), (''framework-logs'', 504),
      (''worker-inbox'', 504), (''outputs'', 504), (''qualification'', 448)]"

definition tls_certificate_path :: string where "tls_certificate_path = ''tls/certificate.pem''"

definition identity_paths :: "(string \<times> string) list" where
  "identity_paths =
     [(''worker_api_key'', ''secrets/worker-api-key''), (''key_id'', ''secrets/ed25519-key-id''),
      (''ed25519_private'', ''secrets/ed25519-private.pem''), (''ed25519_public'', ''secrets/ed25519-public.pem''),
      (''tls_certificate'', tls_certificate_path), (''tls_private_key'', ''secrets/tls-private-key.pem'')]"

definition make_directories :: "(disk, unit) prog" where
  "make_directories =
     bindP (make_dir ''.'') (\<lambda>_.
     bindP (change_mode ''.'' 488) (\<lambda>_.
     bindP (forP runtime_directories (\<lambda>(p, m). bindP (make_dir p) (\<lambda>_. change_mode p m))) (\<lambda>_.
     bindP (make_dir ''secrets'') (\<lambda>_.
     bindP (change_mode ''secrets'' 448) (\<lambda>_.
     bindP (make_dir ''tls'') (\<lambda>_.
     bindP (change_mode ''tls'' 488) (\<lambda>_.
     sync_group ''tls'' ''.'')))))))"

definition key_id_of :: "('k, 'p) identity_tools \<Rightarrow> string \<Rightarrow> string" where
  "key_id_of it public_bytes = ''ed25519-'' @ take 16 (it_sha256 it public_bytes)"

definition write_identity :: "('k, 'p) identity_tools \<Rightarrow> nat \<Rightarrow> (disk, unit) prog" where
  "write_identity it n =
     (let private = it_key it n; public_bytes = it_public_pem it (it_public it private);
          (tls_key, tls_certificate) = it_certificate it n in
      bindP (write_node ''secrets/worker-api-key'' (it_token it n @ [CHR 0x0A])) (\<lambda>_.
      bindP (write_node ''secrets/ed25519-key-id'' (key_id_of it public_bytes @ [CHR 0x0A])) (\<lambda>_.
      bindP (write_node ''secrets/ed25519-private.pem'' (it_private_pem it private)) (\<lambda>_.
      bindP (write_node ''secrets/ed25519-public.pem'' public_bytes) (\<lambda>_.
      bindP (write_node ''secrets/tls-private-key.pem'' tls_key) (\<lambda>_.
      write_node tls_certificate_path tls_certificate))))))"

definition protect_identity :: "(disk, unit) prog" where
  "protect_identity =
     bindP (forP identity_paths (\<lambda>(name, p). change_mode p (if name = ''tls_certificate'' then 416 else 384))) (\<lambda>_.
     sync_group tls_certificate_path ''.'')"

definition init_runtime :: "('k, 'p) identity_tools \<Rightarrow> string \<Rightarrow> (disk, (string \<times> string) list) prog" where
  "init_runtime it state_root =
     bindP make_directories (\<lambda>_.
     bindP (readP (\<lambda>s. list_ex (\<lambda>(_, p). dk_nodes s p \<noteq> None) identity_paths)) (\<lambda>exists.
     bindP (checkP (\<not> exists) (FileExistsError ''runtime identity already exists; refusing to overwrite'')) (\<lambda>_.
     bindP (readP dk_generated) (\<lambda>n.
     bindP (updateP (\<lambda>s. s\<lparr>dk_generated := Suc n\<rparr>)) (\<lambda>_.
     bindP (write_identity it n) (\<lambda>_.
     bindP protect_identity (\<lambda>_.
     returnP (map (\<lambda>(name, p). (name, path_join state_root p)) identity_paths))))))))"

section \<open>Loading it\<close>

record ('k, 'p) identity =
  id_key_id :: string
  id_private :: 'k
  id_public :: 'p
  id_worker_api_key :: string
  id_tls_certificate :: string
  id_tls_private_key :: string

definition bytes_at :: "(string \<Rightarrow> rt_node option) \<Rightarrow> string \<Rightarrow> string" where
  "bytes_at nodes p = (case node_bytes nodes p of Some b \<Rightarrow> b | None \<Rightarrow> [])"

definition demand_files :: "(string \<Rightarrow> rt_node option) \<Rightarrow> string list \<Rightarrow> string \<Rightarrow> exn + unit" where
  "demand_files nodes required message =
     (let missing = filter (\<lambda>p. node_bytes nodes p = None) required
      in checkE (missing = []) (FileNotFoundError (message @ join '', '' missing)))"

definition read_ascii :: "(string \<Rightarrow> rt_node option) \<Rightarrow> string \<Rightarrow> exn + string" where
  "read_ascii nodes p =
     bindE (checkE (list_all (\<lambda>c. byte c < 128) (bytes_at nodes p)) (ValueError ''not ASCII'')) (\<lambda>_.
     Inr (py_strip (bytes_at nodes p)))"

definition load_tls_certificate :: "(string \<Rightarrow> rt_node option) \<Rightarrow> exn + string" where
  "load_tls_certificate nodes =
     bindE (checkE (node_bytes nodes tls_certificate_path \<noteq> None)
       (FileNotFoundError (''TLS certificate is missing: '' @ tls_certificate_path))) (\<lambda>_. Inr tls_certificate_path)"

definition required_directories :: "string list" where
  "required_directories =
     [''immutable'', ''events'', ''snapshots'', ''framework-logs'', ''worker-inbox'', ''outputs'', ''secrets'', ''tls'']"

definition private_paths :: "('k, 'p) identity \<Rightarrow> string list" where
  "private_paths i = [''secrets/worker-api-key'', ''secrets/ed25519-private.pem'', id_tls_private_key i]"

text \<open>\<open>mode & 0o077\<close>; \<open>stat\<close> fails on what is not there.\<close>

fun insecure_paths :: "(string \<Rightarrow> rt_node option) \<Rightarrow> string list \<Rightarrow> exn + string list" where
  "insecure_paths nodes [] = Inr []"
| "insecure_paths nodes (p # ps) = (case nodes p of
      None \<Rightarrow> Inl (FileNotFoundError p)
    | Some x \<Rightarrow> bindE (insecure_paths nodes ps) (\<lambda>bad. Inr (if node_mode x mod 64 \<noteq> 0 then p # bad else bad)))"

definition validate_runtime :: "(string \<Rightarrow> rt_node option) \<Rightarrow> ('k, 'p) identity \<Rightarrow> exn + unit" where
  "validate_runtime nodes i =
     (let missing = filter (\<lambda>p. \<not> is_dir nodes p) required_directories in
      bindE (checkE (missing = []) (FileNotFoundError (''runtime directories are missing: '' @ join '', '' missing))) (\<lambda>_.
      bindE (insecure_paths nodes (private_paths i)) (\<lambda>insecure.
      bindE (checkE (insecure = [])
        (PermissionError (''runtime private files are too permissive: '' @ join '', '' insecure))) (\<lambda>_.
      checkE (id_key_id i \<noteq> [] \<and> 32 \<le> py_len (id_worker_api_key i)) (ValueError ''runtime key identity is invalid'')))))"

definition load_runtime :: "('k, 'p) identity_tools \<Rightarrow> (string \<Rightarrow> rt_node option) \<Rightarrow> exn + ('k, 'p) identity" where
  "load_runtime it nodes =
     bindE (demand_files nodes [''secrets/ed25519-private.pem'', ''secrets/ed25519-public.pem'', ''secrets/ed25519-key-id'',
        ''secrets/worker-api-key'', tls_certificate_path, ''secrets/tls-private-key.pem''] ''runtime identity is incomplete: '') (\<lambda>_.
     bindE (it_load_private it (bytes_at nodes ''secrets/ed25519-private.pem'')) (\<lambda>private.
     bindE (it_load_public it (bytes_at nodes ''secrets/ed25519-public.pem'')) (\<lambda>public.
     case (private, public) of
       (Some k, Some p) \<Rightarrow>
         bindE (checkE (it_raw it (it_public it k) = it_raw it p)
           (ValueError ''runtime public/private signing keys do not match'')) (\<lambda>_.
         bindE (read_ascii nodes ''secrets/ed25519-key-id'') (\<lambda>key_id.
         bindE (checkE (it_utf8 it (bytes_at nodes ''secrets/worker-api-key'')) (ValueError ''not UTF-8'')) (\<lambda>_.
         let i = \<lparr>id_key_id = key_id, id_private = k, id_public = p,
                  id_worker_api_key = py_strip (bytes_at nodes ''secrets/worker-api-key''),
                  id_tls_certificate = tls_certificate_path, id_tls_private_key = ''secrets/tls-private-key.pem''\<rparr> in
         bindE (validate_runtime nodes i) (\<lambda>_. Inr i))))
     | _ \<Rightarrow> Inl (TypeError ''runtime signing keys must be Ed25519''))))"

definition load_worker_runtime :: "('k, 'p) identity_tools \<Rightarrow> (string \<Rightarrow> rt_node option) \<Rightarrow> exn + string \<times> 'p" where
  "load_worker_runtime it nodes =
     bindE (demand_files nodes [''secrets/ed25519-public.pem'', ''secrets/ed25519-key-id'']
        ''Worker runtime identity is incomplete: '') (\<lambda>_.
     bindE (it_load_public it (bytes_at nodes ''secrets/ed25519-public.pem'')) (\<lambda>public. case public of
       None \<Rightarrow> Inl (TypeError ''runtime signing public key must be Ed25519'')
     | Some p \<Rightarrow>
         bindE (read_ascii nodes ''secrets/ed25519-key-id'') (\<lambda>key_id.
         bindE (checkE (key_id \<noteq> []) (ValueError ''runtime key identity is invalid'')) (\<lambda>_. Inr (key_id, p)))))"

section \<open>What loading guarantees\<close>

lemma insecure_none:
  "insecure_paths nodes ps = Inr [] \<longleftrightarrow> (\<forall>p \<in> set ps. \<exists>x. nodes p = Some x \<and> node_mode x mod 64 = 0)"
  by (induction nodes ps rule: insecure_paths.induct) (auto simp: bindE_def split: option.splits sum.splits)

text \<open>
  A loaded identity is whole: the public key is that of the private key, the key id and an API key of at
  least 32 characters are there, and nobody but the owner may read, write or execute the three
  private files.
\<close>

lemma loaded_facts:
  assumes "load_runtime it nodes = Inr i"
  shows "it_load_private it (bytes_at nodes ''secrets/ed25519-private.pem'') = Inr (Some (id_private i)) \<and>
    it_raw it (it_public it (id_private i)) = it_raw it (id_public i) \<and>
    id_key_id i \<noteq> [] \<and> 32 \<le> py_len (id_worker_api_key i) \<and>
    (\<forall>p \<in> set (private_paths i). \<exists>x. nodes p = Some x \<and> node_mode x mod 64 = 0) \<and>
    load_worker_runtime it nodes = Inr (id_key_id i, id_public i)"
  using assms
  by (auto simp: load_runtime_def load_worker_runtime_def validate_runtime_def bindE_Inr insecure_none Let_def
      demand_files_def read_ascii_def bindE_def checkE_def split: option.splits if_splits sum.splits)

section \<open>What creation never does\<close>

definition same_files :: "disk \<Rightarrow> disk \<Rightarrow> bool" where
  "same_files s t \<longleftrightarrow> (\<forall>p. node_bytes (dk_nodes t) p = node_bytes (dk_nodes s) p)"

interpretation same_files: effect same_files
  by unfold_locales (auto simp: same_files_def)

lemma same_disk_op:
  "(case x of Rt_dir _ _ \<Rightarrow> None | Rt_file _ _ b \<Rightarrow> Some b) = node_bytes (dk_nodes s) p \<Longrightarrow>
   (\<And>n. (case half n of Some (Rt_file _ _ b) \<Rightarrow> Some b | _ \<Rightarrow> None) = node_bytes (dk_nodes s) p) \<Longrightarrow>
   same_files s (snd (disk_op p x half s))"
  by (auto simp: disk_op_def same_files_def Let_def node_bytes_def split: io_fault.split rt_node.splits)

lemma same_operations: "obeys same_files (make_dir p)" "obeys same_files (change_mode p m)" "obeys same_files (sync_group p q)"
  by (auto simp: obeys_def make_dir_def change_mode_def sync_group_def intro!: same_disk_op
      split: option.split rt_node.split) (auto simp: node_bytes_def same_files_def split: rt_node.splits option.splits)

lemma same_directories: "obeys same_files make_directories"
  unfolding make_directories_def
  by (intro same_files.eff_bind same_files.eff_for) (auto intro!: same_files.eff_bind same_operations)

lemma same_present: "same_files s t \<Longrightarrow> node_bytes (dk_nodes s) p = Some b \<Longrightarrow> dk_nodes t p \<noteq> None"
  by (auto simp: same_files_def node_bytes_def split: option.splits)

text \<open>
  C39. An identity is never replaced: where any of its files exists, creation fails, however the disk
  behaves, and leaves the content of every file as it was.
\<close>

theorem identity_never_replaced:
  assumes "p \<in> set (map snd identity_paths)" and "node_bytes (dk_nodes s) p = Some b"
  shows "\<exists>e t. init_runtime it state_root s = (Inl e, t) \<and> node_bytes (dk_nodes t) = node_bytes (dk_nodes s)"
proof -
  obtain r u where u: "make_directories s = (r, u)" by (rule prod.exhaust)
  have same: "same_files s u" using same_directories u by (rule obeysD)
  then have "list_ex (\<lambda>(_, p). dk_nodes u p \<noteq> None) identity_paths"
    using assms same_present [OF same] by (force simp: list_ex_iff)
  then show ?thesis
    using same u by (cases r) (auto simp: init_runtime_def bindP_def checkP_def same_files_def)
qed

section \<open>Creating, then loading\<close>

text \<open>What the documentation of the libraries promises of keys, digests and tokens.\<close>

definition lawful :: "('k, 'p) identity_tools \<Rightarrow> bool" where
  "lawful it \<longleftrightarrow> (\<forall>k. it_load_private it (it_private_pem it k) = Inr (Some k)) \<and>
     (\<forall>p. it_load_public it (it_public_pem it p) = Inr (Some p)) \<and>
     (\<forall>x. list_all is_hex (it_sha256 it x)) \<and>
     (\<forall>n. 32 \<le> length (it_token it n) \<and> list_all (\<lambda>c. is_alnum c \<or> c = CHR ''_'' \<or> c = CHR ''-'') (it_token it n)) \<and>
     (\<forall>x. list_all (\<lambda>c. byte c < 128) x \<longrightarrow> it_utf8 it x)"

text \<open>A disk without faults on which the tree is \<open>nodes\<close>, and what the operations make of it.\<close>

definition shows_tree :: "(string \<Rightarrow> rt_node option) \<Rightarrow> nat \<Rightarrow> disk \<Rightarrow> bool" where
  "shows_tree nodes n s \<longleftrightarrow> dk_nodes s = nodes \<and> dk_faults s = (\<lambda>_. IO_ok) \<and> dk_generated s = n"

definition works_to :: "(string \<Rightarrow> rt_node option) \<Rightarrow> (disk, 'a) prog \<Rightarrow> ((string \<Rightarrow> rt_node option) \<Rightarrow> bool) \<Rightarrow> bool" where
  "works_to nodes m Q \<longleftrightarrow> (\<forall>n s. shows_tree nodes n s \<longrightarrow> (\<exists>x t nodes'. m s = (Inr x, t) \<and> shows_tree nodes' n t \<and> Q nodes'))"

lemma works_bind:
  assumes "works_to nodes m R" and "\<And>x nodes'. R nodes' \<Longrightarrow> works_to nodes' (f x) Q"
  shows "works_to nodes (bindP m f) Q"
  unfolding works_to_def
proof (intro allI impI)
  fix n s assume s: "shows_tree nodes n s"
  obtain x t nodes' where t: "m s = (Inr x, t)" "shows_tree nodes' n t" "R nodes'"
    using assms(1) s unfolding works_to_def by blast
  then show "\<exists>x t nodes'. bindP m f s = (Inr x, t) \<and> shows_tree nodes' n t \<and> Q nodes'"
    using assms(2) [OF t(3)] unfolding works_to_def by (simp add: bindP_def)
qed

lemma works_return: "Q nodes \<Longrightarrow> works_to nodes (returnP x) Q"
  by (auto simp: works_to_def)

lemma works_write:
  assumes "\<not> is_dir nodes p"
  shows "works_to nodes (write_node p b) (\<lambda>nodes'. \<exists>m g. nodes' = nodes(p \<mapsto> Rt_file m g b))"
  using assms by (auto simp: works_to_def shows_tree_def write_node_def disk_op_def Let_def is_dir_def
      split: option.splits rt_node.splits)

lemma works_mode:
  assumes "nodes p = Some x"
  shows "works_to nodes (change_mode p m) (\<lambda>nodes'. nodes' = nodes(p \<mapsto> with_mode m x))"
  using assms by (simp add: works_to_def shows_tree_def change_mode_def disk_op_def Let_def)

lemma works_group:
  assumes "nodes p = Some x" and "nodes q = Some y"
  shows "works_to nodes (sync_group p q) (\<lambda>nodes'. nodes' = nodes(p \<mapsto> with_group (node_group y) x))"
  using assms by (simp add: works_to_def shows_tree_def sync_group_def disk_op_def Let_def)

lemma works_dir:
  assumes "node_bytes nodes p = None"
  shows "works_to nodes (make_dir p) (\<lambda>nodes'. \<exists>m g. nodes' = nodes(p \<mapsto> Rt_dir m g))"
proof (cases "nodes p")
  case None
  then show ?thesis by (auto simp: works_to_def shows_tree_def make_dir_def disk_op_def Let_def)
next
  case (Some x)
  then obtain m g where x: "nodes p = Some (Rt_dir m g)" using assms by (cases x) (auto simp: node_bytes_def)
  then have "nodes = nodes(p \<mapsto> Rt_dir m g)" by (simp add: fun_upd_idem)
  then show ?thesis using x unfolding works_to_def shows_tree_def make_dir_def by fastforce
qed

lemma works_weaken: "works_to nodes m Q \<Longrightarrow> (\<And>nodes'. Q nodes' \<Longrightarrow> Q' nodes') \<Longrightarrow> works_to nodes m Q'"
  unfolding works_to_def by blast

text \<open>
  A tree on the way: the directories \<open>ds\<close> are there, the files \<open>fs\<close> are there with their content, those in
  \<open>ps\<close> are for the owner only, no directory's name belongs to a file, and no other file of the identity exists.
\<close>

definition all_directories :: "string list" where
  "all_directories = [''.'', ''secrets'', ''tls''] @ map fst runtime_directories"

definition identity_files :: "string list" where
  "identity_files = map snd identity_paths"

definition stage :: "string list \<Rightarrow> (string, string) dict \<Rightarrow> string list \<Rightarrow> (string \<Rightarrow> rt_node option) \<Rightarrow> bool" where
  "stage ds fs ps nodes \<longleftrightarrow> (\<forall>d \<in> set ds. is_dir nodes d) \<and>
     (\<forall>p b. map_of fs p = Some b \<longrightarrow> node_bytes nodes p = Some b) \<and>
     (\<forall>p \<in> set ps. \<exists>x. nodes p = Some x \<and> node_mode x mod 64 = 0) \<and>
     (\<forall>d \<in> set all_directories. node_bytes nodes d = None) \<and> (\<forall>p \<in> set identity_files. map_of fs p = None \<longrightarrow> nodes p = None)"

lemma paths_apart: "p \<in> set identity_files \<Longrightarrow> p \<notin> set all_directories"
  by (auto simp: identity_files_def identity_paths_def all_directories_def runtime_directories_def tls_certificate_path_def)

text \<open>The three views of a node after an update.\<close>

fun bytes_of :: "rt_node \<Rightarrow> string option" where
  "bytes_of (Rt_file m g b) = Some b"
| "bytes_of (Rt_dir m g) = None"

lemma node_update:
  "node_bytes (nodes(d \<mapsto> x)) e = (if e = d then bytes_of x else node_bytes nodes e)"
  "is_dir (nodes(d \<mapsto> x)) e \<longleftrightarrow> (if e = d then bytes_of x = None else is_dir nodes e)"
  by (cases x; simp add: node_bytes_def is_dir_def)+

lemma node_seen:
  "nodes d = Some x \<Longrightarrow> node_bytes nodes d = bytes_of x" "nodes d = Some x \<Longrightarrow> is_dir nodes d \<longleftrightarrow> bytes_of x = None"
  by (cases x; simp add: node_bytes_def is_dir_def)+

lemma kept_bytes [simp]: "bytes_of (with_mode m x) = bytes_of x" "bytes_of (with_group g x) = bytes_of x"
  "node_mode (with_mode m x) = m" "node_mode (with_group g x) = node_mode x"
  by (cases x; simp)+

lemma stage_dir:
  assumes "stage ds [] [] nodes" and "d \<in> set all_directories"
  shows "works_to nodes (make_dir d) (stage (d # ds) [] [])"
proof (rule works_weaken [OF works_dir])
  show "node_bytes nodes d = None" using assms by (simp add: stage_def)
  fix nodes'
  assume "\<exists>m g. nodes' = nodes(d \<mapsto> Rt_dir m g)"
  then obtain m g where n: "nodes' = nodes(d \<mapsto> Rt_dir m g)" by blast
  have "e \<noteq> d" if "e \<in> set identity_files" for e using paths_apart [OF that] assms(2) by blast
  then show "stage (d # ds) [] [] nodes'" using assms(1) by (simp add: stage_def n node_update)
qed

lemma stage_update:
  assumes "stage ds fs ps nodes" and "nodes d = Some x" and "bytes_of y = bytes_of x"
    and "node_mode y = node_mode x \<or> node_mode y mod 64 = 0 \<or> d \<notin> set ps"
  shows "stage ds fs ps (nodes(d \<mapsto> y))"
proof -
  have "node_bytes (nodes(d \<mapsto> y)) = node_bytes nodes" "is_dir (nodes(d \<mapsto> y)) = is_dir nodes"
    using node_seen [of nodes d x, OF assms(2)] assms(3) by (simp_all add: fun_eq_iff node_update)
  moreover have "\<exists>x. (nodes(d \<mapsto> y)) p = Some x \<and> node_mode x mod 64 = 0" if "p \<in> set ps" for p
    using assms that by (cases "p = d") (auto simp: stage_def)
  moreover have "(nodes(d \<mapsto> y)) p = None" if "nodes p = None" for p
    using assms(2) that by auto
  ultimately show ?thesis using assms(1) unfolding stage_def by simp
qed

lemma stage_mode:
  assumes "stage ds fs ps nodes" and "nodes d = Some x" and "m mod 64 = 0 \<or> d \<notin> set ps"
  shows "works_to nodes (change_mode d m) (stage ds fs (if m mod 64 = 0 then d # ps else ps))"
proof (rule works_weaken [OF works_mode [where nodes = nodes and p = d, OF assms(2)]])
  fix nodes'
  assume n: "nodes' = nodes(d \<mapsto> with_mode m x)"
  have "stage ds fs ps nodes'" unfolding n by (rule stage_update [OF assms(1,2)]) (use assms(3) in auto)
  then show "stage ds fs (if m mod 64 = 0 then d # ps else ps) nodes'" by (auto simp: stage_def n)
qed

lemma stage_group:
  assumes "stage ds fs ps nodes" and "nodes d = Some x" and "nodes e = Some y"
  shows "works_to nodes (sync_group d e) (stage ds fs ps)"
  by (rule works_weaken [OF works_group [where nodes = nodes and p = d and q = e, OF assms(2,3)]])
     (use stage_update [OF assms(1,2), of "with_group (node_group y) x"] in simp)

lemma stage_write:
  assumes "stage ds fs [] nodes" and "p \<in> set identity_files" and "map_of fs p = None"
    and "set ds \<subseteq> set all_directories"
  shows "works_to nodes (write_node p b) (stage ds ((p, b) # fs) [])"
proof (rule works_weaken [OF works_write])
  show "\<not> is_dir nodes p" using assms(1-3) by (simp add: stage_def is_dir_def)
  fix nodes'
  assume "\<exists>m g. nodes' = nodes(p \<mapsto> Rt_file m g b)"
  then obtain m g where n: "nodes' = nodes(p \<mapsto> Rt_file m g b)" by blast
  have "d \<noteq> p" if "d \<in> set all_directories" for d using paths_apart [OF assms(2)] that by blast
  then show "stage ds ((p, b) # fs) [] nodes'"
    using assms(1,4) by (auto simp: stage_def n node_update subset_eq)
qed

lemma stage_present:
  "stage ds fs ps nodes \<Longrightarrow> d \<in> set ds \<Longrightarrow> \<exists>x. nodes d = Some x"
  "stage ds fs ps nodes \<Longrightarrow> map_of fs p = Some b \<Longrightarrow> \<exists>x. nodes p = Some x"
  by (fastforce simp: stage_def is_dir_def node_bytes_def split: option.splits)+

lemma stage_fewer: "stage ds fs ps nodes \<Longrightarrow> set ps' \<subseteq> set ps \<Longrightarrow> stage ds fs ps' nodes"
  by (auto simp: stage_def)

lemma stage_change:
  assumes "stage ds [] [] nodes" and "d \<in> set ds"
  shows "works_to nodes (change_mode d m) (stage ds [] [])"
proof -
  obtain x where "nodes d = Some x" using stage_present(1) [OF assms] by blast
  from stage_mode [OF assms(1) this, of m] show ?thesis by (rule works_weaken) (auto elim: stage_fewer)
qed

lemma stage_loop:
  "stage ds [] [] nodes \<Longrightarrow> set (map fst es) \<subseteq> set all_directories \<Longrightarrow>
   works_to nodes (forP es (\<lambda>(p, m). bindP (make_dir p) (\<lambda>_. change_mode p m))) (stage (rev (map fst es) @ ds) [] [])"
proof (induction es arbitrary: ds nodes)
  case (Cons e es)
  obtain d m where e: "e = (d, m)" by (rule prod.exhaust)
  have "works_to nodes (bindP (make_dir d) (\<lambda>_. change_mode d m)) (stage (d # ds) [] [])"
    by (rule works_bind [OF stage_dir]) (use Cons.prems e in \<open>auto intro: stage_change\<close>)
  then show ?case
    unfolding forP.simps e by (simp, elim works_bind) (use Cons e in \<open>auto intro!: works_bind [OF Cons.IH] works_return\<close>)
qed (simp add: works_return)

lemma stage_sync:
  assumes "stage ds fs ps nodes" and "d \<in> set ds \<or> map_of fs d = Some b" and "e \<in> set ds"
  shows "works_to nodes (sync_group d e) (stage ds fs ps)"
proof -
  obtain y where y: "nodes e = Some y" using stage_present(1) [OF assms(1,3)] by blast
  obtain x where "nodes d = Some x"
    using assms(2) stage_present(1) [OF assms(1), of d] stage_present(2) [OF assms(1), of d b] by blast
  from stage_group [OF assms(1) this y] show ?thesis .
qed

definition made_directories :: "string list" where
  "made_directories = ''tls'' # ''secrets'' # rev (map fst runtime_directories) @ [''.'']"

lemma directories_made:
  assumes "stage [] [] [] nodes"
  shows "works_to nodes make_directories (stage made_directories [] [])"
  unfolding make_directories_def made_directories_def
  by (rule works_bind [OF stage_dir [OF assms]], force simp: all_directories_def,
      rule works_bind [OF stage_change], assumption, simp,
      rule works_bind [OF stage_loop], assumption, force simp: all_directories_def,
      rule works_bind [OF stage_dir], assumption, force simp: all_directories_def,
      rule works_bind [OF stage_change], assumption, simp,
      rule works_bind [OF stage_dir], assumption, force simp: all_directories_def,
      rule works_bind [OF stage_change], assumption, simp,
      rule stage_sync, assumption, simp, simp)

lemma bind_return: "bindP (returnP x) f = f x"
  by (simp add: fun_eq_iff bindP_def)

lemma stage_private:
  assumes "stage ds fs ps nodes" and "map_of fs p = Some b"
  shows "works_to nodes (change_mode p 384) (stage ds fs (p # ps))"
proof -
  obtain x where "nodes p = Some x" using stage_present(2) [OF assms] by blast
  from stage_mode [OF assms(1) this, of 384] show ?thesis by simp
qed

lemma stage_public:
  assumes "stage ds fs ps nodes" and "map_of fs p = Some b" and "p \<notin> set ps"
  shows "works_to nodes (change_mode p 416) (stage ds fs ps)"
proof -
  obtain x where "nodes p = Some x" using stage_present(2) [OF assms(1,2)] by blast
  from stage_mode [OF assms(1) this, of 416] show ?thesis using assms(3) by simp
qed

text \<open>The files of the \<open>n\<close>-th identity, in the order they are written, the last one first.\<close>

definition written :: "('k, 'p) identity_tools \<Rightarrow> nat \<Rightarrow> (string, string) dict" where
  "written it n =
     [(tls_certificate_path, snd (it_certificate it n)), (''secrets/tls-private-key.pem'', fst (it_certificate it n)),
      (''secrets/ed25519-public.pem'', it_public_pem it (it_public it (it_key it n))),
      (''secrets/ed25519-private.pem'', it_private_pem it (it_key it n)),
      (''secrets/ed25519-key-id'', key_id_of it (it_public_pem it (it_public it (it_key it n))) @ [CHR 0x0A]),
      (''secrets/worker-api-key'', it_token it n @ [CHR 0x0A])]"

lemma identity_written:
  assumes "stage made_directories [] [] nodes"
  shows "works_to nodes (write_identity it n) (stage made_directories (written it n) [])"
proof -
  note known = identity_files_def identity_paths_def tls_certificate_path_def
  have ds: "set made_directories \<subseteq> set all_directories" by (auto simp: made_directories_def all_directories_def)
  note step = works_bind [OF stage_write [OF _ _ _ ds]]
  show ?thesis
    unfolding write_identity_def Let_def case_prod_unfold written_def
    by (rule step, rule assms, simp add: known, simp,
        rule step, assumption, simp add: known, simp, rule step, assumption, simp add: known, simp,
        rule step, assumption, simp add: known, simp, rule step, assumption, simp add: known, simp,
        rule stage_write [OF _ _ _ ds], assumption, simp add: known, simp add: known)
qed

lemma identity_protected:
  assumes "stage made_directories (written it n) [] nodes"
  shows "works_to nodes protect_identity
    (stage made_directories (written it n) [''secrets/tls-private-key.pem'', ''secrets/ed25519-public.pem'',
       ''secrets/ed25519-private.pem'', ''secrets/ed25519-key-id'', ''secrets/worker-api-key''])"
proof -
  note known = identity_paths_def tls_certificate_path_def written_def made_directories_def
  have "works_to nodes (forP identity_paths (\<lambda>(name, p). change_mode p (if name = ''tls_certificate'' then 416 else 384)))
      (stage made_directories (written it n) [''secrets/tls-private-key.pem'', ''secrets/ed25519-public.pem'',
         ''secrets/ed25519-private.pem'', ''secrets/ed25519-key-id'', ''secrets/worker-api-key''])"
    unfolding identity_paths_def forP.simps bindP_assoc
    by (simp, rule works_bind [OF stage_private [OF assms]], simp add: known,
        rule works_bind [OF stage_private], assumption, simp add: known,
        rule works_bind [OF stage_private], assumption, simp add: known,
        rule works_bind [OF stage_private], assumption, simp add: known,
        rule works_bind [OF stage_public], assumption, simp add: known, simp add: known,
        rule works_bind [OF stage_private], assumption, simp add: known, simp only: bind_return, rule works_return, assumption)
  then show ?thesis
    unfolding protect_identity_def
    by (rule works_bind) (rule stage_sync [where b = "snd (it_certificate it n)"]; simp add: known)
qed

lemma word_char:
  "is_alnum c \<or> c = CHR ''_'' \<or> c = CHR ''-'' \<Longrightarrow> byte c < 128 \<and> \<not> is_space c"
  by (auto simp: is_alnum_def is_lower_def is_upper_def is_digit_def is_space_def less_eq_char_def byte_def)

lemma stripped_line:
  assumes "list_all (\<lambda>c. is_alnum c \<or> c = CHR ''_'' \<or> c = CHR ''-'') s"
  shows "py_strip (s @ [CHR 0x0A]) = s" "list_all (\<lambda>c. byte c < 128) (s @ [CHR 0x0A])" "py_len s = length s"
proof -
  have c: "byte c < 128 \<and> \<not> is_space c" if "c \<in> set s" for c
    using assms that word_char by (auto simp: list_all_iff)
  have kept: "dropWhile is_space (rev s) = rev s"
    using c by (cases "rev s") (auto simp: dropWhile_eq_self_iff dest: arg_cong [where f = set])
  have line: "is_space (CHR 0x0A)" by (simp add: is_space_def)
  show "py_strip (s @ [CHR 0x0A]) = s"
  proof (cases s)
    case (Cons a t)
    then have "\<not> is_space a" using c by simp
    then have "dropWhile is_space (s @ [CHR 0x0A]) = s @ [CHR 0x0A]" using Cons by simp
    then show ?thesis using kept line by (simp add: py_strip_def)
  qed (simp add: py_strip_def line)
  show "list_all (\<lambda>c. byte c < 128) (s @ [CHR 0x0A])" using c by (auto simp: list_all_iff byte_def)
  have "of_char x div 64 \<noteq> (2 :: nat)" if "x \<in> set s" for x using c [OF that] by (auto simp: byte_def)
  then have "filter (\<lambda>c. \<not> of_char c div 64 = (2 :: nat)) s = s" by (intro filter_True) blast
  then show "py_len s = length s" by (simp add: py_len_def)
qed

lemma stage_bytes: "stage ds fs ps nodes \<Longrightarrow> map_of fs p = Some b \<Longrightarrow> node_bytes nodes p = Some b"
  by (simp add: stage_def)

definition nth_identity :: "('k, 'p) identity_tools \<Rightarrow> nat \<Rightarrow> ('k, 'p) identity" where
  "nth_identity it n = \<lparr>id_key_id = key_id_of it (it_public_pem it (it_public it (it_key it n))), id_private = it_key it n,
     id_public = it_public it (it_key it n), id_worker_api_key = it_token it n,
     id_tls_certificate = tls_certificate_path, id_tls_private_key = ''secrets/tls-private-key.pem''\<rparr>"

lemma key_id_chars:
  "lawful it \<Longrightarrow> list_all (\<lambda>c. is_alnum c \<or> c = CHR ''_'' \<or> c = CHR ''-'') (key_id_of it x)"
proof -
  assume "lawful it"
  then have "list_all is_hex (it_sha256 it x)" by (simp add: lawful_def)
  then have "\<forall>c \<in> set (take 16 (it_sha256 it x)). is_hex c" by (auto simp: list_all_iff dest: in_set_takeD)
  moreover have "is_alnum c" if "is_hex c" for c
    using that by (auto simp: is_hex_def is_alnum_def is_lower_def is_digit_def less_eq_char_def)
  moreover have "list_all (\<lambda>c. is_alnum c \<or> c = CHR ''_'' \<or> c = CHR ''-'') ''ed25519-''" by code_simp
  ultimately show ?thesis by (auto simp: key_id_of_def list_all_iff)
qed

lemma load_staged:
  assumes laws: "lawful it" and st: "stage made_directories (written it n) ps nodes" and ps: "set (private_paths (nth_identity it n)) \<subseteq> set ps"
  shows "load_runtime it nodes = Inr (nth_identity it n)"
proof -
  note known = written_def tls_certificate_path_def
  note bytes = stage_bytes [OF st]
  have files: "node_bytes nodes ''secrets/ed25519-private.pem'' = Some (it_private_pem it (it_key it n))"
    "node_bytes nodes ''secrets/ed25519-public.pem'' = Some (it_public_pem it (it_public it (it_key it n)))"
    "node_bytes nodes ''secrets/ed25519-key-id'' = Some (id_key_id (nth_identity it n) @ [CHR 0x0A])"
    "node_bytes nodes ''secrets/worker-api-key'' = Some (it_token it n @ [CHR 0x0A])"
    "node_bytes nodes tls_certificate_path \<noteq> None" "node_bytes nodes ''secrets/tls-private-key.pem'' \<noteq> None"
    using bytes by (simp_all add: known nth_identity_def)
  have key_id: "list_all (\<lambda>c. is_alnum c \<or> c = CHR ''_'' \<or> c = CHR ''-'') (id_key_id (nth_identity it n))"
    using key_id_chars [OF laws] by (simp add: nth_identity_def)
  have token: "list_all (\<lambda>c. is_alnum c \<or> c = CHR ''_'' \<or> c = CHR ''-'') (it_token it n)" "32 \<le> length (it_token it n)"
    using laws by (simp_all add: lawful_def)
  have dirs: "filter (\<lambda>p. \<not> is_dir nodes p) required_directories = []"
    using st by (auto simp: stage_def made_directories_def required_directories_def runtime_directories_def filter_empty_conv)
  have owner_only: "insecure_paths nodes (private_paths (nth_identity it n)) = Inr []"
    using st ps by (auto simp: insecure_none stage_def subset_eq)
  have "it_utf8 it (it_token it n @ [CHR 0x0A])" using laws stripped_line(2) [OF token(1)] by (simp add: lawful_def)
  moreover have "id_key_id (nth_identity it n) \<noteq> []" by (simp add: nth_identity_def key_id_of_def)
  ultimately have "validate_runtime nodes (nth_identity it n) = Inr ()"
    using dirs owner_only token(2) stripped_line(3) [OF token(1)]
    by (simp add: validate_runtime_def bindE_def checkE_def nth_identity_def)
  then show ?thesis
    using laws files stripped_line [OF key_id] stripped_line [OF token(1)]
    by (simp add: load_runtime_def demand_files_def bytes_at_def read_ascii_def bindE_def checkE_def Let_def lawful_def
        nth_identity_def)
qed

lemma created_stage:
  assumes "\<And>n. dk_faults s n = IO_ok" and "\<And>p. p \<in> set identity_files \<Longrightarrow> dk_nodes s p = None"
    and "\<And>d. d \<in> set all_directories \<Longrightarrow> node_bytes (dk_nodes s) d = None"
  shows "\<exists>paths t ps. init_runtime it state_root s = (Inr paths, t) \<and> set (private_paths (nth_identity it (dk_generated s))) \<subseteq> set ps \<and>
    stage made_directories (written it (dk_generated s)) ps (dk_nodes t)"
proof -
  let ?n = "dk_generated s"
  have s: "shows_tree (dk_nodes s) ?n s" using assms(1) by (simp add: shows_tree_def fun_eq_iff)
  have "stage [] [] [] (dk_nodes s)" using assms(2,3) by (simp add: stage_def)
  from directories_made [OF this] s obtain x t nodes where
    t: "make_directories s = (Inr x, t)" "shows_tree nodes ?n t" "stage made_directories [] [] nodes"
    unfolding works_to_def by blast
  have none: "\<not> list_ex (\<lambda>(_, p). dk_nodes t p \<noteq> None) identity_paths"
    using t(2,3) by (auto simp: stage_def shows_tree_def identity_files_def list_ex_iff)
  have t': "shows_tree nodes (Suc ?n) (t\<lparr>dk_generated := Suc ?n\<rparr>)" "dk_generated t = ?n"
    using t(2) by (simp_all add: shows_tree_def)
  from identity_written [OF t(3)] t'(1) obtain y u nodes' where
    u: "write_identity it ?n (t\<lparr>dk_generated := Suc ?n\<rparr>) = (Inr y, u)" "shows_tree nodes' (Suc ?n) u"
      "stage made_directories (written it ?n) [] nodes'"
    unfolding works_to_def by blast
  from identity_protected [OF u(3)] u(2) obtain z v where v: "protect_identity u = (Inr z, v)"
    "stage made_directories (written it ?n) [''secrets/tls-private-key.pem'', ''secrets/ed25519-public.pem'',
       ''secrets/ed25519-private.pem'', ''secrets/ed25519-key-id'', ''secrets/worker-api-key''] (dk_nodes v)"
    unfolding works_to_def shows_tree_def by blast
  have "init_runtime it state_root s = (Inr (map (\<lambda>(name, p). (name, path_join state_root p)) identity_paths), v)"
    using t(1) none t'(2) u(1) v(1) by (simp add: init_runtime_def bindP_def readP_def updateP_def checkP_def returnP_def)
  then show ?thesis using v(2) by (intro exI conjI) (auto simp: private_paths_def nth_identity_def)
qed

text \<open>
  C38. What was created can be loaded: on a working disk without an identity, creation succeeds, and then
  the master loads the generated key pair with the API key that was drawn, and the worker the same public
  key under the same identifier, which is made of the digest of that key.
\<close>

theorem created_runtime_loads:
  assumes "lawful it" and "\<And>n. dk_faults s n = IO_ok"
    and "\<And>p. p \<in> set identity_files \<Longrightarrow> dk_nodes s p = None"
    and "\<And>d. d \<in> set all_directories \<Longrightarrow> node_bytes (dk_nodes s) d = None"
  shows "\<exists>paths t i. init_runtime it state_root s = (Inr paths, t) \<and> load_runtime it (dk_nodes t) = Inr i \<and>
    id_private i = it_key it (dk_generated s) \<and> id_public i = it_public it (id_private i) \<and>
    id_worker_api_key i = it_token it (dk_generated s) \<and> id_key_id i = key_id_of it (it_public_pem it (id_public i)) \<and>
    load_worker_runtime it (dk_nodes t) = Inr (id_key_id i, id_public i) \<and>
    load_tls_certificate (dk_nodes t) = Inr tls_certificate_path"
proof -
  obtain paths t ps where t: "init_runtime it state_root s = (Inr paths, t)" "set (private_paths (nth_identity it (dk_generated s))) \<subseteq> set ps"
    "stage made_directories (written it (dk_generated s)) ps (dk_nodes t)"
    using created_stage [OF assms(2-4)] by blast
  have i: "load_runtime it (dk_nodes t) = Inr (nth_identity it (dk_generated s))"
    by (rule load_staged [OF assms(1) t(3,2)])
  have "load_tls_certificate (dk_nodes t) = Inr tls_certificate_path"
    using stage_bytes [OF t(3), of tls_certificate_path] by (simp add: load_tls_certificate_def bindE_def checkE_def written_def)
  then show ?thesis using t(1) i loaded_facts [OF i] by (auto simp: nth_identity_def)
qed

end
