(* ===== verification/Runtime_Samples.thy ===== *)
theory Runtime_Samples
  imports Runtime_Files
begin

text \<open>A deployment with numbers for keys, for the witnesses.\<close>

definition toy_tools :: "(nat, nat) identity_tools" where
  "toy_tools = \<lparr>it_key = id, it_token = (\<lambda>_. replicate 43 CHR ''t''), it_certificate = (\<lambda>_. (''key'', ''certificate'')),
     it_public = Suc, it_private_pem = (\<lambda>k. replicate k CHR ''k''), it_public_pem = (\<lambda>p. replicate p CHR ''p''),
     it_load_private = (\<lambda>b. Inr (Some (size b))), it_load_public = (\<lambda>b. Inr (Some (size b))),
     it_raw = (\<lambda>p. replicate p CHR ''r''), it_sha256 = (\<lambda>_. replicate 64 CHR ''0''), it_utf8 = (\<lambda>_. True)\<rparr>"

lemma toy_lawful: "lawful toy_tools"
  by (simp add: lawful_def toy_tools_def list_all_iff is_hex_def is_digit_def is_alnum_def is_lower_def)

definition fresh_disk :: disk where
  "fresh_disk = \<lparr>dk_nodes = (\<lambda>_. None), dk_dir_mode = 493, dk_file_mode = 420, dk_group = 7, dk_faults = (\<lambda>_. IO_ok),
     dk_cut = (\<lambda>_. 0), dk_fault_no = 0, dk_generated = 3\<rparr>"

definition toy_tree :: "(string \<times> rt_node) list" where
  "toy_tree = map (\<lambda>d. (d, Rt_dir 448 7)) required_directories @
     map (\<lambda>(p, b). (p, Rt_file 384 7 b)) (written toy_tools 3)"

theorem created_runtime_loads_witness:
  "\<exists>paths t i. init_runtime toy_tools ''state'' fresh_disk = (Inr paths, t) \<and>
     load_runtime toy_tools (dk_nodes t) = Inr i \<and> id_private i = 3 \<and> id_public i = 4 \<and>
     load_worker_runtime toy_tools (dk_nodes t) = Inr (id_key_id i, 4)"
proof -
  have fresh: "dk_faults fresh_disk n = IO_ok" "dk_nodes fresh_disk p = None" "node_bytes (dk_nodes fresh_disk) d = None"
    for n p d by (simp_all add: fresh_disk_def node_bytes_def)
  have keys: "it_key toy_tools (dk_generated fresh_disk) = 3" "it_public toy_tools 3 = 4"
    by (simp_all add: toy_tools_def fresh_disk_def)
  from created_runtime_loads [OF toy_lawful fresh, where state_root = "''state''"] keys show ?thesis by auto
qed

text \<open>The tree of the third identity can be loaded.\<close>

lemma toy_identity_loads:
  "id_private (nth_identity toy_tools 3) = 3 \<and> 32 \<le> py_len (id_worker_api_key (nth_identity toy_tools 3)) \<and>
   load_worker_runtime toy_tools (map_of toy_tree) = Inr (''ed25519-0000000000000000'', 4)"
proof -
  have load: "load_runtime toy_tools (map_of toy_tree) = Inr (nth_identity toy_tools 3)" by code_simp
  have names: "id_key_id (nth_identity toy_tools 3) = ''ed25519-0000000000000000''"
    "id_public (nth_identity toy_tools 3) = 4" "id_private (nth_identity toy_tools 3) = 3" by code_simp+
  from loaded_facts [OF load] names show ?thesis by simp
qed

theorem identity_never_replaced_witness:
  "\<exists>e t. init_runtime toy_tools ''state'' (fresh_disk\<lparr>dk_nodes := map_of toy_tree, dk_faults := \<lambda>_. IO_partial\<rparr>) = (Inl e, t) \<and>
     node_bytes (dk_nodes t) = node_bytes (map_of toy_tree)"
proof -
  let ?s = "fresh_disk\<lparr>dk_nodes := map_of toy_tree, dk_faults := \<lambda>_. IO_partial\<rparr>"
  have "node_bytes (map_of toy_tree) ''secrets/worker-api-key'' = Some (replicate 43 CHR ''t'' @ [CHR 0x0A])" by code_simp
  then have held: "node_bytes (dk_nodes ?s) ''secrets/worker-api-key'' = Some (replicate 43 CHR ''t'' @ [CHR 0x0A])" by simp
  have path: "''secrets/worker-api-key'' \<in> set (map snd identity_paths)" by (simp add: identity_paths_def)
  from identity_never_replaced [OF path held, of toy_tools "''state''"] show ?thesis by simp
qed

end
