(* ===== verification/Spec2Isabelle.thy ===== *)
theory Spec2Isabelle
  imports Identifiers Domain_State Signing Compiler Event_Store Scheduler_Outcome
    Json_Roundtrip Worker_Samples Gpu_Sampler Proposal_Samples Scheduler_Recovery
    App_Samples Retention Kit_Samples Claude_Samples Client_Samples Runtime_Samples
begin

text \<open>
  Verification library for the agent GPU task scheduler, a service that turns a conversation about
  a job into a reviewed, signed task and runs it on the devices of a few workers.

  \<^bold>\<open>Program\<close>. A submitter's proposal is clarified, reviewed and compiled
  (\<open>src/agent_scheduler/proposal/service.py\<close>, \<open>domain/compiler.py\<close>) into a signed \<open>Task\<close>
  (\<open>integrity/signing.py\<close>). The scheduler (\<open>scheduler/core.py\<close>) queues it, selects devices, issues
  signed prepare manifests and execution plans to the workers in two barriers, waits for the run
  and releases the resources. Everything is recorded in an append-only store
  (\<open>storage/events.py\<close>). A worker executes plans under epoch fencing (\<open>worker/driver.py\<close>); it
  receives them, and answers, over a connection it opens itself (\<open>worker/client.py\<close>, with
  \<open>worker/protocol.py\<close> on the master's side).

  \<^bold>\<open>How code is modelled\<close>. A Python function without effects is a HOL function. A method is a
  program of type \<open>('s, 'a) prog\<close>: it takes the state and returns an exception or a value, together
  with the state, which an exception does not roll back. The state is a record that grows by
  component: \<open>world\<close> (clock, identifiers, files and disk faults, theory \<open>Event_Store\<close>) is extended
  by \<open>sched\<close> (theory \<open>Scheduler_Core\<close>), which is extended by the driver's own state (\<open>fake_sched\<close>,
  theory \<open>Fake_Driver\<close>), by \<open>service\<close> (\<open>Proposal_Service\<close>), by \<open>docker_world\<close> and \<open>worker\<close>
  (\<open>Docker_Cli\<close>, \<open>Worker_Driver\<close>), by \<open>client\<close> and \<open>hub\<close> (\<open>Worker_Client\<close>, \<open>Worker_Hub\<close>) and by
  \<open>sampler\<close> (\<open>Gpu_Sampler\<close>). The whole master is the record \<open>app\<close> (\<open>Http_App\<close>): it extends \<open>hub\<close> and
  holds the fields of the service beside it; \<open>on_service\<close> runs a call of the service on the common
  store. The clock, the random bits of identifiers and the outcome of every file
  operation are streams in the state, so every theorem holds for all clocks, all random bits and
  all disk faults. Python dictionaries are association lists in insertion order, strings are lists
  of bytes, integers are unbounded as in Python.

  \<^bold>\<open>Theories\<close>, each on top of the former ones:
  \<^item> \<open>Prelude\<close>: exceptions, JSON, programs, Hoare triples and the locale \<open>effect\<close>, which proves once
    that a reflexive and transitive relation between the states before and after is respected by
    every way of composing programs.
  \<^item> \<open>Domain_Models\<close> (\<open>domain/models.py\<close>): enumerations as datatypes, models as records, field
    patterns and validators as predicates.
  \<^item> \<open>Identifiers\<close> (\<open>new_id\<close>): the layout of the time-ordered identifiers, their pattern, their order.
  \<^item> \<open>Domain_State\<close> (\<open>domain/state.py\<close>): the two transition tables and what every path through them
    satisfies.
  \<^item> \<open>Signing\<close> (\<open>integrity/signing.py\<close>): signing and verifying over abstract SHA-256 and Ed25519 (the
    record \<open>crypto\<close>, whose documented laws are \<open>crypto_ok\<close>), with base64 written out.
  \<^item> \<open>Compiler\<close> (\<open>domain/compiler.py\<close>): \<open>compile_task\<close>, when it succeeds and what it guarantees.
  \<^item> \<open>Event_Store\<close> (\<open>storage/events.py\<close>): immutable files, snapshots and event streams over a disk
    that may fail at any operation; locales \<open>clock_effect\<close> and \<open>world_effect\<close> carry the effects of
    its operations to its clients.
  \<^item> \<open>Scheduler_Core\<close> (\<open>scheduler/core.py\<close>): all definitions of the scheduler; the worker driver, an
    interface of the source, is a record of programs passed as an argument.
  \<^item> \<open>Fake_Driver\<close> (\<open>FakeWorkerDriver\<close> of \<open>worker/driver.py\<close>): the in-memory driver, and the
    concrete states the witnesses run on.
  \<^item> \<open>Scheduler_Safety\<close>: the invariant of a dispatch in progress, kept by every step of it.
  \<^item> \<open>Scheduler_Selection\<close>: device selection and queue order.
  \<^item> \<open>Scheduler_System\<close>: the reachable states of the scheduler, exclusion of leases, fencing epochs.
  \<^item> \<open>Scheduler_Outcome\<close>: how a dispatch ends and which leases it leaves behind.

  \<^item> \<open>Scheduler_Recovery\<close>: the start of the scheduler on the store of an earlier run, the epochs it
    keeps and what it does to tasks that were under way.
  \<^item> \<open>Store_Runs\<close>: rules that evaluate a program on a store without faults, for the witnesses.
  \<^item> \<open>Stored_Models\<close> (\<open>strict_from_json_value\<close>): reading models back from the store.
  \<^item> \<open>Json_Text\<close>, \<open>Json_Roundtrip\<close>: \<open>json.loads\<close> and \<open>json.dumps\<close> of the standard library over bytes, and
    that reading undoes writing.
  \<^item> \<open>Proposal_Service\<close> (\<open>proposal/service.py\<close>): the proposal workflow, its idempotency and its start.
  \<^item> \<open>Proposal_Rules\<close>: the abstract workflow of a proposal, a step relation on its record, and the
    proof that every call of the service moves along it; the limits, the approval a task needs and
    the finality of a task follow from the relation alone.
  \<^item> \<open>Fake_Harness\<close>, \<open>Proposal_Samples\<close> (\<open>FakeHarnessAdapter\<close> of \<open>adapters/harness.py\<close>): the deterministic
    adapter, and a whole conversation with it for the witnesses.
  \<^item> \<open>Claude_Adapter\<close>, \<open>Claude_Samples\<close> (\<open>ClaudeCodeAdapter\<close> of the same file): the adapter that runs the
    external agent. What each process does is a stream in the state. It keeps the contract of a
    harness, ends after its attempts and answers only what it has put on record.
  \<^item> \<open>Docker_Cli\<close> (\<open>worker/docker.py\<close>): the Docker command line over an arbitrary daemon.
  \<^item> \<open>Worker_Driver\<close>, \<open>Worker_Fencing\<close>, \<open>Worker_Samples\<close> (\<open>DockerWorkerDriver\<close> of \<open>worker/driver.py\<close>):
    execution on the worker, the fencing it enforces, and the states of the witnesses.
  \<^item> \<open>Gpu_Sampler\<close> (\<open>worker/gpu.py\<close>): parsing the device table and the drift counter, against a
    reference that looks at the history of readings only.
  \<^item> \<open>Worker_Client\<close> (\<open>WorkerClient\<close> of \<open>worker/client.py\<close>), \<open>Worker_Hub\<close> (\<open>WorkerHub\<close> and
    \<open>RemoteWorkerDriver\<close> of \<open>worker/protocol.py\<close>): the two ends of the link. What the connection
    does is chosen by the environment: which sends succeed, what arrives and when the link goes
    down. The threads of a session are activities, each done as a whole, in an order the environment
    chooses; a timeout selects the traffic that is served before it. The JSON text of models inside
    an envelope (\<open>codec\<close>) and the resolution of symbolic links are parameters.
  \<^item> \<open>Worker_Commands\<close>: commands are accepted in order and at most once, through restarts, and what
    a command may start.
  \<^item> \<open>Worker_Link\<close>, \<open>Link_Samples\<close>: the remote driver meets the interface of the scheduler, a request
    over a working connection is answered, and what one lost message does to the link.

  \<^item> \<open>Retention\<close> (\<open>storage/retention.py\<close>): the pass that removes old framework logs.
  \<^item> \<open>Configuration\<close> (\<open>config.py\<close>): the configuration readers of master and worker.
  \<^item> \<open>Runtime_Files\<close>, \<open>Runtime_Samples\<close> (\<open>runtime.py\<close>): the keys and files of a deployment on a directory tree
    with permissions; what was created once is never replaced and is what the loaders read.
  \<^item> \<open>Http_App\<close> (\<open>api/app.py\<close>): the composition of service, scheduler and hub, every route, the worker
    socket, the background loop and the start.
  \<^item> \<open>Proposal_Frame\<close>, \<open>App_System\<close>, \<open>App_Drain\<close>, \<open>App_Queries\<close>, \<open>App_Samples\<close>: runs of the master, any
    sequence of requests, rounds of the loop and messages of workers; the locale \<open>part\<close> carries the
    theorems about the service over to the common state and \<open>app_effect\<close> a relation through every
    route. What is scheduled was approved, a draining master admits nothing, and what single routes
    answer.
  \<^item> \<open>Kit_Verifier\<close>, \<open>Kit_Samples\<close> (\<open>agent_scheduler_client/kit_verifier.py\<close>): the verifier of a client
    kit, what an accepted kit is, and that a change of an accepted kit is noticed.
  \<^item> \<open>Client_Tools\<close>, \<open>Rest_Client\<close>, \<open>Mcp_Adapter\<close> (\<open>tools.py\<close>, \<open>rest.py\<close>, \<open>mcp.py\<close> of
    \<open>agent_scheduler_client\<close>): the tools an agent is offered, the requests they send and the loop over
    its messages. The HTTP library is the argument \<open>transport\<close>; the polling loops are total functions,
    because every sleep takes at least a second of the time they may last.
  \<^item> \<open>Client_Routes\<close>, \<open>Client_Logs\<close>, \<open>Client_Samples\<close>: the client joined to the master by the table of
    routes. A tool does to the master what its route does, and a log is read completely.

  \<^bold>\<open>Concurrency\<close>. A route, a round of the loop and a message are each done as a whole. The scheduler runs worker input and output without its lock. The driver argument
  of the scheduler's programs may change the whole state inside its calls; the theorems say which
  interference they allow (\<open>driver_obeys calm d\<close>: anything that leaves leases, holds and epochs as
  they are, which registration, enqueueing and cancellation in other threads do).

  \<^bold>\<open>Not modelled\<close>: the adapters that write the configuration of agents (\<open>adapters/onboarding.py\<close>,
  \<open>adapters/submitter.py\<close>), the command lines, the build of the client kit (\<open>client_kit.py\<close>) and the qualification and provisioning scripts.
\<close>

end
